(* ===== verification/Prelude.thy ===== *)
theory Prelude
  imports Main "HOL-Library.Word"
begin

text \<open>
  Shared vocabulary of the development: results of code that may throw, loops whose
  body may throw, the two's-complement reading of \<open>int64_t\<close> arithmetic, ordered
  association lists for \<open>std::map\<close> and \<open>std::unordered_map\<close>, and sums over the values
  of a finite map. Nothing here is specific to the chain.
\<close>

named_theorems eval_simps \<open>unfolding rules that run the model on concrete inputs\<close>
named_theorems frame \<open>what an operation leaves unchanged\<close>

section \<open>Results: a value or the exception that was thrown\<close>

definition ebind :: "'e + 'a \<Rightarrow> ('a \<Rightarrow> 'e + 'b) \<Rightarrow> 'e + 'b" where
  "ebind m f = (case m of Inl e \<Rightarrow> Inl e | Inr x \<Rightarrow> f x)"

lemma ebind_weak_cong: "m = m' \<Longrightarrow> ebind m f = ebind m' f"
  by (rule arg_cong)

definition require :: "'e \<Rightarrow> 'a option \<Rightarrow> 'e + 'a" where
  "require e m = (case m of None \<Rightarrow> Inl e | Some x \<Rightarrow> Inr x)"

definition ensure :: "bool \<Rightarrow> 'e \<Rightarrow> 'e + unit" where
  "ensure c e = (if c then Inr () else Inl e)"

lemma ebind_simps [simp, eval_simps]:
  "ebind (Inl e) f = Inl e" "ebind (Inr x) f = f x"
  by (simp_all add: ebind_def)

lemma require_simps [simp, eval_simps]:
  "require e None = Inl e" "require e (Some x) = Inr x"
  by (simp_all add: require_def)

lemma ensure_simps [simp, eval_simps]:
  "ensure True e = Inr ()" "ensure False e = Inl e"
  by (simp_all add: ensure_def)

lemma ebind_Inr_iff: "ebind m f = Inr y \<longleftrightarrow> (\<exists>x. m = Inr x \<and> f x = Inr y)"
  by (cases m) simp_all

lemma ebind_InrE [elim!]:
  assumes "ebind m f = Inr y"
  obtains x where "m = Inr x" "f x = Inr y"
  using assms by (auto simp: ebind_Inr_iff)

lemma require_Inr_iff [simp]: "require e m = Inr x \<longleftrightarrow> m = Some x"
  by (cases m) simp_all

lemma ensure_Inr_iff [simp]: "ensure c e = Inr u \<longleftrightarrow> c"
  by (cases c) simp_all

lemma ebind_cong [fundef_cong]:
  "m = m' \<Longrightarrow> (\<And>x. m' = Inr x \<Longrightarrow> f x = g x) \<Longrightarrow> ebind m f = ebind m' g"
  by (cases m') simp_all

section \<open>Loops whose body may throw\<close>

fun efold :: "('a \<Rightarrow> 's \<Rightarrow> 'e + 's) \<Rightarrow> 'a list \<Rightarrow> 's \<Rightarrow> 'e + 's" where
  "efold f [] s = Inr s"
| "efold f (x # xs) s = ebind (f x s) (efold f xs)"

lemma efold_cong [fundef_cong]:
  assumes "xs = ys" "s = t" "\<And>x u. x \<in> set ys \<Longrightarrow> f x u = g x u"
  shows "efold f xs s = efold g ys t"
proof -
  have "(\<And>x u. x \<in> set ys \<Longrightarrow> f x u = g x u) \<Longrightarrow> efold f ys t = efold g ys t" for t
  proof (induction ys arbitrary: t)
    case (Cons y ys)
    then show ?case by (cases "g y t") auto
  qed simp
  with assms show ?thesis by simp
qed

lemma efold_append: "efold f (xs @ ys) s = ebind (efold f xs s) (efold f ys)"
proof (induction xs arbitrary: s)
  case (Cons x xs)
  then show ?case by (cases "f x s") simp_all
qed simp

lemma efold_invariant:
  assumes "efold f xs s = Inr t" "P s"
    and step: "\<And>x u v. x \<in> set xs \<Longrightarrow> P u \<Longrightarrow> f x u = Inr v \<Longrightarrow> P v"
  shows "P t"
  using assms
proof (induction xs arbitrary: s)
  case (Cons x xs)
  then obtain u where "f x s = Inr u" "efold f xs u = Inr t" by auto
  with Cons show ?case by (meson list.set_intros)
qed simp

text \<open>A quantity that every iteration of a loop keeps is kept by the loop.\<close>

lemma efold_frame:
  assumes "efold f xs s = Inr t"
    and "\<And>x u v. x \<in> set xs \<Longrightarrow> f x u = Inr v \<Longrightarrow> h v = h u"
  shows "h t = h s"
  using efold_invariant [OF assms(1), of "\<lambda>u. h u = h s"] assms(2) by simp

section \<open>Ordered maps\<close>

text \<open>
  \<open>std::map\<close> and \<open>std::unordered_map\<close> as association lists: \<open>smap_set\<close> is
  \<open>m[k] = v\<close>, \<open>smap_del\<close> is \<open>m.erase(k)\<close>, \<^const>\<open>map_of\<close> is \<open>find\<close>. A list built by
  these from the empty one is sorted by key, which is the iteration order of
  \<open>std::map\<close>; the order of an \<open>unordered_map\<close> is not specified by the language.
\<close>

fun smap_set :: "'k::linorder \<Rightarrow> 'v \<Rightarrow> ('k \<times> 'v) list \<Rightarrow> ('k \<times> 'v) list" where
  "smap_set k v [] = [(k, v)]"
| "smap_set k v ((k', v') # m) =
     (if k = k' then (k, v) # m
      else if k < k' then (k, v) # (k', v') # m
      else (k', v') # smap_set k v m)"

definition smap_del :: "'k \<Rightarrow> ('k \<times> 'v) list \<Rightarrow> ('k \<times> 'v) list" where
  "smap_del k m = filter (\<lambda>kv. fst kv \<noteq> k) m"

definition smap_get0 :: "('k \<times> int) list \<Rightarrow> 'k \<Rightarrow> int" where
  "smap_get0 m k = (case map_of m k of None \<Rightarrow> 0 | Some v \<Rightarrow> v)"

definition smap_ok :: "('k::linorder \<times> 'v) list \<Rightarrow> bool" where
  "smap_ok m \<longleftrightarrow> sorted_wrt (<) (map fst m)"

fun sset_insert :: "'a::linorder \<Rightarrow> 'a list \<Rightarrow> 'a list" where
  "sset_insert x [] = [x]"
| "sset_insert x (y # ys) =
     (if x = y then y # ys else if x < y then x # y # ys else y # sset_insert x ys)"

lemma map_of_smap_set [simp]: "map_of (smap_set k v m) = (map_of m)(k \<mapsto> v)"
  by (induction k v m rule: smap_set.induct) (auto simp: fun_eq_iff)

lemma map_of_smap_del [simp]: "map_of (smap_del k m) = (map_of m)(k := None)"
  by (induction m) (auto simp: smap_del_def fun_eq_iff)

lemma smap_del_simps [eval_simps]:
  "smap_del k [] = []"
  "smap_del k ((j, v) # m) = (if j = k then smap_del k m else (j, v) # smap_del k m)"
  by (simp_all add: smap_del_def)

lemma smap_get0_set [simp]: "smap_get0 (smap_set k v m) = (smap_get0 m)(k := v)"
  by (auto simp: smap_get0_def fun_eq_iff)

lemma smap_get0_Nil [simp]: "smap_get0 [] = (\<lambda>_. 0)"
  by (simp add: smap_get0_def fun_eq_iff)

lemma set_smap_set_keys: "fst ` set (smap_set k v m) = insert k (fst ` set m)"
  by (induction k v m rule: smap_set.induct) auto

lemma smap_ok_set [simp, intro!]: "smap_ok m \<Longrightarrow> smap_ok (smap_set k v m)"
proof (induction k v m rule: smap_set.induct)
  case (2 k v k' v' m)
  then show ?case
    using set_smap_set_keys [of k v m] by (auto simp: smap_ok_def image_iff)
qed (simp add: smap_ok_def)

lemma smap_ok_del [simp, intro!]: "smap_ok m \<Longrightarrow> smap_ok (smap_del k m)"
  by (induction m) (auto simp: smap_ok_def smap_del_def)

lemma smap_ok_distinct: "smap_ok m \<Longrightarrow> distinct (map fst m)"
  unfolding smap_ok_def by (induction m) auto

lemma set_sset_insert [simp]: "set (sset_insert x xs) = insert x (set xs)"
  by (induction x xs rule: sset_insert.induct) auto

lemma distinct_sset_insert: "sorted_wrt (<) xs \<Longrightarrow> sorted_wrt (<) (sset_insert x xs)"
  by (induction x xs rule: sset_insert.induct) auto

section \<open>Sums over the values of a finite map\<close>

definition map_sum :: "('v \<Rightarrow> 'c::ab_group_add) \<Rightarrow> ('k \<rightharpoonup> 'v) \<Rightarrow> 'c" where
  "map_sum f m = (\<Sum>k \<in> dom m. f (the (m k)))"

definition opt_val :: "('v \<Rightarrow> 'c::ab_group_add) \<Rightarrow> 'v option \<Rightarrow> 'c" where
  "opt_val f x = (case x of None \<Rightarrow> 0 | Some v \<Rightarrow> f v)"

lemma opt_val_simps [simp]: "opt_val f None = 0" "opt_val f (Some v) = f v"
  by (simp_all add: opt_val_def)

lemma map_sum_empty [simp]: "map_sum f (\<lambda>_. None) = 0"
  by (simp add: map_sum_def)

lemma map_sum_remove:
  assumes "finite (dom m)"
  shows "map_sum f (m(k := None)) = map_sum f m - opt_val f (m k)"
proof (cases "m k")
  case None
  then have "m(k := None) = m" by auto
  then show ?thesis using None by simp
next
  case (Some v)
  then have "dom m = insert k (dom m - {k})" by auto
  then have "map_sum f m = f v + (\<Sum>j \<in> dom m - {k}. f (the (m j)))"
    unfolding map_sum_def using assms Some
    by (metis finite_Diff sum.insert_remove option.sel insert_Diff_single)
  moreover have "map_sum f (m(k := None)) = (\<Sum>j \<in> dom m - {k}. f (the (m j)))"
    unfolding map_sum_def by (rule sum.cong) auto
  ultimately show ?thesis using Some by simp
qed

lemma map_sum_update:
  assumes "finite (dom m)"
  shows "map_sum f (m(k \<mapsto> v)) = map_sum f m - opt_val f (m k) + f v"
proof -
  have "map_sum f (m(k \<mapsto> v)) = f v + (\<Sum>j \<in> dom m - {k}. f (the ((m(k \<mapsto> v)) j)))"
    unfolding map_sum_def using assms by (simp add: sum.insert_remove)
  also have "(\<Sum>j \<in> dom m - {k}. f (the ((m(k \<mapsto> v)) j))) = map_sum f (m(k := None))"
    unfolding map_sum_def by (rule sum.cong) auto
  finally show ?thesis unfolding map_sum_remove [OF assms] by (simp only: add.commute)
qed

lemma map_sum_alist:
  assumes "distinct (map fst xs)"
  shows "map_sum f (map_of xs) = sum_list (map (\<lambda>kv. f (snd kv)) xs)"
  using assms
proof (induction xs)
  case (Cons x xs)
  obtain k v where x: "x = (k, v)" by (cases x)
  from Cons.prems x have "map_of xs k = None" by (simp add: map_of_eq_None_iff)
  then have "map_sum f ((map_of xs)(k \<mapsto> v)) = map_sum f (map_of xs) + f v"
    by (simp only: map_sum_update finite_dom_map_of opt_val_simps diff_zero)
  with Cons x show ?case by (simp only: map_of.simps fst_conv snd_conv list.map sum_list.Cons
        distinct.simps add.commute)
qed simp

section \<open>Machine integers\<close>

text \<open>
  \<open>ShareType\<close> is \<open>int64_t\<close>. Values are modelled by \<^typ>\<open>int\<close>; \<open>wrap64\<close> is the
  two's-complement result the hardware gives where the source adds or subtracts without
  a check, \<open>u32\<close> and \<open>u128\<close> are reductions of unsigned arithmetic.
\<close>

definition INT64_MAX :: int where "INT64_MAX = 2 ^ 63 - 1"
definition INT64_MIN :: int where "INT64_MIN = - (2 ^ 63)"

definition in_int64 :: "int \<Rightarrow> bool" where
  "in_int64 x \<longleftrightarrow> INT64_MIN \<le> x \<and> x \<le> INT64_MAX"

definition wrap64 :: "int \<Rightarrow> int" where
  "wrap64 x = (x + 2 ^ 63) mod 2 ^ 64 - 2 ^ 63"

definition wrap32 :: "int \<Rightarrow> int" where
  "wrap32 x = (x + 2 ^ 31) mod 2 ^ 32 - 2 ^ 31"

definition u32 :: "int \<Rightarrow> int" where "u32 x = x mod 2 ^ 32"
definition u64 :: "int \<Rightarrow> int" where "u64 x = x mod 2 ^ 64"
definition u128 :: "int \<Rightarrow> int" where "u128 x = x mod 2 ^ 128"

text \<open>Integer division of C++: truncation towards zero.\<close>

definition cdiv :: "int \<Rightarrow> int \<Rightarrow> int" where
  "cdiv a b = sgn a * sgn b * (\<bar>a\<bar> div \<bar>b\<bar>)"

lemmas int64_defs = INT64_MAX_def INT64_MIN_def in_int64_def

lemma in_int64_wrap64 [simp, intro!]: "in_int64 (wrap64 x)"
proof -
  have "0 \<le> (x + 2 ^ 63) mod 2 ^ 64" "(x + 2 ^ 63) mod 2 ^ 64 < (2 ^ 64 :: int)"
    by (rule pos_mod_sign, simp, rule pos_mod_bound, simp)
  then show ?thesis by (simp add: int64_defs wrap64_def)
qed

lemma wrap64_id [simp]: "in_int64 x \<Longrightarrow> wrap64 x = x"
  by (simp add: int64_defs wrap64_def)

lemma wrap64_over:
  assumes "INT64_MAX < x" "x \<le> INT64_MAX + 2 ^ 63"
  shows "wrap64 x = x - 2 ^ 64"
proof -
  have "(x + 2 ^ 63) mod 2 ^ 64 = (x + 2 ^ 63 - 2 ^ 64) mod (2 ^ 64 :: int)"
    by (rule minus_mod_self2 [symmetric])
  also have "\<dots> = x + 2 ^ 63 - 2 ^ 64"
    by (rule mod_pos_pos_trivial) (use assms in \<open>simp_all add: int64_defs\<close>)
  finally show ?thesis unfolding wrap64_def by simp
qed

lemma wrap64_mod: "wrap64 x mod 2 ^ 64 = x mod 2 ^ 64"
  unfolding wrap64_def by (metis add_diff_cancel mod_diff_left_eq)

lemma in_int64_0 [simp]: "in_int64 0"
  by (simp add: int64_defs)

lemma cdiv_nonneg: "0 \<le> a \<Longrightarrow> 0 < b \<Longrightarrow> cdiv a b = a div b"
  by (cases "a = 0") (simp_all add: cdiv_def)

text \<open>
  The value of an \<open>int64_t\<close> in the ring of 64-bit words: wrapping arithmetic becomes
  plain ring arithmetic there.
\<close>

definition w64 :: "int \<Rightarrow> 64 word" where "w64 x = word_of_int x"

lemma w64_wrap64 [simp]: "w64 (wrap64 x) = w64 x"
  using wrap64_mod [of x] by (simp add: w64_def word_of_int_eq_iff take_bit_eq_mod)

lemma w64_simps [simp]:
  "w64 0 = 0" "w64 (x + y) = w64 x + w64 y" "w64 (x - y) = w64 x - w64 y"
  "w64 (- x) = - w64 x"
  by (simp_all add: w64_def wi_hom_syms)

lemma w64_inj: "in_int64 x \<Longrightarrow> in_int64 y \<Longrightarrow> w64 x = w64 y \<longleftrightarrow> x = y"
proof -
  assume x: "in_int64 x" and y: "in_int64 y"
  have "x = y" if "w64 x = w64 y"
  proof -
    from that have "x mod 2 ^ 64 = y mod 2 ^ 64"
      by (simp add: w64_def word_of_int_eq_iff take_bit_eq_mod)
    then have "(x + 2 ^ 63) mod 2 ^ 64 = (y + 2 ^ 63) mod 2 ^ 64"
      by (metis mod_add_left_eq)
    then have "wrap64 x = wrap64 y" by (simp only: wrap64_def)
    with x y show ?thesis by simp
  qed
  then show ?thesis by blast
qed

end
