(* ===== verification/Chain_Base.thy ===== *)
theory Chain_Base
  imports Prelude
begin

text \<open>
  What every component of the chain shares: the exceptions of \<open>Exceptions.hpp\<close> (and those of
  \<open>fc\<close>) that the modelled code throws, the constants of \<open>Config.hpp\<close>, the scalar types of
  \<open>Types.hpp\<close>, and the overflow-checked integers of \<open>fc/safe.hpp\<close> with the theorems that
  characterise when a checked operation throws.
\<close>

section \<open>Exceptions\<close>

datatype chain_error = exn nat

text \<open>
  An exception is its code, as \<open>fc::exception\<close> carries it; the names are those of the
  \<open>FC_DECLARE_EXCEPTION\<close> and \<open>FC_DECLARE_DERIVED_EXCEPTION\<close> declarations.
\<close>

abbreviation invalid_pts_address :: chain_error where "invalid_pts_address \<equiv> exn 30001"
abbreviation key_not_found_exception :: chain_error where "key_not_found_exception \<equiv> exn 6"
abbreviation bad_cast_exception :: chain_error where "bad_cast_exception \<equiv> exn 7"
abbreviation out_of_range_exception :: chain_error where "out_of_range_exception \<equiv> exn 8"
abbreviation assert_exception :: chain_error where "assert_exception \<equiv> exn 10"
abbreviation std_exception :: chain_error where "std_exception \<equiv> exn 13"
abbreviation null_optional :: chain_error where "null_optional \<equiv> exn 16"
abbreviation overflow_exception :: chain_error where "overflow_exception \<equiv> exn 19"
abbreviation underflow_exception :: chain_error where "underflow_exception \<equiv> exn 20"
abbreviation divide_by_zero_exception :: chain_error where "divide_by_zero_exception \<equiv> exn 21"
abbreviation addition_overflow :: chain_error where "addition_overflow \<equiv> exn 30002"
abbreviation subtraction_overflow :: chain_error where "subtraction_overflow \<equiv> exn 30003"
abbreviation asset_type_mismatch :: chain_error where "asset_type_mismatch \<equiv> exn 30004"
abbreviation unsupported_chain_operation :: chain_error where "unsupported_chain_operation \<equiv> exn 30005"
abbreviation duplicate_transaction :: chain_error where "duplicate_transaction \<equiv> exn 30007"
abbreviation asset_divide_by_self :: chain_error where "asset_divide_by_self \<equiv> exn 30010"
abbreviation asset_divide_by_zero :: chain_error where "asset_divide_by_zero \<equiv> exn 30011"
abbreviation unlinkable_block :: chain_error where "unlinkable_block \<equiv> exn 30013"
abbreviation illegal_transaction :: chain_error where "illegal_transaction \<equiv> exn 30015"
abbreviation block_numbers_not_sequential :: chain_error where "block_numbers_not_sequential \<equiv> exn 30016"
abbreviation invalid_previous_block_id :: chain_error where "invalid_previous_block_id \<equiv> exn 30017"
abbreviation invalid_block_time :: chain_error where "invalid_block_time \<equiv> exn 30018"
abbreviation time_in_past :: chain_error where "time_in_past \<equiv> exn 30019"
abbreviation time_in_future :: chain_error where "time_in_future \<equiv> exn 30020"
abbreviation invalid_block_digest :: chain_error where "invalid_block_digest \<equiv> exn 30021"
abbreviation invalid_delegate_signee :: chain_error where "invalid_delegate_signee \<equiv> exn 30022"
abbreviation failed_checkpoint_verification :: chain_error where "failed_checkpoint_verification \<equiv> exn 30023"
abbreviation block_older_than_undo_history :: chain_error where "block_older_than_undo_history \<equiv> exn 30026"
abbreviation out_of_max_trx_size :: chain_error where "out_of_max_trx_size \<equiv> exn 30030"
abbreviation negative_deposit :: chain_error where "negative_deposit \<equiv> exn 31001"
abbreviation not_a_delegate :: chain_error where "not_a_delegate \<equiv> exn 31002"
abbreviation unknown_balance_entry :: chain_error where "unknown_balance_entry \<equiv> exn 31003"
abbreviation insufficient_funds :: chain_error where "insufficient_funds \<equiv> exn 31004"
abbreviation missing_signature :: chain_error where "missing_signature \<equiv> exn 31005"
abbreviation invalid_withdraw_condition :: chain_error where "invalid_withdraw_condition \<equiv> exn 31007"
abbreviation negative_withdraw :: chain_error where "negative_withdraw \<equiv> exn 31008"
abbreviation expired_transaction :: chain_error where "expired_transaction \<equiv> exn 31010"
abbreviation invalid_transaction_expiration :: chain_error where "invalid_transaction_expiration \<equiv> exn 31011"
abbreviation operator_and_owner_not_the_same :: chain_error where "operator_and_owner_not_the_same \<equiv> exn 31013"
abbreviation too_much_signature :: chain_error where "too_much_signature \<equiv> exn 31014"
abbreviation too_much_balances_withdraw_not_used_up :: chain_error where "too_much_balances_withdraw_not_used_up \<equiv> exn 31015"
abbreviation deposit_to_one_address_twice :: chain_error where "deposit_to_one_address_twice \<equiv> exn 31016"
abbreviation too_much_deposit :: chain_error where "too_much_deposit \<equiv> exn 31017"
abbreviation invalid_account_name :: chain_error where "invalid_account_name \<equiv> exn 31101"
abbreviation unknown_account_id :: chain_error where "unknown_account_id \<equiv> exn 31102"
abbreviation unknown_account_name :: chain_error where "unknown_account_name \<equiv> exn 31103"
abbreviation account_already_registered :: chain_error where "account_already_registered \<equiv> exn 31107"
abbreviation account_key_in_use :: chain_error where "account_key_in_use \<equiv> exn 31108"
abbreviation account_retracted :: chain_error where "account_retracted \<equiv> exn 31109"
abbreviation unknown_delegate_slate :: chain_error where "unknown_delegate_slate \<equiv> exn 31111"
abbreviation too_may_delegates_in_slate :: chain_error where "too_may_delegates_in_slate \<equiv> exn 31112"
abbreviation pay_balance_remaining :: chain_error where "pay_balance_remaining \<equiv> exn 31113"
abbreviation message_too_long :: chain_error where "message_too_long \<equiv> exn 31114"
abbreviation invalid_precision :: chain_error where "invalid_precision \<equiv> exn 31301"
abbreviation invalid_asset_symbol :: chain_error where "invalid_asset_symbol \<equiv> exn 31302"
abbreviation unknown_asset_id :: chain_error where "unknown_asset_id \<equiv> exn 31303"
abbreviation asset_symbol_in_use :: chain_error where "asset_symbol_in_use \<equiv> exn 31304"
abbreviation invalid_asset_amount :: chain_error where "invalid_asset_amount \<equiv> exn 31305"
abbreviation negative_issue :: chain_error where "negative_issue \<equiv> exn 31306"
abbreviation over_issue :: chain_error where "over_issue \<equiv> exn 31307"
abbreviation unknown_asset_symbol :: chain_error where "unknown_asset_symbol \<equiv> exn 31308"
abbreviation asset_id_in_use :: chain_error where "asset_id_in_use \<equiv> exn 31309"
abbreviation not_user_issued :: chain_error where "not_user_issued \<equiv> exn 31310"
abbreviation invalid_asset_name :: chain_error where "invalid_asset_name \<equiv> exn 31311"
abbreviation insufficient_fee :: chain_error where "insufficient_fee \<equiv> exn 31402"
abbreviation negative_fee :: chain_error where "negative_fee \<equiv> exn 31403"
abbreviation insufficient_relay_fee :: chain_error where "insufficient_relay_fee \<equiv> exn 31405"
abbreviation price_multiplication_overflow :: chain_error where "price_multiplication_overflow \<equiv> exn 31601"
abbreviation price_multiplication_underflow :: chain_error where "price_multiplication_underflow \<equiv> exn 31602"
abbreviation price_multiplication_undefined :: chain_error where "price_multiplication_undefined \<equiv> exn 31603"
abbreviation contract_address_in_use :: chain_error where "contract_address_in_use \<equiv> exn 32001"
abbreviation contract_not_exist :: chain_error where "contract_not_exist \<equiv> exn 32002"
abbreviation contract_upgraded :: chain_error where "contract_upgraded \<equiv> exn 32003"
abbreviation contract_destroyed :: chain_error where "contract_destroyed \<equiv> exn 32004"
abbreviation contract_name_illegal :: chain_error where "contract_name_illegal \<equiv> exn 32005"
abbreviation contract_desc_illegal :: chain_error where "contract_desc_illegal \<equiv> exn 32006"
abbreviation contract_name_in_use :: chain_error where "contract_name_in_use \<equiv> exn 32008"
abbreviation permanent_contract :: chain_error where "permanent_contract \<equiv> exn 32010"
abbreviation contract_run_out_of_money :: chain_error where "contract_run_out_of_money \<equiv> exn 32011"
abbreviation method_not_exist :: chain_error where "method_not_exist \<equiv> exn 32013"
abbreviation method_can_not_be_called_explicitly :: chain_error where "method_can_not_be_called_explicitly \<equiv> exn 32015"
abbreviation not_be_result_of_execute :: chain_error where "not_be_result_of_execute \<equiv> exn 32016"
abbreviation contract_parameter_length_over_limit :: chain_error where "contract_parameter_length_over_limit \<equiv> exn 32017"
abbreviation invalid_margin_amount :: chain_error where "invalid_margin_amount \<equiv> exn 32018"
abbreviation in_result_of_execute :: chain_error where "in_result_of_execute \<equiv> exn 32021"
abbreviation transfer_amount_not_bigger_than_0 :: chain_error where "transfer_amount_not_bigger_than_0 \<equiv> exn 32022"
abbreviation code_hash_error :: chain_error where "code_hash_error \<equiv> exn 32025"
abbreviation contract_run_out_of_testing_money :: chain_error where "contract_run_out_of_testing_money \<equiv> exn 32026"
abbreviation contract_execute_error_in_testing :: chain_error where "contract_execute_error_in_testing \<equiv> exn 32027"
abbreviation contract_execute_error :: chain_error where "contract_execute_error \<equiv> exn 32028"
abbreviation lua_executor_internal_error :: chain_error where "lua_executor_internal_error \<equiv> exn 34005"
abbreviation event_parameter_length_over_limit :: chain_error where "event_parameter_length_over_limit \<equiv> exn 35001"
abbreviation ignore_check_required_fee_state :: chain_error where "ignore_check_required_fee_state \<equiv> exn 41001"
abbreviation store_and_index_a_seen_block :: chain_error where "store_and_index_a_seen_block \<equiv> exn 42001"

type_synonym 'a result = "chain_error + 'a"

section \<open>Scalar types and constants\<close>

text \<open>
  Addresses, public keys, hashes and signatures are opaque to the chain logic: it compares
  them and orders them, nothing else. They are modelled by \<^typ>\<open>nat\<close>; the functions of the
  crypto library that relate them are parameters (theory \<open>Chain_Types\<close>).
\<close>

type_synonym address = nat
type_synonym public_key = nat
type_synonym digest = nat
type_synonym trx_id = nat
type_synonym block_id = nat
type_synonym asset_id = int
type_synonym account_id = int
type_synonym slate_id = nat
type_synonym share = int
type_synonym time = nat

definition ALP_BLOCKCHAIN_PRECISION :: int where "ALP_BLOCKCHAIN_PRECISION = 100000"
definition ALP_BLOCKCHAIN_BLOCK_INTERVAL_SEC :: nat where "ALP_BLOCKCHAIN_BLOCK_INTERVAL_SEC = 10"
definition ALP_BLOCKCHAIN_BLOCKS_PER_HOUR :: nat where
  "ALP_BLOCKCHAIN_BLOCKS_PER_HOUR = (60 * 60) div ALP_BLOCKCHAIN_BLOCK_INTERVAL_SEC"
definition ALP_BLOCKCHAIN_BLOCKS_PER_DAY :: nat where
  "ALP_BLOCKCHAIN_BLOCKS_PER_DAY = ALP_BLOCKCHAIN_BLOCKS_PER_HOUR * 24"
definition ALP_BLOCKCHAIN_NUM_DELEGATES :: nat where "ALP_BLOCKCHAIN_NUM_DELEGATES = 99"
definition ACT_DELEGATE_PAY_PER_BLOCK_TIMES :: int where "ACT_DELEGATE_PAY_PER_BLOCK_TIMES = 5"
definition ALP_MAX_DELEGATE_PAY_PER_BLOCK :: int where
  "ALP_MAX_DELEGATE_PAY_PER_BLOCK = 1 * ALP_BLOCKCHAIN_PRECISION * ACT_DELEGATE_PAY_PER_BLOCK_TIMES"
definition ALP_BLOCKCHAIN_MAX_UNDO_HISTORY :: nat where
  "ALP_BLOCKCHAIN_MAX_UNDO_HISTORY = ALP_BLOCKCHAIN_BLOCKS_PER_HOUR"
definition ALP_BLOCKCHAIN_REGISTER_ACCOUNT_FEE :: int where
  "ALP_BLOCKCHAIN_REGISTER_ACCOUNT_FEE = 10 * ALP_BLOCKCHAIN_PRECISION"
definition ALP_BLOCKCHAIN_MAX_SLATE_SIZE :: nat where
  "ALP_BLOCKCHAIN_MAX_SLATE_SIZE = ALP_BLOCKCHAIN_NUM_DELEGATES + ALP_BLOCKCHAIN_NUM_DELEGATES div 10"
definition ALP_BLOCKCHAIN_MAX_MESSAGE_SIZE :: nat where "ALP_BLOCKCHAIN_MAX_MESSAGE_SIZE = 2048"
definition ALP_BLOCKCHAIN_MAX_FREE_MESSAGE_SIZE :: int where
  "ALP_BLOCKCHAIN_MAX_FREE_MESSAGE_SIZE = 1024"
definition ALP_BLOCKCHAIN_MAX_SOFT_MAX_MESSAGE_SIZE :: int where
  "ALP_BLOCKCHAIN_MAX_SOFT_MAX_MESSAGE_SIZE = 40"
definition ALP_BLOCKCHAIN_MIN_MESSAGE_FEE_COE :: int where
  "ALP_BLOCKCHAIN_MIN_MESSAGE_FEE_COE = 100"
definition ALP_BLOCKCHAIN_MAX_TRANSACTION_EXPIRATION_SEC :: nat where
  "ALP_BLOCKCHAIN_MAX_TRANSACTION_EXPIRATION_SEC = 60 * 60 * 24 * 2"
definition ALP_BLOCKCHAIN_MAX_SHARES :: int where
  "ALP_BLOCKCHAIN_MAX_SHARES = 1000 * 1000 * 1000 * 1000 * 1000 * 1000"
definition ALP_BLOCKCHAIN_MIN_NAME_SIZE :: nat where "ALP_BLOCKCHAIN_MIN_NAME_SIZE = 1"
definition ALP_BLOCKCHAIN_MAX_NAME_SIZE :: nat where "ALP_BLOCKCHAIN_MAX_NAME_SIZE = 63"
definition ALP_BLOCKCHAIN_MAX_NAME_DATA_SIZE :: nat where
  "ALP_BLOCKCHAIN_MAX_NAME_DATA_SIZE = 1024 * 64"
definition ALP_BLOCKCHAIN_MAX_SUB_SYMBOL_SIZE :: nat where "ALP_BLOCKCHAIN_MAX_SUB_SYMBOL_SIZE = 8"
definition ALP_BLOCKCHAIN_MIN_SYMBOL_SIZE :: nat where "ALP_BLOCKCHAIN_MIN_SYMBOL_SIZE = 3"
definition ALP_BLOCKCHAIN_MAX_SYMBOL_SIZE :: nat where "ALP_BLOCKCHAIN_MAX_SYMBOL_SIZE = 12"
definition ALP_BLOCKCHAIN_MAX_SYMBOL_NAME_SIZE :: nat where
  "ALP_BLOCKCHAIN_MAX_SYMBOL_NAME_SIZE = 20"
definition ALP_BLOCKCHAIN_MAX_SYMBOL_DES_SIZE :: nat where
  "ALP_BLOCKCHAIN_MAX_SYMBOL_DES_SIZE = 256"
definition ALP_DEFAULT_CONTRACT_MARGIN :: int where
  "ALP_DEFAULT_CONTRACT_MARGIN = 10 * ALP_BLOCKCHAIN_PRECISION"
definition CONTRACT_MAX_NAME_SIZE :: nat where "CONTRACT_MAX_NAME_SIZE = 32"
definition CONTRACT_MAX_DESCRIPTION_SIZE :: nat where "CONTRACT_MAX_DESCRIPTION_SIZE = 256"
definition CONTRACT_PARAM_MAX_LEN :: nat where "CONTRACT_PARAM_MAX_LEN = 1024"
definition CONTRACT_TESTING_LIMIT_MAX :: int where "CONTRACT_TESTING_LIMIT_MAX = 1024 * 1024 * 1024"
definition EVENT_PARAM_MAX_LEN :: nat where "EVENT_PARAM_MAX_LEN = 1024"
definition ALP_BLOCKCHAIN_FREESIGNATURE_LIMIT :: nat where "ALP_BLOCKCHAIN_FREESIGNATURE_LIMIT = 10"
definition ALP_BLOCKCHAIN_MAX_SIGNAGTURE_NUM :: nat where "ALP_BLOCKCHAIN_MAX_SIGNAGTURE_NUM = 1000"
definition ALP_BLOCKCHAIN_EXTRA_SIGNATURE_FEE :: int where
  "ALP_BLOCKCHAIN_EXTRA_SIGNATURE_FEE = 1000"
definition ALP_BLOCKCHAIN_TRANSACTION_MAX_DEPOSIT_NUM :: int where
  "ALP_BLOCKCHAIN_TRANSACTION_MAX_DEPOSIT_NUM = 100"
definition ALP_BLOCKCHAIN_AVERAGE_TRX_SIZE :: nat where "ALP_BLOCKCHAIN_AVERAGE_TRX_SIZE = 512"
definition ALP_BLOCKCHAIN_MAX_TRX_SIZE :: nat where
  "ALP_BLOCKCHAIN_MAX_TRX_SIZE = 2 * ALP_BLOCKCHAIN_AVERAGE_TRX_SIZE * 100"
definition LIMIT_PRICE :: int where "LIMIT_PRICE = 1"
definition ALP_DEFAULT_TRANSACTION_FEE :: int where "ALP_DEFAULT_TRANSACTION_FEE = 1000"
definition ALP_DELEGATE_PAY_BLOCK_NUM :: nat where "ALP_DELEGATE_PAY_BLOCK_NUM = 8524000"
definition ALP_DELEGATE_PAY_INC_NUM :: nat where "ALP_DELEGATE_PAY_INC_NUM = 3150000"

definition ALP_BLOCKCHAIN_DEFAULT_RELAY_FEE :: share where "ALP_BLOCKCHAIN_DEFAULT_RELAY_FEE = 1000"
definition ALP_BLOCKCHAIN_MAX_PENDING_QUEUE_SIZE :: nat where "ALP_BLOCKCHAIN_MAX_PENDING_QUEUE_SIZE = 10000"

lemmas config_defs [eval_simps] =
  ALP_BLOCKCHAIN_DEFAULT_RELAY_FEE_def ALP_BLOCKCHAIN_MAX_PENDING_QUEUE_SIZE_def
  ALP_BLOCKCHAIN_AVERAGE_TRX_SIZE_def ALP_BLOCKCHAIN_MAX_TRX_SIZE_def LIMIT_PRICE_def
  ALP_DEFAULT_TRANSACTION_FEE_def
  ALP_BLOCKCHAIN_PRECISION_def ALP_BLOCKCHAIN_BLOCK_INTERVAL_SEC_def
  ALP_BLOCKCHAIN_BLOCKS_PER_HOUR_def ALP_BLOCKCHAIN_BLOCKS_PER_DAY_def
  ALP_BLOCKCHAIN_NUM_DELEGATES_def ACT_DELEGATE_PAY_PER_BLOCK_TIMES_def
  ALP_MAX_DELEGATE_PAY_PER_BLOCK_def ALP_BLOCKCHAIN_MAX_UNDO_HISTORY_def
  ALP_BLOCKCHAIN_REGISTER_ACCOUNT_FEE_def ALP_BLOCKCHAIN_MAX_SLATE_SIZE_def
  ALP_BLOCKCHAIN_MAX_MESSAGE_SIZE_def ALP_BLOCKCHAIN_MAX_FREE_MESSAGE_SIZE_def
  ALP_BLOCKCHAIN_MAX_SOFT_MAX_MESSAGE_SIZE_def ALP_BLOCKCHAIN_MIN_MESSAGE_FEE_COE_def
  ALP_BLOCKCHAIN_MAX_TRANSACTION_EXPIRATION_SEC_def ALP_BLOCKCHAIN_MAX_SHARES_def
  ALP_BLOCKCHAIN_MIN_NAME_SIZE_def ALP_BLOCKCHAIN_MAX_NAME_SIZE_def
  ALP_BLOCKCHAIN_MAX_NAME_DATA_SIZE_def ALP_BLOCKCHAIN_MAX_SUB_SYMBOL_SIZE_def
  ALP_BLOCKCHAIN_MIN_SYMBOL_SIZE_def ALP_BLOCKCHAIN_MAX_SYMBOL_SIZE_def
  ALP_BLOCKCHAIN_MAX_SYMBOL_NAME_SIZE_def ALP_BLOCKCHAIN_MAX_SYMBOL_DES_SIZE_def
  ALP_DEFAULT_CONTRACT_MARGIN_def CONTRACT_MAX_NAME_SIZE_def CONTRACT_MAX_DESCRIPTION_SIZE_def
  CONTRACT_PARAM_MAX_LEN_def CONTRACT_TESTING_LIMIT_MAX_def EVENT_PARAM_MAX_LEN_def
  ALP_BLOCKCHAIN_FREESIGNATURE_LIMIT_def ALP_BLOCKCHAIN_MAX_SIGNAGTURE_NUM_def
  ALP_BLOCKCHAIN_EXTRA_SIGNATURE_FEE_def ALP_BLOCKCHAIN_TRANSACTION_MAX_DEPOSIT_NUM_def
  ALP_DELEGATE_PAY_BLOCK_NUM_def ALP_DELEGATE_PAY_INC_NUM_def

section \<open>fc::safe: overflow-checked integers\<close>

text \<open>
  The template is instantiated at \<open>ShareType\<close>, i.e. \<open>int64_t\<close>, everywhere in the chain code.
  The tests are the ones of the source; the value returned is the machine result, so that
  a missing test would show as a wrapped value.
\<close>

definition safe_add :: "share \<Rightarrow> share \<Rightarrow> share result" where
  "safe_add a b =
     (if b > 0 \<and> a > INT64_MAX - b then Inl overflow_exception
      else if b < 0 \<and> a < INT64_MIN - b then Inl underflow_exception
      else Inr (wrap64 (a + b)))"

definition safe_sub :: "share \<Rightarrow> share \<Rightarrow> share result" where
  "safe_sub a b =
     (if b > 0 \<and> a < INT64_MIN + b then Inl underflow_exception
      else if b < 0 \<and> a > INT64_MAX + b then Inl overflow_exception
      else Inr (wrap64 (a - b)))"

definition safe_mul :: "share \<Rightarrow> share \<Rightarrow> share result" where
  "safe_mul a b =
     (if a > 0 then
        (if b > 0 then
           (if a > cdiv INT64_MAX b then Inl overflow_exception else Inr (wrap64 (a * b)))
         else
           (if b < cdiv INT64_MIN a then Inl underflow_exception else Inr (wrap64 (a * b))))
      else
        (if b > 0 then
           (if a < cdiv INT64_MIN b then Inl underflow_exception else Inr (wrap64 (a * b)))
         else
           (if a \<noteq> 0 \<and> b < cdiv INT64_MAX a then Inl overflow_exception
            else Inr (wrap64 (a * b)))))"

definition safe_div :: "share \<Rightarrow> share \<Rightarrow> share result" where
  "safe_div a b =
     (if b = 0 then Inl divide_by_zero_exception
      else if a = INT64_MIN \<and> b = - 1 then Inl overflow_exception
      else Inr (wrap64 (cdiv a b)))"

definition safe_mod :: "share \<Rightarrow> share \<Rightarrow> share result" where
  "safe_mod a b =
     (if b = 0 then Inl divide_by_zero_exception
      else if a = INT64_MIN \<and> b = - 1 then Inl overflow_exception
      else Inr (wrap64 (a - b * cdiv a b)))"

definition safe_neg :: "share \<Rightarrow> share result" where
  "safe_neg a = (if a = INT64_MIN then Inl overflow_exception else Inr (wrap64 (- a)))"

lemma safe_add_spec:
  assumes "in_int64 a" "in_int64 b"
  shows "safe_add a b =
    (if in_int64 (a + b) then Inr (a + b)
     else if 0 < b then Inl overflow_exception else Inl underflow_exception)"
proof (cases "in_int64 (a + b)")
  case True
  then have "wrap64 (a + b) = a + b" by simp
  with True show ?thesis by (auto simp: safe_add_def int64_defs)
next
  case False
  with assms show ?thesis by (auto simp: safe_add_def int64_defs)
qed

lemma safe_sub_spec:
  assumes "in_int64 a" "in_int64 b"
  shows "safe_sub a b =
    (if in_int64 (a - b) then Inr (a - b)
     else if 0 < b then Inl underflow_exception else Inl overflow_exception)"
proof (cases "in_int64 (a - b)")
  case True
  then have "wrap64 (a - b) = a - b" by simp
  with True show ?thesis by (auto simp: safe_sub_def int64_defs)
next
  case False
  with assms show ?thesis by (auto simp: safe_sub_def int64_defs)
qed

lemma safe_add_Inr: "safe_add a b = Inr c \<Longrightarrow> c = wrap64 (a + b)"
  by (simp add: safe_add_def split: if_splits)

lemma safe_sub_Inr: "safe_sub a b = Inr c \<Longrightarrow> c = wrap64 (a - b)"
  by (simp add: safe_sub_def split: if_splits)

lemma w64_safe_add: "safe_add a b = Inr c \<Longrightarrow> w64 c = w64 a + w64 b"
  by (auto dest: safe_add_Inr)

lemma w64_safe_sub: "safe_sub a b = Inr c \<Longrightarrow> w64 c = w64 a - w64 b"
  by (auto dest: safe_sub_Inr)

lemma in_int64_safe_add: "safe_add a b = Inr c \<Longrightarrow> in_int64 c"
  by (auto dest: safe_add_Inr)

lemma in_int64_safe_sub: "safe_sub a b = Inr c \<Longrightarrow> in_int64 c"
  by (auto dest: safe_sub_Inr)

lemma int_le_div_iff: "0 < (b::int) \<Longrightarrow> a \<le> c div b \<longleftrightarrow> a * b \<le> c"
proof
  assume b: "0 < b"
  show "a \<le> c div b \<Longrightarrow> a * b \<le> c"
  proof -
    assume "a \<le> c div b"
    then have "a * b \<le> c div b * b" using b by (simp add: mult_right_mono)
    moreover have "c div b * b \<le> c"
      using b by (metis add_le_cancel_left div_mult_mod_eq le_add_same_cancel1 pos_mod_sign)
    ultimately show ?thesis by linarith
  qed
  show "a * b \<le> c \<Longrightarrow> a \<le> c div b"
    using b zdiv_mono1 [of "a * b" c b] by simp
qed

lemma cdiv_signs:
  "0 < a \<Longrightarrow> 0 < b \<Longrightarrow> cdiv a b = a div b"
  "a < 0 \<Longrightarrow> 0 < b \<Longrightarrow> cdiv a b = - ((- a) div b)"
  "0 < a \<Longrightarrow> b < 0 \<Longrightarrow> cdiv a b = - (a div (- b))"
  "a < 0 \<Longrightarrow> b < 0 \<Longrightarrow> cdiv a b = (- a) div (- b)"
  by (simp_all add: cdiv_def)

lemma INT64_signs: "0 < INT64_MAX" "INT64_MIN < 0" "- INT64_MIN = INT64_MAX + 1"
  by (simp_all add: int64_defs)

lemma safe_mul_spec:
  assumes "in_int64 a" "in_int64 b"
  shows "safe_mul a b =
    (if in_int64 (a * b) then Inr (a * b)
     else if 0 < a \<longleftrightarrow> 0 < b then Inl overflow_exception else Inl underflow_exception)"
proof -
  consider "a = 0" | "b = 0" | "0 < a" "0 < b" | "0 < a" "b < 0" | "a < 0" "0 < b" | "a < 0" "b < 0"
    by linarith
  then show ?thesis
  proof cases
    case 1
    then show ?thesis
      by (auto simp: safe_mul_def cdiv_def int64_defs wrap64_def pos_imp_zdiv_neg_iff)
  next
    case 2
    have "0 < a \<Longrightarrow> \<not> 0 < cdiv INT64_MIN a" "a < 0 \<Longrightarrow> \<not> 0 < cdiv INT64_MAX a"
      using INT64_signs by (auto simp: cdiv_signs pos_imp_zdiv_neg_iff)
    with 2 show ?thesis by (cases a "0::int" rule: linorder_cases) (auto simp: safe_mul_def)
  next
    case 3
    have "a \<le> INT64_MAX div b \<longleftrightarrow> a * b \<le> INT64_MAX" using 3 by (simp add: int_le_div_iff)
    moreover have "INT64_MIN \<le> a * b" using 3 INT64_signs mult_pos_pos [of a b] by linarith
    ultimately show ?thesis using 3 INT64_signs
      by (auto simp: safe_mul_def cdiv_signs in_int64_def not_le)
  next
    case 4
    have "- b \<le> (- INT64_MIN) div a \<longleftrightarrow> - b * a \<le> - INT64_MIN"
      using 4 by (simp only: int_le_div_iff)
    moreover have "a * b \<le> INT64_MAX" using 4 INT64_signs mult_pos_neg [of a b] by linarith
    ultimately show ?thesis using 4 INT64_signs
      by (auto simp: safe_mul_def cdiv_signs in_int64_def not_le algebra_simps)
  next
    case 5
    have "- a \<le> (- INT64_MIN) div b \<longleftrightarrow> - a * b \<le> - INT64_MIN"
      using 5 by (simp only: int_le_div_iff)
    moreover have "a * b \<le> INT64_MAX" using 5 INT64_signs mult_neg_pos [of a b] by linarith
    ultimately show ?thesis using 5 INT64_signs
      by (auto simp: safe_mul_def cdiv_signs in_int64_def not_le algebra_simps)
  next
    case 6
    have "- b \<le> INT64_MAX div (- a) \<longleftrightarrow> - b * - a \<le> INT64_MAX"
      using 6 by (simp only: int_le_div_iff)
    moreover have "INT64_MIN \<le> a * b" using 6 INT64_signs mult_neg_neg [of a b] by linarith
    ultimately show ?thesis using 6 INT64_signs
      by (auto simp: safe_mul_def cdiv_signs in_int64_def not_le algebra_simps)
  qed
qed

lemma cdiv_in_int64:
  assumes "in_int64 a" "b \<noteq> 0" "\<not> (a = INT64_MIN \<and> b = - 1)"
  shows "in_int64 (cdiv a b)"
proof -
  have le: "\<bar>a\<bar> div \<bar>b\<bar> \<le> \<bar>a\<bar>" using zdiv_mono2 [of "\<bar>a\<bar>" 1 "\<bar>b\<bar>"] assms(2) by simp
  have nn: "0 \<le> \<bar>a\<bar> div \<bar>b\<bar>" using assms(2) by (simp add: pos_imp_zdiv_nonneg_iff)
  have bnd: "\<bar>a\<bar> \<le> 2 ^ 63" using assms(1) by (auto simp: int64_defs)
  show ?thesis
  proof (cases "\<bar>a\<bar> div \<bar>b\<bar> < 2 ^ 63")
    case True
    with nn show ?thesis by (auto simp: cdiv_def int64_defs sgn_if)
  next
    case False
    with le bnd have a: "\<bar>a\<bar> = 2 ^ 63" and q: "\<bar>a\<bar> div \<bar>b\<bar> = \<bar>a\<bar>" by auto
    have "\<bar>b\<bar> = 1"
    proof (rule ccontr)
      assume "\<bar>b\<bar> \<noteq> 1"
      with assms(2) have "1 < \<bar>b\<bar>" by linarith
      with int_div_less_self [of "\<bar>a\<bar>" "\<bar>b\<bar>"] a q show False by simp
    qed
    moreover from a assms(1) have "a = INT64_MIN" by (auto simp: int64_defs abs_if split: if_splits)
    ultimately show ?thesis using assms(3) by (auto simp: cdiv_def int64_defs abs_if split: if_splits)
  qed
qed

lemma safe_div_spec:
  assumes "in_int64 a"
  shows "safe_div a b =
    (if b = 0 then Inl divide_by_zero_exception
     else if a = INT64_MIN \<and> b = - 1 then Inl overflow_exception
     else Inr (cdiv a b))"
  using cdiv_in_int64 [OF assms] by (auto simp: safe_div_def)

text \<open>
  \<open>fc::safe\<close> arithmetic is exact: on 64-bit arguments a sum, difference or product is
  returned exactly if it fits, and otherwise the exception tells on which side it left the range;
  a quotient truncates towards zero and fails only for a zero divisor and the one quotient that
  does not fit. The checks themselves never overflow.
\<close>

theorem safe_arithmetic_exact:
  assumes "in_int64 a" "in_int64 b"
  shows "safe_add a b = (if in_int64 (a + b) then Inr (a + b)
           else if 0 < b then Inl overflow_exception else Inl underflow_exception) \<and>
    safe_sub a b = (if in_int64 (a - b) then Inr (a - b)
           else if 0 < b then Inl underflow_exception else Inl overflow_exception) \<and>
    safe_mul a b = (if in_int64 (a * b) then Inr (a * b)
           else if 0 < a \<longleftrightarrow> 0 < b then Inl overflow_exception else Inl underflow_exception) \<and>
    safe_div a b = (if b = 0 then Inl divide_by_zero_exception
           else if a = INT64_MIN \<and> b = - 1 then Inl overflow_exception else Inr (cdiv a b))"
  using safe_add_spec [OF assms] safe_sub_spec [OF assms] safe_mul_spec [OF assms] safe_div_spec [OF assms(1)]
  by blast

theorem safe_arithmetic_exact_witness:
  "safe_add INT64_MAX 1 = Inl overflow_exception \<and> safe_mul (2 ^ 62) (- 2) = Inr INT64_MIN"
  using safe_arithmetic_exact [of INT64_MAX 1] safe_arithmetic_exact [of "2 ^ 62" "- 2"]
  by (simp add: int64_defs)

end
