(* ===== verification/Asset.thy ===== *)
theory Asset
  imports Chain_Base
begin

text \<open>
  \<open>blockchain/Asset.cpp\<close> and \<open>Asset.hpp\<close>: amounts tagged with an asset id, the checked
  addition and subtraction, the comparisons that throw on different assets, and prices, i.e.
  128-bit decimal fractions with denominator \<open>10^18\<close>. \<open>fc::bigint\<close> is an OpenSSL bignum whose
  source is not part of the repository: its arithmetic is exact integer arithmetic, and the
  functions whose result is not determined by that, \<open>log2\<close>, \<open>to_int64\<close> and a division whose
  divisor may be zero, are the fields of the parameter \<open>bigint_lib\<close>.
\<close>

section \<open>Assets\<close>

record Asset =
  amount :: share
  asset_of :: asset_id

abbreviation mk_Asset :: "share \<Rightarrow> asset_id \<Rightarrow> Asset" where
  "mk_Asset a i \<equiv> \<lparr>amount = a, asset_of = i\<rparr>"

definition Asset_plus_eq :: "Asset \<Rightarrow> Asset \<Rightarrow> Asset result" where
  "Asset_plus_eq self ob =
     (if asset_of self \<noteq> asset_of ob then Inl assert_exception
      else if (amount ob > 0 \<and> amount self > INT64_MAX - amount ob) \<or>
              (amount ob < 0 \<and> amount self < INT64_MIN - amount ob) then Inl addition_overflow
      else Inr (self\<lparr>amount := wrap64 (amount self + amount ob)\<rparr>))"

definition Asset_minus_eq :: "Asset \<Rightarrow> Asset \<Rightarrow> Asset result" where
  "Asset_minus_eq self ob =
     (if asset_of self \<noteq> asset_of ob then Inl assert_exception
      else if (amount ob > 0 \<and> amount self < INT64_MIN + amount ob) \<or>
              (amount ob < 0 \<and> amount self > INT64_MAX + amount ob) then Inl subtraction_overflow
      else Inr (self\<lparr>amount := wrap64 (amount self - amount ob)\<rparr>))"

definition Asset_uminus :: "Asset \<Rightarrow> Asset" where
  "Asset_uminus self = mk_Asset (wrap64 (- amount self)) (asset_of self)"

definition Asset_eq :: "Asset \<Rightarrow> Asset \<Rightarrow> bool result" where
  "Asset_eq l r = ebind (ensure (asset_of l = asset_of r) assert_exception)
     (\<lambda>_. Inr (amount l = amount r))"

definition Asset_neq :: "Asset \<Rightarrow> Asset \<Rightarrow> bool result" where
  "Asset_neq l r = ebind (ensure (asset_of l = asset_of r) assert_exception)
     (\<lambda>_. Inr (amount l \<noteq> amount r))"

definition Asset_less :: "Asset \<Rightarrow> Asset \<Rightarrow> bool result" where
  "Asset_less l r = ebind (ensure (asset_of l = asset_of r) assert_exception)
     (\<lambda>_. Inr (amount l < amount r))"

definition Asset_greater :: "Asset \<Rightarrow> Asset \<Rightarrow> bool result" where
  "Asset_greater l r = ebind (ensure (asset_of l = asset_of r) assert_exception)
     (\<lambda>_. Inr (amount l > amount r))"

definition Asset_le :: "Asset \<Rightarrow> Asset \<Rightarrow> bool result" where
  "Asset_le l r = ebind (ensure (asset_of l = asset_of r) assert_exception)
     (\<lambda>_. Inr (asset_of l = asset_of r \<and> amount l \<le> amount r))"

definition Asset_ge :: "Asset \<Rightarrow> Asset \<Rightarrow> bool result" where
  "Asset_ge l r = ebind (ensure (asset_of l = asset_of r) assert_exception)
     (\<lambda>_. Inr (asset_of l = asset_of r \<and> amount l \<ge> amount r))"

definition Asset_plus :: "Asset \<Rightarrow> Asset \<Rightarrow> Asset result" where
  "Asset_plus l r = ebind (ensure (asset_of l = asset_of r) assert_exception)
     (\<lambda>_. Asset_plus_eq l r)"

definition Asset_minus :: "Asset \<Rightarrow> Asset \<Rightarrow> Asset result" where
  "Asset_minus l r = ebind (ensure (asset_of l = asset_of r) assert_exception)
     (\<lambda>_. Asset_minus_eq l r)"

lemmas Asset_op_defs =
  Asset_plus_eq_def Asset_minus_eq_def Asset_uminus_def Asset_eq_def Asset_neq_def
  Asset_less_def Asset_greater_def Asset_le_def Asset_ge_def Asset_plus_def Asset_minus_def

declare Asset_op_defs [eval_simps]

lemma Asset_plus_eq_spec:
  assumes "in_int64 (amount a)" "in_int64 (amount b)"
  shows "Asset_plus_eq a b =
    (if asset_of a \<noteq> asset_of b then Inl assert_exception
     else if in_int64 (amount a + amount b)
       then Inr (mk_Asset (amount a + amount b) (asset_of a))
     else Inl addition_overflow)"
proof (cases "in_int64 (amount a + amount b)")
  case True
  then show ?thesis using assms by (auto simp: Asset_plus_eq_def int64_defs wrap64_def)
next
  case False
  then show ?thesis using assms by (auto simp: Asset_plus_eq_def int64_defs)
qed

lemma Asset_minus_eq_spec:
  assumes "in_int64 (amount a)" "in_int64 (amount b)"
  shows "Asset_minus_eq a b =
    (if asset_of a \<noteq> asset_of b then Inl assert_exception
     else if in_int64 (amount a - amount b)
       then Inr (mk_Asset (amount a - amount b) (asset_of a))
     else Inl subtraction_overflow)"
proof (cases "in_int64 (amount a - amount b)")
  case True
  then show ?thesis using assms by (auto simp: Asset_minus_eq_def int64_defs wrap64_def)
next
  case False
  then show ?thesis using assms by (auto simp: Asset_minus_eq_def int64_defs)
qed

text \<open>
  Subtracting what has been added gives the amount back: \<open>-=\<close> undoes \<open>+=\<close> whenever
  the latter returns, and it returns exactly if the assets agree and the sum fits 64 bits.
\<close>

theorem asset_minus_undoes_plus:
  assumes "in_int64 (amount a)" "in_int64 (amount b)"
  shows "(\<exists>c. Asset_plus_eq a b = Inr c \<and> Asset_minus_eq c b = Inr a) \<longleftrightarrow>
    asset_of a = asset_of b \<and> in_int64 (amount a + amount b)"
  using assms Asset_plus_eq_spec [of a b] Asset_minus_eq_spec [of "mk_Asset (amount a + amount b) (asset_of a)" b]
  by (cases a) auto

theorem asset_minus_undoes_plus_witness:
  "\<exists>c. Asset_plus_eq (mk_Asset 5 1) (mk_Asset 7 1) = Inr c \<and> Asset_minus_eq c (mk_Asset 7 1) = Inr (mk_Asset 5 1)"
  using asset_minus_undoes_plus [of "mk_Asset 5 1" "mk_Asset 7 1"] by (simp add: int64_defs)

section \<open>Prices\<close>

record Price =
  ratio :: int
  base_asset_id :: asset_id
  quote_asset_id :: asset_id

record bigint_lib =
  bi_log2 :: "int \<Rightarrow> int"
  bi_to_int64 :: "int \<Rightarrow> share"
  bi_div :: "int \<Rightarrow> int \<Rightarrow> int"

definition FC_REAL128_PRECISION :: int where "FC_REAL128_PRECISION = 10 ^ 18"

definition Price_one :: int where "Price_one = 2 ^ 64"

definition Price_infinite :: int where "Price_infinite = u128 (- 1)"

definition is_infinite :: "Price \<Rightarrow> bool" where
  "is_infinite p \<longleftrightarrow> ratio p = Price_infinite"

definition Price_times :: "Price \<Rightarrow> Price \<Rightarrow> Price result" where
  "Price_times l r =
     (if quote_asset_id l \<noteq> quote_asset_id r then Inl assert_exception
      else if base_asset_id l \<noteq> base_asset_id r then Inl assert_exception
      else if is_infinite l then
        (if ratio r = 0 then Inl price_multiplication_undefined else Inr l)
      else if is_infinite r then
        (if ratio l = 0 then Inl price_multiplication_undefined else Inr r)
      else if ratio l = 0 then Inr l
      else if ratio r = 0 then Inr r
      else
        let product = (ratio l * ratio r) div FC_REAL128_PRECISION in
        if product = 0 then Inl price_multiplication_underflow
        else if product \<ge> Price_infinite then Inl price_multiplication_overflow
        else Inr \<lparr>ratio = u128 product, base_asset_id = base_asset_id l,
                  quote_asset_id = quote_asset_id l\<rparr>)"

definition Price_eq :: "Price \<Rightarrow> Price \<Rightarrow> bool" where
  "Price_eq l r \<longleftrightarrow> ratio l = ratio r"

definition Price_less :: "Price \<Rightarrow> Price \<Rightarrow> bool" where
  "Price_less l r =
     (if quote_asset_id l < quote_asset_id r then True
      else if quote_asset_id l > quote_asset_id r then False
      else if base_asset_id l < base_asset_id r then True
      else if base_asset_id l > base_asset_id r then False
      else ratio l < ratio r)"

definition Price_greater :: "Price \<Rightarrow> Price \<Rightarrow> bool" where
  "Price_greater l r =
     (if quote_asset_id l > quote_asset_id r then True
      else if quote_asset_id l < quote_asset_id r then False
      else if base_asset_id l > base_asset_id r then True
      else if base_asset_id l < base_asset_id r then False
      else ratio l > ratio r)"

text \<open>
  \<open>Asset / Asset\<close>. The bignum constructor takes a \<open>uint64_t\<close>, so an amount enters as its
  unsigned reading.
\<close>

definition Asset_div :: "Asset \<Rightarrow> Asset \<Rightarrow> Price result" where
  "Asset_div a b =
     (if asset_of a = asset_of b then Inl asset_divide_by_self
      else
        let (l, r) = (if asset_of a < asset_of b then (b, a) else (a, b)) in
        if amount r = 0 then Inl asset_divide_by_zero
        else Inr \<lparr>ratio = u128 ((u64 (amount l) * FC_REAL128_PRECISION) div u64 (amount r)),
                  base_asset_id = asset_of r, quote_asset_id = asset_of l\<rparr>)"

definition Asset_times_Price :: "bigint_lib \<Rightarrow> Asset \<Rightarrow> Price \<Rightarrow> Asset result" where
  "Asset_times_Price bi a p =
     (if asset_of a = base_asset_id p then
        let amnt = (u64 (amount a) * ratio p) div FC_REAL128_PRECISION in
        if bi_log2 bi amnt \<ge> 128 then Inl addition_overflow
        else Inr (mk_Asset (bi_to_int64 bi amnt) (quote_asset_id p))
      else if asset_of a = quote_asset_id p then
        let res = bi_div bi (u64 (amount a) * FC_REAL128_PRECISION) (ratio p) in
        if bi_log2 bi res \<ge> 128 then Inl addition_overflow
        else Inr (mk_Asset (bi_to_int64 bi res) (base_asset_id p))
      else Inl asset_type_mismatch)"

definition Asset_div_Price :: "bigint_lib \<Rightarrow> Asset \<Rightarrow> Price \<Rightarrow> Asset result" where
  "Asset_div_Price bi a p = Asset_times_Price bi a p"

declare FC_REAL128_PRECISION_def [eval_simps] Price_infinite_def [eval_simps]
  Price_times_def [eval_simps] Asset_div_def [eval_simps] Asset_times_Price_def [eval_simps]

lemma Price_less_strict_order:
  "\<not> Price_less p p"
  "Price_less p q \<Longrightarrow> Price_less q r \<Longrightarrow> Price_less p r"
  "Price_greater p q \<longleftrightarrow> Price_less q p"
  by (auto simp: Price_less_def Price_greater_def split: if_splits)

end
