(* ===== verification/Chain_Types.thy ===== *)
theory Chain_Types
  imports Asset
begin

text \<open>
  The data the chain keeps and the transactions that change it: withdraw conditions, the
  entry structs of the database, the operations, and transactions. A \<open>std::vector<char>\<close> that
  holds a packed value (\<open>WithdrawCondition::data\<close>, \<open>Operation::data\<close>, ...) is represented by
  the value that \<open>fc::raw::unpack\<close> yields at the type its tag announces, with a constructor
  for bytes that do not unpack; code only ever unpacks after it has compared the tag.
  \<open>fc::variant\<close> payloads are represented by their JSON text.
\<close>

section \<open>Withdraw conditions\<close>

abbreviation (input) withdraw_null_type :: nat where "withdraw_null_type \<equiv> 0"
abbreviation (input) withdraw_signature_type :: nat where "withdraw_signature_type \<equiv> 1"
abbreviation (input) withdraw_multisig_type :: nat where "withdraw_multisig_type \<equiv> 3"
abbreviation (input) withdraw_escrow_type :: nat where "withdraw_escrow_type \<equiv> 6"

abbreviation (input) withdraw_common_type :: nat where "withdraw_common_type \<equiv> 0"
abbreviation (input) withdraw_contract_type :: nat where "withdraw_contract_type \<equiv> 1"
abbreviation (input) withdraw_margin_type :: nat where "withdraw_margin_type \<equiv> 2"

type_synonym memo = string
type_synonym variant = string

record WithdrawWithSignature =
  sig_owner :: address
  sig_memo :: "memo option"

record WithdrawWithMultisig =
  msig_required :: nat
  msig_owners :: "address list"
  msig_memo :: "memo option"

record withdraw_with_escrow =
  esc_sender :: address
  esc_receiver :: address
  esc_escrow :: address
  esc_agreement_digest :: digest
  esc_memo :: "memo option"

datatype withdraw_data =
    data_signature WithdrawWithSignature
  | data_multisig WithdrawWithMultisig
  | data_escrow withdraw_with_escrow
  | data_raw string

record WithdrawCondition =
  cond_asset_id :: asset_id
  cond_slate_id :: slate_id
  cond_type :: nat
  cond_balance_type :: nat
  cond_data :: withdraw_data

definition as_WithdrawWithSignature :: "WithdrawCondition \<Rightarrow> WithdrawWithSignature result" where
  "as_WithdrawWithSignature c =
     (if cond_type c \<noteq> withdraw_signature_type then Inl assert_exception
      else case cond_data c of data_signature d \<Rightarrow> Inr d | _ \<Rightarrow> Inl out_of_range_exception)"

definition as_WithdrawWithMultisig :: "WithdrawCondition \<Rightarrow> WithdrawWithMultisig result" where
  "as_WithdrawWithMultisig c =
     (if cond_type c \<noteq> withdraw_multisig_type then Inl assert_exception
      else case cond_data c of data_multisig d \<Rightarrow> Inr d | _ \<Rightarrow> Inl out_of_range_exception)"

definition as_withdraw_with_escrow :: "WithdrawCondition \<Rightarrow> withdraw_with_escrow result" where
  "as_withdraw_with_escrow c =
     (if cond_type c \<noteq> withdraw_escrow_type then Inl assert_exception
      else case cond_data c of data_escrow d \<Rightarrow> Inr d | _ \<Rightarrow> Inl out_of_range_exception)"

text \<open>\<open>WithdrawCondition(WithdrawWithSignature(owner), asset_id, slate_id, balance_type)\<close>.\<close>

definition signature_condition ::
  "address \<Rightarrow> asset_id \<Rightarrow> slate_id \<Rightarrow> nat \<Rightarrow> WithdrawCondition" where
  "signature_condition ow aid sid bt =
     \<lparr>cond_asset_id = aid, cond_slate_id = sid, cond_type = withdraw_signature_type,
      cond_balance_type = bt,
      cond_data = data_signature \<lparr>sig_owner = ow, sig_memo = None\<rparr>\<rparr>"

definition condition_owners :: "WithdrawCondition \<Rightarrow> address list result" where
  "condition_owners c =
     (if cond_type c = withdraw_signature_type then
        ebind (as_WithdrawWithSignature c) (\<lambda>d. Inr [sig_owner d])
      else if cond_type c = withdraw_multisig_type then
        ebind (as_WithdrawWithMultisig c) (\<lambda>d. Inr (msig_owners d))
      else if cond_type c = withdraw_escrow_type then
        ebind (as_withdraw_with_escrow c)
          (\<lambda>d. Inr (sset_insert (esc_sender d) (sset_insert (esc_receiver d) [esc_escrow d])))
      else Inr [])"

definition condition_owner :: "WithdrawCondition \<Rightarrow> address option result" where
  "condition_owner c =
     (if cond_type c = withdraw_signature_type then
        ebind (as_WithdrawWithSignature c) (\<lambda>d. Inr (Some (sig_owner d)))
      else Inr None)"

declare as_WithdrawWithSignature_def [eval_simps] as_WithdrawWithMultisig_def [eval_simps]
  as_withdraw_with_escrow_def [eval_simps] signature_condition_def [eval_simps]
  condition_owners_def [eval_simps] condition_owner_def [eval_simps]

section \<open>Entries of the database\<close>

record BalanceEntry =
  bal_condition :: WithdrawCondition
  bal_balance :: share
  bal_restricted_owner :: "address option"
  bal_snapshot_info :: "(string \<times> share) option"
  bal_deposit_date :: time
  bal_last_update :: time
  bal_meta_data :: variant

record MultisigMetaInfo =
  mm_required :: nat
  mm_owners :: "address list"

abbreviation (input) retractable :: "32 word" where "retractable \<equiv> 1"
abbreviation (input) restricted :: "32 word" where "restricted \<equiv> 2"
abbreviation (input) market_halt :: "32 word" where "market_halt \<equiv> 4"
abbreviation (input) balance_halt :: "32 word" where "balance_halt \<equiv> 8"
abbreviation (input) supply_unlimit :: "32 word" where "supply_unlimit \<equiv> 16"

record AssetEntry =
  ast_id :: asset_id
  ast_symbol :: string
  ast_name :: string
  ast_description :: string
  ast_public_data :: variant
  ast_issuer_account_id :: account_id
  ast_precision :: nat
  ast_registration_date :: time
  ast_last_update :: time
  ast_maximum_share_supply :: share
  ast_current_share_supply :: share
  ast_collected_fees :: share
  ast_flags :: "32 word"
  ast_issuer_permissions :: "32 word"
  ast_transaction_fee :: share
  ast_market_fee :: nat
  ast_authority :: MultisigMetaInfo

abbreviation (input) titan_account :: nat where "titan_account \<equiv> 0"
abbreviation (input) public_account :: nat where "public_account \<equiv> 1"
abbreviation (input) multisig_account :: nat where "multisig_account \<equiv> 2"

record AccountMetaInfo =
  meta_type :: nat
  meta_info :: string

record DelegateStats =
  votes_for :: share
  pay_rate :: nat
  signing_key_history :: "(nat \<times> public_key) list"
  last_block_num_produced :: nat
  next_secret_hash :: "digest option"
  pay_balance :: share
  total_paid :: share
  total_burned :: share
  blocks_produced :: nat
  blocks_missed :: nat

record AccountEntry =
  acc_id :: account_id
  acc_name :: string
  acc_public_data :: variant
  acc_owner_key :: public_key
  acc_active_key_history :: "(time \<times> public_key) list"
  acc_registration_date :: time
  acc_last_update :: time
  acc_delegate_info :: "DelegateStats option"
  acc_meta_data :: "AccountMetaInfo option"

datatype VoteDel = VoteDel (vd_votes: share) (vd_delegate_id: account_id)

record SlateEntry =
  sl_slate :: "account_id list"
  sl_duplicate_slate :: "account_id list"

datatype SlotIndex = SlotIndex (slot_delegate_id: account_id) (slot_timestamp: time)

record SlotEntry =
  slot_index :: SlotIndex
  slot_block_id :: "block_id option"

datatype PropertyIdType =
    database_version | chain_id | last_asset_id | last_account_id | active_delegate_list_id
  | last_random_seed_id | statistics_enabled | confirmation_requirement | dirty_markets
  | node_vm_enabled

text \<open>The \<open>variant\<close> of a property entry, by the type the code reads it back at.\<close>

datatype property_value =
    pv_int int
  | pv_bool bool
  | pv_ids "account_id list"
  | pv_digest digest

record PropertyEntry =
  prop_id :: PropertyIdType
  prop_value :: property_value

datatype ContractLevel = temp | forever
datatype ContractState = contract_valid | contract_deleted

record Code =
  code_abi :: "string list"
  code_offline_abi :: "string list"
  code_events :: "string list"
  code_storage_properties :: "(string \<times> nat) list"
  code_byte_code :: "nat list"
  code_hash :: string

record ContractEntry =
  con_contract_name :: string
  con_id :: address
  con_level :: ContractLevel
  con_owner :: public_key
  con_state :: ContractState
  con_description :: string
  con_code :: Code
  con_reserved :: "nat option"
  con_trx_id :: trx_id
  con_register_time :: nat

text \<open>
  Lua values a contract stores. A \<open>double\<close> is represented by its 64-bit pattern; the code
  copies it and never computes with it. \<open>storage_raw\<close> is a tag the chain does not interpret
  (streams, unknown tables, user data) with its bytes.
\<close>

datatype StorageDataType =
    storage_null int
  | storage_int int
  | storage_number "64 word"
  | storage_bool bool
  | storage_string string
  | storage_int_table "(string \<times> int) list"
  | storage_number_table "(string \<times> 64 word) list"
  | storage_bool_table "(string \<times> bool) list"
  | storage_string_table "(string \<times> string) list"
  | storage_int_array "(string \<times> int) list"
  | storage_number_array "(string \<times> 64 word) list"
  | storage_bool_array "(string \<times> bool) list"
  | storage_string_array "(string \<times> string) list"
  | storage_raw nat string

record ContractStorageEntry =
  cst_id :: address
  cst_contract_storages :: "(string \<times> StorageDataType) list"

section \<open>Operations\<close>

record WithdrawOperation =
  wd_balance_id :: address
  wd_amount :: share
  wd_claim_input_data :: string

record DepositOperation =
  dep_amount :: share
  dep_condition :: WithdrawCondition

record WithdrawContractOperation =
  wc_balance_id :: address
  wc_amount :: share
  wc_contract :: address

record DepositContractOperation =
  dc_amount :: share
  dc_condition :: WithdrawCondition

record BalancesWithdrawOperation =
  bw_balances :: "(address \<times> share) list"

record UpdateBalanceVoteOperation =
  ubv_balance_id :: address
  ubv_new_restricted_owner :: "address option"
  ubv_new_slate :: slate_id

record RegisterAccountOperation =
  ra_name :: string
  ra_public_data :: variant
  ra_owner_key :: public_key
  ra_active_key :: public_key
  ra_delegate_pay_rate :: nat
  ra_meta_data :: "AccountMetaInfo option"

record UpdateAccountOperation =
  ua_account_id :: account_id
  ua_public_data :: "variant option"
  ua_active_key :: "public_key option"
  ua_delegate_pay_rate :: nat

record UpdateSigningKeyOperation =
  usk_account_id :: account_id
  usk_signing_key :: public_key

record WithdrawPayOperation =
  wp_amount :: share
  wp_account_id :: account_id

record CreateAssetOperation =
  ca_symbol :: string
  ca_name :: string
  ca_description :: string
  ca_public_data :: variant
  ca_issuer_account_id :: account_id
  ca_maximum_share_supply :: share
  ca_precision :: nat

record UpdateAssetOperation =
  upa_asset_id :: asset_id
  upa_name :: "string option"
  upa_description :: "string option"
  upa_public_data :: "variant option"
  upa_maximum_share_supply :: "share option"
  upa_precision :: "nat option"

record UpdateAssetExtOperation = UpdateAssetOperation +
  upx_flags :: "32 word"
  upx_issuer_permissions :: "32 word"
  upx_issuer_account_id :: account_id
  upx_market_fee :: nat
  upx_transaction_fee :: share
  upx_authority :: MultisigMetaInfo

record DefineSlateOperation =
  ds_slate :: "account_id list"

record EventOperation =
  ev_id :: address
  ev_event_type :: string
  ev_event_param :: string
  ev_is_truncated :: bool

record StorageDataChangeType =
  storage_before :: StorageDataType
  storage_after :: StorageDataType

record StorageOperation =
  st_contract_id :: address
  st_contract_change_storages :: "(string \<times> StorageDataChangeType) list"

record RegisterContractOperation =
  rc_contract_code :: Code
  rc_initcost :: Asset
  rc_transaction_fee :: Asset
  rc_balances :: "(address \<times> share) list"
  rc_owner :: public_key
  rc_register_time :: nat

record UpgradeContractOperation =
  uc_id :: address
  uc_name :: string
  uc_desc :: string
  uc_exec_limit :: Asset
  uc_transaction_fee :: Asset
  uc_balances :: "(address \<times> share) list"

record DestroyContractOperation =
  dst_id :: address
  dst_exec_limit :: Asset
  dst_transaction_fee :: Asset
  dst_balances :: "(address \<times> share) list"

record CallContractOperation =
  cc_caller :: public_key
  cc_balances :: "(address \<times> share) list"
  cc_contract :: address
  cc_costlimit :: Asset
  cc_transaction_fee :: Asset
  cc_method :: string
  cc_args :: string

record TransferContractOperation =
  tc_from :: public_key
  tc_costlimit :: Asset
  tc_transaction_fee :: Asset
  tc_transfer_amount :: Asset
  tc_balances :: "(address \<times> share) list"
  tc_contract_id :: address

record ContractInfoOperation =
  ci_contract_id :: address
  ci_owner :: public_key
  ci_code :: Code
  ci_register_time :: nat

record OnDestroyOperation =
  od_id :: address
  od_amount :: Asset

record OnUpgradeOperation =
  ou_id :: address
  ou_name :: string
  ou_desc :: string

text \<open>
  \<open>Operation\<close>, a tag and packed bytes, with the struct the bytes unpack to at that tag;
  \<open>raw_op\<close> is any other pair: a tag the factory does not know or bytes it cannot unpack.
  \<open>SignedTransaction\<close> and \<open>TransactionOperation\<close> contain each other.
\<close>

datatype Operation =
    withdraw_op WithdrawOperation
  | deposit_op DepositOperation
  | register_account_op RegisterAccountOperation
  | update_account_op UpdateAccountOperation
  | withdraw_pay_op WithdrawPayOperation
  | create_asset_op CreateAssetOperation
  | update_asset_op UpdateAssetOperation
  | issue_asset_op Asset
  | define_slate_op DefineSlateOperation
  | update_signing_key_op UpdateSigningKeyOperation
  | update_balance_vote_op UpdateBalanceVoteOperation
  | update_asset_ext_op UpdateAssetExtOperation
  | imessage_memo_op string
  | contract_info_op ContractInfoOperation
  | register_contract_op RegisterContractOperation
  | upgrade_contract_op UpgradeContractOperation
  | destroy_contract_op DestroyContractOperation
  | call_contract_op CallContractOperation
  | transfer_contract_op TransferContractOperation
  | withdraw_contract_op WithdrawContractOperation
  | deposit_contract_op DepositContractOperation
  | balances_withdraw_op BalancesWithdrawOperation
  | transaction_op SignedTransaction
  | storage_op StorageOperation
  | event_op EventOperation
  | on_destroy_op OnDestroyOperation
  | on_upgrade_op OnUpgradeOperation
  | on_call_success_op
  | raw_op nat
and SignedTransaction = SignedTransaction
  (expiration: time)
  (reserved: "nat option")
  (alp_account: string)
  (alp_inport_asset: Asset)
  (operations: "Operation list")
  (result_trx_type: nat)
  (result_trx_id: trx_id)
  (signatures: "nat list")

fun op_type :: "Operation \<Rightarrow> nat" where
  "op_type (withdraw_op _) = 1"
| "op_type (deposit_op _) = 2"
| "op_type (register_account_op _) = 3"
| "op_type (update_account_op _) = 4"
| "op_type (withdraw_pay_op _) = 5"
| "op_type (create_asset_op _) = 6"
| "op_type (update_asset_op _) = 7"
| "op_type (issue_asset_op _) = 8"
| "op_type (define_slate_op _) = 18"
| "op_type (update_signing_key_op _) = 24"
| "op_type (update_balance_vote_op _) = 27"
| "op_type (update_asset_ext_op _) = 30"
| "op_type (imessage_memo_op _) = 66"
| "op_type (contract_info_op _) = 68"
| "op_type (register_contract_op _) = 70"
| "op_type (upgrade_contract_op _) = 71"
| "op_type (destroy_contract_op _) = 72"
| "op_type (call_contract_op _) = 73"
| "op_type (transfer_contract_op _) = 74"
| "op_type (withdraw_contract_op _) = 80"
| "op_type (deposit_contract_op _) = 82"
| "op_type (balances_withdraw_op _) = 88"
| "op_type (transaction_op _) = 90"
| "op_type (storage_op _) = 91"
| "op_type (event_op _) = 100"
| "op_type (on_destroy_op _) = 108"
| "op_type (on_upgrade_op _) = 109"
| "op_type on_call_success_op = 110"
| "op_type (raw_op t) = t"

abbreviation (input) register_contract_op_type :: nat where "register_contract_op_type \<equiv> 70"
abbreviation (input) transfer_contract_op_type :: nat where "transfer_contract_op_type \<equiv> 74"
abbreviation (input) withdraw_contract_op_type :: nat where "withdraw_contract_op_type \<equiv> 80"
abbreviation (input) transaction_op_type :: nat where "transaction_op_type \<equiv> 90"
abbreviation (input) on_destroy_op_type :: nat where "on_destroy_op_type \<equiv> 108"
abbreviation (input) on_upgrade_op_type :: nat where "on_upgrade_op_type \<equiv> 109"
abbreviation (input) on_call_success_op_type :: nat where "on_call_success_op_type \<equiv> 110"

abbreviation (input) origin_transaction :: nat where "origin_transaction \<equiv> 0"
abbreviation (input) complete_result_transaction :: nat where "complete_result_transaction \<equiv> 1"
abbreviation (input) incomplete_result_transaction :: nat where "incomplete_result_transaction \<equiv> 2"

section \<open>Transaction entries\<close>

text \<open>
  The reflected fields of \<open>TransactionEvaluationState\<close>, which a \<open>TransactionEntry\<close> carries
  into the database; the working fields of an evaluation extend this record (theory
  \<open>Eval_State\<close>).
\<close>

record eval_data =
  es_trx :: SignedTransaction
  es_signed_keys :: "address list"
  es_validation_error :: "chain_error option"
  es_deposits :: "(asset_id \<times> share) list"
  es_withdraws :: "(asset_id \<times> share) list"
  es_yield :: "(asset_id \<times> share) list"
  es_deltas :: "(nat \<times> (asset_id \<times> share) list) list"
  es_required_fees :: Asset
  es_alt_fees_paid :: Asset
  es_balance :: "(asset_id \<times> share) list"
  es_delegate_vote_deltas :: "(account_id \<times> share) list"
  es_imessage_length :: int
  es_skipexec :: bool

record TransactionLocation =
  loc_block_num :: nat
  loc_trx_num :: nat

record TransactionEntry = eval_data +
  chain_location :: TransactionLocation

section \<open>The orders of the ordered containers\<close>

text \<open>
  \<open>operator <\<close> of \<open>VoteDel\<close> (most votes first, lowest id on a tie), of \<open>SlotIndex\<close> (newest
  first) and of the property ids, as the linear orders of their types.
\<close>

definition VoteDel_less :: "VoteDel \<Rightarrow> VoteDel \<Rightarrow> bool" where
  "VoteDel_less a b \<longleftrightarrow>
     (if vd_votes a \<noteq> vd_votes b then vd_votes a > vd_votes b
      else vd_delegate_id a < vd_delegate_id b)"

instantiation VoteDel :: linorder
begin

definition less_VoteDel :: "VoteDel \<Rightarrow> VoteDel \<Rightarrow> bool" where
  "less_VoteDel = VoteDel_less"

definition less_eq_VoteDel :: "VoteDel \<Rightarrow> VoteDel \<Rightarrow> bool" where
  "less_eq_VoteDel a b \<longleftrightarrow> a < b \<or> a = b"

instance
  by standard
    (auto simp: less_VoteDel_def VoteDel_less_def less_eq_VoteDel_def split: if_splits intro: VoteDel.expand)

end

definition SlotIndex_less :: "SlotIndex \<Rightarrow> SlotIndex \<Rightarrow> bool" where
  "SlotIndex_less a b \<longleftrightarrow>
     slot_delegate_id a > slot_delegate_id b \<or>
     slot_delegate_id a = slot_delegate_id b \<and> slot_timestamp a > slot_timestamp b"

instantiation SlotIndex :: linorder
begin

definition less_SlotIndex :: "SlotIndex \<Rightarrow> SlotIndex \<Rightarrow> bool" where
  "less_SlotIndex = SlotIndex_less"

definition less_eq_SlotIndex :: "SlotIndex \<Rightarrow> SlotIndex \<Rightarrow> bool" where
  "less_eq_SlotIndex a b \<longleftrightarrow> a < b \<or> a = b"

instance
  by standard
    (auto simp: less_SlotIndex_def SlotIndex_less_def less_eq_SlotIndex_def split: if_splits intro: SlotIndex.expand)

end

fun property_number :: "PropertyIdType \<Rightarrow> nat" where
  "property_number database_version = 0"
| "property_number chain_id = 1"
| "property_number last_asset_id = 2"
| "property_number last_account_id = 3"
| "property_number active_delegate_list_id = 4"
| "property_number last_random_seed_id = 5"
| "property_number statistics_enabled = 6"
| "property_number confirmation_requirement = 7"
| "property_number dirty_markets = 8"
| "property_number node_vm_enabled = 9"

lemma property_number_inj: "property_number a = property_number b \<Longrightarrow> a = b"
  by (cases a; cases b) simp_all

instantiation PropertyIdType :: linorder
begin

definition less_PropertyIdType :: "PropertyIdType \<Rightarrow> PropertyIdType \<Rightarrow> bool" where
  "less_PropertyIdType a b \<longleftrightarrow> property_number a < property_number b"

definition less_eq_PropertyIdType :: "PropertyIdType \<Rightarrow> PropertyIdType \<Rightarrow> bool" where
  "less_eq_PropertyIdType a b \<longleftrightarrow> property_number a \<le> property_number b"

instance
  by standard
    (auto simp: less_PropertyIdType_def less_eq_PropertyIdType_def dest: property_number_inj)

end

declare less_VoteDel_def [eval_simps] VoteDel_less_def [eval_simps]
  less_SlotIndex_def [eval_simps] SlotIndex_less_def [eval_simps]
  less_PropertyIdType_def [eval_simps]

section \<open>The functions of other libraries\<close>

text \<open>
  Hashing, packing, signature recovery and the Lua virtual machine are not part of the chain
  logic: the operations take them as the argument \<open>env\<close>. \<open>creating_transaction_id\<close> is the
  JSON text of the object with that key; \<open>u128_div_zero\<close> is what the 128-bit division of the
  binary library returns for a zero divisor. So are the values that
  \<open>get_chain_id\<close> and \<open>get_statistics_enabled\<close> keep in function-static variables, which are
  constants of the process once they have been read.
\<close>

record env =
  the_chain_id :: digest
  the_statistics_enabled :: bool
  wall_clock :: time
  cond_address :: "WithdrawCondition \<Rightarrow> address"
  key_address :: "public_key \<Rightarrow> address"
  pts_address :: "public_key \<Rightarrow> bool \<Rightarrow> nat \<Rightarrow> address"
  recover_key :: "nat \<Rightarrow> digest \<Rightarrow> bool \<Rightarrow> public_key result"
  null_key :: public_key
  trx_digest :: "SignedTransaction \<Rightarrow> digest \<Rightarrow> digest"
  trx_hash_id :: "SignedTransaction \<Rightarrow> trx_id"
  trx_data_size :: "SignedTransaction \<Rightarrow> nat"
  op_hash :: "Operation \<Rightarrow> digest"
  slate_hash :: "account_id list \<Rightarrow> slate_id"
  contract_hash_id :: "RegisterContractOperation \<Rightarrow> address"
  code_sha :: "Code \<Rightarrow> string"
  creating_transaction_id :: "trx_id \<Rightarrow> variant"
  u128_div_zero :: "int \<Rightarrow> int"

end
