(* ===== verification/Entries.thy ===== *)
theory Entries
  imports Chain_Types
begin

text \<open>
  The member functions of the entry structs that do not touch the database:
  \<open>AccountEntry.cpp\<close>, \<open>AssetEntry.cpp\<close>, \<open>BalanceEntry.cpp\<close> and \<open>SlateEntry.cpp\<close>.
\<close>

unbundle bit_operations_syntax

section \<open>AccountEntry\<close>

definition is_delegate :: "AccountEntry \<Rightarrow> bool" where
  "is_delegate a \<longleftrightarrow> acc_delegate_info a \<noteq> None"

definition delegate_pay_balance :: "AccountEntry \<Rightarrow> share result" where
  "delegate_pay_balance a =
     (case acc_delegate_info a of None \<Rightarrow> Inl assert_exception | Some d \<Rightarrow> Inr (pay_balance d))"

definition net_votes :: "AccountEntry \<Rightarrow> share result" where
  "net_votes a =
     (case acc_delegate_info a of None \<Rightarrow> Inl assert_exception | Some d \<Rightarrow> Inr (votes_for d))"

definition adjust_votes_for :: "AccountEntry \<Rightarrow> share \<Rightarrow> AccountEntry result" where
  "adjust_votes_for a delta =
     (case acc_delegate_info a of None \<Rightarrow> Inl assert_exception
      | Some d \<Rightarrow> Inr (a\<lparr>acc_delegate_info :=
                        Some (d\<lparr>votes_for := wrap64 (votes_for d + delta)\<rparr>)\<rparr>))"

definition active_key :: "AccountEntry \<Rightarrow> public_key result" where
  "active_key a =
     (if acc_active_key_history a = [] then Inl assert_exception
      else Inr (snd (last (acc_active_key_history a))))"

definition is_retracted :: "env \<Rightarrow> AccountEntry \<Rightarrow> bool result" where
  "is_retracted E a = ebind (active_key a) (\<lambda>k. Inr (k = null_key E))"

definition active_address :: "env \<Rightarrow> AccountEntry \<Rightarrow> address result" where
  "active_address E a = ebind (active_key a) (\<lambda>k. Inr (key_address E k))"

definition owner_address :: "env \<Rightarrow> AccountEntry \<Rightarrow> address" where
  "owner_address E a = key_address E (acc_owner_key a)"

definition set_active_key :: "AccountEntry \<Rightarrow> time \<Rightarrow> public_key \<Rightarrow> AccountEntry result" where
  "set_active_key a now new_key =
     (if now = 0 then Inl assert_exception
      else Inr (a\<lparr>acc_active_key_history := smap_set now new_key (acc_active_key_history a)\<rparr>))"

definition delegate_pay_rate :: "AccountEntry \<Rightarrow> nat" where
  "delegate_pay_rate a =
     (case acc_delegate_info a of None \<Rightarrow> 255 | Some d \<Rightarrow> pay_rate d)"

definition set_signing_key :: "AccountEntry \<Rightarrow> nat \<Rightarrow> public_key \<Rightarrow> AccountEntry result" where
  "set_signing_key a block_num key =
     (case acc_delegate_info a of None \<Rightarrow> Inl assert_exception
      | Some d \<Rightarrow> Inr (a\<lparr>acc_delegate_info :=
          Some (d\<lparr>signing_key_history := smap_set block_num key (signing_key_history d)\<rparr>)\<rparr>))"

definition signing_key :: "AccountEntry \<Rightarrow> public_key result" where
  "signing_key a =
     (case acc_delegate_info a of None \<Rightarrow> Inl assert_exception
      | Some d \<Rightarrow> if signing_key_history d = [] then Inl assert_exception
                  else Inr (snd (last (signing_key_history d))))"

definition signing_address :: "env \<Rightarrow> AccountEntry \<Rightarrow> address result" where
  "signing_address E a = ebind (signing_key a) (\<lambda>k. Inr (key_address E k))"

definition is_titan_account :: "AccountEntry \<Rightarrow> bool" where
  "is_titan_account a =
     (case acc_meta_data a of None \<Rightarrow> False | Some m \<Rightarrow> meta_type m = titan_account)"

lemmas account_method_defs =
  is_delegate_def delegate_pay_balance_def net_votes_def adjust_votes_for_def active_key_def
  is_retracted_def active_address_def owner_address_def set_active_key_def delegate_pay_rate_def
  set_signing_key_def signing_key_def signing_address_def is_titan_account_def

declare account_method_defs [eval_simps]

section \<open>AssetEntry\<close>

definition is_user_issued :: "AssetEntry \<Rightarrow> bool" where
  "is_user_issued a \<longleftrightarrow> ast_issuer_account_id a > 0"

definition is_retractable :: "AssetEntry \<Rightarrow> bool" where
  "is_retractable a \<longleftrightarrow> is_user_issued a \<and> (ast_flags a AND retractable) \<noteq> 0"

definition is_restricted :: "AssetEntry \<Rightarrow> bool" where
  "is_restricted a \<longleftrightarrow> is_user_issued a \<and> (ast_flags a AND restricted) \<noteq> 0"

definition is_balance_frozen :: "AssetEntry \<Rightarrow> bool" where
  "is_balance_frozen a \<longleftrightarrow> is_user_issued a \<and> (ast_flags a AND balance_halt) \<noteq> 0"

definition is_supply_unlimited :: "AssetEntry \<Rightarrow> bool" where
  "is_supply_unlimited a \<longleftrightarrow> is_user_issued a \<and> (ast_flags a AND supply_unlimit) \<noteq> 0"

definition available_shares :: "AssetEntry \<Rightarrow> share" where
  "available_shares a = wrap64 (ast_maximum_share_supply a - ast_current_share_supply a)"

definition can_issue_amount :: "AssetEntry \<Rightarrow> share \<Rightarrow> bool" where
  "can_issue_amount a amnt =
     (if amnt \<le> 0 then False
      else let new_share_supply = wrap64 (ast_current_share_supply a + amnt) in
           new_share_supply > ast_current_share_supply a \<and>
           new_share_supply \<le> ast_maximum_share_supply a)"

definition can_issue :: "AssetEntry \<Rightarrow> Asset \<Rightarrow> bool" where
  "can_issue a x = (if ast_id a \<noteq> asset_of x then False else can_issue_amount a (amount x))"

declare is_user_issued_def [eval_simps] is_retractable_def [eval_simps]
  is_restricted_def [eval_simps] is_balance_frozen_def [eval_simps]
  is_supply_unlimited_def [eval_simps] available_shares_def [eval_simps]
  can_issue_amount_def [eval_simps] can_issue_def [eval_simps]

lemma can_issue_iff:
  assumes "in_int64 (ast_current_share_supply a)" "in_int64 (amount x)"
    "0 \<le> ast_current_share_supply a" "in_int64 (ast_maximum_share_supply a)"
  shows "can_issue a x \<longleftrightarrow>
    ast_id a = asset_of x \<and> 0 < amount x \<and>
    ast_current_share_supply a + amount x \<le> ast_maximum_share_supply a"
proof (cases "in_int64 (ast_current_share_supply a + amount x)")
  case True
  then show ?thesis by (auto simp: can_issue_def can_issue_amount_def)
next
  case False
  then have "wrap64 (ast_current_share_supply a + amount x) < ast_current_share_supply a"
    if "0 < amount x"
  proof -
    have "wrap64 (ast_current_share_supply a + amount x) =
        ast_current_share_supply a + amount x - 2 ^ 64"
      by (rule wrap64_over) (use False that assms in \<open>auto simp: int64_defs\<close>)
    with assms show ?thesis by (simp add: int64_defs)
  qed
  with False assms show ?thesis
    by (auto simp: can_issue_def can_issue_amount_def int64_defs)
qed

subsection \<open>asset\_from\_string\<close>

text \<open>
  The two scaling loops need not end, so each is a partial function whose value is
  \<^const>\<open>None\<close> when the loop runs forever. \<open>atoll\<close> is the C library function: leading
  white space, an optional sign, digits, saturating at the range of \<open>long long\<close>.
\<close>

definition char_code :: "char \<Rightarrow> int" where "char_code c = of_char c"

definition is_digit :: "char \<Rightarrow> bool" where
  "is_digit c \<longleftrightarrow> 48 \<le> char_code c \<and> char_code c \<le> 57"

definition is_space :: "char \<Rightarrow> bool" where
  "is_space c \<longleftrightarrow> char_code c = 32 \<or> (9 \<le> char_code c \<and> char_code c \<le> 13)"

fun digits_value :: "int \<Rightarrow> string \<Rightarrow> int" where
  "digits_value acc [] = acc"
| "digits_value acc (c # cs) =
     (if is_digit c then digits_value (acc * 10 + (char_code c - 48)) cs else acc)"

definition clamp64 :: "int \<Rightarrow> int" where
  "clamp64 x = max INT64_MIN (min INT64_MAX x)"

definition atoll :: "string \<Rightarrow> share" where
  "atoll s = (case dropWhile is_space s of
       [] \<Rightarrow> 0
     | c # cs \<Rightarrow> if c = CHR ''-'' then clamp64 (- digits_value 0 cs)
                 else if c = CHR ''+'' then clamp64 (digits_value 0 cs)
                 else clamp64 (digits_value 0 (c # cs)))"

partial_function (option) scale_up :: "int \<Rightarrow> int \<Rightarrow> int option" where
  "scale_up prec fraction =
     (if u32 fraction < prec then scale_up prec (wrap64 (fraction * 10)) else Some fraction)"

partial_function (option) scale_down :: "int \<Rightarrow> int \<Rightarrow> int option" where
  "scale_down prec fraction =
     (if u32 fraction \<ge> prec then scale_down prec (cdiv fraction 10) else Some fraction)"

fun strip_zeros :: "string \<Rightarrow> int \<Rightarrow> int" where
  "strip_zeros [] fraction = fraction"
| "strip_zeros (c # cs) fraction =
     (if c = CHR ''0'' then strip_zeros cs (cdiv fraction 10) else fraction)"

definition asset_from_string :: "AssetEntry \<Rightarrow> string \<Rightarrow> Asset option" where
  "asset_from_string a s =
     (let prec = int (ast_precision a);
          whole = wrap64 (atoll (takeWhile (\<lambda>c. c \<noteq> CHR ''.'') s) * prec);
          rest = dropWhile (\<lambda>c. c \<noteq> CHR ''.'') s
      in case rest of
           [] \<Rightarrow> Some (mk_Asset whole (ast_id a))
         | _ # fraction_string \<Rightarrow>
             (let fraction = atoll fraction_string in
              if fraction_string \<noteq> [] \<and> fraction > 0 then
                Option.bind (scale_up prec fraction) (\<lambda>f1.
                Option.bind (scale_down prec f1) (\<lambda>f2.
                  let f3 = strip_zeros fraction_string f2 in
                  Some (mk_Asset (if whole \<ge> 0 then wrap64 (whole + f3) else wrap64 (whole - f3))
                          (ast_id a))))
              else Some (mk_Asset whole (ast_id a))))"

section \<open>BalanceEntry and SlateEntry\<close>

definition balance_id :: "env \<Rightarrow> BalanceEntry \<Rightarrow> address" where
  "balance_id E b = cond_address E (bal_condition b)"

definition bal_asset_id :: "BalanceEntry \<Rightarrow> asset_id" where
  "bal_asset_id b = cond_asset_id (bal_condition b)"

definition bal_slate_id :: "BalanceEntry \<Rightarrow> slate_id" where
  "bal_slate_id b = cond_slate_id (bal_condition b)"

definition is_owner :: "BalanceEntry \<Rightarrow> address \<Rightarrow> bool result" where
  "is_owner b addr = ebind (condition_owners (bal_condition b)) (\<lambda>os. Inr (addr \<in> set os))"

definition get_spendable_balance :: "BalanceEntry \<Rightarrow> time \<Rightarrow> Asset" where
  "get_spendable_balance b at_time =
     (if cond_type (bal_condition b) \<in>
          {withdraw_signature_type, withdraw_escrow_type, withdraw_multisig_type}
      then mk_Asset (bal_balance b) (cond_asset_id (bal_condition b))
      else mk_Asset 0 0)"

text \<open>\<open>BalanceEntry(condition)\<close>, the constructor a first deposit uses.\<close>

definition new_balance :: "WithdrawCondition \<Rightarrow> BalanceEntry" where
  "new_balance c = \<lparr>bal_condition = c, bal_balance = 0, bal_restricted_owner = None,
     bal_snapshot_info = None, bal_deposit_date = 0, bal_last_update = 0, bal_meta_data = []\<rparr>"

definition slate_entry_id :: "env \<Rightarrow> SlateEntry \<Rightarrow> slate_id" where
  "slate_entry_id E s = (if sl_slate s = [] then 0 else slate_hash E (sl_slate s))"

declare balance_id_def [eval_simps] bal_asset_id_def [eval_simps] bal_slate_id_def [eval_simps]
  is_owner_def [eval_simps] get_spendable_balance_def [eval_simps] new_balance_def [eval_simps]
  slate_entry_id_def [eval_simps]

section \<open>A fraction whose low 32 bits are zero is never scaled\<close>

lemma u32_times_10: "u32 fraction = 0 \<Longrightarrow> u32 (wrap64 (fraction * 10)) = 0"
proof -
  assume "u32 fraction = 0"
  then have "2 ^ 32 dvd fraction * 10" by (simp only: u32_def flip: dvd_eq_mod_eq_0) (rule dvd_mult2)
  moreover have "(2 ^ 32 :: int) dvd 2 ^ 64" by (rule le_imp_power_dvd) simp
  ultimately have "2 ^ 32 dvd wrap64 (fraction * 10)"
    using wrap64_mod [of "fraction * 10"] dvd_mod_iff by metis
  then show ?thesis by (simp only: u32_def dvd_eq_mod_eq_0)
qed

lemma scale_up_ends:
  assumes "scale_up prec fraction = Some y"
  shows "0 < prec \<longrightarrow> u32 fraction \<noteq> 0"
proof (rule scale_up.raw_induct [OF _ assms])
  fix loop :: "int \<Rightarrow> int \<Rightarrow> int option" and prec fraction y
  assume IH: "\<And>prec fraction y. loop prec fraction = Some y \<Longrightarrow> 0 < prec \<longrightarrow> u32 fraction \<noteq> 0"
    and step: "(if u32 fraction < prec then loop prec (wrap64 (fraction * 10)) else Some fraction)
      = Some y"
  show "0 < prec \<longrightarrow> u32 fraction \<noteq> 0"
  proof (cases "u32 fraction < prec")
    case True
    with IH step have "0 < prec \<longrightarrow> u32 (wrap64 (fraction * 10)) \<noteq> 0" by simp
    then show ?thesis using u32_times_10 by blast
  qed auto
qed

end
