(* ===== verification/Names.thy ===== *)
theory Names
  imports Entries
begin

text \<open>
  The validity checks of \<open>ChainInterface.cpp\<close> on account names, asset symbols and contract
  names and descriptions, with the character classes of the \<open>C\<close> locale.
\<close>

definition isupper :: "char \<Rightarrow> bool" where
  "isupper c \<longleftrightarrow> 65 \<le> char_code c \<and> char_code c \<le> 90"

definition islower :: "char \<Rightarrow> bool" where
  "islower c \<longleftrightarrow> 97 \<le> char_code c \<and> char_code c \<le> 122"

definition isalpha :: "char \<Rightarrow> bool" where "isalpha c \<longleftrightarrow> isupper c \<or> islower c"
definition isalnum :: "char \<Rightarrow> bool" where "isalnum c \<longleftrightarrow> isalpha c \<or> is_digit c"

section \<open>Account names\<close>

definition before_dot :: "string \<Rightarrow> string" where
  "before_dot s = takeWhile (\<lambda>c. c \<noteq> CHR ''.'') s"

definition after_dot :: "string \<Rightarrow> string" where
  "after_dot s = tl (dropWhile (\<lambda>c. c \<noteq> CHR ''.'') s)"

lemma length_tl_dropWhile:
  assumes "s \<noteq> []" shows "length (tl (dropWhile P s)) < length s"
proof -
  have "length (dropWhile P s) \<le> length s" by (rule length_dropWhile_le)
  moreover have "0 < length s" using assms by simp
  ultimately show ?thesis unfolding length_tl by arith
qed

lemma length_after_dot: "s \<noteq> [] \<Longrightarrow> length (after_dot s) < length s"
  unfolding after_dot_def by (rule length_tl_dropWhile)

function is_valid_account_name :: "string \<Rightarrow> bool" where
  "is_valid_account_name name =
     (if length name < ALP_BLOCKCHAIN_MIN_NAME_SIZE then False
      else if length name > ALP_BLOCKCHAIN_MAX_NAME_SIZE then False
      else if \<not> isalpha (hd name) then False
      else if \<not> isalnum (last name) \<or> isupper (last name) then False
      else
        let subname = before_dot name; supername = after_dot name in
        if \<not> isalnum (last subname) \<or> isupper (last subname) then False
        else if \<not> list_all (\<lambda>c. isalnum c \<and> \<not> isupper c \<or> c = CHR ''-'') subname then False
        else if supername = [] then True
        else is_valid_account_name supername)"
  by pat_completeness auto
termination
  by (relation "measure length")
    (auto simp: config_defs intro: length_after_dot)

declare is_valid_account_name.simps [simp del]

section \<open>Symbols, contract names, descriptions\<close>

definition is_valid_symbol_name :: "string \<Rightarrow> bool result" where
  "is_valid_symbol_name symbol =
     (if symbol = ''ACT'' then Inl assert_exception
      else if length symbol < ALP_BLOCKCHAIN_MIN_SYMBOL_SIZE then Inl assert_exception
      else if \<not> list_all isupper symbol then Inl assert_exception
      else if length symbol > ALP_BLOCKCHAIN_MAX_SUB_SYMBOL_SIZE then Inl assert_exception
      else if take 3 symbol = ''ACT'' then Inl assert_exception
      else Inr True)"

definition is_valid_contract_name :: "string \<Rightarrow> bool" where
  "is_valid_contract_name name =
     (if length name = 0 \<or> length name > CONTRACT_MAX_NAME_SIZE then False
      else if \<not> (isupper (hd name) \<or> islower (hd name) \<or> hd name = CHR ''_'') then False
      else list_all (\<lambda>c. isupper c \<or> islower c \<or> is_digit c \<or> c = CHR ''_'') (tl name))"

definition is_valid_contract_description :: "string \<Rightarrow> bool" where
  "is_valid_contract_description description \<longleftrightarrow>
     \<not> (length description = 0 \<or> length description > CONTRACT_MAX_DESCRIPTION_SIZE)"

lemmas char_class_defs = isupper_def islower_def isalpha_def isalnum_def is_digit_def char_code_def

declare char_class_defs [eval_simps] is_valid_symbol_name_def [eval_simps]
  is_valid_contract_name_def [eval_simps] is_valid_contract_description_def [eval_simps]

section \<open>What an account name is\<close>

text \<open>
  A name is a sequence of labels separated by dots. The specification: one to sixty-three
  characters, and every label starts with a lower-case letter, ends with a lower-case letter
  or digit, and has only lower-case letters, digits and dashes.
\<close>

fun labels :: "string \<Rightarrow> string list" where
  "labels [] = [[]]"
| "labels (c # cs) =
     (if c = CHR ''.'' then [] # labels cs
      else case labels cs of [] \<Rightarrow> [[c]] | l # ls \<Rightarrow> (c # l) # ls)"

definition label_char :: "char \<Rightarrow> bool" where
  "label_char c \<longleftrightarrow> islower c \<or> is_digit c \<or> c = CHR ''-''"

definition valid_label :: "string \<Rightarrow> bool" where
  "valid_label l \<longleftrightarrow> l \<noteq> [] \<and> islower (hd l) \<and> (islower (last l) \<or> is_digit (last l)) \<and>
     list_all label_char l"

definition valid_name_spec :: "string \<Rightarrow> bool" where
  "valid_name_spec name \<longleftrightarrow> 1 \<le> length name \<and> length name \<le> 63 \<and> list_all valid_label (labels name)"

lemma labels_not_Nil [simp]: "labels s \<noteq> []"
  by (induction s rule: labels.induct) (auto split: list.splits)

lemma labels_split:
  "labels s = before_dot s # (if CHR ''.'' \<in> set s then labels (after_dot s) else [])"
  by (induction s) (auto simp: before_dot_def after_dot_def)

lemma isalnum_not_upper: "isalnum c \<and> \<not> isupper c \<longleftrightarrow> islower c \<or> is_digit c"
  by (auto simp: isalnum_def isalpha_def isupper_def islower_def is_digit_def)

lemma last_before_dot:
  assumes "CHR ''.'' \<notin> set s" shows "before_dot s = s"
  unfolding before_dot_def takeWhile_eq_all_conv using assms by fast

lemma dot_classes [simp]: "\<not> isalnum (CHR ''.'')" "\<not> islower (CHR ''.'')" "\<not> is_digit (CHR ''.'')"
  by (simp_all add: char_class_defs)

lemma after_dot_Nil: "CHR ''.'' \<in> set s \<Longrightarrow> after_dot s = [] \<Longrightarrow> last s = CHR ''.''"
proof -
  assume dot: "CHR ''.'' \<in> set s" and nil: "after_dot s = []"
  then obtain c r where d: "dropWhile (\<lambda>c. c \<noteq> CHR ''.'') s = c # r"
    by (cases "dropWhile (\<lambda>c. c \<noteq> CHR ''.'') s") (auto simp: dropWhile_eq_Nil_conv)
  then have "c = CHR ''.''" by (metis (mono_tags, lifting) dropWhile_eq_Cons_conv)
  moreover from d nil have "r = []" by (simp add: after_dot_def)
  moreover have "s = before_dot s @ [c]"
    using d \<open>r = []\<close> takeWhile_dropWhile_id [of "\<lambda>c. c \<noteq> CHR ''.''" s]
    by (simp add: before_dot_def)
  ultimately show ?thesis by (metis last_snoc)
qed

lemma after_dot_none: "CHR ''.'' \<notin> set s \<Longrightarrow> after_dot s = []"
proof -
  assume "CHR ''.'' \<notin> set s"
  then have "dropWhile (\<lambda>c. c \<noteq> CHR ''.'') s = []" unfolding dropWhile_eq_Nil_conv by fast
  then show ?thesis by (simp only: after_dot_def list.sel)
qed

lemma hd_before_dot: "before_dot s \<noteq> [] \<Longrightarrow> hd (before_dot s) = hd s"
  unfolding before_dot_def by (cases s) (simp_all split: if_splits)

lemma before_dot_Nil: "s \<noteq> [] \<Longrightarrow> before_dot s = [] \<Longrightarrow> hd s = CHR ''.''"
  unfolding before_dot_def by (cases s) (simp_all split: if_splits)

lemma last_after_dot: "after_dot s \<noteq> [] \<Longrightarrow> last (after_dot s) = last s"
proof -
  assume ne: "after_dot s \<noteq> []"
  then have "last (after_dot s) = last (dropWhile (\<lambda>c. c \<noteq> CHR ''.'') s)"
    unfolding after_dot_def by (rule last_tl [OF disjI2])
  also from ne have "dropWhile (\<lambda>c. c \<noteq> CHR ''.'') s \<noteq> []" unfolding after_dot_def by fastforce
  then have "last (dropWhile (\<lambda>c. c \<noteq> CHR ''.'') s) = last s"
    by (metis last_appendR takeWhile_dropWhile_id)
  finally show ?thesis .
qed

lemma valid_label_iff:
  "valid_label l \<longleftrightarrow> l \<noteq> [] \<and> isalpha (hd l) \<and> (isalnum (last l) \<and> \<not> isupper (last l)) \<and>
     list_all (\<lambda>c. isalnum c \<and> \<not> isupper c \<or> c = CHR ''-'') l"
proof -
  have "isalpha (hd l) \<longleftrightarrow> islower (hd l)" if "l \<noteq> []" "list_all label_char l"
  proof -
    from that have "label_char (hd l)" by (cases l) auto
    then show ?thesis by (auto simp: label_char_def char_class_defs)
  qed
  then show ?thesis
    by (auto simp: valid_label_def isalnum_not_upper label_char_def [abs_def])
qed

lemma is_valid_account_name_step:
  assumes "1 \<le> length name" "length name \<le> 63"
  shows "is_valid_account_name name \<longleftrightarrow>
    valid_label (before_dot name) \<and> isalnum (last name) \<and> \<not> isupper (last name) \<and>
    (after_dot name = [] \<or> is_valid_account_name (after_dot name))"
proof -
  have ne: "name \<noteq> []" using assms by auto
  have sub: "before_dot name \<noteq> []" "hd (before_dot name) = hd name" if "isalpha (hd name)"
    using before_dot_Nil [OF ne] hd_before_dot [of name] that dot_classes(1) isalnum_def by metis+
  have "is_valid_account_name name \<longleftrightarrow>
      isalpha (hd name) \<and> (isalnum (last name) \<and> \<not> isupper (last name)) \<and>
      (isalnum (last (before_dot name)) \<and> \<not> isupper (last (before_dot name))) \<and>
      list_all (\<lambda>c. isalnum c \<and> \<not> isupper c \<or> c = CHR ''-'') (before_dot name) \<and>
      (after_dot name = [] \<or> is_valid_account_name (after_dot name))"
  proof -
    have "\<not> length name < ALP_BLOCKCHAIN_MIN_NAME_SIZE" "\<not> ALP_BLOCKCHAIN_MAX_NAME_SIZE < length name"
      using assms ne by (simp_all add: ALP_BLOCKCHAIN_MIN_NAME_SIZE_def ALP_BLOCKCHAIN_MAX_NAME_SIZE_def)
    then show ?thesis unfolding is_valid_account_name.simps [of name] Let_def by argo
  qed
  moreover have "valid_label (before_dot name) \<longleftrightarrow>
      isalpha (hd name) \<and> (isalnum (last (before_dot name)) \<and> \<not> isupper (last (before_dot name))) \<and>
      list_all (\<lambda>c. isalnum c \<and> \<not> isupper c \<or> c = CHR ''-'') (before_dot name)"
    unfolding valid_label_iff using sub hd_before_dot [of name]
    by (cases "isalpha (hd name)"; cases "before_dot name = []") simp_all
  ultimately show ?thesis by argo
qed

lemma is_valid_account_name_range: "is_valid_account_name name \<Longrightarrow> 1 \<le> length name \<and> length name \<le> 63"
  unfolding is_valid_account_name.simps [of name]
  by (simp add: ALP_BLOCKCHAIN_MIN_NAME_SIZE_def ALP_BLOCKCHAIN_MAX_NAME_SIZE_def
      not_less Suc_le_eq split: if_splits)

text \<open>
  \<open>is_valid_account_name\<close>, which calls itself on the part after the first dot, accepts
  exactly the names of one to sixty-three characters whose labels, separated by dots, start with
  a lower-case letter, end with a lower-case letter or digit, and hold only lower-case letters,
  digits and dashes.
\<close>

theorem is_valid_account_name_spec: "is_valid_account_name name \<longleftrightarrow> valid_name_spec name"
proof (induction "length name" arbitrary: name rule: less_induct)
  case less
  show ?case
  proof (cases "1 \<le> length name \<and> length name \<le> 63")
    case False
    then show ?thesis using is_valid_account_name_range unfolding valid_name_spec_def by blast
  next
    case True
    then have ne: "name \<noteq> []" by auto
    have step: "is_valid_account_name name \<longleftrightarrow>
        valid_label (before_dot name) \<and> isalnum (last name) \<and> \<not> isupper (last name) \<and>
        (after_dot name = [] \<or> is_valid_account_name (after_dot name))"
      using True by (intro is_valid_account_name_step) auto
    show ?thesis
    proof (cases "CHR ''.'' \<in> set name")
      case False
      then have "labels name = [name]" "after_dot name = []" "before_dot name = name"
        using labels_split [of name] last_before_dot [of name]
          after_dot_none [of name] by simp_all
      then show ?thesis using step True by (auto simp: valid_name_spec_def valid_label_iff)
    next
      case dot: True
      have sp: "valid_name_spec name \<longleftrightarrow>
          valid_label (before_dot name) \<and> list_all valid_label (labels (after_dot name))"
        using True labels_split [of name] dot by (simp add: valid_name_spec_def)
      show ?thesis
      proof (cases "after_dot name = []")
        case nil: True
        then have "\<not> isalnum (last name)" using after_dot_Nil [OF dot] by simp
        moreover from nil have "\<not> valid_name_spec name" by (simp add: sp valid_label_def)
        ultimately show ?thesis using step by blast
      next
        case False
        have len: "length (after_dot name) < length name" by (rule length_after_dot [OF ne])
        with less have IH: "is_valid_account_name (after_dot name) \<longleftrightarrow> valid_name_spec (after_dot name)"
          by blast
        have spa: "valid_name_spec (after_dot name) \<longleftrightarrow>
            list_all valid_label (labels (after_dot name))"
          using False len True by (simp add: valid_name_spec_def Suc_le_eq)
        have "is_valid_account_name (after_dot name) \<Longrightarrow>
            isalnum (last name) \<and> \<not> isupper (last name)"
          using is_valid_account_name_range [of "after_dot name"]
            is_valid_account_name_step [of "after_dot name"] last_after_dot [OF False] by auto
        then show ?thesis using step sp spa IH False by blast
      qed
    qed
  qed
qed

end
