(* ===== verification/Chain_State.thy ===== *)
theory Chain_State
  imports Names
begin

text \<open>
  The two implementations of \<open>ChainInterface\<close>: \<open>ChainDatabase\<close>, whose maps are level-db
  indexed stores, and \<open>PendingChainState\<close>, an overlay of changes over a previous state. A
  chain is a database under any number of overlays; \<open>NoState\<close> is the expired
  \<open>_prev_state\<close> pointer. For every kind of entry there are the lookup, the insertion and the
  erasure of both classes (\<open>db_\<close> names are those of \<open>ChainDatabase\<close>); the map laws they obey
  are the locale \<open>entry_map\<close>, interpreted on each kind.
\<close>

section \<open>States\<close>

record database =
  db_head_block_num :: nat
  db_head_block_timestamp :: time
  db_property_id_to_entry :: "(PropertyIdType \<times> PropertyEntry) list"
  db_account_id_to_entry :: "(account_id \<times> AccountEntry) list"
  db_account_name_to_id :: "string \<rightharpoonup> account_id"
  db_account_address_to_id :: "address \<rightharpoonup> account_id"
  db_delegate_votes :: "VoteDel list"
  db_asset_id_to_entry :: "(asset_id \<times> AssetEntry) list"
  db_asset_symbol_to_id :: "string \<rightharpoonup> asset_id"
  db_slate_id_to_entry :: "(slate_id \<times> SlateEntry) list"
  db_balance_id_to_entry :: "(address \<times> BalanceEntry) list"
  db_transaction_id_to_entry :: "(trx_id \<times> TransactionEntry) list"
  db_unique_transactions :: "(time \<times> digest) list"
  db_address_to_transaction_ids :: "address \<rightharpoonup> trx_id list"
  db_recent_operations :: "nat \<Rightarrow> Operation list"
  db_slot_index_to_entry :: "(SlotIndex \<times> SlotEntry) list"
  db_slot_timestamp_to_delegate :: "time \<rightharpoonup> account_id"
  db_contract_id_to_entry :: "(address \<times> ContractEntry) list"
  db_contract_name_to_id :: "string \<rightharpoonup> address"
  db_contract_id_to_storage :: "(address \<times> ContractStorageEntry) list"
  db_request_id_to_result_id :: "(trx_id \<times> trx_id) list"
  db_result_id_to_request_id :: "(trx_id \<times> trx_id) list"
  db_trx_to_contract_id :: "(trx_id \<times> address) list"
  db_contract_to_trx_id :: "(address \<times> trx_id) list"

record PendingChainState =
  p_property_id_to_entry :: "(PropertyIdType \<times> PropertyEntry) list"
  p_property_id_remove :: "PropertyIdType list"
  p_account_id_to_entry :: "(account_id \<times> AccountEntry) list"
  p_account_id_remove :: "account_id list"
  p_account_name_to_id :: "string \<rightharpoonup> account_id"
  p_account_address_to_id :: "address \<rightharpoonup> account_id"
  p_asset_id_to_entry :: "(asset_id \<times> AssetEntry) list"
  p_asset_id_remove :: "asset_id list"
  p_asset_symbol_to_id :: "string \<rightharpoonup> asset_id"
  p_slate_id_to_entry :: "(slate_id \<times> SlateEntry) list"
  p_slate_id_remove :: "slate_id list"
  p_balance_id_to_entry :: "(address \<times> BalanceEntry) list"
  p_balance_id_remove :: "address list"
  p_transaction_id_to_entry :: "(trx_id \<times> TransactionEntry) list"
  p_transaction_id_remove :: "trx_id list"
  p_transaction_digests :: "digest list"
  p_slot_index_to_entry :: "(SlotIndex \<times> SlotEntry) list"
  p_slot_index_remove :: "SlotIndex list"
  p_slot_timestamp_to_delegate :: "time \<rightharpoonup> account_id"
  p_contract_id_to_entry :: "(address \<times> ContractEntry) list"
  p_contract_id_remove :: "address list"
  p_contract_name_to_id :: "string \<rightharpoonup> address"
  p_contract_id_to_storage :: "(address \<times> ContractStorageEntry) list"
  p_request_id_to_result_id :: "(trx_id \<times> trx_id) list"
  p_req_to_res_to_remove :: "trx_id list"
  p_result_id_to_request_id :: "(trx_id \<times> trx_id) list"
  p_res_to_req_to_remove :: "trx_id list"
  p_trx_to_contract_id :: "(trx_id \<times> address) list"
  p_trx_to_contract_id_remove :: "trx_id list"
  p_contract_to_trx_id :: "(address \<times> trx_id) list"
  p_contract_to_trx_id_remove :: "address list"

datatype chain = NoState | Database database | Pending PendingChainState chain

definition new_pending :: PendingChainState where
  "new_pending =
     \<lparr>p_property_id_to_entry = [], p_property_id_remove = [], p_account_id_to_entry = [],
      p_account_id_remove = [], p_account_name_to_id = Map.empty,
      p_account_address_to_id = Map.empty, p_asset_id_to_entry = [], p_asset_id_remove = [],
      p_asset_symbol_to_id = Map.empty, p_slate_id_to_entry = [], p_slate_id_remove = [],
      p_balance_id_to_entry = [], p_balance_id_remove = [], p_transaction_id_to_entry = [],
      p_transaction_id_remove = [], p_transaction_digests = [], p_slot_index_to_entry = [],
      p_slot_index_remove = [], p_slot_timestamp_to_delegate = Map.empty,
      p_contract_id_to_entry = [], p_contract_id_remove = [], p_contract_name_to_id = Map.empty,
      p_contract_id_to_storage = [], p_request_id_to_result_id = [], p_req_to_res_to_remove = [],
      p_result_id_to_request_id = [], p_res_to_req_to_remove = [], p_trx_to_contract_id = [],
      p_trx_to_contract_id_remove = [], p_contract_to_trx_id = [],
      p_contract_to_trx_id_remove = []\<rparr>"

fun live :: "chain \<Rightarrow> bool" where
  "live NoState = False"
| "live (Database _) = True"
| "live (Pending _ _) = True"

fun prev_of :: "chain \<Rightarrow> chain" where
  "prev_of (Pending _ prev) = prev"
| "prev_of (Database _) = NoState"
| "prev_of NoState = NoState"

fun is_pending :: "chain \<Rightarrow> bool" where
  "is_pending (Pending _ _) = True"
| "is_pending (Database _) = False"
| "is_pending NoState = False"

text \<open>\<open>unordered_set::insert\<close> and \<open>erase\<close> on the removal sets.\<close>

definition set_del :: "'a \<Rightarrow> 'a list \<Rightarrow> 'a list" where
  "set_del x xs = filter (\<lambda>y. y \<noteq> x) xs"

lemma set_del_simps [eval_simps]:
  "set_del x [] = []" "set_del x (y # ys) = (if y = x then set_del x ys else y # set_del x ys)"
  by (simp_all add: set_del_def)

lemma set_set_del [simp]: "set (set_del x xs) = set xs - {x}"
  by (auto simp: set_del_def)

section \<open>Time\<close>

definition get_slot_number :: "time \<Rightarrow> nat" where
  "get_slot_number t = t div ALP_BLOCKCHAIN_BLOCK_INTERVAL_SEC"

definition slot_start_of_number :: "nat \<Rightarrow> time" where
  "slot_start_of_number n = (n * ALP_BLOCKCHAIN_BLOCK_INTERVAL_SEC) mod 2 ^ 32"

definition get_slot_start_time :: "time \<Rightarrow> time" where
  "get_slot_start_time t = slot_start_of_number (get_slot_number t)"

fun get_head_block_num :: "chain \<Rightarrow> nat" where
  "get_head_block_num NoState = 1"
| "get_head_block_num (Database d) = db_head_block_num d"
| "get_head_block_num (Pending _ prev) = get_head_block_num prev"

fun get_head_block_timestamp :: "chain \<Rightarrow> time" where
  "get_head_block_timestamp NoState = 0"
| "get_head_block_timestamp (Database d) = db_head_block_timestamp d"
| "get_head_block_timestamp (Pending _ prev) = get_head_block_timestamp prev"

definition db_now :: "env \<Rightarrow> database \<Rightarrow> time" where
  "db_now E d =
     (if db_head_block_num d \<le> 0
      then slot_start_of_number ((get_slot_number (wall_clock E) + 2 ^ 32 - 1) mod 2 ^ 32)
      else db_head_block_timestamp d)"

fun now :: "env \<Rightarrow> chain \<Rightarrow> time" where
  "now E NoState = get_slot_start_time (wall_clock E)"
| "now E (Database d) = db_now E d"
| "now E (Pending _ prev) = now E prev"

section \<open>ChainDatabase: primary maps\<close>

definition db_property_lookup_by_id :: "database \<Rightarrow> PropertyIdType \<Rightarrow> PropertyEntry option" where
  "db_property_lookup_by_id d k = map_of (db_property_id_to_entry d) k"

definition db_property_insert_into_id_map :: "PropertyIdType \<Rightarrow> PropertyEntry \<Rightarrow> database \<Rightarrow> database" where
  "db_property_insert_into_id_map k v d = d\<lparr>db_property_id_to_entry := smap_set k v (db_property_id_to_entry d)\<rparr>"

definition db_property_erase_from_id_map :: "PropertyIdType \<Rightarrow> database \<Rightarrow> database" where
  "db_property_erase_from_id_map k d = d\<lparr>db_property_id_to_entry := smap_del k (db_property_id_to_entry d)\<rparr>"

definition db_account_lookup_by_id :: "database \<Rightarrow> account_id \<Rightarrow> AccountEntry option" where
  "db_account_lookup_by_id d k = map_of (db_account_id_to_entry d) k"

definition db_account_insert_into_id_map :: "account_id \<Rightarrow> AccountEntry \<Rightarrow> database \<Rightarrow> database" where
  "db_account_insert_into_id_map k v d = d\<lparr>db_account_id_to_entry := smap_set k v (db_account_id_to_entry d)\<rparr>"

definition db_account_erase_from_id_map :: "account_id \<Rightarrow> database \<Rightarrow> database" where
  "db_account_erase_from_id_map k d = d\<lparr>db_account_id_to_entry := smap_del k (db_account_id_to_entry d)\<rparr>"

definition db_asset_lookup_by_id :: "database \<Rightarrow> asset_id \<Rightarrow> AssetEntry option" where
  "db_asset_lookup_by_id d k = map_of (db_asset_id_to_entry d) k"

definition db_asset_insert_into_id_map :: "asset_id \<Rightarrow> AssetEntry \<Rightarrow> database \<Rightarrow> database" where
  "db_asset_insert_into_id_map k v d = d\<lparr>db_asset_id_to_entry := smap_set k v (db_asset_id_to_entry d)\<rparr>"

definition db_asset_erase_from_id_map :: "asset_id \<Rightarrow> database \<Rightarrow> database" where
  "db_asset_erase_from_id_map k d = d\<lparr>db_asset_id_to_entry := smap_del k (db_asset_id_to_entry d)\<rparr>"

definition db_slate_lookup_by_id :: "database \<Rightarrow> slate_id \<Rightarrow> SlateEntry option" where
  "db_slate_lookup_by_id d k = map_of (db_slate_id_to_entry d) k"

definition db_slate_insert_into_id_map :: "slate_id \<Rightarrow> SlateEntry \<Rightarrow> database \<Rightarrow> database" where
  "db_slate_insert_into_id_map k v d = d\<lparr>db_slate_id_to_entry := smap_set k v (db_slate_id_to_entry d)\<rparr>"

definition db_slate_erase_from_id_map :: "slate_id \<Rightarrow> database \<Rightarrow> database" where
  "db_slate_erase_from_id_map k d = d\<lparr>db_slate_id_to_entry := smap_del k (db_slate_id_to_entry d)\<rparr>"

definition db_balance_lookup_by_id :: "database \<Rightarrow> address \<Rightarrow> BalanceEntry option" where
  "db_balance_lookup_by_id d k = map_of (db_balance_id_to_entry d) k"

definition db_balance_insert_into_id_map :: "address \<Rightarrow> BalanceEntry \<Rightarrow> database \<Rightarrow> database" where
  "db_balance_insert_into_id_map k v d = d\<lparr>db_balance_id_to_entry := smap_set k v (db_balance_id_to_entry d)\<rparr>"

definition db_balance_erase_from_id_map :: "address \<Rightarrow> database \<Rightarrow> database" where
  "db_balance_erase_from_id_map k d = d\<lparr>db_balance_id_to_entry := smap_del k (db_balance_id_to_entry d)\<rparr>"

definition db_slot_lookup_by_index :: "database \<Rightarrow> SlotIndex \<Rightarrow> SlotEntry option" where
  "db_slot_lookup_by_index d k = map_of (db_slot_index_to_entry d) k"

definition db_slot_insert_into_index_map :: "SlotIndex \<Rightarrow> SlotEntry \<Rightarrow> database \<Rightarrow> database" where
  "db_slot_insert_into_index_map k v d = d\<lparr>db_slot_index_to_entry := smap_set k v (db_slot_index_to_entry d)\<rparr>"

definition db_slot_erase_from_index_map :: "SlotIndex \<Rightarrow> database \<Rightarrow> database" where
  "db_slot_erase_from_index_map k d = d\<lparr>db_slot_index_to_entry := smap_del k (db_slot_index_to_entry d)\<rparr>"

definition db_contract_lookup_by_id :: "database \<Rightarrow> address \<Rightarrow> ContractEntry option" where
  "db_contract_lookup_by_id d k = map_of (db_contract_id_to_entry d) k"

definition db_contract_insert_into_id_map :: "address \<Rightarrow> ContractEntry \<Rightarrow> database \<Rightarrow> database" where
  "db_contract_insert_into_id_map k v d = d\<lparr>db_contract_id_to_entry := smap_set k v (db_contract_id_to_entry d)\<rparr>"

definition db_contract_erase_from_id_map :: "address \<Rightarrow> database \<Rightarrow> database" where
  "db_contract_erase_from_id_map k d = d\<lparr>db_contract_id_to_entry := smap_del k (db_contract_id_to_entry d)\<rparr>"

definition db_contract_lookup_resultid_by_reqestid :: "database \<Rightarrow> trx_id \<Rightarrow> trx_id option" where
  "db_contract_lookup_resultid_by_reqestid d k = map_of (db_request_id_to_result_id d) k"

definition db_contract_store_resultid_by_reqestid :: "trx_id \<Rightarrow> trx_id \<Rightarrow> database \<Rightarrow> database" where
  "db_contract_store_resultid_by_reqestid k v d = d\<lparr>db_request_id_to_result_id := smap_set k v (db_request_id_to_result_id d)\<rparr>"

definition db_contract_erase_resultid_by_reqestid :: "trx_id \<Rightarrow> database \<Rightarrow> database" where
  "db_contract_erase_resultid_by_reqestid k d = d\<lparr>db_request_id_to_result_id := smap_del k (db_request_id_to_result_id d)\<rparr>"

definition db_contract_lookup_requestid_by_resultid :: "database \<Rightarrow> trx_id \<Rightarrow> trx_id option" where
  "db_contract_lookup_requestid_by_resultid d k = map_of (db_result_id_to_request_id d) k"

definition db_contract_store_requestid_by_resultid :: "trx_id \<Rightarrow> trx_id \<Rightarrow> database \<Rightarrow> database" where
  "db_contract_store_requestid_by_resultid k v d = d\<lparr>db_result_id_to_request_id := smap_set k v (db_result_id_to_request_id d)\<rparr>"

definition db_contract_erase_requestid_by_resultid :: "trx_id \<Rightarrow> database \<Rightarrow> database" where
  "db_contract_erase_requestid_by_resultid k d = d\<lparr>db_result_id_to_request_id := smap_del k (db_result_id_to_request_id d)\<rparr>"

definition db_contract_lookup_contractid_by_trxid :: "database \<Rightarrow> trx_id \<Rightarrow> address option" where
  "db_contract_lookup_contractid_by_trxid d k = map_of (db_trx_to_contract_id d) k"

definition db_contract_store_contractid_by_trxid :: "trx_id \<Rightarrow> address \<Rightarrow> database \<Rightarrow> database" where
  "db_contract_store_contractid_by_trxid k v d = d\<lparr>db_trx_to_contract_id := smap_set k v (db_trx_to_contract_id d)\<rparr>"

definition db_contract_erase_contractid_by_trxid :: "trx_id \<Rightarrow> database \<Rightarrow> database" where
  "db_contract_erase_contractid_by_trxid k d = d\<lparr>db_trx_to_contract_id := smap_del k (db_trx_to_contract_id d)\<rparr>"

definition db_contract_lookup_trxid_by_contract_id :: "database \<Rightarrow> address \<Rightarrow> trx_id option" where
  "db_contract_lookup_trxid_by_contract_id d k = map_of (db_contract_to_trx_id d) k"

definition db_contract_store_trxid_by_contractid :: "address \<Rightarrow> trx_id \<Rightarrow> database \<Rightarrow> database" where
  "db_contract_store_trxid_by_contractid k v d = d\<lparr>db_contract_to_trx_id := smap_set k v (db_contract_to_trx_id d)\<rparr>"

definition db_contract_erase_trxid_by_contract_id :: "address \<Rightarrow> database \<Rightarrow> database" where
  "db_contract_erase_trxid_by_contract_id k d = d\<lparr>db_contract_to_trx_id := smap_del k (db_contract_to_trx_id d)\<rparr>"

definition db_contractstorage_lookup_by_id ::
  "database \<Rightarrow> address \<Rightarrow> ContractStorageEntry option" where
  "db_contractstorage_lookup_by_id d k = map_of (db_contract_id_to_storage d) k"

definition db_contractstorage_insert_into_id_map ::
  "address \<Rightarrow> ContractStorageEntry \<Rightarrow> database \<Rightarrow> database" where
  "db_contractstorage_insert_into_id_map k v d =
     d\<lparr>db_contract_id_to_storage := smap_set k v (db_contract_id_to_storage d)\<rparr>"

definition db_contractstorage_erase_from_id_map :: "address \<Rightarrow> database \<Rightarrow> database" where
  "db_contractstorage_erase_from_id_map k d =
     d\<lparr>db_contract_id_to_storage := smap_del k (db_contract_id_to_storage d)\<rparr>"

section \<open>ChainDatabase: secondary indexes\<close>

definition db_account_lookup_by_name :: "database \<Rightarrow> string \<Rightarrow> AccountEntry option" where
  "db_account_lookup_by_name d name =
     (case db_account_name_to_id d name of
        None \<Rightarrow> None | Some eid \<Rightarrow> db_account_lookup_by_id d eid)"

definition db_account_lookup_by_address :: "database \<Rightarrow> address \<Rightarrow> AccountEntry option" where
  "db_account_lookup_by_address d addr =
     (case db_account_address_to_id d addr of
        None \<Rightarrow> None | Some eid \<Rightarrow> db_account_lookup_by_id d eid)"

definition db_asset_lookup_by_symbol :: "database \<Rightarrow> string \<Rightarrow> AssetEntry option" where
  "db_asset_lookup_by_symbol d symbol =
     (case db_asset_symbol_to_id d symbol of
        None \<Rightarrow> None | Some eid \<Rightarrow> db_asset_lookup_by_id d eid)"

definition db_contract_lookup_by_name :: "database \<Rightarrow> string \<Rightarrow> ContractEntry option" where
  "db_contract_lookup_by_name d name =
     (case db_contract_name_to_id d name of
        None \<Rightarrow> None | Some eid \<Rightarrow> db_contract_lookup_by_id d eid)"

definition db_slot_lookup_by_timestamp :: "database \<Rightarrow> time \<Rightarrow> SlotEntry option" where
  "db_slot_lookup_by_timestamp d timestamp =
     (case db_slot_timestamp_to_delegate d timestamp of
        None \<Rightarrow> None | Some delegate_id \<Rightarrow> db_slot_lookup_by_index d (SlotIndex delegate_id timestamp))"

definition db_account_insert_into_name_map :: "string \<Rightarrow> account_id \<Rightarrow> database \<Rightarrow> database" where
  "db_account_insert_into_name_map k v d = d\<lparr>db_account_name_to_id := (db_account_name_to_id d)(k \<mapsto> v)\<rparr>"

definition db_account_erase_from_name_map :: "string \<Rightarrow> database \<Rightarrow> database" where
  "db_account_erase_from_name_map k d = d\<lparr>db_account_name_to_id := (db_account_name_to_id d)(k := None)\<rparr>"

definition db_account_insert_into_address_map :: "address \<Rightarrow> account_id \<Rightarrow> database \<Rightarrow> database" where
  "db_account_insert_into_address_map k v d = d\<lparr>db_account_address_to_id := (db_account_address_to_id d)(k \<mapsto> v)\<rparr>"

definition db_account_erase_from_address_map :: "address \<Rightarrow> database \<Rightarrow> database" where
  "db_account_erase_from_address_map k d = d\<lparr>db_account_address_to_id := (db_account_address_to_id d)(k := None)\<rparr>"

definition db_asset_insert_into_symbol_map :: "string \<Rightarrow> asset_id \<Rightarrow> database \<Rightarrow> database" where
  "db_asset_insert_into_symbol_map k v d = d\<lparr>db_asset_symbol_to_id := (db_asset_symbol_to_id d)(k \<mapsto> v)\<rparr>"

definition db_asset_erase_from_symbol_map :: "string \<Rightarrow> database \<Rightarrow> database" where
  "db_asset_erase_from_symbol_map k d = d\<lparr>db_asset_symbol_to_id := (db_asset_symbol_to_id d)(k := None)\<rparr>"

definition db_contract_insert_into_name_map :: "string \<Rightarrow> address \<Rightarrow> database \<Rightarrow> database" where
  "db_contract_insert_into_name_map k v d = d\<lparr>db_contract_name_to_id := (db_contract_name_to_id d)(k \<mapsto> v)\<rparr>"

definition db_contract_erase_from_name_map :: "string \<Rightarrow> database \<Rightarrow> database" where
  "db_contract_erase_from_name_map k d = d\<lparr>db_contract_name_to_id := (db_contract_name_to_id d)(k := None)\<rparr>"

definition db_slot_insert_into_timestamp_map :: "time \<Rightarrow> account_id \<Rightarrow> database \<Rightarrow> database" where
  "db_slot_insert_into_timestamp_map k v d = d\<lparr>db_slot_timestamp_to_delegate := (db_slot_timestamp_to_delegate d)(k \<mapsto> v)\<rparr>"

definition db_slot_erase_from_timestamp_map :: "time \<Rightarrow> database \<Rightarrow> database" where
  "db_slot_erase_from_timestamp_map k d = d\<lparr>db_slot_timestamp_to_delegate := (db_slot_timestamp_to_delegate d)(k := None)\<rparr>"

definition db_account_insert_into_vote_set :: "VoteDel \<Rightarrow> database \<Rightarrow> database" where
  "db_account_insert_into_vote_set v d =
     d\<lparr>db_delegate_votes := sset_insert v (db_delegate_votes d)\<rparr>"

definition db_account_erase_from_vote_set :: "VoteDel \<Rightarrow> database \<Rightarrow> database" where
  "db_account_erase_from_vote_set v d =
     d\<lparr>db_delegate_votes := set_del v (db_delegate_votes d)\<rparr>"

section \<open>The interface on a chain\<close>

fun property_lookup_by_id :: "chain \<Rightarrow> PropertyIdType \<Rightarrow> PropertyEntry option" where
  "property_lookup_by_id NoState k = None"
| "property_lookup_by_id (Database d) k = db_property_lookup_by_id d k"
| "property_lookup_by_id (Pending p prev) k =
     (case map_of (p_property_id_to_entry p) k of
        Some e \<Rightarrow> Some e
      | None \<Rightarrow> if k \<in> set (p_property_id_remove p) then None else property_lookup_by_id prev k)"

fun property_insert_into_id_map :: "PropertyIdType \<Rightarrow> PropertyEntry \<Rightarrow> chain \<Rightarrow> chain" where
  "property_insert_into_id_map k v NoState = NoState"
| "property_insert_into_id_map k v (Database d) = Database (db_property_insert_into_id_map k v d)"
| "property_insert_into_id_map k v (Pending p prev) =
     Pending (p\<lparr>p_property_id_remove := set_del k (p_property_id_remove p),
               p_property_id_to_entry := smap_set k v (p_property_id_to_entry p)\<rparr>) prev"

fun property_erase_from_id_map :: "PropertyIdType \<Rightarrow> chain \<Rightarrow> chain" where
  "property_erase_from_id_map k NoState = NoState"
| "property_erase_from_id_map k (Database d) = Database (db_property_erase_from_id_map k d)"
| "property_erase_from_id_map k (Pending p prev) =
     Pending (p\<lparr>p_property_id_to_entry := smap_del k (p_property_id_to_entry p),
               p_property_id_remove := List.insert k (p_property_id_remove p)\<rparr>) prev"

fun account_lookup_by_id :: "chain \<Rightarrow> account_id \<Rightarrow> AccountEntry option" where
  "account_lookup_by_id NoState k = None"
| "account_lookup_by_id (Database d) k = db_account_lookup_by_id d k"
| "account_lookup_by_id (Pending p prev) k =
     (case map_of (p_account_id_to_entry p) k of
        Some e \<Rightarrow> Some e
      | None \<Rightarrow> if k \<in> set (p_account_id_remove p) then None else account_lookup_by_id prev k)"

fun account_insert_into_id_map :: "account_id \<Rightarrow> AccountEntry \<Rightarrow> chain \<Rightarrow> chain" where
  "account_insert_into_id_map k v NoState = NoState"
| "account_insert_into_id_map k v (Database d) = Database (db_account_insert_into_id_map k v d)"
| "account_insert_into_id_map k v (Pending p prev) =
     Pending (p\<lparr>p_account_id_remove := set_del k (p_account_id_remove p),
               p_account_id_to_entry := smap_set k v (p_account_id_to_entry p)\<rparr>) prev"

fun account_erase_from_id_map :: "account_id \<Rightarrow> chain \<Rightarrow> chain" where
  "account_erase_from_id_map k NoState = NoState"
| "account_erase_from_id_map k (Database d) = Database (db_account_erase_from_id_map k d)"
| "account_erase_from_id_map k (Pending p prev) =
     Pending (p\<lparr>p_account_id_to_entry := smap_del k (p_account_id_to_entry p),
               p_account_id_remove := List.insert k (p_account_id_remove p)\<rparr>) prev"

fun asset_lookup_by_id :: "chain \<Rightarrow> asset_id \<Rightarrow> AssetEntry option" where
  "asset_lookup_by_id NoState k = None"
| "asset_lookup_by_id (Database d) k = db_asset_lookup_by_id d k"
| "asset_lookup_by_id (Pending p prev) k =
     (case map_of (p_asset_id_to_entry p) k of
        Some e \<Rightarrow> Some e
      | None \<Rightarrow> if k \<in> set (p_asset_id_remove p) then None else asset_lookup_by_id prev k)"

fun asset_insert_into_id_map :: "asset_id \<Rightarrow> AssetEntry \<Rightarrow> chain \<Rightarrow> chain" where
  "asset_insert_into_id_map k v NoState = NoState"
| "asset_insert_into_id_map k v (Database d) = Database (db_asset_insert_into_id_map k v d)"
| "asset_insert_into_id_map k v (Pending p prev) =
     Pending (p\<lparr>p_asset_id_remove := set_del k (p_asset_id_remove p),
               p_asset_id_to_entry := smap_set k v (p_asset_id_to_entry p)\<rparr>) prev"

fun asset_erase_from_id_map :: "asset_id \<Rightarrow> chain \<Rightarrow> chain" where
  "asset_erase_from_id_map k NoState = NoState"
| "asset_erase_from_id_map k (Database d) = Database (db_asset_erase_from_id_map k d)"
| "asset_erase_from_id_map k (Pending p prev) =
     Pending (p\<lparr>p_asset_id_to_entry := smap_del k (p_asset_id_to_entry p),
               p_asset_id_remove := List.insert k (p_asset_id_remove p)\<rparr>) prev"

fun slate_lookup_by_id :: "chain \<Rightarrow> slate_id \<Rightarrow> SlateEntry option" where
  "slate_lookup_by_id NoState k = None"
| "slate_lookup_by_id (Database d) k = db_slate_lookup_by_id d k"
| "slate_lookup_by_id (Pending p prev) k =
     (case map_of (p_slate_id_to_entry p) k of
        Some e \<Rightarrow> Some e
      | None \<Rightarrow> if k \<in> set (p_slate_id_remove p) then None else slate_lookup_by_id prev k)"

fun slate_insert_into_id_map :: "slate_id \<Rightarrow> SlateEntry \<Rightarrow> chain \<Rightarrow> chain" where
  "slate_insert_into_id_map k v NoState = NoState"
| "slate_insert_into_id_map k v (Database d) = Database (db_slate_insert_into_id_map k v d)"
| "slate_insert_into_id_map k v (Pending p prev) =
     Pending (p\<lparr>p_slate_id_remove := set_del k (p_slate_id_remove p),
               p_slate_id_to_entry := smap_set k v (p_slate_id_to_entry p)\<rparr>) prev"

fun slate_erase_from_id_map :: "slate_id \<Rightarrow> chain \<Rightarrow> chain" where
  "slate_erase_from_id_map k NoState = NoState"
| "slate_erase_from_id_map k (Database d) = Database (db_slate_erase_from_id_map k d)"
| "slate_erase_from_id_map k (Pending p prev) =
     Pending (p\<lparr>p_slate_id_to_entry := smap_del k (p_slate_id_to_entry p),
               p_slate_id_remove := List.insert k (p_slate_id_remove p)\<rparr>) prev"

fun balance_lookup_by_id :: "chain \<Rightarrow> address \<Rightarrow> BalanceEntry option" where
  "balance_lookup_by_id NoState k = None"
| "balance_lookup_by_id (Database d) k = db_balance_lookup_by_id d k"
| "balance_lookup_by_id (Pending p prev) k =
     (case map_of (p_balance_id_to_entry p) k of
        Some e \<Rightarrow> Some e
      | None \<Rightarrow> if k \<in> set (p_balance_id_remove p) then None else balance_lookup_by_id prev k)"

fun balance_insert_into_id_map :: "address \<Rightarrow> BalanceEntry \<Rightarrow> chain \<Rightarrow> chain" where
  "balance_insert_into_id_map k v NoState = NoState"
| "balance_insert_into_id_map k v (Database d) = Database (db_balance_insert_into_id_map k v d)"
| "balance_insert_into_id_map k v (Pending p prev) =
     Pending (p\<lparr>p_balance_id_remove := set_del k (p_balance_id_remove p),
               p_balance_id_to_entry := smap_set k v (p_balance_id_to_entry p)\<rparr>) prev"

fun balance_erase_from_id_map :: "address \<Rightarrow> chain \<Rightarrow> chain" where
  "balance_erase_from_id_map k NoState = NoState"
| "balance_erase_from_id_map k (Database d) = Database (db_balance_erase_from_id_map k d)"
| "balance_erase_from_id_map k (Pending p prev) =
     Pending (p\<lparr>p_balance_id_to_entry := smap_del k (p_balance_id_to_entry p),
               p_balance_id_remove := List.insert k (p_balance_id_remove p)\<rparr>) prev"

fun slot_lookup_by_index :: "chain \<Rightarrow> SlotIndex \<Rightarrow> SlotEntry option" where
  "slot_lookup_by_index NoState k = None"
| "slot_lookup_by_index (Database d) k = db_slot_lookup_by_index d k"
| "slot_lookup_by_index (Pending p prev) k =
     (case map_of (p_slot_index_to_entry p) k of
        Some e \<Rightarrow> Some e
      | None \<Rightarrow> if k \<in> set (p_slot_index_remove p) then None else slot_lookup_by_index prev k)"

fun slot_insert_into_index_map :: "SlotIndex \<Rightarrow> SlotEntry \<Rightarrow> chain \<Rightarrow> chain" where
  "slot_insert_into_index_map k v NoState = NoState"
| "slot_insert_into_index_map k v (Database d) = Database (db_slot_insert_into_index_map k v d)"
| "slot_insert_into_index_map k v (Pending p prev) =
     Pending (p\<lparr>p_slot_index_remove := set_del k (p_slot_index_remove p),
               p_slot_index_to_entry := smap_set k v (p_slot_index_to_entry p)\<rparr>) prev"

fun slot_erase_from_index_map :: "SlotIndex \<Rightarrow> chain \<Rightarrow> chain" where
  "slot_erase_from_index_map k NoState = NoState"
| "slot_erase_from_index_map k (Database d) = Database (db_slot_erase_from_index_map k d)"
| "slot_erase_from_index_map k (Pending p prev) =
     Pending (p\<lparr>p_slot_index_to_entry := smap_del k (p_slot_index_to_entry p),
               p_slot_index_remove := List.insert k (p_slot_index_remove p)\<rparr>) prev"

fun contract_lookup_by_id :: "chain \<Rightarrow> address \<Rightarrow> ContractEntry option" where
  "contract_lookup_by_id NoState k = None"
| "contract_lookup_by_id (Database d) k = db_contract_lookup_by_id d k"
| "contract_lookup_by_id (Pending p prev) k =
     (case map_of (p_contract_id_to_entry p) k of
        Some e \<Rightarrow> Some e
      | None \<Rightarrow> if k \<in> set (p_contract_id_remove p) then None else contract_lookup_by_id prev k)"

fun contract_insert_into_id_map :: "address \<Rightarrow> ContractEntry \<Rightarrow> chain \<Rightarrow> chain" where
  "contract_insert_into_id_map k v NoState = NoState"
| "contract_insert_into_id_map k v (Database d) = Database (db_contract_insert_into_id_map k v d)"
| "contract_insert_into_id_map k v (Pending p prev) =
     Pending (p\<lparr>p_contract_id_remove := set_del k (p_contract_id_remove p),
               p_contract_id_to_entry := smap_set k v (p_contract_id_to_entry p)\<rparr>) prev"

fun contract_erase_from_id_map :: "address \<Rightarrow> chain \<Rightarrow> chain" where
  "contract_erase_from_id_map k NoState = NoState"
| "contract_erase_from_id_map k (Database d) = Database (db_contract_erase_from_id_map k d)"
| "contract_erase_from_id_map k (Pending p prev) =
     Pending (p\<lparr>p_contract_id_to_entry := smap_del k (p_contract_id_to_entry p),
               p_contract_id_remove := List.insert k (p_contract_id_remove p)\<rparr>) prev"

fun contract_lookup_resultid_by_reqestid :: "chain \<Rightarrow> trx_id \<Rightarrow> trx_id option" where
  "contract_lookup_resultid_by_reqestid NoState k = None"
| "contract_lookup_resultid_by_reqestid (Database d) k = db_contract_lookup_resultid_by_reqestid d k"
| "contract_lookup_resultid_by_reqestid (Pending p prev) k =
     (case map_of (p_request_id_to_result_id p) k of
        Some e \<Rightarrow> Some e
      | None \<Rightarrow> if k \<in> set (p_req_to_res_to_remove p) then None else contract_lookup_resultid_by_reqestid prev k)"

fun contract_store_resultid_by_reqestid :: "trx_id \<Rightarrow> trx_id \<Rightarrow> chain \<Rightarrow> chain" where
  "contract_store_resultid_by_reqestid k v NoState = NoState"
| "contract_store_resultid_by_reqestid k v (Database d) = Database (db_contract_store_resultid_by_reqestid k v d)"
| "contract_store_resultid_by_reqestid k v (Pending p prev) =
     Pending (p\<lparr>p_req_to_res_to_remove := set_del k (p_req_to_res_to_remove p),
               p_request_id_to_result_id := smap_set k v (p_request_id_to_result_id p)\<rparr>) prev"

fun contract_erase_resultid_by_reqestid :: "trx_id \<Rightarrow> chain \<Rightarrow> chain" where
  "contract_erase_resultid_by_reqestid k NoState = NoState"
| "contract_erase_resultid_by_reqestid k (Database d) = Database (db_contract_erase_resultid_by_reqestid k d)"
| "contract_erase_resultid_by_reqestid k (Pending p prev) =
     Pending (p\<lparr>p_request_id_to_result_id := smap_del k (p_request_id_to_result_id p),
               p_req_to_res_to_remove := List.insert k (p_req_to_res_to_remove p)\<rparr>) prev"

fun contract_lookup_requestid_by_resultid :: "chain \<Rightarrow> trx_id \<Rightarrow> trx_id option" where
  "contract_lookup_requestid_by_resultid NoState k = None"
| "contract_lookup_requestid_by_resultid (Database d) k = db_contract_lookup_requestid_by_resultid d k"
| "contract_lookup_requestid_by_resultid (Pending p prev) k =
     (case map_of (p_result_id_to_request_id p) k of
        Some e \<Rightarrow> Some e
      | None \<Rightarrow> if k \<in> set (p_res_to_req_to_remove p) then None else contract_lookup_requestid_by_resultid prev k)"

fun contract_store_requestid_by_resultid :: "trx_id \<Rightarrow> trx_id \<Rightarrow> chain \<Rightarrow> chain" where
  "contract_store_requestid_by_resultid k v NoState = NoState"
| "contract_store_requestid_by_resultid k v (Database d) = Database (db_contract_store_requestid_by_resultid k v d)"
| "contract_store_requestid_by_resultid k v (Pending p prev) =
     Pending (p\<lparr>p_res_to_req_to_remove := set_del k (p_res_to_req_to_remove p),
               p_result_id_to_request_id := smap_set k v (p_result_id_to_request_id p)\<rparr>) prev"

fun contract_erase_requestid_by_resultid :: "trx_id \<Rightarrow> chain \<Rightarrow> chain" where
  "contract_erase_requestid_by_resultid k NoState = NoState"
| "contract_erase_requestid_by_resultid k (Database d) = Database (db_contract_erase_requestid_by_resultid k d)"
| "contract_erase_requestid_by_resultid k (Pending p prev) =
     Pending (p\<lparr>p_result_id_to_request_id := smap_del k (p_result_id_to_request_id p),
               p_res_to_req_to_remove := List.insert k (p_res_to_req_to_remove p)\<rparr>) prev"

fun contract_lookup_contractid_by_trxid :: "chain \<Rightarrow> trx_id \<Rightarrow> address option" where
  "contract_lookup_contractid_by_trxid NoState k = None"
| "contract_lookup_contractid_by_trxid (Database d) k = db_contract_lookup_contractid_by_trxid d k"
| "contract_lookup_contractid_by_trxid (Pending p prev) k =
     (case map_of (p_trx_to_contract_id p) k of
        Some e \<Rightarrow> Some e
      | None \<Rightarrow> if k \<in> set (p_trx_to_contract_id_remove p) then None else contract_lookup_contractid_by_trxid prev k)"

fun contract_store_contractid_by_trxid :: "trx_id \<Rightarrow> address \<Rightarrow> chain \<Rightarrow> chain" where
  "contract_store_contractid_by_trxid k v NoState = NoState"
| "contract_store_contractid_by_trxid k v (Database d) = Database (db_contract_store_contractid_by_trxid k v d)"
| "contract_store_contractid_by_trxid k v (Pending p prev) =
     Pending (p\<lparr>p_trx_to_contract_id_remove := set_del k (p_trx_to_contract_id_remove p),
               p_trx_to_contract_id := smap_set k v (p_trx_to_contract_id p)\<rparr>) prev"

fun contract_erase_contractid_by_trxid :: "trx_id \<Rightarrow> chain \<Rightarrow> chain" where
  "contract_erase_contractid_by_trxid k NoState = NoState"
| "contract_erase_contractid_by_trxid k (Database d) = Database (db_contract_erase_contractid_by_trxid k d)"
| "contract_erase_contractid_by_trxid k (Pending p prev) =
     Pending (p\<lparr>p_trx_to_contract_id := smap_del k (p_trx_to_contract_id p),
               p_trx_to_contract_id_remove := List.insert k (p_trx_to_contract_id_remove p)\<rparr>) prev"

fun contract_lookup_trxid_by_contract_id :: "chain \<Rightarrow> address \<Rightarrow> trx_id option" where
  "contract_lookup_trxid_by_contract_id NoState k = None"
| "contract_lookup_trxid_by_contract_id (Database d) k = db_contract_lookup_trxid_by_contract_id d k"
| "contract_lookup_trxid_by_contract_id (Pending p prev) k =
     (case map_of (p_contract_to_trx_id p) k of
        Some e \<Rightarrow> Some e
      | None \<Rightarrow> if k \<in> set (p_contract_to_trx_id_remove p) then None else contract_lookup_trxid_by_contract_id prev k)"

fun contract_store_trxid_by_contractid :: "address \<Rightarrow> trx_id \<Rightarrow> chain \<Rightarrow> chain" where
  "contract_store_trxid_by_contractid k v NoState = NoState"
| "contract_store_trxid_by_contractid k v (Database d) = Database (db_contract_store_trxid_by_contractid k v d)"
| "contract_store_trxid_by_contractid k v (Pending p prev) =
     Pending (p\<lparr>p_contract_to_trx_id_remove := set_del k (p_contract_to_trx_id_remove p),
               p_contract_to_trx_id := smap_set k v (p_contract_to_trx_id p)\<rparr>) prev"

fun contract_erase_trxid_by_contract_id :: "address \<Rightarrow> chain \<Rightarrow> chain" where
  "contract_erase_trxid_by_contract_id k NoState = NoState"
| "contract_erase_trxid_by_contract_id k (Database d) = Database (db_contract_erase_trxid_by_contract_id k d)"
| "contract_erase_trxid_by_contract_id k (Pending p prev) =
     Pending (p\<lparr>p_contract_to_trx_id := smap_del k (p_contract_to_trx_id p),
               p_contract_to_trx_id_remove := List.insert k (p_contract_to_trx_id_remove p)\<rparr>) prev"

text \<open>
  The storage of a contract shares \<open>_contract_id_remove\<close> with the contract entries and its
  erasure does not record the removal.
\<close>

fun contractstorage_lookup_by_id :: "chain \<Rightarrow> address \<Rightarrow> ContractStorageEntry option" where
  "contractstorage_lookup_by_id NoState k = None"
| "contractstorage_lookup_by_id (Database d) k = db_contractstorage_lookup_by_id d k"
| "contractstorage_lookup_by_id (Pending p prev) k =
     (case map_of (p_contract_id_to_storage p) k of
        Some e \<Rightarrow> Some e
      | None \<Rightarrow> Option.bind (contractstorage_lookup_by_id prev k)
                  (\<lambda>e. if k \<in> set (p_contract_id_remove p) then None else Some e))"

fun contractstorage_insert_into_id_map ::
  "address \<Rightarrow> ContractStorageEntry \<Rightarrow> chain \<Rightarrow> chain" where
  "contractstorage_insert_into_id_map k v NoState = NoState"
| "contractstorage_insert_into_id_map k v (Database d) =
     Database (db_contractstorage_insert_into_id_map k v d)"
| "contractstorage_insert_into_id_map k v (Pending p prev) =
     Pending (p\<lparr>p_contract_id_to_storage := smap_set k v (p_contract_id_to_storage p)\<rparr>) prev"

fun contractstorage_erase_from_id_map :: "address \<Rightarrow> chain \<Rightarrow> chain" where
  "contractstorage_erase_from_id_map k NoState = NoState"
| "contractstorage_erase_from_id_map k (Database d) =
     Database (db_contractstorage_erase_from_id_map k d)"
| "contractstorage_erase_from_id_map k (Pending p prev) =
     Pending (p\<lparr>p_contract_id_to_storage := smap_del k (p_contract_id_to_storage p)\<rparr>) prev"

text \<open>
  Lookups through a secondary index. An overlay dereferences its own index with
  \<open>unordered_map::at\<close>, which throws when the id is not among its own entries.
\<close>

fun account_lookup_by_name :: "chain \<Rightarrow> string \<Rightarrow> AccountEntry option result" where
  "account_lookup_by_name NoState name = Inr None"
| "account_lookup_by_name (Database d) name = Inr (db_account_lookup_by_name d name)"
| "account_lookup_by_name (Pending p prev) name =
     (case p_account_name_to_id p name of
        Some eid \<Rightarrow> (case map_of (p_account_id_to_entry p) eid of
                      Some e \<Rightarrow> Inr (Some e) | None \<Rightarrow> Inl std_exception)
      | None \<Rightarrow> ebind (account_lookup_by_name prev name) (\<lambda>entry. case entry of
            Some e \<Rightarrow> Inr (if acc_id e \<notin> set (p_account_id_remove p) then Some e else None)
          | None \<Rightarrow> Inr None))"

fun account_lookup_by_address :: "chain \<Rightarrow> address \<Rightarrow> AccountEntry option result" where
  "account_lookup_by_address NoState addr = Inr None"
| "account_lookup_by_address (Database d) addr = Inr (db_account_lookup_by_address d addr)"
| "account_lookup_by_address (Pending p prev) addr =
     (case p_account_address_to_id p addr of
        Some eid \<Rightarrow> (case map_of (p_account_id_to_entry p) eid of
                      Some e \<Rightarrow> Inr (Some e) | None \<Rightarrow> Inl std_exception)
      | None \<Rightarrow> ebind (account_lookup_by_address prev addr) (\<lambda>entry. case entry of
            Some e \<Rightarrow> Inr (if acc_id e \<notin> set (p_account_id_remove p) then Some e else None)
          | None \<Rightarrow> Inr None))"

fun asset_lookup_by_symbol :: "chain \<Rightarrow> string \<Rightarrow> AssetEntry option result" where
  "asset_lookup_by_symbol NoState symbol = Inr None"
| "asset_lookup_by_symbol (Database d) symbol = Inr (db_asset_lookup_by_symbol d symbol)"
| "asset_lookup_by_symbol (Pending p prev) symbol =
     (case p_asset_symbol_to_id p symbol of
        Some eid \<Rightarrow> (case map_of (p_asset_id_to_entry p) eid of
                      Some e \<Rightarrow> Inr (Some e) | None \<Rightarrow> Inl std_exception)
      | None \<Rightarrow> ebind (asset_lookup_by_symbol prev symbol) (\<lambda>entry. case entry of
            Some e \<Rightarrow> Inr (if ast_id e \<notin> set (p_asset_id_remove p) then Some e else None)
          | None \<Rightarrow> Inr None))"

fun contract_lookup_by_name :: "chain \<Rightarrow> string \<Rightarrow> ContractEntry option" where
  "contract_lookup_by_name NoState name = None"
| "contract_lookup_by_name (Database d) name = db_contract_lookup_by_name d name"
| "contract_lookup_by_name (Pending p prev) name =
     (case p_contract_name_to_id p name of
        Some eid \<Rightarrow> contract_lookup_by_id (Pending p prev) eid
      | None \<Rightarrow> (case contract_lookup_by_name prev name of
            Some e \<Rightarrow> if con_id e \<notin> set (p_contract_id_remove p) then Some e else None
          | None \<Rightarrow> None))"

fun slot_lookup_by_timestamp :: "env \<Rightarrow> chain \<Rightarrow> time \<Rightarrow> SlotEntry option result" where
  "slot_lookup_by_timestamp E NoState timestamp = Inr None"
| "slot_lookup_by_timestamp E (Database d) timestamp = Inr (db_slot_lookup_by_timestamp d timestamp)"
| "slot_lookup_by_timestamp E (Pending p prev) timestamp =
     (case p_slot_timestamp_to_delegate p timestamp of
        Some delegate_id \<Rightarrow>
          (case map_of (p_slot_index_to_entry p) (SlotIndex delegate_id timestamp) of
             Some e \<Rightarrow> Inr (Some e) | None \<Rightarrow> Inl std_exception)
      | None \<Rightarrow>
          if prev = NoState then Inr None
          else ebind (if the_statistics_enabled E then slot_lookup_by_timestamp E prev timestamp
                      else Inr None) (\<lambda>entry. case entry of
            Some e \<Rightarrow> Inr (if slot_index e \<notin> set (p_slot_index_remove p) then Some e else None)
          | None \<Rightarrow> Inr None))"

fun account_insert_into_name_map :: "string \<Rightarrow> account_id \<Rightarrow> chain \<Rightarrow> chain" where
  "account_insert_into_name_map k v NoState = NoState"
| "account_insert_into_name_map k v (Database d) = Database (db_account_insert_into_name_map k v d)"
| "account_insert_into_name_map k v (Pending p prev) =
     Pending (p\<lparr>p_account_name_to_id := (p_account_name_to_id p)(k \<mapsto> v)\<rparr>) prev"

fun account_erase_from_name_map :: "string \<Rightarrow> chain \<Rightarrow> chain" where
  "account_erase_from_name_map k NoState = NoState"
| "account_erase_from_name_map k (Database d) = Database (db_account_erase_from_name_map k d)"
| "account_erase_from_name_map k (Pending p prev) =
     Pending (p\<lparr>p_account_name_to_id := (p_account_name_to_id p)(k := None)\<rparr>) prev"

fun account_insert_into_address_map :: "address \<Rightarrow> account_id \<Rightarrow> chain \<Rightarrow> chain" where
  "account_insert_into_address_map k v NoState = NoState"
| "account_insert_into_address_map k v (Database d) = Database (db_account_insert_into_address_map k v d)"
| "account_insert_into_address_map k v (Pending p prev) =
     Pending (p\<lparr>p_account_address_to_id := (p_account_address_to_id p)(k \<mapsto> v)\<rparr>) prev"

fun account_erase_from_address_map :: "address \<Rightarrow> chain \<Rightarrow> chain" where
  "account_erase_from_address_map k NoState = NoState"
| "account_erase_from_address_map k (Database d) = Database (db_account_erase_from_address_map k d)"
| "account_erase_from_address_map k (Pending p prev) =
     Pending (p\<lparr>p_account_address_to_id := (p_account_address_to_id p)(k := None)\<rparr>) prev"

fun asset_insert_into_symbol_map :: "string \<Rightarrow> asset_id \<Rightarrow> chain \<Rightarrow> chain" where
  "asset_insert_into_symbol_map k v NoState = NoState"
| "asset_insert_into_symbol_map k v (Database d) = Database (db_asset_insert_into_symbol_map k v d)"
| "asset_insert_into_symbol_map k v (Pending p prev) =
     Pending (p\<lparr>p_asset_symbol_to_id := (p_asset_symbol_to_id p)(k \<mapsto> v)\<rparr>) prev"

fun asset_erase_from_symbol_map :: "string \<Rightarrow> chain \<Rightarrow> chain" where
  "asset_erase_from_symbol_map k NoState = NoState"
| "asset_erase_from_symbol_map k (Database d) = Database (db_asset_erase_from_symbol_map k d)"
| "asset_erase_from_symbol_map k (Pending p prev) =
     Pending (p\<lparr>p_asset_symbol_to_id := (p_asset_symbol_to_id p)(k := None)\<rparr>) prev"

fun contract_insert_into_name_map :: "string \<Rightarrow> address \<Rightarrow> chain \<Rightarrow> chain" where
  "contract_insert_into_name_map k v NoState = NoState"
| "contract_insert_into_name_map k v (Database d) = Database (db_contract_insert_into_name_map k v d)"
| "contract_insert_into_name_map k v (Pending p prev) =
     Pending (p\<lparr>p_contract_name_to_id := (p_contract_name_to_id p)(k \<mapsto> v)\<rparr>) prev"

fun contract_erase_from_name_map :: "string \<Rightarrow> chain \<Rightarrow> chain" where
  "contract_erase_from_name_map k NoState = NoState"
| "contract_erase_from_name_map k (Database d) = Database (db_contract_erase_from_name_map k d)"
| "contract_erase_from_name_map k (Pending p prev) =
     Pending (p\<lparr>p_contract_name_to_id := (p_contract_name_to_id p)(k := None)\<rparr>) prev"

fun slot_insert_into_timestamp_map :: "time \<Rightarrow> account_id \<Rightarrow> chain \<Rightarrow> chain" where
  "slot_insert_into_timestamp_map k v NoState = NoState"
| "slot_insert_into_timestamp_map k v (Database d) = Database (db_slot_insert_into_timestamp_map k v d)"
| "slot_insert_into_timestamp_map k v (Pending p prev) =
     Pending (p\<lparr>p_slot_timestamp_to_delegate := (p_slot_timestamp_to_delegate p)(k \<mapsto> v)\<rparr>) prev"

fun slot_erase_from_timestamp_map :: "time \<Rightarrow> chain \<Rightarrow> chain" where
  "slot_erase_from_timestamp_map k NoState = NoState"
| "slot_erase_from_timestamp_map k (Database d) = Database (db_slot_erase_from_timestamp_map k d)"
| "slot_erase_from_timestamp_map k (Pending p prev) =
     Pending (p\<lparr>p_slot_timestamp_to_delegate := (p_slot_timestamp_to_delegate p)(k := None)\<rparr>) prev"

text \<open>The vote set exists in the database only; an overlay ignores it.\<close>

fun account_insert_into_vote_set :: "VoteDel \<Rightarrow> chain \<Rightarrow> chain" where
  "account_insert_into_vote_set v NoState = NoState"
| "account_insert_into_vote_set v (Database d) = Database (db_account_insert_into_vote_set v d)"
| "account_insert_into_vote_set v (Pending p prev) = Pending p prev"

fun account_erase_from_vote_set :: "VoteDel \<Rightarrow> chain \<Rightarrow> chain" where
  "account_erase_from_vote_set v NoState = NoState"
| "account_erase_from_vote_set v (Database d) = Database (db_account_erase_from_vote_set v d)"
| "account_erase_from_vote_set v (Pending p prev) = Pending p prev"

section \<open>Transactions\<close>

definition MAX_RECENT_OPERATIONS :: nat where "MAX_RECENT_OPERATIONS = 20"

definition store_recent_operation :: "Operation \<Rightarrow> database \<Rightarrow> database" where
  "store_recent_operation ob d =
     (let q = db_recent_operations d (op_type ob) @ [ob];
          q' = (if length q > MAX_RECENT_OPERATIONS then tl q else q)
      in d\<lparr>db_recent_operations := (db_recent_operations d)(op_type ob := q')\<rparr>)"

text \<open>
  \<open>scan_addresses\<close>: the addresses of the balances a transaction withdraws from and of the
  conditions it deposits to, in order. The callback of the source is applied to this list.
\<close>

definition op_addresses ::
  "(address \<Rightarrow> BalanceEntry option) \<Rightarrow> Operation \<Rightarrow> address list result" where
  "op_addresses lookup ob =
     (case ob of
        withdraw_op w \<Rightarrow> (case lookup (wd_balance_id w) of
            None \<Rightarrow> Inr [] | Some b \<Rightarrow> condition_owners (bal_condition b))
      | deposit_op dp \<Rightarrow> condition_owners (dep_condition dp)
      | _ \<Rightarrow> Inr [])"

definition scan_addresses ::
  "(address \<Rightarrow> BalanceEntry option) \<Rightarrow> SignedTransaction \<Rightarrow> address list result" where
  "scan_addresses lookup trx =
     efold (\<lambda>ob acc. ebind (op_addresses lookup ob) (\<lambda>as. Inr (acc @ as))) (operations trx) []"

definition db_transaction_lookup_by_id :: "database \<Rightarrow> trx_id \<Rightarrow> TransactionEntry option" where
  "db_transaction_lookup_by_id d k = map_of (db_transaction_id_to_entry d) k"

definition db_transaction_insert_into_id_map ::
  "env \<Rightarrow> trx_id \<Rightarrow> TransactionEntry \<Rightarrow> database \<Rightarrow> database result" where
  "db_transaction_insert_into_id_map E eid entry d =
     (let d1 = d\<lparr>db_transaction_id_to_entry := smap_set eid entry (db_transaction_id_to_entry d)\<rparr> in
      if the_statistics_enabled E then
        ebind (scan_addresses (db_balance_lookup_by_id d1) (es_trx entry)) (\<lambda>addrs.
          let add = (\<lambda>addr d. d\<lparr>db_address_to_transaction_ids :=
                (db_address_to_transaction_ids d)(addr \<mapsto>
                   List.insert eid (case db_address_to_transaction_ids d addr of
                                     None \<Rightarrow> [] | Some ids \<Rightarrow> ids))\<rparr>)
          in Inr (fold store_recent_operation (operations (es_trx entry)) (fold add addrs d1)))
      else Inr d1)"

definition db_transaction_insert_into_unique_set ::
  "env \<Rightarrow> SignedTransaction \<Rightarrow> database \<Rightarrow> database" where
  "db_transaction_insert_into_unique_set E trx d =
     d\<lparr>db_unique_transactions :=
        List.insert (expiration trx, trx_digest E trx (the_chain_id E)) (db_unique_transactions d)\<rparr>"

definition db_transaction_erase_from_id_map ::
  "env \<Rightarrow> trx_id \<Rightarrow> database \<Rightarrow> database result" where
  "db_transaction_erase_from_id_map E eid d =
     (let drop = (\<lambda>d. d\<lparr>db_transaction_id_to_entry := smap_del eid (db_transaction_id_to_entry d)\<rparr>)
      in if the_statistics_enabled E then
        (case db_transaction_lookup_by_id d eid of
           None \<Rightarrow> Inr (drop d)
         | Some entry \<Rightarrow>
             ebind (scan_addresses (db_balance_lookup_by_id d) (es_trx entry)) (\<lambda>addrs.
               let del = (\<lambda>addr d. (case db_address_to_transaction_ids d addr of
                     None \<Rightarrow> d
                   | Some ids \<Rightarrow> d\<lparr>db_address_to_transaction_ids :=
                       (db_address_to_transaction_ids d)(addr :=
                          (if set_del eid ids \<noteq> [] then Some (set_del eid ids) else None))\<rparr>))
               in Inr (drop (fold del addrs d))))
      else Inr (drop d))"

definition db_transaction_erase_from_unique_set ::
  "env \<Rightarrow> SignedTransaction \<Rightarrow> database \<Rightarrow> database" where
  "db_transaction_erase_from_unique_set E trx d =
     d\<lparr>db_unique_transactions :=
        set_del (expiration trx, trx_digest E trx (the_chain_id E)) (db_unique_transactions d)\<rparr>"

definition db_is_known_transaction :: "env \<Rightarrow> database \<Rightarrow> SignedTransaction \<Rightarrow> bool" where
  "db_is_known_transaction E d trx \<longleftrightarrow>
     (expiration trx, trx_digest E trx (the_chain_id E)) \<in> set (db_unique_transactions d)"

fun transaction_lookup_by_id :: "chain \<Rightarrow> trx_id \<Rightarrow> TransactionEntry option" where
  "transaction_lookup_by_id NoState k = None"
| "transaction_lookup_by_id (Database d) k = db_transaction_lookup_by_id d k"
| "transaction_lookup_by_id (Pending p prev) k =
     (case map_of (p_transaction_id_to_entry p) k of
        Some e \<Rightarrow> Some e
      | None \<Rightarrow> if k \<in> set (p_transaction_id_remove p) then None
                else transaction_lookup_by_id prev k)"

fun transaction_insert_into_id_map ::
  "env \<Rightarrow> trx_id \<Rightarrow> TransactionEntry \<Rightarrow> chain \<Rightarrow> chain result" where
  "transaction_insert_into_id_map E k v NoState = Inr NoState"
| "transaction_insert_into_id_map E k v (Database d) =
     ebind (db_transaction_insert_into_id_map E k v d) (\<lambda>d'. Inr (Database d'))"
| "transaction_insert_into_id_map E k v (Pending p prev) =
     Inr (Pending (p\<lparr>p_transaction_id_remove := set_del k (p_transaction_id_remove p),
               p_transaction_id_to_entry := smap_set k v (p_transaction_id_to_entry p)\<rparr>) prev)"

fun transaction_insert_into_unique_set :: "env \<Rightarrow> SignedTransaction \<Rightarrow> chain \<Rightarrow> chain" where
  "transaction_insert_into_unique_set E trx NoState = NoState"
| "transaction_insert_into_unique_set E trx (Database d) =
     Database (db_transaction_insert_into_unique_set E trx d)"
| "transaction_insert_into_unique_set E trx (Pending p prev) =
     Pending (p\<lparr>p_transaction_digests :=
       List.insert (trx_digest E trx (the_chain_id E)) (p_transaction_digests p)\<rparr>) prev"

fun transaction_erase_from_id_map :: "env \<Rightarrow> trx_id \<Rightarrow> chain \<Rightarrow> chain result" where
  "transaction_erase_from_id_map E k NoState = Inr NoState"
| "transaction_erase_from_id_map E k (Database d) =
     ebind (db_transaction_erase_from_id_map E k d) (\<lambda>d'. Inr (Database d'))"
| "transaction_erase_from_id_map E k (Pending p prev) =
     Inr (Pending (p\<lparr>p_transaction_id_to_entry := smap_del k (p_transaction_id_to_entry p),
               p_transaction_id_remove := List.insert k (p_transaction_id_remove p)\<rparr>) prev)"

fun transaction_erase_from_unique_set :: "env \<Rightarrow> SignedTransaction \<Rightarrow> chain \<Rightarrow> chain" where
  "transaction_erase_from_unique_set E trx NoState = NoState"
| "transaction_erase_from_unique_set E trx (Database d) =
     Database (db_transaction_erase_from_unique_set E trx d)"
| "transaction_erase_from_unique_set E trx (Pending p prev) =
     Pending (p\<lparr>p_transaction_digests :=
       set_del (trx_digest E trx (the_chain_id E)) (p_transaction_digests p)\<rparr>) prev"

fun is_known_transaction :: "env \<Rightarrow> chain \<Rightarrow> SignedTransaction \<Rightarrow> bool" where
  "is_known_transaction E NoState trx = False"
| "is_known_transaction E (Database d) trx = db_is_known_transaction E d trx"
| "is_known_transaction E (Pending p prev) trx =
     (trx_digest E trx (the_chain_id E) \<in> set (p_transaction_digests p) \<or>
      is_known_transaction E prev trx)"

lemmas db_access_defs =
  db_property_lookup_by_id_def db_property_insert_into_id_map_def
  db_property_erase_from_id_map_def db_account_lookup_by_id_def
  db_account_insert_into_id_map_def db_account_erase_from_id_map_def db_asset_lookup_by_id_def
  db_asset_insert_into_id_map_def db_asset_erase_from_id_map_def db_slate_lookup_by_id_def
  db_slate_insert_into_id_map_def db_slate_erase_from_id_map_def db_balance_lookup_by_id_def
  db_balance_insert_into_id_map_def db_balance_erase_from_id_map_def db_slot_lookup_by_index_def
  db_slot_insert_into_index_map_def db_slot_erase_from_index_map_def
  db_contract_lookup_by_id_def db_contract_insert_into_id_map_def
  db_contract_erase_from_id_map_def db_contract_lookup_resultid_by_reqestid_def
  db_contract_store_resultid_by_reqestid_def db_contract_erase_resultid_by_reqestid_def
  db_contract_lookup_requestid_by_resultid_def db_contract_store_requestid_by_resultid_def
  db_contract_erase_requestid_by_resultid_def db_contract_lookup_contractid_by_trxid_def
  db_contract_store_contractid_by_trxid_def db_contract_erase_contractid_by_trxid_def
  db_contract_lookup_trxid_by_contract_id_def db_contract_store_trxid_by_contractid_def
  db_contract_erase_trxid_by_contract_id_def db_contractstorage_lookup_by_id_def
  db_contractstorage_insert_into_id_map_def db_contractstorage_erase_from_id_map_def
  db_account_insert_into_name_map_def db_account_erase_from_name_map_def
  db_account_insert_into_address_map_def db_account_erase_from_address_map_def
  db_asset_insert_into_symbol_map_def db_asset_erase_from_symbol_map_def
  db_contract_insert_into_name_map_def db_contract_erase_from_name_map_def
  db_slot_insert_into_timestamp_map_def db_slot_erase_from_timestamp_map_def
  db_account_insert_into_vote_set_def db_account_erase_from_vote_set_def
  db_account_lookup_by_name_def db_account_lookup_by_address_def db_asset_lookup_by_symbol_def
  db_contract_lookup_by_name_def db_slot_lookup_by_timestamp_def db_transaction_lookup_by_id_def
  db_transaction_insert_into_unique_set_def db_transaction_erase_from_unique_set_def

declare db_access_defs [eval_simps] new_pending_def [eval_simps] db_now_def [eval_simps]
  get_slot_number_def [eval_simps] slot_start_of_number_def [eval_simps]
  get_slot_start_time_def [eval_simps]

section \<open>The map laws\<close>

text \<open>
  What a client of the interface relies on, for one kind of entry: an insertion and an
  erasure act on the lookup as on a finite map, whatever the number of overlays. A removed
  entry stays removed although an overlay cannot change the state under it.
\<close>

locale entry_map =
  fixes lookup :: "chain \<Rightarrow> 'k \<Rightarrow> 'v option"
    and insert_entry :: "'k \<Rightarrow> 'v \<Rightarrow> chain \<Rightarrow> chain"
    and erase_entry :: "'k \<Rightarrow> chain \<Rightarrow> chain"
  assumes lookup_insert: "live c \<Longrightarrow> lookup (insert_entry k v c) = (lookup c)(k \<mapsto> v)"
    and lookup_erase: "live c \<Longrightarrow> lookup (erase_entry k c) = (lookup c)(k := None)"
    and live_insert: "live (insert_entry k v c) = live c"
    and live_erase: "live (erase_entry k c) = live c"
    and finite_lookup: "finite (dom (lookup c))"
    and lookup_dead: "\<not> live c \<Longrightarrow> lookup c = Map.empty"
begin

text \<open>The state a list of insertions leaves, and the sum of a quantity over all entries.\<close>

lemma fold_insert:
  "live c \<Longrightarrow> lookup (fold (\<lambda>(k, v). insert_entry k v) kvs c) = lookup c ++ map_of (rev kvs)"
proof (induction kvs arbitrary: c)
  case (Cons kv kvs)
  obtain k v where "kv = (k, v)" by (cases kv)
  with Cons show ?case
    by (simp add: lookup_insert live_insert map_of_append map_add_def fun_eq_iff split: option.splits)
qed simp

lemma fold_erase:
  "live c \<Longrightarrow> lookup (fold erase_entry ks c) = (lookup c) |` (- set ks)"
proof (induction ks arbitrary: c)
  case (Cons k ks)
  then show ?case
    by (auto simp: lookup_erase live_erase restrict_map_def fun_eq_iff)
qed (simp add: restrict_map_def)

lemma live_fold: "live (fold (\<lambda>(k, v). insert_entry k v) kvs c) = live c"
  by (induction kvs arbitrary: c) (auto simp: live_insert split: prod.splits)

lemma live_fold_erase: "live (fold erase_entry ks c) = live c"
  by (induction ks arbitrary: c) (auto simp: live_erase)

lemma sum_insert:
  "live c \<Longrightarrow> map_sum f (lookup (insert_entry k v c)) =
     map_sum f (lookup c) - opt_val f (lookup c k) + f v"
  by (simp only: lookup_insert map_sum_update finite_lookup)

lemma sum_erase:
  "live c \<Longrightarrow> map_sum f (lookup (erase_entry k c)) = map_sum f (lookup c) - opt_val f (lookup c k)"
  by (simp only: lookup_erase map_sum_remove finite_lookup)

end

lemma finite_dom_property_lookup_by_id: "finite (dom (property_lookup_by_id c))"
proof (induction c)
  case (Pending p c)
  have "dom (property_lookup_by_id (Pending p c)) \<subseteq> dom (map_of (p_property_id_to_entry p)) \<union> dom (property_lookup_by_id c)"
    by (auto split: option.splits if_splits)
  with Pending show ?case by (meson finite_UnI finite_dom_map_of finite_subset)
qed (simp_all add: db_access_defs finite_dom_map_of)

interpretation property_map: entry_map property_lookup_by_id property_insert_into_id_map property_erase_from_id_map
proof
  fix c k v
  show "live c \<Longrightarrow> property_lookup_by_id (property_insert_into_id_map k v c) = (property_lookup_by_id c)(k \<mapsto> v)"
    by (cases c) (auto simp: fun_eq_iff db_access_defs)
  show "live c \<Longrightarrow> property_lookup_by_id (property_erase_from_id_map k c) = (property_lookup_by_id c)(k := None)"
    by (cases c) (auto simp: fun_eq_iff db_access_defs)
  show "live (property_insert_into_id_map k v c) = live c" "live (property_erase_from_id_map k c) = live c" by (cases c; simp)+
  show "finite (dom (property_lookup_by_id c))" by (rule finite_dom_property_lookup_by_id)
  show "\<not> live c \<Longrightarrow> property_lookup_by_id c = Map.empty" by (cases c) auto
qed

lemma finite_dom_account_lookup_by_id: "finite (dom (account_lookup_by_id c))"
proof (induction c)
  case (Pending p c)
  have "dom (account_lookup_by_id (Pending p c)) \<subseteq> dom (map_of (p_account_id_to_entry p)) \<union> dom (account_lookup_by_id c)"
    by (auto split: option.splits if_splits)
  with Pending show ?case by (meson finite_UnI finite_dom_map_of finite_subset)
qed (simp_all add: db_access_defs finite_dom_map_of)

interpretation account_map: entry_map account_lookup_by_id account_insert_into_id_map account_erase_from_id_map
proof
  fix c k v
  show "live c \<Longrightarrow> account_lookup_by_id (account_insert_into_id_map k v c) = (account_lookup_by_id c)(k \<mapsto> v)"
    by (cases c) (auto simp: fun_eq_iff db_access_defs)
  show "live c \<Longrightarrow> account_lookup_by_id (account_erase_from_id_map k c) = (account_lookup_by_id c)(k := None)"
    by (cases c) (auto simp: fun_eq_iff db_access_defs)
  show "live (account_insert_into_id_map k v c) = live c" "live (account_erase_from_id_map k c) = live c" by (cases c; simp)+
  show "finite (dom (account_lookup_by_id c))" by (rule finite_dom_account_lookup_by_id)
  show "\<not> live c \<Longrightarrow> account_lookup_by_id c = Map.empty" by (cases c) auto
qed

lemma finite_dom_asset_lookup_by_id: "finite (dom (asset_lookup_by_id c))"
proof (induction c)
  case (Pending p c)
  have "dom (asset_lookup_by_id (Pending p c)) \<subseteq> dom (map_of (p_asset_id_to_entry p)) \<union> dom (asset_lookup_by_id c)"
    by (auto split: option.splits if_splits)
  with Pending show ?case by (meson finite_UnI finite_dom_map_of finite_subset)
qed (simp_all add: db_access_defs finite_dom_map_of)

interpretation asset_map: entry_map asset_lookup_by_id asset_insert_into_id_map asset_erase_from_id_map
proof
  fix c k v
  show "live c \<Longrightarrow> asset_lookup_by_id (asset_insert_into_id_map k v c) = (asset_lookup_by_id c)(k \<mapsto> v)"
    by (cases c) (auto simp: fun_eq_iff db_access_defs)
  show "live c \<Longrightarrow> asset_lookup_by_id (asset_erase_from_id_map k c) = (asset_lookup_by_id c)(k := None)"
    by (cases c) (auto simp: fun_eq_iff db_access_defs)
  show "live (asset_insert_into_id_map k v c) = live c" "live (asset_erase_from_id_map k c) = live c" by (cases c; simp)+
  show "finite (dom (asset_lookup_by_id c))" by (rule finite_dom_asset_lookup_by_id)
  show "\<not> live c \<Longrightarrow> asset_lookup_by_id c = Map.empty" by (cases c) auto
qed

lemma finite_dom_slate_lookup_by_id: "finite (dom (slate_lookup_by_id c))"
proof (induction c)
  case (Pending p c)
  have "dom (slate_lookup_by_id (Pending p c)) \<subseteq> dom (map_of (p_slate_id_to_entry p)) \<union> dom (slate_lookup_by_id c)"
    by (auto split: option.splits if_splits)
  with Pending show ?case by (meson finite_UnI finite_dom_map_of finite_subset)
qed (simp_all add: db_access_defs finite_dom_map_of)

interpretation slate_map: entry_map slate_lookup_by_id slate_insert_into_id_map slate_erase_from_id_map
proof
  fix c k v
  show "live c \<Longrightarrow> slate_lookup_by_id (slate_insert_into_id_map k v c) = (slate_lookup_by_id c)(k \<mapsto> v)"
    by (cases c) (auto simp: fun_eq_iff db_access_defs)
  show "live c \<Longrightarrow> slate_lookup_by_id (slate_erase_from_id_map k c) = (slate_lookup_by_id c)(k := None)"
    by (cases c) (auto simp: fun_eq_iff db_access_defs)
  show "live (slate_insert_into_id_map k v c) = live c" "live (slate_erase_from_id_map k c) = live c" by (cases c; simp)+
  show "finite (dom (slate_lookup_by_id c))" by (rule finite_dom_slate_lookup_by_id)
  show "\<not> live c \<Longrightarrow> slate_lookup_by_id c = Map.empty" by (cases c) auto
qed

lemma finite_dom_balance_lookup_by_id: "finite (dom (balance_lookup_by_id c))"
proof (induction c)
  case (Pending p c)
  have "dom (balance_lookup_by_id (Pending p c)) \<subseteq> dom (map_of (p_balance_id_to_entry p)) \<union> dom (balance_lookup_by_id c)"
    by (auto split: option.splits if_splits)
  with Pending show ?case by (meson finite_UnI finite_dom_map_of finite_subset)
qed (simp_all add: db_access_defs finite_dom_map_of)

interpretation balance_map: entry_map balance_lookup_by_id balance_insert_into_id_map balance_erase_from_id_map
proof
  fix c k v
  show "live c \<Longrightarrow> balance_lookup_by_id (balance_insert_into_id_map k v c) = (balance_lookup_by_id c)(k \<mapsto> v)"
    by (cases c) (auto simp: fun_eq_iff db_access_defs)
  show "live c \<Longrightarrow> balance_lookup_by_id (balance_erase_from_id_map k c) = (balance_lookup_by_id c)(k := None)"
    by (cases c) (auto simp: fun_eq_iff db_access_defs)
  show "live (balance_insert_into_id_map k v c) = live c" "live (balance_erase_from_id_map k c) = live c" by (cases c; simp)+
  show "finite (dom (balance_lookup_by_id c))" by (rule finite_dom_balance_lookup_by_id)
  show "\<not> live c \<Longrightarrow> balance_lookup_by_id c = Map.empty" by (cases c) auto
qed

lemma finite_dom_slot_lookup_by_index: "finite (dom (slot_lookup_by_index c))"
proof (induction c)
  case (Pending p c)
  have "dom (slot_lookup_by_index (Pending p c)) \<subseteq> dom (map_of (p_slot_index_to_entry p)) \<union> dom (slot_lookup_by_index c)"
    by (auto split: option.splits if_splits)
  with Pending show ?case by (meson finite_UnI finite_dom_map_of finite_subset)
qed (simp_all add: db_access_defs finite_dom_map_of)

interpretation slot_map: entry_map slot_lookup_by_index slot_insert_into_index_map slot_erase_from_index_map
proof
  fix c k v
  show "live c \<Longrightarrow> slot_lookup_by_index (slot_insert_into_index_map k v c) = (slot_lookup_by_index c)(k \<mapsto> v)"
    by (cases c) (auto simp: fun_eq_iff db_access_defs)
  show "live c \<Longrightarrow> slot_lookup_by_index (slot_erase_from_index_map k c) = (slot_lookup_by_index c)(k := None)"
    by (cases c) (auto simp: fun_eq_iff db_access_defs)
  show "live (slot_insert_into_index_map k v c) = live c" "live (slot_erase_from_index_map k c) = live c" by (cases c; simp)+
  show "finite (dom (slot_lookup_by_index c))" by (rule finite_dom_slot_lookup_by_index)
  show "\<not> live c \<Longrightarrow> slot_lookup_by_index c = Map.empty" by (cases c) auto
qed

lemma finite_dom_contract_lookup_by_id: "finite (dom (contract_lookup_by_id c))"
proof (induction c)
  case (Pending p c)
  have "dom (contract_lookup_by_id (Pending p c)) \<subseteq> dom (map_of (p_contract_id_to_entry p)) \<union> dom (contract_lookup_by_id c)"
    by (auto split: option.splits if_splits)
  with Pending show ?case by (meson finite_UnI finite_dom_map_of finite_subset)
qed (simp_all add: db_access_defs finite_dom_map_of)

interpretation contract_map: entry_map contract_lookup_by_id contract_insert_into_id_map contract_erase_from_id_map
proof
  fix c k v
  show "live c \<Longrightarrow> contract_lookup_by_id (contract_insert_into_id_map k v c) = (contract_lookup_by_id c)(k \<mapsto> v)"
    by (cases c) (auto simp: fun_eq_iff db_access_defs)
  show "live c \<Longrightarrow> contract_lookup_by_id (contract_erase_from_id_map k c) = (contract_lookup_by_id c)(k := None)"
    by (cases c) (auto simp: fun_eq_iff db_access_defs)
  show "live (contract_insert_into_id_map k v c) = live c" "live (contract_erase_from_id_map k c) = live c" by (cases c; simp)+
  show "finite (dom (contract_lookup_by_id c))" by (rule finite_dom_contract_lookup_by_id)
  show "\<not> live c \<Longrightarrow> contract_lookup_by_id c = Map.empty" by (cases c) auto
qed

lemma finite_dom_contract_lookup_resultid_by_reqestid: "finite (dom (contract_lookup_resultid_by_reqestid c))"
proof (induction c)
  case (Pending p c)
  have "dom (contract_lookup_resultid_by_reqestid (Pending p c)) \<subseteq> dom (map_of (p_request_id_to_result_id p)) \<union> dom (contract_lookup_resultid_by_reqestid c)"
    by (auto split: option.splits if_splits)
  with Pending show ?case by (meson finite_UnI finite_dom_map_of finite_subset)
qed (simp_all add: db_access_defs finite_dom_map_of)

interpretation result_map: entry_map contract_lookup_resultid_by_reqestid contract_store_resultid_by_reqestid contract_erase_resultid_by_reqestid
proof
  fix c k v
  show "live c \<Longrightarrow> contract_lookup_resultid_by_reqestid (contract_store_resultid_by_reqestid k v c) = (contract_lookup_resultid_by_reqestid c)(k \<mapsto> v)"
    by (cases c) (auto simp: fun_eq_iff db_access_defs)
  show "live c \<Longrightarrow> contract_lookup_resultid_by_reqestid (contract_erase_resultid_by_reqestid k c) = (contract_lookup_resultid_by_reqestid c)(k := None)"
    by (cases c) (auto simp: fun_eq_iff db_access_defs)
  show "live (contract_store_resultid_by_reqestid k v c) = live c" "live (contract_erase_resultid_by_reqestid k c) = live c" by (cases c; simp)+
  show "finite (dom (contract_lookup_resultid_by_reqestid c))" by (rule finite_dom_contract_lookup_resultid_by_reqestid)
  show "\<not> live c \<Longrightarrow> contract_lookup_resultid_by_reqestid c = Map.empty" by (cases c) auto
qed

lemma finite_dom_contract_lookup_requestid_by_resultid: "finite (dom (contract_lookup_requestid_by_resultid c))"
proof (induction c)
  case (Pending p c)
  have "dom (contract_lookup_requestid_by_resultid (Pending p c)) \<subseteq> dom (map_of (p_result_id_to_request_id p)) \<union> dom (contract_lookup_requestid_by_resultid c)"
    by (auto split: option.splits if_splits)
  with Pending show ?case by (meson finite_UnI finite_dom_map_of finite_subset)
qed (simp_all add: db_access_defs finite_dom_map_of)

interpretation request_map: entry_map contract_lookup_requestid_by_resultid contract_store_requestid_by_resultid contract_erase_requestid_by_resultid
proof
  fix c k v
  show "live c \<Longrightarrow> contract_lookup_requestid_by_resultid (contract_store_requestid_by_resultid k v c) = (contract_lookup_requestid_by_resultid c)(k \<mapsto> v)"
    by (cases c) (auto simp: fun_eq_iff db_access_defs)
  show "live c \<Longrightarrow> contract_lookup_requestid_by_resultid (contract_erase_requestid_by_resultid k c) = (contract_lookup_requestid_by_resultid c)(k := None)"
    by (cases c) (auto simp: fun_eq_iff db_access_defs)
  show "live (contract_store_requestid_by_resultid k v c) = live c" "live (contract_erase_requestid_by_resultid k c) = live c" by (cases c; simp)+
  show "finite (dom (contract_lookup_requestid_by_resultid c))" by (rule finite_dom_contract_lookup_requestid_by_resultid)
  show "\<not> live c \<Longrightarrow> contract_lookup_requestid_by_resultid c = Map.empty" by (cases c) auto
qed

lemma finite_dom_contract_lookup_contractid_by_trxid: "finite (dom (contract_lookup_contractid_by_trxid c))"
proof (induction c)
  case (Pending p c)
  have "dom (contract_lookup_contractid_by_trxid (Pending p c)) \<subseteq> dom (map_of (p_trx_to_contract_id p)) \<union> dom (contract_lookup_contractid_by_trxid c)"
    by (auto split: option.splits if_splits)
  with Pending show ?case by (meson finite_UnI finite_dom_map_of finite_subset)
qed (simp_all add: db_access_defs finite_dom_map_of)

interpretation intrx_map: entry_map contract_lookup_contractid_by_trxid contract_store_contractid_by_trxid contract_erase_contractid_by_trxid
proof
  fix c k v
  show "live c \<Longrightarrow> contract_lookup_contractid_by_trxid (contract_store_contractid_by_trxid k v c) = (contract_lookup_contractid_by_trxid c)(k \<mapsto> v)"
    by (cases c) (auto simp: fun_eq_iff db_access_defs)
  show "live c \<Longrightarrow> contract_lookup_contractid_by_trxid (contract_erase_contractid_by_trxid k c) = (contract_lookup_contractid_by_trxid c)(k := None)"
    by (cases c) (auto simp: fun_eq_iff db_access_defs)
  show "live (contract_store_contractid_by_trxid k v c) = live c" "live (contract_erase_contractid_by_trxid k c) = live c" by (cases c; simp)+
  show "finite (dom (contract_lookup_contractid_by_trxid c))" by (rule finite_dom_contract_lookup_contractid_by_trxid)
  show "\<not> live c \<Longrightarrow> contract_lookup_contractid_by_trxid c = Map.empty" by (cases c) auto
qed

lemma finite_dom_contract_lookup_trxid_by_contract_id: "finite (dom (contract_lookup_trxid_by_contract_id c))"
proof (induction c)
  case (Pending p c)
  have "dom (contract_lookup_trxid_by_contract_id (Pending p c)) \<subseteq> dom (map_of (p_contract_to_trx_id p)) \<union> dom (contract_lookup_trxid_by_contract_id c)"
    by (auto split: option.splits if_splits)
  with Pending show ?case by (meson finite_UnI finite_dom_map_of finite_subset)
qed (simp_all add: db_access_defs finite_dom_map_of)

interpretation contrx_map: entry_map contract_lookup_trxid_by_contract_id contract_store_trxid_by_contractid contract_erase_trxid_by_contract_id
proof
  fix c k v
  show "live c \<Longrightarrow> contract_lookup_trxid_by_contract_id (contract_store_trxid_by_contractid k v c) = (contract_lookup_trxid_by_contract_id c)(k \<mapsto> v)"
    by (cases c) (auto simp: fun_eq_iff db_access_defs)
  show "live c \<Longrightarrow> contract_lookup_trxid_by_contract_id (contract_erase_trxid_by_contract_id k c) = (contract_lookup_trxid_by_contract_id c)(k := None)"
    by (cases c) (auto simp: fun_eq_iff db_access_defs)
  show "live (contract_store_trxid_by_contractid k v c) = live c" "live (contract_erase_trxid_by_contract_id k c) = live c" by (cases c; simp)+
  show "finite (dom (contract_lookup_trxid_by_contract_id c))" by (rule finite_dom_contract_lookup_trxid_by_contract_id)
  show "\<not> live c \<Longrightarrow> contract_lookup_trxid_by_contract_id c = Map.empty" by (cases c) auto
qed

section \<open>Well-formed states\<close>

text \<open>
  The keys of every map are sorted and distinct, the vote set is sorted, and an overlay holds
  no slot entries on a node that keeps no statistics.
\<close>

definition database_ok :: "database \<Rightarrow> bool" where
  "database_ok d \<longleftrightarrow>
     sorted_wrt (<) (db_delegate_votes d) \<and>
     smap_ok (db_property_id_to_entry d) \<and>
     smap_ok (db_account_id_to_entry d) \<and>
     smap_ok (db_asset_id_to_entry d) \<and>
     smap_ok (db_slate_id_to_entry d) \<and>
     smap_ok (db_balance_id_to_entry d) \<and>
     smap_ok (db_transaction_id_to_entry d) \<and>
     smap_ok (db_slot_index_to_entry d) \<and>
     smap_ok (db_contract_id_to_entry d) \<and>
     smap_ok (db_contract_id_to_storage d) \<and>
     smap_ok (db_request_id_to_result_id d) \<and>
     smap_ok (db_result_id_to_request_id d) \<and>
     smap_ok (db_trx_to_contract_id d) \<and>
     smap_ok (db_contract_to_trx_id d)"

definition pending_ok :: "env \<Rightarrow> PendingChainState \<Rightarrow> bool" where
  "pending_ok E p \<longleftrightarrow>
     (the_statistics_enabled E \<or> p_slot_index_to_entry p = [] \<and> p_slot_index_remove p = []) \<and>
     smap_ok (p_property_id_to_entry p) \<and>
     smap_ok (p_account_id_to_entry p) \<and>
     smap_ok (p_asset_id_to_entry p) \<and>
     smap_ok (p_slate_id_to_entry p) \<and>
     smap_ok (p_balance_id_to_entry p) \<and>
     smap_ok (p_transaction_id_to_entry p) \<and>
     smap_ok (p_slot_index_to_entry p) \<and>
     smap_ok (p_contract_id_to_entry p) \<and>
     smap_ok (p_contract_id_to_storage p) \<and>
     smap_ok (p_request_id_to_result_id p) \<and>
     smap_ok (p_result_id_to_request_id p) \<and>
     smap_ok (p_trx_to_contract_id p) \<and>
     smap_ok (p_contract_to_trx_id p)"

fun chain_ok :: "env \<Rightarrow> chain \<Rightarrow> bool" where
  "chain_ok E NoState \<longleftrightarrow> True"
| "chain_ok E (Database d) \<longleftrightarrow> database_ok d"
| "chain_ok E (Pending p prev) \<longleftrightarrow> pending_ok E p \<and> chain_ok E prev"

lemmas chain_ok_defs = database_ok_def pending_ok_def

lemma sorted_wrt_set_del: "sorted_wrt (<) xs \<Longrightarrow> sorted_wrt (<) (set_del x xs)"
  by (simp add: set_del_def sorted_wrt_filter)

lemma new_pending_ok [simp]: "pending_ok E new_pending"
  by (simp add: pending_ok_def new_pending_def smap_ok_def)

section \<open>Frame: what a write to one map leaves alone\<close>

lemma property_insert_into_id_map_frame [simp, frame]:
  "account_lookup_by_id (property_insert_into_id_map k v c) = account_lookup_by_id c"
  "asset_lookup_by_id (property_insert_into_id_map k v c) = asset_lookup_by_id c"
  "slate_lookup_by_id (property_insert_into_id_map k v c) = slate_lookup_by_id c"
  "balance_lookup_by_id (property_insert_into_id_map k v c) = balance_lookup_by_id c"
  "slot_lookup_by_index (property_insert_into_id_map k v c) = slot_lookup_by_index c"
  "contract_lookup_by_id (property_insert_into_id_map k v c) = contract_lookup_by_id c"
  "contract_lookup_resultid_by_reqestid (property_insert_into_id_map k v c) = contract_lookup_resultid_by_reqestid c"
  "contract_lookup_requestid_by_resultid (property_insert_into_id_map k v c) = contract_lookup_requestid_by_resultid c"
  "contract_lookup_contractid_by_trxid (property_insert_into_id_map k v c) = contract_lookup_contractid_by_trxid c"
  "contract_lookup_trxid_by_contract_id (property_insert_into_id_map k v c) = contract_lookup_trxid_by_contract_id c"
  "contractstorage_lookup_by_id (property_insert_into_id_map k v c) = contractstorage_lookup_by_id c"
  "transaction_lookup_by_id (property_insert_into_id_map k v c) = transaction_lookup_by_id c"
  "get_head_block_num (property_insert_into_id_map k v c) = get_head_block_num c"
  "get_head_block_timestamp (property_insert_into_id_map k v c) = get_head_block_timestamp c"
  "now E (property_insert_into_id_map k v c) = now E c"
  "live (property_insert_into_id_map k v c) = live c"
  "prev_of (property_insert_into_id_map k v c) = prev_of c"
  "is_pending (property_insert_into_id_map k v c) = is_pending c"
  by (cases c; simp add: fun_eq_iff db_access_defs db_now_def split: option.split)+

lemma property_insert_into_id_map_ok [simp]:
  "chain_ok E c \<Longrightarrow> chain_ok E (property_insert_into_id_map k v c)"
  by (cases c) (auto simp: chain_ok_defs db_access_defs sorted_wrt_set_del distinct_sset_insert)

lemma property_erase_from_id_map_frame [simp, frame]:
  "account_lookup_by_id (property_erase_from_id_map k c) = account_lookup_by_id c"
  "asset_lookup_by_id (property_erase_from_id_map k c) = asset_lookup_by_id c"
  "slate_lookup_by_id (property_erase_from_id_map k c) = slate_lookup_by_id c"
  "balance_lookup_by_id (property_erase_from_id_map k c) = balance_lookup_by_id c"
  "slot_lookup_by_index (property_erase_from_id_map k c) = slot_lookup_by_index c"
  "contract_lookup_by_id (property_erase_from_id_map k c) = contract_lookup_by_id c"
  "contract_lookup_resultid_by_reqestid (property_erase_from_id_map k c) = contract_lookup_resultid_by_reqestid c"
  "contract_lookup_requestid_by_resultid (property_erase_from_id_map k c) = contract_lookup_requestid_by_resultid c"
  "contract_lookup_contractid_by_trxid (property_erase_from_id_map k c) = contract_lookup_contractid_by_trxid c"
  "contract_lookup_trxid_by_contract_id (property_erase_from_id_map k c) = contract_lookup_trxid_by_contract_id c"
  "contractstorage_lookup_by_id (property_erase_from_id_map k c) = contractstorage_lookup_by_id c"
  "transaction_lookup_by_id (property_erase_from_id_map k c) = transaction_lookup_by_id c"
  "get_head_block_num (property_erase_from_id_map k c) = get_head_block_num c"
  "get_head_block_timestamp (property_erase_from_id_map k c) = get_head_block_timestamp c"
  "now E (property_erase_from_id_map k c) = now E c"
  "live (property_erase_from_id_map k c) = live c"
  "prev_of (property_erase_from_id_map k c) = prev_of c"
  "is_pending (property_erase_from_id_map k c) = is_pending c"
  by (cases c; simp add: fun_eq_iff db_access_defs db_now_def split: option.split)+

lemma property_erase_from_id_map_ok [simp]:
  "chain_ok E c \<Longrightarrow> chain_ok E (property_erase_from_id_map k c)"
  by (cases c) (auto simp: chain_ok_defs db_access_defs sorted_wrt_set_del distinct_sset_insert)

lemma account_insert_into_id_map_frame [simp, frame]:
  "property_lookup_by_id (account_insert_into_id_map k v c) = property_lookup_by_id c"
  "asset_lookup_by_id (account_insert_into_id_map k v c) = asset_lookup_by_id c"
  "slate_lookup_by_id (account_insert_into_id_map k v c) = slate_lookup_by_id c"
  "balance_lookup_by_id (account_insert_into_id_map k v c) = balance_lookup_by_id c"
  "slot_lookup_by_index (account_insert_into_id_map k v c) = slot_lookup_by_index c"
  "contract_lookup_by_id (account_insert_into_id_map k v c) = contract_lookup_by_id c"
  "contract_lookup_resultid_by_reqestid (account_insert_into_id_map k v c) = contract_lookup_resultid_by_reqestid c"
  "contract_lookup_requestid_by_resultid (account_insert_into_id_map k v c) = contract_lookup_requestid_by_resultid c"
  "contract_lookup_contractid_by_trxid (account_insert_into_id_map k v c) = contract_lookup_contractid_by_trxid c"
  "contract_lookup_trxid_by_contract_id (account_insert_into_id_map k v c) = contract_lookup_trxid_by_contract_id c"
  "contractstorage_lookup_by_id (account_insert_into_id_map k v c) = contractstorage_lookup_by_id c"
  "transaction_lookup_by_id (account_insert_into_id_map k v c) = transaction_lookup_by_id c"
  "get_head_block_num (account_insert_into_id_map k v c) = get_head_block_num c"
  "get_head_block_timestamp (account_insert_into_id_map k v c) = get_head_block_timestamp c"
  "now E (account_insert_into_id_map k v c) = now E c"
  "live (account_insert_into_id_map k v c) = live c"
  "prev_of (account_insert_into_id_map k v c) = prev_of c"
  "is_pending (account_insert_into_id_map k v c) = is_pending c"
  by (cases c; simp add: fun_eq_iff db_access_defs db_now_def split: option.split)+

lemma account_insert_into_id_map_ok [simp]:
  "chain_ok E c \<Longrightarrow> chain_ok E (account_insert_into_id_map k v c)"
  by (cases c) (auto simp: chain_ok_defs db_access_defs sorted_wrt_set_del distinct_sset_insert)

lemma account_erase_from_id_map_frame [simp, frame]:
  "property_lookup_by_id (account_erase_from_id_map k c) = property_lookup_by_id c"
  "asset_lookup_by_id (account_erase_from_id_map k c) = asset_lookup_by_id c"
  "slate_lookup_by_id (account_erase_from_id_map k c) = slate_lookup_by_id c"
  "balance_lookup_by_id (account_erase_from_id_map k c) = balance_lookup_by_id c"
  "slot_lookup_by_index (account_erase_from_id_map k c) = slot_lookup_by_index c"
  "contract_lookup_by_id (account_erase_from_id_map k c) = contract_lookup_by_id c"
  "contract_lookup_resultid_by_reqestid (account_erase_from_id_map k c) = contract_lookup_resultid_by_reqestid c"
  "contract_lookup_requestid_by_resultid (account_erase_from_id_map k c) = contract_lookup_requestid_by_resultid c"
  "contract_lookup_contractid_by_trxid (account_erase_from_id_map k c) = contract_lookup_contractid_by_trxid c"
  "contract_lookup_trxid_by_contract_id (account_erase_from_id_map k c) = contract_lookup_trxid_by_contract_id c"
  "contractstorage_lookup_by_id (account_erase_from_id_map k c) = contractstorage_lookup_by_id c"
  "transaction_lookup_by_id (account_erase_from_id_map k c) = transaction_lookup_by_id c"
  "get_head_block_num (account_erase_from_id_map k c) = get_head_block_num c"
  "get_head_block_timestamp (account_erase_from_id_map k c) = get_head_block_timestamp c"
  "now E (account_erase_from_id_map k c) = now E c"
  "live (account_erase_from_id_map k c) = live c"
  "prev_of (account_erase_from_id_map k c) = prev_of c"
  "is_pending (account_erase_from_id_map k c) = is_pending c"
  by (cases c; simp add: fun_eq_iff db_access_defs db_now_def split: option.split)+

lemma account_erase_from_id_map_ok [simp]:
  "chain_ok E c \<Longrightarrow> chain_ok E (account_erase_from_id_map k c)"
  by (cases c) (auto simp: chain_ok_defs db_access_defs sorted_wrt_set_del distinct_sset_insert)

lemma asset_insert_into_id_map_frame [simp, frame]:
  "property_lookup_by_id (asset_insert_into_id_map k v c) = property_lookup_by_id c"
  "account_lookup_by_id (asset_insert_into_id_map k v c) = account_lookup_by_id c"
  "slate_lookup_by_id (asset_insert_into_id_map k v c) = slate_lookup_by_id c"
  "balance_lookup_by_id (asset_insert_into_id_map k v c) = balance_lookup_by_id c"
  "slot_lookup_by_index (asset_insert_into_id_map k v c) = slot_lookup_by_index c"
  "contract_lookup_by_id (asset_insert_into_id_map k v c) = contract_lookup_by_id c"
  "contract_lookup_resultid_by_reqestid (asset_insert_into_id_map k v c) = contract_lookup_resultid_by_reqestid c"
  "contract_lookup_requestid_by_resultid (asset_insert_into_id_map k v c) = contract_lookup_requestid_by_resultid c"
  "contract_lookup_contractid_by_trxid (asset_insert_into_id_map k v c) = contract_lookup_contractid_by_trxid c"
  "contract_lookup_trxid_by_contract_id (asset_insert_into_id_map k v c) = contract_lookup_trxid_by_contract_id c"
  "contractstorage_lookup_by_id (asset_insert_into_id_map k v c) = contractstorage_lookup_by_id c"
  "transaction_lookup_by_id (asset_insert_into_id_map k v c) = transaction_lookup_by_id c"
  "get_head_block_num (asset_insert_into_id_map k v c) = get_head_block_num c"
  "get_head_block_timestamp (asset_insert_into_id_map k v c) = get_head_block_timestamp c"
  "now E (asset_insert_into_id_map k v c) = now E c"
  "live (asset_insert_into_id_map k v c) = live c"
  "prev_of (asset_insert_into_id_map k v c) = prev_of c"
  "is_pending (asset_insert_into_id_map k v c) = is_pending c"
  by (cases c; simp add: fun_eq_iff db_access_defs db_now_def split: option.split)+

lemma asset_insert_into_id_map_ok [simp]:
  "chain_ok E c \<Longrightarrow> chain_ok E (asset_insert_into_id_map k v c)"
  by (cases c) (auto simp: chain_ok_defs db_access_defs sorted_wrt_set_del distinct_sset_insert)

lemma asset_erase_from_id_map_frame [simp, frame]:
  "property_lookup_by_id (asset_erase_from_id_map k c) = property_lookup_by_id c"
  "account_lookup_by_id (asset_erase_from_id_map k c) = account_lookup_by_id c"
  "slate_lookup_by_id (asset_erase_from_id_map k c) = slate_lookup_by_id c"
  "balance_lookup_by_id (asset_erase_from_id_map k c) = balance_lookup_by_id c"
  "slot_lookup_by_index (asset_erase_from_id_map k c) = slot_lookup_by_index c"
  "contract_lookup_by_id (asset_erase_from_id_map k c) = contract_lookup_by_id c"
  "contract_lookup_resultid_by_reqestid (asset_erase_from_id_map k c) = contract_lookup_resultid_by_reqestid c"
  "contract_lookup_requestid_by_resultid (asset_erase_from_id_map k c) = contract_lookup_requestid_by_resultid c"
  "contract_lookup_contractid_by_trxid (asset_erase_from_id_map k c) = contract_lookup_contractid_by_trxid c"
  "contract_lookup_trxid_by_contract_id (asset_erase_from_id_map k c) = contract_lookup_trxid_by_contract_id c"
  "contractstorage_lookup_by_id (asset_erase_from_id_map k c) = contractstorage_lookup_by_id c"
  "transaction_lookup_by_id (asset_erase_from_id_map k c) = transaction_lookup_by_id c"
  "get_head_block_num (asset_erase_from_id_map k c) = get_head_block_num c"
  "get_head_block_timestamp (asset_erase_from_id_map k c) = get_head_block_timestamp c"
  "now E (asset_erase_from_id_map k c) = now E c"
  "live (asset_erase_from_id_map k c) = live c"
  "prev_of (asset_erase_from_id_map k c) = prev_of c"
  "is_pending (asset_erase_from_id_map k c) = is_pending c"
  by (cases c; simp add: fun_eq_iff db_access_defs db_now_def split: option.split)+

lemma asset_erase_from_id_map_ok [simp]:
  "chain_ok E c \<Longrightarrow> chain_ok E (asset_erase_from_id_map k c)"
  by (cases c) (auto simp: chain_ok_defs db_access_defs sorted_wrt_set_del distinct_sset_insert)

lemma slate_insert_into_id_map_frame [simp, frame]:
  "property_lookup_by_id (slate_insert_into_id_map k v c) = property_lookup_by_id c"
  "account_lookup_by_id (slate_insert_into_id_map k v c) = account_lookup_by_id c"
  "asset_lookup_by_id (slate_insert_into_id_map k v c) = asset_lookup_by_id c"
  "balance_lookup_by_id (slate_insert_into_id_map k v c) = balance_lookup_by_id c"
  "slot_lookup_by_index (slate_insert_into_id_map k v c) = slot_lookup_by_index c"
  "contract_lookup_by_id (slate_insert_into_id_map k v c) = contract_lookup_by_id c"
  "contract_lookup_resultid_by_reqestid (slate_insert_into_id_map k v c) = contract_lookup_resultid_by_reqestid c"
  "contract_lookup_requestid_by_resultid (slate_insert_into_id_map k v c) = contract_lookup_requestid_by_resultid c"
  "contract_lookup_contractid_by_trxid (slate_insert_into_id_map k v c) = contract_lookup_contractid_by_trxid c"
  "contract_lookup_trxid_by_contract_id (slate_insert_into_id_map k v c) = contract_lookup_trxid_by_contract_id c"
  "contractstorage_lookup_by_id (slate_insert_into_id_map k v c) = contractstorage_lookup_by_id c"
  "transaction_lookup_by_id (slate_insert_into_id_map k v c) = transaction_lookup_by_id c"
  "get_head_block_num (slate_insert_into_id_map k v c) = get_head_block_num c"
  "get_head_block_timestamp (slate_insert_into_id_map k v c) = get_head_block_timestamp c"
  "now E (slate_insert_into_id_map k v c) = now E c"
  "live (slate_insert_into_id_map k v c) = live c"
  "prev_of (slate_insert_into_id_map k v c) = prev_of c"
  "is_pending (slate_insert_into_id_map k v c) = is_pending c"
  by (cases c; simp add: fun_eq_iff db_access_defs db_now_def split: option.split)+

lemma slate_insert_into_id_map_ok [simp]:
  "chain_ok E c \<Longrightarrow> chain_ok E (slate_insert_into_id_map k v c)"
  by (cases c) (auto simp: chain_ok_defs db_access_defs sorted_wrt_set_del distinct_sset_insert)

lemma slate_erase_from_id_map_frame [simp, frame]:
  "property_lookup_by_id (slate_erase_from_id_map k c) = property_lookup_by_id c"
  "account_lookup_by_id (slate_erase_from_id_map k c) = account_lookup_by_id c"
  "asset_lookup_by_id (slate_erase_from_id_map k c) = asset_lookup_by_id c"
  "balance_lookup_by_id (slate_erase_from_id_map k c) = balance_lookup_by_id c"
  "slot_lookup_by_index (slate_erase_from_id_map k c) = slot_lookup_by_index c"
  "contract_lookup_by_id (slate_erase_from_id_map k c) = contract_lookup_by_id c"
  "contract_lookup_resultid_by_reqestid (slate_erase_from_id_map k c) = contract_lookup_resultid_by_reqestid c"
  "contract_lookup_requestid_by_resultid (slate_erase_from_id_map k c) = contract_lookup_requestid_by_resultid c"
  "contract_lookup_contractid_by_trxid (slate_erase_from_id_map k c) = contract_lookup_contractid_by_trxid c"
  "contract_lookup_trxid_by_contract_id (slate_erase_from_id_map k c) = contract_lookup_trxid_by_contract_id c"
  "contractstorage_lookup_by_id (slate_erase_from_id_map k c) = contractstorage_lookup_by_id c"
  "transaction_lookup_by_id (slate_erase_from_id_map k c) = transaction_lookup_by_id c"
  "get_head_block_num (slate_erase_from_id_map k c) = get_head_block_num c"
  "get_head_block_timestamp (slate_erase_from_id_map k c) = get_head_block_timestamp c"
  "now E (slate_erase_from_id_map k c) = now E c"
  "live (slate_erase_from_id_map k c) = live c"
  "prev_of (slate_erase_from_id_map k c) = prev_of c"
  "is_pending (slate_erase_from_id_map k c) = is_pending c"
  by (cases c; simp add: fun_eq_iff db_access_defs db_now_def split: option.split)+

lemma slate_erase_from_id_map_ok [simp]:
  "chain_ok E c \<Longrightarrow> chain_ok E (slate_erase_from_id_map k c)"
  by (cases c) (auto simp: chain_ok_defs db_access_defs sorted_wrt_set_del distinct_sset_insert)

lemma balance_insert_into_id_map_frame [simp, frame]:
  "property_lookup_by_id (balance_insert_into_id_map k v c) = property_lookup_by_id c"
  "account_lookup_by_id (balance_insert_into_id_map k v c) = account_lookup_by_id c"
  "asset_lookup_by_id (balance_insert_into_id_map k v c) = asset_lookup_by_id c"
  "slate_lookup_by_id (balance_insert_into_id_map k v c) = slate_lookup_by_id c"
  "slot_lookup_by_index (balance_insert_into_id_map k v c) = slot_lookup_by_index c"
  "contract_lookup_by_id (balance_insert_into_id_map k v c) = contract_lookup_by_id c"
  "contract_lookup_resultid_by_reqestid (balance_insert_into_id_map k v c) = contract_lookup_resultid_by_reqestid c"
  "contract_lookup_requestid_by_resultid (balance_insert_into_id_map k v c) = contract_lookup_requestid_by_resultid c"
  "contract_lookup_contractid_by_trxid (balance_insert_into_id_map k v c) = contract_lookup_contractid_by_trxid c"
  "contract_lookup_trxid_by_contract_id (balance_insert_into_id_map k v c) = contract_lookup_trxid_by_contract_id c"
  "contractstorage_lookup_by_id (balance_insert_into_id_map k v c) = contractstorage_lookup_by_id c"
  "transaction_lookup_by_id (balance_insert_into_id_map k v c) = transaction_lookup_by_id c"
  "get_head_block_num (balance_insert_into_id_map k v c) = get_head_block_num c"
  "get_head_block_timestamp (balance_insert_into_id_map k v c) = get_head_block_timestamp c"
  "now E (balance_insert_into_id_map k v c) = now E c"
  "live (balance_insert_into_id_map k v c) = live c"
  "prev_of (balance_insert_into_id_map k v c) = prev_of c"
  "is_pending (balance_insert_into_id_map k v c) = is_pending c"
  by (cases c; simp add: fun_eq_iff db_access_defs db_now_def split: option.split)+

lemma balance_insert_into_id_map_ok [simp]:
  "chain_ok E c \<Longrightarrow> chain_ok E (balance_insert_into_id_map k v c)"
  by (cases c) (auto simp: chain_ok_defs db_access_defs sorted_wrt_set_del distinct_sset_insert)

lemma balance_erase_from_id_map_frame [simp, frame]:
  "property_lookup_by_id (balance_erase_from_id_map k c) = property_lookup_by_id c"
  "account_lookup_by_id (balance_erase_from_id_map k c) = account_lookup_by_id c"
  "asset_lookup_by_id (balance_erase_from_id_map k c) = asset_lookup_by_id c"
  "slate_lookup_by_id (balance_erase_from_id_map k c) = slate_lookup_by_id c"
  "slot_lookup_by_index (balance_erase_from_id_map k c) = slot_lookup_by_index c"
  "contract_lookup_by_id (balance_erase_from_id_map k c) = contract_lookup_by_id c"
  "contract_lookup_resultid_by_reqestid (balance_erase_from_id_map k c) = contract_lookup_resultid_by_reqestid c"
  "contract_lookup_requestid_by_resultid (balance_erase_from_id_map k c) = contract_lookup_requestid_by_resultid c"
  "contract_lookup_contractid_by_trxid (balance_erase_from_id_map k c) = contract_lookup_contractid_by_trxid c"
  "contract_lookup_trxid_by_contract_id (balance_erase_from_id_map k c) = contract_lookup_trxid_by_contract_id c"
  "contractstorage_lookup_by_id (balance_erase_from_id_map k c) = contractstorage_lookup_by_id c"
  "transaction_lookup_by_id (balance_erase_from_id_map k c) = transaction_lookup_by_id c"
  "get_head_block_num (balance_erase_from_id_map k c) = get_head_block_num c"
  "get_head_block_timestamp (balance_erase_from_id_map k c) = get_head_block_timestamp c"
  "now E (balance_erase_from_id_map k c) = now E c"
  "live (balance_erase_from_id_map k c) = live c"
  "prev_of (balance_erase_from_id_map k c) = prev_of c"
  "is_pending (balance_erase_from_id_map k c) = is_pending c"
  by (cases c; simp add: fun_eq_iff db_access_defs db_now_def split: option.split)+

lemma balance_erase_from_id_map_ok [simp]:
  "chain_ok E c \<Longrightarrow> chain_ok E (balance_erase_from_id_map k c)"
  by (cases c) (auto simp: chain_ok_defs db_access_defs sorted_wrt_set_del distinct_sset_insert)

lemma slot_insert_into_index_map_frame [simp, frame]:
  "property_lookup_by_id (slot_insert_into_index_map k v c) = property_lookup_by_id c"
  "account_lookup_by_id (slot_insert_into_index_map k v c) = account_lookup_by_id c"
  "asset_lookup_by_id (slot_insert_into_index_map k v c) = asset_lookup_by_id c"
  "slate_lookup_by_id (slot_insert_into_index_map k v c) = slate_lookup_by_id c"
  "balance_lookup_by_id (slot_insert_into_index_map k v c) = balance_lookup_by_id c"
  "contract_lookup_by_id (slot_insert_into_index_map k v c) = contract_lookup_by_id c"
  "contract_lookup_resultid_by_reqestid (slot_insert_into_index_map k v c) = contract_lookup_resultid_by_reqestid c"
  "contract_lookup_requestid_by_resultid (slot_insert_into_index_map k v c) = contract_lookup_requestid_by_resultid c"
  "contract_lookup_contractid_by_trxid (slot_insert_into_index_map k v c) = contract_lookup_contractid_by_trxid c"
  "contract_lookup_trxid_by_contract_id (slot_insert_into_index_map k v c) = contract_lookup_trxid_by_contract_id c"
  "contractstorage_lookup_by_id (slot_insert_into_index_map k v c) = contractstorage_lookup_by_id c"
  "transaction_lookup_by_id (slot_insert_into_index_map k v c) = transaction_lookup_by_id c"
  "get_head_block_num (slot_insert_into_index_map k v c) = get_head_block_num c"
  "get_head_block_timestamp (slot_insert_into_index_map k v c) = get_head_block_timestamp c"
  "now E (slot_insert_into_index_map k v c) = now E c"
  "live (slot_insert_into_index_map k v c) = live c"
  "prev_of (slot_insert_into_index_map k v c) = prev_of c"
  "is_pending (slot_insert_into_index_map k v c) = is_pending c"
  by (cases c; simp add: fun_eq_iff db_access_defs db_now_def split: option.split)+

lemma slot_insert_into_index_map_ok [simp]:
  "the_statistics_enabled E \<Longrightarrow> chain_ok E c \<Longrightarrow> chain_ok E (slot_insert_into_index_map k v c)"
  by (cases c) (auto simp: chain_ok_defs db_access_defs sorted_wrt_set_del distinct_sset_insert)

lemma slot_erase_from_index_map_frame [simp, frame]:
  "property_lookup_by_id (slot_erase_from_index_map k c) = property_lookup_by_id c"
  "account_lookup_by_id (slot_erase_from_index_map k c) = account_lookup_by_id c"
  "asset_lookup_by_id (slot_erase_from_index_map k c) = asset_lookup_by_id c"
  "slate_lookup_by_id (slot_erase_from_index_map k c) = slate_lookup_by_id c"
  "balance_lookup_by_id (slot_erase_from_index_map k c) = balance_lookup_by_id c"
  "contract_lookup_by_id (slot_erase_from_index_map k c) = contract_lookup_by_id c"
  "contract_lookup_resultid_by_reqestid (slot_erase_from_index_map k c) = contract_lookup_resultid_by_reqestid c"
  "contract_lookup_requestid_by_resultid (slot_erase_from_index_map k c) = contract_lookup_requestid_by_resultid c"
  "contract_lookup_contractid_by_trxid (slot_erase_from_index_map k c) = contract_lookup_contractid_by_trxid c"
  "contract_lookup_trxid_by_contract_id (slot_erase_from_index_map k c) = contract_lookup_trxid_by_contract_id c"
  "contractstorage_lookup_by_id (slot_erase_from_index_map k c) = contractstorage_lookup_by_id c"
  "transaction_lookup_by_id (slot_erase_from_index_map k c) = transaction_lookup_by_id c"
  "get_head_block_num (slot_erase_from_index_map k c) = get_head_block_num c"
  "get_head_block_timestamp (slot_erase_from_index_map k c) = get_head_block_timestamp c"
  "now E (slot_erase_from_index_map k c) = now E c"
  "live (slot_erase_from_index_map k c) = live c"
  "prev_of (slot_erase_from_index_map k c) = prev_of c"
  "is_pending (slot_erase_from_index_map k c) = is_pending c"
  by (cases c; simp add: fun_eq_iff db_access_defs db_now_def split: option.split)+

lemma slot_erase_from_index_map_ok [simp]:
  "the_statistics_enabled E \<Longrightarrow> chain_ok E c \<Longrightarrow> chain_ok E (slot_erase_from_index_map k c)"
  by (cases c) (auto simp: chain_ok_defs db_access_defs sorted_wrt_set_del distinct_sset_insert)

lemma contract_insert_into_id_map_frame [simp, frame]:
  "property_lookup_by_id (contract_insert_into_id_map k v c) = property_lookup_by_id c"
  "account_lookup_by_id (contract_insert_into_id_map k v c) = account_lookup_by_id c"
  "asset_lookup_by_id (contract_insert_into_id_map k v c) = asset_lookup_by_id c"
  "slate_lookup_by_id (contract_insert_into_id_map k v c) = slate_lookup_by_id c"
  "balance_lookup_by_id (contract_insert_into_id_map k v c) = balance_lookup_by_id c"
  "slot_lookup_by_index (contract_insert_into_id_map k v c) = slot_lookup_by_index c"
  "contract_lookup_resultid_by_reqestid (contract_insert_into_id_map k v c) = contract_lookup_resultid_by_reqestid c"
  "contract_lookup_requestid_by_resultid (contract_insert_into_id_map k v c) = contract_lookup_requestid_by_resultid c"
  "contract_lookup_contractid_by_trxid (contract_insert_into_id_map k v c) = contract_lookup_contractid_by_trxid c"
  "contract_lookup_trxid_by_contract_id (contract_insert_into_id_map k v c) = contract_lookup_trxid_by_contract_id c"
  "transaction_lookup_by_id (contract_insert_into_id_map k v c) = transaction_lookup_by_id c"
  "get_head_block_num (contract_insert_into_id_map k v c) = get_head_block_num c"
  "get_head_block_timestamp (contract_insert_into_id_map k v c) = get_head_block_timestamp c"
  "now E (contract_insert_into_id_map k v c) = now E c"
  "live (contract_insert_into_id_map k v c) = live c"
  "prev_of (contract_insert_into_id_map k v c) = prev_of c"
  "is_pending (contract_insert_into_id_map k v c) = is_pending c"
  by (cases c; simp add: fun_eq_iff db_access_defs db_now_def split: option.split)+

lemma contract_insert_into_id_map_ok [simp]:
  "chain_ok E c \<Longrightarrow> chain_ok E (contract_insert_into_id_map k v c)"
  by (cases c) (auto simp: chain_ok_defs db_access_defs sorted_wrt_set_del distinct_sset_insert)

lemma contract_erase_from_id_map_frame [simp, frame]:
  "property_lookup_by_id (contract_erase_from_id_map k c) = property_lookup_by_id c"
  "account_lookup_by_id (contract_erase_from_id_map k c) = account_lookup_by_id c"
  "asset_lookup_by_id (contract_erase_from_id_map k c) = asset_lookup_by_id c"
  "slate_lookup_by_id (contract_erase_from_id_map k c) = slate_lookup_by_id c"
  "balance_lookup_by_id (contract_erase_from_id_map k c) = balance_lookup_by_id c"
  "slot_lookup_by_index (contract_erase_from_id_map k c) = slot_lookup_by_index c"
  "contract_lookup_resultid_by_reqestid (contract_erase_from_id_map k c) = contract_lookup_resultid_by_reqestid c"
  "contract_lookup_requestid_by_resultid (contract_erase_from_id_map k c) = contract_lookup_requestid_by_resultid c"
  "contract_lookup_contractid_by_trxid (contract_erase_from_id_map k c) = contract_lookup_contractid_by_trxid c"
  "contract_lookup_trxid_by_contract_id (contract_erase_from_id_map k c) = contract_lookup_trxid_by_contract_id c"
  "transaction_lookup_by_id (contract_erase_from_id_map k c) = transaction_lookup_by_id c"
  "get_head_block_num (contract_erase_from_id_map k c) = get_head_block_num c"
  "get_head_block_timestamp (contract_erase_from_id_map k c) = get_head_block_timestamp c"
  "now E (contract_erase_from_id_map k c) = now E c"
  "live (contract_erase_from_id_map k c) = live c"
  "prev_of (contract_erase_from_id_map k c) = prev_of c"
  "is_pending (contract_erase_from_id_map k c) = is_pending c"
  by (cases c; simp add: fun_eq_iff db_access_defs db_now_def split: option.split)+

lemma contract_erase_from_id_map_ok [simp]:
  "chain_ok E c \<Longrightarrow> chain_ok E (contract_erase_from_id_map k c)"
  by (cases c) (auto simp: chain_ok_defs db_access_defs sorted_wrt_set_del distinct_sset_insert)

lemma contract_store_resultid_by_reqestid_frame [simp, frame]:
  "property_lookup_by_id (contract_store_resultid_by_reqestid k v c) = property_lookup_by_id c"
  "account_lookup_by_id (contract_store_resultid_by_reqestid k v c) = account_lookup_by_id c"
  "asset_lookup_by_id (contract_store_resultid_by_reqestid k v c) = asset_lookup_by_id c"
  "slate_lookup_by_id (contract_store_resultid_by_reqestid k v c) = slate_lookup_by_id c"
  "balance_lookup_by_id (contract_store_resultid_by_reqestid k v c) = balance_lookup_by_id c"
  "slot_lookup_by_index (contract_store_resultid_by_reqestid k v c) = slot_lookup_by_index c"
  "contract_lookup_by_id (contract_store_resultid_by_reqestid k v c) = contract_lookup_by_id c"
  "contract_lookup_requestid_by_resultid (contract_store_resultid_by_reqestid k v c) = contract_lookup_requestid_by_resultid c"
  "contract_lookup_contractid_by_trxid (contract_store_resultid_by_reqestid k v c) = contract_lookup_contractid_by_trxid c"
  "contract_lookup_trxid_by_contract_id (contract_store_resultid_by_reqestid k v c) = contract_lookup_trxid_by_contract_id c"
  "contractstorage_lookup_by_id (contract_store_resultid_by_reqestid k v c) = contractstorage_lookup_by_id c"
  "transaction_lookup_by_id (contract_store_resultid_by_reqestid k v c) = transaction_lookup_by_id c"
  "get_head_block_num (contract_store_resultid_by_reqestid k v c) = get_head_block_num c"
  "get_head_block_timestamp (contract_store_resultid_by_reqestid k v c) = get_head_block_timestamp c"
  "now E (contract_store_resultid_by_reqestid k v c) = now E c"
  "live (contract_store_resultid_by_reqestid k v c) = live c"
  "prev_of (contract_store_resultid_by_reqestid k v c) = prev_of c"
  "is_pending (contract_store_resultid_by_reqestid k v c) = is_pending c"
  by (cases c; simp add: fun_eq_iff db_access_defs db_now_def split: option.split)+

lemma contract_store_resultid_by_reqestid_ok [simp]:
  "chain_ok E c \<Longrightarrow> chain_ok E (contract_store_resultid_by_reqestid k v c)"
  by (cases c) (auto simp: chain_ok_defs db_access_defs sorted_wrt_set_del distinct_sset_insert)

lemma contract_erase_resultid_by_reqestid_frame [simp, frame]:
  "property_lookup_by_id (contract_erase_resultid_by_reqestid k c) = property_lookup_by_id c"
  "account_lookup_by_id (contract_erase_resultid_by_reqestid k c) = account_lookup_by_id c"
  "asset_lookup_by_id (contract_erase_resultid_by_reqestid k c) = asset_lookup_by_id c"
  "slate_lookup_by_id (contract_erase_resultid_by_reqestid k c) = slate_lookup_by_id c"
  "balance_lookup_by_id (contract_erase_resultid_by_reqestid k c) = balance_lookup_by_id c"
  "slot_lookup_by_index (contract_erase_resultid_by_reqestid k c) = slot_lookup_by_index c"
  "contract_lookup_by_id (contract_erase_resultid_by_reqestid k c) = contract_lookup_by_id c"
  "contract_lookup_requestid_by_resultid (contract_erase_resultid_by_reqestid k c) = contract_lookup_requestid_by_resultid c"
  "contract_lookup_contractid_by_trxid (contract_erase_resultid_by_reqestid k c) = contract_lookup_contractid_by_trxid c"
  "contract_lookup_trxid_by_contract_id (contract_erase_resultid_by_reqestid k c) = contract_lookup_trxid_by_contract_id c"
  "contractstorage_lookup_by_id (contract_erase_resultid_by_reqestid k c) = contractstorage_lookup_by_id c"
  "transaction_lookup_by_id (contract_erase_resultid_by_reqestid k c) = transaction_lookup_by_id c"
  "get_head_block_num (contract_erase_resultid_by_reqestid k c) = get_head_block_num c"
  "get_head_block_timestamp (contract_erase_resultid_by_reqestid k c) = get_head_block_timestamp c"
  "now E (contract_erase_resultid_by_reqestid k c) = now E c"
  "live (contract_erase_resultid_by_reqestid k c) = live c"
  "prev_of (contract_erase_resultid_by_reqestid k c) = prev_of c"
  "is_pending (contract_erase_resultid_by_reqestid k c) = is_pending c"
  by (cases c; simp add: fun_eq_iff db_access_defs db_now_def split: option.split)+

lemma contract_erase_resultid_by_reqestid_ok [simp]:
  "chain_ok E c \<Longrightarrow> chain_ok E (contract_erase_resultid_by_reqestid k c)"
  by (cases c) (auto simp: chain_ok_defs db_access_defs sorted_wrt_set_del distinct_sset_insert)

lemma contract_store_requestid_by_resultid_frame [simp, frame]:
  "property_lookup_by_id (contract_store_requestid_by_resultid k v c) = property_lookup_by_id c"
  "account_lookup_by_id (contract_store_requestid_by_resultid k v c) = account_lookup_by_id c"
  "asset_lookup_by_id (contract_store_requestid_by_resultid k v c) = asset_lookup_by_id c"
  "slate_lookup_by_id (contract_store_requestid_by_resultid k v c) = slate_lookup_by_id c"
  "balance_lookup_by_id (contract_store_requestid_by_resultid k v c) = balance_lookup_by_id c"
  "slot_lookup_by_index (contract_store_requestid_by_resultid k v c) = slot_lookup_by_index c"
  "contract_lookup_by_id (contract_store_requestid_by_resultid k v c) = contract_lookup_by_id c"
  "contract_lookup_resultid_by_reqestid (contract_store_requestid_by_resultid k v c) = contract_lookup_resultid_by_reqestid c"
  "contract_lookup_contractid_by_trxid (contract_store_requestid_by_resultid k v c) = contract_lookup_contractid_by_trxid c"
  "contract_lookup_trxid_by_contract_id (contract_store_requestid_by_resultid k v c) = contract_lookup_trxid_by_contract_id c"
  "contractstorage_lookup_by_id (contract_store_requestid_by_resultid k v c) = contractstorage_lookup_by_id c"
  "transaction_lookup_by_id (contract_store_requestid_by_resultid k v c) = transaction_lookup_by_id c"
  "get_head_block_num (contract_store_requestid_by_resultid k v c) = get_head_block_num c"
  "get_head_block_timestamp (contract_store_requestid_by_resultid k v c) = get_head_block_timestamp c"
  "now E (contract_store_requestid_by_resultid k v c) = now E c"
  "live (contract_store_requestid_by_resultid k v c) = live c"
  "prev_of (contract_store_requestid_by_resultid k v c) = prev_of c"
  "is_pending (contract_store_requestid_by_resultid k v c) = is_pending c"
  by (cases c; simp add: fun_eq_iff db_access_defs db_now_def split: option.split)+

lemma contract_store_requestid_by_resultid_ok [simp]:
  "chain_ok E c \<Longrightarrow> chain_ok E (contract_store_requestid_by_resultid k v c)"
  by (cases c) (auto simp: chain_ok_defs db_access_defs sorted_wrt_set_del distinct_sset_insert)

lemma contract_erase_requestid_by_resultid_frame [simp, frame]:
  "property_lookup_by_id (contract_erase_requestid_by_resultid k c) = property_lookup_by_id c"
  "account_lookup_by_id (contract_erase_requestid_by_resultid k c) = account_lookup_by_id c"
  "asset_lookup_by_id (contract_erase_requestid_by_resultid k c) = asset_lookup_by_id c"
  "slate_lookup_by_id (contract_erase_requestid_by_resultid k c) = slate_lookup_by_id c"
  "balance_lookup_by_id (contract_erase_requestid_by_resultid k c) = balance_lookup_by_id c"
  "slot_lookup_by_index (contract_erase_requestid_by_resultid k c) = slot_lookup_by_index c"
  "contract_lookup_by_id (contract_erase_requestid_by_resultid k c) = contract_lookup_by_id c"
  "contract_lookup_resultid_by_reqestid (contract_erase_requestid_by_resultid k c) = contract_lookup_resultid_by_reqestid c"
  "contract_lookup_contractid_by_trxid (contract_erase_requestid_by_resultid k c) = contract_lookup_contractid_by_trxid c"
  "contract_lookup_trxid_by_contract_id (contract_erase_requestid_by_resultid k c) = contract_lookup_trxid_by_contract_id c"
  "contractstorage_lookup_by_id (contract_erase_requestid_by_resultid k c) = contractstorage_lookup_by_id c"
  "transaction_lookup_by_id (contract_erase_requestid_by_resultid k c) = transaction_lookup_by_id c"
  "get_head_block_num (contract_erase_requestid_by_resultid k c) = get_head_block_num c"
  "get_head_block_timestamp (contract_erase_requestid_by_resultid k c) = get_head_block_timestamp c"
  "now E (contract_erase_requestid_by_resultid k c) = now E c"
  "live (contract_erase_requestid_by_resultid k c) = live c"
  "prev_of (contract_erase_requestid_by_resultid k c) = prev_of c"
  "is_pending (contract_erase_requestid_by_resultid k c) = is_pending c"
  by (cases c; simp add: fun_eq_iff db_access_defs db_now_def split: option.split)+

lemma contract_erase_requestid_by_resultid_ok [simp]:
  "chain_ok E c \<Longrightarrow> chain_ok E (contract_erase_requestid_by_resultid k c)"
  by (cases c) (auto simp: chain_ok_defs db_access_defs sorted_wrt_set_del distinct_sset_insert)

lemma contract_store_contractid_by_trxid_frame [simp, frame]:
  "property_lookup_by_id (contract_store_contractid_by_trxid k v c) = property_lookup_by_id c"
  "account_lookup_by_id (contract_store_contractid_by_trxid k v c) = account_lookup_by_id c"
  "asset_lookup_by_id (contract_store_contractid_by_trxid k v c) = asset_lookup_by_id c"
  "slate_lookup_by_id (contract_store_contractid_by_trxid k v c) = slate_lookup_by_id c"
  "balance_lookup_by_id (contract_store_contractid_by_trxid k v c) = balance_lookup_by_id c"
  "slot_lookup_by_index (contract_store_contractid_by_trxid k v c) = slot_lookup_by_index c"
  "contract_lookup_by_id (contract_store_contractid_by_trxid k v c) = contract_lookup_by_id c"
  "contract_lookup_resultid_by_reqestid (contract_store_contractid_by_trxid k v c) = contract_lookup_resultid_by_reqestid c"
  "contract_lookup_requestid_by_resultid (contract_store_contractid_by_trxid k v c) = contract_lookup_requestid_by_resultid c"
  "contract_lookup_trxid_by_contract_id (contract_store_contractid_by_trxid k v c) = contract_lookup_trxid_by_contract_id c"
  "contractstorage_lookup_by_id (contract_store_contractid_by_trxid k v c) = contractstorage_lookup_by_id c"
  "transaction_lookup_by_id (contract_store_contractid_by_trxid k v c) = transaction_lookup_by_id c"
  "get_head_block_num (contract_store_contractid_by_trxid k v c) = get_head_block_num c"
  "get_head_block_timestamp (contract_store_contractid_by_trxid k v c) = get_head_block_timestamp c"
  "now E (contract_store_contractid_by_trxid k v c) = now E c"
  "live (contract_store_contractid_by_trxid k v c) = live c"
  "prev_of (contract_store_contractid_by_trxid k v c) = prev_of c"
  "is_pending (contract_store_contractid_by_trxid k v c) = is_pending c"
  by (cases c; simp add: fun_eq_iff db_access_defs db_now_def split: option.split)+

lemma contract_store_contractid_by_trxid_ok [simp]:
  "chain_ok E c \<Longrightarrow> chain_ok E (contract_store_contractid_by_trxid k v c)"
  by (cases c) (auto simp: chain_ok_defs db_access_defs sorted_wrt_set_del distinct_sset_insert)

lemma contract_erase_contractid_by_trxid_frame [simp, frame]:
  "property_lookup_by_id (contract_erase_contractid_by_trxid k c) = property_lookup_by_id c"
  "account_lookup_by_id (contract_erase_contractid_by_trxid k c) = account_lookup_by_id c"
  "asset_lookup_by_id (contract_erase_contractid_by_trxid k c) = asset_lookup_by_id c"
  "slate_lookup_by_id (contract_erase_contractid_by_trxid k c) = slate_lookup_by_id c"
  "balance_lookup_by_id (contract_erase_contractid_by_trxid k c) = balance_lookup_by_id c"
  "slot_lookup_by_index (contract_erase_contractid_by_trxid k c) = slot_lookup_by_index c"
  "contract_lookup_by_id (contract_erase_contractid_by_trxid k c) = contract_lookup_by_id c"
  "contract_lookup_resultid_by_reqestid (contract_erase_contractid_by_trxid k c) = contract_lookup_resultid_by_reqestid c"
  "contract_lookup_requestid_by_resultid (contract_erase_contractid_by_trxid k c) = contract_lookup_requestid_by_resultid c"
  "contract_lookup_trxid_by_contract_id (contract_erase_contractid_by_trxid k c) = contract_lookup_trxid_by_contract_id c"
  "contractstorage_lookup_by_id (contract_erase_contractid_by_trxid k c) = contractstorage_lookup_by_id c"
  "transaction_lookup_by_id (contract_erase_contractid_by_trxid k c) = transaction_lookup_by_id c"
  "get_head_block_num (contract_erase_contractid_by_trxid k c) = get_head_block_num c"
  "get_head_block_timestamp (contract_erase_contractid_by_trxid k c) = get_head_block_timestamp c"
  "now E (contract_erase_contractid_by_trxid k c) = now E c"
  "live (contract_erase_contractid_by_trxid k c) = live c"
  "prev_of (contract_erase_contractid_by_trxid k c) = prev_of c"
  "is_pending (contract_erase_contractid_by_trxid k c) = is_pending c"
  by (cases c; simp add: fun_eq_iff db_access_defs db_now_def split: option.split)+

lemma contract_erase_contractid_by_trxid_ok [simp]:
  "chain_ok E c \<Longrightarrow> chain_ok E (contract_erase_contractid_by_trxid k c)"
  by (cases c) (auto simp: chain_ok_defs db_access_defs sorted_wrt_set_del distinct_sset_insert)

lemma contract_store_trxid_by_contractid_frame [simp, frame]:
  "property_lookup_by_id (contract_store_trxid_by_contractid k v c) = property_lookup_by_id c"
  "account_lookup_by_id (contract_store_trxid_by_contractid k v c) = account_lookup_by_id c"
  "asset_lookup_by_id (contract_store_trxid_by_contractid k v c) = asset_lookup_by_id c"
  "slate_lookup_by_id (contract_store_trxid_by_contractid k v c) = slate_lookup_by_id c"
  "balance_lookup_by_id (contract_store_trxid_by_contractid k v c) = balance_lookup_by_id c"
  "slot_lookup_by_index (contract_store_trxid_by_contractid k v c) = slot_lookup_by_index c"
  "contract_lookup_by_id (contract_store_trxid_by_contractid k v c) = contract_lookup_by_id c"
  "contract_lookup_resultid_by_reqestid (contract_store_trxid_by_contractid k v c) = contract_lookup_resultid_by_reqestid c"
  "contract_lookup_requestid_by_resultid (contract_store_trxid_by_contractid k v c) = contract_lookup_requestid_by_resultid c"
  "contract_lookup_contractid_by_trxid (contract_store_trxid_by_contractid k v c) = contract_lookup_contractid_by_trxid c"
  "contractstorage_lookup_by_id (contract_store_trxid_by_contractid k v c) = contractstorage_lookup_by_id c"
  "transaction_lookup_by_id (contract_store_trxid_by_contractid k v c) = transaction_lookup_by_id c"
  "get_head_block_num (contract_store_trxid_by_contractid k v c) = get_head_block_num c"
  "get_head_block_timestamp (contract_store_trxid_by_contractid k v c) = get_head_block_timestamp c"
  "now E (contract_store_trxid_by_contractid k v c) = now E c"
  "live (contract_store_trxid_by_contractid k v c) = live c"
  "prev_of (contract_store_trxid_by_contractid k v c) = prev_of c"
  "is_pending (contract_store_trxid_by_contractid k v c) = is_pending c"
  by (cases c; simp add: fun_eq_iff db_access_defs db_now_def split: option.split)+

lemma contract_store_trxid_by_contractid_ok [simp]:
  "chain_ok E c \<Longrightarrow> chain_ok E (contract_store_trxid_by_contractid k v c)"
  by (cases c) (auto simp: chain_ok_defs db_access_defs sorted_wrt_set_del distinct_sset_insert)

lemma contract_erase_trxid_by_contract_id_frame [simp, frame]:
  "property_lookup_by_id (contract_erase_trxid_by_contract_id k c) = property_lookup_by_id c"
  "account_lookup_by_id (contract_erase_trxid_by_contract_id k c) = account_lookup_by_id c"
  "asset_lookup_by_id (contract_erase_trxid_by_contract_id k c) = asset_lookup_by_id c"
  "slate_lookup_by_id (contract_erase_trxid_by_contract_id k c) = slate_lookup_by_id c"
  "balance_lookup_by_id (contract_erase_trxid_by_contract_id k c) = balance_lookup_by_id c"
  "slot_lookup_by_index (contract_erase_trxid_by_contract_id k c) = slot_lookup_by_index c"
  "contract_lookup_by_id (contract_erase_trxid_by_contract_id k c) = contract_lookup_by_id c"
  "contract_lookup_resultid_by_reqestid (contract_erase_trxid_by_contract_id k c) = contract_lookup_resultid_by_reqestid c"
  "contract_lookup_requestid_by_resultid (contract_erase_trxid_by_contract_id k c) = contract_lookup_requestid_by_resultid c"
  "contract_lookup_contractid_by_trxid (contract_erase_trxid_by_contract_id k c) = contract_lookup_contractid_by_trxid c"
  "contractstorage_lookup_by_id (contract_erase_trxid_by_contract_id k c) = contractstorage_lookup_by_id c"
  "transaction_lookup_by_id (contract_erase_trxid_by_contract_id k c) = transaction_lookup_by_id c"
  "get_head_block_num (contract_erase_trxid_by_contract_id k c) = get_head_block_num c"
  "get_head_block_timestamp (contract_erase_trxid_by_contract_id k c) = get_head_block_timestamp c"
  "now E (contract_erase_trxid_by_contract_id k c) = now E c"
  "live (contract_erase_trxid_by_contract_id k c) = live c"
  "prev_of (contract_erase_trxid_by_contract_id k c) = prev_of c"
  "is_pending (contract_erase_trxid_by_contract_id k c) = is_pending c"
  by (cases c; simp add: fun_eq_iff db_access_defs db_now_def split: option.split)+

lemma contract_erase_trxid_by_contract_id_ok [simp]:
  "chain_ok E c \<Longrightarrow> chain_ok E (contract_erase_trxid_by_contract_id k c)"
  by (cases c) (auto simp: chain_ok_defs db_access_defs sorted_wrt_set_del distinct_sset_insert)

lemma contractstorage_insert_into_id_map_frame [simp, frame]:
  "property_lookup_by_id (contractstorage_insert_into_id_map k v c) = property_lookup_by_id c"
  "account_lookup_by_id (contractstorage_insert_into_id_map k v c) = account_lookup_by_id c"
  "asset_lookup_by_id (contractstorage_insert_into_id_map k v c) = asset_lookup_by_id c"
  "slate_lookup_by_id (contractstorage_insert_into_id_map k v c) = slate_lookup_by_id c"
  "balance_lookup_by_id (contractstorage_insert_into_id_map k v c) = balance_lookup_by_id c"
  "slot_lookup_by_index (contractstorage_insert_into_id_map k v c) = slot_lookup_by_index c"
  "contract_lookup_by_id (contractstorage_insert_into_id_map k v c) = contract_lookup_by_id c"
  "contract_lookup_resultid_by_reqestid (contractstorage_insert_into_id_map k v c) = contract_lookup_resultid_by_reqestid c"
  "contract_lookup_requestid_by_resultid (contractstorage_insert_into_id_map k v c) = contract_lookup_requestid_by_resultid c"
  "contract_lookup_contractid_by_trxid (contractstorage_insert_into_id_map k v c) = contract_lookup_contractid_by_trxid c"
  "contract_lookup_trxid_by_contract_id (contractstorage_insert_into_id_map k v c) = contract_lookup_trxid_by_contract_id c"
  "transaction_lookup_by_id (contractstorage_insert_into_id_map k v c) = transaction_lookup_by_id c"
  "get_head_block_num (contractstorage_insert_into_id_map k v c) = get_head_block_num c"
  "get_head_block_timestamp (contractstorage_insert_into_id_map k v c) = get_head_block_timestamp c"
  "now E (contractstorage_insert_into_id_map k v c) = now E c"
  "live (contractstorage_insert_into_id_map k v c) = live c"
  "prev_of (contractstorage_insert_into_id_map k v c) = prev_of c"
  "is_pending (contractstorage_insert_into_id_map k v c) = is_pending c"
  by (cases c; simp add: fun_eq_iff db_access_defs db_now_def split: option.split)+

lemma contractstorage_insert_into_id_map_ok [simp]:
  "chain_ok E c \<Longrightarrow> chain_ok E (contractstorage_insert_into_id_map k v c)"
  by (cases c) (auto simp: chain_ok_defs db_access_defs sorted_wrt_set_del distinct_sset_insert)

lemma contractstorage_erase_from_id_map_frame [simp, frame]:
  "property_lookup_by_id (contractstorage_erase_from_id_map k c) = property_lookup_by_id c"
  "account_lookup_by_id (contractstorage_erase_from_id_map k c) = account_lookup_by_id c"
  "asset_lookup_by_id (contractstorage_erase_from_id_map k c) = asset_lookup_by_id c"
  "slate_lookup_by_id (contractstorage_erase_from_id_map k c) = slate_lookup_by_id c"
  "balance_lookup_by_id (contractstorage_erase_from_id_map k c) = balance_lookup_by_id c"
  "slot_lookup_by_index (contractstorage_erase_from_id_map k c) = slot_lookup_by_index c"
  "contract_lookup_by_id (contractstorage_erase_from_id_map k c) = contract_lookup_by_id c"
  "contract_lookup_resultid_by_reqestid (contractstorage_erase_from_id_map k c) = contract_lookup_resultid_by_reqestid c"
  "contract_lookup_requestid_by_resultid (contractstorage_erase_from_id_map k c) = contract_lookup_requestid_by_resultid c"
  "contract_lookup_contractid_by_trxid (contractstorage_erase_from_id_map k c) = contract_lookup_contractid_by_trxid c"
  "contract_lookup_trxid_by_contract_id (contractstorage_erase_from_id_map k c) = contract_lookup_trxid_by_contract_id c"
  "transaction_lookup_by_id (contractstorage_erase_from_id_map k c) = transaction_lookup_by_id c"
  "get_head_block_num (contractstorage_erase_from_id_map k c) = get_head_block_num c"
  "get_head_block_timestamp (contractstorage_erase_from_id_map k c) = get_head_block_timestamp c"
  "now E (contractstorage_erase_from_id_map k c) = now E c"
  "live (contractstorage_erase_from_id_map k c) = live c"
  "prev_of (contractstorage_erase_from_id_map k c) = prev_of c"
  "is_pending (contractstorage_erase_from_id_map k c) = is_pending c"
  by (cases c; simp add: fun_eq_iff db_access_defs db_now_def split: option.split)+

lemma contractstorage_erase_from_id_map_ok [simp]:
  "chain_ok E c \<Longrightarrow> chain_ok E (contractstorage_erase_from_id_map k c)"
  by (cases c) (auto simp: chain_ok_defs db_access_defs sorted_wrt_set_del distinct_sset_insert)

lemma account_insert_into_name_map_frame [simp, frame]:
  "property_lookup_by_id (account_insert_into_name_map k v c) = property_lookup_by_id c"
  "account_lookup_by_id (account_insert_into_name_map k v c) = account_lookup_by_id c"
  "asset_lookup_by_id (account_insert_into_name_map k v c) = asset_lookup_by_id c"
  "slate_lookup_by_id (account_insert_into_name_map k v c) = slate_lookup_by_id c"
  "balance_lookup_by_id (account_insert_into_name_map k v c) = balance_lookup_by_id c"
  "slot_lookup_by_index (account_insert_into_name_map k v c) = slot_lookup_by_index c"
  "contract_lookup_by_id (account_insert_into_name_map k v c) = contract_lookup_by_id c"
  "contract_lookup_resultid_by_reqestid (account_insert_into_name_map k v c) = contract_lookup_resultid_by_reqestid c"
  "contract_lookup_requestid_by_resultid (account_insert_into_name_map k v c) = contract_lookup_requestid_by_resultid c"
  "contract_lookup_contractid_by_trxid (account_insert_into_name_map k v c) = contract_lookup_contractid_by_trxid c"
  "contract_lookup_trxid_by_contract_id (account_insert_into_name_map k v c) = contract_lookup_trxid_by_contract_id c"
  "contractstorage_lookup_by_id (account_insert_into_name_map k v c) = contractstorage_lookup_by_id c"
  "transaction_lookup_by_id (account_insert_into_name_map k v c) = transaction_lookup_by_id c"
  "get_head_block_num (account_insert_into_name_map k v c) = get_head_block_num c"
  "get_head_block_timestamp (account_insert_into_name_map k v c) = get_head_block_timestamp c"
  "now E (account_insert_into_name_map k v c) = now E c"
  "live (account_insert_into_name_map k v c) = live c"
  "prev_of (account_insert_into_name_map k v c) = prev_of c"
  "is_pending (account_insert_into_name_map k v c) = is_pending c"
  by (cases c; simp add: fun_eq_iff db_access_defs db_now_def split: option.split)+

lemma account_insert_into_name_map_ok [simp]:
  "chain_ok E c \<Longrightarrow> chain_ok E (account_insert_into_name_map k v c)"
  by (cases c) (auto simp: chain_ok_defs db_access_defs sorted_wrt_set_del distinct_sset_insert)

lemma account_erase_from_name_map_frame [simp, frame]:
  "property_lookup_by_id (account_erase_from_name_map k c) = property_lookup_by_id c"
  "account_lookup_by_id (account_erase_from_name_map k c) = account_lookup_by_id c"
  "asset_lookup_by_id (account_erase_from_name_map k c) = asset_lookup_by_id c"
  "slate_lookup_by_id (account_erase_from_name_map k c) = slate_lookup_by_id c"
  "balance_lookup_by_id (account_erase_from_name_map k c) = balance_lookup_by_id c"
  "slot_lookup_by_index (account_erase_from_name_map k c) = slot_lookup_by_index c"
  "contract_lookup_by_id (account_erase_from_name_map k c) = contract_lookup_by_id c"
  "contract_lookup_resultid_by_reqestid (account_erase_from_name_map k c) = contract_lookup_resultid_by_reqestid c"
  "contract_lookup_requestid_by_resultid (account_erase_from_name_map k c) = contract_lookup_requestid_by_resultid c"
  "contract_lookup_contractid_by_trxid (account_erase_from_name_map k c) = contract_lookup_contractid_by_trxid c"
  "contract_lookup_trxid_by_contract_id (account_erase_from_name_map k c) = contract_lookup_trxid_by_contract_id c"
  "contractstorage_lookup_by_id (account_erase_from_name_map k c) = contractstorage_lookup_by_id c"
  "transaction_lookup_by_id (account_erase_from_name_map k c) = transaction_lookup_by_id c"
  "get_head_block_num (account_erase_from_name_map k c) = get_head_block_num c"
  "get_head_block_timestamp (account_erase_from_name_map k c) = get_head_block_timestamp c"
  "now E (account_erase_from_name_map k c) = now E c"
  "live (account_erase_from_name_map k c) = live c"
  "prev_of (account_erase_from_name_map k c) = prev_of c"
  "is_pending (account_erase_from_name_map k c) = is_pending c"
  by (cases c; simp add: fun_eq_iff db_access_defs db_now_def split: option.split)+

lemma account_erase_from_name_map_ok [simp]:
  "chain_ok E c \<Longrightarrow> chain_ok E (account_erase_from_name_map k c)"
  by (cases c) (auto simp: chain_ok_defs db_access_defs sorted_wrt_set_del distinct_sset_insert)

lemma account_insert_into_address_map_frame [simp, frame]:
  "property_lookup_by_id (account_insert_into_address_map k v c) = property_lookup_by_id c"
  "account_lookup_by_id (account_insert_into_address_map k v c) = account_lookup_by_id c"
  "asset_lookup_by_id (account_insert_into_address_map k v c) = asset_lookup_by_id c"
  "slate_lookup_by_id (account_insert_into_address_map k v c) = slate_lookup_by_id c"
  "balance_lookup_by_id (account_insert_into_address_map k v c) = balance_lookup_by_id c"
  "slot_lookup_by_index (account_insert_into_address_map k v c) = slot_lookup_by_index c"
  "contract_lookup_by_id (account_insert_into_address_map k v c) = contract_lookup_by_id c"
  "contract_lookup_resultid_by_reqestid (account_insert_into_address_map k v c) = contract_lookup_resultid_by_reqestid c"
  "contract_lookup_requestid_by_resultid (account_insert_into_address_map k v c) = contract_lookup_requestid_by_resultid c"
  "contract_lookup_contractid_by_trxid (account_insert_into_address_map k v c) = contract_lookup_contractid_by_trxid c"
  "contract_lookup_trxid_by_contract_id (account_insert_into_address_map k v c) = contract_lookup_trxid_by_contract_id c"
  "contractstorage_lookup_by_id (account_insert_into_address_map k v c) = contractstorage_lookup_by_id c"
  "transaction_lookup_by_id (account_insert_into_address_map k v c) = transaction_lookup_by_id c"
  "get_head_block_num (account_insert_into_address_map k v c) = get_head_block_num c"
  "get_head_block_timestamp (account_insert_into_address_map k v c) = get_head_block_timestamp c"
  "now E (account_insert_into_address_map k v c) = now E c"
  "live (account_insert_into_address_map k v c) = live c"
  "prev_of (account_insert_into_address_map k v c) = prev_of c"
  "is_pending (account_insert_into_address_map k v c) = is_pending c"
  by (cases c; simp add: fun_eq_iff db_access_defs db_now_def split: option.split)+

lemma account_insert_into_address_map_ok [simp]:
  "chain_ok E c \<Longrightarrow> chain_ok E (account_insert_into_address_map k v c)"
  by (cases c) (auto simp: chain_ok_defs db_access_defs sorted_wrt_set_del distinct_sset_insert)

lemma account_erase_from_address_map_frame [simp, frame]:
  "property_lookup_by_id (account_erase_from_address_map k c) = property_lookup_by_id c"
  "account_lookup_by_id (account_erase_from_address_map k c) = account_lookup_by_id c"
  "asset_lookup_by_id (account_erase_from_address_map k c) = asset_lookup_by_id c"
  "slate_lookup_by_id (account_erase_from_address_map k c) = slate_lookup_by_id c"
  "balance_lookup_by_id (account_erase_from_address_map k c) = balance_lookup_by_id c"
  "slot_lookup_by_index (account_erase_from_address_map k c) = slot_lookup_by_index c"
  "contract_lookup_by_id (account_erase_from_address_map k c) = contract_lookup_by_id c"
  "contract_lookup_resultid_by_reqestid (account_erase_from_address_map k c) = contract_lookup_resultid_by_reqestid c"
  "contract_lookup_requestid_by_resultid (account_erase_from_address_map k c) = contract_lookup_requestid_by_resultid c"
  "contract_lookup_contractid_by_trxid (account_erase_from_address_map k c) = contract_lookup_contractid_by_trxid c"
  "contract_lookup_trxid_by_contract_id (account_erase_from_address_map k c) = contract_lookup_trxid_by_contract_id c"
  "contractstorage_lookup_by_id (account_erase_from_address_map k c) = contractstorage_lookup_by_id c"
  "transaction_lookup_by_id (account_erase_from_address_map k c) = transaction_lookup_by_id c"
  "get_head_block_num (account_erase_from_address_map k c) = get_head_block_num c"
  "get_head_block_timestamp (account_erase_from_address_map k c) = get_head_block_timestamp c"
  "now E (account_erase_from_address_map k c) = now E c"
  "live (account_erase_from_address_map k c) = live c"
  "prev_of (account_erase_from_address_map k c) = prev_of c"
  "is_pending (account_erase_from_address_map k c) = is_pending c"
  by (cases c; simp add: fun_eq_iff db_access_defs db_now_def split: option.split)+

lemma account_erase_from_address_map_ok [simp]:
  "chain_ok E c \<Longrightarrow> chain_ok E (account_erase_from_address_map k c)"
  by (cases c) (auto simp: chain_ok_defs db_access_defs sorted_wrt_set_del distinct_sset_insert)

lemma asset_insert_into_symbol_map_frame [simp, frame]:
  "property_lookup_by_id (asset_insert_into_symbol_map k v c) = property_lookup_by_id c"
  "account_lookup_by_id (asset_insert_into_symbol_map k v c) = account_lookup_by_id c"
  "asset_lookup_by_id (asset_insert_into_symbol_map k v c) = asset_lookup_by_id c"
  "slate_lookup_by_id (asset_insert_into_symbol_map k v c) = slate_lookup_by_id c"
  "balance_lookup_by_id (asset_insert_into_symbol_map k v c) = balance_lookup_by_id c"
  "slot_lookup_by_index (asset_insert_into_symbol_map k v c) = slot_lookup_by_index c"
  "contract_lookup_by_id (asset_insert_into_symbol_map k v c) = contract_lookup_by_id c"
  "contract_lookup_resultid_by_reqestid (asset_insert_into_symbol_map k v c) = contract_lookup_resultid_by_reqestid c"
  "contract_lookup_requestid_by_resultid (asset_insert_into_symbol_map k v c) = contract_lookup_requestid_by_resultid c"
  "contract_lookup_contractid_by_trxid (asset_insert_into_symbol_map k v c) = contract_lookup_contractid_by_trxid c"
  "contract_lookup_trxid_by_contract_id (asset_insert_into_symbol_map k v c) = contract_lookup_trxid_by_contract_id c"
  "contractstorage_lookup_by_id (asset_insert_into_symbol_map k v c) = contractstorage_lookup_by_id c"
  "transaction_lookup_by_id (asset_insert_into_symbol_map k v c) = transaction_lookup_by_id c"
  "get_head_block_num (asset_insert_into_symbol_map k v c) = get_head_block_num c"
  "get_head_block_timestamp (asset_insert_into_symbol_map k v c) = get_head_block_timestamp c"
  "now E (asset_insert_into_symbol_map k v c) = now E c"
  "live (asset_insert_into_symbol_map k v c) = live c"
  "prev_of (asset_insert_into_symbol_map k v c) = prev_of c"
  "is_pending (asset_insert_into_symbol_map k v c) = is_pending c"
  by (cases c; simp add: fun_eq_iff db_access_defs db_now_def split: option.split)+

lemma asset_insert_into_symbol_map_ok [simp]:
  "chain_ok E c \<Longrightarrow> chain_ok E (asset_insert_into_symbol_map k v c)"
  by (cases c) (auto simp: chain_ok_defs db_access_defs sorted_wrt_set_del distinct_sset_insert)

lemma asset_erase_from_symbol_map_frame [simp, frame]:
  "property_lookup_by_id (asset_erase_from_symbol_map k c) = property_lookup_by_id c"
  "account_lookup_by_id (asset_erase_from_symbol_map k c) = account_lookup_by_id c"
  "asset_lookup_by_id (asset_erase_from_symbol_map k c) = asset_lookup_by_id c"
  "slate_lookup_by_id (asset_erase_from_symbol_map k c) = slate_lookup_by_id c"
  "balance_lookup_by_id (asset_erase_from_symbol_map k c) = balance_lookup_by_id c"
  "slot_lookup_by_index (asset_erase_from_symbol_map k c) = slot_lookup_by_index c"
  "contract_lookup_by_id (asset_erase_from_symbol_map k c) = contract_lookup_by_id c"
  "contract_lookup_resultid_by_reqestid (asset_erase_from_symbol_map k c) = contract_lookup_resultid_by_reqestid c"
  "contract_lookup_requestid_by_resultid (asset_erase_from_symbol_map k c) = contract_lookup_requestid_by_resultid c"
  "contract_lookup_contractid_by_trxid (asset_erase_from_symbol_map k c) = contract_lookup_contractid_by_trxid c"
  "contract_lookup_trxid_by_contract_id (asset_erase_from_symbol_map k c) = contract_lookup_trxid_by_contract_id c"
  "contractstorage_lookup_by_id (asset_erase_from_symbol_map k c) = contractstorage_lookup_by_id c"
  "transaction_lookup_by_id (asset_erase_from_symbol_map k c) = transaction_lookup_by_id c"
  "get_head_block_num (asset_erase_from_symbol_map k c) = get_head_block_num c"
  "get_head_block_timestamp (asset_erase_from_symbol_map k c) = get_head_block_timestamp c"
  "now E (asset_erase_from_symbol_map k c) = now E c"
  "live (asset_erase_from_symbol_map k c) = live c"
  "prev_of (asset_erase_from_symbol_map k c) = prev_of c"
  "is_pending (asset_erase_from_symbol_map k c) = is_pending c"
  by (cases c; simp add: fun_eq_iff db_access_defs db_now_def split: option.split)+

lemma asset_erase_from_symbol_map_ok [simp]:
  "chain_ok E c \<Longrightarrow> chain_ok E (asset_erase_from_symbol_map k c)"
  by (cases c) (auto simp: chain_ok_defs db_access_defs sorted_wrt_set_del distinct_sset_insert)

lemma contract_insert_into_name_map_frame [simp, frame]:
  "property_lookup_by_id (contract_insert_into_name_map k v c) = property_lookup_by_id c"
  "account_lookup_by_id (contract_insert_into_name_map k v c) = account_lookup_by_id c"
  "asset_lookup_by_id (contract_insert_into_name_map k v c) = asset_lookup_by_id c"
  "slate_lookup_by_id (contract_insert_into_name_map k v c) = slate_lookup_by_id c"
  "balance_lookup_by_id (contract_insert_into_name_map k v c) = balance_lookup_by_id c"
  "slot_lookup_by_index (contract_insert_into_name_map k v c) = slot_lookup_by_index c"
  "contract_lookup_by_id (contract_insert_into_name_map k v c) = contract_lookup_by_id c"
  "contract_lookup_resultid_by_reqestid (contract_insert_into_name_map k v c) = contract_lookup_resultid_by_reqestid c"
  "contract_lookup_requestid_by_resultid (contract_insert_into_name_map k v c) = contract_lookup_requestid_by_resultid c"
  "contract_lookup_contractid_by_trxid (contract_insert_into_name_map k v c) = contract_lookup_contractid_by_trxid c"
  "contract_lookup_trxid_by_contract_id (contract_insert_into_name_map k v c) = contract_lookup_trxid_by_contract_id c"
  "contractstorage_lookup_by_id (contract_insert_into_name_map k v c) = contractstorage_lookup_by_id c"
  "transaction_lookup_by_id (contract_insert_into_name_map k v c) = transaction_lookup_by_id c"
  "get_head_block_num (contract_insert_into_name_map k v c) = get_head_block_num c"
  "get_head_block_timestamp (contract_insert_into_name_map k v c) = get_head_block_timestamp c"
  "now E (contract_insert_into_name_map k v c) = now E c"
  "live (contract_insert_into_name_map k v c) = live c"
  "prev_of (contract_insert_into_name_map k v c) = prev_of c"
  "is_pending (contract_insert_into_name_map k v c) = is_pending c"
  by (cases c; simp add: fun_eq_iff db_access_defs db_now_def split: option.split)+

lemma contract_insert_into_name_map_ok [simp]:
  "chain_ok E c \<Longrightarrow> chain_ok E (contract_insert_into_name_map k v c)"
  by (cases c) (auto simp: chain_ok_defs db_access_defs sorted_wrt_set_del distinct_sset_insert)

lemma contract_erase_from_name_map_frame [simp, frame]:
  "property_lookup_by_id (contract_erase_from_name_map k c) = property_lookup_by_id c"
  "account_lookup_by_id (contract_erase_from_name_map k c) = account_lookup_by_id c"
  "asset_lookup_by_id (contract_erase_from_name_map k c) = asset_lookup_by_id c"
  "slate_lookup_by_id (contract_erase_from_name_map k c) = slate_lookup_by_id c"
  "balance_lookup_by_id (contract_erase_from_name_map k c) = balance_lookup_by_id c"
  "slot_lookup_by_index (contract_erase_from_name_map k c) = slot_lookup_by_index c"
  "contract_lookup_by_id (contract_erase_from_name_map k c) = contract_lookup_by_id c"
  "contract_lookup_resultid_by_reqestid (contract_erase_from_name_map k c) = contract_lookup_resultid_by_reqestid c"
  "contract_lookup_requestid_by_resultid (contract_erase_from_name_map k c) = contract_lookup_requestid_by_resultid c"
  "contract_lookup_contractid_by_trxid (contract_erase_from_name_map k c) = contract_lookup_contractid_by_trxid c"
  "contract_lookup_trxid_by_contract_id (contract_erase_from_name_map k c) = contract_lookup_trxid_by_contract_id c"
  "contractstorage_lookup_by_id (contract_erase_from_name_map k c) = contractstorage_lookup_by_id c"
  "transaction_lookup_by_id (contract_erase_from_name_map k c) = transaction_lookup_by_id c"
  "get_head_block_num (contract_erase_from_name_map k c) = get_head_block_num c"
  "get_head_block_timestamp (contract_erase_from_name_map k c) = get_head_block_timestamp c"
  "now E (contract_erase_from_name_map k c) = now E c"
  "live (contract_erase_from_name_map k c) = live c"
  "prev_of (contract_erase_from_name_map k c) = prev_of c"
  "is_pending (contract_erase_from_name_map k c) = is_pending c"
  by (cases c; simp add: fun_eq_iff db_access_defs db_now_def split: option.split)+

lemma contract_erase_from_name_map_ok [simp]:
  "chain_ok E c \<Longrightarrow> chain_ok E (contract_erase_from_name_map k c)"
  by (cases c) (auto simp: chain_ok_defs db_access_defs sorted_wrt_set_del distinct_sset_insert)

lemma slot_insert_into_timestamp_map_frame [simp, frame]:
  "property_lookup_by_id (slot_insert_into_timestamp_map k v c) = property_lookup_by_id c"
  "account_lookup_by_id (slot_insert_into_timestamp_map k v c) = account_lookup_by_id c"
  "asset_lookup_by_id (slot_insert_into_timestamp_map k v c) = asset_lookup_by_id c"
  "slate_lookup_by_id (slot_insert_into_timestamp_map k v c) = slate_lookup_by_id c"
  "balance_lookup_by_id (slot_insert_into_timestamp_map k v c) = balance_lookup_by_id c"
  "slot_lookup_by_index (slot_insert_into_timestamp_map k v c) = slot_lookup_by_index c"
  "contract_lookup_by_id (slot_insert_into_timestamp_map k v c) = contract_lookup_by_id c"
  "contract_lookup_resultid_by_reqestid (slot_insert_into_timestamp_map k v c) = contract_lookup_resultid_by_reqestid c"
  "contract_lookup_requestid_by_resultid (slot_insert_into_timestamp_map k v c) = contract_lookup_requestid_by_resultid c"
  "contract_lookup_contractid_by_trxid (slot_insert_into_timestamp_map k v c) = contract_lookup_contractid_by_trxid c"
  "contract_lookup_trxid_by_contract_id (slot_insert_into_timestamp_map k v c) = contract_lookup_trxid_by_contract_id c"
  "contractstorage_lookup_by_id (slot_insert_into_timestamp_map k v c) = contractstorage_lookup_by_id c"
  "transaction_lookup_by_id (slot_insert_into_timestamp_map k v c) = transaction_lookup_by_id c"
  "get_head_block_num (slot_insert_into_timestamp_map k v c) = get_head_block_num c"
  "get_head_block_timestamp (slot_insert_into_timestamp_map k v c) = get_head_block_timestamp c"
  "now E (slot_insert_into_timestamp_map k v c) = now E c"
  "live (slot_insert_into_timestamp_map k v c) = live c"
  "prev_of (slot_insert_into_timestamp_map k v c) = prev_of c"
  "is_pending (slot_insert_into_timestamp_map k v c) = is_pending c"
  by (cases c; simp add: fun_eq_iff db_access_defs db_now_def split: option.split)+

lemma slot_insert_into_timestamp_map_ok [simp]:
  "chain_ok E c \<Longrightarrow> chain_ok E (slot_insert_into_timestamp_map k v c)"
  by (cases c) (auto simp: chain_ok_defs db_access_defs sorted_wrt_set_del distinct_sset_insert)

lemma slot_erase_from_timestamp_map_frame [simp, frame]:
  "property_lookup_by_id (slot_erase_from_timestamp_map k c) = property_lookup_by_id c"
  "account_lookup_by_id (slot_erase_from_timestamp_map k c) = account_lookup_by_id c"
  "asset_lookup_by_id (slot_erase_from_timestamp_map k c) = asset_lookup_by_id c"
  "slate_lookup_by_id (slot_erase_from_timestamp_map k c) = slate_lookup_by_id c"
  "balance_lookup_by_id (slot_erase_from_timestamp_map k c) = balance_lookup_by_id c"
  "slot_lookup_by_index (slot_erase_from_timestamp_map k c) = slot_lookup_by_index c"
  "contract_lookup_by_id (slot_erase_from_timestamp_map k c) = contract_lookup_by_id c"
  "contract_lookup_resultid_by_reqestid (slot_erase_from_timestamp_map k c) = contract_lookup_resultid_by_reqestid c"
  "contract_lookup_requestid_by_resultid (slot_erase_from_timestamp_map k c) = contract_lookup_requestid_by_resultid c"
  "contract_lookup_contractid_by_trxid (slot_erase_from_timestamp_map k c) = contract_lookup_contractid_by_trxid c"
  "contract_lookup_trxid_by_contract_id (slot_erase_from_timestamp_map k c) = contract_lookup_trxid_by_contract_id c"
  "contractstorage_lookup_by_id (slot_erase_from_timestamp_map k c) = contractstorage_lookup_by_id c"
  "transaction_lookup_by_id (slot_erase_from_timestamp_map k c) = transaction_lookup_by_id c"
  "get_head_block_num (slot_erase_from_timestamp_map k c) = get_head_block_num c"
  "get_head_block_timestamp (slot_erase_from_timestamp_map k c) = get_head_block_timestamp c"
  "now E (slot_erase_from_timestamp_map k c) = now E c"
  "live (slot_erase_from_timestamp_map k c) = live c"
  "prev_of (slot_erase_from_timestamp_map k c) = prev_of c"
  "is_pending (slot_erase_from_timestamp_map k c) = is_pending c"
  by (cases c; simp add: fun_eq_iff db_access_defs db_now_def split: option.split)+

lemma slot_erase_from_timestamp_map_ok [simp]:
  "chain_ok E c \<Longrightarrow> chain_ok E (slot_erase_from_timestamp_map k c)"
  by (cases c) (auto simp: chain_ok_defs db_access_defs sorted_wrt_set_del distinct_sset_insert)

lemma account_insert_into_vote_set_frame [simp, frame]:
  "property_lookup_by_id (account_insert_into_vote_set v c) = property_lookup_by_id c"
  "account_lookup_by_id (account_insert_into_vote_set v c) = account_lookup_by_id c"
  "asset_lookup_by_id (account_insert_into_vote_set v c) = asset_lookup_by_id c"
  "slate_lookup_by_id (account_insert_into_vote_set v c) = slate_lookup_by_id c"
  "balance_lookup_by_id (account_insert_into_vote_set v c) = balance_lookup_by_id c"
  "slot_lookup_by_index (account_insert_into_vote_set v c) = slot_lookup_by_index c"
  "contract_lookup_by_id (account_insert_into_vote_set v c) = contract_lookup_by_id c"
  "contract_lookup_resultid_by_reqestid (account_insert_into_vote_set v c) = contract_lookup_resultid_by_reqestid c"
  "contract_lookup_requestid_by_resultid (account_insert_into_vote_set v c) = contract_lookup_requestid_by_resultid c"
  "contract_lookup_contractid_by_trxid (account_insert_into_vote_set v c) = contract_lookup_contractid_by_trxid c"
  "contract_lookup_trxid_by_contract_id (account_insert_into_vote_set v c) = contract_lookup_trxid_by_contract_id c"
  "contractstorage_lookup_by_id (account_insert_into_vote_set v c) = contractstorage_lookup_by_id c"
  "transaction_lookup_by_id (account_insert_into_vote_set v c) = transaction_lookup_by_id c"
  "get_head_block_num (account_insert_into_vote_set v c) = get_head_block_num c"
  "get_head_block_timestamp (account_insert_into_vote_set v c) = get_head_block_timestamp c"
  "now E (account_insert_into_vote_set v c) = now E c"
  "live (account_insert_into_vote_set v c) = live c"
  "prev_of (account_insert_into_vote_set v c) = prev_of c"
  "is_pending (account_insert_into_vote_set v c) = is_pending c"
  by (cases c; simp add: fun_eq_iff db_access_defs db_now_def split: option.split)+

lemma account_insert_into_vote_set_ok [simp]:
  "chain_ok E c \<Longrightarrow> chain_ok E (account_insert_into_vote_set v c)"
  by (cases c) (auto simp: chain_ok_defs db_access_defs sorted_wrt_set_del distinct_sset_insert)

lemma account_erase_from_vote_set_frame [simp, frame]:
  "property_lookup_by_id (account_erase_from_vote_set v c) = property_lookup_by_id c"
  "account_lookup_by_id (account_erase_from_vote_set v c) = account_lookup_by_id c"
  "asset_lookup_by_id (account_erase_from_vote_set v c) = asset_lookup_by_id c"
  "slate_lookup_by_id (account_erase_from_vote_set v c) = slate_lookup_by_id c"
  "balance_lookup_by_id (account_erase_from_vote_set v c) = balance_lookup_by_id c"
  "slot_lookup_by_index (account_erase_from_vote_set v c) = slot_lookup_by_index c"
  "contract_lookup_by_id (account_erase_from_vote_set v c) = contract_lookup_by_id c"
  "contract_lookup_resultid_by_reqestid (account_erase_from_vote_set v c) = contract_lookup_resultid_by_reqestid c"
  "contract_lookup_requestid_by_resultid (account_erase_from_vote_set v c) = contract_lookup_requestid_by_resultid c"
  "contract_lookup_contractid_by_trxid (account_erase_from_vote_set v c) = contract_lookup_contractid_by_trxid c"
  "contract_lookup_trxid_by_contract_id (account_erase_from_vote_set v c) = contract_lookup_trxid_by_contract_id c"
  "contractstorage_lookup_by_id (account_erase_from_vote_set v c) = contractstorage_lookup_by_id c"
  "transaction_lookup_by_id (account_erase_from_vote_set v c) = transaction_lookup_by_id c"
  "get_head_block_num (account_erase_from_vote_set v c) = get_head_block_num c"
  "get_head_block_timestamp (account_erase_from_vote_set v c) = get_head_block_timestamp c"
  "now E (account_erase_from_vote_set v c) = now E c"
  "live (account_erase_from_vote_set v c) = live c"
  "prev_of (account_erase_from_vote_set v c) = prev_of c"
  "is_pending (account_erase_from_vote_set v c) = is_pending c"
  by (cases c; simp add: fun_eq_iff db_access_defs db_now_def split: option.split)+

lemma account_erase_from_vote_set_ok [simp]:
  "chain_ok E c \<Longrightarrow> chain_ok E (account_erase_from_vote_set v c)"
  by (cases c) (auto simp: chain_ok_defs db_access_defs sorted_wrt_set_del distinct_sset_insert)

end
