(* ===== verification/Entry_Store.thy ===== *)
theory Entry_Store
  imports Chain_State
begin

text \<open>
  \<open>T::lookup\<close>, \<open>T::store\<close> and \<open>T::remove\<close> of every entry type: the primary map and the
  secondary indexes that go with it. The view of a chain is what a client can look up by
  primary key, one map per entry type; the contract of \<open>ChainInterface::store\<close> and
  \<open>remove\<close> is the locale \<open>entry_store\<close>: they update one map of the view and nothing else.
\<close>

section \<open>AccountEntry::store and remove\<close>

definition erase_addresses :: "env \<Rightarrow> ('a \<times> public_key) list \<Rightarrow> chain \<Rightarrow> chain" where
  "erase_addresses E history c =
     fold (\<lambda>item. account_erase_from_address_map (key_address E (snd item))) history c"

definition insert_addresses :: "env \<Rightarrow> account_id \<Rightarrow> ('a \<times> public_key) list \<Rightarrow> chain \<Rightarrow> chain" where
  "insert_addresses E k history c =
     fold (\<lambda>item c. if snd item \<noteq> null_key E
                    then account_insert_into_address_map (key_address E (snd item)) k c else c)
       history c"

text \<open>The part of \<open>store\<close> that takes the previous entry out of the secondary indexes.\<close>

definition account_unindex :: "env \<Rightarrow> AccountEntry \<Rightarrow> AccountEntry \<Rightarrow> chain \<Rightarrow> chain result" where
  "account_unindex E prev_entry entry c =
     (let c1 = (if acc_name prev_entry \<noteq> acc_name entry
                then account_erase_from_name_map (acc_name prev_entry) c else c);
          c2 = (if owner_address E prev_entry \<noteq> owner_address E entry
                then account_erase_from_address_map (owner_address E prev_entry) c1 else c1)
      in ebind (active_key prev_entry) (\<lambda>prev_active.
         ebind (active_key entry) (\<lambda>active.
         let c3 = (if prev_active \<noteq> active
                   then erase_addresses E (acc_active_key_history prev_entry) c2 else c2) in
         case acc_delegate_info prev_entry of
           None \<Rightarrow> Inr c3
         | Some di \<Rightarrow>
             ebind (if \<not> is_delegate entry then Inr True
                    else ebind (signing_key prev_entry) (\<lambda>sk.
                         ebind (signing_key entry) (\<lambda>sk'. Inr (sk \<noteq> sk')))) (\<lambda>key_changed.
             let c4 = (if key_changed then erase_addresses E (signing_key_history di) c3 else c3) in
             ebind (is_retracted E prev_entry) (\<lambda>prev_retracted.
             if prev_retracted then Inr c4
             else
               ebind (is_retracted E entry) (\<lambda>retracted.
               ebind (if retracted \<or> \<not> is_delegate entry then Inr True
                      else ebind (net_votes entry) (\<lambda>nv. Inr (votes_for di \<noteq> nv))) (\<lambda>changed.
               Inr (if changed
                    then account_erase_from_vote_set (VoteDel (votes_for di) (acc_id prev_entry)) c4
                    else c4))))))))"

definition AccountEntry_store :: "env \<Rightarrow> account_id \<Rightarrow> AccountEntry \<Rightarrow> chain \<Rightarrow> chain result" where
  "AccountEntry_store E k entry c =
     ebind (case account_lookup_by_id c k of
              None \<Rightarrow> Inr c
            | Some prev_entry \<Rightarrow> account_unindex E prev_entry entry c) (\<lambda>c1.
     let c2 = account_insert_into_id_map k entry c1;
         c3 = account_insert_into_name_map (acc_name entry) k c2;
         c4 = account_insert_into_address_map (owner_address E entry) k c3;
         c5 = insert_addresses E k (acc_active_key_history entry) c4
     in case acc_delegate_info entry of
          None \<Rightarrow> Inr c5
        | Some di \<Rightarrow>
            let c6 = insert_addresses E k (signing_key_history di) c5 in
            ebind (is_retracted E entry) (\<lambda>retracted.
              Inr (if \<not> retracted then account_insert_into_vote_set (VoteDel (votes_for di) k) c6
                   else c6)))"

definition AccountEntry_remove :: "env \<Rightarrow> account_id \<Rightarrow> chain \<Rightarrow> chain result" where
  "AccountEntry_remove E k c =
     (case account_lookup_by_id c k of
        None \<Rightarrow> Inr c
      | Some prev_entry \<Rightarrow>
          let c1 = account_erase_from_id_map k c;
              c2 = account_erase_from_name_map (acc_name prev_entry) c1;
              c3 = account_erase_from_address_map (owner_address E prev_entry) c2;
              c4 = erase_addresses E (acc_active_key_history prev_entry) c3
          in case acc_delegate_info prev_entry of
               None \<Rightarrow> Inr c4
             | Some di \<Rightarrow>
                 let c5 = erase_addresses E (signing_key_history di) c4 in
                 ebind (is_retracted E prev_entry) (\<lambda>retracted.
                   Inr (if \<not> retracted
                        then account_erase_from_vote_set
                               (VoteDel (votes_for di) (acc_id prev_entry)) c5
                        else c5)))"

section \<open>The other entries\<close>

definition PropertyEntry_store :: "PropertyIdType \<Rightarrow> PropertyEntry \<Rightarrow> chain \<Rightarrow> chain result" where
  "PropertyEntry_store k entry c = Inr (property_insert_into_id_map k entry c)"

definition PropertyEntry_remove :: "PropertyIdType \<Rightarrow> chain \<Rightarrow> chain result" where
  "PropertyEntry_remove k c =
     Inr (if property_lookup_by_id c k \<noteq> None then property_erase_from_id_map k c else c)"

definition AssetEntry_store :: "asset_id \<Rightarrow> AssetEntry \<Rightarrow> chain \<Rightarrow> chain result" where
  "AssetEntry_store k entry c =
     (let c1 = (case asset_lookup_by_id c k of
                  None \<Rightarrow> c
                | Some prev_entry \<Rightarrow>
                    if ast_symbol prev_entry \<noteq> ast_symbol entry
                    then asset_erase_from_symbol_map (ast_symbol prev_entry) c else c)
      in Inr (asset_insert_into_symbol_map (ast_symbol entry) k
               (asset_insert_into_id_map k entry c1)))"

definition AssetEntry_remove :: "asset_id \<Rightarrow> chain \<Rightarrow> chain result" where
  "AssetEntry_remove k c =
     (case asset_lookup_by_id c k of
        None \<Rightarrow> Inr c
      | Some prev_entry \<Rightarrow>
          Inr (asset_erase_from_symbol_map (ast_symbol prev_entry) (asset_erase_from_id_map k c)))"

definition SlateEntry_store :: "slate_id \<Rightarrow> SlateEntry \<Rightarrow> chain \<Rightarrow> chain result" where
  "SlateEntry_store k entry c = Inr (slate_insert_into_id_map k entry c)"

definition SlateEntry_remove :: "slate_id \<Rightarrow> chain \<Rightarrow> chain result" where
  "SlateEntry_remove k c =
     Inr (if slate_lookup_by_id c k \<noteq> None then slate_erase_from_id_map k c else c)"

definition BalanceEntry_store :: "address \<Rightarrow> BalanceEntry \<Rightarrow> chain \<Rightarrow> chain result" where
  "BalanceEntry_store k entry c = Inr (balance_insert_into_id_map k entry c)"

definition BalanceEntry_remove :: "address \<Rightarrow> chain \<Rightarrow> chain result" where
  "BalanceEntry_remove k c =
     Inr (if balance_lookup_by_id c k \<noteq> None then balance_erase_from_id_map k c else c)"

definition TransactionEntry_store :: "env \<Rightarrow> trx_id \<Rightarrow> TransactionEntry \<Rightarrow> chain \<Rightarrow> chain result" where
  "TransactionEntry_store E k entry c =
     ebind (transaction_insert_into_id_map E k entry c)
       (\<lambda>c'. Inr (transaction_insert_into_unique_set E (es_trx entry) c'))"

definition TransactionEntry_remove :: "env \<Rightarrow> trx_id \<Rightarrow> chain \<Rightarrow> chain result" where
  "TransactionEntry_remove E k c =
     (case transaction_lookup_by_id c k of
        None \<Rightarrow> Inr c
      | Some prev_entry \<Rightarrow>
          ebind (transaction_erase_from_id_map E k c)
            (\<lambda>c'. Inr (transaction_erase_from_unique_set E (es_trx prev_entry) c')))"

definition SlotEntry_store :: "env \<Rightarrow> SlotIndex \<Rightarrow> SlotEntry \<Rightarrow> chain \<Rightarrow> chain result" where
  "SlotEntry_store E k entry c =
     (if \<not> the_statistics_enabled E then Inr c
      else
        let c1 = (case slot_lookup_by_index c k of
                    None \<Rightarrow> c
                  | Some prev_entry \<Rightarrow>
                      if slot_timestamp (slot_index prev_entry) \<noteq> slot_timestamp k
                      then slot_erase_from_timestamp_map (slot_timestamp (slot_index prev_entry)) c
                      else c)
        in Inr (slot_insert_into_timestamp_map (slot_timestamp k) (slot_delegate_id k)
                 (slot_insert_into_index_map k entry c1)))"

definition SlotEntry_remove :: "env \<Rightarrow> SlotIndex \<Rightarrow> chain \<Rightarrow> chain result" where
  "SlotEntry_remove E k c =
     (if \<not> the_statistics_enabled E then Inr c
      else case slot_lookup_by_index c k of
             None \<Rightarrow> Inr c
           | Some prev_entry \<Rightarrow>
               Inr (slot_erase_from_timestamp_map (slot_timestamp (slot_index prev_entry))
                     (slot_erase_from_index_map k c)))"

definition ContractEntry_store :: "address \<Rightarrow> ContractEntry \<Rightarrow> chain \<Rightarrow> chain result" where
  "ContractEntry_store k entry c =
     (let c1 = contract_insert_into_id_map k entry c in
      Inr (if is_valid_contract_name (con_contract_name entry)
           then contract_insert_into_name_map (con_contract_name entry) k c1 else c1))"

definition ContractEntry_remove :: "address \<Rightarrow> chain \<Rightarrow> chain result" where
  "ContractEntry_remove k c =
     Inr (if contract_lookup_by_id c k \<noteq> None then contract_erase_from_id_map k c else c)"

definition ContractStorageEntry_store ::
  "address \<Rightarrow> ContractStorageEntry \<Rightarrow> chain \<Rightarrow> chain result" where
  "ContractStorageEntry_store k entry c = Inr (contractstorage_insert_into_id_map k entry c)"

definition ContractStorageEntry_remove :: "address \<Rightarrow> chain \<Rightarrow> chain result" where
  "ContractStorageEntry_remove k c =
     Inr (if contractstorage_lookup_by_id c k \<noteq> None
          then contractstorage_erase_from_id_map k c else c)"

definition ResultTIdEntry_store :: "trx_id \<Rightarrow> trx_id \<Rightarrow> chain \<Rightarrow> chain result" where
  "ResultTIdEntry_store req res c = Inr (contract_store_resultid_by_reqestid req res c)"

definition ResultTIdEntry_remove :: "trx_id \<Rightarrow> chain \<Rightarrow> chain result" where
  "ResultTIdEntry_remove req c = Inr (contract_erase_resultid_by_reqestid req c)"

definition RequestIdEntry_store :: "trx_id \<Rightarrow> trx_id \<Rightarrow> chain \<Rightarrow> chain result" where
  "RequestIdEntry_store res req c = Inr (contract_store_requestid_by_resultid res req c)"

definition RequestIdEntry_remove :: "trx_id \<Rightarrow> chain \<Rightarrow> chain result" where
  "RequestIdEntry_remove res c = Inr (contract_erase_requestid_by_resultid res c)"

definition ContractinTrxEntry_store :: "trx_id \<Rightarrow> address \<Rightarrow> chain \<Rightarrow> chain result" where
  "ContractinTrxEntry_store tid cid c = Inr (contract_store_contractid_by_trxid tid cid c)"

definition ContractinTrxEntry_remove :: "trx_id \<Rightarrow> chain \<Rightarrow> chain result" where
  "ContractinTrxEntry_remove tid c = Inr (contract_erase_contractid_by_trxid tid c)"

definition ContractTrxEntry_store :: "address \<Rightarrow> trx_id \<Rightarrow> chain \<Rightarrow> chain result" where
  "ContractTrxEntry_store cid tid c = Inr (contract_store_trxid_by_contractid cid tid c)"

definition ContractTrxEntry_remove :: "address \<Rightarrow> chain \<Rightarrow> chain result" where
  "ContractTrxEntry_remove cid c = Inr (contract_erase_trxid_by_contract_id cid c)"

lemmas entry_store_defs =
  PropertyEntry_store_def PropertyEntry_remove_def AssetEntry_store_def AssetEntry_remove_def
  SlateEntry_store_def SlateEntry_remove_def BalanceEntry_store_def BalanceEntry_remove_def
  TransactionEntry_store_def TransactionEntry_remove_def SlotEntry_store_def
  SlotEntry_remove_def ContractEntry_store_def ContractEntry_remove_def
  ContractStorageEntry_store_def ContractStorageEntry_remove_def
  ResultTIdEntry_store_def ResultTIdEntry_remove_def RequestIdEntry_store_def
  RequestIdEntry_remove_def ContractinTrxEntry_store_def ContractinTrxEntry_remove_def
  ContractTrxEntry_store_def ContractTrxEntry_remove_def

declare entry_store_defs [eval_simps] AccountEntry_store_def [eval_simps]
  AccountEntry_remove_def [eval_simps] account_unindex_def [eval_simps]
  erase_addresses_def [eval_simps] insert_addresses_def [eval_simps]

end
