(* ===== verification/Chain_View.thy ===== *)
theory Chain_View
  imports Entry_Store
begin

text \<open>
  The abstract state of a chain: what can be looked up by primary key, one finite map per
  entry type. An overlay acts on the view of the state under it (\<open>overlay\<close>), and every
  \<open>store\<close> and \<open>remove\<close> is a map update of one component: that contract is the locale
  \<open>entry_store\<close>, interpreted on each entry type. The storage of contracts does not obey it
  and is not part of the view (theory \<open>Pending_State\<close>).
\<close>

section \<open>The view\<close>

record view =
  v_property :: "PropertyIdType \<Rightarrow> PropertyEntry option"
  v_account :: "account_id \<Rightarrow> AccountEntry option"
  v_asset :: "asset_id \<Rightarrow> AssetEntry option"
  v_slate :: "slate_id \<Rightarrow> SlateEntry option"
  v_balance :: "address \<Rightarrow> BalanceEntry option"
  v_transaction :: "trx_id \<Rightarrow> TransactionEntry option"
  v_slot :: "SlotIndex \<Rightarrow> SlotEntry option"
  v_contract :: "address \<Rightarrow> ContractEntry option"
  v_result :: "trx_id \<Rightarrow> trx_id option"
  v_request :: "trx_id \<Rightarrow> trx_id option"
  v_intrx :: "trx_id \<Rightarrow> address option"
  v_contrx :: "address \<Rightarrow> trx_id option"

definition view :: "chain \<Rightarrow> view" where
  "view c =
     \<lparr>v_property = property_lookup_by_id c,
      v_account = account_lookup_by_id c,
      v_asset = asset_lookup_by_id c,
      v_slate = slate_lookup_by_id c,
      v_balance = balance_lookup_by_id c,
      v_transaction = transaction_lookup_by_id c,
      v_slot = slot_lookup_by_index c,
      v_contract = contract_lookup_by_id c,
      v_result = contract_lookup_resultid_by_reqestid c,
      v_request = contract_lookup_requestid_by_resultid c,
      v_intrx = contract_lookup_contractid_by_trxid c,
      v_contrx = contract_lookup_trxid_by_contract_id c\<rparr>"

lemma view_simps [simp]:
  "v_property (view c) = property_lookup_by_id c"
  "v_account (view c) = account_lookup_by_id c"
  "v_asset (view c) = asset_lookup_by_id c"
  "v_slate (view c) = slate_lookup_by_id c"
  "v_balance (view c) = balance_lookup_by_id c"
  "v_transaction (view c) = transaction_lookup_by_id c"
  "v_slot (view c) = slot_lookup_by_index c"
  "v_contract (view c) = contract_lookup_by_id c"
  "v_result (view c) = contract_lookup_resultid_by_reqestid c"
  "v_request (view c) = contract_lookup_requestid_by_resultid c"
  "v_intrx (view c) = contract_lookup_contractid_by_trxid c"
  "v_contrx (view c) = contract_lookup_trxid_by_contract_id c"
  by (simp_all add: view_def)

text \<open>The view of an overlay is a function of the view of the state under it.\<close>

definition overlay_map ::
  "('k \<times> 'v) list \<Rightarrow> 'k list \<Rightarrow> ('k \<Rightarrow> 'v option) \<Rightarrow> 'k \<Rightarrow> 'v option" where
  "overlay_map store_map remove_set m = (m |` (- set remove_set)) ++ map_of store_map"

definition overlay :: "PendingChainState \<Rightarrow> view \<Rightarrow> view" where
  "overlay p w =
     \<lparr>v_property = overlay_map (p_property_id_to_entry p) (p_property_id_remove p) (v_property w),
      v_account = overlay_map (p_account_id_to_entry p) (p_account_id_remove p) (v_account w),
      v_asset = overlay_map (p_asset_id_to_entry p) (p_asset_id_remove p) (v_asset w),
      v_slate = overlay_map (p_slate_id_to_entry p) (p_slate_id_remove p) (v_slate w),
      v_balance = overlay_map (p_balance_id_to_entry p) (p_balance_id_remove p) (v_balance w),
      v_transaction = overlay_map (p_transaction_id_to_entry p) (p_transaction_id_remove p) (v_transaction w),
      v_slot = overlay_map (p_slot_index_to_entry p) (p_slot_index_remove p) (v_slot w),
      v_contract = overlay_map (p_contract_id_to_entry p) (p_contract_id_remove p) (v_contract w),
      v_result = overlay_map (p_request_id_to_result_id p) (p_req_to_res_to_remove p) (v_result w),
      v_request = overlay_map (p_result_id_to_request_id p) (p_res_to_req_to_remove p) (v_request w),
      v_intrx = overlay_map (p_trx_to_contract_id p) (p_trx_to_contract_id_remove p) (v_intrx w),
      v_contrx = overlay_map (p_contract_to_trx_id p) (p_contract_to_trx_id_remove p) (v_contrx w)\<rparr>"

lemma overlay_map_apply:
  "overlay_map sm rs m k =
     (case map_of sm k of Some e \<Rightarrow> Some e | None \<Rightarrow> if k \<in> set rs then None else m k)"
  by (auto simp: overlay_map_def map_add_def restrict_map_def split: option.splits)

lemma overlay_map_Nil [simp]: "overlay_map [] [] m = m"
  by (simp add: fun_eq_iff overlay_map_apply)

lemma view_Pending: "view (Pending p c) = overlay p (view c)"
  by (simp add: view_def overlay_def overlay_map_apply fun_eq_iff)

section \<open>Writes to one map\<close>

lemma view_property_insert_into_id_map [simp]:
  "live c \<Longrightarrow> view (property_insert_into_id_map k v c) = (view c)\<lparr>v_property := (property_lookup_by_id c)(k \<mapsto> v)\<rparr>"
  by (simp add: view_def property_map.lookup_insert)

lemma view_property_erase_from_id_map [simp]:
  "live c \<Longrightarrow> view (property_erase_from_id_map k c) = (view c)\<lparr>v_property := (property_lookup_by_id c)(k := None)\<rparr>"
  by (simp add: view_def property_map.lookup_erase)

lemma view_account_insert_into_id_map [simp]:
  "live c \<Longrightarrow> view (account_insert_into_id_map k v c) = (view c)\<lparr>v_account := (account_lookup_by_id c)(k \<mapsto> v)\<rparr>"
  by (simp add: view_def account_map.lookup_insert)

lemma view_account_erase_from_id_map [simp]:
  "live c \<Longrightarrow> view (account_erase_from_id_map k c) = (view c)\<lparr>v_account := (account_lookup_by_id c)(k := None)\<rparr>"
  by (simp add: view_def account_map.lookup_erase)

lemma view_asset_insert_into_id_map [simp]:
  "live c \<Longrightarrow> view (asset_insert_into_id_map k v c) = (view c)\<lparr>v_asset := (asset_lookup_by_id c)(k \<mapsto> v)\<rparr>"
  by (simp add: view_def asset_map.lookup_insert)

lemma view_asset_erase_from_id_map [simp]:
  "live c \<Longrightarrow> view (asset_erase_from_id_map k c) = (view c)\<lparr>v_asset := (asset_lookup_by_id c)(k := None)\<rparr>"
  by (simp add: view_def asset_map.lookup_erase)

lemma view_slate_insert_into_id_map [simp]:
  "live c \<Longrightarrow> view (slate_insert_into_id_map k v c) = (view c)\<lparr>v_slate := (slate_lookup_by_id c)(k \<mapsto> v)\<rparr>"
  by (simp add: view_def slate_map.lookup_insert)

lemma view_slate_erase_from_id_map [simp]:
  "live c \<Longrightarrow> view (slate_erase_from_id_map k c) = (view c)\<lparr>v_slate := (slate_lookup_by_id c)(k := None)\<rparr>"
  by (simp add: view_def slate_map.lookup_erase)

lemma view_balance_insert_into_id_map [simp]:
  "live c \<Longrightarrow> view (balance_insert_into_id_map k v c) = (view c)\<lparr>v_balance := (balance_lookup_by_id c)(k \<mapsto> v)\<rparr>"
  by (simp add: view_def balance_map.lookup_insert)

lemma view_balance_erase_from_id_map [simp]:
  "live c \<Longrightarrow> view (balance_erase_from_id_map k c) = (view c)\<lparr>v_balance := (balance_lookup_by_id c)(k := None)\<rparr>"
  by (simp add: view_def balance_map.lookup_erase)

lemma view_slot_insert_into_index_map [simp]:
  "live c \<Longrightarrow> view (slot_insert_into_index_map k v c) = (view c)\<lparr>v_slot := (slot_lookup_by_index c)(k \<mapsto> v)\<rparr>"
  by (simp add: view_def slot_map.lookup_insert)

lemma view_slot_erase_from_index_map [simp]:
  "live c \<Longrightarrow> view (slot_erase_from_index_map k c) = (view c)\<lparr>v_slot := (slot_lookup_by_index c)(k := None)\<rparr>"
  by (simp add: view_def slot_map.lookup_erase)

lemma view_contract_insert_into_id_map [simp]:
  "live c \<Longrightarrow> view (contract_insert_into_id_map k v c) = (view c)\<lparr>v_contract := (contract_lookup_by_id c)(k \<mapsto> v)\<rparr>"
  by (simp add: view_def contract_map.lookup_insert)

lemma view_contract_erase_from_id_map [simp]:
  "live c \<Longrightarrow> view (contract_erase_from_id_map k c) = (view c)\<lparr>v_contract := (contract_lookup_by_id c)(k := None)\<rparr>"
  by (simp add: view_def contract_map.lookup_erase)

lemma view_contract_store_resultid_by_reqestid [simp]:
  "live c \<Longrightarrow> view (contract_store_resultid_by_reqestid k v c) = (view c)\<lparr>v_result := (contract_lookup_resultid_by_reqestid c)(k \<mapsto> v)\<rparr>"
  by (simp add: view_def result_map.lookup_insert)

lemma view_contract_erase_resultid_by_reqestid [simp]:
  "live c \<Longrightarrow> view (contract_erase_resultid_by_reqestid k c) = (view c)\<lparr>v_result := (contract_lookup_resultid_by_reqestid c)(k := None)\<rparr>"
  by (simp add: view_def result_map.lookup_erase)

lemma view_contract_store_requestid_by_resultid [simp]:
  "live c \<Longrightarrow> view (contract_store_requestid_by_resultid k v c) = (view c)\<lparr>v_request := (contract_lookup_requestid_by_resultid c)(k \<mapsto> v)\<rparr>"
  by (simp add: view_def request_map.lookup_insert)

lemma view_contract_erase_requestid_by_resultid [simp]:
  "live c \<Longrightarrow> view (contract_erase_requestid_by_resultid k c) = (view c)\<lparr>v_request := (contract_lookup_requestid_by_resultid c)(k := None)\<rparr>"
  by (simp add: view_def request_map.lookup_erase)

lemma view_contract_store_contractid_by_trxid [simp]:
  "live c \<Longrightarrow> view (contract_store_contractid_by_trxid k v c) = (view c)\<lparr>v_intrx := (contract_lookup_contractid_by_trxid c)(k \<mapsto> v)\<rparr>"
  by (simp add: view_def intrx_map.lookup_insert)

lemma view_contract_erase_contractid_by_trxid [simp]:
  "live c \<Longrightarrow> view (contract_erase_contractid_by_trxid k c) = (view c)\<lparr>v_intrx := (contract_lookup_contractid_by_trxid c)(k := None)\<rparr>"
  by (simp add: view_def intrx_map.lookup_erase)

lemma view_contract_store_trxid_by_contractid [simp]:
  "live c \<Longrightarrow> view (contract_store_trxid_by_contractid k v c) = (view c)\<lparr>v_contrx := (contract_lookup_trxid_by_contract_id c)(k \<mapsto> v)\<rparr>"
  by (simp add: view_def contrx_map.lookup_insert)

lemma view_contract_erase_trxid_by_contract_id [simp]:
  "live c \<Longrightarrow> view (contract_erase_trxid_by_contract_id k c) = (view c)\<lparr>v_contrx := (contract_lookup_trxid_by_contract_id c)(k := None)\<rparr>"
  by (simp add: view_def contrx_map.lookup_erase)

lemma view_index_writes [simp]:
  "view (account_insert_into_name_map account_name_k account_v c) = view c"
  "view (account_erase_from_name_map account_name_k c) = view c"
  "view (account_insert_into_address_map account_address_k account_v c) = view c"
  "view (account_erase_from_address_map account_address_k c) = view c"
  "view (asset_insert_into_symbol_map asset_symbol_k asset_v c) = view c"
  "view (asset_erase_from_symbol_map asset_symbol_k c) = view c"
  "view (contract_insert_into_name_map contract_name_k contract_v c) = view c"
  "view (contract_erase_from_name_map contract_name_k c) = view c"
  "view (slot_insert_into_timestamp_map slot_timestamp_k slot_v c) = view c"
  "view (slot_erase_from_timestamp_map slot_timestamp_k c) = view c"
  "view (account_insert_into_vote_set vd c) = view c"
  "view (account_erase_from_vote_set vd c) = view c"
  "view (contractstorage_insert_into_id_map key st c) = view c"
  "view (contractstorage_erase_from_id_map key c) = view c"
  by (simp_all add: view_def)

lemma view_unique_set [simp]:
  "view (transaction_insert_into_unique_set E trx c) = view c"
  "view (transaction_erase_from_unique_set E trx c) = view c"
  "live (transaction_insert_into_unique_set E trx c) = live c"
  "live (transaction_erase_from_unique_set E trx c) = live c"
  by (cases c; simp add: view_def fun_eq_iff db_access_defs)+

lemma view_erase_addresses [simp]:
  "view (erase_addresses E hist c) = view c" "live (erase_addresses E hist c) = live c"
  unfolding erase_addresses_def by (induction hist arbitrary: c) simp_all

lemma view_insert_addresses [simp]:
  "view (insert_addresses E k hist c) = view c" "live (insert_addresses E k hist c) = live c"
  unfolding insert_addresses_def by (induction hist arbitrary: c) simp_all

subsection \<open>The statistics of the database\<close>

lemma store_recent_operations:
  "\<exists>x. fold store_recent_operation ops d = d\<lparr>db_recent_operations := x\<rparr>"
proof (induction ops arbitrary: d)
  case Nil
  show ?case by (rule exI [of _ "db_recent_operations d"]) simp
next
  case (Cons ob ops)
  obtain x where "store_recent_operation ob d = d\<lparr>db_recent_operations := x\<rparr>"
    by (simp add: store_recent_operation_def Let_def)
  with Cons [of "d\<lparr>db_recent_operations := x\<rparr>"] show ?case by auto
qed

lemma fold_db_update:
  assumes "\<And>a d. \<exists>x. g a d = d\<lparr>db_address_to_transaction_ids := x\<rparr>"
  shows "\<exists>x. fold g as d = d\<lparr>db_address_to_transaction_ids := x\<rparr>"
proof (induction as arbitrary: d)
  case Nil
  show ?case by (rule exI [of _ "db_address_to_transaction_ids d"]) simp
next
  case (Cons a as)
  obtain x where "g a d = d\<lparr>db_address_to_transaction_ids := x\<rparr>" using assms by blast
  with Cons [of "d\<lparr>db_address_to_transaction_ids := x\<rparr>"] show ?case by auto
qed

lemma db_transaction_insert_shape:
  assumes "db_transaction_insert_into_id_map E k v d = Inr d'"
  shows "\<exists>x y. d' = d\<lparr>db_transaction_id_to_entry := smap_set k v (db_transaction_id_to_entry d),
      db_address_to_transaction_ids := x, db_recent_operations := y\<rparr>"
proof (cases "the_statistics_enabled E")
  case True
  let ?add = "\<lambda>addr d. d\<lparr>db_address_to_transaction_ids :=
      (db_address_to_transaction_ids d)(addr \<mapsto>
         List.insert k (case db_address_to_transaction_ids d addr of None \<Rightarrow> [] | Some ids \<Rightarrow> ids))\<rparr>"
  let ?d1 = "d\<lparr>db_transaction_id_to_entry := smap_set k v (db_transaction_id_to_entry d)\<rparr>"
  from True assms obtain addrs where
    d': "d' = fold store_recent_operation (operations (es_trx v)) (fold ?add addrs ?d1)"
    by (auto simp: db_transaction_insert_into_id_map_def Let_def)
  obtain x where "fold ?add addrs ?d1 = ?d1\<lparr>db_address_to_transaction_ids := x\<rparr>"
    using fold_db_update [of ?add addrs ?d1] by blast
  moreover obtain y where
    "fold store_recent_operation (operations (es_trx v)) (?d1\<lparr>db_address_to_transaction_ids := x\<rparr>)
      = ?d1\<lparr>db_address_to_transaction_ids := x\<rparr>\<lparr>db_recent_operations := y\<rparr>"
    using store_recent_operations by blast
  ultimately show ?thesis using d' by auto
next
  case False
  then have "d' = d\<lparr>db_transaction_id_to_entry := smap_set k v (db_transaction_id_to_entry d),
      db_address_to_transaction_ids := db_address_to_transaction_ids d,
      db_recent_operations := db_recent_operations d\<rparr>"
    using assms by (cases d) (auto simp: db_transaction_insert_into_id_map_def)
  then show ?thesis by blast
qed

lemma db_transaction_erase_shape:
  assumes "db_transaction_erase_from_id_map E k d = Inr d'"
  shows "\<exists>x. d' = d\<lparr>db_transaction_id_to_entry := smap_del k (db_transaction_id_to_entry d),
      db_address_to_transaction_ids := x\<rparr>"
proof -
  let ?del = "\<lambda>addr d. (case db_address_to_transaction_ids d addr of
        None \<Rightarrow> d
      | Some ids \<Rightarrow> d\<lparr>db_address_to_transaction_ids :=
          (db_address_to_transaction_ids d)(addr :=
             (if set_del k ids \<noteq> [] then Some (set_del k ids) else None))\<rparr>)"
  let ?drop = "\<lambda>d. d\<lparr>db_transaction_id_to_entry := smap_del k (db_transaction_id_to_entry d)\<rparr>"
  have del: "\<exists>x. fold ?del as d = d\<lparr>db_address_to_transaction_ids := x\<rparr>" for as
  proof (rule fold_db_update)
    fix a d
    show "\<exists>x. ?del a d = d\<lparr>db_address_to_transaction_ids := x\<rparr>"
      by (cases "db_address_to_transaction_ids d a")
        (auto intro: exI [of _ "db_address_to_transaction_ids d"])
  qed
  have "d' = ?drop d \<or> (\<exists>as. d' = ?drop (fold ?del as d))"
    using assms unfolding db_transaction_erase_from_id_map_def Let_def
    by (auto split: if_splits option.splits)
  then show ?thesis
  proof
    assume "d' = ?drop d"
    then have "d' = d\<lparr>db_transaction_id_to_entry := smap_del k (db_transaction_id_to_entry d),
        db_address_to_transaction_ids := db_address_to_transaction_ids d\<rparr>" by simp
    then show ?thesis by blast
  next
    assume "\<exists>as. d' = ?drop (fold ?del as d)"
    then obtain as where as: "d' = ?drop (fold ?del as d)" ..
    from del [of as] obtain x where "fold ?del as d = d\<lparr>db_address_to_transaction_ids := x\<rparr>" ..
    with as have "d' = d\<lparr>db_transaction_id_to_entry := smap_del k (db_transaction_id_to_entry d),
        db_address_to_transaction_ids := x\<rparr>" by (cases d) simp
    then show ?thesis by blast
  qed
qed

lemma view_transaction_insert:
  assumes "transaction_insert_into_id_map E k v c = Inr c'" "live c"
  shows "view c' = (view c)\<lparr>v_transaction := (transaction_lookup_by_id c)(k \<mapsto> v)\<rparr> \<and> live c'"
proof (cases c)
  case (Database d)
  then show ?thesis using assms
    by (auto simp: view_def fun_eq_iff db_access_defs dest!: db_transaction_insert_shape)
next
  case (Pending p prev)
  then show ?thesis using assms by (auto simp: view_def fun_eq_iff)
qed (use assms in simp)

lemma view_transaction_erase:
  assumes "transaction_erase_from_id_map E k c = Inr c'" "live c"
  shows "view c' = (view c)\<lparr>v_transaction := (transaction_lookup_by_id c)(k := None)\<rparr> \<and> live c'"
proof (cases c)
  case (Database d)
  then show ?thesis using assms
    by (auto simp: view_def fun_eq_iff db_access_defs dest!: db_transaction_erase_shape)
next
  case (Pending p prev)
  then show ?thesis using assms by (auto simp: view_def fun_eq_iff)
qed (use assms in simp)

section \<open>The contract of store and remove\<close>

text \<open>
  \<open>enabled\<close> is false for the slot entries of a node without statistics, whose \<open>store\<close> and
  \<open>remove\<close> return at once.
\<close>

locale entry_store =
  fixes enabled :: bool
    and get_map :: "view \<Rightarrow> 'k \<Rightarrow> 'v option"
    and put_map :: "('k \<Rightarrow> 'v option) \<Rightarrow> view \<Rightarrow> view"
    and store :: "'k \<Rightarrow> 'v \<Rightarrow> chain \<Rightarrow> chain result"
    and remove :: "'k \<Rightarrow> chain \<Rightarrow> chain result"
  assumes get_put: "get_map (put_map m w) = m"
    and put_get: "put_map (get_map w) w = w"
    and put_put: "put_map m (put_map m' w) = put_map m w"
    and store_view: "enabled \<Longrightarrow> live c \<Longrightarrow> store k v c = Inr c' \<Longrightarrow>
      view c' = put_map ((get_map (view c))(k \<mapsto> v)) (view c) \<and> live c'"
    and remove_view: "enabled \<Longrightarrow> live c \<Longrightarrow> remove k c = Inr c' \<Longrightarrow>
      view c' = put_map ((get_map (view c))(k := None)) (view c) \<and> live c'"
    and store_disabled: "\<not> enabled \<Longrightarrow> store k v c = Inr c"
    and remove_disabled: "\<not> enabled \<Longrightarrow> remove k c = Inr c"
begin

lemma store_live: "live c \<Longrightarrow> store k v c = Inr c' \<Longrightarrow> live c'"
  using store_view store_disabled by (cases enabled) auto

lemma remove_live: "live c \<Longrightarrow> remove k c = Inr c' \<Longrightarrow> live c'"
  using remove_view remove_disabled by (cases enabled) auto

lemma remove_all:
  assumes "efold remove ks c = Inr c'" "live c" "enabled"
  shows "view c' = put_map (get_map (view c) |` (- set ks)) (view c) \<and> live c'"
  using assms
proof (induction ks arbitrary: c)
  case Nil
  then show ?case by (simp add: restrict_map_def put_get)
next
  case (Cons k ks)
  then obtain c1 where c1: "remove k c = Inr c1" and rest: "efold remove ks c1 = Inr c'" by auto
  have v1: "view c1 = put_map ((get_map (view c))(k := None)) (view c)" "live c1"
    using remove_view [OF Cons.prems(3,2) c1] by auto
  have "(get_map (view c))(k := None) |` (- set ks) = get_map (view c) |` (- set (k # ks))"
    by (auto simp: restrict_map_def fun_eq_iff)
  with Cons.IH [OF rest v1(2) Cons.prems(3)] show ?case by (simp only: v1(1) get_put put_put)
qed

lemma store_all:
  assumes "efold (\<lambda>(k, v). store k v) kvs c = Inr c'" "live c" "enabled" "distinct (map fst kvs)"
  shows "view c' = put_map (get_map (view c) ++ map_of kvs) (view c) \<and> live c'"
  using assms
proof (induction kvs arbitrary: c)
  case Nil
  then show ?case by (simp add: put_get)
next
  case (Cons kv kvs)
  obtain k v where kv: "kv = (k, v)" by (cases kv)
  from Cons.prems kv obtain c1 where c1: "store k v c = Inr c1"
    and rest: "efold (\<lambda>(k, v). store k v) kvs c1 = Inr c'" by auto
  have v1: "view c1 = put_map ((get_map (view c))(k \<mapsto> v)) (view c)" "live c1"
    using store_view [OF Cons.prems(3,2) c1] by auto
  from Cons.prems kv have "map_of kvs k = None" by (simp add: map_of_eq_None_iff)
  then have "(get_map (view c))(k \<mapsto> v) ++ map_of kvs = get_map (view c) ++ map_of (kv # kvs)"
    by (auto simp: kv map_add_def fun_eq_iff split: option.splits)
  moreover have "distinct (map fst kvs)" using Cons.prems(4) by simp
  ultimately show ?case
    using Cons.IH [OF rest v1(2) Cons.prems(3)] by (simp only: v1(1) get_put put_put)
qed

end

lemma view_absent:
  "property_lookup_by_id c k0 = None \<Longrightarrow> (view c)\<lparr>v_property := (property_lookup_by_id c)(k0 := None)\<rparr> = view c"
  "account_lookup_by_id c k1 = None \<Longrightarrow> (view c)\<lparr>v_account := (account_lookup_by_id c)(k1 := None)\<rparr> = view c"
  "asset_lookup_by_id c k2 = None \<Longrightarrow> (view c)\<lparr>v_asset := (asset_lookup_by_id c)(k2 := None)\<rparr> = view c"
  "slate_lookup_by_id c k3 = None \<Longrightarrow> (view c)\<lparr>v_slate := (slate_lookup_by_id c)(k3 := None)\<rparr> = view c"
  "balance_lookup_by_id c k4 = None \<Longrightarrow> (view c)\<lparr>v_balance := (balance_lookup_by_id c)(k4 := None)\<rparr> = view c"
  "transaction_lookup_by_id c k5 = None \<Longrightarrow> (view c)\<lparr>v_transaction := (transaction_lookup_by_id c)(k5 := None)\<rparr> = view c"
  "slot_lookup_by_index c k6 = None \<Longrightarrow> (view c)\<lparr>v_slot := (slot_lookup_by_index c)(k6 := None)\<rparr> = view c"
  "contract_lookup_by_id c k7 = None \<Longrightarrow> (view c)\<lparr>v_contract := (contract_lookup_by_id c)(k7 := None)\<rparr> = view c"
  "contract_lookup_resultid_by_reqestid c k8 = None \<Longrightarrow> (view c)\<lparr>v_result := (contract_lookup_resultid_by_reqestid c)(k8 := None)\<rparr> = view c"
  "contract_lookup_requestid_by_resultid c k9 = None \<Longrightarrow> (view c)\<lparr>v_request := (contract_lookup_requestid_by_resultid c)(k9 := None)\<rparr> = view c"
  "contract_lookup_contractid_by_trxid c k10 = None \<Longrightarrow> (view c)\<lparr>v_intrx := (contract_lookup_contractid_by_trxid c)(k10 := None)\<rparr> = view c"
  "contract_lookup_trxid_by_contract_id c k11 = None \<Longrightarrow> (view c)\<lparr>v_contrx := (contract_lookup_trxid_by_contract_id c)(k11 := None)\<rparr> = view c"
  by (simp_all add: view_def fun_upd_idem)

interpretation property_store: entry_store True v_property "\<lambda>m. v_property_update (\<lambda>_. m)"
  PropertyEntry_store PropertyEntry_remove
  by unfold_locales
    (auto simp: PropertyEntry_store_def PropertyEntry_remove_def Let_def view_absent split: option.splits if_splits)

lemma account_unindex_view:
  assumes "account_unindex E pe e c = Inr c'"
  shows "view c' = view c \<and> live c' = live c"
  using assms unfolding account_unindex_def Let_def
  by (auto split: option.splits if_splits)

lemma AccountEntry_store_view:
  assumes "AccountEntry_store E k entry c = Inr c'" "live c"
  shows "view c' = (view c)\<lparr>v_account := (account_lookup_by_id c)(k \<mapsto> entry)\<rparr> \<and> live c'"
proof -
  from assms obtain c1 where c1: "view c1 = view c" "live c1"
    and c': "\<exists>x. c' = x \<and> view x = view (account_insert_into_id_map k entry c1) \<and> live x"
    unfolding AccountEntry_store_def Let_def
    by (auto split: option.splits if_splits dest!: account_unindex_view)
  from c1 have "account_lookup_by_id c1 = account_lookup_by_id c" by (metis view_simps(2))
  with c1 c' show ?thesis by auto
qed

lemma AccountEntry_remove_view:
  assumes "AccountEntry_remove E k c = Inr c'" "live c"
  shows "view c' = (view c)\<lparr>v_account := (account_lookup_by_id c)(k := None)\<rparr> \<and> live c'"
proof (cases "account_lookup_by_id c k")
  case None
  then have "(account_lookup_by_id c)(k := None) = account_lookup_by_id c" by auto
  with None assms show ?thesis by (simp add: AccountEntry_remove_def view_def)
next
  case (Some e)
  with assms show ?thesis
    unfolding AccountEntry_remove_def Let_def by (auto split: option.splits if_splits)
qed

interpretation account_store: entry_store True v_account "\<lambda>m. v_account_update (\<lambda>_. m)"
  "AccountEntry_store E" "AccountEntry_remove E" for E
  by unfold_locales (simp_all add: AccountEntry_store_view AccountEntry_remove_view)

interpretation asset_store: entry_store True v_asset "\<lambda>m. v_asset_update (\<lambda>_. m)"
  AssetEntry_store AssetEntry_remove
  by unfold_locales
    (auto simp: AssetEntry_store_def AssetEntry_remove_def Let_def view_absent split: option.splits if_splits)

interpretation slate_store: entry_store True v_slate "\<lambda>m. v_slate_update (\<lambda>_. m)"
  SlateEntry_store SlateEntry_remove
  by unfold_locales
    (auto simp: SlateEntry_store_def SlateEntry_remove_def Let_def view_absent split: option.splits if_splits)

interpretation balance_store: entry_store True v_balance "\<lambda>m. v_balance_update (\<lambda>_. m)"
  BalanceEntry_store BalanceEntry_remove
  by unfold_locales
    (auto simp: BalanceEntry_store_def BalanceEntry_remove_def Let_def view_absent split: option.splits if_splits)

interpretation transaction_store: entry_store True v_transaction "\<lambda>m. v_transaction_update (\<lambda>_. m)"
  "TransactionEntry_store E" "TransactionEntry_remove E" for E
proof
  fix k v c c'
  show "live c \<Longrightarrow> TransactionEntry_store E k v c = Inr c' \<Longrightarrow>
      view c' = v_transaction_update (\<lambda>_. (v_transaction (view c))(k \<mapsto> v)) (view c) \<and> live c'"
    by (auto simp: TransactionEntry_store_def dest!: view_transaction_insert)
  show "live c \<Longrightarrow> TransactionEntry_remove E k c = Inr c' \<Longrightarrow>
      view c' = v_transaction_update (\<lambda>_. (v_transaction (view c))(k := None)) (view c) \<and> live c'"
  proof (cases "transaction_lookup_by_id c k")
    case None
    then have "(transaction_lookup_by_id c)(k := None) = transaction_lookup_by_id c" by auto
    with None show "live c \<Longrightarrow> TransactionEntry_remove E k c = Inr c' \<Longrightarrow> ?thesis"
      by (simp add: TransactionEntry_remove_def view_def)
  next
    case (Some e)
    then show "live c \<Longrightarrow> TransactionEntry_remove E k c = Inr c' \<Longrightarrow> ?thesis"
      by (auto simp: TransactionEntry_remove_def dest!: view_transaction_erase)
  qed
qed simp_all

interpretation slot_store: entry_store "the_statistics_enabled E" v_slot "\<lambda>m. v_slot_update (\<lambda>_. m)"
  "SlotEntry_store E" "SlotEntry_remove E" for E
  by unfold_locales
    (auto simp: SlotEntry_store_def SlotEntry_remove_def Let_def view_absent split: option.splits if_splits)

interpretation contract_store: entry_store True v_contract "\<lambda>m. v_contract_update (\<lambda>_. m)"
  ContractEntry_store ContractEntry_remove
  by unfold_locales
    (auto simp: ContractEntry_store_def ContractEntry_remove_def Let_def view_absent split: option.splits if_splits)

interpretation result_store: entry_store True v_result "\<lambda>m. v_result_update (\<lambda>_. m)"
  ResultTIdEntry_store ResultTIdEntry_remove
  by unfold_locales
    (auto simp: ResultTIdEntry_store_def ResultTIdEntry_remove_def Let_def view_absent split: option.splits if_splits)

interpretation request_store: entry_store True v_request "\<lambda>m. v_request_update (\<lambda>_. m)"
  RequestIdEntry_store RequestIdEntry_remove
  by unfold_locales
    (auto simp: RequestIdEntry_store_def RequestIdEntry_remove_def Let_def view_absent split: option.splits if_splits)

interpretation intrx_store: entry_store True v_intrx "\<lambda>m. v_intrx_update (\<lambda>_. m)"
  ContractinTrxEntry_store ContractinTrxEntry_remove
  by unfold_locales
    (auto simp: ContractinTrxEntry_store_def ContractinTrxEntry_remove_def Let_def view_absent split: option.splits if_splits)

interpretation contrx_store: entry_store True v_contrx "\<lambda>m. v_contrx_update (\<lambda>_. m)"
  ContractTrxEntry_store ContractTrxEntry_remove
  by unfold_locales
    (auto simp: ContractTrxEntry_store_def ContractTrxEntry_remove_def Let_def view_absent split: option.splits if_splits)

end
