(* ===== verification/Sample_State.thy ===== *)
theory Sample_State
  imports Chain_View
begin

text \<open>
  A small concrete node on which the hypotheses of the properties are discharged: two
  accounts (the first a delegate), the core asset as the genesis code creates it, one
  user-issued asset of the second account, and three balances.
  The library functions are toy instances of the parameter \<open>env\<close>: a signature is its key, an
  address is a number computed from the key or from the owner and asset of a condition.
\<close>

definition sample_env :: env where
  "sample_env = \<lparr>the_chain_id = 7, the_statistics_enabled = False, wall_clock = 5000,
     cond_address = (\<lambda>c. (case cond_data c of
         data_signature s \<Rightarrow> 1000 + 100 * sig_owner s + 10 * nat (cond_asset_id c) + cond_balance_type c
       | data_multisig m \<Rightarrow> 900 | _ \<Rightarrow> 0)),
     key_address = (\<lambda>k. k + 10), pts_address = (\<lambda>k b n. k + 200 + n),
     recover_key = (\<lambda>s d b. Inr s), null_key = 0,
     trx_digest = (\<lambda>t c. expiration t + c), trx_hash_id = (\<lambda>t. expiration t),
     trx_data_size = (\<lambda>t. 100), op_hash = op_type, slate_hash = (\<lambda>s. 5),
     contract_hash_id = (\<lambda>r. 77), code_sha = code_hash,
     creating_transaction_id = (\<lambda>t. []), u128_div_zero = (\<lambda>x. 0)\<rparr>"

definition sample_delegate :: DelegateStats where
  "sample_delegate = \<lparr>votes_for = 100, pay_rate = 100, signing_key_history = [(0, 1)],
     last_block_num_produced = 0, next_secret_hash = None, pay_balance = 300, total_paid = 300,
     total_burned = 0, blocks_produced = 0, blocks_missed = 0\<rparr>"

definition sample_account :: "account_id \<Rightarrow> string \<Rightarrow> DelegateStats option \<Rightarrow> AccountEntry" where
  "sample_account k name di = \<lparr>acc_id = k, acc_name = name, acc_public_data = [],
     acc_owner_key = nat k, acc_active_key_history = [(1, nat k)], acc_registration_date = 1,
     acc_last_update = 1, acc_delegate_info = di, acc_meta_data = None\<rparr>"

definition sample_asset :: "asset_id \<Rightarrow> string \<Rightarrow> account_id \<Rightarrow> share \<Rightarrow> AssetEntry" where
  "sample_asset k symbol issuer supply = \<lparr>ast_id = k, ast_symbol = symbol, ast_name = symbol,
     ast_description = [], ast_public_data = [], ast_issuer_account_id = issuer,
     ast_precision = 100000, ast_registration_date = 1, ast_last_update = 1,
     ast_maximum_share_supply = 100000000, ast_current_share_supply = supply,
     ast_collected_fees = 0, ast_flags = 0, ast_issuer_permissions = (if k = 0 then 0 else 31), ast_transaction_fee = 0,
     ast_market_fee = 0, ast_authority = (if k = 0 then \<lparr>mm_required = 0, mm_owners = []\<rparr>
       else \<lparr>mm_required = 1, mm_owners = [12]\<rparr>)\<rparr>"

definition sample_balance :: "address \<Rightarrow> asset_id \<Rightarrow> share \<Rightarrow> BalanceEntry" where
  "sample_balance ow k b = \<lparr>bal_condition = signature_condition ow k 0 withdraw_common_type,
     bal_balance = b, bal_restricted_owner = None, bal_snapshot_info = None,
     bal_deposit_date = 1, bal_last_update = 1, bal_meta_data = []\<rparr>"

definition sample_db :: database where
  "sample_db = \<lparr>db_head_block_num = 10, db_head_block_timestamp = 2000,
     db_property_id_to_entry =
       [(last_asset_id, \<lparr>prop_id = last_asset_id, prop_value = pv_int 1\<rparr>),
        (last_account_id, \<lparr>prop_id = last_account_id, prop_value = pv_int 2\<rparr>)],
     db_account_id_to_entry =
       [(1, sample_account 1 ''alice'' (Some sample_delegate)), (2, sample_account 2 ''bob'' None)],
     db_account_name_to_id = [''alice'' \<mapsto> 1, ''bob'' \<mapsto> 2],
     db_account_address_to_id = [11 \<mapsto> 1, 12 \<mapsto> 2],
     db_delegate_votes = [VoteDel 100 1],
     db_asset_id_to_entry = [(0, sample_asset 0 ''ACT'' 0 5000300), (1, sample_asset 1 ''ABC'' 2 700)],
     db_asset_symbol_to_id = [''ACT'' \<mapsto> 0, ''ABC'' \<mapsto> 1],
     db_slate_id_to_entry = [],
     db_balance_id_to_entry =
       [(2100, sample_balance 11 0 4000000), (2110, sample_balance 11 1 700),
        (2200, sample_balance 12 0 1000000)],
     db_transaction_id_to_entry = [], db_unique_transactions = [],
     db_address_to_transaction_ids = Map.empty, db_recent_operations = (\<lambda>_. []),
     db_slot_index_to_entry = [], db_slot_timestamp_to_delegate = Map.empty,
     db_contract_id_to_entry = [], db_contract_name_to_id = Map.empty,
     db_contract_id_to_storage = [], db_request_id_to_result_id = [],
     db_result_id_to_request_id = [], db_trx_to_contract_id = [], db_contract_to_trx_id = []\<rparr>"

text \<open>An overlay that moves funds between two balances, opens a third and removes a fourth.\<close>

definition sample_pending :: PendingChainState where
  "sample_pending = new_pending\<lparr>
     p_balance_id_to_entry :=
       [(2100, sample_balance 11 0 3999000), (2300, sample_balance 13 0 1000)],
     p_balance_id_remove := [2200],
     p_account_id_to_entry := [(2, sample_account 2 ''bob'' (Some sample_delegate))]\<rparr>"

lemmas sample_defs [eval_simps] =
  sample_env_def sample_delegate_def sample_account_def sample_asset_def sample_balance_def
  sample_db_def sample_pending_def

end
