(* ===== verification/Pending_State.thy ===== *)
theory Pending_State
  imports Sample_State
begin

text \<open>
  \<open>PendingChainState::apply_changes\<close> and \<open>get_undo_state\<close>. Committing an overlay to the state
  under it and undoing a commit are correct on the view: the committed state shows what the
  overlay showed, and applying the undo state gives back the view before the commit. The
  storage of contracts is committed but, because its erasure is not recorded, not undone.
\<close>

section \<open>apply\_changes\<close>

definition apply_entrys ::
  "('k \<Rightarrow> 'v \<Rightarrow> chain \<Rightarrow> chain result) \<Rightarrow> ('k \<Rightarrow> chain \<Rightarrow> chain result) \<Rightarrow>
   ('k \<times> 'v) list \<Rightarrow> 'k list \<Rightarrow> chain \<Rightarrow> chain result" where
  "apply_entrys store remove store_map remove_set prev_state =
     ebind (efold remove remove_set prev_state) (efold (\<lambda>(k, v). store k v) store_map)"

definition apply_changes :: "env \<Rightarrow> PendingChainState \<Rightarrow> chain \<Rightarrow> chain result" where
  "apply_changes E p prev_state =
     (if \<not> live prev_state then Inr prev_state else
     ebind (apply_entrys PropertyEntry_store PropertyEntry_remove (p_property_id_to_entry p) (p_property_id_remove p) prev_state) (\<lambda>c1.
     ebind (apply_entrys (AccountEntry_store E) (AccountEntry_remove E) (p_account_id_to_entry p) (p_account_id_remove p) c1) (\<lambda>c2.
     ebind (apply_entrys AssetEntry_store AssetEntry_remove (p_asset_id_to_entry p) (p_asset_id_remove p) c2) (\<lambda>c3.
     ebind (apply_entrys SlateEntry_store SlateEntry_remove (p_slate_id_to_entry p) (p_slate_id_remove p) c3) (\<lambda>c4.
     ebind (apply_entrys BalanceEntry_store BalanceEntry_remove (p_balance_id_to_entry p) (p_balance_id_remove p) c4) (\<lambda>c5.
     ebind (apply_entrys (TransactionEntry_store E) (TransactionEntry_remove E) (p_transaction_id_to_entry p) (p_transaction_id_remove p) c5) (\<lambda>c6.
     ebind (apply_entrys (SlotEntry_store E) (SlotEntry_remove E) (p_slot_index_to_entry p) (p_slot_index_remove p) c6) (\<lambda>c7.
     ebind (apply_entrys ContractEntry_store ContractEntry_remove (p_contract_id_to_entry p) (p_contract_id_remove p) c7) (\<lambda>c8.
     ebind (apply_entrys ContractStorageEntry_store ContractStorageEntry_remove (p_contract_id_to_storage p) (p_contract_id_remove p) c8) (\<lambda>c9.
     ebind (apply_entrys ResultTIdEntry_store ResultTIdEntry_remove (p_request_id_to_result_id p) (p_req_to_res_to_remove p) c9) (\<lambda>c10.
     ebind (apply_entrys RequestIdEntry_store RequestIdEntry_remove (p_result_id_to_request_id p) (p_res_to_req_to_remove p) c10) (\<lambda>c11.
     ebind (apply_entrys ContractinTrxEntry_store ContractinTrxEntry_remove (p_trx_to_contract_id p) (p_trx_to_contract_id_remove p) c11) (\<lambda>c12.
     apply_entrys ContractTrxEntry_store ContractTrxEntry_remove (p_contract_to_trx_id p) (p_contract_to_trx_id_remove p) c12)))))))))))))"

section \<open>get\_undo\_state\<close>

definition populate_undo_state ::
  "(chain \<Rightarrow> 'k \<Rightarrow> 'v option) \<Rightarrow> ('k \<Rightarrow> 'v \<Rightarrow> chain \<Rightarrow> chain result) \<Rightarrow>
   ('k \<Rightarrow> chain \<Rightarrow> chain result) \<Rightarrow> ('k \<times> 'v) list \<Rightarrow> 'k list \<Rightarrow>
   chain \<Rightarrow> chain \<Rightarrow> chain result" where
  "populate_undo_state lookup store remove store_map remove_set prev_state undo_state =
     ebind (efold (\<lambda>key u. case lookup prev_state key of
                     Some prev_entry \<Rightarrow> store key prev_entry u
                   | None \<Rightarrow> Inr u) remove_set undo_state)
       (efold (\<lambda>(key, _) u. case lookup prev_state key of
                     Some prev_entry \<Rightarrow> store key prev_entry u
                   | None \<Rightarrow> remove key u) store_map)"

definition get_undo_state :: "env \<Rightarrow> PendingChainState \<Rightarrow> chain \<Rightarrow> chain \<Rightarrow> chain result" where
  "get_undo_state E p prev_state undo_state =
     (if \<not> live prev_state then Inl assert_exception else
     ebind (populate_undo_state property_lookup_by_id PropertyEntry_store PropertyEntry_remove
       (p_property_id_to_entry p) (p_property_id_remove p) prev_state undo_state) (\<lambda>c1.
     ebind (populate_undo_state account_lookup_by_id (AccountEntry_store E) (AccountEntry_remove E)
       (p_account_id_to_entry p) (p_account_id_remove p) prev_state c1) (\<lambda>c2.
     ebind (populate_undo_state asset_lookup_by_id AssetEntry_store AssetEntry_remove
       (p_asset_id_to_entry p) (p_asset_id_remove p) prev_state c2) (\<lambda>c3.
     ebind (populate_undo_state slate_lookup_by_id SlateEntry_store SlateEntry_remove
       (p_slate_id_to_entry p) (p_slate_id_remove p) prev_state c3) (\<lambda>c4.
     ebind (populate_undo_state balance_lookup_by_id BalanceEntry_store BalanceEntry_remove
       (p_balance_id_to_entry p) (p_balance_id_remove p) prev_state c4) (\<lambda>c5.
     ebind (populate_undo_state transaction_lookup_by_id (TransactionEntry_store E) (TransactionEntry_remove E)
       (p_transaction_id_to_entry p) (p_transaction_id_remove p) prev_state c5) (\<lambda>c6.
     ebind (populate_undo_state slot_lookup_by_index (SlotEntry_store E) (SlotEntry_remove E)
       (p_slot_index_to_entry p) (p_slot_index_remove p) prev_state c6) (\<lambda>c7.
     ebind (populate_undo_state contract_lookup_by_id ContractEntry_store ContractEntry_remove
       (p_contract_id_to_entry p) (p_contract_id_remove p) prev_state c7) (\<lambda>c8.
     ebind (populate_undo_state contractstorage_lookup_by_id ContractStorageEntry_store ContractStorageEntry_remove
       (p_contract_id_to_storage p) (p_contract_id_remove p) prev_state c8) (\<lambda>c9.
     ebind (populate_undo_state contract_lookup_resultid_by_reqestid ResultTIdEntry_store ResultTIdEntry_remove
       (p_request_id_to_result_id p) (p_req_to_res_to_remove p) prev_state c9) (\<lambda>c10.
     ebind (populate_undo_state contract_lookup_requestid_by_resultid RequestIdEntry_store RequestIdEntry_remove
       (p_result_id_to_request_id p) (p_res_to_req_to_remove p) prev_state c10) (\<lambda>c11.
     ebind (populate_undo_state contract_lookup_contractid_by_trxid ContractinTrxEntry_store ContractinTrxEntry_remove
       (p_trx_to_contract_id p) (p_trx_to_contract_id_remove p) prev_state c11) (\<lambda>c12.
     populate_undo_state contract_lookup_trxid_by_contract_id ContractTrxEntry_store ContractTrxEntry_remove
       (p_contract_to_trx_id p) (p_contract_to_trx_id_remove p) prev_state c12)))))))))))))"

section \<open>The contract, lifted to a whole commit\<close>

context entry_store
begin

lemma apply_entrys_view:
  assumes "apply_entrys store remove sm rs c = Inr c'" "live c"
    and "distinct (map fst sm)" "enabled \<or> sm = [] \<and> rs = []"
  shows "view c' = put_map (overlay_map sm rs (get_map (view c))) (view c) \<and> live c'"
proof (cases enabled)
  case True
  from assms(1) obtain c1 where c1: "efold remove rs c = Inr c1"
    and c2: "efold (\<lambda>(k, v). store k v) sm c1 = Inr c'"
    by (auto simp: apply_entrys_def)
  have v1: "view c1 = put_map (get_map (view c) |` (- set rs)) (view c)" "live c1"
    using remove_all [OF c1 assms(2) True] by auto
  show ?thesis using store_all [OF c2 v1(2) True assms(3)]
    by (simp only: v1(1) get_put put_put overlay_map_def)
next
  case False
  with assms have "sm = []" "rs = []" "c' = c" by (auto simp: apply_entrys_def)
  then show ?thesis using assms by (simp add: put_get)
qed

text \<open>
  The undo of one map: whatever the undo state showed for a key the commit touches, it now
  shows the previous value.
\<close>

lemma populate_removes:
  assumes "efold (\<lambda>key u. case get_map w key of
             Some e \<Rightarrow> store key e u | None \<Rightarrow> Inr u) rs u = Inr u'"
    and "live u" "enabled"
  shows "view u' = put_map (\<lambda>k. if k \<in> set rs \<and> get_map w k \<noteq> None then get_map w k
      else get_map (view u) k) (view u) \<and> live u'"
  using assms
proof (induction rs arbitrary: u)
  case Nil
  then show ?case by (simp add: put_get)
next
  case (Cons k rs)
  then obtain u1 where u1: "(case get_map w k of Some e \<Rightarrow> store k e u | None \<Rightarrow> Inr u) = Inr u1"
    and rest: "efold (\<lambda>key u. case get_map w key of
             Some e \<Rightarrow> store key e u | None \<Rightarrow> Inr u) rs u1 = Inr u'"
    by auto
  have v1: "view u1 = put_map (\<lambda>j. if j = k \<and> get_map w k \<noteq> None then get_map w k
      else get_map (view u) j) (view u)" "live u1"
  proof -
    have "view u1 = put_map (\<lambda>j. if j = k \<and> get_map w k \<noteq> None then get_map w k
      else get_map (view u) j) (view u) \<and> live u1"
    proof (cases "get_map w k")
      case None
      then show ?thesis using u1 Cons.prems by (simp add: put_get)
    next
      case (Some e)
      have upd: "(\<lambda>j. if j = k \<and> get_map w k \<noteq> None then get_map w k else get_map (view u) j)
          = (get_map (view u))(k \<mapsto> e)" using Some by auto
      show ?thesis unfolding upd
        by (rule store_view) (use Some u1 Cons.prems(2,3) in simp_all)
    qed
    then show "view u1 = put_map (\<lambda>j. if j = k \<and> get_map w k \<noteq> None then get_map w k
      else get_map (view u) j) (view u)" "live u1" by auto
  qed
  have "(\<lambda>j. if j \<in> set rs \<and> get_map w j \<noteq> None then get_map w j
      else if j = k \<and> get_map w k \<noteq> None then get_map w k else get_map (view u) j) =
    (\<lambda>j. if j \<in> set (k # rs) \<and> get_map w j \<noteq> None then get_map w j else get_map (view u) j)"
    by (auto simp: fun_eq_iff)
  with Cons.IH [OF rest v1(2) Cons.prems(3)] show ?case
    by (simp only: v1(1) get_put put_put)
qed

lemma populate_stores:
  assumes "efold (\<lambda>(key, _) u. case get_map w key of
             Some e \<Rightarrow> store key e u | None \<Rightarrow> remove key u) sm u = Inr u'"
    and "live u" "enabled"
  shows "view u' = put_map (\<lambda>k. if k \<in> fst ` set sm then get_map w k
      else get_map (view u) k) (view u) \<and> live u'"
  using assms
proof (induction sm arbitrary: u)
  case Nil
  then show ?case by (simp add: put_get)
next
  case (Cons kv sm)
  obtain k v where kv: "kv = (k, v)" by (cases kv)
  from Cons.prems kv obtain u1 where
    u1: "(case get_map w k of Some e \<Rightarrow> store k e u | None \<Rightarrow> remove k u) = Inr u1"
    and rest: "efold (\<lambda>(key, _) u. case get_map w key of
             Some e \<Rightarrow> store key e u | None \<Rightarrow> remove key u) sm u1 = Inr u'"
    by auto
  have v1: "view u1 = put_map ((get_map (view u))(k := get_map w k)) (view u) \<and> live u1"
  proof (cases "get_map w k")
    case None
    then have "remove k u = Inr u1" using u1 by simp
    from remove_view [OF Cons.prems(3,2) this] None show ?thesis by simp
  next
    case (Some e)
    then have "store k e u = Inr u1" using u1 by simp
    from store_view [OF Cons.prems(3,2) this] Some show ?thesis by simp
  qed
  have "(\<lambda>j. if j \<in> fst ` set sm then get_map w j else ((get_map (view u))(k := get_map w k)) j) =
    (\<lambda>j. if j \<in> fst ` set (kv # sm) then get_map w j else get_map (view u) j)"
    by (auto simp: fun_eq_iff kv)
  with Cons.IH [OF rest _ Cons.prems(3)] v1 show ?case
    by (simp only: get_put put_put)
qed

lemma populate_undo_view:
  assumes "populate_undo_state lookup store remove sm rs prev u = Inr u'"
    and "live u" "lookup prev = get_map w" "enabled \<or> sm = [] \<and> rs = []"
    and "get_map (view u) = overlay_map sm rs (get_map w)"
  shows "view u' = put_map (get_map w) (view u) \<and> live u'"
proof (cases enabled)
  case True
  from assms(1) obtain u1 where
    r: "efold (\<lambda>key u. case get_map w key of
             Some e \<Rightarrow> store key e u | None \<Rightarrow> Inr u) rs u = Inr u1"
    and s: "efold (\<lambda>(key, _) u. case get_map w key of
             Some e \<Rightarrow> store key e u | None \<Rightarrow> remove key u) sm u1 = Inr u'"
    by (auto simp: populate_undo_state_def assms(3))
  note v1 = populate_removes [OF r assms(2) True]
  have "(\<lambda>k. if k \<in> fst ` set sm then get_map w k
      else if k \<in> set rs \<and> get_map w k \<noteq> None then get_map w k
      else overlay_map sm rs (get_map w) k) = get_map w"
  proof
    fix k
    show "(if k \<in> fst ` set sm then get_map w k
      else if k \<in> set rs \<and> get_map w k \<noteq> None then get_map w k
      else overlay_map sm rs (get_map w) k) = get_map w k"
      using map_of_eq_None_iff [of sm k] by (auto simp: overlay_map_apply)
  qed
  with populate_stores [OF s conjunct2 [OF v1] True] v1 assms(5) show ?thesis
    by (simp only: get_put put_put)
next
  case False
  with assms have "sm = []" "rs = []" "u' = u" by (auto simp: populate_undo_state_def)
  with assms(5) have "get_map w = get_map (view u)" by simp
  with \<open>u' = u\<close> assms(2) show ?thesis by (simp add: put_get)
qed

end

section \<open>Committing an overlay\<close>

lemma storage_apply_view:
  assumes "apply_entrys ContractStorageEntry_store ContractStorageEntry_remove sm rs c = Inr c'"
  shows "view c' = view c \<and> live c' = live c"
proof -
  from assms obtain c1 where r: "efold ContractStorageEntry_remove rs c = Inr c1"
    and s: "efold (\<lambda>(k, v). ContractStorageEntry_store k v) sm c1 = Inr c'"
    by (auto simp: apply_entrys_def)
  have "(view c1, live c1) = (view c, live c)"
    by (rule efold_frame [OF r]) (auto simp: ContractStorageEntry_remove_def split: if_splits)
  moreover have "(view c', live c') = (view c1, live c1)"
    by (rule efold_frame [OF s]) (auto simp: ContractStorageEntry_store_def)
  ultimately show ?thesis by simp
qed

lemma apply_changes_view:
  assumes "apply_changes E p c = Inr c'" "live c" "pending_ok E p"
  shows "view c' = overlay p (view c) \<and> live c'"
proof -
  note ok = assms(3) [unfolded pending_ok_def]
  from assms(1,2) obtain c1 c2 c3 c4 c5 c6 c7 c8 c9 c10 c11 c12 where
    s1: "apply_entrys PropertyEntry_store PropertyEntry_remove (p_property_id_to_entry p) (p_property_id_remove p) c = Inr c1"
    and s2: "apply_entrys (AccountEntry_store E) (AccountEntry_remove E) (p_account_id_to_entry p) (p_account_id_remove p) c1 = Inr c2"
    and s3: "apply_entrys AssetEntry_store AssetEntry_remove (p_asset_id_to_entry p) (p_asset_id_remove p) c2 = Inr c3"
    and s4: "apply_entrys SlateEntry_store SlateEntry_remove (p_slate_id_to_entry p) (p_slate_id_remove p) c3 = Inr c4"
    and s5: "apply_entrys BalanceEntry_store BalanceEntry_remove (p_balance_id_to_entry p) (p_balance_id_remove p) c4 = Inr c5"
    and s6: "apply_entrys (TransactionEntry_store E) (TransactionEntry_remove E) (p_transaction_id_to_entry p) (p_transaction_id_remove p) c5 = Inr c6"
    and s7: "apply_entrys (SlotEntry_store E) (SlotEntry_remove E) (p_slot_index_to_entry p) (p_slot_index_remove p) c6 = Inr c7"
    and s8: "apply_entrys ContractEntry_store ContractEntry_remove (p_contract_id_to_entry p) (p_contract_id_remove p) c7 = Inr c8"
    and s9: "apply_entrys ContractStorageEntry_store ContractStorageEntry_remove (p_contract_id_to_storage p) (p_contract_id_remove p) c8 = Inr c9"
    and s10: "apply_entrys ResultTIdEntry_store ResultTIdEntry_remove (p_request_id_to_result_id p) (p_req_to_res_to_remove p) c9 = Inr c10"
    and s11: "apply_entrys RequestIdEntry_store RequestIdEntry_remove (p_result_id_to_request_id p) (p_res_to_req_to_remove p) c10 = Inr c11"
    and s12: "apply_entrys ContractinTrxEntry_store ContractinTrxEntry_remove (p_trx_to_contract_id p) (p_trx_to_contract_id_remove p) c11 = Inr c12"
    and s13: "apply_entrys ContractTrxEntry_store ContractTrxEntry_remove (p_contract_to_trx_id p) (p_contract_to_trx_id_remove p) c12 = Inr c'"
    by (auto simp: apply_changes_def)
  have v1: "view c1 = v_property_update (\<lambda>_. overlay_map (p_property_id_to_entry p) (p_property_id_remove p) (v_property (view c)))
      (view c) \<and> live c1"
    by (rule property_store.apply_entrys_view [OF s1 assms(2)]) (use ok smap_ok_distinct in auto)
  have v2: "view c2 = v_account_update (\<lambda>_. overlay_map (p_account_id_to_entry p) (p_account_id_remove p) (v_account (view c1)))
      (view c1) \<and> live c2"
    by (rule account_store.apply_entrys_view [OF s2 conjunct2 [OF v1]]) (use ok smap_ok_distinct in auto)
  have v3: "view c3 = v_asset_update (\<lambda>_. overlay_map (p_asset_id_to_entry p) (p_asset_id_remove p) (v_asset (view c2)))
      (view c2) \<and> live c3"
    by (rule asset_store.apply_entrys_view [OF s3 conjunct2 [OF v2]]) (use ok smap_ok_distinct in auto)
  have v4: "view c4 = v_slate_update (\<lambda>_. overlay_map (p_slate_id_to_entry p) (p_slate_id_remove p) (v_slate (view c3)))
      (view c3) \<and> live c4"
    by (rule slate_store.apply_entrys_view [OF s4 conjunct2 [OF v3]]) (use ok smap_ok_distinct in auto)
  have v5: "view c5 = v_balance_update (\<lambda>_. overlay_map (p_balance_id_to_entry p) (p_balance_id_remove p) (v_balance (view c4)))
      (view c4) \<and> live c5"
    by (rule balance_store.apply_entrys_view [OF s5 conjunct2 [OF v4]]) (use ok smap_ok_distinct in auto)
  have v6: "view c6 = v_transaction_update (\<lambda>_. overlay_map (p_transaction_id_to_entry p) (p_transaction_id_remove p) (v_transaction (view c5)))
      (view c5) \<and> live c6"
    by (rule transaction_store.apply_entrys_view [OF s6 conjunct2 [OF v5]]) (use ok smap_ok_distinct in auto)
  have v7: "view c7 = v_slot_update (\<lambda>_. overlay_map (p_slot_index_to_entry p) (p_slot_index_remove p) (v_slot (view c6)))
      (view c6) \<and> live c7"
    by (rule slot_store.apply_entrys_view [OF s7 conjunct2 [OF v6]]) (use ok smap_ok_distinct in auto)
  have v8: "view c8 = v_contract_update (\<lambda>_. overlay_map (p_contract_id_to_entry p) (p_contract_id_remove p) (v_contract (view c7)))
      (view c7) \<and> live c8"
    by (rule contract_store.apply_entrys_view [OF s8 conjunct2 [OF v7]]) (use ok smap_ok_distinct in auto)
  have v9: "view c9 = view c8 \<and> live c9"
    using storage_apply_view [OF s9] v8 by simp
  have v10: "view c10 = v_result_update (\<lambda>_. overlay_map (p_request_id_to_result_id p) (p_req_to_res_to_remove p) (v_result (view c9)))
      (view c9) \<and> live c10"
    by (rule result_store.apply_entrys_view [OF s10 conjunct2 [OF v9]]) (use ok smap_ok_distinct in auto)
  have v11: "view c11 = v_request_update (\<lambda>_. overlay_map (p_result_id_to_request_id p) (p_res_to_req_to_remove p) (v_request (view c10)))
      (view c10) \<and> live c11"
    by (rule request_store.apply_entrys_view [OF s11 conjunct2 [OF v10]]) (use ok smap_ok_distinct in auto)
  have v12: "view c12 = v_intrx_update (\<lambda>_. overlay_map (p_trx_to_contract_id p) (p_trx_to_contract_id_remove p) (v_intrx (view c11)))
      (view c11) \<and> live c12"
    by (rule intrx_store.apply_entrys_view [OF s12 conjunct2 [OF v11]]) (use ok smap_ok_distinct in auto)
  have v13: "view c' = v_contrx_update (\<lambda>_. overlay_map (p_contract_to_trx_id p) (p_contract_to_trx_id_remove p) (v_contrx (view c12)))
      (view c12) \<and> live c'"
    by (rule contrx_store.apply_entrys_view [OF s13 conjunct2 [OF v12]]) (use ok smap_ok_distinct in auto)
  show ?thesis
    using v1 v2 v3 v4 v5 v6 v7 v8 v9 v10 v11 v12 v13
    by (simp add: overlay_def)
qed

section \<open>Undoing a commit\<close>

text \<open>A sequence of steps that each keep what lies under the overlay.\<close>

definition keeps :: "env \<Rightarrow> chain \<Rightarrow> chain \<Rightarrow> bool" where
  "keeps E c c' \<longleftrightarrow> prev_of c' = prev_of c \<and> is_pending c' = is_pending c \<and> (chain_ok E c \<longrightarrow> chain_ok E c')"

lemma keeps_refl [simp]: "keeps E c c"
  by (simp add: keeps_def)

lemma keeps_trans: "keeps E a b \<Longrightarrow> keeps E b c \<Longrightarrow> keeps E a c"
  by (simp add: keeps_def)

lemma keeps_efold:
  assumes "efold g xs c = Inr c'" "\<And>x a b. g x a = Inr b \<Longrightarrow> keeps E a b"
  shows "keeps E c c'"
  using assms(1)
proof (induction xs arbitrary: c)
  case (Cons x xs)
  then obtain c1 where "g x c = Inr c1" "efold g xs c1 = Inr c'" by auto
  with Cons assms(2) show ?case by (blast intro: keeps_trans)
qed simp

lemma keeps_ebind:
  assumes "ebind m f = Inr c'" "\<And>x. m = Inr x \<Longrightarrow> keeps E c x" "\<And>x. f x = Inr c' \<Longrightarrow> keeps E x c'"
  shows "keeps E c c'"
  using assms by (auto intro: keeps_trans)

lemma keeps_populate:
  assumes "populate_undo_state lookup store remove sm rs prev u = Inr u'"
    and "\<And>k v a b. store k v a = Inr b \<Longrightarrow> keeps E a b"
    and "\<And>k a b. remove k a = Inr b \<Longrightarrow> keeps E a b"
  shows "keeps E u u'"
proof -
  from assms(1) obtain u1 where
    r: "efold (\<lambda>key u. case lookup prev key of
             Some e \<Rightarrow> store key e u | None \<Rightarrow> Inr u) rs u = Inr u1"
    and s: "efold (\<lambda>(key, _) u. case lookup prev key of
             Some e \<Rightarrow> store key e u | None \<Rightarrow> remove key u) sm u1 = Inr u'"
    by (auto simp: populate_undo_state_def)
  have "keeps E u u1"
    by (rule keeps_efold [OF r]) (auto intro: assms(2) split: option.splits)
  moreover have "keeps E u1 u'"
    by (rule keeps_efold [OF s]) (auto intro: assms(2,3) split: option.splits)
  ultimately show ?thesis by (rule keeps_trans)
qed

lemma erase_addresses_keeps [simp]:
  "prev_of (erase_addresses E h c) = prev_of c" "is_pending (erase_addresses E h c) = is_pending c"
  "chain_ok E' c \<Longrightarrow> chain_ok E' (erase_addresses E h c)"
  unfolding erase_addresses_def by (induction h arbitrary: c) simp_all

lemma insert_addresses_keeps [simp]:
  "prev_of (insert_addresses E k h c) = prev_of c"
  "is_pending (insert_addresses E k h c) = is_pending c"
  "chain_ok E' c \<Longrightarrow> chain_ok E' (insert_addresses E k h c)"
  unfolding insert_addresses_def by (induction h arbitrary: c) simp_all

lemma unique_set_keeps [simp]:
  "prev_of (transaction_insert_into_unique_set E trx c) = prev_of c"
  "is_pending (transaction_insert_into_unique_set E trx c) = is_pending c"
  "chain_ok E' c \<Longrightarrow> chain_ok E' (transaction_insert_into_unique_set E trx c)"
  "prev_of (transaction_erase_from_unique_set E trx c) = prev_of c"
  "is_pending (transaction_erase_from_unique_set E trx c) = is_pending c"
  "chain_ok E' c \<Longrightarrow> chain_ok E' (transaction_erase_from_unique_set E trx c)"
  by (cases c; simp add: chain_ok_defs db_access_defs)+

lemma transaction_map_keeps:
  "transaction_insert_into_id_map E k v c = Inr c' \<Longrightarrow> keeps E c c'"
  "transaction_erase_from_id_map E k c = Inr c' \<Longrightarrow> keeps E c c'"
  by (cases c; auto simp: keeps_def chain_ok_defs
      dest!: db_transaction_insert_shape db_transaction_erase_shape)+

lemma account_unindex_keeps:
  "account_unindex E pe e c = Inr c' \<Longrightarrow> keeps E c c'"
  unfolding account_unindex_def Let_def keeps_def by (auto split: option.splits if_splits)

lemma AccountEntry_keeps:
  "AccountEntry_store E k e c = Inr c' \<Longrightarrow> keeps E c c'"
  "AccountEntry_remove E k c = Inr c' \<Longrightarrow> keeps E c c'"
proof -
  show "AccountEntry_remove E k c = Inr c' \<Longrightarrow> keeps E c c'"
    unfolding AccountEntry_remove_def Let_def keeps_def by (auto split: option.splits if_splits)
  assume st: "AccountEntry_store E k e c = Inr c'"
  then obtain c1 where c1: "(case account_lookup_by_id c k of None \<Rightarrow> Inr c
      | Some pe \<Rightarrow> account_unindex E pe e c) = Inr c1"
    unfolding AccountEntry_store_def by blast
  have "keeps E c c1"
    using c1 by (auto split: option.splits dest: account_unindex_keeps)
  moreover have "keeps E c1 c'"
    using st c1 unfolding AccountEntry_store_def Let_def
    by (auto simp: keeps_def split: option.splits if_splits)
  ultimately show "keeps E c c'" by (rule keeps_trans)
qed

lemma TransactionEntry_keeps:
  "TransactionEntry_store E k t c = Inr c' \<Longrightarrow> keeps E c c'"
  "TransactionEntry_remove E k c = Inr c' \<Longrightarrow> keeps E c c'"
  unfolding TransactionEntry_store_def TransactionEntry_remove_def
  by (auto simp: keeps_def split: option.splits dest!: transaction_map_keeps [unfolded keeps_def])

lemma simple_entry_keeps:
  "PropertyEntry_store property_k property_e c = Inr c' \<Longrightarrow> keeps E c c'"
  "PropertyEntry_remove property_k c = Inr c' \<Longrightarrow> keeps E c c'"
  "AssetEntry_store asset_k asset_e c = Inr c' \<Longrightarrow> keeps E c c'"
  "AssetEntry_remove asset_k c = Inr c' \<Longrightarrow> keeps E c c'"
  "SlateEntry_store slate_k slate_e c = Inr c' \<Longrightarrow> keeps E c c'"
  "SlateEntry_remove slate_k c = Inr c' \<Longrightarrow> keeps E c c'"
  "BalanceEntry_store balance_k balance_e c = Inr c' \<Longrightarrow> keeps E c c'"
  "BalanceEntry_remove balance_k c = Inr c' \<Longrightarrow> keeps E c c'"
  "SlotEntry_store E slot_k slot_e c = Inr c' \<Longrightarrow> keeps E c c'"
  "SlotEntry_remove E slot_k c = Inr c' \<Longrightarrow> keeps E c c'"
  "ContractEntry_store contract_k contract_e c = Inr c' \<Longrightarrow> keeps E c c'"
  "ContractEntry_remove contract_k c = Inr c' \<Longrightarrow> keeps E c c'"
  "ContractStorageEntry_store storage_k storage_e c = Inr c' \<Longrightarrow> keeps E c c'"
  "ContractStorageEntry_remove storage_k c = Inr c' \<Longrightarrow> keeps E c c'"
  "ResultTIdEntry_store result_k result_e c = Inr c' \<Longrightarrow> keeps E c c'"
  "ResultTIdEntry_remove result_k c = Inr c' \<Longrightarrow> keeps E c c'"
  "RequestIdEntry_store request_k request_e c = Inr c' \<Longrightarrow> keeps E c c'"
  "RequestIdEntry_remove request_k c = Inr c' \<Longrightarrow> keeps E c c'"
  "ContractinTrxEntry_store intrx_k intrx_e c = Inr c' \<Longrightarrow> keeps E c c'"
  "ContractinTrxEntry_remove intrx_k c = Inr c' \<Longrightarrow> keeps E c c'"
  "ContractTrxEntry_store contrx_k contrx_e c = Inr c' \<Longrightarrow> keeps E c c'"
  "ContractTrxEntry_remove contrx_k c = Inr c' \<Longrightarrow> keeps E c c'"
  by (auto simp: keeps_def entry_store_defs Let_def split: option.splits if_splits)

lemmas entry_keeps = AccountEntry_keeps TransactionEntry_keeps simple_entry_keeps

lemma storage_populate_view:
  assumes "populate_undo_state lookup ContractStorageEntry_store ContractStorageEntry_remove
    sm rs prev u = Inr u'"
  shows "view u' = view u \<and> live u' = live u"
proof -
  from assms obtain u1 where
    r: "efold (\<lambda>key u. case lookup prev key of
             Some e \<Rightarrow> ContractStorageEntry_store key e u | None \<Rightarrow> Inr u) rs u = Inr u1"
    and s: "efold (\<lambda>(key, _) u. case lookup prev key of
             Some e \<Rightarrow> ContractStorageEntry_store key e u
           | None \<Rightarrow> ContractStorageEntry_remove key u) sm u1 = Inr u'"
    by (auto simp: populate_undo_state_def)
  have "(view u1, live u1) = (view u, live u)"
    by (rule efold_frame [OF r]) (auto simp: ContractStorageEntry_store_def split: option.splits)
  moreover have "(view u', live u') = (view u1, live u1)"
    by (rule efold_frame [OF s])
      (auto simp: ContractStorageEntry_store_def ContractStorageEntry_remove_def
         split: option.splits if_splits)
  ultimately show ?thesis by simp
qed

lemma get_undo_state_keeps: "get_undo_state E p c u = Inr u' \<Longrightarrow> keeps E u u'"
  unfolding get_undo_state_def
  by (cases "live c", simp_all only: if_True if_False not_True_eq_False not_False_eq_True)
    ((erule keeps_ebind keeps_populate entry_keeps)+, simp)

lemma get_undo_state_view:
  assumes "get_undo_state E p c u = Inr u'" "live c" "live u" "pending_ok E p"
    and u: "view u = overlay p (view c)"
  shows "view u' = view c \<and> live u' \<and> keeps E u u'"
proof -
  note ok = assms(4) [unfolded pending_ok_def]
  from assms(1,2) obtain u1 u2 u3 u4 u5 u6 u7 u8 u9 u10 u11 u12 where
    s1: "populate_undo_state property_lookup_by_id PropertyEntry_store PropertyEntry_remove
      (p_property_id_to_entry p) (p_property_id_remove p) c u = Inr u1"
    and s2: "populate_undo_state account_lookup_by_id (AccountEntry_store E) (AccountEntry_remove E)
      (p_account_id_to_entry p) (p_account_id_remove p) c u1 = Inr u2"
    and s3: "populate_undo_state asset_lookup_by_id AssetEntry_store AssetEntry_remove
      (p_asset_id_to_entry p) (p_asset_id_remove p) c u2 = Inr u3"
    and s4: "populate_undo_state slate_lookup_by_id SlateEntry_store SlateEntry_remove
      (p_slate_id_to_entry p) (p_slate_id_remove p) c u3 = Inr u4"
    and s5: "populate_undo_state balance_lookup_by_id BalanceEntry_store BalanceEntry_remove
      (p_balance_id_to_entry p) (p_balance_id_remove p) c u4 = Inr u5"
    and s6: "populate_undo_state transaction_lookup_by_id (TransactionEntry_store E) (TransactionEntry_remove E)
      (p_transaction_id_to_entry p) (p_transaction_id_remove p) c u5 = Inr u6"
    and s7: "populate_undo_state slot_lookup_by_index (SlotEntry_store E) (SlotEntry_remove E)
      (p_slot_index_to_entry p) (p_slot_index_remove p) c u6 = Inr u7"
    and s8: "populate_undo_state contract_lookup_by_id ContractEntry_store ContractEntry_remove
      (p_contract_id_to_entry p) (p_contract_id_remove p) c u7 = Inr u8"
    and s9: "populate_undo_state contractstorage_lookup_by_id ContractStorageEntry_store ContractStorageEntry_remove
      (p_contract_id_to_storage p) (p_contract_id_remove p) c u8 = Inr u9"
    and s10: "populate_undo_state contract_lookup_resultid_by_reqestid ResultTIdEntry_store ResultTIdEntry_remove
      (p_request_id_to_result_id p) (p_req_to_res_to_remove p) c u9 = Inr u10"
    and s11: "populate_undo_state contract_lookup_requestid_by_resultid RequestIdEntry_store RequestIdEntry_remove
      (p_result_id_to_request_id p) (p_res_to_req_to_remove p) c u10 = Inr u11"
    and s12: "populate_undo_state contract_lookup_contractid_by_trxid ContractinTrxEntry_store ContractinTrxEntry_remove
      (p_trx_to_contract_id p) (p_trx_to_contract_id_remove p) c u11 = Inr u12"
    and s13: "populate_undo_state contract_lookup_trxid_by_contract_id ContractTrxEntry_store ContractTrxEntry_remove
      (p_contract_to_trx_id p) (p_contract_to_trx_id_remove p) c u12 = Inr u'"
    by (auto simp: get_undo_state_def)
  have v1: "view u1 = v_property_update (\<lambda>_. v_property (view c)) (view u) \<and> live u1"
    by (rule property_store.populate_undo_view [OF s1 assms(3)]) (use ok u  in \<open>simp_all add: overlay_def\<close>)
  have v2: "view u2 = v_account_update (\<lambda>_. v_account (view c)) (view u1) \<and> live u2"
    by (rule account_store.populate_undo_view [OF s2 conjunct2 [OF v1]]) (use ok u v1 in \<open>simp_all add: overlay_def\<close>)
  have v3: "view u3 = v_asset_update (\<lambda>_. v_asset (view c)) (view u2) \<and> live u3"
    by (rule asset_store.populate_undo_view [OF s3 conjunct2 [OF v2]]) (use ok u v1 v2 in \<open>simp_all add: overlay_def\<close>)
  have v4: "view u4 = v_slate_update (\<lambda>_. v_slate (view c)) (view u3) \<and> live u4"
    by (rule slate_store.populate_undo_view [OF s4 conjunct2 [OF v3]]) (use ok u v1 v2 v3 in \<open>simp_all add: overlay_def\<close>)
  have v5: "view u5 = v_balance_update (\<lambda>_. v_balance (view c)) (view u4) \<and> live u5"
    by (rule balance_store.populate_undo_view [OF s5 conjunct2 [OF v4]]) (use ok u v1 v2 v3 v4 in \<open>simp_all add: overlay_def\<close>)
  have v6: "view u6 = v_transaction_update (\<lambda>_. v_transaction (view c)) (view u5) \<and> live u6"
    by (rule transaction_store.populate_undo_view [OF s6 conjunct2 [OF v5]]) (use ok u v1 v2 v3 v4 v5 in \<open>simp_all add: overlay_def\<close>)
  have v7: "view u7 = v_slot_update (\<lambda>_. v_slot (view c)) (view u6) \<and> live u7"
    by (rule slot_store.populate_undo_view [OF s7 conjunct2 [OF v6]]) (use ok u v1 v2 v3 v4 v5 v6 in \<open>simp_all add: overlay_def\<close>)
  have v8: "view u8 = v_contract_update (\<lambda>_. v_contract (view c)) (view u7) \<and> live u8"
    by (rule contract_store.populate_undo_view [OF s8 conjunct2 [OF v7]]) (use ok u v1 v2 v3 v4 v5 v6 v7 in \<open>simp_all add: overlay_def\<close>)
  have v9: "view u9 = view u8 \<and> live u9"
    using storage_populate_view [OF s9] v8 by simp
  have v10: "view u10 = v_result_update (\<lambda>_. v_result (view c)) (view u9) \<and> live u10"
    by (rule result_store.populate_undo_view [OF s10 conjunct2 [OF v9]]) (use ok u v1 v2 v3 v4 v5 v6 v7 v8 v9 in \<open>simp_all add: overlay_def\<close>)
  have v11: "view u11 = v_request_update (\<lambda>_. v_request (view c)) (view u10) \<and> live u11"
    by (rule request_store.populate_undo_view [OF s11 conjunct2 [OF v10]]) (use ok u v1 v2 v3 v4 v5 v6 v7 v8 v9 v10 in \<open>simp_all add: overlay_def\<close>)
  have v12: "view u12 = v_intrx_update (\<lambda>_. v_intrx (view c)) (view u11) \<and> live u12"
    by (rule intrx_store.populate_undo_view [OF s12 conjunct2 [OF v11]]) (use ok u v1 v2 v3 v4 v5 v6 v7 v8 v9 v10 v11 in \<open>simp_all add: overlay_def\<close>)
  have v13: "view u' = v_contrx_update (\<lambda>_. v_contrx (view c)) (view u12) \<and> live u'"
    by (rule contrx_store.populate_undo_view [OF s13 conjunct2 [OF v12]]) (use ok u v1 v2 v3 v4 v5 v6 v7 v8 v9 v10 v11 v12 in \<open>simp_all add: overlay_def\<close>)
  have "view u' = view c"
    by (rule view.equality, simp_all only: conjunct1 [OF v1] conjunct1 [OF v2] conjunct1 [OF v3] conjunct1 [OF v4] conjunct1 [OF v5] conjunct1 [OF v6] conjunct1 [OF v7] conjunct1 [OF v8] conjunct1 [OF v9] conjunct1 [OF v10] conjunct1 [OF v11] conjunct1 [OF v12] conjunct1 [OF v13]
      view.simps view.update_convs view.select_convs u overlay_def) simp
  with get_undo_state_keeps [OF assms(1)] v13 show ?thesis by simp
qed

lemma keeps_apply:
  assumes "apply_entrys store remove sm rs c = Inr c'"
    and "\<And>k v a b. store k v a = Inr b \<Longrightarrow> keeps E a b"
    and "\<And>k a b. remove k a = Inr b \<Longrightarrow> keeps E a b"
  shows "keeps E c c'"
proof -
  from assms(1) obtain c1 where r: "efold remove rs c = Inr c1"
    and s: "efold (\<lambda>(k, v). store k v) sm c1 = Inr c'"
    by (auto simp: apply_entrys_def)
  have "keeps E c c1" by (rule keeps_efold [OF r assms(3)])
  moreover have "keeps E c1 c'" by (rule keeps_efold [OF s]) (auto intro: assms(2))
  ultimately show ?thesis by (rule keeps_trans)
qed

lemma apply_changes_keeps: "apply_changes E p c = Inr c' \<Longrightarrow> keeps E c c'"
  unfolding apply_changes_def
  by (cases "live c", simp_all only: if_True if_False not_True_eq_False not_False_eq_True)
    ((erule keeps_ebind keeps_apply entry_keeps)+, simp)

section \<open>Properties\<close>



lemma sample_chain_ok: "chain_ok sample_env (Pending sample_pending (Database sample_db))"
  by (simp add: eval_simps chain_ok_defs smap_ok_def)

lemma sample_commit:
  "\<exists>post U below r.
     apply_changes sample_env sample_pending (Database sample_db) = Inr post \<and>
     get_undo_state sample_env sample_pending (Database sample_db)
       (Pending new_pending (Pending sample_pending (Database sample_db))) = Inr (Pending U below) \<and>
     apply_changes sample_env U post = Inr r"
  by (simp add: apply_changes_def apply_entrys_def get_undo_state_def populate_undo_state_def
      eval_simps)



text \<open>
  C31 (safety, a flaw). The undo of contract storage is incomplete: there is a state with a
  contract that has no storage yet, and a block that writes its first storage, such that
  after committing the block and applying its undo state the contract still has the storage.
  \<open>contractstorage_erase_from_id_map\<close> of an overlay does not record the removal.
\<close>

theorem undo_leaves_contract_storage:
  "\<exists>E p d post U below r.
     chain_ok E (Pending p (Database d)) \<and>
     apply_changes E p (Database d) = Inr post \<and>
     get_undo_state E p (Database d) (Pending new_pending (Pending p (Database d))) =
       Inr (Pending U below) \<and>
     apply_changes E U post = Inr r \<and>
     contractstorage_lookup_by_id (Database d) 77 = None \<and>
     contractstorage_lookup_by_id r 77 \<noteq> None"
proof -
  define con where "con = \<lparr>con_contract_name = [], con_id = 77, con_level = temp, con_owner = 1,
    con_state = contract_valid, con_description = [],
    con_code = \<lparr>code_abi = [], code_offline_abi = [], code_events = [],
      code_storage_properties = [], code_byte_code = [], code_hash = []\<rparr>,
    con_reserved = None, con_trx_id = 0, con_register_time = 0\<rparr>"
  define d where "d = sample_db\<lparr>db_contract_id_to_entry := [(77, con)]\<rparr>"
  define p where "p = new_pending\<lparr>p_contract_id_to_storage :=
    [(77, \<lparr>cst_id = 77, cst_contract_storages = [(''x'', storage_int 1)]\<rparr>)]\<rparr>"
  have ok: "chain_ok sample_env (Pending p (Database d))"
    by (simp add: d_def p_def eval_simps chain_ok_defs smap_ok_def)
  have "\<exists>post U below r.
     apply_changes sample_env p (Database d) = Inr post \<and>
     get_undo_state sample_env p (Database d) (Pending new_pending (Pending p (Database d))) =
       Inr (Pending U below) \<and>
     apply_changes sample_env U post = Inr r \<and>
     contractstorage_lookup_by_id (Database d) 77 = None \<and>
     contractstorage_lookup_by_id r 77 \<noteq> None"
    by (simp add: d_def p_def apply_changes_def apply_entrys_def get_undo_state_def
        populate_undo_state_def eval_simps)
  with ok show ?thesis by blast
qed

end
