(* ===== verification/Transactions.thy ===== *)
theory Transactions
  imports Entries
begin

text \<open>
  \<open>Transaction.cpp\<close>: the builders that append operations to a transaction, the id of a signed
  transaction, and the shape check \<open>check_operations_legality\<close> that every evaluation starts
  with.
\<close>

section \<open>Field updates\<close>

fun set_operations :: "Operation list \<Rightarrow> SignedTransaction \<Rightarrow> SignedTransaction" where
  "set_operations ops (SignedTransaction ex rs al im _ rt ri sg) =
     SignedTransaction ex rs al im ops rt ri sg"

fun set_expiration :: "time \<Rightarrow> SignedTransaction \<Rightarrow> SignedTransaction" where
  "set_expiration ex (SignedTransaction _ rs al im ops rt ri sg) =
     SignedTransaction ex rs al im ops rt ri sg"

fun set_result :: "nat \<Rightarrow> trx_id \<Rightarrow> SignedTransaction \<Rightarrow> SignedTransaction" where
  "set_result rt ri (SignedTransaction ex rs al im ops _ _ sg) =
     SignedTransaction ex rs al im ops rt ri sg"

lemma trx_field_updates [simp]:
  "operations (set_operations ops t) = ops" "operations (set_expiration ex t) = operations t"
  "operations (set_result rt ri t) = operations t"
  "expiration (set_operations ops t) = expiration t" "expiration (set_expiration ex t) = ex"
  "expiration (set_result rt ri t) = expiration t"
  "result_trx_type (set_result rt ri t) = rt" "result_trx_id (set_result rt ri t) = ri"
  "result_trx_type (set_operations ops t) = result_trx_type t"
  "result_trx_id (set_operations ops t) = result_trx_id t"
  "signatures (set_operations ops t) = signatures t"
  "set_operations ops (set_operations ops' t) = set_operations ops t"
  by (cases t; simp)+

text \<open>\<open>SignedTransaction()\<close>.\<close>

definition empty_transaction :: SignedTransaction where
  "empty_transaction =
     SignedTransaction 0 None [] (mk_Asset 0 0) [] origin_transaction 0 []"

text \<open>The id does not depend on the result fields: they are reset before hashing.\<close>

definition trx_id :: "env \<Rightarrow> SignedTransaction \<Rightarrow> trx_id" where
  "trx_id E t = trx_hash_id E (set_result origin_transaction 0 t)"

lemma trx_id_set_result [simp]: "trx_id E (set_result rt ri t) = trx_id E t"
  by (cases t) (simp add: trx_id_def)

section \<open>Builders\<close>

definition push_operation :: "Operation \<Rightarrow> SignedTransaction \<Rightarrow> SignedTransaction" where
  "push_operation op t = set_operations (operations t @ [op]) t"

definition push_transaction :: "SignedTransaction \<Rightarrow> SignedTransaction \<Rightarrow> SignedTransaction" where
  "push_transaction trx t = push_operation (transaction_op trx) t"

definition push_storage_operation :: "StorageOperation \<Rightarrow> SignedTransaction \<Rightarrow> SignedTransaction" where
  "push_storage_operation op t = push_operation (storage_op op) t"

definition push_event_operation :: "EventOperation \<Rightarrow> SignedTransaction \<Rightarrow> SignedTransaction" where
  "push_event_operation op t = push_operation (event_op op) t"

definition push_balances_withdraw_operation ::
  "BalancesWithdrawOperation \<Rightarrow> SignedTransaction \<Rightarrow> SignedTransaction" where
  "push_balances_withdraw_operation op t = push_operation (balances_withdraw_op op) t"

text \<open>\<open>slate\<close> is a \<open>std::set\<close>, here the list of its elements in order.\<close>

definition define_slate :: "account_id list \<Rightarrow> SignedTransaction \<Rightarrow> SignedTransaction" where
  "define_slate slate t = set_operations (define_slate_op \<lparr>ds_slate = slate\<rparr> # operations t) t"

definition withdraw :: "address \<Rightarrow> share \<Rightarrow> SignedTransaction \<Rightarrow> SignedTransaction result" where
  "withdraw account amnt t =
     ebind (ensure (amnt > 0) assert_exception) (\<lambda>_.
       Inr (push_operation (withdraw_op \<lparr>wd_balance_id = account, wd_amount = amnt,
              wd_claim_input_data = []\<rparr>) t))"

definition trx_withdraw_from_contract ::
  "address \<Rightarrow> share \<Rightarrow> address \<Rightarrow> SignedTransaction \<Rightarrow> SignedTransaction result" where
  "trx_withdraw_from_contract account amnt contract_id t =
     ebind (ensure (amnt > 0) assert_exception) (\<lambda>_.
       Inr (push_operation (withdraw_contract_op \<lparr>wc_balance_id = account, wc_amount = amnt,
              wc_contract = contract_id\<rparr>) t))"

definition withdraw_pay :: "account_id \<Rightarrow> share \<Rightarrow> SignedTransaction \<Rightarrow> SignedTransaction result" where
  "withdraw_pay account amnt t =
     ebind (ensure (amnt > 0) assert_exception) (\<lambda>_.
       Inr (push_operation (withdraw_pay_op \<lparr>wp_amount = amnt, wp_account_id = account\<rparr>) t))"

text \<open>The constructor \<open>DepositOperation(owner, amnt, slate_id)\<close>.\<close>

definition mk_DepositOperation :: "address \<Rightarrow> Asset \<Rightarrow> slate_id \<Rightarrow> DepositOperation result" where
  "mk_DepositOperation ow amnt sid =
     ebind (ensure (amount amnt > 0) assert_exception) (\<lambda>_.
       Inr \<lparr>dep_amount = amount amnt,
            dep_condition = signature_condition ow (asset_of amnt) sid withdraw_common_type\<rparr>)"

definition deposit :: "address \<Rightarrow> Asset \<Rightarrow> SignedTransaction \<Rightarrow> SignedTransaction result" where
  "deposit ow amnt t =
     ebind (ensure (amount amnt > 0) assert_exception) (\<lambda>_.
     ebind (mk_DepositOperation ow amnt 0) (\<lambda>op. Inr (push_operation (deposit_op op) t)))"

definition deposit_multisig ::
  "MultisigMetaInfo \<Rightarrow> Asset \<Rightarrow> SignedTransaction \<Rightarrow> SignedTransaction result" where
  "deposit_multisig info amnt t =
     ebind (ensure (amount amnt > 0) assert_exception) (\<lambda>_.
       Inr (push_operation (deposit_op \<lparr>dep_amount = amount amnt,
              dep_condition = \<lparr>cond_asset_id = asset_of amnt, cond_slate_id = 0,
                cond_type = withdraw_multisig_type, cond_balance_type = withdraw_common_type,
                cond_data = data_multisig \<lparr>msig_required = mm_required info,
                  msig_owners = mm_owners info, msig_memo = None\<rparr>\<rparr>\<rparr>) t))"

definition register_account ::
  "string \<Rightarrow> variant \<Rightarrow> public_key \<Rightarrow> public_key \<Rightarrow> nat \<Rightarrow> AccountMetaInfo option \<Rightarrow>
     SignedTransaction \<Rightarrow> SignedTransaction" where
  "register_account name public_data master active pay_rt info t =
     push_operation (register_account_op \<lparr>ra_name = name, ra_public_data = public_data,
       ra_owner_key = master, ra_active_key = active, ra_delegate_pay_rate = pay_rt,
       ra_meta_data = info\<rparr>) t"

definition update_account ::
  "account_id \<Rightarrow> nat \<Rightarrow> variant option \<Rightarrow> public_key option \<Rightarrow> SignedTransaction \<Rightarrow>
     SignedTransaction" where
  "update_account account_id delegate_pay_rt public_data active t =
     push_operation (update_account_op \<lparr>ua_account_id = account_id, ua_public_data = public_data,
       ua_active_key = active, ua_delegate_pay_rate = delegate_pay_rt\<rparr>) t"

definition create_asset ::
  "string \<Rightarrow> string \<Rightarrow> string \<Rightarrow> variant \<Rightarrow> account_id \<Rightarrow> share \<Rightarrow> nat \<Rightarrow> SignedTransaction \<Rightarrow>
     SignedTransaction result" where
  "create_asset symbol name description data issuer_id max_share_supply precision t =
     ebind (ensure (max_share_supply > 0) assert_exception) (\<lambda>_.
     ebind (ensure (max_share_supply \<le> ALP_BLOCKCHAIN_MAX_SHARES) assert_exception) (\<lambda>_.
       Inr (push_operation (create_asset_op \<lparr>ca_symbol = symbol, ca_name = name,
              ca_description = description, ca_public_data = data,
              ca_issuer_account_id = issuer_id, ca_maximum_share_supply = max_share_supply,
              ca_precision = precision\<rparr>) t)))"

definition call_contract ::
  "address \<Rightarrow> string \<Rightarrow> string \<Rightarrow> public_key \<Rightarrow> Asset \<Rightarrow> Asset \<Rightarrow> (address \<times> share) list \<Rightarrow>
     SignedTransaction \<Rightarrow> SignedTransaction" where
  "call_contract contract method arguments caller costlimit fee balances t =
     push_operation (call_contract_op \<lparr>cc_caller = caller, cc_balances = balances,
       cc_contract = contract, cc_costlimit = costlimit, cc_transaction_fee = fee,
       cc_method = method, cc_args = arguments\<rparr>) t"

definition issue :: "Asset \<Rightarrow> SignedTransaction \<Rightarrow> SignedTransaction" where
  "issue amnt t = push_operation (issue_asset_op amnt) t"

definition update_signing_key ::
  "account_id \<Rightarrow> public_key \<Rightarrow> SignedTransaction \<Rightarrow> SignedTransaction" where
  "update_signing_key account key t =
     push_operation (update_signing_key_op \<lparr>usk_account_id = account, usk_signing_key = key\<rparr>) t"

definition update_balance_vote ::
  "address \<Rightarrow> address option \<Rightarrow> SignedTransaction \<Rightarrow> SignedTransaction" where
  "update_balance_vote bid new_owner t =
     push_operation (update_balance_vote_op \<lparr>ubv_balance_id = bid,
       ubv_new_restricted_owner = new_owner, ubv_new_slate = 0\<rparr>) t"

definition set_slate :: "slate_id \<Rightarrow> Operation \<Rightarrow> Operation" where
  "set_slate sid op = (case op of
       deposit_op d \<Rightarrow>
         if cond_asset_id (dep_condition d) = 0
         then deposit_op (d\<lparr>dep_condition := (dep_condition d)\<lparr>cond_slate_id := sid\<rparr>\<rparr>) else op
     | update_balance_vote_op u \<Rightarrow> update_balance_vote_op (u\<lparr>ubv_new_slate := sid\<rparr>)
     | _ \<Rightarrow> op)"

definition set_slates :: "slate_id \<Rightarrow> SignedTransaction \<Rightarrow> SignedTransaction" where
  "set_slates sid t = set_operations (map (set_slate sid) (operations t)) t"

definition AddtionImessage :: "string \<Rightarrow> SignedTransaction \<Rightarrow> SignedTransaction" where
  "AddtionImessage imessage t = push_operation (imessage_memo_op imessage) t"

definition upgrade_contract ::
  "address \<Rightarrow> string \<Rightarrow> string \<Rightarrow> Asset \<Rightarrow> Asset \<Rightarrow> (address \<times> share) list \<Rightarrow>
     SignedTransaction \<Rightarrow> SignedTransaction" where
  "upgrade_contract contract name desc execlimit fee balances t =
     push_operation (upgrade_contract_op \<lparr>uc_id = contract, uc_name = name, uc_desc = desc,
       uc_exec_limit = execlimit, uc_transaction_fee = fee, uc_balances = balances\<rparr>) t"

definition destroy_contract ::
  "address \<Rightarrow> Asset \<Rightarrow> Asset \<Rightarrow> (address \<times> share) list \<Rightarrow> SignedTransaction \<Rightarrow> SignedTransaction" where
  "destroy_contract contract exec_limit fee balances t =
     push_operation (destroy_contract_op \<lparr>dst_id = contract, dst_exec_limit = exec_limit,
       dst_transaction_fee = fee, dst_balances = balances\<rparr>) t"

section \<open>The shape of a legal transaction\<close>

definition is_contract_op_type :: "nat \<Rightarrow> bool" where
  "is_contract_op_type ty \<longleftrightarrow> register_contract_op_type \<le> ty \<and> ty \<le> transfer_contract_op_type"

definition check_operations_legality :: "SignedTransaction \<Rightarrow> bool result" where
  "check_operations_legality t =
     (case operations t of
        [] \<Rightarrow> Inr False
      | first_op # rest \<Rightarrow>
          if (\<exists>op \<in> set (operations t). is_contract_op_type (op_type op)) \<and> rest \<noteq> [] then Inr False
          else if op_type first_op = transaction_op_type then
            (case first_op of
               transaction_op trx \<Rightarrow>
                 Inr (case operations trx of
                        [op] \<Rightarrow> op_type op \<in> {70, 73, 74, 72, 71}
                      | _ \<Rightarrow> False)
             | _ \<Rightarrow> Inl out_of_range_exception)
          else Inr (\<forall>op \<in> set rest. op_type op \<noteq> transaction_op_type))"

lemmas transaction_defs =
  empty_transaction_def trx_id_def push_operation_def push_transaction_def
  push_storage_operation_def push_event_operation_def push_balances_withdraw_operation_def
  define_slate_def withdraw_def trx_withdraw_from_contract_def withdraw_pay_def
  mk_DepositOperation_def deposit_def deposit_multisig_def register_account_def
  update_account_def create_asset_def call_contract_def issue_def update_signing_key_def
  update_balance_vote_def set_slate_def set_slates_def AddtionImessage_def
  upgrade_contract_def destroy_contract_def is_contract_op_type_def
  check_operations_legality_def

declare transaction_defs [eval_simps]

lemma operations_push [simp]: "operations (push_operation op t) = operations t @ [op]"
  by (simp add: push_operation_def)

text \<open>A legal transaction holds a contract operation only as its single operation.\<close>

lemma legal_contract_op_single:
  assumes "check_operations_legality t = Inr True" "op \<in> set (operations t)"
    "is_contract_op_type (op_type op)"
  shows "operations t = [op]"
  using assms by (cases "operations t") (auto simp: check_operations_legality_def split: if_splits)

end
