(* ===== verification/Chain_Interface.thy ===== *)
theory Chain_Interface
  imports Sample_State Transactions
begin

text \<open>
  \<open>ChainInterface.cpp\<close>: the fee and pay schedules, the id counters and flags kept as
  properties, the typed accessors of the entries, and the construction of the result
  transaction of a contract that pays out. \<open>get_chain_id\<close> and \<open>get_statistics_enabled\<close>, which
  cache their value in a function-static variable, are the fields \<open>the_chain_id\<close> and
  \<open>the_statistics_enabled\<close> of the environment; the functions that print prices are not
  modelled.
\<close>

section \<open>Pay and fees\<close>

definition get_genesis_timestamp :: "chain \<Rightarrow> time option" where
  "get_genesis_timestamp c = map_option ast_registration_date (asset_lookup_by_id c 0)"

definition delegate_pay_inc :: "share list" where
  "delegate_pay_inc = [1500000, 1650000, 1815000, 1996000, 2196000, 2415000, 2657000, 2923000,
     3215000, 3536000, 4000000]"

definition get_max_delegate_pay_issued_per_block :: "chain \<Rightarrow> share" where
  "get_max_delegate_pay_issued_per_block c =
     (let head_block_num = get_head_block_num c in
      if head_block_num \<ge> ALP_DELEGATE_PAY_BLOCK_NUM then
        let inc_times = (head_block_num - ALP_DELEGATE_PAY_BLOCK_NUM) div ALP_DELEGATE_PAY_INC_NUM;
            pos = (if inc_times \<ge> 11 then 10 else inc_times)
        in delegate_pay_inc ! pos
      else ALP_MAX_DELEGATE_PAY_PER_BLOCK)"

definition get_delegate_registration_fee :: "chain \<Rightarrow> nat \<Rightarrow> share result" where
  "get_delegate_registration_fee c pay_rt =
     (if pay_rt = 0 then Inr 0
      else
        let blocks_per_two_weeks = 14 * int ALP_BLOCKCHAIN_BLOCKS_PER_DAY;
            max_total_pay = wrap64 (blocks_per_two_weeks * get_max_delegate_pay_issued_per_block c);
            max_pay = cdiv max_total_pay (int ALP_BLOCKCHAIN_NUM_DELEGATES);
            registration_fee = cdiv (wrap64 (max_pay * int pay_rt)) 100
        in ebind (ensure (registration_fee > 0) assert_exception) (\<lambda>_. Inr registration_fee))"

definition get_imessage_need_fee :: "string \<Rightarrow> share" where
  "get_imessage_need_fee imessage =
     (if int (length imessage) < ALP_BLOCKCHAIN_MAX_FREE_MESSAGE_SIZE then 0
      else wrap64 (ALP_BLOCKCHAIN_MIN_MESSAGE_FEE_COE *
                   (int (length imessage) - ALP_BLOCKCHAIN_MAX_FREE_MESSAGE_SIZE)))"

definition get_asset_registration_fee :: "nat \<Rightarrow> share" where
  "get_asset_registration_fee symbol_length = 100000000"

definition get_limit :: "asset_id \<Rightarrow> share \<Rightarrow> int" where
  "get_limit aid amnt = (if aid \<noteq> 0 then 0 else wrap32 (cdiv amnt LIMIT_PRICE))"

definition get_amount :: "share \<Rightarrow> asset_id \<Rightarrow> Asset" where
  "get_amount limit aid = mk_Asset (wrap64 (LIMIT_PRICE * limit)) aid"

definition get_transaction_fee :: Asset where
  "get_transaction_fee = mk_Asset ALP_DEFAULT_TRANSACTION_FEE 0"

definition get_contract_register_fee :: "Code \<Rightarrow> Asset" where
  "get_contract_register_fee code = mk_Asset (int (length (code_byte_code code))) 0"

definition get_default_margin :: Asset where
  "get_default_margin = mk_Asset ALP_DEFAULT_CONTRACT_MARGIN 0"

section \<open>Properties\<close>

definition store_property_entry :: "PropertyIdType \<Rightarrow> property_value \<Rightarrow> chain \<Rightarrow> chain result" where
  "store_property_entry k v c = PropertyEntry_store k \<lparr>prop_id = k, prop_value = v\<rparr> c"

text \<open>\<open>value.as<T>()\<close> of a property that holds another type is a bad cast.\<close>

fun pv_as_int :: "property_value \<Rightarrow> int result" where
  "pv_as_int (pv_int i) = Inr i"
| "pv_as_int _ = Inl bad_cast_exception"

fun pv_as_bool :: "property_value \<Rightarrow> bool result" where
  "pv_as_bool (pv_bool b) = Inr b"
| "pv_as_bool _ = Inl bad_cast_exception"

fun pv_as_ids :: "property_value \<Rightarrow> account_id list result" where
  "pv_as_ids (pv_ids xs) = Inr xs"
| "pv_as_ids _ = Inl bad_cast_exception"

fun pv_as_digest :: "property_value \<Rightarrow> digest result" where
  "pv_as_digest (pv_digest d) = Inr d"
| "pv_as_digest _ = Inl bad_cast_exception"

definition get_last_asset_id :: "chain \<Rightarrow> asset_id result" where
  "get_last_asset_id c =
     ebind (require assert_exception (property_lookup_by_id c last_asset_id))
       (\<lambda>e. pv_as_int (prop_value e))"

definition new_asset_id :: "chain \<Rightarrow> (asset_id \<times> chain) result" where
  "new_asset_id c =
     ebind (get_last_asset_id c) (\<lambda>last.
     let next_id = wrap32 (last + 1) in
     ebind (store_property_entry last_asset_id (pv_int next_id) c) (\<lambda>c'. Inr (next_id, c')))"

definition get_last_account_id :: "chain \<Rightarrow> account_id result" where
  "get_last_account_id c =
     ebind (require assert_exception (property_lookup_by_id c last_account_id))
       (\<lambda>e. pv_as_int (prop_value e))"

definition new_account_id :: "chain \<Rightarrow> (account_id \<times> chain) result" where
  "new_account_id c =
     ebind (get_last_account_id c) (\<lambda>last.
     let next_id = wrap32 (last + 1) in
     ebind (store_property_entry last_account_id (pv_int next_id) c) (\<lambda>c'. Inr (next_id, c')))"

definition get_active_delegates :: "chain \<Rightarrow> account_id list result" where
  "get_active_delegates c =
     ebind (require assert_exception (property_lookup_by_id c active_delegate_list_id))
       (\<lambda>e. pv_as_ids (prop_value e))"

definition set_active_delegates :: "account_id list \<Rightarrow> chain \<Rightarrow> chain result" where
  "set_active_delegates ids c = store_property_entry active_delegate_list_id (pv_ids ids) c"

definition is_active_delegate :: "chain \<Rightarrow> account_id \<Rightarrow> bool result" where
  "is_active_delegate c k = ebind (get_active_delegates c) (\<lambda>ids. Inr (k \<in> set ids))"

definition set_chain_id :: "digest \<Rightarrow> chain \<Rightarrow> chain result" where
  "set_chain_id k c = store_property_entry chain_id (pv_digest k) c"

text \<open>\<open>fc::ripemd160()\<close> is the zero digest.\<close>

definition get_current_random_seed :: "chain \<Rightarrow> digest result" where
  "get_current_random_seed c =
     (case property_lookup_by_id c last_random_seed_id of
        Some e \<Rightarrow> pv_as_digest (prop_value e) | None \<Rightarrow> Inr 0)"

definition set_statistics_enabled :: "bool \<Rightarrow> chain \<Rightarrow> chain result" where
  "set_statistics_enabled b c = store_property_entry statistics_enabled (pv_bool b) c"

definition set_node_vm_enabled :: "bool \<Rightarrow> chain \<Rightarrow> chain result" where
  "set_node_vm_enabled b c = store_property_entry node_vm_enabled (pv_bool b) c"

definition get_node_vm_enabled :: "chain \<Rightarrow> bool result" where
  "get_node_vm_enabled c =
     ebind (require assert_exception (property_lookup_by_id c node_vm_enabled))
       (\<lambda>e. pv_as_bool (prop_value e))"

definition set_required_confirmations :: "int \<Rightarrow> chain \<Rightarrow> chain result" where
  "set_required_confirmations n c = store_property_entry confirmation_requirement (pv_int n) c"

definition get_required_confirmations :: "chain \<Rightarrow> int result" where
  "get_required_confirmations c =
     (case property_lookup_by_id c confirmation_requirement of
        Some e \<Rightarrow> pv_as_int (prop_value e)
      | None \<Rightarrow> Inr (int ALP_BLOCKCHAIN_NUM_DELEGATES * 3))"

section \<open>Entries\<close>

definition store_account_entry :: "env \<Rightarrow> AccountEntry \<Rightarrow> chain \<Rightarrow> chain result" where
  "store_account_entry E e c = AccountEntry_store E (acc_id e) e c"

definition store_asset_entry :: "AssetEntry \<Rightarrow> chain \<Rightarrow> chain result" where
  "store_asset_entry e c = AssetEntry_store (ast_id e) e c"

definition store_slate_entry :: "env \<Rightarrow> SlateEntry \<Rightarrow> chain \<Rightarrow> chain result" where
  "store_slate_entry E e c = SlateEntry_store (slate_entry_id E e) e c"

definition store_balance_entry :: "env \<Rightarrow> BalanceEntry \<Rightarrow> chain \<Rightarrow> chain result" where
  "store_balance_entry E e c = BalanceEntry_store (balance_id E e) e c"

definition store_slot_entry :: "env \<Rightarrow> SlotEntry \<Rightarrow> chain \<Rightarrow> chain result" where
  "store_slot_entry E e c = SlotEntry_store E (slot_index e) e c"

definition store_contract_entry :: "ContractEntry \<Rightarrow> chain \<Rightarrow> chain result" where
  "store_contract_entry e c = ContractEntry_store (con_id e) e c"

definition remove_contract_entry :: "address \<Rightarrow> chain \<Rightarrow> chain result" where
  "remove_contract_entry k c = ContractEntry_remove k c"

definition store_contractstorage_entry :: "ContractStorageEntry \<Rightarrow> chain \<Rightarrow> chain result" where
  "store_contractstorage_entry e c = ContractStorageEntry_store (cst_id e) e c"

definition remove_contractstorage_entry :: "address \<Rightarrow> chain \<Rightarrow> chain result" where
  "remove_contractstorage_entry k c = ContractStorageEntry_remove k c"

definition is_destroyed_contract :: "ContractState \<Rightarrow> bool" where
  "is_destroyed_contract s \<longleftrightarrow> s = contract_deleted"

definition is_temporary_contract :: "ContractLevel \<Rightarrow> bool" where
  "is_temporary_contract l \<longleftrightarrow> l = temp"

definition is_valid_symbol :: "chain \<Rightarrow> string \<Rightarrow> bool result" where
  "is_valid_symbol c symbol = ebind (asset_lookup_by_symbol c symbol) (\<lambda>e. Inr (e \<noteq> None))"

section \<open>Payments out of a contract\<close>

definition get_balanceid :: "env \<Rightarrow> address \<Rightarrow> nat \<Rightarrow> address" where
  "get_balanceid E contract_address balance_type =
     cond_address E (signature_condition contract_address 0 0 balance_type)"

text \<open>
  The search loop: the index and amount of the first withdrawal from \<open>bid\<close>. The comparison
  of \<open>used\<close> with \<open>amount\<close> after it compares two zeros, since the loop is left when the
  amount is set.
\<close>

fun find_withdrawal ::
  "address \<Rightarrow> nat \<Rightarrow> Operation list \<Rightarrow> (nat \<times> WithdrawContractOperation) option result" where
  "find_withdrawal bid i [] = Inr None"
| "find_withdrawal bid i (op # ops) =
     (if op_type op = withdraw_contract_op_type then
        (case op of
           withdraw_contract_op w \<Rightarrow>
             if wc_balance_id w = bid then Inr (Some (i, w)) else find_withdrawal bid (Suc i) ops
         | _ \<Rightarrow> Inl out_of_range_exception)
      else find_withdrawal bid (Suc i) ops)"

definition withdraw_from_contract ::
  "env \<Rightarrow> chain \<Rightarrow> Asset \<Rightarrow> address \<Rightarrow> SignedTransaction \<Rightarrow> SignedTransaction result" where
  "withdraw_from_contract E c amount_to_withdraw from_contract trx =
     (let bid = get_balanceid E from_contract withdraw_contract_type in
      ebind (require unknown_balance_entry (balance_lookup_by_id c bid)) (\<lambda>balance_entry.
      ebind (find_withdrawal bid 0 (operations trx)) (\<lambda>found.
      let used = (case found of None \<Rightarrow> 0 | Some (i, w) \<Rightarrow> wc_amount w);
          total = wrap64 (amount amount_to_withdraw + used)
      in if amount (get_spendable_balance balance_entry (now E c)) \<ge> total then
           (case found of
              None \<Rightarrow> trx_withdraw_from_contract bid (amount amount_to_withdraw) from_contract trx
            | Some (i, w) \<Rightarrow>
                Inr (set_operations
                       ((operations trx)[i := withdraw_contract_op (w\<lparr>wc_amount := total\<rparr>)]) trx))
         else Inl insufficient_funds)))"

definition transfer_asset_from_contract ::
  "env \<Rightarrow> chain \<Rightarrow> share \<Rightarrow> string \<Rightarrow> address \<Rightarrow> address \<Rightarrow> SignedTransaction \<Rightarrow>
     SignedTransaction result" where
  "transfer_asset_from_contract E c real_amount symbol from_contract to_account trx =
     ebind (asset_lookup_by_symbol c symbol) (\<lambda>asset_rec.
     case asset_rec of
       None \<Rightarrow> Inl invalid_asset_symbol
     | Some a \<Rightarrow>
         if ast_id a \<noteq> 0 then Inl invalid_asset_symbol
         else
           let asset_to_transfer = mk_Asset real_amount (ast_id a) in
           ebind (withdraw_from_contract E c asset_to_transfer from_contract trx) (\<lambda>trx1.
             deposit to_account asset_to_transfer trx1))"

definition transfer_asset_from_contract_by_name ::
  "env \<Rightarrow> chain \<Rightarrow> share \<Rightarrow> string \<Rightarrow> address \<Rightarrow> string \<Rightarrow> SignedTransaction \<Rightarrow>
     SignedTransaction result" where
  "transfer_asset_from_contract_by_name E c real_amount symbol from_contract to_name trx =
     ebind (account_lookup_by_name c to_name) (\<lambda>o_entry.
     ebind (require unknown_account_name o_entry) (\<lambda>account_entry.
       transfer_asset_from_contract E c real_amount symbol from_contract
         (owner_address E account_entry) trx))"

lemmas chain_interface_defs =
  get_genesis_timestamp_def delegate_pay_inc_def get_max_delegate_pay_issued_per_block_def
  get_delegate_registration_fee_def get_imessage_need_fee_def get_asset_registration_fee_def
  get_limit_def get_amount_def get_transaction_fee_def get_contract_register_fee_def
  get_default_margin_def store_property_entry_def get_last_asset_id_def new_asset_id_def
  get_last_account_id_def new_account_id_def get_active_delegates_def set_active_delegates_def
  is_active_delegate_def set_chain_id_def get_current_random_seed_def
  set_statistics_enabled_def set_node_vm_enabled_def get_node_vm_enabled_def
  set_required_confirmations_def get_required_confirmations_def store_account_entry_def
  store_asset_entry_def store_slate_entry_def store_balance_entry_def store_slot_entry_def
  store_contract_entry_def remove_contract_entry_def store_contractstorage_entry_def
  remove_contractstorage_entry_def is_destroyed_contract_def is_temporary_contract_def
  is_valid_symbol_def get_balanceid_def withdraw_from_contract_def
  transfer_asset_from_contract_def transfer_asset_from_contract_by_name_def

declare chain_interface_defs [eval_simps]

end
