(* ===== verification/Eval_State.thy ===== *)
theory Eval_State
  imports Chain_Interface
begin

text \<open>
  The state of one transaction's evaluation and the member functions of
  \<open>TransactionEvaluationState.cpp\<close> that the operations call: signature checks, the
  transaction's own balance, vote deltas, fees and the final accounting \<open>post_evaluate\<close>. The
  state extends the reflected fields (theory \<open>Chain_Types\<close>) by the working fields; the chain
  state that \<open>_current_state\<close> points to is its field \<open>cur\<close>.
\<close>

section \<open>The state\<close>

record eval_state = eval_data +
  cur :: chain
  skip_signature_check :: bool
  enforce_canonical_signatures :: bool
  skip_vote_adjustment :: bool
  max_fee :: "(asset_id \<times> share) list"
  evaluate_contract_testing :: bool
  p_result_trx :: SignedTransaction
  current_op_index :: nat
  throw_exec_exception :: bool
  exec_cost :: Asset
  contract_operator :: public_key
  evaluate_contract_result :: bool
  event_vector :: "EventOperation list"
  contract_balance_remain :: share
  withdrawed_contract_balance :: "address list"
  owner_balance_not_usedup :: "address list"
  deposit_address :: "address list"
  deposit_count :: int

text \<open>
  The constructor \<open>TransactionEvaluationState(current_state)\<close>. It leaves \<open>skipexec\<close>, which its
  callers set next, without a value: the model takes it as an argument.
\<close>

definition new_eval_state :: "env \<Rightarrow> chain \<Rightarrow> bool \<Rightarrow> eval_state" where
  "new_eval_state E c skip_exec =
     \<lparr>es_trx = empty_transaction, es_signed_keys = [], es_validation_error = None,
      es_deposits = [], es_withdraws = [], es_yield = [], es_deltas = [],
      es_required_fees = mk_Asset 0 0, es_alt_fees_paid = mk_Asset 0 0, es_balance = [],
      es_delegate_vote_deltas = [], es_imessage_length = 0, es_skipexec = skip_exec,
      cur = c, skip_signature_check = False, enforce_canonical_signatures = False,
      skip_vote_adjustment = False, max_fee = [], evaluate_contract_testing = False,
      p_result_trx = empty_transaction, current_op_index = 0, throw_exec_exception = False,
      exec_cost = mk_Asset 0 0, contract_operator = null_key E, evaluate_contract_result = False,
      event_vector = [], contract_balance_remain = 0, withdrawed_contract_balance = [],
      owner_balance_not_usedup = [], deposit_address = [], deposit_count = 0\<rparr>"

text \<open>\<open>TransactionEntry(TransactionLocation(), *this)\<close>: the reflected part of the state.\<close>

definition to_entry :: "eval_state \<Rightarrow> TransactionEntry" where
  "to_entry s = eval_data.extend (eval_data.truncate s)
     (TransactionEntry.fields \<lparr>loc_block_num = 0, loc_trx_num = 0\<rparr>)"

section \<open>Signatures\<close>

definition check_signature :: "eval_state \<Rightarrow> address \<Rightarrow> bool" where
  "check_signature s a \<longleftrightarrow> skip_signature_check s \<or> a \<in> set (es_signed_keys s)"

text \<open>The counter is a \<open>uint32_t\<close>; the owners are a \<open>std::set\<close>.\<close>

definition count_signatures :: "eval_state \<Rightarrow> address list \<Rightarrow> nat" where
  "count_signatures s owners = length (filter (check_signature s) owners) mod 2 ^ 32"

definition verify_authority :: "eval_state \<Rightarrow> MultisigMetaInfo \<Rightarrow> bool" where
  "verify_authority s siginfo \<longleftrightarrow> mm_required siginfo \<le> count_signatures s (mm_owners siginfo)"

definition account_has_signed :: "env \<Rightarrow> eval_state \<Rightarrow> AccountEntry \<Rightarrow> bool result" where
  "account_has_signed E s entry =
     ebind (is_retracted E entry) (\<lambda>retracted.
     if retracted then Inr False
     else
       ebind (active_key entry) (\<lambda>key.
         Inr (check_signature s (key_address E key) \<or>
              check_signature s (key_address E (acc_owner_key entry)))))"

definition check_multisig :: "eval_state \<Rightarrow> nat \<Rightarrow> address list \<Rightarrow> bool" where
  "check_multisig s required_sigs owners \<longleftrightarrow> required_sigs \<le> count_signatures s owners"

text \<open>The five addresses a recovered key can stand for.\<close>

definition signed_addresses :: "env \<Rightarrow> public_key \<Rightarrow> address list" where
  "signed_addresses E key =
     [key_address E key, pts_address E key False 56, pts_address E key True 56,
      pts_address E key False 0, pts_address E key True 0]"

definition add_signature :: "env \<Rightarrow> digest \<Rightarrow> nat \<Rightarrow> eval_state \<Rightarrow> eval_state result" where
  "add_signature E digest sig s =
     ebind (recover_key E sig digest (enforce_canonical_signatures s)) (\<lambda>key.
       Inr (s\<lparr>es_signed_keys := fold sset_insert (signed_addresses E key) (es_signed_keys s)\<rparr>))"

subsection \<open>The signature check of a block\<close>

text \<open>
  \<open>transaction_entry_analy\<close> collects the entries whose owners must have signed. It walks the
  operations of the member \<open>trx\<close>; its argument \<open>trx_arg\<close> is not read. The result is the
  returned flag and the two vectors.
\<close>

definition push_balances ::
  "chain \<Rightarrow> (address \<times> share) list \<Rightarrow> BalanceEntry list \<Rightarrow> bool \<times> BalanceEntry list" where
  "push_balances c bs all =
     (if \<forall>b \<in> set bs. balance_lookup_by_id c (fst b) \<noteq> None
      then (True, all @ map (\<lambda>b. the (balance_lookup_by_id c (fst b))) bs)
      else (False, all @ map (\<lambda>b. the (balance_lookup_by_id c (fst b)))
                         (takeWhile (\<lambda>b. balance_lookup_by_id c (fst b) \<noteq> None) bs)))"

fun entry_analy ::
  "chain \<Rightarrow> Operation list \<Rightarrow> BalanceEntry list \<Rightarrow> AccountEntry list \<Rightarrow>
     (bool \<times> BalanceEntry list \<times> AccountEntry list) result" where
  "entry_analy c [] bs acs = Inr (True, bs, acs)"
| "entry_analy c (op # ops) bs acs =
     (case op of
        withdraw_op w \<Rightarrow>
          (case push_balances c [(wd_balance_id w, 0)] bs of
             (True, bs') \<Rightarrow> entry_analy c ops bs' acs | (False, bs') \<Rightarrow> Inr (False, bs', acs))
      | withdraw_pay_op w \<Rightarrow>
          (case account_lookup_by_id c (wrap32 \<bar>wp_account_id w\<bar>) of
             None \<Rightarrow> Inr (False, bs, acs)
           | Some a \<Rightarrow> if is_delegate a then entry_analy c ops bs (acs @ [a])
                       else Inr (False, bs, acs))
      | register_contract_op r \<Rightarrow>
          (case push_balances c (rc_balances r) bs of
             (True, bs') \<Rightarrow> entry_analy c ops bs' acs | (False, bs') \<Rightarrow> Inr (False, bs', acs))
      | call_contract_op r \<Rightarrow>
          (case push_balances c (cc_balances r) bs of
             (True, bs') \<Rightarrow> entry_analy c ops bs' acs | (False, bs') \<Rightarrow> Inr (False, bs', acs))
      | transfer_contract_op r \<Rightarrow>
          (case push_balances c (tc_balances r) bs of
             (True, bs') \<Rightarrow> entry_analy c ops bs' acs | (False, bs') \<Rightarrow> Inr (False, bs', acs))
      | upgrade_contract_op r \<Rightarrow>
          (case push_balances c (uc_balances r) bs of
             (True, bs') \<Rightarrow> entry_analy c ops bs' acs | (False, bs') \<Rightarrow> Inr (False, bs', acs))
      | destroy_contract_op r \<Rightarrow>
          (case push_balances c (dst_balances r) bs of
             (True, bs') \<Rightarrow> entry_analy c ops bs' acs | (False, bs') \<Rightarrow> Inr (False, bs', acs))
      | raw_op ty \<Rightarrow>
          if ty \<in> {1, 5, 70, 71, 72, 73, 74} then Inl out_of_range_exception
          else entry_analy c ops bs acs
      | _ \<Rightarrow> entry_analy c ops bs acs)"

definition transaction_entry_analy ::
  "SignedTransaction \<Rightarrow> eval_state \<Rightarrow> (bool \<times> BalanceEntry list \<times> AccountEntry list) result" where
  "transaction_entry_analy trx_arg s = entry_analy (cur s) (operations (es_trx s)) [] []"

definition balance_has_signed :: "eval_state \<Rightarrow> BalanceEntry \<Rightarrow> bool result" where
  "balance_has_signed s b =
     (let cond = bal_condition b in
      if cond_type cond = withdraw_signature_type then
        ebind (as_WithdrawWithSignature cond) (\<lambda>d. Inr (check_signature s (sig_owner d)))
      else if cond_type cond = withdraw_multisig_type then
        ebind (as_WithdrawWithMultisig cond) (\<lambda>d.
          Inr (msig_required d \<le> count_signatures s (msig_owners d)))
      else Inr False)"

fun all_signed :: "('a \<Rightarrow> bool result) \<Rightarrow> 'a list \<Rightarrow> bool result" where
  "all_signed f [] = Inr True"
| "all_signed f (x # xs) = ebind (f x) (\<lambda>b. if b then all_signed f xs else Inr False)"

text \<open>The check and the keys it leaves in \<open>signed_keys\<close>.\<close>

definition transaction_signature_check ::
  "env \<Rightarrow> SignedTransaction \<Rightarrow> BalanceEntry list \<Rightarrow> AccountEntry list \<Rightarrow> eval_state \<Rightarrow>
     (bool \<times> eval_state) result" where
  "transaction_signature_check E trx_arg all_balances all_account s =
     ebind (efold (add_signature E (trx_digest E trx_arg (the_chain_id E)))
              (signatures trx_arg) s) (\<lambda>s1.
     ebind (all_signed (balance_has_signed s1) all_balances) (\<lambda>ok1.
     if \<not> ok1 then Inr (False, s1)
     else ebind (all_signed (account_has_signed E s1) all_account) (\<lambda>ok2. Inr (ok2, s1))))"

section \<open>Votes\<close>

definition add_vote_delta :: "share \<Rightarrow> account_id \<Rightarrow> eval_state \<Rightarrow> eval_state result" where
  "add_vote_delta amnt k s =
     ebind (safe_add (smap_get0 (es_delegate_vote_deltas s) k) amnt) (\<lambda>v.
       Inr (s\<lparr>es_delegate_vote_deltas := smap_set k v (es_delegate_vote_deltas s)\<rparr>))"

definition adjust_vote :: "slate_id \<Rightarrow> share \<Rightarrow> eval_state \<Rightarrow> eval_state result" where
  "adjust_vote sid amnt s =
     (if sid = 0 \<or> skip_vote_adjustment s then Inr s
      else case slate_lookup_by_id (cur s) sid of
             None \<Rightarrow> Inl unknown_delegate_slate
           | Some e \<Rightarrow>
               if sl_duplicate_slate e = []
               then efold (add_vote_delta amnt) (filter (\<lambda>k. k \<ge> 0) (sl_slate e)) s
               else efold (add_vote_delta amnt) (sl_duplicate_slate e) s)"

definition update_delegate_vote ::
  "env \<Rightarrow> account_id \<times> share \<Rightarrow> eval_state \<Rightarrow> eval_state result" where
  "update_delegate_vote E item s =
     (case account_lookup_by_id (cur s) (fst item) of
        None \<Rightarrow> Inl assert_exception
      | Some e \<Rightarrow>
          if \<not> is_delegate e then Inl assert_exception
          else ebind (adjust_votes_for e (snd item)) (\<lambda>e'.
               ebind (store_account_entry E e' (cur s)) (\<lambda>c. Inr (s\<lparr>cur := c\<rparr>))))"

definition update_delegate_votes :: "env \<Rightarrow> eval_state \<Rightarrow> eval_state result" where
  "update_delegate_votes E s = efold (update_delegate_vote E) (es_delegate_vote_deltas s) s"

section \<open>The balance of the transaction\<close>

definition get_fees :: "eval_state \<Rightarrow> asset_id \<Rightarrow> share" where
  "get_fees s k = smap_get0 (es_balance s) k"

definition get_delta :: "eval_state \<Rightarrow> asset_id \<Rightarrow> share" where
  "get_delta s k = (case map_of (es_deltas s) (current_op_index s) of
       None \<Rightarrow> 0 | Some m \<Rightarrow> smap_get0 m k)"

definition set_delta :: "asset_id \<Rightarrow> share \<Rightarrow> eval_state \<Rightarrow> eval_state" where
  "set_delta k v s =
     (let m = (case map_of (es_deltas s) (current_op_index s) of None \<Rightarrow> [] | Some m \<Rightarrow> m)
      in s\<lparr>es_deltas := smap_set (current_op_index s) (smap_set k v m) (es_deltas s)\<rparr>)"

definition sub_balance :: "Asset \<Rightarrow> eval_state \<Rightarrow> eval_state result" where
  "sub_balance a s =
     (let k = asset_of a in
      ebind (safe_sub (smap_get0 (es_balance s) k) (amount a)) (\<lambda>balance_t.
      ebind (safe_add (smap_get0 (es_deposits s) k) (amount a)) (\<lambda>deposits_t.
      ebind (safe_add (get_delta s k) (amount a)) (\<lambda>deltas_t.
      Inr (set_delta k deltas_t
             (s\<lparr>es_balance := smap_set k balance_t (es_balance s),
                es_deposits := smap_set k deposits_t (es_deposits s)\<rparr>))))))"

definition add_balance :: "Asset \<Rightarrow> eval_state \<Rightarrow> eval_state result" where
  "add_balance a s =
     (let k = asset_of a in
      ebind (safe_add (smap_get0 (es_balance s) k) (amount a)) (\<lambda>balance_t.
      ebind (safe_add (smap_get0 (es_withdraws s) k) (amount a)) (\<lambda>withdraws_t.
      ebind (safe_sub (get_delta s k) (amount a)) (\<lambda>deltas_t.
      Inr (set_delta k deltas_t
             (s\<lparr>es_balance := smap_set k balance_t (es_balance s),
                es_withdraws := smap_set k withdraws_t (es_withdraws s)\<rparr>))))))"

definition validate_asset :: "Asset \<Rightarrow> eval_state \<Rightarrow> unit result" where
  "validate_asset a s = ensure (asset_lookup_by_id (cur s) (asset_of a) \<noteq> None) unknown_asset_id"

definition scan_deltas :: "nat \<Rightarrow> (Asset \<Rightarrow> bool) \<Rightarrow> eval_state \<Rightarrow> bool" where
  "scan_deltas op_index callback s \<longleftrightarrow>
     (\<exists>item \<in> set (es_deltas s). fst item = op_index \<and>
        (\<exists>d \<in> set (snd item). callback (mk_Asset (snd d) (fst d))))"

section \<open>Fees\<close>

definition validate_required_fee :: "eval_state \<Rightarrow> unit result" where
  "validate_required_fee s =
     ebind (case map_of (es_balance s) 0 of
              None \<Rightarrow> Inr (mk_Asset 0 0)
            | Some b \<Rightarrow> Asset_plus_eq (mk_Asset 0 0) (mk_Asset b 0)) (\<lambda>xts_fees.
     ebind (case map_of (max_fee s) 0 of
              None \<Rightarrow> Inr ()
            | Some mf \<Rightarrow> ensure (amount xts_fees \<le> mf) assert_exception) (\<lambda>_.
     ebind (Asset_plus_eq xts_fees (es_alt_fees_paid s)) (\<lambda>xts_fees.
     ebind (Asset_greater (es_required_fees s) xts_fees) (\<lambda>greater.
       ensure (\<not> greater) insufficient_fee))))"

text \<open>
  The loops of \<open>post_evaluate\<close>: every withdrawn asset is known; no balance is negative and
  every asset with a fee is known; each fee is added to the asset's collected fees; no contract
  balance is overdrawn.
\<close>

definition check_fee :: "asset_id \<times> share \<Rightarrow> eval_state \<Rightarrow> eval_state result" where
  "check_fee fee s =
     (if snd fee < 0 then Inl negative_fee
      else if fst fee = 0 \<or> snd fee = 0 then Inr s
      else if asset_lookup_by_id (cur s) (fst fee) = None then Inl unknown_asset_id
      else Inr s)"

definition collect_fee :: "asset_id \<times> share \<Rightarrow> eval_state \<Rightarrow> eval_state result" where
  "collect_fee fee s =
     (if snd fee < 0 then Inl negative_fee
      else if snd fee > 0 then
        ebind (require unknown_asset_id (asset_lookup_by_id (cur s) (fst fee))) (\<lambda>asset_entry.
        ebind (safe_add (ast_collected_fees asset_entry) (snd fee)) (\<lambda>collected.
        ebind (store_asset_entry (asset_entry\<lparr>ast_collected_fees := collected\<rparr>) (cur s)) (\<lambda>c.
          Inr (s\<lparr>cur := c\<rparr>))))
      else Inr s)"

definition check_contract_balance :: "address \<Rightarrow> eval_state \<Rightarrow> eval_state result" where
  "check_contract_balance k s =
     (case balance_lookup_by_id (cur s) k of
        Some e \<Rightarrow> if bal_balance e \<ge> 0 then Inr s else Inl insufficient_funds
      | None \<Rightarrow> Inl insufficient_funds)"

definition post_evaluate :: "eval_state \<Rightarrow> eval_state result" where
  "post_evaluate s0 =
     ebind (efold (\<lambda>item s. ebind (validate_asset (mk_Asset 0 (fst item)) s) (\<lambda>_. Inr s))
              (es_withdraws s0) s0) (\<lambda>s1.
     let s2 = s1\<lparr>es_balance := (if map_of (es_balance s1) 0 = None
                               then smap_set 0 0 (es_balance s1) else es_balance s1)\<rparr> in
     ebind (efold check_fee (es_balance s2) s2) (\<lambda>s3.
     ebind (efold collect_fee (es_balance s3) s3) (\<lambda>s4.
       efold check_contract_balance (withdrawed_contract_balance s4) s4)))"

lemmas eval_state_defs =
  new_eval_state_def to_entry_def check_signature_def count_signatures_def verify_authority_def
  account_has_signed_def signed_addresses_def add_signature_def add_vote_delta_def
  adjust_vote_def update_delegate_vote_def update_delegate_votes_def get_fees_def
  get_delta_def set_delta_def sub_balance_def add_balance_def validate_asset_def
  check_multisig_def push_balances_def transaction_entry_analy_def balance_has_signed_def
  transaction_signature_check_def
  scan_deltas_def validate_required_fee_def check_fee_def collect_fee_def
  check_contract_balance_def post_evaluate_def

declare eval_state_defs [eval_simps] eval_state.defs [eval_simps] eval_data.defs [eval_simps]

end
