(* ===== verification/Balance_Ops.thy ===== *)
theory Balance_Ops
  imports Eval_State
begin

text \<open>
  \<open>BalanceOperations.cpp\<close>: deposits, withdrawals and the contract counterparts that appear in
  result transactions. Each handler is one function of the evaluation state.
\<close>

definition lift_chain :: "(chain \<Rightarrow> chain result) \<Rightarrow> eval_state \<Rightarrow> eval_state result" where
  "lift_chain f s = ebind (f (cur s)) (\<lambda>c. Inr (s\<lparr>cur := c\<rparr>))"

section \<open>The deposit date\<close>

text \<open>
  The date of a balance is the average of the dates of its deposits, weighted by amount and
  computed in unsigned 128-bit arithmetic; \<open>to_integer\<close> asserts that the average fits in 32
  bits. A negative balance enters as its 128-bit reading.
\<close>

definition average_date :: "env \<Rightarrow> time \<Rightarrow> share \<Rightarrow> time \<Rightarrow> share \<Rightarrow> int \<Rightarrow> time result" where
  "average_date E old bal new amnt divisor =
     (let total = u128 (u128 (int old * u128 bal) + u128 (int new * u128 amnt));
          avg = (if divisor = 0 then u128_div_zero E total else total div divisor)
      in ebind (ensure (avg < 2 ^ 32) assert_exception) (\<lambda>_. Inr (nat avg)))"

definition deposit_date_after :: "env \<Rightarrow> time \<Rightarrow> BalanceEntry \<Rightarrow> share \<Rightarrow> time result" where
  "deposit_date_after E now_t e amnt =
     (if bal_balance e = 0 then Inr now_t
      else average_date E (bal_deposit_date e) (bal_balance e) now_t amnt
             (u128 (u128 (bal_balance e) + u128 amnt)))"

text \<open>\<open>DepositContractOperation\<close> adds the two amounts as \<open>int64_t\<close> before widening them.\<close>

definition contract_deposit_date_after :: "env \<Rightarrow> time \<Rightarrow> BalanceEntry \<Rightarrow> share \<Rightarrow> time result" where
  "contract_deposit_date_after E now_t e amnt =
     (if bal_balance e = 0 then Inr now_t
      else average_date E (bal_deposit_date e) (bal_balance e) now_t amnt
             (u128 (wrap64 (bal_balance e + amnt))))"

section \<open>Deposit\<close>

definition is_deposit_type :: "nat \<Rightarrow> bool" where
  "is_deposit_type ty \<longleftrightarrow>
     ty \<in> {withdraw_signature_type, withdraw_multisig_type, withdraw_escrow_type}"

definition deposit_balance_id :: "env \<Rightarrow> DepositOperation \<Rightarrow> address" where
  "deposit_balance_id E op = cond_address E (dep_condition op)"

text \<open>Every owner may receive one deposit per transaction.\<close>

definition claim_owner :: "address \<Rightarrow> eval_state \<Rightarrow> eval_state result" where
  "claim_owner addr s =
     (if addr \<in> set (deposit_address s) then Inl deposit_to_one_address_twice
      else Inr (s\<lparr>deposit_address := sset_insert addr (deposit_address s)\<rparr>))"

definition vote_if_core :: "BalanceEntry \<Rightarrow> share \<Rightarrow> eval_state \<Rightarrow> eval_state result" where
  "vote_if_core e amnt s =
     (if bal_asset_id e = 0 \<and> bal_slate_id e \<noteq> 0 then adjust_vote (bal_slate_id e) amnt s
      else Inr s)"

definition require_asset :: "asset_id \<Rightarrow> eval_state \<Rightarrow> AssetEntry result" where
  "require_asset k s = require assert_exception (asset_lookup_by_id (cur s) k)"

definition DepositOperation_evaluate ::
  "env \<Rightarrow> DepositOperation \<Rightarrow> eval_state \<Rightarrow> eval_state result" where
  "DepositOperation_evaluate E op s0 =
     (if deposit_count s0 > ALP_BLOCKCHAIN_TRANSACTION_MAX_DEPOSIT_NUM then Inl too_much_deposit
      else
        let s1 = s0\<lparr>deposit_count := deposit_count s0 + 1\<rparr> in
        ebind (ensure (dep_amount op > 0) negative_deposit) (\<lambda>_.
        ebind (ensure (is_deposit_type (cond_type (dep_condition op))) invalid_withdraw_condition) (\<lambda>_.
        let cur_entry = (case balance_lookup_by_id (cur s1) (deposit_balance_id E op) of
                           None \<Rightarrow> new_balance (dep_condition op) | Some e \<Rightarrow> e)
        in
        ebind (condition_owners (bal_condition cur_entry)) (\<lambda>owners.
        ebind (efold claim_owner owners s1) (\<lambda>s2.
        ebind (deposit_date_after E (now E (cur s2)) cur_entry (dep_amount op)) (\<lambda>date.
        ebind (safe_add (bal_balance cur_entry) (dep_amount op)) (\<lambda>new_bal.
        ebind (sub_balance (mk_Asset (dep_amount op) (bal_asset_id cur_entry)) s2) (\<lambda>s3.
        ebind (vote_if_core cur_entry (dep_amount op) s3) (\<lambda>s4.
        ebind (require_asset (bal_asset_id cur_entry) s4) (\<lambda>_.
          lift_chain (store_balance_entry E
            (cur_entry\<lparr>bal_deposit_date := date, bal_balance := new_bal,
               bal_last_update := now E (cur s4)\<rparr>)) s4))))))))))"

section \<open>Withdraw\<close>

text \<open>
  What the owner of a balance must have signed, for a withdrawal the issuer has not
  overridden.
\<close>

definition owner_authorises :: "BalanceEntry \<Rightarrow> eval_state \<Rightarrow> unit result" where
  "owner_authorises e s =
     (let cond = bal_condition e in
      if cond_type cond = withdraw_signature_type then
        ebind (as_WithdrawWithSignature cond) (\<lambda>d.
          ensure (check_signature s (sig_owner d)) missing_signature)
      else if cond_type cond = withdraw_multisig_type then
        ebind (as_WithdrawWithMultisig cond) (\<lambda>d.
          ensure (msig_required d \<le> count_signatures s (msig_owners d)) missing_signature)
      else Inl invalid_withdraw_condition)"

definition issuer_override :: "AssetEntry \<Rightarrow> eval_state \<Rightarrow> bool" where
  "issuer_override a s \<longleftrightarrow> is_retractable a \<and> verify_authority s (ast_authority a)"

definition WithdrawOperation_evaluate ::
  "env \<Rightarrow> WithdrawOperation \<Rightarrow> eval_state \<Rightarrow> eval_state result" where
  "WithdrawOperation_evaluate E op s =
     ebind (ensure (wd_amount op > 0) negative_withdraw) (\<lambda>_.
     ebind (require unknown_balance_entry (balance_lookup_by_id (cur s) (wd_balance_id op))) (\<lambda>e.
     ebind (ensure (wd_amount op \<le> amount (get_spendable_balance e (now E (cur s))))
              insufficient_funds) (\<lambda>_.
     ebind (require_asset (bal_asset_id e) s) (\<lambda>asset_rec.
     ebind (if issuer_override asset_rec s then Inr ()
            else ebind (ensure (\<not> is_balance_frozen asset_rec) assert_exception) (\<lambda>_.
                 owner_authorises e s)) (\<lambda>_.
     ebind (vote_if_core e (wrap64 (- wd_amount op)) s) (\<lambda>s1.
     ebind (safe_sub (bal_balance e) (wd_amount op)) (\<lambda>temp.
     ebind (add_balance (mk_Asset (wd_amount op) (bal_asset_id e)) s1) (\<lambda>s2.
     ebind (condition_owner (bal_condition e)) (\<lambda>owner.
     let s3 = (case owner of
                 Some ow \<Rightarrow>
                   if temp > 0
                   then s2\<lparr>owner_balance_not_usedup := sset_insert ow (owner_balance_not_usedup s2)\<rparr>
                   else s2
               | None \<Rightarrow> s2)
     in lift_chain (store_balance_entry E
          (e\<lparr>bal_balance := temp, bal_last_update := now E (cur s3)\<rparr>)) s3)))))))))"

section \<open>Withdrawals of a result transaction\<close>

text \<open>The null contract id \<open>ContractIdType()\<close> is the zero address.\<close>

definition WithdrawContractOperation_evaluate ::
  "env \<Rightarrow> WithdrawContractOperation \<Rightarrow> eval_state \<Rightarrow> eval_state result" where
  "WithdrawContractOperation_evaluate E op s =
     ebind (ensure (evaluate_contract_result s) in_result_of_execute) (\<lambda>_.
     ebind (ensure (wc_amount op > 0) negative_withdraw) (\<lambda>_.
     let fresh_cond = signature_condition (wc_contract op) 0 0 withdraw_contract_type in
     ebind (case balance_lookup_by_id (cur s) (wc_balance_id op) of
              Some e \<Rightarrow> Inr e
            | None \<Rightarrow>
                if wc_contract op = 0 then Inl unknown_balance_entry
                else ebind (ensure (wc_balance_id op = cond_address E fresh_cond) assert_exception)
                       (\<lambda>_. Inr ((new_balance fresh_cond)\<lparr>bal_deposit_date := now E (cur s),
                                    bal_last_update := now E (cur s)\<rparr>))) (\<lambda>e.
     ebind (ensure (bal_asset_id e = 0) assert_exception) (\<lambda>_.
     ebind (require_asset (bal_asset_id e) s) (\<lambda>_.
     ebind (add_balance (mk_Asset (wc_amount op) (bal_asset_id e)) s) (\<lambda>s1.
     ebind (lift_chain (store_balance_entry E
              (e\<lparr>bal_balance := wrap64 (bal_balance e - wc_amount op),
                 bal_last_update := now E (cur s1)\<rparr>)) s1) (\<lambda>s2.
       Inr (s2\<lparr>withdrawed_contract_balance :=
                 withdrawed_contract_balance s2 @ [wc_balance_id op]\<rparr>))))))))"

definition operator_authorises :: "env \<Rightarrow> BalanceEntry \<Rightarrow> eval_state \<Rightarrow> unit result" where
  "operator_authorises E e s =
     (if cond_type (bal_condition e) = withdraw_signature_type then
        ebind (as_WithdrawWithSignature (bal_condition e)) (\<lambda>d.
        ebind (ensure (check_signature s (sig_owner d)) missing_signature) (\<lambda>_.
          ensure (key_address E (contract_operator s) = sig_owner d)
            operator_and_owner_not_the_same))
      else Inl invalid_withdraw_condition)"

definition balances_withdraw_step ::
  "env \<Rightarrow> address \<times> share \<Rightarrow> eval_state \<Rightarrow> eval_state result" where
  "balances_withdraw_step E item s =
     ebind (ensure (snd item > 0) negative_withdraw) (\<lambda>_.
     ebind (require unknown_balance_entry (balance_lookup_by_id (cur s) (fst item))) (\<lambda>e.
     ebind (ensure (bal_asset_id e = 0) assert_exception) (\<lambda>_.
     ebind (ensure (snd item \<le> amount (get_spendable_balance e (now E (cur s))))
              insufficient_funds) (\<lambda>_.
     ebind (require_asset (bal_asset_id e) s) (\<lambda>asset_rec.
     ebind (if issuer_override asset_rec s then Inr ()
            else ebind (ensure (\<not> is_balance_frozen asset_rec) assert_exception) (\<lambda>_.
                 operator_authorises E e s)) (\<lambda>_.
     ebind (vote_if_core e (wrap64 (- snd item)) s) (\<lambda>s1.
     ebind (add_balance (mk_Asset (snd item) (bal_asset_id e)) s1) (\<lambda>s2.
       lift_chain (store_balance_entry E
         (e\<lparr>bal_balance := wrap64 (bal_balance e - snd item),
            bal_last_update := now E (cur s2)\<rparr>)) s2))))))))"

definition BalancesWithdrawOperation_evaluate ::
  "env \<Rightarrow> BalancesWithdrawOperation \<Rightarrow> eval_state \<Rightarrow> eval_state result" where
  "BalancesWithdrawOperation_evaluate E op s =
     ebind (ensure (evaluate_contract_result s) not_be_result_of_execute) (\<lambda>_.
     ebind (ensure (check_signature s (key_address E (contract_operator s))) missing_signature) (\<lambda>_.
       efold (balances_withdraw_step E) (bw_balances op) s))"

definition UpdateBalanceVoteOperation_evaluate ::
  "UpdateBalanceVoteOperation \<Rightarrow> eval_state \<Rightarrow> eval_state result" where
  "UpdateBalanceVoteOperation_evaluate op s = Inr s"

definition DepositContractOperation_evaluate ::
  "env \<Rightarrow> DepositContractOperation \<Rightarrow> eval_state \<Rightarrow> eval_state result" where
  "DepositContractOperation_evaluate E op s =
     ebind (ensure (evaluate_contract_result s) not_be_result_of_execute) (\<lambda>_.
     ebind (ensure (dc_amount op > 0) negative_deposit) (\<lambda>_.
     ebind (ensure (is_deposit_type (cond_type (dc_condition op))) invalid_withdraw_condition) (\<lambda>_.
     let cur_entry =
       (case balance_lookup_by_id (cur s) (cond_address E (dc_condition op)) of
          Some e \<Rightarrow> e
        | None \<Rightarrow>
            if cond_type (dc_condition op) = withdraw_escrow_type
            then (new_balance (dc_condition op))\<lparr>bal_meta_data :=
                    creating_transaction_id E (trx_id E (es_trx s))\<rparr>
            else new_balance (dc_condition op))
     in
     ebind (contract_deposit_date_after E (now E (cur s)) cur_entry (dc_amount op)) (\<lambda>date.
     ebind (sub_balance (mk_Asset (dc_amount op) (bal_asset_id cur_entry)) s) (\<lambda>s1.
     ebind (vote_if_core cur_entry (dc_amount op) s1) (\<lambda>s2.
     ebind (require_asset (bal_asset_id cur_entry) s2) (\<lambda>_.
       lift_chain (store_balance_entry E
         (cur_entry\<lparr>bal_deposit_date := date,
            bal_balance := wrap64 (bal_balance cur_entry + dc_amount op),
            bal_last_update := now E (cur s2)\<rparr>)) s2)))))))"

lemmas balance_op_defs =
  lift_chain_def average_date_def deposit_date_after_def contract_deposit_date_after_def
  is_deposit_type_def deposit_balance_id_def claim_owner_def vote_if_core_def
  require_asset_def DepositOperation_evaluate_def owner_authorises_def issuer_override_def
  WithdrawOperation_evaluate_def WithdrawContractOperation_evaluate_def
  operator_authorises_def balances_withdraw_step_def BalancesWithdrawOperation_evaluate_def
  UpdateBalanceVoteOperation_evaluate_def DepositContractOperation_evaluate_def

declare balance_op_defs [eval_simps]

end
