(* ===== verification/Asset_Ops.thy ===== *)
theory Asset_Ops
  imports Balance_Ops
begin

text \<open>
  \<open>AssetOperations.cpp\<close>: creation, update and issue of assets.
\<close>

unbundle bit_operations_syntax

definition is_power_of_ten :: "nat \<Rightarrow> bool" where
  "is_power_of_ten n \<longleftrightarrow> n = 100000"

abbreviation (input) market_issuer_id :: account_id where "market_issuer_id \<equiv> - 2"

text \<open>\<open>restricted | retractable | market_halt | balance_halt | supply_unlimit\<close>.\<close>

definition all_permissions :: "32 word" where "all_permissions = 31"

definition add_required_fees :: "Asset \<Rightarrow> eval_state \<Rightarrow> eval_state result" where
  "add_required_fees fee s =
     ebind (Asset_plus_eq (es_required_fees s) fee) (\<lambda>f. Inr (s\<lparr>es_required_fees := f\<rparr>))"

section \<open>Create\<close>

definition new_asset_entry ::
  "env \<Rightarrow> CreateAssetOperation \<Rightarrow> asset_id \<Rightarrow> time \<Rightarrow> MultisigMetaInfo \<Rightarrow> AssetEntry" where
  "new_asset_entry E op k t auth =
     \<lparr>ast_id = k, ast_symbol = ca_symbol op, ast_name = ca_name op,
      ast_description = ca_description op, ast_public_data = ca_public_data op,
      ast_issuer_account_id = ca_issuer_account_id op, ast_precision = ca_precision op,
      ast_registration_date = t, ast_last_update = t,
      ast_maximum_share_supply = ca_maximum_share_supply op, ast_current_share_supply = 0,
      ast_collected_fees = 0, ast_flags = 0, ast_issuer_permissions = all_permissions,
      ast_transaction_fee = 0, ast_market_fee = 0, ast_authority = auth\<rparr>"

definition CreateAssetOperation_evaluate ::
  "env \<Rightarrow> CreateAssetOperation \<Rightarrow> eval_state \<Rightarrow> eval_state result" where
  "CreateAssetOperation_evaluate E op s =
     ebind (is_valid_symbol_name (ca_symbol op)) (\<lambda>valid.
     ebind (ensure valid invalid_asset_symbol) (\<lambda>_.
     ebind (asset_lookup_by_symbol (cur s) (ca_symbol op)) (\<lambda>same_symbol.
     ebind (ensure (same_symbol = None) asset_symbol_in_use) (\<lambda>_.
     ebind (ensure (ca_name op \<noteq> []) invalid_asset_name) (\<lambda>_.
     ebind (get_last_asset_id (cur s)) (\<lambda>last.
     ebind (ensure (asset_lookup_by_id (cur s) (wrap32 (last + 1)) = None) asset_id_in_use) (\<lambda>_.
     ebind (if ca_issuer_account_id op \<noteq> market_issuer_id
            then ebind (require unknown_account_id
                          (account_lookup_by_id (cur s) (ca_issuer_account_id op)))
                   (\<lambda>a. Inr (Some a))
            else Inr None) (\<lambda>issuer.
     ebind (ensure (0 < ca_maximum_share_supply op \<and>
                    ca_maximum_share_supply op \<le> ALP_BLOCKCHAIN_MAX_SHARES)
              invalid_asset_amount) (\<lambda>_.
     ebind (ensure (is_power_of_ten (ca_precision op)) invalid_precision) (\<lambda>_.
     ebind (add_required_fees
              (mk_Asset (get_asset_registration_fee (length (ca_symbol op))) 0) s) (\<lambda>s1.
     ebind (new_asset_id (cur s1)) (\<lambda>(k, c).
     ebind (case issuer of
              None \<Rightarrow> Inr \<lparr>mm_required = 0, mm_owners = []\<rparr>
            | Some a \<Rightarrow> ebind (active_address E a)
                          (\<lambda>addr. Inr \<lparr>mm_required = 1, mm_owners = [addr]\<rparr>)) (\<lambda>auth.
       lift_chain (store_asset_entry (new_asset_entry E op k (now E c) auth)) (s1\<lparr>cur := c\<rparr>))))))))))))))"

section \<open>Update\<close>

text \<open>The updates both operations share, from the name to the precision.\<close>

definition update_asset_fields ::
  "('a UpdateAssetOperation_scheme) \<Rightarrow> AssetEntry \<Rightarrow> AssetEntry result" where
  "update_asset_fields op a0 =
     ebind (case upa_name op of
              None \<Rightarrow> Inr a0
            | Some n \<Rightarrow> ebind (ensure (n \<noteq> []) invalid_asset_name) (\<lambda>_. Inr (a0\<lparr>ast_name := n\<rparr>))) (\<lambda>a1.
     let a2 = (case upa_description op of None \<Rightarrow> a1 | Some d \<Rightarrow> a1\<lparr>ast_description := d\<rparr>);
         a3 = (case upa_public_data op of None \<Rightarrow> a2 | Some d \<Rightarrow> a2\<lparr>ast_public_data := d\<rparr>)
     in
     ebind (case upa_maximum_share_supply op of
              None \<Rightarrow> Inr a3
            | Some m \<Rightarrow>
                ebind (ensure (0 < m \<and> m \<le> ALP_BLOCKCHAIN_MAX_SHARES) invalid_asset_amount)
                  (\<lambda>_. Inr (a3\<lparr>ast_maximum_share_supply := m\<rparr>))) (\<lambda>a4.
     case upa_precision op of
       None \<Rightarrow> Inr a4
     | Some p \<Rightarrow> ebind (ensure (is_power_of_ten p) invalid_precision)
                   (\<lambda>_. Inr (a4\<lparr>ast_precision := p\<rparr>))))"

definition UpdateAssetOperation_evaluate ::
  "env \<Rightarrow> UpdateAssetOperation \<Rightarrow> eval_state \<Rightarrow> eval_state result" where
  "UpdateAssetOperation_evaluate E op s =
     ebind (require unknown_asset_id (asset_lookup_by_id (cur s) (upa_asset_id op))) (\<lambda>a0.
     ebind (ensure (upa_name op \<noteq> None \<or> upa_description op \<noteq> None \<or> upa_public_data op \<noteq> None \<or>
                    upa_maximum_share_supply op \<noteq> None \<or> upa_precision op \<noteq> None)
              assert_exception) (\<lambda>_.
     ebind (ensure (ast_current_share_supply a0 > 0 \<longrightarrow>
                      upa_maximum_share_supply op = None \<and> upa_precision op = None)
              assert_exception) (\<lambda>_.
     ebind (ensure (verify_authority s (ast_authority a0)) missing_signature) (\<lambda>_.
     ebind (update_asset_fields op a0) (\<lambda>a1.
       lift_chain (store_asset_entry (a1\<lparr>ast_last_update := now E (cur s)\<rparr>)) s)))))"

text \<open>Each bit of \<open>wanted\<close> among the five permissions must be a bit of \<open>granted\<close>.\<close>

definition bits_granted :: "32 word \<Rightarrow> 32 word \<Rightarrow> bool" where
  "bits_granted wanted granted \<longleftrightarrow>
     (wanted AND retractable \<noteq> 0 \<longrightarrow> granted AND retractable \<noteq> 0) \<and>
     (wanted AND restricted \<noteq> 0 \<longrightarrow> granted AND restricted \<noteq> 0) \<and>
     (wanted AND market_halt \<noteq> 0 \<longrightarrow> granted AND market_halt \<noteq> 0) \<and>
     (wanted AND balance_halt \<noteq> 0 \<longrightarrow> granted AND balance_halt \<noteq> 0) \<and>
     (wanted AND supply_unlimit \<noteq> 0 \<longrightarrow> granted AND supply_unlimit \<noteq> 0)"

definition UpdateAssetExtOperation_evaluate ::
  "env \<Rightarrow> UpdateAssetExtOperation \<Rightarrow> eval_state \<Rightarrow> eval_state result" where
  "UpdateAssetExtOperation_evaluate E op s =
     ebind (require unknown_asset_id (asset_lookup_by_id (cur s) (upa_asset_id op))) (\<lambda>a0.
     ebind (ensure (ast_current_share_supply a0 > 0 \<longrightarrow>
                      (ast_flags a0 AND supply_unlimit \<noteq> 0 \<or> upa_maximum_share_supply op = None) \<and>
                      upa_precision op = None)
              assert_exception) (\<lambda>_.
     ebind (ensure (verify_authority s (ast_authority a0)) missing_signature) (\<lambda>_.
     ebind (update_asset_fields op a0) (\<lambda>a1.
     ebind (ensure (ast_current_share_supply a1 > 0 \<longrightarrow>
                      bits_granted (upx_issuer_permissions op) (ast_issuer_permissions a1))
              assert_exception) (\<lambda>_.
     ebind (ensure (bits_granted (upx_flags op) (upx_issuer_permissions op)) assert_exception) (\<lambda>_.
     ebind (ensure (upx_issuer_account_id op \<noteq> market_issuer_id) assert_exception) (\<lambda>_.
     ebind (ensure (upx_issuer_account_id op \<noteq> ast_issuer_account_id a1 \<longrightarrow>
                      account_lookup_by_id (cur s) (upx_issuer_account_id op) \<noteq> None)
              unknown_account_id) (\<lambda>_.
       lift_chain (store_asset_entry
         (a1\<lparr>ast_issuer_permissions := upx_issuer_permissions op, ast_flags := upx_flags op,
             ast_transaction_fee := upx_transaction_fee op, ast_authority := upx_authority op,
             ast_issuer_account_id := upx_issuer_account_id op,
             ast_last_update := now E (cur s)\<rparr>)) s))))))))"

section \<open>Issue\<close>

definition IssueAssetOperation_evaluate :: "env \<Rightarrow> Asset \<Rightarrow> eval_state \<Rightarrow> eval_state result" where
  "IssueAssetOperation_evaluate E amnt s =
     ebind (require unknown_asset_id (asset_lookup_by_id (cur s) (asset_of amnt))) (\<lambda>a.
     ebind (ensure (is_user_issued a) not_user_issued) (\<lambda>_.
     ebind (ensure (verify_authority s (ast_authority a)) missing_signature) (\<lambda>_.
     ebind (ensure (amount amnt > 0) negative_issue) (\<lambda>_.
     ebind (ensure (can_issue a amnt) over_issue) (\<lambda>_.
     ebind (add_balance amnt s) (\<lambda>s1.
       lift_chain (store_asset_entry
         (a\<lparr>ast_current_share_supply := wrap64 (ast_current_share_supply a + amount amnt),
            ast_last_update := now E (cur s1)\<rparr>)) s1))))))"

lemmas asset_op_defs =
  is_power_of_ten_def all_permissions_def add_required_fees_def new_asset_entry_def
  CreateAssetOperation_evaluate_def update_asset_fields_def UpdateAssetOperation_evaluate_def
  bits_granted_def UpdateAssetExtOperation_evaluate_def IssueAssetOperation_evaluate_def

declare asset_op_defs [eval_simps]

end
