(* ===== verification/Account_Ops.thy ===== *)
theory Account_Ops
  imports Asset_Ops
begin

text \<open>
  \<open>AccountOperations.cpp\<close>, \<open>SlateOperations.cpp\<close>, \<open>ImessageOperations.cpp\<close> and
  \<open>EventOperations.cpp\<close>: accounts and delegates, slates of delegates to vote for, messages and
  the events of contracts.
\<close>

section \<open>Accounts\<close>

definition new_DelegateStats :: DelegateStats where
  "new_DelegateStats = \<lparr>votes_for = 0, pay_rate = 0, signing_key_history = [],
     last_block_num_produced = 0, next_secret_hash = None, pay_balance = 0, total_paid = 0,
     total_burned = 0, blocks_produced = 0, blocks_missed = 0\<rparr>"

definition register_is_delegate :: "RegisterAccountOperation \<Rightarrow> bool" where
  "register_is_delegate op \<longleftrightarrow> ra_delegate_pay_rate op \<le> 100"

text \<open>Turns an entry into a delegate and charges for it; both account operations do this.\<close>

definition make_delegate ::
  "nat \<Rightarrow> public_key \<Rightarrow> AccountEntry \<Rightarrow> eval_state \<Rightarrow> (AccountEntry \<times> eval_state) result" where
  "make_delegate pay_rt key a s =
     ebind (set_signing_key
              (a\<lparr>acc_delegate_info := Some (new_DelegateStats\<lparr>pay_rate := pay_rt\<rparr>)\<rparr>)
              (get_head_block_num (cur s)) key) (\<lambda>a1.
     ebind (get_delegate_registration_fee (cur s) pay_rt) (\<lambda>fee.
     ebind (add_required_fees (mk_Asset fee 0) s) (\<lambda>s1. Inr (a1, s1))))"

definition RegisterAccountOperation_evaluate ::
  "env \<Rightarrow> RegisterAccountOperation \<Rightarrow> eval_state \<Rightarrow> eval_state result" where
  "RegisterAccountOperation_evaluate E op s =
     ebind (ensure (is_valid_account_name (ra_name op)) invalid_account_name) (\<lambda>_.
     ebind (account_lookup_by_name (cur s) (ra_name op)) (\<lambda>by_name.
     ebind (ensure (by_name = None) account_already_registered) (\<lambda>_.
     ebind (account_lookup_by_address (cur s) (key_address E (ra_owner_key op))) (\<lambda>by_owner.
     ebind (ensure (by_owner = None) account_key_in_use) (\<lambda>_.
     ebind (account_lookup_by_address (cur s) (key_address E (ra_active_key op))) (\<lambda>by_active.
     ebind (ensure (by_active = None) account_key_in_use) (\<lambda>_.
     let now_t = now E (cur s) in
     ebind (new_account_id (cur s)) (\<lambda>(k, c).
     let s1 = s\<lparr>cur := c\<rparr> in
     ebind (set_active_key
              \<lparr>acc_id = k, acc_name = ra_name op, acc_public_data = ra_public_data op,
               acc_owner_key = ra_owner_key op, acc_active_key_history = [],
               acc_registration_date = 0, acc_last_update = 0, acc_delegate_info = None,
               acc_meta_data = None\<rparr> now_t (ra_active_key op)) (\<lambda>a0.
     let a1 = a0\<lparr>acc_registration_date := now_t, acc_last_update := now_t,
                 acc_meta_data := (case ra_meta_data op of
                     None \<Rightarrow> Some \<lparr>meta_type = titan_account, meta_info = []\<rparr> | Some m \<Rightarrow> Some m)\<rparr>
     in
     ebind (if register_is_delegate op
            then make_delegate (ra_delegate_pay_rate op) (ra_active_key op) a1 s1
            else Inr (a1, s1)) (\<lambda>(a2, s2).
       lift_chain (store_account_entry E a2) s2))))))))))"

definition update_is_retracted :: "env \<Rightarrow> UpdateAccountOperation \<Rightarrow> bool" where
  "update_is_retracted E op \<longleftrightarrow> ua_active_key op = Some (null_key E)"

definition update_is_delegate :: "UpdateAccountOperation \<Rightarrow> bool" where
  "update_is_delegate op \<longleftrightarrow> ua_delegate_pay_rate op \<le> 100"

text \<open>The checks before an active key is replaced, and the replacement.\<close>

definition change_active_key ::
  "env \<Rightarrow> UpdateAccountOperation \<Rightarrow> public_key \<Rightarrow> AccountEntry \<Rightarrow> eval_state \<Rightarrow> AccountEntry result" where
  "change_active_key E op key a s =
     ebind (if \<not> update_is_retracted E op
            then ebind (account_lookup_by_address (cur s) (key_address E key)) (\<lambda>other.
                   ensure (other = None) account_key_in_use)
            else if is_delegate a
            then ebind (delegate_pay_balance a) (\<lambda>pb. ensure (pb \<le> 0) pay_balance_remaining)
            else Inr ()) (\<lambda>_.
     ebind (ensure (check_signature s (key_address E (acc_owner_key a))) missing_signature) (\<lambda>_.
       set_active_key a (now E (cur s)) key))"

definition UpdateAccountOperation_evaluate ::
  "env \<Rightarrow> UpdateAccountOperation \<Rightarrow> eval_state \<Rightarrow> eval_state result" where
  "UpdateAccountOperation_evaluate E op s =
     ebind (require unknown_account_id (account_lookup_by_id (cur s) (ua_account_id op))) (\<lambda>a0.
     ebind (is_retracted E a0) (\<lambda>retracted.
     ebind (ensure (\<not> retracted) account_retracted) (\<lambda>_.
     ebind (active_key a0) (\<lambda>old_key.
     ebind (case ua_active_key op of
              Some key \<Rightarrow>
                if key \<noteq> old_key then change_active_key E op key a0 s
                else ebind (account_has_signed E s a0) (\<lambda>sg. ebind (ensure sg missing_signature) (\<lambda>_. Inr a0))
            | None \<Rightarrow>
                ebind (account_has_signed E s a0) (\<lambda>sg. ebind (ensure sg missing_signature) (\<lambda>_. Inr a0))) (\<lambda>a1.
     let a2 = (case ua_public_data op of None \<Rightarrow> a1 | Some d \<Rightarrow> a1\<lparr>acc_public_data := d\<rparr>) in
     ebind (ensure (is_delegate a2 \<longrightarrow> update_is_delegate op) assert_exception) (\<lambda>_.
     ebind (if update_is_delegate op then
              (case acc_delegate_info a2 of
                 Some d \<Rightarrow>
                   ebind (ensure (ua_delegate_pay_rate op \<le> pay_rate d) assert_exception) (\<lambda>_.
                     Inr (a2\<lparr>acc_delegate_info := Some (d\<lparr>pay_rate := ua_delegate_pay_rate op\<rparr>)\<rparr>, s))
               | None \<Rightarrow>
                   ebind (active_key a2) (\<lambda>key. make_delegate (ua_delegate_pay_rate op) key a2 s))
            else Inr (a2, s)) (\<lambda>(a3, s1).
       lift_chain (store_account_entry E (a3\<lparr>acc_last_update := now E (cur s1)\<rparr>)) s1)))))))"

definition WithdrawPayOperation_evaluate ::
  "env \<Rightarrow> WithdrawPayOperation \<Rightarrow> eval_state \<Rightarrow> eval_state result" where
  "WithdrawPayOperation_evaluate E op s =
     ebind (ensure (wp_amount op > 0) negative_withdraw) (\<lambda>_.
     let k = wrap32 \<bar>wp_account_id op\<bar> in
     ebind (require unknown_account_id (account_lookup_by_id (cur s) k)) (\<lambda>a.
     ebind (require not_a_delegate (acc_delegate_info a)) (\<lambda>d.
     ebind (ensure (wp_amount op \<le> pay_balance d) insufficient_funds) (\<lambda>_.
     ebind (account_has_signed E s a) (\<lambda>signed.
     ebind (ensure signed missing_signature) (\<lambda>_.
     ebind (safe_sub (pay_balance d) (wp_amount op)) (\<lambda>pb.
     ebind (safe_sub (smap_get0 (es_delegate_vote_deltas s) k) (wp_amount op)) (\<lambda>delta.
     let s1 = s\<lparr>es_delegate_vote_deltas := smap_set k delta (es_delegate_vote_deltas s)\<rparr> in
     ebind (add_balance (mk_Asset (wp_amount op) 0) s1) (\<lambda>s2.
       lift_chain (store_account_entry E
         (a\<lparr>acc_delegate_info := Some (d\<lparr>pay_balance := pb\<rparr>)\<rparr>)) s2)))))))))"

text \<open>The body starts with \<open>FC_ASSERT(false)\<close>.\<close>

definition UpdateSigningKeyOperation_evaluate ::
  "UpdateSigningKeyOperation \<Rightarrow> eval_state \<Rightarrow> eval_state result" where
  "UpdateSigningKeyOperation_evaluate op s = Inl assert_exception"

section \<open>Slates, messages and events\<close>

definition define_slate_step :: "chain \<Rightarrow> account_id \<Rightarrow> account_id list \<Rightarrow> account_id list result" where
  "define_slate_step c k slate =
     ebind (if k \<ge> 0
            then ensure (case account_lookup_by_id c k of
                           None \<Rightarrow> False | Some a \<Rightarrow> is_delegate a) assert_exception
            else Inr ()) (\<lambda>_. Inr (sset_insert k slate))"

definition DefineSlateOperation_evaluate ::
  "env \<Rightarrow> DefineSlateOperation \<Rightarrow> eval_state \<Rightarrow> eval_state result" where
  "DefineSlateOperation_evaluate E op s =
     ebind (ensure (ds_slate op \<noteq> []) assert_exception) (\<lambda>_.
     ebind (ensure (length (ds_slate op) \<le> ALP_BLOCKCHAIN_MAX_SLATE_SIZE)
              too_may_delegates_in_slate) (\<lambda>_.
     ebind (efold (define_slate_step (cur s)) (ds_slate op) []) (\<lambda>slate.
     let entry = \<lparr>sl_slate = slate, sl_duplicate_slate = []\<rparr> in
     case slate_lookup_by_id (cur s) (slate_entry_id E entry) of
       Some current \<Rightarrow> ebind (ensure (sl_slate current = slate) assert_exception) (\<lambda>_. Inr s)
     | None \<Rightarrow> lift_chain (store_slate_entry E entry) s)))"

definition ImessageMemoOperation_evaluate :: "string \<Rightarrow> eval_state \<Rightarrow> eval_state result" where
  "ImessageMemoOperation_evaluate imessage s =
     ebind (ensure (imessage \<noteq> []) assert_exception) (\<lambda>_.
     ebind (ensure (length imessage \<le> ALP_BLOCKCHAIN_MAX_MESSAGE_SIZE) message_too_long) (\<lambda>_.
       add_required_fees (mk_Asset (get_imessage_need_fee imessage) 0)
         (s\<lparr>es_imessage_length := int (length imessage)\<rparr>)))"

definition EventOperation_evaluate :: "EventOperation \<Rightarrow> eval_state \<Rightarrow> eval_state result" where
  "EventOperation_evaluate op s =
     ebind (ensure (evaluate_contract_result s) not_be_result_of_execute) (\<lambda>_.
     ebind (ensure (contract_lookup_by_id (cur s) (ev_id op) \<noteq> None) contract_not_exist) (\<lambda>_.
     ebind (ensure (length (ev_event_param op) \<le> EVENT_PARAM_MAX_LEN)
              event_parameter_length_over_limit) (\<lambda>_.
       Inr (s\<lparr>event_vector := event_vector s @ [op]\<rparr>))))"

lemmas account_op_defs =
  new_DelegateStats_def register_is_delegate_def make_delegate_def
  RegisterAccountOperation_evaluate_def update_is_retracted_def update_is_delegate_def
  change_active_key_def UpdateAccountOperation_evaluate_def WithdrawPayOperation_evaluate_def
  UpdateSigningKeyOperation_evaluate_def define_slate_step_def DefineSlateOperation_evaluate_def
  ImessageMemoOperation_evaluate_def EventOperation_evaluate_def

declare account_op_defs [eval_simps]

end
