(* ===== verification/Contract_Ops.thy ===== *)
theory Contract_Ops
  imports Account_Ops "HOL-Library.List_Lexorder" "HOL-Library.Char_ord"
begin

text \<open>
  \<open>ContractOperations.cpp\<close> and \<open>StorageOperations.cpp\<close>. A contract operation checks the
  caller's funds, runs the contract in the Lua virtual machine and turns what the contract did
  into a result transaction (\<open>p_result_trx\<close>); the operations of the result transaction apply
  the effects. The virtual machine, with the callbacks through which a contract acts on the
  evaluation state, is the parameter \<open>vm\<close>.
\<close>

section \<open>The virtual machine\<close>

text \<open>
  One run: the contract, the function and its argument, the public key bound to the global
  \<open>caller\<close>, the instruction limit, and the evaluation state the callbacks may change. The
  outcome has the changed state, whether the machine stopped with \<open>LUA_API_INTERNAL_ERROR\<close>,
  the exception code (0 for none) and the number of instructions executed.
\<close>

record vm_outcome =
  vm_state :: eval_state
  vm_internal_error :: bool
  vm_exception_code :: int
  vm_executed :: int

type_synonym vm =
  "address \<Rightarrow> string \<Rightarrow> string \<Rightarrow> public_key \<Rightarrow> int \<Rightarrow> eval_state \<Rightarrow> vm_outcome"

datatype vm_end = vm_done | vm_out_of_money | vm_failed

abbreviation (input) THINKYOUNG_API_LVM_LIMIT_OVER_ERROR :: int where
  "THINKYOUNG_API_LVM_LIMIT_OVER_ERROR \<equiv> 6"

definition CON_INIT_INTERFACE :: string where "CON_INIT_INTERFACE = ''init''"
definition CON_ON_DEPOSIT_INTERFACE :: string where "CON_ON_DEPOSIT_INTERFACE = ''on_deposit''"
definition CON_ON_DESTROY_INTERFACE :: string where "CON_ON_DESTROY_INTERFACE = ''on_destroy''"
definition CON_ON_UPGRADE_INTERFACE :: string where "CON_ON_UPGRADE_INTERFACE = ''on_upgrade''"

text \<open>Which of the two \<open>catch\<close> clauses of the operations the run ends in, if any.\<close>

definition vm_end_of :: "vm_outcome \<Rightarrow> vm_end" where
  "vm_end_of r =
     (if vm_exception_code r > 0 then
        if vm_exception_code r = THINKYOUNG_API_LVM_LIMIT_OVER_ERROR then vm_out_of_money
        else vm_failed
      else vm_done)"

text \<open>
  The common part of the \<open>try\<close> blocks: a limit that is not positive throws
  \<open>contract_run_out_of_money\<close> before the machine runs.
\<close>

definition run_contract ::
  "vm \<Rightarrow> address \<Rightarrow> string \<Rightarrow> string \<Rightarrow> public_key \<Rightarrow> share \<Rightarrow> eval_state \<Rightarrow>
     (vm_end \<times> int \<times> eval_state) result" where
  "run_contract vm contract api arg caller cost_limit s =
     (let limit = get_limit 0 cost_limit in
      if limit \<le> 0 then Inr (vm_out_of_money, 0, s)
      else
        let r = vm contract api arg caller limit s in
        if vm_internal_error r then Inl lua_executor_internal_error
        else Inr (vm_end_of r, vm_executed r, vm_state r))"

section \<open>Helpers\<close>

definition is_contract_has_method :: "string \<Rightarrow> string list \<Rightarrow> bool" where
  "is_contract_has_method method_name abi_set \<longleftrightarrow> method_name \<in> set abi_set"

definition get_amount_sum :: "share \<Rightarrow> share \<Rightarrow> share result" where
  "get_amount_sum l r =
     (let sm = wrap64 (l + r) in if sm < l \<or> sm < r then Inl addition_overflow else Inr sm)"

definition check_balances_step ::
  "env \<Rightarrow> eval_state \<Rightarrow> address \<Rightarrow> address \<times> share \<Rightarrow> share \<Rightarrow> share result" where
  "check_balances_step E s address_check item tmp_amount =
     ebind (ensure (snd item > 0) negative_withdraw) (\<lambda>_.
     ebind (require unknown_balance_entry (balance_lookup_by_id (cur s) (fst item))) (\<lambda>e.
     ebind (ensure (bal_asset_id e = 0) assert_exception) (\<lambda>_.
     ebind (ensure (snd item \<le> amount (get_spendable_balance e (now E (cur s))))
              insufficient_funds) (\<lambda>_.
     ebind (require_asset (bal_asset_id e) s) (\<lambda>asset_rec.
     ebind (if issuer_override asset_rec s then Inr ()
            else ebind (ensure (\<not> is_balance_frozen asset_rec) assert_exception) (\<lambda>_.
                 if cond_type (bal_condition e) = withdraw_signature_type then
                   ebind (as_WithdrawWithSignature (bal_condition e)) (\<lambda>d.
                   ebind (ensure (check_signature s (sig_owner d)) missing_signature) (\<lambda>_.
                     ensure (sig_owner d = address_check) operator_and_owner_not_the_same))
                 else Inl invalid_withdraw_condition)) (\<lambda>_.
       get_amount_sum tmp_amount (snd item)))))))"

definition check_balances ::
  "env \<Rightarrow> eval_state \<Rightarrow> (address \<times> share) list \<Rightarrow> address \<Rightarrow> share result" where
  "check_balances E s balances address_check =
     efold (check_balances_step E s address_check) balances 0"

fun withdraw_enough_balances ::
  "(address \<times> share) list \<Rightarrow> share \<Rightarrow> (address \<times> share) list result" where
  "withdraw_enough_balances [] amount_required = Inl insufficient_funds"
| "withdraw_enough_balances ((k, v) # balances) amount_required =
     (if amount_required \<le> v then Inr [(k, amount_required)]
      else ebind (withdraw_enough_balances balances (wrap64 (amount_required - v)))
             (\<lambda>rest. Inr ((k, v) # rest)))"

definition is_function_not_allow_call :: "string \<Rightarrow> bool" where
  "is_function_not_allow_call method \<longleftrightarrow>
     method = CON_INIT_INTERFACE \<or> method = CON_ON_DEPOSIT_INTERFACE \<or>
     method = CON_ON_UPGRADE_INTERFACE \<or> method = CON_ON_DESTROY_INTERFACE"

subsection \<open>The result transaction\<close>

definition result_ops :: "eval_state \<Rightarrow> Operation list" where
  "result_ops s = operations (p_result_trx s)"

definition set_result_ops :: "Operation list \<Rightarrow> eval_state \<Rightarrow> eval_state" where
  "set_result_ops ops s = s\<lparr>p_result_trx := set_operations ops (p_result_trx s)\<rparr>"

definition push_result_op :: "Operation \<Rightarrow> eval_state \<Rightarrow> eval_state" where
  "push_result_op op s = set_result_ops (result_ops s @ [op]) s"

text \<open>\<open>p_result_trx.expiration = trx.expiration\<close>.\<close>

definition copy_expiration :: "eval_state \<Rightarrow> eval_state" where
  "copy_expiration s = s\<lparr>p_result_trx := set_expiration (expiration (es_trx s)) (p_result_trx s)\<rparr>"

text \<open>\<open>operations.resize(0); push_transaction(trx)\<close>.\<close>

definition restart_result :: "eval_state \<Rightarrow> eval_state" where
  "restart_result s = set_result_ops [transaction_op (es_trx s)] s"

definition push_balances_withdraw ::
  "(address \<times> share) list \<Rightarrow> share \<Rightarrow> eval_state \<Rightarrow> eval_state result" where
  "push_balances_withdraw balances required_amount s =
     ebind (withdraw_enough_balances balances required_amount) (\<lambda>withdraw_map.
       Inr (push_result_op (balances_withdraw_op \<lparr>bw_balances = withdraw_map\<rparr>) s))"

text \<open>The constructor \<open>WithdrawContractOperation(id, amount)\<close> asserts a positive amount.\<close>

definition push_withdraw_contract :: "address \<Rightarrow> share \<Rightarrow> eval_state \<Rightarrow> eval_state result" where
  "push_withdraw_contract bid amnt s =
     ebind (ensure (amnt > 0) assert_exception) (\<lambda>_.
       Inr (push_result_op (withdraw_contract_op \<lparr>wc_balance_id = bid, wc_amount = amnt,
              wc_contract = 0\<rparr>) s))"

definition push_deposit :: "address \<Rightarrow> share \<Rightarrow> eval_state \<Rightarrow> eval_state result" where
  "push_deposit ow amnt s =
     ebind (mk_DepositOperation ow (mk_Asset amnt 0) 0) (\<lambda>op. Inr (push_result_op (deposit_op op) s))"

definition mk_DepositContractOperation ::
  "address \<Rightarrow> Asset \<Rightarrow> nat \<Rightarrow> DepositContractOperation" where
  "mk_DepositContractOperation contract amnt balance_type =
     \<lparr>dc_amount = amount amnt,
      dc_condition = signature_condition contract (asset_of amnt) 0 balance_type\<rparr>"

text \<open>
  The \<open>catch\<close> clauses that \<open>Upgrade\<close>, \<open>Destroy\<close> and \<open>Transfer\<close> share. A contract that ran out of
  money pays its whole limit; one that failed pays for what it executed.
\<close>

definition catch_out_of_money ::
  "(address \<times> share) list \<Rightarrow> share \<Rightarrow> Asset \<Rightarrow> bool \<Rightarrow> eval_state \<Rightarrow> eval_state result" where
  "catch_out_of_money balances limit_amount fee set_fees s =
     (if evaluate_contract_testing s then Inl contract_run_out_of_testing_money
      else if throw_exec_exception s then Inl contract_run_out_of_money
      else
        ebind (get_amount_sum limit_amount (amount fee)) (\<lambda>required_amount.
          push_balances_withdraw balances required_amount
            (copy_expiration (restart_result
              (if set_fees then s\<lparr>es_required_fees := fee\<rparr> else s)))))"

definition catch_contract_error ::
  "(address \<times> share) list \<Rightarrow> int \<Rightarrow> Asset \<Rightarrow> eval_state \<Rightarrow> eval_state result" where
  "catch_contract_error balances executed fee s =
     (if evaluate_contract_testing s then Inl contract_execute_error_in_testing
      else if throw_exec_exception s then Inl contract_execute_error
      else
        ebind (Asset_plus (get_amount executed 0) fee) (\<lambda>cost.
          push_balances_withdraw balances (amount cost)
            (copy_expiration (set_result_ops (take 1 (result_ops s)) s))))"

text \<open>
  The margin of a contract: its balance must be exactly the default margin. The result is the
  margin's balance entry.
\<close>

definition margin_of :: "env \<Rightarrow> ContractEntry \<Rightarrow> eval_state \<Rightarrow> BalanceEntry result" where
  "margin_of E entry s =
     ebind (require assert_exception
              (balance_lookup_by_id (cur s) (get_balanceid E (con_id entry) withdraw_margin_type))) (\<lambda>e.
     ebind (ensure (bal_asset_id e = 0) assert_exception) (\<lambda>_.
     ebind (ensure (bal_balance e = ALP_DEFAULT_CONTRACT_MARGIN) invalid_margin_amount) (\<lambda>_. Inr e)))"

lemmas contract_helper_defs =
  CON_INIT_INTERFACE_def CON_ON_DEPOSIT_INTERFACE_def CON_ON_DESTROY_INTERFACE_def
  CON_ON_UPGRADE_INTERFACE_def vm_end_of_def run_contract_def is_contract_has_method_def
  get_amount_sum_def check_balances_step_def check_balances_def is_function_not_allow_call_def
  result_ops_def set_result_ops_def push_result_op_def copy_expiration_def restart_result_def
  push_balances_withdraw_def push_withdraw_contract_def push_deposit_def
  mk_DepositContractOperation_def catch_out_of_money_def catch_contract_error_def margin_of_def

declare contract_helper_defs [eval_simps]

section \<open>Upgrade and destroy\<close>

text \<open>The part of an upgrade with an \<open>on_upgrade\<close> function.\<close>

definition upgrade_with_handler ::
  "env \<Rightarrow> vm \<Rightarrow> UpgradeContractOperation \<Rightarrow> ContractEntry \<Rightarrow> BalanceEntry \<Rightarrow> eval_state \<Rightarrow>
     eval_state result" where
  "upgrade_with_handler E vm op entry margin s =
     ebind (ensure (amount (uc_exec_limit op) > 0) assert_exception) (\<lambda>_.
     if es_skipexec s then Inr s
     else
       ebind (ensure (result_ops s = []) assert_exception) (\<lambda>_.
       ebind (run_contract vm (uc_id op) CON_ON_UPGRADE_INTERFACE [] (con_owner entry)
                (amount (uc_exec_limit op)) (push_result_op (transaction_op (es_trx s)) s))
         (\<lambda>(fin, executed, s1).
       case fin of
         vm_out_of_money \<Rightarrow>
           catch_out_of_money (uc_balances op) (amount (uc_exec_limit op))
             (uc_transaction_fee op) True s1
       | vm_failed \<Rightarrow>
           catch_contract_error (uc_balances op) executed (uc_transaction_fee op) s1
       | vm_done \<Rightarrow>
           let cost = amount (get_amount executed 0);
               s2 = s1\<lparr>exec_cost := mk_Asset cost 0\<rparr>
           in
           ebind (ensure (cost \<le> amount (uc_exec_limit op) \<and> cost > 0) assert_exception) (\<lambda>_.
           ebind (get_amount_sum cost (amount (uc_transaction_fee op))) (\<lambda>required_amount.
           if evaluate_contract_testing s2 then Inr s2
           else
             ebind (withdraw_enough_balances (uc_balances op) required_amount) (\<lambda>withdraw_map.
             ebind (push_withdraw_contract (balance_id E margin) (bal_balance margin) s2) (\<lambda>s3.
             ebind (Asset_plus (uc_transaction_fee op) (mk_Asset ALP_DEFAULT_CONTRACT_MARGIN 0)) (\<lambda>fees.
             let s4 = push_result_op (balances_withdraw_op \<lparr>bw_balances = withdraw_map\<rparr>) s3;
                 s5 = push_result_op (on_upgrade_op \<lparr>ou_id = uc_id op, ou_name = uc_name op,
                        ou_desc = uc_desc op\<rparr>) s4
             in Inr (s5\<lparr>es_required_fees := fees\<rparr>)))))))))"

definition UpgradeContractOperation_evaluate ::
  "env \<Rightarrow> vm \<Rightarrow> UpgradeContractOperation \<Rightarrow> eval_state \<Rightarrow> eval_state result" where
  "UpgradeContractOperation_evaluate E vm op s =
     ebind (ensure (amount (uc_transaction_fee op) \<ge> 0) assert_exception) (\<lambda>_.
     ebind (ensure (\<not> evaluate_contract_result s) in_result_of_execute) (\<lambda>_.
     ebind (require contract_not_exist (contract_lookup_by_id (cur s) (uc_id op))) (\<lambda>entry.
     ebind (ensure (is_temporary_contract (con_level entry)) contract_upgraded) (\<lambda>_.
     ebind (ensure (\<not> is_destroyed_contract (con_state entry)) contract_destroyed) (\<lambda>_.
     ebind (ensure (is_valid_contract_name (uc_name op)) contract_name_illegal) (\<lambda>_.
     ebind (ensure (is_valid_contract_description (uc_desc op)) contract_desc_illegal) (\<lambda>_.
     ebind (ensure (contract_lookup_by_name (cur s) (uc_name op) = None) contract_name_in_use) (\<lambda>_.
     ebind (ensure (check_signature s (key_address E (con_owner entry))) missing_signature) (\<lambda>_.
     let s1 = s\<lparr>contract_operator := con_owner entry\<rparr> in
     ebind (margin_of E entry s1) (\<lambda>margin.
     ebind (if evaluate_contract_testing s1 then Inr 0
            else check_balances E s1 (uc_balances op) (key_address E (con_owner entry))) (\<lambda>all_amount.
     ebind (if is_contract_has_method CON_ON_UPGRADE_INTERFACE (code_abi (con_code entry))
            then upgrade_with_handler E vm op entry margin s1
            else
              ebind (ensure (amount (uc_exec_limit op) \<ge> 0) assert_exception) (\<lambda>_.
              if evaluate_contract_testing s1 then Inr s1
              else
                let s2 = restart_result s1 in
                ebind (ensure (amount (uc_transaction_fee op) \<le> all_amount) insufficient_funds) (\<lambda>_.
                ebind (push_balances_withdraw (uc_balances op) (amount (uc_transaction_fee op)) s2) (\<lambda>s3.
                ebind (push_withdraw_contract (balance_id E margin) (bal_balance margin) s3) (\<lambda>s4.
                ebind (Asset_plus (uc_transaction_fee op) (mk_Asset ALP_DEFAULT_CONTRACT_MARGIN 0)) (\<lambda>fees.
                let s5 = push_result_op (on_upgrade_op \<lparr>ou_id = uc_id op, ou_name = uc_name op,
                           ou_desc = uc_desc op\<rparr>) s4
                in Inr (s5\<lparr>es_required_fees := fees\<rparr>))))))) (\<lambda>s9.
       Inr (copy_expiration s9)))))))))))))"

definition OnUpgradeOperation_evaluate :: "OnUpgradeOperation \<Rightarrow> eval_state \<Rightarrow> eval_state result" where
  "OnUpgradeOperation_evaluate op s =
     ebind (ensure (evaluate_contract_result s) not_be_result_of_execute) (\<lambda>_.
     ebind (require contract_not_exist (contract_lookup_by_id (cur s) (ou_id op))) (\<lambda>entry.
       lift_chain (store_contract_entry
         (entry\<lparr>con_level := forever, con_contract_name := ou_name op,
            con_description := ou_desc op\<rparr>)) s))"

definition destroy_with_handler ::
  "env \<Rightarrow> vm \<Rightarrow> DestroyContractOperation \<Rightarrow> ContractEntry \<Rightarrow> BalanceEntry \<Rightarrow>
     BalanceEntry option \<Rightarrow> eval_state \<Rightarrow> eval_state result" where
  "destroy_with_handler E vm op entry margin contract_balance s =
     ebind (ensure (amount (dst_exec_limit op) > 0) assert_exception) (\<lambda>_.
     if es_skipexec s then Inr s
     else
       ebind (ensure (result_ops s = []) assert_exception) (\<lambda>_.
       let s0 = push_result_op (transaction_op (es_trx s)) s in
       ebind (case contract_balance of
                Some b \<Rightarrow> ebind (ensure (bal_asset_id b = 0) assert_exception) (\<lambda>_.
                            Inr (s0\<lparr>contract_balance_remain :=
                              amount (get_spendable_balance b (now E (cur s0)))\<rparr>))
              | None \<Rightarrow> Inr (s0\<lparr>contract_balance_remain := 0\<rparr>)) (\<lambda>s0'.
       ebind (run_contract vm (dst_id op) CON_ON_DESTROY_INTERFACE [] (con_owner entry)
                (amount (dst_exec_limit op)) s0') (\<lambda>(fin, executed, s1).
       case fin of
         vm_out_of_money \<Rightarrow>
           catch_out_of_money (dst_balances op) (amount (dst_exec_limit op))
             (dst_transaction_fee op) True s1
       | vm_failed \<Rightarrow>
           catch_contract_error (dst_balances op) executed (dst_transaction_fee op) s1
       | vm_done \<Rightarrow>
           let cost = amount (get_amount executed 0);
               s2 = s1\<lparr>exec_cost := mk_Asset cost 0\<rparr>
           in
           ebind (ensure (cost \<le> amount (dst_exec_limit op) \<and> cost > 0) assert_exception) (\<lambda>_.
           ebind (get_amount_sum cost (amount (dst_transaction_fee op))) (\<lambda>required_amount.
           if evaluate_contract_testing s2 then Inr s2
           else
             ebind (withdraw_enough_balances (dst_balances op) required_amount) (\<lambda>withdraw_map.
             let s3 = push_result_op (on_destroy_op \<lparr>od_id = dst_id op,
                        od_amount = mk_Asset (contract_balance_remain s2) 0\<rparr>) s2 in
             ebind (push_withdraw_contract (balance_id E margin) (bal_balance margin) s3) (\<lambda>s4.
             ebind (push_deposit (key_address E (con_owner entry)) (bal_balance margin) s4) (\<lambda>s5.
             let s6 = push_result_op (balances_withdraw_op \<lparr>bw_balances = withdraw_map\<rparr>) s5
             in Inr (s6\<lparr>es_required_fees := dst_transaction_fee op\<rparr>))))))))))"

definition DestroyContractOperation_evaluate ::
  "env \<Rightarrow> vm \<Rightarrow> DestroyContractOperation \<Rightarrow> eval_state \<Rightarrow> eval_state result" where
  "DestroyContractOperation_evaluate E vm op s =
     ebind (ensure (amount (dst_transaction_fee op) \<ge> 0) assert_exception) (\<lambda>_.
     ebind (ensure (\<not> evaluate_contract_result s) in_result_of_execute) (\<lambda>_.
     ebind (require contract_not_exist (contract_lookup_by_id (cur s) (dst_id op))) (\<lambda>entry.
     ebind (ensure (\<not> is_destroyed_contract (con_state entry)) contract_destroyed) (\<lambda>_.
     ebind (ensure (is_temporary_contract (con_level entry)) permanent_contract) (\<lambda>_.
     ebind (ensure (check_signature s (key_address E (con_owner entry))) missing_signature) (\<lambda>_.
     let s1 = s\<lparr>contract_operator := con_owner entry\<rparr> in
     ebind (margin_of E entry s1) (\<lambda>margin.
     let contract_balance = balance_lookup_by_id (cur s1)
           (get_balanceid E (con_id entry) withdraw_contract_type) in
     ebind (if evaluate_contract_testing s1 then Inr 0
            else check_balances E s1 (dst_balances op) (key_address E (con_owner entry))) (\<lambda>all_amount.
     ebind (if is_contract_has_method CON_ON_DESTROY_INTERFACE (code_abi (con_code entry))
            then destroy_with_handler E vm op entry margin contract_balance s1
            else
              ebind (ensure (amount (dst_exec_limit op) \<ge> 0) assert_exception) (\<lambda>_.
              if evaluate_contract_testing s1 then Inr s1
              else
                let s2 = restart_result s1 in
                ebind (ensure (amount (dst_transaction_fee op) \<le> all_amount) insufficient_funds) (\<lambda>_.
                ebind (push_balances_withdraw (dst_balances op) (amount (dst_transaction_fee op)) s2) (\<lambda>s3.
                ebind (push_withdraw_contract (balance_id E margin) (bal_balance margin) s3) (\<lambda>s4.
                ebind (push_deposit (key_address E (con_owner entry)) (bal_balance margin) s4) (\<lambda>s5.
                let s6 = push_result_op (on_destroy_op \<lparr>od_id = dst_id op,
                           od_amount = mk_Asset (case contract_balance of
                              Some b \<Rightarrow> bal_balance b | None \<Rightarrow> 0) 0\<rparr>) s5
                in Inr (s6\<lparr>es_required_fees := dst_transaction_fee op\<rparr>))))))) (\<lambda>s9.
       Inr (copy_expiration s9))))))))))"

text \<open>What is left in the contract goes to the owner's balance.\<close>

definition refund_owner ::
  "env \<Rightarrow> OnDestroyOperation \<Rightarrow> ContractEntry \<Rightarrow> BalanceEntry \<Rightarrow> eval_state \<Rightarrow> eval_state result" where
  "refund_owner E op entry b s =
     ebind (ensure (bal_asset_id b = 0) assert_exception) (\<lambda>_.
     let deposit_amount = amount (get_spendable_balance b (now E (cur s))) in
     ebind (ensure (deposit_amount = amount (od_amount op)) assert_exception) (\<lambda>_.
     ebind (add_balance (mk_Asset deposit_amount 0) s) (\<lambda>s1.
     ebind (lift_chain (store_balance_entry E (b\<lparr>bal_balance := 0\<rparr>)) s1) (\<lambda>s2.
     let cond = signature_condition (key_address E (con_owner entry)) 0 0 withdraw_common_type;
         dest = (case balance_lookup_by_id (cur s2) (cond_address E cond) of
                   Some e \<Rightarrow> e | None \<Rightarrow> new_balance cond)
     in
     ebind (contract_deposit_date_after E (now E (cur s2)) dest deposit_amount) (\<lambda>date.
     ebind (sub_balance (mk_Asset deposit_amount (bal_asset_id dest)) s2) (\<lambda>s3.
     ebind (require_asset (bal_asset_id dest) s3) (\<lambda>_.
       lift_chain (store_balance_entry E
         (dest\<lparr>bal_deposit_date := date,
            bal_balance := wrap64 (bal_balance dest + deposit_amount),
            bal_last_update := now E (cur s3)\<rparr>)) s3)))))))"

definition OnDestroyOperation_evaluate ::
  "env \<Rightarrow> OnDestroyOperation \<Rightarrow> eval_state \<Rightarrow> eval_state result" where
  "OnDestroyOperation_evaluate E op s =
     ebind (ensure (evaluate_contract_result s) not_be_result_of_execute) (\<lambda>_.
     ebind (require contract_not_exist (contract_lookup_by_id (cur s) (od_id op))) (\<lambda>entry.
     ebind (case balance_lookup_by_id (cur s)
                   (get_balanceid E (con_id entry) withdraw_contract_type) of
              Some b \<Rightarrow> refund_owner E op entry b s
            | None \<Rightarrow> Inr s) (\<lambda>s1.
       lift_chain (store_contract_entry (entry\<lparr>con_state := contract_deleted\<rparr>)) s1)))"

section \<open>Register\<close>

definition new_ContractEntry :: "env \<Rightarrow> ContractEntry" where
  "new_ContractEntry E =
     \<lparr>con_contract_name = [], con_id = 0, con_level = temp, con_owner = null_key E,
      con_state = contract_valid, con_description = [],
      con_code = \<lparr>code_abi = [], code_offline_abi = [], code_events = [],
        code_storage_properties = [], code_byte_code = [], code_hash = []\<rparr>,
      con_reserved = None, con_trx_id = 0, con_register_time = 0\<rparr>"

definition get_contract_id :: "env \<Rightarrow> RegisterContractOperation \<Rightarrow> address" where
  "get_contract_id E op = contract_hash_id E op"

text \<open>
  The funds an origin transaction must offer: margin, register fee, initial cost and
  transaction fee. The result is the register fee, 0 in a test run.
\<close>

definition register_funds ::
  "env \<Rightarrow> RegisterContractOperation \<Rightarrow> eval_state \<Rightarrow> share result" where
  "register_funds E op s =
     (if evaluate_contract_testing s then Inr 0
      else
        ebind (check_balances E s (rc_balances op) (key_address E (rc_owner op))) (\<lambda>all_amount.
        let margin = amount get_default_margin;
            register_fee = amount (get_contract_register_fee (rc_contract_code op))
        in
        ebind (ensure (margin > 0) assert_exception) (\<lambda>_.
        ebind (ensure (register_fee > 0) assert_exception) (\<lambda>_.
        ebind (ensure (amount (rc_initcost op) > 0) assert_exception) (\<lambda>_.
        ebind (ensure (amount (rc_transaction_fee op) > 0) assert_exception) (\<lambda>_.
        ebind (get_amount_sum margin register_fee) (\<lambda>r1.
        ebind (get_amount_sum r1 (amount (rc_initcost op))) (\<lambda>r2.
        ebind (get_amount_sum r2 (amount (rc_transaction_fee op))) (\<lambda>r3.
        ebind (ensure (r3 \<le> all_amount) insufficient_funds) (\<lambda>_. Inr register_fee))))))))))"

text \<open>The run of \<open>init\<close> and the two \<open>catch\<close> clauses.\<close>

definition register_run ::
  "env \<Rightarrow> vm \<Rightarrow> RegisterContractOperation \<Rightarrow> share \<Rightarrow> eval_state \<Rightarrow> eval_state result" where
  "register_run E vm op register_fee s =
     ebind (ensure (result_ops s = []) assert_exception) (\<lambda>_.
     let limit = get_limit 0 (amount (rc_initcost op));
         started = push_result_op (contract_info_op \<lparr>ci_contract_id = get_contract_id E op,
                     ci_owner = rc_owner op, ci_code = rc_contract_code op,
                     ci_register_time = rc_register_time op\<rparr>)
                     (copy_expiration (restart_result s));
         r = vm (get_contract_id E op) CON_INIT_INTERFACE [] (rc_owner op) limit started;
         fin = (if limit \<le> 0 then vm_out_of_money else vm_end_of r);
         s1 = (if limit \<le> 0 then s else vm_state r)
     in case fin of
          vm_out_of_money \<Rightarrow>
            (if evaluate_contract_testing s1 then Inl contract_run_out_of_testing_money
             else if throw_exec_exception s1 then Inl contract_run_out_of_money
             else
               ebind (get_amount_sum register_fee (amount (rc_transaction_fee op))) (\<lambda>r1.
               ebind (get_amount_sum r1 (amount (rc_initcost op))) (\<lambda>r2.
                 push_balances_withdraw (rc_balances op) r2 (copy_expiration (restart_result s1)))))
        | vm_failed \<Rightarrow>
            (if evaluate_contract_testing s1 then Inl contract_execute_error_in_testing
             else if throw_exec_exception s1 then Inl contract_execute_error
             else
               ebind (Asset_plus (get_amount (vm_executed r) 0) (es_required_fees s1)) (\<lambda>cost.
                 push_balances_withdraw (rc_balances op) (amount cost)
                   (copy_expiration (set_result_ops (take 1 (result_ops s1)) s1))))
        | vm_done \<Rightarrow>
            let cost = amount (get_amount (vm_executed r) 0);
                s2 = s1\<lparr>exec_cost := mk_Asset cost 0\<rparr>
            in
            ebind (ensure (cost \<le> amount (rc_initcost op) \<and> cost > 0) assert_exception) (\<lambda>_.
            if evaluate_contract_testing s2 then Inr s2
            else
              ebind (get_amount_sum cost (amount get_default_margin)) (\<lambda>r1.
              ebind (get_amount_sum r1 register_fee) (\<lambda>r2.
              ebind (get_amount_sum r2 (amount (rc_transaction_fee op))) (\<lambda>r3.
              ebind (push_balances_withdraw (rc_balances op) r3 s2) (\<lambda>s3.
                Inr (push_result_op (deposit_contract_op (mk_DepositContractOperation
                       (get_contract_id E op) get_default_margin withdraw_margin_type)) s3)))))))"

definition RegisterContractOperation_evaluate ::
  "env \<Rightarrow> vm \<Rightarrow> RegisterContractOperation \<Rightarrow> eval_state \<Rightarrow> eval_state result" where
  "RegisterContractOperation_evaluate E vm op s =
     ebind (ensure (amount (rc_initcost op) > 0) assert_exception) (\<lambda>_.
     ebind (ensure (amount (rc_transaction_fee op) \<ge> 0) assert_exception) (\<lambda>_.
     ebind (ensure (\<not> evaluate_contract_result s) in_result_of_execute) (\<lambda>_.
     ebind (ensure (contract_lookup_by_id (cur s) (get_contract_id E op) = None)
              contract_address_in_use) (\<lambda>_.
     ebind (ensure (check_signature s (key_address E (rc_owner op))) missing_signature) (\<lambda>_.
     ebind (register_funds E op s) (\<lambda>register_fee.
     ebind (ensure (code_hash (rc_contract_code op) = code_sha E (rc_contract_code op))
              code_hash_error) (\<lambda>_.
     ebind (lift_chain (store_contract_entry
              ((new_ContractEntry E)\<lparr>con_owner := rc_owner op, con_code := rc_contract_code op,
                 con_level := temp, con_state := contract_valid, con_id := get_contract_id E op,
                 con_trx_id := trx_id E (es_trx s)\<rparr>)) s) (\<lambda>s1.
     ebind (Asset_plus (rc_transaction_fee op) (get_contract_register_fee (rc_contract_code op))) (\<lambda>fees.
     let s2 = s1\<lparr>contract_operator := rc_owner op, es_required_fees := fees\<rparr> in
     ebind (if es_skipexec s2 then Inr s2 else register_run E vm op register_fee s2) (\<lambda>s3.
       lift_chain (remove_contract_entry (get_contract_id E op)) s3))))))))))"

section \<open>Call\<close>

text \<open>The run of a call: the result transaction so far and the amount to withdraw for it.\<close>

definition call_run ::
  "env \<Rightarrow> vm \<Rightarrow> CallContractOperation \<Rightarrow> share \<Rightarrow> share \<Rightarrow> eval_state \<Rightarrow>
     (share \<times> eval_state) result" where
  "call_run E vm op all_amount required_amount s =
     ebind (ensure (result_ops s = []) assert_exception) (\<lambda>_.
     let s0 = copy_expiration (push_result_op on_call_success_op
                (push_result_op (transaction_op (es_trx s)) s)) in
     ebind (ensure (\<not> evaluate_contract_testing s0 \<longrightarrow> amount (cc_transaction_fee op) \<le> all_amount)
              assert_exception) (\<lambda>_.
     ebind (run_contract vm (cc_contract op) (cc_method op) (cc_args op) (cc_caller op)
              (amount (cc_costlimit op)) s0) (\<lambda>(fin, executed, s1).
     case fin of
       vm_out_of_money \<Rightarrow>
         if evaluate_contract_testing s1 then Inl contract_run_out_of_testing_money
         else if throw_exec_exception s1 then Inl contract_run_out_of_money
         else Inr (required_amount, copy_expiration (restart_result s1))
     | vm_failed \<Rightarrow>
         if evaluate_contract_testing s1 then Inl contract_execute_error_in_testing
         else if throw_exec_exception s1 then Inl contract_execute_error
         else
           ebind (Asset_plus (get_amount executed 0) (cc_transaction_fee op)) (\<lambda>cost.
             Inr (amount cost, copy_expiration (set_result_ops (take 1 (result_ops s1)) s1)))
     | vm_done \<Rightarrow>
         let left = wrap32 (get_limit 0 (amount (cc_costlimit op)) - executed);
             s2 = s1\<lparr>exec_cost := get_amount executed 0\<rparr>
         in Inr (if left > 0 then wrap64 (required_amount - amount (get_amount left 0))
                 else required_amount, s2))))"

definition CallContractOperation_evaluate ::
  "env \<Rightarrow> vm \<Rightarrow> CallContractOperation \<Rightarrow> eval_state \<Rightarrow> eval_state result" where
  "CallContractOperation_evaluate E vm op s =
     ebind (ensure (amount (cc_costlimit op) > 0) assert_exception) (\<lambda>_.
     ebind (ensure (amount (cc_transaction_fee op) \<ge> 0) assert_exception) (\<lambda>_.
     ebind (ensure (\<not> evaluate_contract_result s) in_result_of_execute) (\<lambda>_.
     ebind (require contract_not_exist (contract_lookup_by_id (cur s) (cc_contract op))) (\<lambda>entry.
     ebind (ensure (con_state entry \<noteq> contract_deleted) contract_destroyed) (\<lambda>_.
     ebind (ensure (\<not> is_function_not_allow_call (cc_method op))
              method_can_not_be_called_explicitly) (\<lambda>_.
     ebind (ensure (length (cc_args op) \<le> CONTRACT_PARAM_MAX_LEN)
              contract_parameter_length_over_limit) (\<lambda>_.
     ebind (ensure (is_contract_has_method (cc_method op) (code_abi (con_code entry)))
              method_not_exist) (\<lambda>_.
     ebind (ensure (check_signature s (key_address E (cc_caller op))) missing_signature) (\<lambda>_.
     let s1 = s\<lparr>contract_operator := cc_caller op\<rparr> in
     ebind (if evaluate_contract_testing s1 then Inr (0, 0)
            else
              ebind (check_balances E s1 (cc_balances op) (key_address E (cc_caller op))) (\<lambda>all_amount.
              ebind (get_amount_sum (amount (cc_costlimit op)) (amount (cc_transaction_fee op))) (\<lambda>req.
              ebind (ensure (req \<le> all_amount) insufficient_funds) (\<lambda>_. Inr (all_amount, req))))) (\<lambda>(all_amount, req).
     let s2 = s1\<lparr>es_required_fees := cc_transaction_fee op\<rparr> in
     if es_skipexec s2 then Inr s2
     else
       ebind (call_run E vm op all_amount req s2) (\<lambda>(req', s3).
         if evaluate_contract_testing s3 then Inr s3
         else push_balances_withdraw (cc_balances op) req' s3)))))))))))"

definition ContractInfoOperation_evaluate ::
  "env \<Rightarrow> ContractInfoOperation \<Rightarrow> eval_state \<Rightarrow> eval_state result" where
  "ContractInfoOperation_evaluate E op s =
     ebind (ensure (evaluate_contract_result s) not_be_result_of_execute) (\<lambda>_.
     ebind (ensure (contract_lookup_by_id (cur s) (ci_contract_id op) = None)
              contract_address_in_use) (\<lambda>_.
     ebind (ensure (code_hash (ci_code op) = code_sha E (ci_code op)) code_hash_error) (\<lambda>_.
     let tid = trx_id E (es_trx s) in
     ebind (lift_chain (store_contract_entry
              ((new_ContractEntry E)\<lparr>con_code := ci_code op, con_id := ci_contract_id op,
                 con_register_time := ci_register_time op, con_trx_id := tid,
                 con_owner := ci_owner op\<rparr>)) s) (\<lambda>s1.
     ebind (lift_chain (ContractinTrxEntry_store tid (ci_contract_id op)) s1) (\<lambda>s2.
       lift_chain (ContractTrxEntry_store (ci_contract_id op) tid) s2)))))"

definition OnCallSuccessOperation_evaluate :: "eval_state \<Rightarrow> eval_state result" where
  "OnCallSuccessOperation_evaluate s = Inr s"

section \<open>Transfer\<close>

text \<open>The decimal text of the amount that \<open>on_deposit\<close> receives; it is positive.\<close>

fun digits_of :: "nat \<Rightarrow> string" where
  "digits_of n =
     (if n < 10 then [char_of (48 + n)] else digits_of (n div 10) @ [char_of (48 + n mod 10)])"

declare digits_of.simps [simp del, eval_simps]

text \<open>
  The contract sees the transferred amount in its balance while \<open>on_deposit\<close> runs; the balance
  is put back before the outcome is looked at.
\<close>

definition transfer_with_handler ::
  "env \<Rightarrow> vm \<Rightarrow> TransferContractOperation \<Rightarrow> eval_state \<Rightarrow> eval_state result" where
  "transfer_with_handler E vm op s =
     (if es_skipexec s then Inr s
      else
        ebind (ensure (result_ops s = []) assert_exception) (\<lambda>_.
        let s0 = push_result_op (transaction_op (es_trx s)) s;
            limit = get_limit 0 (amount (tc_costlimit op));
            fee = tc_transaction_fee op;
            deposit_contract = mk_DepositContractOperation (tc_contract_id op)
              (tc_transfer_amount op) withdraw_contract_type;
            b = (case balance_lookup_by_id (cur s0) (cond_address E (dc_condition deposit_contract)) of
                   Some e \<Rightarrow> e
                 | None \<Rightarrow> (new_balance (dc_condition deposit_contract))\<lparr>
                     bal_deposit_date := now E (cur s0), bal_last_update := now E (cur s0)\<rparr>)
        in
        if limit \<le> 0 then catch_out_of_money (tc_balances op) (amount (tc_costlimit op)) fee False s0
        else
          ebind (lift_chain (store_balance_entry E (b\<lparr>bal_balance :=
                   wrap64 (bal_balance b + amount (tc_transfer_amount op))\<rparr>)) s0) (\<lambda>s1.
          let r = vm (tc_contract_id op) CON_ON_DEPOSIT_INTERFACE
                    (digits_of (nat (amount (tc_transfer_amount op)))) (tc_from op) limit s1 in
          ebind (lift_chain (store_balance_entry E b) (vm_state r)) (\<lambda>s2.
          if vm_internal_error r then Inl lua_executor_internal_error
          else
            case vm_end_of r of
              vm_out_of_money \<Rightarrow>
                catch_out_of_money (tc_balances op) (amount (tc_costlimit op)) fee False s2
            | vm_failed \<Rightarrow> catch_contract_error (tc_balances op) (vm_executed r) fee s2
            | vm_done \<Rightarrow>
                let cost = amount (get_amount (vm_executed r) 0);
                    s3 = s2\<lparr>exec_cost := mk_Asset cost 0\<rparr>
                in
                ebind (ensure (cost \<le> amount (tc_costlimit op) \<and> cost > 0) assert_exception) (\<lambda>_.
                ebind (get_amount_sum cost (amount (tc_transfer_amount op))) (\<lambda>r1.
                ebind (get_amount_sum r1 (amount fee)) (\<lambda>r2.
                if evaluate_contract_testing s3 then Inr s3
                else
                  ebind (push_balances_withdraw (tc_balances op) r2 s3) (\<lambda>s4.
                    Inr (push_result_op (deposit_contract_op deposit_contract) s4)))))))))"

definition TransferContractOperation_evaluate ::
  "env \<Rightarrow> vm \<Rightarrow> TransferContractOperation \<Rightarrow> eval_state \<Rightarrow> eval_state result" where
  "TransferContractOperation_evaluate E vm op s =
     ebind (ensure (amount (tc_transaction_fee op) \<ge> 0) assert_exception) (\<lambda>_.
     ebind (ensure (\<not> evaluate_contract_result s) in_result_of_execute) (\<lambda>_.
     ebind (require contract_not_exist (contract_lookup_by_id (cur s) (tc_contract_id op))) (\<lambda>entry.
     ebind (ensure (con_state entry \<noteq> contract_deleted) contract_destroyed) (\<lambda>_.
     ebind (ensure (check_signature s (key_address E (tc_from op))) missing_signature) (\<lambda>_.
     ebind (ensure (amount (tc_transfer_amount op) > 0) transfer_amount_not_bigger_than_0) (\<lambda>_.
     ebind (ensure (asset_of (tc_transfer_amount op) = 0) assert_exception) (\<lambda>_.
     ebind (ensure (asset_of (tc_costlimit op) = 0) assert_exception) (\<lambda>_.
     let has_on_deposit =
           is_contract_has_method CON_ON_DEPOSIT_INTERFACE (code_abi (con_code entry)) in
     ebind (ensure (if has_on_deposit then amount (tc_costlimit op) > 0
                    else amount (tc_costlimit op) \<ge> 0) assert_exception) (\<lambda>_.
     let s1 = s\<lparr>contract_operator := tc_from op\<rparr> in
     ebind (if evaluate_contract_testing s1 then Inr s1
            else
              ebind (check_balances E s1 (tc_balances op) (key_address E (tc_from op))) (\<lambda>all_amount.
              ebind (get_amount_sum (amount (tc_costlimit op)) (amount (tc_transfer_amount op))) (\<lambda>r1.
              ebind (get_amount_sum r1 (amount (tc_transaction_fee op))) (\<lambda>r2.
              ebind (ensure (r2 \<le> all_amount) insufficient_funds) (\<lambda>_.
                Inr (s1\<lparr>es_required_fees := tc_transaction_fee op\<rparr>)))))) (\<lambda>s2.
     ebind (if has_on_deposit then transfer_with_handler E vm op s2
            else if evaluate_contract_testing s2 then Inr s2
            else
              ebind (get_amount_sum (amount (tc_transaction_fee op)) (amount (tc_transfer_amount op))) (\<lambda>req.
              ebind (push_balances_withdraw (tc_balances op) req (restart_result s2)) (\<lambda>s3.
                Inr (push_result_op (deposit_contract_op (mk_DepositContractOperation
                       (tc_contract_id op) (tc_transfer_amount op) withdraw_contract_type)) s3)))) (\<lambda>s9.
       Inr (copy_expiration s9))))))))))))"

section \<open>Storage\<close>

fun storage_type :: "StorageDataType \<Rightarrow> nat" where
  "storage_type (storage_null _) = 0"
| "storage_type (storage_int _) = 1"
| "storage_type (storage_number _) = 2"
| "storage_type (storage_bool _) = 3"
| "storage_type (storage_string _) = 4"
| "storage_type (storage_int_table _) = 51"
| "storage_type (storage_number_table _) = 52"
| "storage_type (storage_bool_table _) = 53"
| "storage_type (storage_string_table _) = 54"
| "storage_type (storage_int_array _) = 101"
| "storage_type (storage_number_array _) = 102"
| "storage_type (storage_bool_array _) = 103"
| "storage_type (storage_string_array _) = 104"
| "storage_type (storage_raw ty _) = ty"

definition is_any_base_storage_value_type :: "nat \<Rightarrow> bool" where
  "is_any_base_storage_value_type ty \<longleftrightarrow> 1 \<le> ty \<and> ty \<le> 5"

definition update_contract_map_storage ::
  "(string \<times> 'v) list \<Rightarrow> (string \<times> 'v) list \<Rightarrow> (string \<times> 'v) list \<Rightarrow> (string \<times> 'v) list" where
  "update_contract_map_storage table before after =
     fold (\<lambda>(k, v). smap_set k v) after (fold (\<lambda>kv. smap_del (fst kv)) before table)"

text \<open>
  \<open>as\<close> asserts the tag and unpacks the bytes; a value with the tag of a table but bytes that do
  not unpack (\<open>storage_raw\<close>) throws.
\<close>

definition update_storage_table ::
  "StorageDataChangeType \<Rightarrow> StorageDataType \<Rightarrow> StorageDataType result" where
  "update_storage_table change v =
     (case (v, storage_before change, storage_after change) of
        (storage_int_table t, storage_int_table b, storage_int_table a) \<Rightarrow>
          Inr (storage_int_table (update_contract_map_storage t b a))
      | (storage_number_table t, storage_number_table b, storage_number_table a) \<Rightarrow>
          Inr (storage_number_table (update_contract_map_storage t b a))
      | (storage_bool_table t, storage_bool_table b, storage_bool_table a) \<Rightarrow>
          Inr (storage_bool_table (update_contract_map_storage t b a))
      | (storage_string_table t, storage_string_table b, storage_string_table a) \<Rightarrow>
          Inr (storage_string_table (update_contract_map_storage t b a))
      | (storage_int_array t, storage_int_array b, storage_int_array a) \<Rightarrow>
          Inr (storage_int_array (update_contract_map_storage t b a))
      | (storage_number_array t, storage_number_array b, storage_number_array a) \<Rightarrow>
          Inr (storage_number_array (update_contract_map_storage t b a))
      | (storage_bool_array t, storage_bool_array b, storage_bool_array a) \<Rightarrow>
          Inr (storage_bool_array (update_contract_map_storage t b a))
      | (storage_string_array t, storage_string_array b, storage_string_array a) \<Rightarrow>
          Inr (storage_string_array (update_contract_map_storage t b a))
      | _ \<Rightarrow> if storage_type v = storage_type (storage_before change) \<and>
               storage_type v = storage_type (storage_after change)
            then Inl out_of_range_exception else Inl assert_exception)"

text \<open>
  A value of a base type is replaced: the checks of \<open>evaluate\<close> have made its tag that of the
  new value.
\<close>

definition update_contract_storages ::
  "string \<times> StorageDataChangeType \<Rightarrow> (string \<times> StorageDataType) list \<Rightarrow>
     (string \<times> StorageDataType) list result" where
  "update_contract_storages item storages =
     (let name = fst item; change = snd item;
          before_null = (storage_type (storage_before change) = 0);
          after_null = (storage_type (storage_after change) = 0)
      in if before_null \<and> \<not> after_null then Inr (smap_set name (storage_after change) storages)
         else if after_null then Inr (smap_del name storages)
         else
           ebind (require assert_exception (map_of storages name)) (\<lambda>v.
           if is_any_base_storage_value_type (storage_type v)
           then Inr (smap_set name (storage_after change) storages)
           else if storage_type v \<in> {51, 52, 53, 54, 101, 102, 103, 104}
           then ebind (update_storage_table change v) (\<lambda>v'. Inr (smap_set name v' storages))
           else Inr storages))"

definition storage_change_ok ::
  "(string \<times> StorageDataType) list \<Rightarrow> string \<times> StorageDataChangeType \<Rightarrow> bool" where
  "storage_change_ok storages item \<longleftrightarrow>
     (let change = snd item;
          tb = storage_type (storage_before change);
          ta = storage_type (storage_after change)
      in (tb \<noteq> 0 \<and> ta \<noteq> 0 \<longrightarrow> tb = ta) \<and>
         (case map_of storages (fst item) of
            None \<Rightarrow> True
          | Some v \<Rightarrow> storage_type v \<noteq> 0 \<and> tb \<noteq> 0 \<longrightarrow> storage_type v = tb))"

definition StorageOperation_evaluate :: "StorageOperation \<Rightarrow> eval_state \<Rightarrow> eval_state result" where
  "StorageOperation_evaluate op s =
     ebind (ensure (evaluate_contract_result s) not_be_result_of_execute) (\<lambda>_.
     let storages = (case contractstorage_lookup_by_id (cur s) (st_contract_id op) of
                       None \<Rightarrow> [] | Some e \<Rightarrow> cst_contract_storages e) in
     ebind (ensure (\<forall>item \<in> set (st_contract_change_storages op). storage_change_ok storages item)
              assert_exception) (\<lambda>_.
     ebind (efold update_contract_storages (st_contract_change_storages op) storages) (\<lambda>storages'.
       lift_chain (store_contractstorage_entry
         \<lparr>cst_id = st_contract_id op, cst_contract_storages = storages'\<rparr>) s)))"

lemmas contract_op_defs =
  upgrade_with_handler_def UpgradeContractOperation_evaluate_def OnUpgradeOperation_evaluate_def
  destroy_with_handler_def DestroyContractOperation_evaluate_def refund_owner_def
  OnDestroyOperation_evaluate_def new_ContractEntry_def get_contract_id_def register_funds_def
  register_run_def RegisterContractOperation_evaluate_def call_run_def
  CallContractOperation_evaluate_def ContractInfoOperation_evaluate_def
  OnCallSuccessOperation_evaluate_def transfer_with_handler_def
  TransferContractOperation_evaluate_def is_any_base_storage_value_type_def
  update_contract_map_storage_def update_storage_table_def update_contract_storages_def
  storage_change_ok_def StorageOperation_evaluate_def

declare contract_op_defs [eval_simps]

end
