(* ===== verification/Evaluate.thy ===== *)
theory Evaluate
  imports Contract_Ops
begin

text \<open>
  \<open>TransactionEvaluationState::evaluate\<close>: the checks on a transaction, the dispatch of its
  operations through \<open>OperationFactory\<close>, the nested evaluation of the origin transaction of a
  result transaction (\<open>TransactionOperation\<close>), and the final accounting.
\<close>

section \<open>Shape checks\<close>

definition is_contract_op :: "nat \<Rightarrow> bool" where
  "is_contract_op ty \<longleftrightarrow> register_contract_op_type \<le> ty \<and> ty \<le> transfer_contract_op_type"

fun origin_scan :: "Operation list \<Rightarrow> bool option" where
  "origin_scan [] = Some False"
| "origin_scan (op # ops) =
     (if op_type op = transaction_op_type then None
      else if is_contract_op (op_type op) then Some True
      else origin_scan ops)"

text \<open>The scan stops at the first transaction operation or contract operation.\<close>

definition origin_trx_basic_verify :: "SignedTransaction \<Rightarrow> bool" where
  "origin_trx_basic_verify t =
     (case origin_scan (operations t) of
        None \<Rightarrow> False
      | Some has_contract_op \<Rightarrow> \<not> (has_contract_op \<and> length (operations t) \<noteq> 1))"

definition reset_expiration :: "Operation \<Rightarrow> Operation" where
  "reset_expiration op =
     (case op of transaction_op t \<Rightarrow> transaction_op (set_expiration 0 t) | _ \<Rightarrow> op)"

definition is_contract_op_same :: "env \<Rightarrow> Operation \<Rightarrow> Operation \<Rightarrow> bool" where
  "is_contract_op_same E l r \<longleftrightarrow>
     op_type l = op_type r \<and> op_hash E (reset_expiration l) = op_hash E (reset_expiration r)"

definition is_contract_trxs_same :: "env \<Rightarrow> SignedTransaction \<Rightarrow> SignedTransaction \<Rightarrow> bool" where
  "is_contract_trxs_same E l r \<longleftrightarrow>
     length (operations l) = length (operations r) \<and>
     list_all2 (is_contract_op_same E) (operations l) (operations r)"

section \<open>The dispatch\<close>

text \<open>The operation types that \<open>Operations.cpp\<close> registers with the factory.\<close>

definition registered_types :: "nat list" where
  "registered_types = [1, 2, 3, 4, 5, 6, 7, 8, 18, 24, 27, 30, 66, 68, 70, 71, 72, 80, 74, 88, 90,
     91, 73, 100, 82, 108, 109, 110]"

definition store_transaction :: "env \<Rightarrow> eval_state \<Rightarrow> eval_state result" where
  "store_transaction E s =
     lift_chain (TransactionEntry_store E (trx_id E (es_trx s)) (to_entry s)) s"

definition charge_signatures :: "nat \<Rightarrow> eval_state \<Rightarrow> eval_state" where
  "charge_signatures num_of_signature s =
     (let signum_to_charge = int num_of_signature - int ALP_BLOCKCHAIN_FREESIGNATURE_LIMIT in
      if signum_to_charge \<ge> 0
      then s\<lparr>es_required_fees := (es_required_fees s)\<lparr>amount :=
               wrap64 (amount (es_required_fees s) +
                       signum_to_charge * ALP_BLOCKCHAIN_EXTRA_SIGNATURE_FEE)\<rparr>\<rparr>
      else s)"

definition recover_signatures :: "env \<Rightarrow> SignedTransaction \<Rightarrow> nat list \<Rightarrow> eval_state \<Rightarrow> eval_state result" where
  "recover_signatures E t sigs s =
     (if skip_signature_check s then Inr s
      else efold (add_signature E (trx_digest E t (the_chain_id E))) sigs s)"

text \<open>The checks of a transaction before its operations run.\<close>

definition check_transaction :: "env \<Rightarrow> SignedTransaction \<Rightarrow> chain \<Rightarrow> unit result" where
  "check_transaction E t c =
     ebind (ensure (now E c < expiration t) expired_transaction) (\<lambda>_.
     ebind (ensure (\<not> now E c + ALP_BLOCKCHAIN_BLOCK_INTERVAL_SEC +
                        ALP_BLOCKCHAIN_MAX_TRANSACTION_EXPIRATION_SEC < expiration t)
              invalid_transaction_expiration) (\<lambda>_.
     ebind (ensure (\<not> (origin_trx_basic_verify t \<and> trx_data_size E t > ALP_BLOCKCHAIN_MAX_TRX_SIZE))
              out_of_max_trx_size) (\<lambda>_.
     ebind (ensure (\<not> is_known_transaction E c t) duplicate_transaction) (\<lambda>_.
     ebind (check_operations_legality t) (\<lambda>legal.
     ebind (ensure legal illegal_transaction) (\<lambda>_.
       ensure (length (signatures t) \<le> ALP_BLOCKCHAIN_MAX_SIGNAGTURE_NUM) too_much_signature))))))"

text \<open>A transaction whose fee is checked only once its result is known.\<close>

definition ignores_required_fee :: "SignedTransaction \<Rightarrow> bool" where
  "ignores_required_fee t \<longleftrightarrow>
     (\<exists>op \<in> set (operations t). is_contract_op (op_type op) \<or>
        (op_type op = transaction_op_type \<and> result_trx_type t = incomplete_result_transaction))"

definition next_op :: "eval_state \<Rightarrow> eval_state" where
  "next_op s = s\<lparr>current_op_index := Suc (current_op_index s)\<rparr>"

text \<open>
  The end of the block that evaluates a result transaction: an incomplete one is stored and
  replaced by the complete result.
\<close>

definition finish_result ::
  "env \<Rightarrow> SignedTransaction \<Rightarrow> eval_state \<Rightarrow> (SignedTransaction \<times> eval_state) result" where
  "finish_result E t s =
     ebind (if result_trx_type t = incomplete_result_transaction
            then ebind (store_transaction E (s\<lparr>es_trx := t\<rparr>)) (\<lambda>s1.
                   Inr (set_result complete_result_transaction (trx_id E (p_result_trx s1))
                          (p_result_trx s1), s1))
            else Inr (t, s)) (\<lambda>(result_trx, s2).
       Inr (result_trx, set_result_ops [] (s2\<lparr>evaluate_contract_result := False\<rparr>)))"

definition settle :: "env \<Rightarrow> eval_state \<Rightarrow> eval_state result" where
  "settle E s =
     ebind (post_evaluate s) (\<lambda>s1.
     ebind (validate_required_fee s1) (\<lambda>_. update_delegate_votes E s1))"

definition finish_transaction ::
  "env \<Rightarrow> SignedTransaction \<Rightarrow> SignedTransaction \<Rightarrow> eval_state \<Rightarrow> (bool \<times> eval_state) result" where
  "finish_transaction E t result_trx s =
     (let s1 = charge_signatures (length (signatures t)) s in
      ebind (if ignores_required_fee t then Inr s1 else settle E s1) (\<lambda>s2.
      ebind (store_transaction E (s2\<lparr>es_trx := result_trx\<rparr>)) (\<lambda>s3.
        Inr (ignores_required_fee t, s3))))"

lemma operation_size [termination_simp]: "op \<in> set (operations t) \<Longrightarrow> size op < size t"
proof -
  assume "op \<in> set (operations t)"
  then have "size op \<le> size_list size (operations t)" by (simp add: size_list_estimation')
  then show ?thesis by (cases t) simp
qed

text \<open>
  \<open>evaluate_core\<close> is \<open>evaluate\<close> up to its last statement; the flag it returns is the local
  \<open>ignore_check_required_fee\<close>.
\<close>

function evaluate_core ::
  "env \<Rightarrow> vm \<Rightarrow> SignedTransaction \<Rightarrow> eval_state \<Rightarrow> (bool \<times> eval_state) result"
and evaluate_operation :: "env \<Rightarrow> vm \<Rightarrow> Operation \<Rightarrow> eval_state \<Rightarrow> eval_state result" where
  "evaluate_core E vm t s =
     ebind (check_transaction E t (cur s)) (\<lambda>_.
     ebind (recover_signatures E t (fold sset_insert (signatures t) []) (s\<lparr>es_trx := t\<rparr>)) (\<lambda>s1.
     let s2 = s1\<lparr>current_op_index := 0\<rparr> in
     case operations t of
       first # rest \<Rightarrow>
         if op_type first = transaction_op_type then
           ebind (evaluate_operation E vm first s2) (\<lambda>s3.
           ebind (ensure (\<not> es_skipexec s3 \<longrightarrow> result_trx_id t = trx_id E (p_result_trx s3))
                    assert_exception) (\<lambda>_.
           ebind (efold (\<lambda>op s. ebind (evaluate_operation E vm op s) (\<lambda>s'. Inr (next_op s')))
                    rest ((next_op s3)\<lparr>evaluate_contract_result := True\<rparr>)) (\<lambda>s4.
           ebind (finish_result E t s4) (\<lambda>(result_trx, s5).
             finish_transaction E t result_trx s5))))
         else
           ebind (efold (\<lambda>op s. ebind (evaluate_operation E vm op s) (\<lambda>s'. Inr (next_op s')))
                    (operations t) s2) (\<lambda>s3.
             finish_transaction E t t s3)
     | [] \<Rightarrow> finish_transaction E t t s2))"
| "evaluate_operation E vm (withdraw_op op) s = WithdrawOperation_evaluate E op s"
| "evaluate_operation E vm (deposit_op op) s = DepositOperation_evaluate E op s"
| "evaluate_operation E vm (register_account_op op) s = RegisterAccountOperation_evaluate E op s"
| "evaluate_operation E vm (update_account_op op) s = UpdateAccountOperation_evaluate E op s"
| "evaluate_operation E vm (withdraw_pay_op op) s = WithdrawPayOperation_evaluate E op s"
| "evaluate_operation E vm (create_asset_op op) s = CreateAssetOperation_evaluate E op s"
| "evaluate_operation E vm (update_asset_op op) s = UpdateAssetOperation_evaluate E op s"
| "evaluate_operation E vm (issue_asset_op op) s = IssueAssetOperation_evaluate E op s"
| "evaluate_operation E vm (define_slate_op op) s = DefineSlateOperation_evaluate E op s"
| "evaluate_operation E vm (update_signing_key_op op) s = UpdateSigningKeyOperation_evaluate op s"
| "evaluate_operation E vm (update_balance_vote_op op) s = UpdateBalanceVoteOperation_evaluate op s"
| "evaluate_operation E vm (update_asset_ext_op op) s = UpdateAssetExtOperation_evaluate E op s"
| "evaluate_operation E vm (imessage_memo_op op) s = ImessageMemoOperation_evaluate op s"
| "evaluate_operation E vm (contract_info_op op) s = ContractInfoOperation_evaluate E op s"
| "evaluate_operation E vm (register_contract_op op) s = RegisterContractOperation_evaluate E vm op s"
| "evaluate_operation E vm (upgrade_contract_op op) s = UpgradeContractOperation_evaluate E vm op s"
| "evaluate_operation E vm (destroy_contract_op op) s = DestroyContractOperation_evaluate E vm op s"
| "evaluate_operation E vm (call_contract_op op) s = CallContractOperation_evaluate E vm op s"
| "evaluate_operation E vm (transfer_contract_op op) s = TransferContractOperation_evaluate E vm op s"
| "evaluate_operation E vm (withdraw_contract_op op) s = WithdrawContractOperation_evaluate E op s"
| "evaluate_operation E vm (deposit_contract_op op) s = DepositContractOperation_evaluate E op s"
| "evaluate_operation E vm (balances_withdraw_op op) s = BalancesWithdrawOperation_evaluate E op s"
| "evaluate_operation E vm (storage_op op) s = StorageOperation_evaluate op s"
| "evaluate_operation E vm (event_op op) s = EventOperation_evaluate op s"
| "evaluate_operation E vm (on_destroy_op op) s = OnDestroyOperation_evaluate E op s"
| "evaluate_operation E vm (on_upgrade_op op) s = OnUpgradeOperation_evaluate op s"
| "evaluate_operation E vm on_call_success_op s = OnCallSuccessOperation_evaluate s"
| "evaluate_operation E vm (raw_op ty) s =
     (if ty \<in> set registered_types then Inl out_of_range_exception
      else Inl unsupported_chain_operation)"
| "evaluate_operation E vm (transaction_op trx) s =
     (let rid = result_trx_id (es_trx s) in
      ebind (evaluate_core E vm trx s) (\<lambda>(_, s1).
      ebind (lift_chain (ResultTIdEntry_store (trx_id E trx) rid) s1) (\<lambda>s2.
        lift_chain (RequestIdEntry_store rid (trx_id E trx)) s2)))"
  by pat_completeness auto
termination
  by (relation "measure (\<lambda>x. case x of Inl (_, _, t, _) \<Rightarrow> size t | Inr (_, _, op, _) \<Rightarrow> size op)")
    (auto simp: operation_size)

declare evaluate_core.simps [simp del]

definition evaluate ::
  "env \<Rightarrow> vm \<Rightarrow> SignedTransaction \<Rightarrow> bool \<Rightarrow> eval_state \<Rightarrow> eval_state result" where
  "evaluate E vm t ignore_state s =
     ebind (evaluate_core E vm t s) (\<lambda>(ignore_check_required_fee, s1).
     ebind (ensure (ignore_state \<or> \<not> ignore_check_required_fee) ignore_check_required_fee_state)
       (\<lambda>_. Inr s1))"

section \<open>Sandbox evaluation\<close>

text \<open>
  The dry run of a wallet. It differs from \<open>evaluate\<close>: another expiration window, no size or
  signature count checks, no signature fee, nothing stored, and the result transaction is
  compared operation by operation. The value is the fee flag, the result transaction and the
  state.
\<close>

definition sandbox_operations :: "env \<Rightarrow> vm \<Rightarrow> SignedTransaction \<Rightarrow> eval_state \<Rightarrow> eval_state result" where
  "sandbox_operations E vm t s =
     (case operations t of
        first # rest \<Rightarrow>
          if op_type first = transaction_op_type then
            ebind (evaluate_operation E vm first s) (\<lambda>s1.
            ebind (ensure (\<not> es_skipexec s1 \<longrightarrow> is_contract_trxs_same E t (p_result_trx s1))
                     assert_exception) (\<lambda>_.
            ebind (efold (\<lambda>op s. ebind (evaluate_operation E vm op s) (\<lambda>s'. Inr (next_op s')))
                     rest ((next_op s1)\<lparr>evaluate_contract_result := True\<rparr>)) (\<lambda>s2.
              Inr (set_result_ops [] (s2\<lparr>evaluate_contract_result := False\<rparr>)))))
          else
            efold (\<lambda>op s. ebind (evaluate_operation E vm op s) (\<lambda>s'. Inr (next_op s')))
              (operations t) s
      | [] \<Rightarrow> Inr s)"

definition sandbox_evaluate ::
  "env \<Rightarrow> vm \<Rightarrow> SignedTransaction \<Rightarrow> bool \<Rightarrow> eval_state \<Rightarrow>
     (bool \<times> SignedTransaction \<times> eval_state) result" where
  "sandbox_evaluate E vm t ignore0 s =
     ebind (ensure (now E (cur s) < expiration t) expired_transaction) (\<lambda>_.
     ebind (ensure (\<not> now E (cur s) + ALP_BLOCKCHAIN_MAX_TRANSACTION_EXPIRATION_SEC < expiration t)
              invalid_transaction_expiration) (\<lambda>_.
     ebind (ensure (\<not> is_known_transaction E (cur s) t) duplicate_transaction) (\<lambda>_.
     ebind (check_operations_legality t) (\<lambda>legal.
     ebind (ensure legal illegal_transaction) (\<lambda>_.
     let ignore = (ignore0 \<or> (case operations t of [op] \<Rightarrow> is_contract_op (op_type op) | _ \<Rightarrow> False)) in
     ebind (recover_signatures E t (signatures t) (s\<lparr>es_trx := t\<rparr>)) (\<lambda>s1.
     ebind (sandbox_operations E vm t (s1\<lparr>current_op_index := 0\<rparr>)) (\<lambda>s2.
     ebind (if ignore then Inr s2 else settle E s2) (\<lambda>s3.
     let s4 = s3\<lparr>es_trx := t, p_result_trx := set_expiration (expiration t) (p_result_trx s3)\<rparr>
     in Inr (ignore, p_result_trx s4, s4)))))))))"

lemmas evaluate_defs =
  is_contract_op_def origin_trx_basic_verify_def reset_expiration_def is_contract_op_same_def
  is_contract_trxs_same_def registered_types_def store_transaction_def charge_signatures_def
  recover_signatures_def check_transaction_def ignores_required_fee_def next_op_def
  finish_result_def settle_def finish_transaction_def evaluate_def sandbox_operations_def
  sandbox_evaluate_def

text \<open>The arithmetic and container functions the operations call, for concrete runs.\<close>

lemmas run_defs =
  db_is_known_transaction_def safe_add_def safe_sub_def safe_mul_def safe_div_def safe_neg_def
  wrap64_def wrap32_def u128_def cdiv_def INT64_MIN_def INT64_MAX_def smap_get0_def Let_def

declare evaluate_defs [eval_simps] evaluate_core.simps [eval_simps] run_defs [eval_simps]

end
