(* ===== verification/Ledger.thy ===== *)
theory Ledger
  imports Evaluate Pending_State
begin

text \<open>
  Conservation of value. For every asset the balances, the delegates' unpaid pay (core asset
  only) and the collected fees add up to the recorded supply, up to a difference that no
  operation changes. Amounts are compared as 64-bit words, which is what the database stores, so
  that the unchecked additions of the code need no assumption about their size.
\<close>

section \<open>The sum of an asset\<close>

definition bal_word :: "asset_id \<Rightarrow> BalanceEntry \<Rightarrow> 64 word" where
  "bal_word k b = (if bal_asset_id b = k then w64 (bal_balance b) else 0)"

definition pay_word :: "AccountEntry \<Rightarrow> 64 word" where
  "pay_word a = opt_val (\<lambda>d. w64 (pay_balance d)) (acc_delegate_info a)"

definition asset_word :: "AssetEntry \<Rightarrow> 64 word" where
  "asset_word a = w64 (ast_collected_fees a) - w64 (ast_current_share_supply a)"

definition vsum :: "asset_id \<Rightarrow> view \<Rightarrow> 64 word" where
  "vsum k w = map_sum (bal_word k) (v_balance w) +
     (if k = 0 then map_sum pay_word (v_account w) else 0) + opt_val asset_word (v_asset w k)"

text \<open>
  Every entry is stored under its own id, and every balance can be spent.
\<close>

definition keys_ok :: "env \<Rightarrow> view \<Rightarrow> bool" where
  "keys_ok E w \<longleftrightarrow>
     (\<forall>i b. v_balance w i = Some b \<longrightarrow>
        balance_id E b = i \<and> is_deposit_type (cond_type (bal_condition b))) \<and>
     (\<forall>i a. v_asset w i = Some a \<longrightarrow> ast_id a = i) \<and>
     (\<forall>i a. v_account w i = Some a \<longrightarrow> acc_id a = i)"

definition ledger_ok :: "env \<Rightarrow> chain \<Rightarrow> bool" where
  "ledger_ok E c \<longleftrightarrow> live c \<and> keys_ok E (view c)"

definition asset_total :: "eval_state \<Rightarrow> asset_id \<Rightarrow> 64 word" where
  "asset_total s k = vsum k (view (cur s)) + w64 (get_fees s k)"

lemma finite_view [simp]:
  "finite (dom (balance_lookup_by_id c))" "finite (dom (account_lookup_by_id c))"
  by (rule balance_map.finite_lookup, rule account_map.finite_lookup)

section \<open>Writes\<close>

lemma vsum_balance:
  "vsum k ((view c)\<lparr>v_balance := (balance_lookup_by_id c)(i \<mapsto> e)\<rparr>) =
     vsum k (view c) - opt_val (bal_word k) (balance_lookup_by_id c i) + bal_word k e"
  by (simp add: vsum_def map_sum_update)

lemma vsum_account:
  "vsum k ((view c)\<lparr>v_account := (account_lookup_by_id c)(i \<mapsto> e)\<rparr>) =
     vsum k (view c) + (if k = 0 then pay_word e - opt_val pay_word (account_lookup_by_id c i) else 0)"
  by (simp add: vsum_def map_sum_update)

lemma vsum_asset:
  "vsum k ((view c)\<lparr>v_asset := (asset_lookup_by_id c)(i \<mapsto> e)\<rparr>) =
     vsum k (view c) + (if k = i then asset_word e - opt_val asset_word (asset_lookup_by_id c i) else 0)"
  by (simp add: vsum_def)

lemma vsum_others [simp]:
  "vsum k (w\<lparr>v_property := m0\<rparr>) = vsum k w" "vsum k (w\<lparr>v_slate := m1\<rparr>) = vsum k w"
  "vsum k (w\<lparr>v_transaction := m2\<rparr>) = vsum k w" "vsum k (w\<lparr>v_slot := m3\<rparr>) = vsum k w"
  "vsum k (w\<lparr>v_contract := m4\<rparr>) = vsum k w" "vsum k (w\<lparr>v_result := m5\<rparr>) = vsum k w"
  "vsum k (w\<lparr>v_request := m6\<rparr>) = vsum k w" "vsum k (w\<lparr>v_intrx := m7\<rparr>) = vsum k w"
  "vsum k (w\<lparr>v_contrx := m8\<rparr>) = vsum k w"
  by (simp_all add: vsum_def)

lemma keys_ok_others [simp]:
  "keys_ok E (w\<lparr>v_property := m0\<rparr>) = keys_ok E w" "keys_ok E (w\<lparr>v_slate := m1\<rparr>) = keys_ok E w"
  "keys_ok E (w\<lparr>v_transaction := m2\<rparr>) = keys_ok E w" "keys_ok E (w\<lparr>v_slot := m3\<rparr>) = keys_ok E w"
  "keys_ok E (w\<lparr>v_contract := m4\<rparr>) = keys_ok E w" "keys_ok E (w\<lparr>v_result := m5\<rparr>) = keys_ok E w"
  "keys_ok E (w\<lparr>v_request := m6\<rparr>) = keys_ok E w" "keys_ok E (w\<lparr>v_intrx := m7\<rparr>) = keys_ok E w"
  "keys_ok E (w\<lparr>v_contrx := m8\<rparr>) = keys_ok E w"
  by (simp_all add: keys_ok_def)

section \<open>Steps that keep the ledger\<close>

text \<open>
  \<open>moves E d s s'\<close>: the step keeps the maps of the chain and the ledger well formed, writes to
  the top overlay only, changes the total of asset \<open>k\<close> by \<open>d k\<close>, and leaves the account
  counter and the set of account ids alone.
\<close>

definition moves :: "env \<Rightarrow> (asset_id \<Rightarrow> 64 word) \<Rightarrow> eval_state \<Rightarrow> eval_state \<Rightarrow> bool" where
  "moves E d s s' \<longleftrightarrow> keeps E (cur s) (cur s') \<and>
     (ledger_ok E (cur s) \<and> smap_ok (es_balance s) \<longrightarrow>
        ledger_ok E (cur s') \<and> smap_ok (es_balance s') \<and>
        (\<forall>k. asset_total s' k = asset_total s k + d k) \<and>
        property_lookup_by_id (cur s') last_account_id = property_lookup_by_id (cur s) last_account_id \<and>
        dom (account_lookup_by_id (cur s')) = dom (account_lookup_by_id (cur s)))"

abbreviation keeps_ledger :: "env \<Rightarrow> eval_state \<Rightarrow> eval_state \<Rightarrow> bool" where
  "keeps_ledger E \<equiv> moves E (\<lambda>_. 0)"

lemma moves_refl [simp, intro!]: "keeps_ledger E s s"
  by (simp add: moves_def)

lemma moves_trans: "moves E d s s1 \<Longrightarrow> moves E e s1 s' \<Longrightarrow> moves E (\<lambda>k. d k + e k) s s'"
  using keeps_trans [of E "cur s" "cur s1" "cur s'"] by (simp add: moves_def)

lemma moves_same:
  assumes "cur s' = cur s" "es_balance s' = es_balance s"
  shows "keeps_ledger E s s'"
  using assms by (simp add: moves_def asset_total_def get_fees_def)

lemma moves_eq:
  assumes "moves E d s s'" "\<And>k. ledger_ok E (cur s) \<Longrightarrow> d k = e k"
  shows "moves E e s s'"
  using assms by (simp add: moves_def)

lemma moves_dom: "moves E d s s' \<Longrightarrow> ledger_ok E (cur s) \<Longrightarrow> smap_ok (es_balance s) \<Longrightarrow> ledger_ok E (cur s')"
  by (simp add: moves_def)

subsection \<open>The chain\<close>

lemma lift_chain_Inr:
  assumes "lift_chain f s = Inr s'"
  obtains c where "f (cur s) = Inr c" "s' = s\<lparr>cur := c\<rparr>"
  using assms by (auto simp: lift_chain_def)

text \<open>A write that touches neither balances, assets, accounts nor the account counter.\<close>

lemma moves_chain:
  assumes "lift_chain f s = Inr s'"
    and "\<And>c. live (cur s) \<Longrightarrow> f (cur s) = Inr c \<Longrightarrow>
      live c \<and> balance_lookup_by_id c = balance_lookup_by_id (cur s) \<and>
      asset_lookup_by_id c = asset_lookup_by_id (cur s) \<and>
      account_lookup_by_id c = account_lookup_by_id (cur s) \<and>
      property_lookup_by_id c last_account_id = property_lookup_by_id (cur s) last_account_id"
    and "\<And>c. f (cur s) = Inr c \<Longrightarrow> keeps E (cur s) c"
  shows "keeps_ledger E s s'"
proof -
  obtain c where c: "f (cur s) = Inr c" "s' = s\<lparr>cur := c\<rparr>" using assms(1) by (rule lift_chain_Inr)
  show ?thesis
    using assms(2) [OF _ c(1)] assms(3) [OF c(1)]
    by (auto simp: c(2) moves_def ledger_ok_def keys_ok_def asset_total_def vsum_def get_fees_def)
qed

lemmas store_keeps = AccountEntry_keeps(1) simple_entry_keeps

text \<open>\<open>e\<close> is what the ledger holds under its id: the stored entry, or nothing and \<open>e\<close> is empty.\<close>

definition holds :: "env \<Rightarrow> chain \<Rightarrow> BalanceEntry \<Rightarrow> bool" where
  "holds E c e \<longleftrightarrow> is_deposit_type (cond_type (bal_condition e)) \<and>
     (\<forall>k. opt_val (bal_word k) (balance_lookup_by_id c (balance_id E e)) = bal_word k e)"

lemma holds_lookup: "ledger_ok E c \<Longrightarrow> balance_lookup_by_id c i = Some e \<Longrightarrow> holds E c e"
  by (auto simp: holds_def ledger_ok_def keys_ok_def)

lemma holds_new:
  "balance_lookup_by_id c (cond_address E (bal_condition e)) = None \<Longrightarrow> bal_balance e = 0 \<Longrightarrow>
     is_deposit_type (cond_type (bal_condition e)) \<Longrightarrow> holds E c e"
  by (simp add: holds_def balance_id_def bal_word_def)

lemma store_balance_moves:
  assumes store: "lift_chain (store_balance_entry E e') s = Inr s'"
    and "ledger_ok E (cur s) \<Longrightarrow> holds E (cur s) e"
    and cond: "bal_condition e' = bal_condition e"
    and bal: "w64 (bal_balance e') = w64 (bal_balance e) + x"
  shows "moves E (\<lambda>k. if k = bal_asset_id e then x else 0) s s'"
proof -
  obtain c where c: "s' = s\<lparr>cur := c\<rparr>" and st: "BalanceEntry_store (balance_id E e') e' (cur s) = Inr c"
    using store by (rule lift_chain_Inr) (simp add: store_balance_entry_def)
  have ids: "balance_id E e' = balance_id E e" "bal_asset_id e' = bal_asset_id e"
    using cond by (simp_all add: balance_id_def bal_asset_id_def)
  {
    assume ok: "ledger_ok E (cur s)"
    then have v: "view c = (view (cur s))\<lparr>v_balance :=
        (balance_lookup_by_id (cur s))(balance_id E e' \<mapsto> e')\<rparr>" "live c"
      using balance_store.store_view [OF _ _ st] by (simp_all add: ledger_ok_def)
    from ok assms(2) [OF ok] cond have "keys_ok E (view c)"
      by (auto simp: v(1) ledger_ok_def keys_ok_def holds_def)
    moreover have "vsum k (view c) = vsum k (view (cur s)) + (if k = bal_asset_id e then x else 0)" for k
      using assms(2) [OF ok] by (simp add: v(1) vsum_balance holds_def ids) (simp add: bal_word_def ids bal)
    moreover have "v_property (view c) = v_property (view (cur s))"
      "v_account (view c) = v_account (view (cur s))" unfolding v(1) by simp_all
    ultimately have "ledger_ok E c \<and> (\<forall>k. vsum k (view c) = vsum k (view (cur s)) + (if k = bal_asset_id e then x else 0)) \<and>
        property_lookup_by_id c = property_lookup_by_id (cur s) \<and>
        account_lookup_by_id c = account_lookup_by_id (cur s)"
      using v(2) by (simp add: ledger_ok_def)
  }
  moreover have "keeps E (cur s) c" using st by (rule store_keeps)
  ultimately show ?thesis by (auto simp: moves_def asset_total_def get_fees_def c)
qed

lemma store_asset_moves:
  assumes store: "lift_chain (store_asset_entry a') s = Inr s'"
    and old: "ledger_ok E (cur s) \<Longrightarrow>
      opt_val asset_word (asset_lookup_by_id (cur s) (ast_id a')) + x = asset_word a'"
  shows "moves E (\<lambda>k. if k = ast_id a' then x else 0) s s'"
proof -
  obtain c where c: "s' = s\<lparr>cur := c\<rparr>" and st: "AssetEntry_store (ast_id a') a' (cur s) = Inr c"
    using store by (rule lift_chain_Inr) (simp add: store_asset_entry_def)
  {
    assume ok: "ledger_ok E (cur s)"
    then have v: "view c = (view (cur s))\<lparr>v_asset := (asset_lookup_by_id (cur s))(ast_id a' \<mapsto> a')\<rparr>" "live c"
      using asset_store.store_view [OF _ _ st] by (simp_all add: ledger_ok_def)
    from ok have "keys_ok E (view c)" by (auto simp: v(1) ledger_ok_def keys_ok_def)
    moreover have "vsum k (view c) = vsum k (view (cur s)) + (if k = ast_id a' then x else 0)" for k
      using old [OF ok] by (auto simp: v(1) vsum_asset algebra_simps)
    moreover have "v_property (view c) = v_property (view (cur s))"
      "v_account (view c) = v_account (view (cur s))" unfolding v(1) by simp_all
    ultimately have "ledger_ok E c \<and> (\<forall>k. vsum k (view c) = vsum k (view (cur s)) + (if k = ast_id a' then x else 0)) \<and>
        property_lookup_by_id c = property_lookup_by_id (cur s) \<and>
        account_lookup_by_id c = account_lookup_by_id (cur s)"
      using v(2) by (simp add: ledger_ok_def)
  }
  moreover have "keeps E (cur s) c" using st by (rule store_keeps)
  ultimately show ?thesis by (auto simp: moves_def asset_total_def get_fees_def c)
qed

lemma store_account_moves:
  assumes store: "lift_chain (store_account_entry E a') s = Inr s'"
    and old: "ledger_ok E (cur s) \<Longrightarrow> account_lookup_by_id (cur s) (acc_id a') = Some a"
    and pay: "pay_word a' = pay_word a + x"
  shows "moves E (\<lambda>k. if k = 0 then x else 0) s s'"
proof -
  obtain c where c: "s' = s\<lparr>cur := c\<rparr>" and st: "AccountEntry_store E (acc_id a') a' (cur s) = Inr c"
    using store by (rule lift_chain_Inr) (simp add: store_account_entry_def)
  {
    assume ok: "ledger_ok E (cur s)"
    then have v: "view c = (view (cur s))\<lparr>v_account := (account_lookup_by_id (cur s))(acc_id a' \<mapsto> a')\<rparr>" "live c"
      using AccountEntry_store_view [OF st] by (simp_all add: ledger_ok_def)
    from ok have "keys_ok E (view c)" by (auto simp: v(1) ledger_ok_def keys_ok_def)
    moreover have "vsum k (view c) = vsum k (view (cur s)) + (if k = 0 then x else 0)" for k
      using old [OF ok] by (simp add: v(1) vsum_account pay)
    moreover have "v_property (view c) = v_property (view (cur s))"
      "v_account (view c) = (account_lookup_by_id (cur s))(acc_id a' \<mapsto> a')" unfolding v(1) by simp_all
    ultimately have "ledger_ok E c \<and> (\<forall>k. vsum k (view c) = vsum k (view (cur s)) + (if k = 0 then x else 0)) \<and>
        property_lookup_by_id c = property_lookup_by_id (cur s) \<and>
        dom (account_lookup_by_id c) = dom (account_lookup_by_id (cur s))"
      using v(2) old [OF ok] by (auto simp: ledger_ok_def)
  }
  moreover have "keeps E (cur s) c" using st by (rule store_keeps)
  ultimately show ?thesis by (auto simp: moves_def asset_total_def get_fees_def c)
qed

subsection \<open>The balance of the transaction\<close>

lemma set_delta_fields [simp]:
  "cur (set_delta k v s) = cur s" "es_balance (set_delta k v s) = es_balance s"
  by (simp_all add: set_delta_def)

lemma add_balance_moves:
  assumes "add_balance a s = Inr s'"
  shows "moves E (\<lambda>k. if k = asset_of a then w64 (amount a) else 0) s s'" "cur s' = cur s"
  using assms
  by (auto simp: add_balance_def Let_def moves_def asset_total_def get_fees_def dest!: w64_safe_add)

lemma sub_balance_moves:
  assumes "sub_balance a s = Inr s'"
  shows "moves E (\<lambda>k. if k = asset_of a then - w64 (amount a) else 0) s s'" "cur s' = cur s"
  using assms
  by (auto simp: sub_balance_def Let_def moves_def asset_total_def get_fees_def dest!: w64_safe_sub)

lemma add_vote_deltas_frame:
  assumes "efold (add_vote_delta amnt) ks s = Inr s'"
  shows "cur s' = cur s \<and> es_balance s' = es_balance s"
  by (rule efold_invariant [OF assms]) (auto simp: add_vote_delta_def)

lemma adjust_vote_frame:
  "adjust_vote sid amnt s = Inr s' \<Longrightarrow> cur s' = cur s \<and> es_balance s' = es_balance s"
  by (auto simp: adjust_vote_def dest!: add_vote_deltas_frame split: if_splits option.splits)

lemma vote_if_core_frame:
  "vote_if_core e amnt s = Inr s' \<Longrightarrow> cur s' = cur s \<and> es_balance s' = es_balance s"
  by (auto simp: vote_if_core_def dest!: adjust_vote_frame split: if_splits)

lemma claim_owners_frame:
  assumes "efold claim_owner ks s = Inr s'"
  shows "cur s' = cur s \<and> es_balance s' = es_balance s"
  by (rule efold_invariant [OF assms]) (auto simp: claim_owner_def split: if_splits)

section \<open>The balance operations\<close>

text \<open>Money that leaves the transaction for a balance, and money that enters it.\<close>

lemma deposit_keeps:
  assumes sub: "sub_balance (mk_Asset x (bal_asset_id e)) s = Inr s1"
    and s2: "cur s2 = cur s1 \<and> es_balance s2 = es_balance s1"
    and store: "lift_chain (store_balance_entry E e') s2 = Inr s'"
    and holds: "ledger_ok E (cur s) \<Longrightarrow> holds E (cur s) e"
    and e': "bal_condition e' = bal_condition e" "w64 (bal_balance e') = w64 (bal_balance e) + w64 x"
  shows "keeps_ledger E s s'"
proof -
  note m1 = sub_balance_moves(1) [OF sub, of E]
  have m2: "keeps_ledger E s1 s2" using s2 by (simp add: moves_same)
  have c: "cur s2 = cur s" using s2 sub_balance_moves(2) [OF sub] by simp
  have m3: "moves E (\<lambda>k. if k = bal_asset_id e then w64 x else 0) s2 s'"
    by (rule store_balance_moves [OF store _ e']) (use holds c in simp)
  show ?thesis by (rule moves_eq [OF moves_trans [OF moves_trans [OF m1 m2] m3]]) simp
qed

lemma withdraw_keeps:
  assumes s1: "cur s1 = cur s \<and> es_balance s1 = es_balance s"
    and add: "add_balance (mk_Asset x (bal_asset_id e)) s1 = Inr s2"
    and s3: "cur s3 = cur s2 \<and> es_balance s3 = es_balance s2"
    and store: "lift_chain (store_balance_entry E e') s3 = Inr s'"
    and holds: "ledger_ok E (cur s) \<Longrightarrow> holds E (cur s) e"
    and e': "bal_condition e' = bal_condition e" "w64 (bal_balance e') = w64 (bal_balance e) - w64 x"
  shows "keeps_ledger E s s'"
proof -
  have m0: "keeps_ledger E s s1" using s1 by (simp add: moves_same)
  note m1 = add_balance_moves(1) [OF add, of E]
  have m2: "keeps_ledger E s2 s3" using s3 by (simp add: moves_same)
  have c: "cur s3 = cur s" using s1 s3 add_balance_moves(2) [OF add] by simp
  have m3: "moves E (\<lambda>k. if k = bal_asset_id e then - w64 x else 0) s3 s'"
    by (rule store_balance_moves [OF store _ e'(1)]) (use holds c e'(2) in simp_all)
  show ?thesis
    by (rule moves_eq [OF moves_trans [OF moves_trans [OF moves_trans [OF m0 m1] m2] m3]]) simp
qed

lemma DepositOperation_keeps:
  assumes "DepositOperation_evaluate E op s = Inr s'"
  shows "keeps_ledger E s s'"
proof -
  define e where "e = (case balance_lookup_by_id (cur s) (deposit_balance_id E op) of
      None \<Rightarrow> new_balance (dep_condition op) | Some e \<Rightarrow> e)"
  from assms obtain owners s2 date bal s3 s4 where
    ty: "is_deposit_type (cond_type (dep_condition op))"
    and claim: "efold claim_owner owners (s\<lparr>deposit_count := deposit_count s + 1\<rparr>) = Inr s2"
    and bal: "safe_add (bal_balance e) (dep_amount op) = Inr bal"
    and sub: "sub_balance (mk_Asset (dep_amount op) (bal_asset_id e)) s2 = Inr s3"
    and vote: "vote_if_core e (dep_amount op) s3 = Inr s4"
    and store: "lift_chain (store_balance_entry E (e\<lparr>bal_deposit_date := date,
        bal_balance := bal, bal_last_update := now E (cur s4)\<rparr>)) s4 = Inr s'"
    by (auto simp: DepositOperation_evaluate_def Let_def e_def split: if_splits)
  have s2: "cur s2 = cur s \<and> es_balance s2 = es_balance s"
    using claim_owners_frame [OF claim] by simp
  have "holds E (cur s2) e" if "ledger_ok E (cur s2)"
    using that s2 ty
    by (auto simp: e_def deposit_balance_id_def new_balance_def split: option.split
        intro: holds_lookup holds_new)
  then have "keeps_ledger E s2 s'"
    by (rule deposit_keeps [OF sub vote_if_core_frame [OF vote] store])
      (simp_all add: w64_safe_add [OF bal])
  then show ?thesis using s2 moves_trans [OF moves_same [of s2 s]] by fastforce
qed

text \<open>The run of a withdrawal that succeeds.\<close>

lemma WithdrawOperation_run:
  assumes "WithdrawOperation_evaluate E op s = Inr s'"
  obtains e a s1 temp s2 s3 where
    "balance_lookup_by_id (cur s) (wd_balance_id op) = Some e"
    "0 < wd_amount op" "wd_amount op \<le> amount (get_spendable_balance e (now E (cur s)))"
    "require_asset (bal_asset_id e) s = Inr a"
    "issuer_override a s \<or> owner_authorises e s = Inr ()"
    "vote_if_core e (wrap64 (- wd_amount op)) s = Inr s1"
    "safe_sub (bal_balance e) (wd_amount op) = Inr temp"
    "add_balance (mk_Asset (wd_amount op) (bal_asset_id e)) s1 = Inr s2"
    "cur s3 = cur s2 \<and> es_balance s3 = es_balance s2"
    "lift_chain (store_balance_entry E (e\<lparr>bal_balance := temp,
        bal_last_update := now E (cur s3)\<rparr>)) s3 = Inr s'"
proof -
  from assms obtain e a s1 temp s2 ow where
    e: "balance_lookup_by_id (cur s) (wd_balance_id op) = Some e"
    "0 < wd_amount op" "wd_amount op \<le> amount (get_spendable_balance e (now E (cur s)))"
    and a: "require_asset (bal_asset_id e) s = Inr a"
    "issuer_override a s \<or> owner_authorises e s = Inr ()"
    and rest: "vote_if_core e (wrap64 (- wd_amount op)) s = Inr s1"
    "safe_sub (bal_balance e) (wd_amount op) = Inr temp"
    "add_balance (mk_Asset (wd_amount op) (bal_asset_id e)) s1 = Inr s2"
    and store: "let s3 = (case ow of
          Some a \<Rightarrow> if temp > 0
            then s2\<lparr>owner_balance_not_usedup := sset_insert a (owner_balance_not_usedup s2)\<rparr> else s2
        | None \<Rightarrow> s2)
      in lift_chain (store_balance_entry E (e\<lparr>bal_balance := temp,
        bal_last_update := now E (cur s3)\<rparr>)) s3 = Inr s'"
    unfolding WithdrawOperation_evaluate_def Let_def by (auto split: if_split_asm)
  define s3 where "s3 = (case ow of
          Some a \<Rightarrow> if temp > 0
            then s2\<lparr>owner_balance_not_usedup := sset_insert a (owner_balance_not_usedup s2)\<rparr> else s2
        | None \<Rightarrow> s2)"
  have same: "cur s3 = cur s2 \<and> es_balance s3 = es_balance s2" by (simp add: s3_def split: option.split)
  show ?thesis by (rule that [OF e a rest same store [unfolded Let_def, folded s3_def]])
qed

lemma WithdrawOperation_keeps:
  assumes "WithdrawOperation_evaluate E op s = Inr s'"
  shows "keeps_ledger E s s'"
proof (rule WithdrawOperation_run [OF assms])
  fix e a s1 temp s2 s3
  assume e: "balance_lookup_by_id (cur s) (wd_balance_id op) = Some e"
    and vote: "vote_if_core e (wrap64 (- wd_amount op)) s = Inr s1"
    and temp: "safe_sub (bal_balance e) (wd_amount op) = Inr temp"
    and add: "add_balance (mk_Asset (wd_amount op) (bal_asset_id e)) s1 = Inr s2"
    and s3: "cur s3 = cur s2 \<and> es_balance s3 = es_balance s2"
    and store': "lift_chain (store_balance_entry E (e\<lparr>bal_balance := temp,
        bal_last_update := now E (cur s3)\<rparr>)) s3 = Inr s'"
  show ?thesis
    by (rule withdraw_keeps [OF vote_if_core_frame [OF vote] add s3 store'])
      (simp_all add: holds_lookup [OF _ e] w64_safe_sub [OF temp])
qed

lemma WithdrawContractOperation_keeps:
  assumes "WithdrawContractOperation_evaluate E op s = Inr s'"
  shows "keeps_ledger E s s'"
proof -
  let ?cond = "signature_condition (wc_contract op) 0 0 withdraw_contract_type"
  from assms obtain e s1 s2 where
    sel: "(case balance_lookup_by_id (cur s) (wc_balance_id op) of
        Some e \<Rightarrow> Inr e
      | None \<Rightarrow>
          if wc_contract op = 0 then Inl unknown_balance_entry
          else ebind (ensure (wc_balance_id op = cond_address E ?cond) assert_exception)
                 (\<lambda>_. Inr ((new_balance ?cond)\<lparr>bal_deposit_date := now E (cur s),
                              bal_last_update := now E (cur s)\<rparr>))) = Inr e"
    and add: "add_balance (mk_Asset (wc_amount op) (bal_asset_id e)) s = Inr s1"
    and store: "lift_chain (store_balance_entry E (e\<lparr>bal_balance := wrap64 (bal_balance e - wc_amount op),
        bal_last_update := now E (cur s1)\<rparr>)) s1 = Inr s2"
    and s': "s' = s2\<lparr>withdrawed_contract_balance := withdrawed_contract_balance s2 @ [wc_balance_id op]\<rparr>"
    unfolding WithdrawContractOperation_evaluate_def Let_def by auto
  from sel have e: "balance_lookup_by_id (cur s) (wc_balance_id op) = Some e \<or>
      balance_lookup_by_id (cur s) (wc_balance_id op) = None \<and>
      wc_balance_id op = cond_address E ?cond \<and> bal_condition e = ?cond \<and> bal_balance e = 0"
    by (auto simp: new_balance_def split: option.splits if_splits)
  have holds: "holds E (cur s) e" if "ledger_ok E (cur s)"
    using e that by (auto intro: holds_lookup holds_new
        simp: signature_condition_def is_deposit_type_def)
  have "keeps_ledger E s s2"
    by (rule withdraw_keeps [OF _ add _ store]) (simp_all add: holds)
  then show ?thesis using moves_trans [OF _ moves_same [of s' s2]] s' by fastforce
qed

lemma balances_withdraw_step_keeps:
  assumes "balances_withdraw_step E item s = Inr s'"
  shows "keeps_ledger E s s'"
proof -
  from assms obtain e s1 s2 where
    e: "balance_lookup_by_id (cur s) (fst item) = Some e"
    and vote: "vote_if_core e (wrap64 (- snd item)) s = Inr s1"
    and add: "add_balance (mk_Asset (snd item) (bal_asset_id e)) s1 = Inr s2"
    and store: "lift_chain (store_balance_entry E (e\<lparr>bal_balance := wrap64 (bal_balance e - snd item),
        bal_last_update := now E (cur s2)\<rparr>)) s2 = Inr s'"
    by (auto simp: balances_withdraw_step_def)
  show ?thesis
    by (rule withdraw_keeps [OF vote_if_core_frame [OF vote] add _ store])
      (simp_all add: holds_lookup [OF _ e])
qed

text \<open>A loop of steps that keep the ledger keeps it.\<close>

lemma efold_keeps:
  assumes "efold f xs s = Inr s'"
    and "\<And>x u v. x \<in> set xs \<Longrightarrow> f x u = Inr v \<Longrightarrow> keeps_ledger E u v"
  shows "keeps_ledger E s s'"
proof (rule efold_invariant [OF assms(1), of "keeps_ledger E s"])
  fix x u v assume "x \<in> set xs" "keeps_ledger E s u" "f x u = Inr v"
  with assms(2) show "keeps_ledger E s v" using moves_trans [of E "\<lambda>_. 0" s u "\<lambda>_. 0" v] by simp
qed simp

lemma BalancesWithdrawOperation_keeps:
  assumes "BalancesWithdrawOperation_evaluate E op s = Inr s'"
  shows "keeps_ledger E s s'"
proof -
  from assms have "efold (balances_withdraw_step E) (bw_balances op) s = Inr s'"
    by (auto simp: BalancesWithdrawOperation_evaluate_def)
  then show ?thesis by (rule efold_keeps) (rule balances_withdraw_step_keeps)
qed

lemma DepositContractOperation_keeps:
  assumes "DepositContractOperation_evaluate E op s = Inr s'"
  shows "keeps_ledger E s s'"
proof -
  define e where "e = (case balance_lookup_by_id (cur s) (cond_address E (dc_condition op)) of
      Some e \<Rightarrow> e
    | None \<Rightarrow>
        if cond_type (dc_condition op) = withdraw_escrow_type
        then (new_balance (dc_condition op))\<lparr>bal_meta_data :=
                creating_transaction_id E (trx_id E (es_trx s))\<rparr>
        else new_balance (dc_condition op))"
  from assms obtain date s1 s2 where
    ty: "is_deposit_type (cond_type (dc_condition op))"
    and sub: "sub_balance (mk_Asset (dc_amount op) (bal_asset_id e)) s = Inr s1"
    and vote: "vote_if_core e (dc_amount op) s1 = Inr s2"
    and store: "lift_chain (store_balance_entry E (e\<lparr>bal_deposit_date := date,
        bal_balance := wrap64 (bal_balance e + dc_amount op), bal_last_update := now E (cur s2)\<rparr>)) s2
        = Inr s'"
    unfolding DepositContractOperation_evaluate_def Let_def e_def [symmetric] by auto
  have "holds E (cur s) e" if "ledger_ok E (cur s)"
    using that ty
    by (auto simp: e_def new_balance_def split: option.split intro: holds_lookup holds_new)
  then show ?thesis
    by (rule deposit_keeps [OF sub vote_if_core_frame [OF vote] store]) simp_all
qed

section \<open>The asset operations\<close>

lemma add_required_fees_frame:
  "add_required_fees fee s = Inr s' \<Longrightarrow> cur s' = cur s \<and> es_balance s' = es_balance s"
  by (auto simp: add_required_fees_def)

lemma asset_at: "ledger_ok E c \<Longrightarrow> asset_lookup_by_id c i = Some a \<Longrightarrow> ast_id a = i"
  by (simp add: ledger_ok_def keys_ok_def)

lemma account_at: "ledger_ok E c \<Longrightarrow> account_lookup_by_id c i = Some a \<Longrightarrow> acc_id a = i"
  by (simp add: ledger_ok_def keys_ok_def)

text \<open>An asset entry replaced by one with the same id, supply and fees.\<close>

lemma store_asset_keeps:
  assumes "lift_chain (store_asset_entry a') s = Inr s'"
    and "asset_lookup_by_id (cur s) i = Some a"
    and "ast_id a' = ast_id a" "asset_word a' = asset_word a"
  shows "keeps_ledger E s s'"
  by (rule moves_eq [OF store_asset_moves [OF assms(1), of E 0]])
    (use assms asset_at in \<open>auto\<close>)

lemma store_property_moves:
  assumes "store_property_entry p v (cur s) = Inr c" "p \<noteq> last_account_id"
  shows "keeps_ledger E s (s\<lparr>cur := c\<rparr>)"
proof -
  from assms(1) have c: "c = property_insert_into_id_map p \<lparr>prop_id = p, prop_value = v\<rparr> (cur s)"
    by (simp add: store_property_entry_def PropertyEntry_store_def)
  have "view c = (view (cur s))\<lparr>v_property := (property_lookup_by_id (cur s))(p \<mapsto> \<lparr>prop_id = p, prop_value = v\<rparr>)\<rparr> \<and> live c"
    if "live (cur s)" using that by (simp add: c)
  then show ?thesis
    using assms(2) property_map.lookup_insert [of "cur s" p "\<lparr>prop_id = p, prop_value = v\<rparr>"]
    by (auto simp: moves_def ledger_ok_def asset_total_def get_fees_def c keeps_def)
qed

lemma CreateAssetOperation_keeps:
  assumes "CreateAssetOperation_evaluate E op s = Inr s'"
  shows "keeps_ledger E s s'"
proof -
  from assms obtain s1 k c auth last where
    fees: "add_required_fees (mk_Asset (get_asset_registration_fee (length (ca_symbol op))) 0) s = Inr s1"
    and last: "get_last_asset_id (cur s) = Inr last"
    and free: "asset_lookup_by_id (cur s) (wrap32 (last + 1)) = None"
    and new: "new_asset_id (cur s1) = Inr (k, c)"
    and store: "lift_chain (store_asset_entry (new_asset_entry E op k (now E c) auth)) (s1\<lparr>cur := c\<rparr>) = Inr s'"
    unfolding CreateAssetOperation_evaluate_def Let_def by (auto split: prod.splits)
  have s1: "cur s1 = cur s \<and> es_balance s1 = es_balance s"
    by (rule add_required_fees_frame [OF fees])
  from new last s1 have k: "k = wrap32 (last + 1)"
    and c: "store_property_entry last_asset_id (pv_int k) (cur s1) = Inr c"
    by (auto simp: new_asset_id_def Let_def)
  have m1: "keeps_ledger E s s1" using s1 by (simp add: moves_same)
  have m2: "keeps_ledger E s1 (s1\<lparr>cur := c\<rparr>)" by (rule store_property_moves [OF c]) simp
  have "asset_lookup_by_id c = asset_lookup_by_id (cur s1)"
    using c by (auto simp: store_property_entry_def PropertyEntry_store_def)
  with free k s1 have "asset_lookup_by_id c k = None" by simp
  then have m3: "keeps_ledger E (s1\<lparr>cur := c\<rparr>) s'"
    by (intro moves_eq [OF store_asset_moves [OF store, of E 0]])
      (simp_all add: new_asset_entry_def asset_word_def)
  show ?thesis by (rule moves_eq [OF moves_trans [OF moves_trans [OF m1 m2] m3]]) simp
qed

lemma update_asset_fields_frame:
  "update_asset_fields op a = Inr a' \<Longrightarrow> ast_id a' = ast_id a \<and> asset_word a' = asset_word a"
  unfolding update_asset_fields_def Let_def
  by (auto simp: asset_word_def split: option.splits)

lemma UpdateAssetOperation_keeps:
  assumes "UpdateAssetOperation_evaluate E op s = Inr s'"
  shows "keeps_ledger E s s'"
proof -
  from assms obtain a0 a1 where
    a0: "asset_lookup_by_id (cur s) (upa_asset_id op) = Some a0"
    and a1: "update_asset_fields op a0 = Inr a1"
    and store: "lift_chain (store_asset_entry (a1\<lparr>ast_last_update := now E (cur s)\<rparr>)) s = Inr s'"
    by (auto simp: UpdateAssetOperation_evaluate_def)
  show ?thesis
    by (rule store_asset_keeps [OF store a0])
      (use update_asset_fields_frame [OF a1] in \<open>simp_all add: asset_word_def\<close>)
qed

lemma UpdateAssetExtOperation_keeps:
  assumes "UpdateAssetExtOperation_evaluate E op s = Inr s'"
  shows "keeps_ledger E s s'"
proof -
  from assms obtain a0 a1 where
    a0: "asset_lookup_by_id (cur s) (upa_asset_id op) = Some a0"
    and a1: "update_asset_fields op a0 = Inr a1"
    and store: "lift_chain (store_asset_entry (a1\<lparr>ast_issuer_permissions := upx_issuer_permissions op,
        ast_flags := upx_flags op, ast_transaction_fee := upx_transaction_fee op,
        ast_authority := upx_authority op, ast_issuer_account_id := upx_issuer_account_id op,
        ast_last_update := now E (cur s)\<rparr>)) s = Inr s'"
    by (auto simp: UpdateAssetExtOperation_evaluate_def)
  show ?thesis
    by (rule store_asset_keeps [OF store a0])
      (use update_asset_fields_frame [OF a1] in \<open>simp_all add: asset_word_def\<close>)
qed

lemma IssueAssetOperation_keeps:
  assumes "IssueAssetOperation_evaluate E amnt s = Inr s'"
  shows "keeps_ledger E s s'"
proof -
  from assms obtain a s1 where
    a: "asset_lookup_by_id (cur s) (asset_of amnt) = Some a"
    and add: "add_balance amnt s = Inr s1"
    and store: "lift_chain (store_asset_entry
         (a\<lparr>ast_current_share_supply := wrap64 (ast_current_share_supply a + amount amnt),
            ast_last_update := now E (cur s1)\<rparr>)) s1 = Inr s'"
    by (auto simp: IssueAssetOperation_evaluate_def)
  note m1 = add_balance_moves(1) [OF add, of E]
  have c: "cur s1 = cur s" by (rule add_balance_moves(2) [OF add])
  have m2: "moves E (\<lambda>k. if k = ast_id a then - w64 (amount amnt) else 0) s1 s'"
    using asset_at [OF _ a, of E] a c
    by (intro moves_eq [OF store_asset_moves [OF store]]) (simp_all add: asset_word_def)
  show ?thesis
    by (rule moves_eq [OF moves_trans [OF m1 m2]]) (use asset_at [OF _ a, of E] in simp)
qed

section \<open>The account operations\<close>

lemma make_delegate_frame:
  assumes "make_delegate r key a s = Inr (a', s')"
  shows "cur s' = cur s \<and> es_balance s' = es_balance s \<and> acc_id a' = acc_id a \<and> pay_word a' = 0"
  using assms
  by (auto simp: make_delegate_def set_signing_key_def pay_word_def new_DelegateStats_def
      dest!: add_required_fees_frame)

lemma change_active_key_frame:
  "change_active_key E op key a s = Inr a' \<Longrightarrow>
     acc_id a' = acc_id a \<and> acc_delegate_info a' = acc_delegate_info a"
  by (auto simp: change_active_key_def set_active_key_def split: if_splits)

lemma UpdateAccountOperation_keeps:
  assumes "UpdateAccountOperation_evaluate E op s = Inr s'"
  shows "keeps_ledger E s s'"
proof -
  from assms obtain a0 old a1 a2 a3 s1 where
    a0: "account_lookup_by_id (cur s) (ua_account_id op) = Some a0"
    and key: "(case ua_active_key op of
              Some key \<Rightarrow>
                if key \<noteq> old then change_active_key E op key a0 s
                else ebind (account_has_signed E s a0) (\<lambda>sg. ebind (ensure sg missing_signature) (\<lambda>_. Inr a0))
            | None \<Rightarrow>
                ebind (account_has_signed E s a0) (\<lambda>sg. ebind (ensure sg missing_signature) (\<lambda>_. Inr a0))) = Inr a1"
    and a2: "a2 = (case ua_public_data op of None \<Rightarrow> a1 | Some d \<Rightarrow> a1\<lparr>acc_public_data := d\<rparr>)"
    and dele: "(if update_is_delegate op then
              (case acc_delegate_info a2 of
                 Some d \<Rightarrow>
                   ebind (ensure (ua_delegate_pay_rate op \<le> pay_rate d) assert_exception) (\<lambda>_.
                     Inr (a2\<lparr>acc_delegate_info := Some (d\<lparr>pay_rate := ua_delegate_pay_rate op\<rparr>)\<rparr>, s))
               | None \<Rightarrow>
                   ebind (active_key a2) (\<lambda>key. make_delegate (ua_delegate_pay_rate op) key a2 s))
            else Inr (a2, s)) = Inr (a3, s1)"
    and store: "lift_chain (store_account_entry E (a3\<lparr>acc_last_update := now E (cur s1)\<rparr>)) s1 = Inr s'"
    unfolding UpdateAccountOperation_evaluate_def Let_def by (auto split: prod.splits)
  have a1: "acc_id a1 = acc_id a0 \<and> acc_delegate_info a1 = acc_delegate_info a0"
    using key by (auto split: option.splits if_splits dest: change_active_key_frame)
  then have "acc_id a2 = acc_id a0 \<and> acc_delegate_info a2 = acc_delegate_info a0"
    by (simp add: a2 split: option.split)
  with dele have a3: "cur s1 = cur s \<and> es_balance s1 = es_balance s \<and> acc_id a3 = acc_id a0 \<and>
      pay_word a3 = pay_word a0"
    by (auto simp: pay_word_def split: if_splits option.splits dest!: make_delegate_frame)
  have m1: "keeps_ledger E s s1" using a3 by (simp add: moves_same)
  have m2: "keeps_ledger E s1 s'"
    by (rule moves_eq [OF store_account_moves [OF store, where a = a0 and x = 0]])
      (use a3 a0 account_at [of E "cur s", OF _ a0] in \<open>simp_all add: pay_word_def\<close>)
  show ?thesis by (rule moves_eq [OF moves_trans [OF m1 m2]]) simp
qed

lemma WithdrawPayOperation_keeps:
  assumes "WithdrawPayOperation_evaluate E op s = Inr s'"
  shows "keeps_ledger E s s'"
proof -
  define k where "k = wrap32 \<bar>wp_account_id op\<bar>"
  from assms obtain a d pb delta s2 where
    a: "account_lookup_by_id (cur s) k = Some a"
    and d: "acc_delegate_info a = Some d"
    and pb: "safe_sub (pay_balance d) (wp_amount op) = Inr pb"
    and add: "add_balance (mk_Asset (wp_amount op) 0)
        (s\<lparr>es_delegate_vote_deltas := smap_set k delta (es_delegate_vote_deltas s)\<rparr>) = Inr s2"
    and store: "lift_chain (store_account_entry E (a\<lparr>acc_delegate_info := Some (d\<lparr>pay_balance := pb\<rparr>)\<rparr>)) s2 = Inr s'"
    unfolding WithdrawPayOperation_evaluate_def Let_def k_def [symmetric] by auto
  let ?s1 = "s\<lparr>es_delegate_vote_deltas := smap_set k delta (es_delegate_vote_deltas s)\<rparr>"
  have m0: "keeps_ledger E s ?s1" by (simp add: moves_same)
  note m1 = add_balance_moves(1) [OF add, of E]
  have c: "cur s2 = cur s" using add_balance_moves(2) [OF add] by simp
  have m2: "moves E (\<lambda>k. if k = 0 then - w64 (wp_amount op) else 0) s2 s'"
    by (rule store_account_moves [OF store, where a = a])
      (use a c account_at [of E "cur s", OF _ a] in \<open>simp_all add: pay_word_def d w64_safe_sub [OF pb]\<close>)
  show ?thesis by (rule moves_eq [OF moves_trans [OF moves_trans [OF m0 m1] m2]]) simp
qed

section \<open>Slates, messages, events and the results of contracts\<close>

lemma DefineSlateOperation_keeps:
  assumes "DefineSlateOperation_evaluate E op s = Inr s'"
  shows "keeps_ledger E s s'"
proof -
  from assms have "s' = s \<or> (\<exists>e. lift_chain (store_slate_entry E e) s = Inr s')"
    unfolding DefineSlateOperation_evaluate_def Let_def by (auto split: option.splits)
  then show ?thesis
    by (auto simp: store_slate_entry_def SlateEntry_store_def keeps_def elim!: moves_chain)
qed

lemma ImessageMemoOperation_keeps:
  "ImessageMemoOperation_evaluate msg s = Inr s' \<Longrightarrow> keeps_ledger E s s'"
  by (rule moves_same)
    (auto simp: ImessageMemoOperation_evaluate_def dest!: add_required_fees_frame)

lemma EventOperation_keeps: "EventOperation_evaluate op s = Inr s' \<Longrightarrow> keeps_ledger E s s'"
  by (rule moves_same) (auto simp: EventOperation_evaluate_def)

lemma StorageOperation_keeps:
  assumes "StorageOperation_evaluate op s = Inr s'"
  shows "keeps_ledger E s s'"
proof -
  from assms obtain e where "lift_chain (store_contractstorage_entry e) s = Inr s'"
    unfolding StorageOperation_evaluate_def Let_def by auto
  then show ?thesis
    by (rule moves_chain) (auto simp: store_contractstorage_entry_def ContractStorageEntry_store_def keeps_def)
qed

lemma store_contract_keeps:
  "lift_chain (store_contract_entry e) s = Inr s' \<Longrightarrow> keeps_ledger E s s'"
  by (erule moves_chain) (auto simp: store_contract_entry_def ContractEntry_store_def Let_def keeps_def)

lemma OnUpgradeOperation_keeps:
  "OnUpgradeOperation_evaluate op s = Inr s' \<Longrightarrow> keeps_ledger E s s'"
  by (auto simp: OnUpgradeOperation_evaluate_def intro: store_contract_keeps)

lemma ContractInfoOperation_keeps:
  assumes "ContractInfoOperation_evaluate E op s = Inr s'"
  shows "keeps_ledger E s s'"
proof -
  from assms obtain e s1 s2 tid cid where
    m1: "lift_chain (store_contract_entry e) s = Inr s1"
    and m2: "lift_chain (ContractinTrxEntry_store tid cid) s1 = Inr s2"
    and m3: "lift_chain (ContractTrxEntry_store cid tid) s2 = Inr s'"
    unfolding ContractInfoOperation_evaluate_def Let_def by auto
  have k1: "keeps_ledger E s s1" by (rule store_contract_keeps [OF m1])
  have k2: "keeps_ledger E s1 s2"
    by (rule moves_chain [OF m2]) (auto simp: ContractinTrxEntry_store_def keeps_def)
  have k3: "keeps_ledger E s2 s'"
    by (rule moves_chain [OF m3]) (auto simp: ContractTrxEntry_store_def keeps_def)
  show ?thesis by (rule moves_eq [OF moves_trans [OF moves_trans [OF k1 k2] k3]]) simp
qed

lemma refund_owner_keeps:
  assumes "refund_owner E op entry b s = Inr s'"
    and b: "balance_lookup_by_id (cur s) i = Some b"
  shows "keeps_ledger E s s'"
proof -
  define x where "x = amount (get_spendable_balance b (now E (cur s)))"
  define cond where "cond = signature_condition (key_address E (con_owner entry)) 0 0 withdraw_common_type"
  from assms(1) obtain s1 s2 date s3 where
    core: "bal_asset_id b = 0"
    and add: "add_balance (mk_Asset x 0) s = Inr s1"
    and reset: "lift_chain (store_balance_entry E (b\<lparr>bal_balance := 0\<rparr>)) s1 = Inr s2"
    and rest: "let dest = (case balance_lookup_by_id (cur s2) (cond_address E cond) of
                   Some e \<Rightarrow> e | None \<Rightarrow> new_balance cond) in
       sub_balance (mk_Asset x (bal_asset_id dest)) s2 = Inr s3 \<and>
       lift_chain (store_balance_entry E (dest\<lparr>bal_deposit_date := date,
            bal_balance := wrap64 (bal_balance dest + x), bal_last_update := now E (cur s3)\<rparr>)) s3 = Inr s'"
    unfolding refund_owner_def Let_def x_def [symmetric] cond_def [symmetric] by auto
  have x: "w64 x = w64 (bal_balance b)" if "ledger_ok E (cur s)"
    using that b by (auto simp: x_def ledger_ok_def keys_ok_def get_spendable_balance_def is_deposit_type_def)
  note m1 = add_balance_moves(1) [OF add, of E]
  have c1: "cur s1 = cur s" by (rule add_balance_moves(2) [OF add])
  have m2: "moves E (\<lambda>k. if k = bal_asset_id b then - w64 (bal_balance b) else 0) s1 s2"
    by (rule store_balance_moves [OF reset, where e = b]) (use b c1 in \<open>auto intro: holds_lookup\<close>)
  define dest where "dest = (case balance_lookup_by_id (cur s2) (cond_address E cond) of
                   Some e \<Rightarrow> e | None \<Rightarrow> new_balance cond)"
  from rest have sub: "sub_balance (mk_Asset x (bal_asset_id dest)) s2 = Inr s3"
    and store: "lift_chain (store_balance_entry E (dest\<lparr>bal_deposit_date := date,
            bal_balance := wrap64 (bal_balance dest + x), bal_last_update := now E (cur s3)\<rparr>)) s3 = Inr s'"
    unfolding Let_def dest_def [symmetric] by blast+
  have holds: "holds E (cur s2) dest" if "ledger_ok E (cur s2)"
    using that by (auto simp: dest_def new_balance_def cond_def signature_condition_def
        is_deposit_type_def split: option.split intro: holds_lookup holds_new)
  have m3: "keeps_ledger E s2 s'"
    by (rule deposit_keeps [OF sub _ store]) (simp_all add: holds)
  show ?thesis
    by (rule moves_eq [OF moves_trans [OF moves_trans [OF m1 m2] m3]]) (use x core in simp)
qed

lemma OnDestroyOperation_keeps:
  assumes "OnDestroyOperation_evaluate E op s = Inr s'"
  shows "keeps_ledger E s s'"
proof -
  from assms obtain entry s1 where
    sel: "(case balance_lookup_by_id (cur s)
                   (get_balanceid E (con_id entry) withdraw_contract_type) of
              Some b \<Rightarrow> refund_owner E op entry b s
            | None \<Rightarrow> Inr s) = Inr s1"
    and store: "lift_chain (store_contract_entry (entry\<lparr>con_state := contract_deleted\<rparr>)) s1 = Inr s'"
    by (auto simp: OnDestroyOperation_evaluate_def)
  have m1: "keeps_ledger E s s1"
    using sel by (auto split: option.splits intro: refund_owner_keeps)
  have m2: "keeps_ledger E s1 s'" by (rule store_contract_keeps [OF store])
  show ?thesis by (rule moves_eq [OF moves_trans [OF m1 m2]]) simp
qed

section \<open>Registration: the account counter\<close>

text \<open>Room for \<open>n\<close> more accounts: no id is above the counter, and the counter does not wrap.\<close>

definition account_room :: "nat \<Rightarrow> chain \<Rightarrow> bool" where
  "account_room n c \<longleftrightarrow>
     (\<forall>last. get_last_account_id c = Inr last \<longrightarrow>
        (\<forall>k \<in> dom (account_lookup_by_id c). k \<le> last) \<and> - (2 ^ 31) \<le> last \<and> last + int n < 2 ^ 31)"

text \<open>The invariant of an evaluation that started on the chain \<open>c0\<close>.\<close>

definition ledger_inv :: "env \<Rightarrow> chain \<Rightarrow> nat \<Rightarrow> eval_state \<Rightarrow> bool" where
  "ledger_inv E c0 n s \<longleftrightarrow> keeps E c0 (cur s) \<and> ledger_ok E (cur s) \<and> smap_ok (es_balance s) \<and> account_room n (cur s)"

lemma wrap32_id: "- (2 ^ 31) \<le> x \<Longrightarrow> x < 2 ^ 31 \<Longrightarrow> wrap32 x = x"
  by (simp add: wrap32_def)

lemma keeps_ledger_inv:
  assumes "keeps_ledger E s s'" "ledger_inv E c0 (Suc n) s"
  shows "ledger_inv E c0 n s' \<and> (\<forall>k. asset_total s' k = asset_total s k)"
  using assms by (auto simp: moves_def ledger_inv_def account_room_def get_last_account_id_def
      intro: keeps_trans)

lemma RegisterAccountOperation_conserves:
  assumes "RegisterAccountOperation_evaluate E op s = Inr s'" "ledger_inv E c0 (Suc n) s"
  shows "ledger_inv E c0 n s' \<and> (\<forall>k. asset_total s' k = asset_total s k)"
proof -
  from assms(1) obtain k c a0 a2 s2 where
    new: "new_account_id (cur s) = Inr (k, c)"
    and a0: "set_active_key
              \<lparr>acc_id = k, acc_name = ra_name op, acc_public_data = ra_public_data op,
               acc_owner_key = ra_owner_key op, acc_active_key_history = [],
               acc_registration_date = 0, acc_last_update = 0, acc_delegate_info = None,
               acc_meta_data = None\<rparr> (now E (cur s)) (ra_active_key op) = Inr a0"
    and dele': "let a1 = a0\<lparr>acc_registration_date := now E (cur s), acc_last_update := now E (cur s),
                 acc_meta_data := (case ra_meta_data op of
                     None \<Rightarrow> Some \<lparr>meta_type = titan_account, meta_info = []\<rparr> | Some m \<Rightarrow> Some m)\<rparr> in
        (if register_is_delegate op
            then make_delegate (ra_delegate_pay_rate op) (ra_active_key op) a1 (s\<lparr>cur := c\<rparr>)
            else Inr (a1, s\<lparr>cur := c\<rparr>)) = Inr (a2, s2)"
    and store: "lift_chain (store_account_entry E a2) s2 = Inr s'"
    unfolding RegisterAccountOperation_evaluate_def Let_def by (auto split: prod.splits)
  obtain a1 where a1: "acc_id a1 = k \<and> acc_delegate_info a1 = None"
    and dele: "(if register_is_delegate op
            then make_delegate (ra_delegate_pay_rate op) (ra_active_key op) a1 (s\<lparr>cur := c\<rparr>)
            else Inr (a1, s\<lparr>cur := c\<rparr>)) = Inr (a2, s2)"
    using dele' unfolding Let_def
    by (rule that [rotated]) (use a0 in \<open>auto simp: set_active_key_def split: if_splits\<close>)
  have a2: "cur s2 = c \<and> es_balance s2 = es_balance s \<and> acc_id a2 = k \<and> pay_word a2 = 0"
    using dele a1 by (auto simp: pay_word_def split: if_splits dest!: make_delegate_frame)
  from new obtain last where last: "get_last_account_id (cur s) = Inr last"
    and k: "k = wrap32 (last + 1)"
    and c: "store_property_entry last_account_id (pv_int k) (cur s) = Inr c"
    by (auto simp: new_account_id_def Let_def)
  have inv: "ledger_ok E (cur s)" "smap_ok (es_balance s)" and
    room: "\<forall>j \<in> dom (account_lookup_by_id (cur s)). j \<le> last" "- (2 ^ 31) \<le> last" "last + int (Suc n) < 2 ^ 31"
    using assms(2) last by (auto simp: ledger_inv_def account_room_def)
  have k': "k = last + 1" unfolding k by (rule wrap32_id) (use room in simp_all)
  have vc: "view c = (view (cur s))\<lparr>v_property := (property_lookup_by_id (cur s))(last_account_id \<mapsto>
      \<lparr>prop_id = last_account_id, prop_value = pv_int k\<rparr>)\<rparr>" "live c"
    using c inv by (auto simp: store_property_entry_def PropertyEntry_store_def ledger_ok_def)
  obtain c' where s': "s' = s2\<lparr>cur := c'\<rparr>" and st: "AccountEntry_store E k a2 c = Inr c'"
    using store a2 by (auto simp: store_account_entry_def elim!: lift_chain_Inr)
  have accs: "account_lookup_by_id c = account_lookup_by_id (cur s)"
    using arg_cong [OF vc(1), of v_account] by simp
  have v': "view c' = (view c)\<lparr>v_account := (account_lookup_by_id c)(k \<mapsto> a2)\<rparr>" "live c'"
    using AccountEntry_store_view [OF st vc(2)] by auto
  have fresh: "account_lookup_by_id c k = None" using room(1) k' accs by force
  have "vsum j (view c') = vsum j (view (cur s))" for j
    unfolding v'(1) vsum_account using fresh a2 by (simp add: vc(1))
  moreover have "keys_ok E (view c')"
    using inv(1) a2 by (auto simp: v'(1) vc(1) accs keys_ok_def ledger_ok_def)
  moreover have "property_lookup_by_id c' last_account_id =
      Some \<lparr>prop_id = last_account_id, prop_value = pv_int k\<rparr>"
    using arg_cong [OF v'(1), of v_property] arg_cong [OF vc(1), of v_property] by simp
  moreover have "\<forall>j \<in> dom (account_lookup_by_id c'). j \<le> k"
    using arg_cong [OF v'(1), of v_account] accs room(1) k' by force
  moreover have "keeps E c0 c'"
  proof -
    have "keeps E (cur s) c" using c by (simp add: store_property_entry_def simple_entry_keeps)
    then show ?thesis using AccountEntry_keeps(1) [OF st] assms(2)
      by (auto simp: ledger_inv_def intro: keeps_trans)
  qed
  ultimately show ?thesis
    using v'(2) inv a2 room k'
    by (auto simp: s' ledger_inv_def ledger_ok_def asset_total_def get_fees_def account_room_def
        get_last_account_id_def)
qed

end
