(* ===== verification/Samples.thy ===== *)
theory Samples
  imports Evaluate
begin

text \<open>
  Concrete transactions on the node of \<open>Sample_State\<close>, run by the kernel's simplifier, on which
  the hypotheses of the properties about evaluation are discharged.
\<close>

definition sample_chain :: chain where
  "sample_chain = Pending new_pending (Database sample_db)"

text \<open>A machine that executes ten instructions and changes nothing.\<close>

definition idle_vm :: vm where
  "idle_vm contract api arg caller limit s =
     \<lparr>vm_state = s, vm_internal_error = False, vm_exception_code = 0, vm_executed = 10\<rparr>"

definition sample_trx :: "Operation list \<Rightarrow> nat list \<Rightarrow> SignedTransaction" where
  "sample_trx ops sigs = SignedTransaction 3000 None [] (mk_Asset 0 0) ops 0 0 sigs"

definition sample_withdraw :: "address \<Rightarrow> share \<Rightarrow> Operation" where
  "sample_withdraw b x = withdraw_op \<lparr>wd_balance_id = b, wd_amount = x, wd_claim_input_data = []\<rparr>"

definition sample_deposit :: "address \<Rightarrow> asset_id \<Rightarrow> share \<Rightarrow> Operation" where
  "sample_deposit ow k x = deposit_op \<lparr>dep_amount = x,
     dep_condition = signature_condition ow k 0 withdraw_common_type\<rparr>"

lemmas scenario_defs [eval_simps] =
  sample_chain_def idle_vm_def sample_trx_def sample_withdraw_def sample_deposit_def

abbreviation sample_transfer :: SignedTransaction where
  "sample_transfer \<equiv> sample_trx [sample_withdraw 2100 2100000, sample_deposit 12 0 2000000] [1]"

lemma not_isl_ex: "\<not> isl m \<Longrightarrow> \<exists>x. m = Inr x"
  by (cases m) auto

lemma sample_transfer_runs:
  "\<exists>s. evaluate sample_env idle_vm sample_transfer False
     (new_eval_state sample_env sample_chain False) = Inr s"
  by (rule not_isl_ex) (simp add: eval_simps cong: ebind_weak_cong)

end
