(* ===== verification/Conservation.thy ===== *)
theory Conservation
  imports Ledger Samples
begin

text \<open>
  Conservation for whole transactions: the operations one after the other, then the fees that
  \<open>post_evaluate\<close> moves from the transaction into the assets' collected fees.
\<close>

section \<open>Operations\<close>

text \<open>
  The operations that run neither a contract nor a nested transaction: all of those a user
  transaction without contracts consists of, and those of a result transaction after its first.
\<close>

definition plain_op :: "Operation \<Rightarrow> bool" where
  "plain_op op \<longleftrightarrow> \<not> is_contract_op (op_type op) \<and> op_type op \<noteq> transaction_op_type"

lemmas operation_keeps =
  DepositOperation_keeps WithdrawOperation_keeps WithdrawContractOperation_keeps
  BalancesWithdrawOperation_keeps DepositContractOperation_keeps CreateAssetOperation_keeps
  UpdateAssetOperation_keeps UpdateAssetExtOperation_keeps IssueAssetOperation_keeps
  UpdateAccountOperation_keeps WithdrawPayOperation_keeps DefineSlateOperation_keeps
  ImessageMemoOperation_keeps EventOperation_keeps StorageOperation_keeps
  OnUpgradeOperation_keeps ContractInfoOperation_keeps OnDestroyOperation_keeps

lemma evaluate_operation_conserves:
  assumes "plain_op op" "evaluate_operation E vm op s = Inr s'" "ledger_inv E c0 (Suc n) s"
  shows "ledger_inv E c0 n s' \<and> (\<forall>k. asset_total s' k = asset_total s k)"
proof (cases "\<exists>r. op = register_account_op r")
  case True
  then obtain r where "RegisterAccountOperation_evaluate E r s = Inr s'" using assms(2) by auto
  then show ?thesis using assms(3) by (rule RegisterAccountOperation_conserves)
next
  case False
  with assms(1,2) have "keeps_ledger E s s'"
    by (cases op) (auto simp: plain_op_def is_contract_op_def UpdateBalanceVoteOperation_evaluate_def
        UpdateSigningKeyOperation_evaluate_def OnCallSuccessOperation_evaluate_def
        intro: operation_keeps split: if_splits)
  then show ?thesis using assms(3) by (rule keeps_ledger_inv)
qed

lemma next_op_fields [simp]: "cur (next_op s) = cur s" "es_balance (next_op s) = es_balance s"
  by (simp_all add: next_op_def)

lemma ledger_inv_next [simp]: "ledger_inv E c0 n (next_op s) = ledger_inv E c0 n s"
  by (simp add: ledger_inv_def)

lemma asset_total_next [simp]: "asset_total (next_op s) k = asset_total s k"
  by (simp add: asset_total_def get_fees_def)

lemma operations_conserve:
  assumes "efold (\<lambda>op s. ebind (evaluate_operation E vm op s) (\<lambda>s'. Inr (next_op s'))) ops s = Inr s'"
    and "\<forall>op \<in> set ops. plain_op op" "ledger_inv E c0 (length ops + n) s"
  shows "ledger_inv E c0 n s' \<and> (\<forall>k. asset_total s' k = asset_total s k)"
  using assms
proof (induction ops arbitrary: s)
  case (Cons op ops)
  then obtain s1 where s1: "evaluate_operation E vm op s = Inr s1"
    and rest: "efold (\<lambda>op s. ebind (evaluate_operation E vm op s) (\<lambda>s'. Inr (next_op s'))) ops
      (next_op s1) = Inr s'" by auto
  have "ledger_inv E c0 (length ops + n) s1 \<and> (\<forall>k. asset_total s1 k = asset_total s k)"
    by (rule evaluate_operation_conserves [OF _ s1]) (use Cons.prems in simp_all)
  with Cons.IH [OF rest] Cons.prems(2) show ?case by simp
qed simp

section \<open>Fees\<close>

lemma collect_fee_moves:
  assumes "collect_fee (i, v) s = Inr s'"
  shows "moves E (\<lambda>k. if k = i then w64 v else 0) s s' \<and> es_balance s' = es_balance s \<and>
    withdrawed_contract_balance s' = withdrawed_contract_balance s"
proof (cases "v > 0")
  case True
  with assms obtain a x where a: "asset_lookup_by_id (cur s) i = Some a"
    and x: "safe_add (ast_collected_fees a) v = Inr x"
    and store: "lift_chain (store_asset_entry (a\<lparr>ast_collected_fees := x\<rparr>)) s = Inr s'"
    by (auto simp: collect_fee_def lift_chain_def)
  have "moves E (\<lambda>k. if k = ast_id a then w64 v else 0) s s'"
    by (intro moves_eq [OF store_asset_moves [OF store, of E "w64 v"]])
      (use a asset_at [of E "cur s", OF _ a] in \<open>simp_all add: asset_word_def w64_safe_add [OF x]\<close>)
  then have "moves E (\<lambda>k. if k = i then w64 v else 0) s s'"
    by (rule moves_eq) (use asset_at [of E "cur s", OF _ a] in simp)
  then show ?thesis using store by (auto elim: lift_chain_Inr)
next
  case False
  with assms have "v = 0 \<and> s' = s" by (auto simp: collect_fee_def split: if_splits)
  then show ?thesis using moves_eq [OF moves_refl [of E s]] by simp
qed

lemma collect_fees:
  assumes "efold collect_fee xs s = Inr s'" "distinct (map fst xs)" "ledger_inv E c0 n s"
  shows "ledger_inv E c0 n s' \<and> es_balance s' = es_balance s \<and>
    (\<forall>k. vsum k (view (cur s')) = vsum k (view (cur s)) + w64 (smap_get0 xs k))"
  using assms
proof (induction xs arbitrary: s)
  case (Cons x xs)
  obtain i v where x: "x = (i, v)" by (cases x)
  from Cons.prems(1) x obtain s1 where s1: "collect_fee (i, v) s = Inr s1"
    and rest: "efold collect_fee xs s1 = Inr s'" by auto
  have step: "ledger_inv E c0 n s1" "es_balance s1 = es_balance s"
    "vsum k (view (cur s1)) = vsum k (view (cur s)) + (if k = i then w64 v else 0)" for k
    using collect_fee_moves [OF s1, of E] Cons.prems(3)
    by (auto simp: moves_def ledger_inv_def asset_total_def get_fees_def account_room_def
        get_last_account_id_def intro: keeps_trans)
  have "map_of xs i = None" using Cons.prems(2) x by (simp add: map_of_eq_None_iff)
  then have "w64 (smap_get0 (x # xs) k) = (if k = i then w64 v else 0) + w64 (smap_get0 xs k)" for k
    by (simp add: x smap_get0_def)
  with Cons.IH [OF rest _ step(1)] step Cons.prems(2) show ?case by simp
qed (simp add: smap_get0_def)

lemma efold_check:
  assumes "efold f xs s = Inr s'" "\<And>x u v. f x u = Inr v \<Longrightarrow> v = u"
  shows "s' = s"
  using efold_invariant [OF assms(1), of "\<lambda>u. u = s"] assms(2) by blast

lemma post_evaluate_conserves:
  assumes "post_evaluate s = Inr s'" "ledger_inv E c0 n s"
  shows "ledger_inv E c0 n s' \<and> (\<forall>k. vsum k (view (cur s')) = asset_total s k)"
proof -
  define bal where "bal = (if map_of (es_balance s) 0 = None
      then smap_set 0 0 (es_balance s) else es_balance s)"
  from assms(1) obtain s1 s3 s4 where
    w: "efold (\<lambda>item s. ebind (validate_asset (mk_Asset 0 (fst item)) s) (\<lambda>_. Inr s))
          (es_withdraws s) s = Inr s1"
    and f: "efold check_fee
        (if map_of (es_balance s1) 0 = None then smap_set 0 0 (es_balance s1) else es_balance s1)
        (s1\<lparr>es_balance := (if map_of (es_balance s1) 0 = None
           then smap_set 0 0 (es_balance s1) else es_balance s1)\<rparr>) = Inr s3"
    and col: "efold collect_fee (es_balance s3) s3 = Inr s4"
    and con: "efold check_contract_balance (withdrawed_contract_balance s4) s4 = Inr s'"
    unfolding post_evaluate_def Let_def by auto
  have s1: "s1 = s" by (rule efold_check [OF w]) auto
  have s3: "s3 = s\<lparr>es_balance := bal\<rparr>"
    unfolding bal_def by (rule efold_check [OF f [unfolded s1]])
      (auto simp: check_fee_def split: if_splits)
  have s': "s' = s4"
    by (rule efold_check [OF con]) (auto simp: check_contract_balance_def split: option.splits if_splits)
  have "smap_ok bal" using assms(2) by (simp add: bal_def ledger_inv_def)
  then have d: "distinct (map fst bal)" by (rule smap_ok_distinct)
  have get: "smap_get0 bal = smap_get0 (es_balance s)"
    by (auto simp: bal_def smap_get0_def fun_eq_iff)
  have "ledger_inv E c0 n s3" using assms(2) \<open>smap_ok bal\<close> by (simp add: s3 ledger_inv_def)
  from collect_fees [OF col _ this] d show ?thesis
    by (simp add: s' s3 get asset_total_def get_fees_def)
qed

lemma update_delegate_vote_keeps:
  assumes "update_delegate_vote E item s = Inr s'"
  shows "keeps_ledger E s s' \<and> es_balance s' = es_balance s"
proof -
  from assms obtain a d where a: "account_lookup_by_id (cur s) (fst item) = Some a"
    and d: "acc_delegate_info a = Some d"
    and store: "lift_chain (store_account_entry E (a\<lparr>acc_delegate_info :=
        Some (d\<lparr>votes_for := wrap64 (votes_for d + snd item)\<rparr>)\<rparr>)) s = Inr s'"
    by (auto simp: update_delegate_vote_def is_delegate_def adjust_votes_for_def lift_chain_def
        split: option.splits if_splits)
  have "keeps_ledger E s s'"
    by (rule moves_eq [OF store_account_moves [OF store, where a = a and x = 0]])
      (use a account_at [of E "cur s", OF _ a] in \<open>simp_all add: pay_word_def d\<close>)
  then show ?thesis using store by (auto elim: lift_chain_Inr)
qed

lemma keeps_vsum:
  assumes "keeps_ledger E s s'" "es_balance s' = es_balance s" "ledger_inv E c0 n s"
  shows "ledger_inv E c0 n s' \<and> (\<forall>k. vsum k (view (cur s')) = vsum k (view (cur s)))"
  using assms by (auto simp: moves_def ledger_inv_def asset_total_def get_fees_def account_room_def
      get_last_account_id_def intro: keeps_trans)

lemma update_delegate_votes_conserves:
  assumes "update_delegate_votes E s = Inr s'" "ledger_inv E c0 n s"
  shows "ledger_inv E c0 n s' \<and> (\<forall>k. vsum k (view (cur s')) = vsum k (view (cur s)))"
proof (rule efold_invariant [OF assms(1) [unfolded update_delegate_votes_def],
      of "\<lambda>u. ledger_inv E c0 n u \<and> (\<forall>k. vsum k (view (cur u)) = vsum k (view (cur s)))"])
  fix x u v assume u: "ledger_inv E c0 n u \<and> (\<forall>k. vsum k (view (cur u)) = vsum k (view (cur s)))"
    and "update_delegate_vote E x u = Inr v"
  with keeps_vsum [of E u v c0 n] show "ledger_inv E c0 n v \<and> (\<forall>k. vsum k (view (cur v)) = vsum k (view (cur s)))"
    using update_delegate_vote_keeps [of E x u v] by simp
qed (use assms(2) in simp)

lemma settle_conserves:
  assumes "settle E s = Inr s'" "ledger_inv E c0 n s"
  shows "ledger_inv E c0 n s' \<and> (\<forall>k. vsum k (view (cur s')) = asset_total s k)"
proof -
  from assms(1) obtain s1 where p: "post_evaluate s = Inr s1" and u: "update_delegate_votes E s1 = Inr s'"
    by (auto simp: settle_def)
  from post_evaluate_conserves [OF p assms(2)] update_delegate_votes_conserves [OF u, of c0 n]
  show ?thesis by simp
qed

section \<open>Transactions\<close>

lemma recover_signatures_frame:
  assumes "recover_signatures E t sigs s = Inr s'"
  shows "cur s' = cur s \<and> es_balance s' = es_balance s"
proof (cases "skip_signature_check s")
  case True
  with assms show ?thesis by (simp add: recover_signatures_def)
next
  case False
  with assms have "efold (add_signature E (trx_digest E t (the_chain_id E))) sigs s = Inr s'"
    by (simp add: recover_signatures_def)
  then show ?thesis by (rule efold_invariant) (auto simp: add_signature_def)
qed

lemma transaction_store_keeps:
  assumes m: "lift_chain (TransactionEntry_store E tid e) s = Inr s'"
  shows "keeps_ledger E s s'"
proof (rule moves_chain [OF m])
  fix c assume c: "live (cur s)" "TransactionEntry_store E tid e (cur s) = Inr c"
  have v: "view c = (view (cur s))\<lparr>v_transaction := (transaction_lookup_by_id (cur s))(tid \<mapsto> e)\<rparr>"
    "live c"
    using transaction_store.store_view [OF _ c(1) c(2)] by auto
  have b: "balance_lookup_by_id c = balance_lookup_by_id (cur s)"
    using arg_cong [OF v(1), of v_balance] by simp
  have a: "asset_lookup_by_id c = asset_lookup_by_id (cur s)"
    using arg_cong [OF v(1), of v_asset] by simp
  have d: "account_lookup_by_id c = account_lookup_by_id (cur s)"
    using arg_cong [OF v(1), of v_account] by simp
  have p: "property_lookup_by_id c = property_lookup_by_id (cur s)"
    using arg_cong [OF v(1), of v_property] by simp
  from b a d p v(2) show "live c \<and> balance_lookup_by_id c = balance_lookup_by_id (cur s) \<and>
      asset_lookup_by_id c = asset_lookup_by_id (cur s) \<and>
      account_lookup_by_id c = account_lookup_by_id (cur s) \<and>
      property_lookup_by_id c last_account_id = property_lookup_by_id (cur s) last_account_id"
    by simp
qed (rule TransactionEntry_keeps)

lemma store_transaction_keeps:
  assumes "store_transaction E s = Inr s'"
  shows "keeps_ledger E s s' \<and> es_balance s' = es_balance s"
  using assms transaction_store_keeps
  by (auto simp: store_transaction_def elim: lift_chain_Inr)

lemma charge_signatures_fields [simp]:
  "cur (charge_signatures n s) = cur s" "es_balance (charge_signatures n s) = es_balance s"
  by (simp_all add: charge_signatures_def Let_def)

lemma finish_transaction_conserves:
  assumes "finish_transaction E t r s = Inr (b, s')" "\<not> ignores_required_fee t" "ledger_inv E c0 n s"
  shows "ledger_inv E c0 n s' \<and> (\<forall>k. vsum k (view (cur s')) = asset_total s k)"
proof -
  from assms(1,2) obtain s2 where
    settle: "settle E (charge_signatures (length (signatures t)) s) = Inr s2"
    and store: "store_transaction E (s2\<lparr>es_trx := r\<rparr>) = Inr s'"
    by (auto simp: finish_transaction_def Let_def)
  have inv: "ledger_inv E c0 n (charge_signatures (length (signatures t)) s)"
    using assms(3) by (simp add: ledger_inv_def)
  have s2: "ledger_inv E c0 n s2 \<and> (\<forall>k. vsum k (view (cur s2)) = asset_total s k)"
    using settle_conserves [OF settle inv] by (simp add: asset_total_def get_fees_def)
  then have "ledger_inv E c0 n (s2\<lparr>es_trx := r\<rparr>)" by (simp add: ledger_inv_def)
  with keeps_vsum store_transaction_keeps [OF store] s2 show ?thesis by fastforce
qed

definition plain_transaction :: "SignedTransaction \<Rightarrow> bool" where
  "plain_transaction t \<longleftrightarrow> (\<forall>op \<in> set (operations t). plain_op op)"

lemma plain_not_ignored: "plain_transaction t \<Longrightarrow> \<not> ignores_required_fee t"
  by (auto simp: plain_transaction_def plain_op_def ignores_required_fee_def)

lemma evaluate_core_conserves:
  assumes "evaluate_core E vm t s = Inr (b, s')" "plain_transaction t"
    "ledger_inv E c0 (length (operations t) + n) s"
  shows "ledger_inv E c0 n s' \<and> (\<forall>k. vsum k (view (cur s')) = asset_total s k)"
proof -
  let ?step = "\<lambda>op s. ebind (evaluate_operation E vm op s) (\<lambda>s'. Inr (next_op s'))"
  have "op_type op \<noteq> transaction_op_type" if "op \<in> set (operations t)" for op
    using assms(2) that by (simp add: plain_transaction_def plain_op_def)
  with assms(1) obtain s1 s3 where
    rec: "recover_signatures E t (fold sset_insert (signatures t) []) (s\<lparr>es_trx := t\<rparr>) = Inr s1"
    and ops: "efold ?step (operations t) (s1\<lparr>current_op_index := 0\<rparr>) = Inr s3"
    and fin: "finish_transaction E t t s3 = Inr (b, s')"
    unfolding evaluate_core.simps [of E vm t s] Let_def
    by (cases "operations t") auto
  have s1: "cur s1 = cur s \<and> es_balance s1 = es_balance s"
    using recover_signatures_frame [OF rec] by simp
  have s3: "ledger_inv E c0 n s3 \<and> (\<forall>k. asset_total s3 k = asset_total (s1\<lparr>current_op_index := 0\<rparr>) k)"
    by (rule operations_conserve [OF ops])
      (use assms(2,3) s1 in \<open>simp_all add: plain_transaction_def ledger_inv_def\<close>)
  have t: "asset_total (s1\<lparr>current_op_index := 0\<rparr>) k = asset_total s k" for k
    using s1 by (simp add: asset_total_def get_fees_def)
  from finish_transaction_conserves [OF fin plain_not_ignored [OF assms(2)] conjunct1 [OF s3]] s3 t
  show ?thesis by simp
qed

lemma asset_total_new [simp]: "asset_total (new_eval_state E c sk) k = vsum k (view c)"
  by (simp add: asset_total_def get_fees_def new_eval_state_def)

lemma ledger_inv_new:
  "ledger_ok E c \<Longrightarrow> account_room n c \<Longrightarrow> keeps E c0 c \<Longrightarrow> ledger_inv E c0 n (new_eval_state E c sk)"
  by (simp add: ledger_inv_def new_eval_state_def smap_ok_def)

text \<open>
  C5 (invariant). Evaluating a transaction without contract calls conserves every asset: for each
  asset id, the sum of all balances, of all delegates' unclaimed pay (core asset only) and of the
  collected fees, less the recorded share supply, is the same in the state after the
  transaction as before, modulo the 64-bit width of a share. No list of registrations,
  withdrawals, deposits, fees, issues, votes and updates creates or destroys shares, whatever
  the two flags with which the caller evaluates it; and the entries stay stored under their own ids.
\<close>

theorem transaction_conserves_shares:
  assumes "evaluate E vm t ignore_state (new_eval_state E c skip_exec) = Inr s'"
    and "plain_transaction t" "ledger_ok E c" "account_room (length (operations t)) c"
  shows "ledger_ok E (cur s') \<and> (\<forall>k. vsum k (view (cur s')) = vsum k (view c))"
proof -
  obtain b where "evaluate_core E vm t (new_eval_state E c skip_exec) = Inr (b, s')"
    using assms(1) by (auto simp: evaluate_def ensure_def split: if_splits)
  then have "ledger_inv E c 0 s' \<and>
      (\<forall>k. vsum k (view (cur s')) = asset_total (new_eval_state E c skip_exec) k)"
    by (rule evaluate_core_conserves) (use assms in \<open>simp_all add: ledger_inv_new\<close>)
  then show ?thesis by (simp add: ledger_inv_def)
qed

lemma sample_ledger_ok: "ledger_ok sample_env sample_chain"
  by (auto simp: ledger_ok_def keys_ok_def eval_simps split: if_splits)

lemma sample_chain_room: "n \<le> 10 \<Longrightarrow> account_room n sample_chain"
  by (auto simp: account_room_def eval_simps split: if_splits)

lemma sample_transfer_plain: "plain_transaction sample_transfer"
  by (simp add: plain_transaction_def plain_op_def eval_simps)

theorem transaction_conserves_shares_witness:
  "\<exists>s'. evaluate sample_env idle_vm sample_transfer False
       (new_eval_state sample_env sample_chain False) = Inr s' \<and>
     (\<forall>k. vsum k (view (cur s')) = vsum k (view sample_chain))"
proof -
  obtain s' where run: "evaluate sample_env idle_vm sample_transfer False
      (new_eval_state sample_env sample_chain False) = Inr s'"
    using sample_transfer_runs by blast
  have "account_room (length (operations sample_transfer)) sample_chain"
    by (rule sample_chain_room) (simp add: sample_trx_def)
  from transaction_conserves_shares [OF run sample_transfer_plain sample_ledger_ok this] run
  show ?thesis by blast
qed

end
