(* ===== verification/Blocks.thy ===== *)
theory Blocks
  imports Evaluate
begin

text \<open>
  Blocks and what applying one does to the pending state: the header checks, the production
  statistics of the delegates, the transactions, the pay of the signing delegate, the order of
  the delegates of the next round and the random seed (\<open>Block.cpp\<close> and the member functions of
  \<open>ChainDatabaseImpl\<close> that \<open>extend_chain\<close> calls). In each of them \<open>self\<close> is the database under
  the pending state.
\<close>

section \<open>Block.hpp\<close>

record BlockHeader =
  bh_previous :: block_id
  bh_block_num :: nat
  bh_timestamp :: time
  bh_transaction_digest :: digest
  bh_next_secret_hash :: digest
  bh_previous_secret :: digest

record SignedBlockHeader = BlockHeader +
  bh_delegate_signature :: nat

record FullBlock = SignedBlockHeader +
  user_transactions :: "SignedTransaction list"

record DigestBlock = SignedBlockHeader +
  user_transaction_ids :: "trx_id list"

text \<open>
  The hash functions, key recovery and packing of other libraries, and the checkpoints that
  the node reads from a file.
\<close>

record block_lib =
  header_hash_id :: "SignedBlockHeader \<Rightarrow> block_id"
  header_signee :: "SignedBlockHeader \<Rightarrow> bool \<Rightarrow> public_key result"
  trx_ids_hash :: "trx_id list \<Rightarrow> digest"
  secret_hash :: "digest \<Rightarrow> digest"
  mix_seed :: "digest \<Rightarrow> digest \<Rightarrow> digest"
  sha256_of :: "digest \<Rightarrow> digest"
  hash_word :: "digest \<Rightarrow> nat \<Rightarrow> nat"
  block_data_size :: "FullBlock \<Rightarrow> nat"
  LAST_CHECKPOINT_BLOCK_NUM :: nat
  CHECKPOINT_BLOCKS :: "nat \<rightharpoonup> block_id"

definition block_header :: "FullBlock \<Rightarrow> SignedBlockHeader" where
  "block_header b = SignedBlockHeader.truncate b"

definition header_id :: "block_lib \<Rightarrow> SignedBlockHeader \<Rightarrow> block_id" where
  "header_id B h = header_hash_id B h"

definition signee :: "block_lib \<Rightarrow> SignedBlockHeader \<Rightarrow> bool \<Rightarrow> public_key result" where
  "signee B h enforce_canonical = header_signee B h enforce_canonical"

definition block_size :: "block_lib \<Rightarrow> FullBlock \<Rightarrow> nat" where
  "block_size B b = block_data_size B b"

definition mk_DigestBlock :: "env \<Rightarrow> FullBlock \<Rightarrow> DigestBlock" where
  "mk_DigestBlock E b = SignedBlockHeader.extend (block_header b)
     (DigestBlock.fields (map (trx_id E) (user_transactions b)))"

definition calculate_transaction_digest :: "block_lib \<Rightarrow> DigestBlock \<Rightarrow> digest" where
  "calculate_transaction_digest B b = trx_ids_hash B (user_transaction_ids b)"

definition validate_digest :: "block_lib \<Rightarrow> DigestBlock \<Rightarrow> bool" where
  "validate_digest B b \<longleftrightarrow> calculate_transaction_digest B b = bh_transaction_digest b"

fun insert_all_new :: "trx_id list \<Rightarrow> trx_id set \<Rightarrow> bool" where
  "insert_all_new [] trx_ids = True"
| "insert_all_new (k # ks) trx_ids =
     (if k \<in> trx_ids then False else insert_all_new ks (insert k trx_ids))"

definition validate_unique :: "DigestBlock \<Rightarrow> bool" where
  "validate_unique b = insert_all_new (user_transaction_ids b) {}"

section \<open>Delegates\<close>

definition get_delegate_entry_for_signee :: "env \<Rightarrow> chain \<Rightarrow> public_key \<Rightarrow> AccountEntry result" where
  "get_delegate_entry_for_signee E self block_signee =
     ebind (account_lookup_by_address self (key_address E block_signee)) (\<lambda>delegate_entry.
     case delegate_entry of
       None \<Rightarrow> Inl assert_exception
     | Some a \<Rightarrow> if is_delegate a then Inr a else Inl assert_exception)"

definition get_slot_signee :: "chain \<Rightarrow> time \<Rightarrow> account_id list \<Rightarrow> AccountEntry result" where
  "get_slot_signee self timestamp ordered_delegates =
     (let delegate_pos = get_slot_number timestamp mod ALP_BLOCKCHAIN_NUM_DELEGATES in
      ebind (ensure (delegate_pos < length ordered_delegates) assert_exception) (\<lambda>_.
      ebind (require assert_exception
               (account_lookup_by_id self (ordered_delegates ! delegate_pos))) (\<lambda>delegate_entry.
      ebind (ensure (is_delegate delegate_entry) assert_exception) (\<lambda>_. Inr delegate_entry))))"

text \<open>
  The loop of \<open>get_next_producible_block_timestamp\<close>: \<open>n\<close> slots from \<open>next_block_time\<close> on.
\<close>

fun producible_from :: "nat \<Rightarrow> time \<Rightarrow> account_id list \<Rightarrow> account_id list \<Rightarrow> time option result" where
  "producible_from 0 t active ids = Inr None"
| "producible_from (Suc n) t active ids =
     (let delegate_pos = get_slot_number t mod ALP_BLOCKCHAIN_NUM_DELEGATES in
      ebind (ensure (delegate_pos < length active) assert_exception) (\<lambda>_.
        if active ! delegate_pos \<in> set ids then Inr (Some t)
        else producible_from n (t + ALP_BLOCKCHAIN_BLOCK_INTERVAL_SEC) active ids))"

definition get_next_producible_block_timestamp ::
  "env \<Rightarrow> chain \<Rightarrow> account_id list \<Rightarrow> time option result" where
  "get_next_producible_block_timestamp E self delegate_ids =
     (let t0 = get_slot_start_time (wall_clock E);
          t = (if t0 \<le> now E self then t0 + ALP_BLOCKCHAIN_BLOCK_INTERVAL_SEC else t0)
      in ebind (get_active_delegates self) (\<lambda>active.
           producible_from ALP_BLOCKCHAIN_NUM_DELEGATES t active delegate_ids))"

text \<open>The delegates in the order of their votes; the loop runs over the vote set.\<close>

fun votes_scan :: "nat \<Rightarrow> nat \<Rightarrow> nat \<Rightarrow> VoteDel list \<Rightarrow> account_id list \<Rightarrow> account_id list" where
  "votes_scan first count pos [] sorted_delegates = sorted_delegates"
| "votes_scan first count pos (v # vs) sorted_delegates =
     (if length sorted_delegates < count then
        votes_scan first count (Suc pos) vs
          (if first \<le> pos then sorted_delegates @ [vd_delegate_id v] else sorted_delegates)
      else sorted_delegates)"

definition get_delegates_by_vote :: "database \<Rightarrow> nat \<Rightarrow> nat \<Rightarrow> account_id list" where
  "get_delegates_by_vote d first count =
     (let count = (if count > length (db_delegate_votes d) then length (db_delegate_votes d) else count)
      in votes_scan first count 0 (db_delegate_votes d) [])"

definition next_round_active_delegates :: "database \<Rightarrow> account_id list" where
  "next_round_active_delegates d = get_delegates_by_vote d 0 ALP_BLOCKCHAIN_NUM_DELEGATES"

definition get_all_delegates_by_vote :: "database \<Rightarrow> account_id list" where
  "get_all_delegates_by_vote d = map vd_delegate_id (db_delegate_votes d)"

section \<open>verify\_header\<close>

text \<open>\<open>head_id\<close> is \<open>_head_block_id\<close>; number and time of the head block are those of the database.\<close>

definition verify_header ::
  "env \<Rightarrow> block_lib \<Rightarrow> database \<Rightarrow> block_id \<Rightarrow> DigestBlock \<Rightarrow> public_key \<Rightarrow> unit result" where
  "verify_header E B d head_id b block_signee =
     ebind (ensure (\<not> (bh_block_num b > 1 \<and> bh_block_num b \<noteq> (db_head_block_num d + 1) mod 2 ^ 32))
              block_numbers_not_sequential) (\<lambda>_.
     ebind (ensure (bh_previous b = head_id) invalid_previous_block_id) (\<lambda>_.
     ebind (ensure (bh_timestamp b mod ALP_BLOCKCHAIN_BLOCK_INTERVAL_SEC = 0) invalid_block_time) (\<lambda>_.
     ebind (ensure (\<not> (bh_block_num b > 1 \<and> bh_timestamp b \<le> db_head_block_timestamp d))
              time_in_past) (\<lambda>_.
     ebind (ensure (\<not> bh_timestamp b > wall_clock E + ALP_BLOCKCHAIN_BLOCK_INTERVAL_SEC * 2)
              time_in_future) (\<lambda>_.
     ebind (ensure (validate_digest B b) invalid_block_digest) (\<lambda>_.
     ebind (ensure (validate_unique b) assert_exception) (\<lambda>_.
     ebind (get_active_delegates (Database d)) (\<lambda>active.
     ebind (get_slot_signee (Database d) (bh_timestamp b) active) (\<lambda>expected_delegate.
     ebind (signing_key expected_delegate) (\<lambda>key.
       ensure (block_signee = key) invalid_delegate_signee))))))))))"

section \<open>update\_delegate\_production\_info\<close>

text \<open>
  One missed slot: its delegate's counter goes up. \<open>missed_slots\<close> is the loop over the slots
  between the head block and the new one; the counter of confirmations is a \<open>uint64_t\<close>.
\<close>

definition miss_slot :: "env \<Rightarrow> chain \<Rightarrow> account_id list \<Rightarrow> time \<Rightarrow> chain \<Rightarrow> chain result" where
  "miss_slot E self active block_timestamp c =
     ebind (get_slot_signee self block_timestamp active) (\<lambda>a.
     case account_lookup_by_id c (acc_id a) of
       None \<Rightarrow> Inl assert_exception
     | Some e \<Rightarrow>
         (case acc_delegate_info e of
           None \<Rightarrow> Inl assert_exception
         | Some di \<Rightarrow>
             ebind (store_account_entry E (e\<lparr>acc_delegate_info :=
                      Some (di\<lparr>blocks_missed := (blocks_missed di + 1) mod 2 ^ 32\<rparr>)\<rparr>) c) (\<lambda>c1.
             if the_statistics_enabled E
             then store_slot_entry E \<lparr>slot_index = SlotIndex (acc_id a) block_timestamp,
                    slot_block_id = None\<rparr> c1
             else Inr c1)))"

function missed_slots ::
  "env \<Rightarrow> chain \<Rightarrow> account_id list \<Rightarrow> time \<Rightarrow> time \<Rightarrow> int \<Rightarrow> chain \<Rightarrow> (int \<times> chain) result" where
  "missed_slots E self active t until confirmations c =
     (if t < until then
        ebind (miss_slot E self active t c)
          (missed_slots E self active (t + ALP_BLOCKCHAIN_BLOCK_INTERVAL_SEC) until
             (u64 (confirmations + 2)))
      else Inr (confirmations, c))"
  by pat_completeness auto
termination
  by (relation "measure (\<lambda>(E, self, active, t, until, n, c). until - t)")
    (auto simp: ALP_BLOCKCHAIN_BLOCK_INTERVAL_SEC_def)

declare missed_slots.simps [simp del]

definition clamp_confirmations :: "int \<Rightarrow> int" where
  "clamp_confirmations n =
     (let n1 = u64 (n - 1);
          n2 = (if n1 < 1 then 1 else n1)
      in if n2 > int ALP_BLOCKCHAIN_NUM_DELEGATES * 3 then 3 * int ALP_BLOCKCHAIN_NUM_DELEGATES else n2)"

definition produced_by ::
  "env \<Rightarrow> block_lib \<Rightarrow> FullBlock \<Rightarrow> block_id \<Rightarrow> account_id \<Rightarrow> chain \<Rightarrow> chain result" where
  "produced_by E B b bid delegate_id c =
     (case account_lookup_by_id c delegate_id of
        None \<Rightarrow> Inl assert_exception
      | Some e \<Rightarrow>
          (case acc_delegate_info e of
            None \<Rightarrow> Inl assert_exception
          | Some di \<Rightarrow>
              ebind (ensure (case next_secret_hash di of None \<Rightarrow> True
                             | Some h \<Rightarrow> secret_hash B (bh_previous_secret b) = h)
                       assert_exception) (\<lambda>_.
              ebind (store_account_entry E (e\<lparr>acc_delegate_info := Some (di\<lparr>
                       blocks_produced := (blocks_produced di + 1) mod 2 ^ 32,
                       next_secret_hash := Some (bh_next_secret_hash b),
                       last_block_num_produced := bh_block_num b\<rparr>)\<rparr>) c) (\<lambda>c1.
              if the_statistics_enabled E
              then store_slot_entry E \<lparr>slot_index = SlotIndex delegate_id (bh_timestamp b),
                     slot_block_id = Some bid\<rparr> c1
              else Inr c1))))"

definition update_delegate_production_info ::
  "env \<Rightarrow> block_lib \<Rightarrow> database \<Rightarrow> FullBlock \<Rightarrow> block_id \<Rightarrow> public_key \<Rightarrow> chain \<Rightarrow> chain result" where
  "update_delegate_production_info E B d b bid block_signee c =
     ebind (get_delegate_entry_for_signee E (Database d) block_signee) (\<lambda>a.
     ebind (produced_by E B b bid (acc_id a) c) (\<lambda>c1.
     ebind (get_required_confirmations (Database d)) (\<lambda>n.
     let t0 = (if db_head_block_num d > 0
               then db_head_block_timestamp d + ALP_BLOCKCHAIN_BLOCK_INTERVAL_SEC
               else bh_timestamp b) in
     ebind (get_active_delegates (Database d)) (\<lambda>active.
     ebind (missed_slots E (Database d) active t0 (bh_timestamp b) n c1) (\<lambda>(n1, c2).
       set_required_confirmations (clamp_confirmations n1) c2)))))"

section \<open>update\_random\_seed and update\_active\_delegate\_list\<close>

definition update_random_seed :: "block_lib \<Rightarrow> digest \<Rightarrow> chain \<Rightarrow> chain result" where
  "update_random_seed B new_secret c =
     ebind (get_current_random_seed c) (\<lambda>current_seed.
       store_property_entry last_random_seed_id (pv_digest (mix_seed B new_secret current_seed)) c)"

text \<open>
  The shuffle of the delegates: element \<open>i\<close> is swapped with one of the elements from \<open>i\<close> on,
  chosen by the \<open>x\<close>th word of the hash; the hash is renewed when its four words are used.
\<close>

definition swap_elems :: "nat \<Rightarrow> nat \<Rightarrow> 'a list \<Rightarrow> 'a list" where
  "swap_elems i j xs = xs[i := xs ! j, j := xs ! i]"

function shuffle_from ::
  "block_lib \<Rightarrow> nat \<Rightarrow> nat \<Rightarrow> digest \<Rightarrow> account_id list \<Rightarrow> account_id list" where
  "shuffle_from B i x rand_seed active_del =
     (if i < length active_del then
        let r = hash_word B rand_seed x;
            choices = (length active_del - i) mod 2 ^ 32;
            j = (r mod choices) mod 2 ^ 32 + i;
            x1 = (x + 1) mod 4
        in shuffle_from B (Suc i) x1 (if x1 = 0 then sha256_of B rand_seed else rand_seed)
             (swap_elems i j active_del)
      else active_del)"
  by pat_completeness auto
termination
  by (relation "measure (\<lambda>(B, i, x, r, ds). length ds - i)") (auto simp: swap_elems_def)

declare shuffle_from.simps [simp del]

definition update_active_delegate_list ::
  "block_lib \<Rightarrow> database \<Rightarrow> nat \<Rightarrow> chain \<Rightarrow> chain result" where
  "update_active_delegate_list B d block_num c =
     (if block_num mod ALP_BLOCKCHAIN_NUM_DELEGATES \<noteq> 0 then Inr c
      else
        let active_del = next_round_active_delegates d in
        ebind (get_current_random_seed c) (\<lambda>seed.
          set_active_delegates (shuffle_from B 0 0 (sha256_of B seed) active_del) c))"

section \<open>pay\_delegate\<close>

text \<open>
  The value is the pending state with the amounts that the code also keeps: the paycheck
  (\<open>_block_per_account_reword_amount\<close>) and the three fields of the block entry.
\<close>

record paycheck =
  shares_issued :: share
  fees_collected :: share
  fees_destroyed :: share
  accepted_paycheck :: share

definition compute_pay :: "share \<Rightarrow> nat \<Rightarrow> share \<Rightarrow> paycheck result" where
  "compute_pay max_new_shares rate collected =
     (let accepted_new_shares = cdiv (wrap64 (max_new_shares * int rate)) 100;
          max_collected_fees = cdiv collected (14 * int ALP_BLOCKCHAIN_BLOCKS_PER_DAY);
          accepted_collected_fees = cdiv (wrap64 (max_collected_fees * int rate)) 100;
          destroyed_collected_fees = wrap64 (max_collected_fees - accepted_collected_fees)
      in ebind (ensure (max_collected_fees \<ge> 0 \<and> accepted_collected_fees \<ge> 0 \<and>
                        destroyed_collected_fees \<ge> 0) assert_exception) (\<lambda>_.
         let total_pay = wrap64 (accepted_new_shares + accepted_collected_fees) in
         ebind (ensure (total_pay \<ge> 0) assert_exception) (\<lambda>_.
           Inr \<lparr>shares_issued = accepted_new_shares, fees_collected = accepted_collected_fees,
                fees_destroyed = destroyed_collected_fees, accepted_paycheck = total_pay\<rparr>)))"

definition pay_asset :: "paycheck \<Rightarrow> AssetEntry \<Rightarrow> AssetEntry" where
  "pay_asset p a =
     (let max_collected_fees = cdiv (ast_collected_fees a) (14 * int ALP_BLOCKCHAIN_BLOCKS_PER_DAY)
      in a\<lparr>ast_current_share_supply :=
             wrap64 (wrap64 (ast_current_share_supply a + shares_issued p) - fees_destroyed p),
           ast_collected_fees := wrap64 (ast_collected_fees a - max_collected_fees)\<rparr>)"

definition pay_stats :: "share \<Rightarrow> DelegateStats \<Rightarrow> DelegateStats" where
  "pay_stats total_pay di =
     di\<lparr>votes_for := wrap64 (votes_for di + total_pay),
        pay_balance := wrap64 (pay_balance di + total_pay),
        total_paid := wrap64 (total_paid di + total_pay)\<rparr>"

definition pay_delegate ::
  "env \<Rightarrow> database \<Rightarrow> public_key \<Rightarrow> chain \<Rightarrow> (paycheck \<times> chain) result" where
  "pay_delegate E d block_signee c =
     ebind (require assert_exception (asset_lookup_by_id c 0)) (\<lambda>base_asset.
     ebind (account_lookup_by_address (Database d) (key_address E block_signee)) (\<lambda>signer.
     ebind (require assert_exception signer) (\<lambda>a.
     ebind (require assert_exception (account_lookup_by_id c (acc_id a))) (\<lambda>e.
     ebind (require assert_exception (acc_delegate_info e)) (\<lambda>di.
     ebind (ensure (pay_rate di \<le> 100) assert_exception) (\<lambda>_.
     ebind (compute_pay (get_max_delegate_pay_issued_per_block (Database d)) (pay_rate di)
              (ast_collected_fees base_asset)) (\<lambda>p.
     ebind (store_account_entry E (e\<lparr>acc_delegate_info :=
              Some (pay_stats (accepted_paycheck p) di)\<rparr>) c) (\<lambda>c1.
     ebind (store_asset_entry (pay_asset p base_asset) c1) (\<lambda>c2. Inr (p, c2))))))))))"

section \<open>apply\_transactions\<close>

text \<open>
  The signature check of a transaction is handed to a thread: the model runs it when it is
  submitted, before \<open>_skip_signature_check\<close> is set for the evaluation that follows (a later
  run can only see the flag set, when \<open>check_signature\<close> is true). An exception of the thread
  is swallowed when its future is read. \<open>verify_signatures\<close> is \<open>_verify_transaction_signatures\<close>.
\<close>

definition signature_verdict ::
  "env \<Rightarrow> SignedTransaction \<Rightarrow> eval_state \<Rightarrow> bool result" where
  "signature_verdict E trx s =
     ebind (transaction_entry_analy trx s) (\<lambda>(_, all_balances, all_accounts).
       case transaction_signature_check E trx all_balances all_accounts s of
         Inl _ \<Rightarrow> Inr True
       | Inr (ok, _) \<Rightarrow> Inr ok)"

definition set_location :: "env \<Rightarrow> nat \<Rightarrow> nat \<Rightarrow> trx_id \<Rightarrow> chain \<Rightarrow> chain result" where
  "set_location E block_num trx_num tid c =
     ebind (require assert_exception (transaction_lookup_by_id c tid)) (\<lambda>entry.
       TransactionEntry_store E tid
         (entry\<lparr>chain_location := \<lparr>loc_block_num = block_num, loc_trx_num = trx_num\<rparr>\<rparr>) c)"

text \<open>\<open>operations[0].as<TransactionOperation>()\<close>; the list of an evaluated result is not empty.\<close>

definition origin_trx_id :: "env \<Rightarrow> SignedTransaction \<Rightarrow> trx_id result" where
  "origin_trx_id E trx =
     (case operations trx of
        transaction_op t # _ \<Rightarrow> Inr (trx_id E t)
      | _ \<Rightarrow> Inl assert_exception)"

definition set_locations ::
  "env \<Rightarrow> nat \<Rightarrow> nat \<Rightarrow> SignedTransaction \<Rightarrow> chain \<Rightarrow> chain result" where
  "set_locations E block_num trx_num trx c =
     (if result_trx_type trx = origin_transaction then
        set_location E block_num trx_num (trx_id E trx) c
      else if result_trx_type trx = incomplete_result_transaction then
        ebind (set_location E block_num trx_num (trx_id E trx) c) (\<lambda>c1.
        ebind (origin_trx_id E trx) (\<lambda>origin.
        ebind (set_location E block_num trx_num origin c1) (\<lambda>c2.
          set_location E block_num trx_num (result_trx_id trx) c2)))
      else if result_trx_type trx = complete_result_transaction then
        ebind (set_location E block_num trx_num (trx_id E trx) c) (\<lambda>c1.
        ebind (origin_trx_id E trx) (\<lambda>origin. set_location E block_num trx_num origin c1))
      else Inr c)"

record block_run =
  run_state :: chain
  run_trx_num :: nat
  run_events :: "EventOperation list"
  run_all_check :: bool

definition apply_transaction ::
  "env \<Rightarrow> vm \<Rightarrow> database \<Rightarrow> bool \<Rightarrow> bool \<Rightarrow> nat \<Rightarrow> SignedTransaction \<Rightarrow> block_run \<Rightarrow> block_run result" where
  "apply_transaction E vm d verify_signatures generating block_num trx r =
     (let s0 = (new_eval_state E (run_state r) False)\<lparr>skip_signature_check := \<not> verify_signatures\<rparr> in
      ebind (if skip_signature_check s0 then Inr True else signature_verdict E trx s0) (\<lambda>ok.
      ebind (ensure (trx_data_size E trx \<le> ALP_BLOCKCHAIN_MAX_TRX_SIZE) assert_exception) (\<lambda>_.
      ebind (if generating then Inr False
             else ebind (get_node_vm_enabled (Database d)) (\<lambda>b. Inr (\<not> b))) (\<lambda>skip.
      let skip = (if result_trx_type trx = incomplete_result_transaction then False else skip) in
      ebind (evaluate E vm trx True (s0\<lparr>skip_signature_check := True, es_skipexec := skip\<rparr>)) (\<lambda>s1.
      ebind (set_locations E block_num (run_trx_num r) trx (cur s1)) (\<lambda>c.
        Inr \<lparr>run_state = c, run_trx_num = run_trx_num r + 1,
             run_events = run_events r @ event_vector s1,
             run_all_check = (run_all_check r \<and> ok)\<rparr>))))))"

definition apply_transactions ::
  "env \<Rightarrow> vm \<Rightarrow> database \<Rightarrow> bool \<Rightarrow> bool \<Rightarrow> FullBlock \<Rightarrow> chain \<Rightarrow> (EventOperation list \<times> chain) result" where
  "apply_transactions E vm d verify_signatures generating b c =
     ebind (efold (apply_transaction E vm d verify_signatures generating (bh_block_num b))
              (user_transactions b)
              \<lparr>run_state = c, run_trx_num = 0, run_events = [], run_all_check = True\<rparr>) (\<lambda>r.
     ebind (ensure (run_all_check r) missing_signature) (\<lambda>_. Inr (run_events r, run_state r)))"

section \<open>All of it\<close>

text \<open>The part of \<open>extend_chain\<close> that works on the pending state of the block.\<close>

definition apply_block ::
  "env \<Rightarrow> block_lib \<Rightarrow> vm \<Rightarrow> database \<Rightarrow> bool \<Rightarrow> bool \<Rightarrow> FullBlock \<Rightarrow> block_id \<Rightarrow> public_key \<Rightarrow>
     chain \<Rightarrow> (paycheck \<times> EventOperation list \<times> chain) result" where
  "apply_block E B vm d verify_signatures generating b bid block_signee c =
     ebind (update_delegate_production_info E B d b bid block_signee c) (\<lambda>c1.
     ebind (apply_transactions E vm d verify_signatures generating b c1) (\<lambda>(events, c2).
     ebind (pay_delegate E d block_signee c2) (\<lambda>(p, c3).
     ebind (update_active_delegate_list B d (bh_block_num b) c3) (\<lambda>c4.
     ebind (update_random_seed B (bh_previous_secret b) c4) (\<lambda>c5. Inr (p, events, c5))))))"

lemmas block_defs =
  block_header_def header_id_def signee_def block_size_def mk_DigestBlock_def
  calculate_transaction_digest_def validate_digest_def validate_unique_def
  get_delegate_entry_for_signee_def get_slot_signee_def get_next_producible_block_timestamp_def
  get_delegates_by_vote_def next_round_active_delegates_def get_all_delegates_by_vote_def
  verify_header_def miss_slot_def clamp_confirmations_def produced_by_def
  update_delegate_production_info_def update_random_seed_def swap_elems_def
  update_active_delegate_list_def compute_pay_def pay_asset_def pay_stats_def pay_delegate_def
  signature_verdict_def set_location_def origin_trx_id_def set_locations_def
  apply_transaction_def apply_transactions_def apply_block_def u64_def

declare block_defs [eval_simps] missed_slots.simps [eval_simps] shuffle_from.simps [eval_simps]

end
