(* ===== verification/Actions.thy ===== *)
theory Actions
  imports Chain_Base
begin

text \<open>
  Member functions that change the state of the node and may throw half way: an action maps
  a state to an outcome and the state it leaves behind, which an exception does not roll back.
  A loop that never ends has the outcome \<open>Diverges\<close>, which no handler catches.
\<close>

datatype 'a outcome = Returns 'a | Throws chain_error | Diverges

type_synonym ('s, 'a) act = "'s \<Rightarrow> 'a outcome \<times> 's"

definition aret :: "'a \<Rightarrow> ('s, 'a) act" where
  "aret x s = (Returns x, s)"

definition athrow :: "chain_error \<Rightarrow> ('s, 'a) act" where
  "athrow e s = (Throws e, s)"

definition abind :: "('s, 'a) act \<Rightarrow> ('a \<Rightarrow> ('s, 'b) act) \<Rightarrow> ('s, 'b) act" where
  "abind m f s =
     (case m s of
        (Returns x, s') \<Rightarrow> f x s'
      | (Throws e, s') \<Rightarrow> (Throws e, s')
      | (Diverges, s') \<Rightarrow> (Diverges, s'))"

definition acatch :: "('s, 'a) act \<Rightarrow> (chain_error \<Rightarrow> ('s, 'a) act) \<Rightarrow> ('s, 'a) act" where
  "acatch m h s = (case m s of (Throws e, s') \<Rightarrow> h e s' | r \<Rightarrow> r)"

definition aget :: "('s \<Rightarrow> 'a) \<Rightarrow> ('s, 'a) act" where
  "aget f s = (Returns (f s), s)"

definition amodify :: "('s \<Rightarrow> 's) \<Rightarrow> ('s, unit) act" where
  "amodify f s = (Returns (), f s)"

text \<open>A computation that reads the state and may throw, but does not write.\<close>

definition aread :: "('s \<Rightarrow> 'a result) \<Rightarrow> ('s, 'a) act" where
  "aread f s = (case f s of Inl e \<Rightarrow> (Throws e, s) | Inr x \<Rightarrow> (Returns x, s))"

fun afold :: "('a \<Rightarrow> 'b \<Rightarrow> ('s, 'b) act) \<Rightarrow> 'a list \<Rightarrow> 'b \<Rightarrow> ('s, 'b) act" where
  "afold f [] y = aret y"
| "afold f (x # xs) y = abind (f x y) (afold f xs)"

lemmas act_defs =
  aret_def athrow_def abind_def acatch_def aget_def amodify_def aread_def

declare act_defs [eval_simps]

lemma abind_Returns:
  "abind m f s = (Returns y, s') \<longleftrightarrow> (\<exists>x s1. m s = (Returns x, s1) \<and> f x s1 = (Returns y, s'))"
  by (auto simp: abind_def split: outcome.split prod.split)

lemma act_Returns:
  "aret x s = (Returns y, s') \<longleftrightarrow> y = x \<and> s' = s"
  "athrow e s \<noteq> (Returns y, s')"
  "aget f s = (Returns y, s') \<longleftrightarrow> y = f s \<and> s' = s"
  "amodify g s = (Returns u, s') \<longleftrightarrow> s' = g s"
  "aread h s = (Returns y, s') \<longleftrightarrow> h s = Inr y \<and> s' = s"
  by (auto simp: act_defs split: sum.split)

lemma acatch_Returns:
  "acatch m h s = (Returns y, s') \<longleftrightarrow>
     m s = (Returns y, s') \<or> (\<exists>e s1. m s = (Throws e, s1) \<and> h e s1 = (Returns y, s'))"
  by (auto simp: acatch_def split: outcome.split prod.split)

lemma abind_Throws:
  "abind m f s = (Throws e, s') \<longleftrightarrow>
     m s = (Throws e, s') \<or> (\<exists>x s1. m s = (Returns x, s1) \<and> f x s1 = (Throws e, s'))"
  by (auto simp: abind_def split: outcome.split prod.split)

lemma act_Throws:
  "aret x s \<noteq> (Throws e, s')"
  "athrow e1 s = (Throws e, s') \<longleftrightarrow> e = e1 \<and> s' = s"
  "aget f s \<noteq> (Throws e, s')"
  "amodify g s \<noteq> (Throws e, s')"
  "aread h s = (Throws e, s') \<longleftrightarrow> h s = Inl e \<and> s' = s"
  by (auto simp: act_defs split: sum.split)

text \<open>What every step keeps, the loop keeps; in whatever way it ends.\<close>

lemma abind_keeps:
  assumes "P s" "\<And>o1 s1. m s = (o1, s1) \<Longrightarrow> P s1"
    and "\<And>x s1. m s = (Returns x, s1) \<Longrightarrow> P s1 \<Longrightarrow> P (snd (f x s1))"
  shows "P (snd (abind m f s))"
  using assms by (auto simp: abind_def split: outcome.split prod.split)

lemma afold_keeps:
  assumes "P s" "\<And>x y s. x \<in> set xs \<Longrightarrow> P s \<Longrightarrow> P (snd (f x y s))"
  shows "P (snd (afold f xs y s))"
  using assms
proof (induction xs arbitrary: y s)
  case Nil
  then show ?case by (simp add: aret_def)
next
  case (Cons x xs)
  have "P (snd (f x y s))" using Cons.prems by simp
  then show ?case
    using Cons.IH Cons.prems(2)
    by (cases "f x y s") (auto simp: abind_def split: outcome.split)
qed

end
