(* ===== verification/Fork_Db.thy ===== *)
theory Fork_Db
  imports Blocks Actions
begin

text \<open>
  The block tree: \<open>_fork_db\<close>, \<open>_fork_number_db\<close> and \<open>_block_id_to_full_block\<close> of
  \<open>ChainDatabaseImpl\<close>, which track every block the node has seen, whether it is linked to the
  genesis block, known to be valid or invalid, and part of the current chain.
  An \<open>unordered_set\<close> is a list without repetitions, in an order of iteration.
\<close>

section \<open>BlockForkData\<close>

record BlockForkData =
  next_blocks :: "block_id list"
  is_linked :: bool
  is_valid :: "bool option"
  invalid_reason :: "chain_error option"
  is_included :: bool
  is_known :: bool

definition new_BlockForkData :: BlockForkData where
  "new_BlockForkData = \<lparr>next_blocks = [], is_linked = False, is_valid = None,
     invalid_reason = None, is_included = False, is_known = False\<rparr>"

definition fork_invalid :: "BlockForkData \<Rightarrow> bool" where
  "fork_invalid f = (case is_valid f of Some v \<Rightarrow> \<not> v | None \<Rightarrow> False)"

definition fork_valid :: "BlockForkData \<Rightarrow> bool" where
  "fork_valid f = (case is_valid f of Some v \<Rightarrow> v | None \<Rightarrow> False)"

definition can_link :: "BlockForkData \<Rightarrow> bool" where
  "can_link f \<longleftrightarrow> is_linked f \<and> \<not> fork_invalid f"

text \<open>\<open>unordered_set::insert\<close>.\<close>

definition uset_insert :: "'a \<Rightarrow> 'a list \<Rightarrow> 'a list" where
  "uset_insert x xs = (if x \<in> set xs then xs else xs @ [x])"

section \<open>The databases\<close>

record fork_state =
  fork_db :: "(block_id \<times> BlockForkData) list"
  fork_number_db :: "nat \<rightharpoonup> block_id list"
  block_id_to_full_block :: "block_id \<rightharpoonup> FullBlock"

definition fork_fetch :: "block_id \<Rightarrow> ('a fork_state_scheme, BlockForkData) act" where
  "fork_fetch k = aread (\<lambda>s. require key_not_found_exception (map_of (fork_db s) k))"

definition fork_store :: "block_id \<Rightarrow> BlockForkData \<Rightarrow> ('a fork_state_scheme, unit) act" where
  "fork_store k f = amodify (\<lambda>s. s\<lparr>fork_db := smap_set k f (fork_db s)\<rparr>)"

definition block_fetch :: "block_id \<Rightarrow> ('a fork_state_scheme, FullBlock) act" where
  "block_fetch k = aread (\<lambda>s. require key_not_found_exception (block_id_to_full_block s k))"

definition fetch_blocks_at_number :: "nat \<Rightarrow> 'a fork_state_scheme \<Rightarrow> block_id list" where
  "fetch_blocks_at_number block_num s =
     (case fork_number_db s block_num of Some ids \<Rightarrow> ids | None \<Rightarrow> [])"

section \<open>Marking subtrees\<close>

text \<open>
  The three loops walk the tree level by level: \<open>level\<close> handles the blocks of one level and
  collects their successors. The walk ends when a level is empty; in a tree with \<open>n\<close> entries
  that takes at most \<open>n\<close> levels, so that \<open>walk\<close> with the bound \<open>length fork_db + 1\<close> diverges
  only if the links form a cycle.
\<close>

fun walk ::
  "nat \<Rightarrow> (block_id \<Rightarrow> 'b \<times> block_id list \<Rightarrow> ('s, 'b \<times> block_id list) act) \<Rightarrow>
     block_id list \<Rightarrow> 'b \<Rightarrow> ('s, 'b) act" where
  "walk n visit [] acc = aret acc"
| "walk 0 visit (x # xs) acc = (\<lambda>s. (Diverges, s))"
| "walk (Suc n) visit (x # xs) acc =
     abind (afold visit (x # xs) (acc, [])) (\<lambda>(acc', pending). walk n visit pending acc')"

text \<open>\<open>(highest_block_num, last_block_id, longest_fork)\<close> is the accumulator.\<close>

definition visit_linked ::
  "block_id \<Rightarrow> (nat \<times> block_id \<times> BlockForkData) \<times> block_id list \<Rightarrow>
     ('a fork_state_scheme, (nat \<times> block_id \<times> BlockForkData) \<times> block_id list) act" where
  "visit_linked next_id = (\<lambda>((highest_block_num, last_block_id, longest_fork), pending).
     abind (fork_fetch next_id) (\<lambda>entry0.
     let entry = entry0\<lparr>is_linked := True\<rparr>;
         pending' = fold uset_insert (next_blocks entry) pending
     in
     abind (fork_store next_id entry) (\<lambda>_.
     abind (block_fetch next_id) (\<lambda>next_block.
       aret (if bh_block_num next_block > highest_block_num
             then ((bh_block_num next_block, next_id, entry), pending')
             else ((highest_block_num, last_block_id, longest_fork), pending'))))))"

definition tree_bound :: "'a fork_state_scheme \<Rightarrow> nat" where
  "tree_bound s = length (fork_db s) + 1"

definition recursive_mark_as_linked ::
  "block_id list \<Rightarrow> ('a fork_state_scheme, block_id \<times> BlockForkData) act" where
  "recursive_mark_as_linked ids =
     abind (aget tree_bound) (\<lambda>n.
     abind (walk n visit_linked ids (0, 0, new_BlockForkData)) (\<lambda>(_, last_block_id, longest_fork).
       aret (last_block_id, longest_fork)))"

definition visit_invalid ::
  "chain_error \<Rightarrow> block_id \<Rightarrow> unit \<times> block_id list \<Rightarrow> ('a fork_state_scheme, unit \<times> block_id list) act" where
  "visit_invalid reason next_id = (\<lambda>(_, pending).
     abind (fork_fetch next_id) (\<lambda>entry.
     abind (fork_store next_id (entry\<lparr>is_valid := Some False, invalid_reason := Some reason\<rparr>)) (\<lambda>_.
       aret ((), fold uset_insert (next_blocks entry) pending))))"

definition recursive_mark_as_invalid ::
  "block_id list \<Rightarrow> chain_error \<Rightarrow> ('a fork_state_scheme, unit) act" where
  "recursive_mark_as_invalid ids reason =
     abind (aget tree_bound) (\<lambda>n. walk n (visit_invalid reason) ids ())"

definition mark_invalid :: "block_id \<Rightarrow> chain_error \<Rightarrow> ('a fork_state_scheme, unit) act" where
  "mark_invalid bid reason =
     abind (fork_fetch bid) (\<lambda>fork_data.
     abind (fork_store bid (fork_data\<lparr>is_valid := Some False, invalid_reason := Some reason\<rparr>)) (\<lambda>_.
       recursive_mark_as_invalid (next_blocks fork_data) reason))"

definition visit_unchecked ::
  "block_id \<Rightarrow> unit \<times> block_id list \<Rightarrow> ('a fork_state_scheme, unit \<times> block_id list) act" where
  "visit_unchecked next_id = (\<lambda>(_, pending).
     abind (fork_fetch next_id) (\<lambda>entry.
     abind (fork_store next_id (entry\<lparr>is_valid := None, invalid_reason := None\<rparr>)) (\<lambda>_.
       aret ((), fold uset_insert (next_blocks entry) pending))))"

definition mark_as_unchecked :: "block_id \<Rightarrow> ('a fork_state_scheme, unit) act" where
  "mark_as_unchecked bid =
     abind (fork_fetch bid) (\<lambda>fork_data.
     abind (fork_store bid (fork_data\<lparr>is_valid := None, invalid_reason := None\<rparr>)) (\<lambda>_.
     abind (aget tree_bound) (\<lambda>n. walk n visit_unchecked (next_blocks fork_data) ())))"

definition mark_included :: "block_id \<Rightarrow> bool \<Rightarrow> ('a fork_state_scheme, unit) act" where
  "mark_included bid included =
     abind (fork_fetch bid) (\<lambda>fork_data.
     let f1 = fork_data\<lparr>is_included := included\<rparr>;
         f2 = (if included then f1\<lparr>is_valid := Some True\<rparr> else f1)
     in fork_store bid f2)"

section \<open>store\_and\_index\<close>

text \<open>
  The checks that are compiled only into debug builds are left out, and so are the statistics
  of the block entry.
\<close>

definition index_block :: "block_id \<Rightarrow> FullBlock \<Rightarrow> ('a fork_state_scheme, BlockForkData) act" where
  "index_block bid b =
     abind (amodify (\<lambda>s. s\<lparr>block_id_to_full_block := (block_id_to_full_block s)(bid \<mapsto> b)\<rparr>)) (\<lambda>_.
     abind (amodify (\<lambda>s. s\<lparr>fork_number_db := (fork_number_db s)
       (bh_block_num b \<mapsto> fetch_blocks_at_number (bh_block_num b) s @ [bid])\<rparr>)) (\<lambda>_.
     abind (aget (\<lambda>s. case map_of (fork_db s) (bh_previous b) of
                        Some f \<Rightarrow> f | None \<Rightarrow> new_BlockForkData\<lparr>is_linked := False\<rparr>)) (\<lambda>f.
     let prev_fork_data = f\<lparr>next_blocks := uset_insert bid (next_blocks f)\<rparr> in
     abind (fork_store (bh_previous b) prev_fork_data) (\<lambda>_. aret prev_fork_data))))"

definition inherit_invalid :: "BlockForkData \<Rightarrow> BlockForkData \<Rightarrow> BlockForkData" where
  "inherit_invalid prev_fork_data f =
     (if fork_invalid prev_fork_data
      then f\<lparr>is_valid := Some False, invalid_reason := invalid_reason prev_fork_data\<rparr> else f)"

definition store_and_index ::
  "block_id \<Rightarrow> FullBlock \<Rightarrow> ('a fork_state_scheme, block_id \<times> BlockForkData) act" where
  "store_and_index bid b =
     abind (index_block bid b) (\<lambda>prev_fork_data.
     abind (aget (\<lambda>s. map_of (fork_db s) bid)) (\<lambda>cur_itr.
     case cur_itr of
       Some placeholder \<Rightarrow>
         let current_fork = placeholder\<lparr>is_known := True\<rparr> in
         if is_linked prev_fork_data then
           let f = inherit_invalid prev_fork_data (current_fork\<lparr>is_linked := True\<rparr>) in
           abind (fork_store bid f) (\<lambda>_.
           if fork_invalid prev_fork_data then
             abind (aread (\<lambda>_. require null_optional (invalid_reason prev_fork_data))) (\<lambda>reason.
             abind (recursive_mark_as_invalid (next_blocks f) reason) (\<lambda>_. aret (bid, f)))
           else recursive_mark_as_linked (next_blocks f))
         else abind (fork_store bid current_fork) (\<lambda>_. aret (bid, current_fork))
     | None \<Rightarrow>
         let f = inherit_invalid prev_fork_data
                   (new_BlockForkData\<lparr>is_known := True, is_linked := is_linked prev_fork_data\<rparr>)
         in abind (fork_store bid f) (\<lambda>_. aret (bid, f))))"

lemmas fork_defs =
  new_BlockForkData_def fork_invalid_def fork_valid_def can_link_def uset_insert_def
  fork_fetch_def fork_store_def block_fetch_def fetch_blocks_at_number_def visit_linked_def
  tree_bound_def recursive_mark_as_linked_def visit_invalid_def recursive_mark_as_invalid_def
  mark_invalid_def visit_unchecked_def mark_as_unchecked_def mark_included_def index_block_def
  inherit_invalid_def store_and_index_def

declare fork_defs [eval_simps]

end
