(* ===== verification/Chain_Node.thy ===== *)
theory Chain_Node
  imports Fork_Db Pending_State
begin

text \<open>
  The node's chain: the database, the block tree and the undo states together, and the
  operations that move the head block: \<open>extend_chain\<close>, \<open>pop_block\<close>, \<open>switch_to_fork\<close> and
  \<open>push_block\<close> of \<open>ChainDatabase.cpp\<close>. An operation is an action: what it has written before it
  throws stays written. Notifications of observers are left out.
\<close>

section \<open>State\<close>

record node = fork_state +
  node_db :: database
  head_block_id :: block_id
  head_block_header :: SignedBlockHeader
  block_num_to_id_db :: "nat \<rightharpoonup> block_id"
  block_id_to_undo_state :: "block_id \<rightharpoonup> PendingChainState"
  min_undo_block :: nat
  block_extend_status :: "block_id \<times> int"
  revalidatable_future_blocks_db :: "block_id list"
  pending_transaction_db :: "(trx_id \<times> SignedTransaction) list"
  pending_fee_index :: "((share \<times> trx_id) \<times> eval_state) list"
  pending_trx_state :: PendingChainState
  relay_fee :: share
  verify_transaction_signatures :: bool
  generating_block :: bool

type_synonym 'a node_act = "(node, 'a) act"

definition empty_header :: SignedBlockHeader where
  "empty_header = \<lparr>bh_previous = 0, bh_block_num = 0, bh_timestamp = 0,
     bh_transaction_digest = 0, bh_next_secret_hash = 0, bh_previous_secret = 0,
     bh_delegate_signature = 0\<rparr>"

definition self_chain :: "node \<Rightarrow> chain" where
  "self_chain s = Database (node_db s)"

text \<open>
  \<open>_head_block_header\<close> is kept once more in the database, whose number and time of the head
  block the chain interface reads.
\<close>

definition update_head_block :: "SignedBlockHeader \<Rightarrow> block_id \<Rightarrow> unit node_act" where
  "update_head_block h bid = amodify (\<lambda>s. s\<lparr>head_block_header := h, head_block_id := bid,
     node_db := (node_db s)\<lparr>db_head_block_num := bh_block_num h,
                            db_head_block_timestamp := bh_timestamp h\<rparr>\<rparr>)"

definition get_block :: "block_id \<Rightarrow> FullBlock node_act" where
  "get_block k = block_fetch k"

definition get_block_header :: "block_id \<Rightarrow> SignedBlockHeader node_act" where
  "get_block_header k = abind (get_block k) (\<lambda>b. aret (block_header b))"

definition get_block_id :: "nat \<Rightarrow> block_id node_act" where
  "get_block_id n = aread (\<lambda>s. require key_not_found_exception (block_num_to_id_db s n))"

definition store_extend_status :: "block_id \<Rightarrow> int \<Rightarrow> unit node_act" where
  "store_extend_status bid version = amodify (\<lambda>s. s\<lparr>block_extend_status := (bid, version)\<rparr>)"

section \<open>extend\_chain\<close>

text \<open>\<open>pending_state\<close> is the overlay of the block over the database.\<close>

definition save_undo_state :: "env \<Rightarrow> nat \<Rightarrow> block_id \<Rightarrow> chain \<Rightarrow> unit node_act" where
  "save_undo_state E block_num bid pending_state =
     abind (aget min_undo_block) (\<lambda>min_undo.
     if block_num < min_undo then aret ()
     else
       abind (aread (\<lambda>_. case pending_state of
                Pending p prev \<Rightarrow> get_undo_state E p prev (Pending new_pending pending_state)
              | _ \<Rightarrow> Inr NoState)) (\<lambda>undo_state.
       abind (if block_num > ALP_BLOCKCHAIN_MAX_UNDO_HISTORY then
                abind (get_block_id (block_num - ALP_BLOCKCHAIN_MAX_UNDO_HISTORY)) (\<lambda>old_block_id.
                  amodify (\<lambda>s. s\<lparr>block_id_to_undo_state :=
                    (block_id_to_undo_state s)(old_block_id := None)\<rparr>))
              else aret ()) (\<lambda>_.
       case undo_state of
         Pending u _ \<Rightarrow> amodify (\<lambda>s. s\<lparr>block_id_to_undo_state :=
                          (block_id_to_undo_state s)(bid \<mapsto> u)\<rparr>)
       | _ \<Rightarrow> aret ())))"

text \<open>
  \<open>apply_changes\<close> of a state whose previous state is the database. An exception in the middle
  of it is the one place where the state left behind is not followed: the model keeps the
  database as it was.
\<close>

definition commit_to_db :: "env \<Rightarrow> PendingChainState \<Rightarrow> unit node_act" where
  "commit_to_db E p =
     abind (aread (\<lambda>s. apply_changes E p (self_chain s))) (\<lambda>c.
     case c of
       Database d \<Rightarrow> amodify (\<lambda>s. s\<lparr>node_db := d\<rparr>)
     | _ \<Rightarrow> aret ())"

definition clear_pending_trx :: "env \<Rightarrow> SignedTransaction \<Rightarrow> unit \<Rightarrow> unit node_act" where
  "clear_pending_trx E trx _ =
     abind (case operations trx of
              op # _ \<Rightarrow>
                if op_type op = transaction_op_type then
                  (case op of
                     transaction_op forward_trx \<Rightarrow> amodify (\<lambda>s. s\<lparr>pending_transaction_db :=
                       smap_del (trx_id E forward_trx) (pending_transaction_db s)\<rparr>)
                   | _ \<Rightarrow> athrow out_of_range_exception)
                else aret ()
            | [] \<Rightarrow> aret ()) (\<lambda>_.
       amodify (\<lambda>s. s\<lparr>pending_transaction_db :=
         smap_del (trx_id E trx) (pending_transaction_db s)\<rparr>))"

text \<open>\<open>revalidate_pending\<close>, which is scheduled here, runs after the current task.\<close>

definition clear_pending :: "env \<Rightarrow> FullBlock \<Rightarrow> unit node_act" where
  "clear_pending E b =
     abind (afold (clear_pending_trx E) (user_transactions b) ()) (\<lambda>_.
       amodify (\<lambda>s. s\<lparr>pending_fee_index := [], pending_trx_state := new_pending\<rparr>))"

definition block_signee :: "block_lib \<Rightarrow> FullBlock \<Rightarrow> block_id \<Rightarrow> public_key node_act" where
  "block_signee B b bid =
     (if bh_block_num b > LAST_CHECKPOINT_BLOCK_NUM B
      then aread (\<lambda>_. signee B (block_header b) False)
      else
        abind (case CHECKPOINT_BLOCKS B (bh_block_num b) of
                 Some k \<Rightarrow> if k \<noteq> bid then athrow failed_checkpoint_verification else aret ()
               | None \<Rightarrow> aret ()) (\<lambda>_.
        aread (\<lambda>s. ebind (get_active_delegates (self_chain s)) (\<lambda>active.
                   ebind (get_slot_signee (self_chain s) (bh_timestamp b) active) signing_key))))"

text \<open>\<open>wallet_fee\<close> is the fee of the wallet of the client, if one is open.\<close>

definition update_relay_fee :: "share option \<Rightarrow> unit node_act" where
  "update_relay_fee wallet_fee =
     (case wallet_fee of
        None \<Rightarrow> aret ()
      | Some fee \<Rightarrow> amodify (\<lambda>s. s\<lparr>relay_fee :=
          (if fee > ALP_BLOCKCHAIN_DEFAULT_RELAY_FEE then fee else ALP_BLOCKCHAIN_DEFAULT_RELAY_FEE)\<rparr>))"

definition include_block ::
  "env \<Rightarrow> block_lib \<Rightarrow> vm \<Rightarrow> share option \<Rightarrow> FullBlock \<Rightarrow> block_id \<Rightarrow> unit node_act" where
  "include_block E B vm wallet_fee b bid =
     abind (block_signee B b bid) (\<lambda>signer.
     abind (aread (\<lambda>s. verify_header E B (node_db s) (head_block_id s) (mk_DigestBlock E b) signer)) (\<lambda>_.
     abind (aread (\<lambda>s. apply_block E B vm (node_db s) (verify_transaction_signatures s)
                         (generating_block s) b bid signer (Pending new_pending (self_chain s))))
       (\<lambda>(_, _, pending_state).
     abind (save_undo_state E (bh_block_num b) bid pending_state) (\<lambda>_.
     abind (store_extend_status bid 1) (\<lambda>_.
     abind (case pending_state of Pending p _ \<Rightarrow> commit_to_db E p | _ \<Rightarrow> aret ()) (\<lambda>_.
     abind (mark_included bid True) (\<lambda>_.
     abind (update_head_block (block_header b) bid) (\<lambda>_.
     abind (clear_pending E b) (\<lambda>_.
     abind (amodify (\<lambda>s. s\<lparr>block_num_to_id_db := (block_num_to_id_db s)(bh_block_num b \<mapsto> bid)\<rparr>)) (\<lambda>_.
     abind (store_extend_status bid 2) (\<lambda>_.
       update_relay_fee wallet_fee)))))))))))"

text \<open>\<open>_unique_transactions\<close> is ordered by expiration, so that the loop removes all that are expired.\<close>

definition purge_unique :: "env \<Rightarrow> unit node_act" where
  "purge_unique E = amodify (\<lambda>s. s\<lparr>node_db := (node_db s)\<lparr>db_unique_transactions :=
     filter (\<lambda>(expiry, _). \<not> expiry \<le> now E (self_chain s)) (db_unique_transactions (node_db s))\<rparr>\<rparr>)"

definition extend_chain ::
  "env \<Rightarrow> block_lib \<Rightarrow> vm \<Rightarrow> share option \<Rightarrow> FullBlock \<Rightarrow> unit node_act" where
  "extend_chain E B vm wallet_fee b =
     (let bid = header_id B (block_header b) in
      abind (acatch (include_block E B vm wallet_fee b bid) (\<lambda>e.
               abind (mark_invalid bid e) (\<lambda>_.
               abind (store_extend_status bid 2) (\<lambda>_. athrow e)))) (\<lambda>_.
        purge_unique E))"

section \<open>pop\_block\<close>

definition undo_to :: "env \<Rightarrow> block_id \<Rightarrow> block_id \<Rightarrow> unit node_act" where
  "undo_to E bid previous_block_id =
     abind (aread (\<lambda>s. require assert_exception (block_id_to_undo_state s bid))) (\<lambda>undo_state.
     abind (commit_to_db E undo_state) (\<lambda>_.
     if previous_block_id = 0 then update_head_block empty_header 0
     else
       abind (amodify (\<lambda>s. s\<lparr>head_block_id := previous_block_id\<rparr>)) (\<lambda>_.
       abind (get_block_header previous_block_id) (\<lambda>h. update_head_block h previous_block_id))))"

definition pop_block :: "env \<Rightarrow> unit node_act" where
  "pop_block E =
     abind (aget (\<lambda>s. (head_block_id s, head_block_header s))) (\<lambda>(bid, header).
     if bh_block_num header = 0 then aret ()
     else
       abind (mark_included bid False) (\<lambda>_.
       abind (amodify (\<lambda>s. s\<lparr>block_num_to_id_db := (block_num_to_id_db s)(bh_block_num header := None)\<rparr>)) (\<lambda>_.
         undo_to E bid (bh_previous header))))"

definition repair_block :: "env \<Rightarrow> block_id \<Rightarrow> unit node_act" where
  "repair_block E bid =
     abind (get_block bid) (\<lambda>full_block.
     abind (mark_included bid False) (\<lambda>_.
     abind (amodify (\<lambda>s. s\<lparr>block_num_to_id_db := (block_num_to_id_db s)(bh_block_num full_block := None)\<rparr>)) (\<lambda>_.
       undo_to E bid (bh_previous full_block))))"

definition repair_database :: "env \<Rightarrow> unit node_act" where
  "repair_database E =
     abind (aget block_extend_status) (\<lambda>(bid, version).
       if version = 1 then repair_block E bid else aret ())"

section \<open>Forks\<close>

text \<open>
  The loop follows the previous links; \<open>n\<close> bounds their number. The history is never empty.
\<close>

fun fork_history_loop :: "nat \<Rightarrow> block_id \<Rightarrow> block_id list \<Rightarrow> (block_id list) node_act" where
  "fork_history_loop 0 next_id history = (\<lambda>s. (Diverges, s))"
| "fork_history_loop (Suc n) next_id history =
     abind (get_block_header next_id) (\<lambda>header.
     let history' = history @ [bh_previous header] in
     if bh_previous header = 0 then aret history'
     else
       abind (fork_fetch (bh_previous header)) (\<lambda>prev_fork_data.
       if \<not> is_linked prev_fork_data then athrow assert_exception
       else if is_included prev_fork_data then aret history'
       else fork_history_loop n (bh_previous header) history'))"

definition get_fork_history :: "block_id \<Rightarrow> (block_id list) node_act" where
  "get_fork_history bid = abind (aget tree_bound) (\<lambda>n. fork_history_loop n bid [bid])"

fun pop_until :: "env \<Rightarrow> nat \<Rightarrow> block_id \<Rightarrow> unit node_act" where
  "pop_until E n target =
     abind (aget head_block_id) (\<lambda>head.
     if target = head then aret ()
     else case n of
            0 \<Rightarrow> (\<lambda>s. (Diverges, s))
          | Suc m \<Rightarrow> abind (pop_block E) (\<lambda>_. pop_until E m target))"

declare pop_until.simps [simp del]

definition switch_to_fork ::
  "env \<Rightarrow> block_lib \<Rightarrow> vm \<Rightarrow> share option \<Rightarrow> block_id \<Rightarrow> unit node_act" where
  "switch_to_fork E B vm wallet_fee bid =
     abind (aget head_block_id) (\<lambda>head.
     if bid = head then aret ()
     else
       abind (get_fork_history bid) (\<lambda>history.
       abind (aget tree_bound) (\<lambda>n.
       abind (pop_until E n (last history)) (\<lambda>_.
         afold (\<lambda>k _. abind (get_block k) (extend_chain E B vm wallet_fee))
           (rev (butlast history)) ()))))"

section \<open>push\_block\<close>

text \<open>Seconds by which the wall clock is ahead of the block: the difference is signed.\<close>

definition clear_future_step :: "env \<Rightarrow> block_id \<Rightarrow> unit \<Rightarrow> unit node_act" where
  "clear_future_step E k _ =
     abind (block_fetch k) (\<lambda>full_data.
     if int (wall_clock E) - int (bh_timestamp full_data) > 2 * 24 * 60 * 60
     then amodify (\<lambda>s. s\<lparr>revalidatable_future_blocks_db := set_del k (revalidatable_future_blocks_db s)\<rparr>)
     else aret ())"

definition clear_invalidation_of_future_blocks :: "env \<Rightarrow> unit node_act" where
  "clear_invalidation_of_future_blocks E =
     abind (aget revalidatable_future_blocks_db) (\<lambda>ids.
     abind (afold (clear_future_step E) ids ()) (\<lambda>_.
     abind (aget revalidatable_future_blocks_db) (\<lambda>ids'.
       afold (\<lambda>k _. mark_as_unchecked k) ids' ())))"

definition get_block_fork_data :: "block_id \<Rightarrow> BlockForkData node_act" where
  "get_block_fork_data bid = aread (\<lambda>s. require null_optional (map_of (fork_db s) bid))"

text \<open>
  One block of the loop over the blocks of a number; once a fork has been switched to, the
  function has returned.
\<close>

definition try_fork ::
  "env \<Rightarrow> block_lib \<Rightarrow> vm \<Rightarrow> share option \<Rightarrow> block_id \<Rightarrow> block_id \<Rightarrow> BlockForkData option \<Rightarrow>
     (BlockForkData option) node_act" where
  "try_fork E B vm wallet_fee bid next_id returned =
     (if returned \<noteq> None then aret returned
      else
        abind (fork_fetch next_id) (\<lambda>next_fork_to_try.
        if \<not> can_link next_fork_to_try then aret None
        else
          acatch (abind (switch_to_fork E B vm wallet_fee next_id) (\<lambda>_.
                  abind (get_block_fork_data bid) (\<lambda>f. aret (Some f)))) (\<lambda>e.
            if e = time_in_future
            then abind (amodify (\<lambda>s. s\<lparr>revalidatable_future_blocks_db :=
                          uset_insert bid (revalidatable_future_blocks_db s)\<rparr>)) (\<lambda>_. aret None)
            else aret None)))"

fun try_forks ::
  "env \<Rightarrow> block_lib \<Rightarrow> vm \<Rightarrow> share option \<Rightarrow> block_id \<Rightarrow> nat \<Rightarrow> (BlockForkData option) node_act" where
  "try_forks E B vm wallet_fee bid 0 = aret None"
| "try_forks E B vm wallet_fee bid (Suc n) =
     abind (aget (\<lambda>s. fetch_blocks_at_number (Suc n) s)) (\<lambda>parallel_blocks.
     abind (afold (try_fork E B vm wallet_fee bid) parallel_blocks None) (\<lambda>returned.
     if returned \<noteq> None then aret returned else try_forks E B vm wallet_fee bid n))"

definition push_new_block ::
  "env \<Rightarrow> block_lib \<Rightarrow> vm \<Rightarrow> share option \<Rightarrow> FullBlock \<Rightarrow> block_id \<Rightarrow> nat \<Rightarrow> BlockForkData node_act" where
  "push_new_block E B vm wallet_fee b bid head_block_num =
     abind (store_and_index bid b) (\<lambda>(longest_id, longest_fork).
     if can_link longest_fork then
       abind (block_fetch longest_id) (\<lambda>longest_fork_block.
       abind (if bh_block_num longest_fork_block > head_block_num
              then try_forks E B vm wallet_fee bid (bh_block_num longest_fork_block)
              else aret None) (\<lambda>returned.
       case returned of
         Some f \<Rightarrow> aret f
       | None \<Rightarrow> get_block_fork_data bid))
     else
       abind (clear_invalidation_of_future_blocks E) (\<lambda>_. get_block_fork_data bid))"

definition push_block ::
  "env \<Rightarrow> block_lib \<Rightarrow> vm \<Rightarrow> share option \<Rightarrow> FullBlock \<Rightarrow> BlockForkData node_act" where
  "push_block E B vm wallet_fee b =
     abind (aget (\<lambda>s. bh_block_num (head_block_header s))) (\<lambda>head_block_num.
     if head_block_num > ALP_BLOCKCHAIN_MAX_UNDO_HISTORY \<and>
        bh_block_num b \<le> head_block_num - ALP_BLOCKCHAIN_MAX_UNDO_HISTORY
     then athrow block_older_than_undo_history
     else
       let bid = header_id B (block_header b) in
       abind (aget (\<lambda>s. map_of (fork_db s) bid)) (\<lambda>fork_data.
       case fork_data of
         Some f \<Rightarrow> if is_known f then aret f else push_new_block E B vm wallet_fee b bid head_block_num
       | None \<Rightarrow> push_new_block E B vm wallet_fee b bid head_block_num))"

lemmas node_defs =
  empty_header_def self_chain_def update_head_block_def get_block_def get_block_header_def
  get_block_id_def store_extend_status_def save_undo_state_def commit_to_db_def
  clear_pending_trx_def clear_pending_def block_signee_def update_relay_fee_def
  include_block_def purge_unique_def extend_chain_def undo_to_def pop_block_def
  repair_block_def repair_database_def get_fork_history_def switch_to_fork_def
  clear_future_step_def clear_invalidation_of_future_blocks_def get_block_fork_data_def
  try_fork_def push_new_block_def push_block_def

declare node_defs [eval_simps] pop_until.simps [eval_simps]

end
