(* ===== verification/Sample_Node.thy ===== *)
theory Sample_Node
  imports Samples Chain_Node
begin

text \<open>
  A concrete node on which the properties about blocks are instantiated: the database of
  \<open>Sample_State\<close> with one active delegate, whose slot is the next one, the block tree with the
  head block, and a block that carries a transfer. The hash functions are toy instances of the
  parameter \<open>block_lib\<close>: the id of a block is computed from its number and signature, and a
  signature is its key.
\<close>

definition sample_lib :: block_lib where
  "sample_lib = \<lparr>header_hash_id = (\<lambda>h. 1000 * bh_block_num h + bh_next_secret_hash h),
     header_signee = (\<lambda>h b. Inr (bh_delegate_signature h)), trx_ids_hash = sum_list,
     secret_hash = (\<lambda>x. x + 1), mix_seed = (\<lambda>x y. x + y), sha256_of = (\<lambda>x. x + 3),
     hash_word = (\<lambda>d x. d + x), block_data_size = (\<lambda>b. 1000),
     LAST_CHECKPOINT_BLOCK_NUM = 0, CHECKPOINT_BLOCKS = Map.empty\<rparr>"

definition sample_node_db :: database where
  "sample_node_db = sample_db\<lparr>db_head_block_num := 1, db_head_block_timestamp := 2960,
     db_property_id_to_entry :=
       [(last_asset_id, \<lparr>prop_id = last_asset_id, prop_value = pv_int 1\<rparr>),
        (last_account_id, \<lparr>prop_id = last_account_id, prop_value = pv_int 2\<rparr>),
        (active_delegate_list_id, \<lparr>prop_id = active_delegate_list_id, prop_value = pv_ids [1]\<rparr>),
        (last_random_seed_id, \<lparr>prop_id = last_random_seed_id, prop_value = pv_digest 5\<rparr>),
        (confirmation_requirement, \<lparr>prop_id = confirmation_requirement, prop_value = pv_int 30\<rparr>),
        (node_vm_enabled, \<lparr>prop_id = node_vm_enabled, prop_value = pv_bool True\<rparr>)]\<rparr>"

text \<open>A block after block \<open>n - 1\<close> in the slot of the only active delegate, with a branch number.\<close>

definition sample_block :: "nat \<Rightarrow> nat \<Rightarrow> nat \<Rightarrow> SignedTransaction list \<Rightarrow> FullBlock" where
  "sample_block n prev branch trxs = \<lparr>bh_previous = prev, bh_block_num = n, bh_timestamp = 2970,
     bh_transaction_digest = sum_list (map (trx_id sample_env) trxs), bh_next_secret_hash = branch,
     bh_previous_secret = 1, bh_delegate_signature = 1, user_transactions = trxs\<rparr>"

definition sample_head :: FullBlock where
  "sample_head = (sample_block 1 0 0 [])\<lparr>bh_timestamp := 2960\<rparr>"

definition genesis_fork :: BlockForkData where
  "genesis_fork = new_BlockForkData\<lparr>next_blocks := [1000], is_linked := True, is_valid := Some True,
     is_included := True, is_known := True\<rparr>"

definition sample_node :: node where
  "sample_node = \<lparr>
     fork_db = [(0, genesis_fork), (1000, new_BlockForkData\<lparr>is_linked := True, is_valid := Some True,
                  is_included := True, is_known := True\<rparr>)],
     fork_number_db = [1 \<mapsto> [1000]], block_id_to_full_block = [1000 \<mapsto> sample_head],
     node_db = sample_node_db, head_block_id = 1000, head_block_header = block_header sample_head,
     block_num_to_id_db = [1 \<mapsto> 1000], block_id_to_undo_state = Map.empty, min_undo_block = 0,
     block_extend_status = (1000, 2), revalidatable_future_blocks_db = [],
     pending_transaction_db = [], pending_fee_index = [], pending_trx_state = new_pending,
     relay_fee = ALP_BLOCKCHAIN_DEFAULT_RELAY_FEE, verify_transaction_signatures = True,
     generating_block = False\<rparr>"

lemmas node_sample_defs [eval_simps] =
  sample_lib_def sample_node_db_def sample_block_def sample_head_def sample_node_def genesis_fork_def
  SignedBlockHeader.defs FullBlock.defs DigestBlock.defs

abbreviation sample_next :: FullBlock where
  "sample_next \<equiv> sample_block 2 1000 0 [sample_transfer]"

text \<open>The overlay of the next block.\<close>

abbreviation sample_over :: chain where
  "sample_over \<equiv> Pending new_pending (Database sample_node_db)"

lemma sample_verifies:
  "verify_header sample_env sample_lib sample_node_db 1000 (mk_DigestBlock sample_env sample_next) 1 = Inr ()"
  by (simp add: eval_simps block_header_def cong: ebind_weak_cong)

lemma sample_production_runs:
  "\<exists>c. update_delegate_production_info sample_env sample_lib sample_node_db sample_next 2000 1
     sample_over = Inr c"
  by (rule not_isl_ex) (simp add: eval_simps cong: ebind_weak_cong)

lemma sample_block_applies:
  "\<exists>r. apply_block sample_env sample_lib idle_vm sample_node_db True False sample_next 2000 1
     sample_over = Inr r"
  by (rule not_isl_ex) (simp add: eval_simps block_header_def cong: ebind_weak_cong)

text \<open>The node when the next block has arrived, and its run.\<close>

definition sample_waiting :: node where
  "sample_waiting = sample_node\<lparr>
     fork_db := [(0, genesis_fork), (1000, new_BlockForkData\<lparr>next_blocks := [2000], is_linked := True,
                   is_valid := Some True, is_included := True, is_known := True\<rparr>),
                 (2000, new_BlockForkData\<lparr>is_linked := True, is_known := True\<rparr>)],
     fork_number_db := [1 \<mapsto> [1000], 2 \<mapsto> [2000]],
     block_id_to_full_block := [1000 \<mapsto> sample_head, 2000 \<mapsto> sample_next]\<rparr>"

lemmas commit_defs =
  apply_changes_def apply_entrys_def get_undo_state_def populate_undo_state_def sample_waiting_def
  db_transaction_insert_into_id_map_def db_transaction_insert_into_unique_set_def
  db_transaction_erase_from_id_map_def db_transaction_erase_from_unique_set_def

lemma fst_eq: "fst p = x \<Longrightarrow> \<exists>y. p = (x, y)"
  by (cases p) simp

lemma sample_extends:
  "\<exists>s. extend_chain sample_env sample_lib idle_vm None sample_next sample_waiting = (Returns (), s)"
  by (rule fst_eq) (simp add: eval_simps commit_defs block_header_def cong: ebind_weak_cong)

end
