(* ===== verification/Delegates.thy ===== *)
theory Delegates
  imports Sample_Node "HOL-Library.Multiset"
begin

text \<open>
  The schedule of the delegates: the ranking by votes, the shuffle of a round, the slot of
  every delegate, what a header that passes \<open>verify_header\<close> satisfies, and the pay of a block.
\<close>

section \<open>Ranking by votes\<close>

lemma votes_scan_drop:
  "votes_scan first n pos vs acc =
     acc @ take (n - length acc) (map vd_delegate_id (drop (first - pos) vs))"
proof (induction vs arbitrary: pos acc)
  case (Cons v vs)
  show ?case
  proof (cases "first \<le> pos")
    case True
    then show ?thesis
      using Cons.IH [of "Suc pos" "acc @ [vd_delegate_id v]"]
      by (cases "n - length acc") (auto simp: diff_Suc)
  next
    case False
    then have "first - pos = Suc (first - Suc pos)" by simp
    then show ?thesis using Cons.IH [of "Suc pos" acc] False by simp
  qed
qed simp

text \<open>
  \<open>get_delegates_by_vote\<close>, a loop with a position counter over the ordered
  vote set, returns the ids of the delegates ranked from \<open>first\<close> on, at most \<open>n\<close> of them.
\<close>

theorem get_delegates_by_vote_ranks:
  "get_delegates_by_vote d first n =
     take (min n (length (db_delegate_votes d)))
       (drop first (map vd_delegate_id (db_delegate_votes d)))"
  by (simp add: get_delegates_by_vote_def votes_scan_drop drop_map min_def)

section \<open>The shuffle\<close>

lemma mset_swap_elems:
  assumes "i < length xs" "j < length xs"
  shows "mset (swap_elems i j xs) = mset xs"
  using mset_swap [OF assms(2,1)] by (simp add: swap_elems_def list_update_swap)

lemma length_swap_elems [simp]: "length (swap_elems i j xs) = length xs"
  by (simp add: swap_elems_def)

lemma mset_shuffle_from:
  assumes "length ds < 2 ^ 32"
  shows "mset (shuffle_from B i x seed ds) = mset ds"
  using assms
proof (induction B i x seed ds rule: shuffle_from.induct)
  case (1 B i x seed ds)
  show ?case
  proof (cases "i < length ds")
    case True
    let ?j = "(hash_word B seed x mod ((length ds - i) mod 2 ^ 32)) mod 2 ^ 32 + i"
    have choices: "(length ds - i) mod 2 ^ 32 = length ds - i" using 1(2) by (intro mod_less) simp
    have "hash_word B seed x mod (length ds - i) < length ds - i" using True by simp
    then have j: "?j < length ds" unfolding choices using 1(2) by (simp add: mod_less)
    have "shuffle_from B i x seed ds = shuffle_from B (Suc i) ((x + 1) mod 4)
        (if (x + 1) mod 4 = 0 then sha256_of B seed else seed) (swap_elems i ?j ds)"
      using True by (simp add: shuffle_from.simps [of B i x seed ds] Let_def)
    then show ?thesis
      using 1(1) [OF True refl refl refl refl] 1(2) mset_swap_elems [OF True j] by simp
  qed (simp add: shuffle_from.simps)
qed

lemma active_delegates_after:
  "live c \<Longrightarrow> set_active_delegates ids c = Inr c' \<Longrightarrow> get_active_delegates c' = Inr ids"
  by (auto simp: set_active_delegates_def store_property_entry_def PropertyEntry_store_def
      get_active_delegates_def property_map.lookup_insert)

text \<open>
  C27 (functional). At the last block of a round the list of active delegates is replaced by a
  permutation of the first \<open>ALP_BLOCKCHAIN_NUM_DELEGATES\<close> delegates of the vote ranking, so that
  every one of them gets exactly one slot of the next round, whatever the hash function.
\<close>

theorem new_round_is_permutation:
  assumes "block_num mod ALP_BLOCKCHAIN_NUM_DELEGATES = 0" "live c"
    and "update_active_delegate_list B d block_num c = Inr c'"
  shows "\<exists>ids. get_active_delegates c' = Inr ids \<and>
    mset ids = mset (take ALP_BLOCKCHAIN_NUM_DELEGATES (map vd_delegate_id (db_delegate_votes d)))"
proof -
  let ?top = "take ALP_BLOCKCHAIN_NUM_DELEGATES (map vd_delegate_id (db_delegate_votes d))"
  have "next_round_active_delegates d = ?top"
    by (simp add: next_round_active_delegates_def get_delegates_by_vote_def votes_scan_drop Let_def)
  then obtain seed where "set_active_delegates
      (shuffle_from B 0 0 (sha256_of B seed) ?top) c = Inr c'"
    using assms(1,3) by (auto simp: update_active_delegate_list_def)
  moreover have "length ?top < 2 ^ 32" by (simp add: ALP_BLOCKCHAIN_NUM_DELEGATES_def min_def)
  ultimately show ?thesis
    using active_delegates_after [OF assms(2)] mset_shuffle_from by blast
qed

section \<open>Slots\<close>

text \<open>
  Within a round the slots are taken in the order of the active delegates: two
  slots less than \<open>ALP_BLOCKCHAIN_NUM_DELEGATES\<close> intervals apart that have the same signee in a
  list without repetitions are the same slot.
\<close>

theorem slot_signee_unique:
  assumes "get_slot_signee c t ids = Inr a" "get_slot_signee c t' ids = Inr a'"
    and "acc_id a = acc_id a'" "distinct ids"
    and keys: "\<forall>k e. account_lookup_by_id c k = Some e \<longrightarrow> acc_id e = k"
    and "get_slot_number t \<le> get_slot_number t'"
      "get_slot_number t' < get_slot_number t + ALP_BLOCKCHAIN_NUM_DELEGATES"
  shows "get_slot_number t = get_slot_number t'"
proof -
  let ?pos = "\<lambda>t. get_slot_number t mod ALP_BLOCKCHAIN_NUM_DELEGATES"
  have a: "?pos t < length ids" "account_lookup_by_id c (ids ! ?pos t) = Some a"
    "?pos t' < length ids" "account_lookup_by_id c (ids ! ?pos t') = Some a'"
    using assms(1,2) by (auto simp: get_slot_signee_def Let_def require_def ensure_def
        split: option.splits if_splits)
  with keys assms(3) have "ids ! ?pos t = ids ! ?pos t'" by metis
  with a assms(4) have eq: "?pos t = ?pos t'" by (simp add: nth_eq_iff_index_eq)
  have "ALP_BLOCKCHAIN_NUM_DELEGATES dvd (get_slot_number t' - get_slot_number t)"
    using eq assms(6) by (metis mod_eq_dvd_iff_nat)
  then show ?thesis using assms(6,7) by (auto dest: dvd_imp_le)
qed

section \<open>Headers\<close>

lemma insert_all_new_distinct: "insert_all_new ks A \<longleftrightarrow> distinct ks \<and> set ks \<inter> A = {}"
  by (induction ks arbitrary: A) auto

lemma ensure_iff [simp]: "ensure b e = Inr u \<longleftrightarrow> b"
  by (simp add: ensure_def)


section \<open>Confirmations\<close>

lemma clamp_confirmations_bounds:
  "1 \<le> clamp_confirmations n \<and> clamp_confirmations n \<le> 3 * int ALP_BLOCKCHAIN_NUM_DELEGATES"
  by (simp add: clamp_confirmations_def Let_def ALP_BLOCKCHAIN_NUM_DELEGATES_def)

text \<open>
  However many slots have been missed, and even if the counter of confirmations
  wraps, the requirement recorded with a block lies between one and three rounds of delegates.
\<close>

theorem confirmations_in_bounds:
  assumes "update_delegate_production_info E B d b bid key c = Inr c'" "live c'"
  shows "\<exists>n. get_required_confirmations c' = Inr n \<and>
    1 \<le> n \<and> n \<le> 3 * int ALP_BLOCKCHAIN_NUM_DELEGATES"
proof -
  from assms(1) obtain n c2 where
    "c' = property_insert_into_id_map confirmation_requirement
       \<lparr>prop_id = confirmation_requirement, prop_value = pv_int (clamp_confirmations n)\<rparr> c2"
    by (auto simp: update_delegate_production_info_def Let_def set_required_confirmations_def
        store_property_entry_def PropertyEntry_store_def split: prod.splits)
  then show ?thesis
    using clamp_confirmations_bounds [of n] assms(2)
    by (simp add: get_required_confirmations_def property_map.lookup_insert)
qed

section \<open>Pay\<close>

lemma cdiv_pos: "0 \<le> a \<Longrightarrow> 0 < b \<Longrightarrow> cdiv a b = a div b"
  by (cases "a = 0") (simp_all add: cdiv_def)

lemma percent_bounds:
  assumes "0 \<le> (x::int)" "rate \<le> (100::nat)"
  shows "0 \<le> x * int rate div 100" "x * int rate div 100 \<le> x"
proof -
  show "0 \<le> x * int rate div 100" using assms by (simp add: div_int_pos_iff)
  have "x * int rate \<le> x * 100" using assms by (intro mult_left_mono) simp_all
  then show "x * int rate div 100 \<le> x" by simp
qed

text \<open>
  The paycheck of a block: for a pay rate of at most a hundred per cent and
  non-negative collected fees that fit the 64 bits with room for the percentage, it is defined,
  the newly issued shares are between zero and the maximum, and the part of the fees paid out
  and the part destroyed add up to one share in \<open>14 * ALP_BLOCKCHAIN_BLOCKS_PER_DAY\<close> of them.
\<close>

theorem compute_pay_bounds:
  assumes "0 \<le> max_new" "max_new \<le> 2 ^ 40" "rate \<le> 100" "0 \<le> collected" "collected < 2 ^ 63"
  shows "\<exists>p. compute_pay max_new rate collected = Inr p \<and>
    0 \<le> shares_issued p \<and> shares_issued p \<le> max_new \<and>
    0 \<le> fees_collected p \<and> 0 \<le> fees_destroyed p \<and>
    fees_collected p + fees_destroyed p = collected div (14 * int ALP_BLOCKCHAIN_BLOCKS_PER_DAY) \<and>
    accepted_paycheck p = shares_issued p + fees_collected p"
proof -
  let ?n = "14 * int ALP_BLOCKCHAIN_BLOCKS_PER_DAY"
  let ?m = "collected div ?n"
  have n: "?n = 120960" by (simp add: ALP_BLOCKCHAIN_BLOCKS_PER_DAY_def ALP_BLOCKCHAIN_BLOCKS_PER_HOUR_def
      ALP_BLOCKCHAIN_BLOCK_INTERVAL_SEC_def)
  have m: "0 \<le> ?m" "?m \<le> 2 ^ 47" using assms(4,5) by (simp_all add: n)
  have a: "0 \<le> max_new * int rate" "max_new * int rate \<le> 2 ^ 40 * 100"
    using assms(1-3) by (simp, intro mult_mono) simp_all
  have f: "0 \<le> ?m * int rate" "?m * int rate \<le> 2 ^ 47 * 100"
    using assms(3) m by (simp, intro mult_mono) simp_all
  note pa = percent_bounds [OF assms(1,3)] and pf = percent_bounds [OF m(1) assms(3)]
  have w: "wrap64 (max_new * int rate) = max_new * int rate" "wrap64 (?m * int rate) = ?m * int rate"
    "wrap64 (?m - ?m * int rate div 100) = ?m - ?m * int rate div 100"
    "wrap64 (max_new * int rate div 100 + ?m * int rate div 100) =
       max_new * int rate div 100 + ?m * int rate div 100"
    using a f pa pf m assms(2) by (simp_all add: wrap64_def)
  show ?thesis
    using a f pa pf assms(4) m
    by (simp add: compute_pay_def Let_def cdiv_pos n w [unfolded n] del: of_nat_mult)
qed

section \<open>Instances\<close>

lemma sample_new_round:
  "\<exists>c. update_active_delegate_list sample_lib sample_node_db 99 sample_over = Inr c"
  by (rule not_isl_ex) (simp add: eval_simps cong: ebind_weak_cong)

theorem new_round_is_permutation_witness:
  "\<exists>c' ids. update_active_delegate_list sample_lib sample_node_db 99 sample_over = Inr c' \<and>
     get_active_delegates c' = Inr ids \<and> mset ids = {#1#}"
proof -
  obtain c' where c': "update_active_delegate_list sample_lib sample_node_db 99 sample_over = Inr c'"
    using sample_new_round by blast
  have "\<exists>ids. get_active_delegates c' = Inr ids \<and> mset ids =
      mset (take ALP_BLOCKCHAIN_NUM_DELEGATES (map vd_delegate_id (db_delegate_votes sample_node_db)))"
    by (rule new_round_is_permutation [OF _ _ c']) (simp_all add: eval_simps)
  with c' show ?thesis by (auto simp: eval_simps)
qed

theorem slot_signee_unique_witness:
  "\<exists>a. get_slot_signee (Database sample_node_db) 2970 [1] = Inr a \<and>
     get_slot_number 2970 = get_slot_number 2975"
proof -
  have a: "get_slot_signee (Database sample_node_db) 2970 [1] =
      Inr (sample_account 1 ''alice'' (Some sample_delegate))"
    "get_slot_signee (Database sample_node_db) 2975 [1] =
      Inr (sample_account 1 ''alice'' (Some sample_delegate))"
    by (simp_all add: eval_simps)
  have "get_slot_number 2970 = get_slot_number 2975"
    by (rule slot_signee_unique [OF a]) (auto simp: eval_simps split: if_splits)
  with a show ?thesis by blast
qed


theorem confirmations_in_bounds_witness:
  "\<exists>c' n. update_delegate_production_info sample_env sample_lib sample_node_db sample_next 2000 1
       sample_over = Inr c' \<and>
     get_required_confirmations c' = Inr n \<and> 1 \<le> n \<and> n \<le> 297"
proof -
  obtain c' where c': "update_delegate_production_info sample_env sample_lib sample_node_db sample_next
      2000 1 sample_over = Inr c'"
    using sample_production_runs by blast
  then have "live c'" by (simp add: eval_simps) auto
  from confirmations_in_bounds [OF c' this] c' show ?thesis
    by (auto simp: ALP_BLOCKCHAIN_NUM_DELEGATES_def)
qed

theorem compute_pay_bounds_witness:
  "\<exists>p. compute_pay 1500000 80 5000000 = Inr p \<and> shares_issued p \<le> 1500000 \<and>
     fees_collected p + fees_destroyed p = 41"
  using compute_pay_bounds [of 1500000 80 5000000]
  by (auto simp: ALP_BLOCKCHAIN_BLOCKS_PER_DAY_def ALP_BLOCKCHAIN_BLOCKS_PER_HOUR_def
      ALP_BLOCKCHAIN_BLOCK_INTERVAL_SEC_def)

end
