(* ===== verification/Block_Ledger.thy ===== *)
theory Block_Ledger
  imports Conservation Delegates
begin

text \<open>
  Conservation for blocks: neither the production statistics nor the pay of the delegate nor
  the new round nor the random seed changes the sum of an asset, and every transaction without
  contract calls keeps it. The pay issues new shares and destroys fees; both are recorded in
  the supply.
\<close>

section \<open>Steps on a chain\<close>

text \<open>The invariant of \<open>Ledger\<close> without the balance of a transaction.\<close>

definition chain_inv :: "env \<Rightarrow> chain \<Rightarrow> nat \<Rightarrow> chain \<Rightarrow> bool" where
  "chain_inv E c0 n c \<longleftrightarrow> keeps E c0 c \<and> ledger_ok E c \<and> account_room n c"

definition same_sums :: "chain \<Rightarrow> chain \<Rightarrow> bool" where
  "same_sums c c' \<longleftrightarrow> (\<forall>k. vsum k (view c') = vsum k (view c))"

lemma same_sums_refl [simp]: "same_sums c c"
  by (simp add: same_sums_def)

lemma same_sums_trans: "same_sums a b \<Longrightarrow> same_sums b c \<Longrightarrow> same_sums a c"
  by (simp add: same_sums_def)

lemma chain_inv_new [simp]: "ledger_inv E c0 n (new_eval_state E c sk) \<longleftrightarrow> chain_inv E c0 n c"
  by (auto simp: ledger_inv_def chain_inv_def new_eval_state_def smap_ok_def)

lemma cur_new [simp]: "cur (new_eval_state E c sk) = c"
  by (simp add: new_eval_state_def)

text \<open>A write that \<open>Ledger\<close> knows about, done outside an evaluation.\<close>

lemma chain_step:
  assumes "f c = Inr c'" "chain_inv E c0 n c"
    and "\<And>s s'. lift_chain f s = Inr s' \<Longrightarrow> cur s = c \<Longrightarrow> keeps_ledger E s s'"
  shows "chain_inv E c0 n c' \<and> same_sums c c'"
proof -
  let ?s = "new_eval_state E c False"
  have l: "lift_chain f ?s = Inr (?s\<lparr>cur := c'\<rparr>)" using assms(1) by (simp add: lift_chain_def)
  have "keeps_ledger E ?s (?s\<lparr>cur := c'\<rparr>)" by (rule assms(3) [OF l]) simp
  from keeps_vsum [OF this, of c0 n] assms(2) have
    inv: "ledger_inv E c0 n (?s\<lparr>cur := c'\<rparr>)" "\<forall>k. vsum k (view c') = vsum k (view c)" by simp_all
  then show ?thesis by (simp add: ledger_inv_def chain_inv_def same_sums_def)
qed

lemma store_property_step:
  assumes "store_property_entry p v c = Inr c'" "p \<noteq> last_account_id" "chain_inv E c0 n c"
  shows "chain_inv E c0 n c' \<and> same_sums c c'"
  by (rule chain_step [where f = "store_property_entry p v", OF assms(1,3)])
    (use assms(2) in \<open>auto elim!: lift_chain_Inr dest: store_property_moves\<close>)

lemma store_slot_step:
  assumes "store_slot_entry E e c = Inr c'" "chain_inv E c0 n c"
  shows "chain_inv E c0 n c' \<and> same_sums c c'"
proof (rule chain_step [where f = "store_slot_entry E e", OF assms])
  fix s s' assume m: "lift_chain (store_slot_entry E e) s = Inr s'"
  show "keeps_ledger E s s'"
    by (rule moves_chain [OF m])
      (auto simp: store_slot_entry_def SlotEntry_store_def keeps_def split: if_splits option.splits)
qed

lemma store_account_step:
  assumes "store_account_entry E a' c = Inr c'" "chain_inv E c0 n c"
    and "account_lookup_by_id c i = Some a" "acc_id a' = acc_id a" "pay_word a' = pay_word a"
  shows "chain_inv E c0 n c' \<and> same_sums c c'"
proof (rule chain_step [where f = "store_account_entry E a'", OF assms(1,2)])
  fix s s' assume m: "lift_chain (store_account_entry E a') s = Inr s'" and s: "cur s = c"
  have i: "ledger_ok E c \<Longrightarrow> acc_id a = i" using account_at [OF _ assms(3)] .
  show "keeps_ledger E s s'"
    by (rule moves_eq [OF store_account_moves [OF m, where a = a and x = 0]])
      (use s i assms(3-5) in simp_all)
qed

section \<open>Production statistics\<close>

lemma produced_by_step:
  assumes "produced_by E B b bid k c = Inr c'" "chain_inv E c0 n c"
  shows "chain_inv E c0 n c' \<and> same_sums c c'"
proof -
  from assms(1) obtain e di c1 where e: "account_lookup_by_id c k = Some e"
    and di: "acc_delegate_info e = Some di"
    and st: "store_account_entry E (e\<lparr>acc_delegate_info := Some (di\<lparr>
                       blocks_produced := (blocks_produced di + 1) mod 2 ^ 32,
                       next_secret_hash := Some (bh_next_secret_hash b),
                       last_block_num_produced := bh_block_num b\<rparr>)\<rparr>) c = Inr c1"
    and sl: "c' = c1 \<or> (\<exists>slot. store_slot_entry E slot c1 = Inr c')"
    by (auto simp: produced_by_def split: option.splits if_splits; blast)
  have "chain_inv E c0 n c1 \<and> same_sums c c1"
    by (rule store_account_step [OF st assms(2) e]) (simp_all add: pay_word_def di)
  with sl store_slot_step show ?thesis by (blast intro: same_sums_trans)
qed

lemma miss_slot_step:
  assumes "miss_slot E self active t c = Inr c'" "chain_inv E c0 n c"
  shows "chain_inv E c0 n c' \<and> same_sums c c'"
proof -
  from assms(1) obtain k e di c1 where e: "account_lookup_by_id c k = Some e"
    and di: "acc_delegate_info e = Some di"
    and st: "store_account_entry E (e\<lparr>acc_delegate_info :=
        Some (di\<lparr>blocks_missed := (blocks_missed di + 1) mod 2 ^ 32\<rparr>)\<rparr>) c = Inr c1"
    and sl: "c' = c1 \<or> (\<exists>slot. store_slot_entry E slot c1 = Inr c')"
    by (auto simp: miss_slot_def split: option.splits if_splits; blast)
  have "chain_inv E c0 n c1 \<and> same_sums c c1"
    by (rule store_account_step [OF st assms(2) e]) (simp_all add: pay_word_def di)
  with sl store_slot_step show ?thesis by (blast intro: same_sums_trans)
qed

lemma missed_slots_step:
  "missed_slots E self active t until m c = Inr (m', c') \<Longrightarrow> chain_inv E c0 n c \<Longrightarrow>
     chain_inv E c0 n c' \<and> same_sums c c'"
proof (induction E self active t until m c arbitrary: c' rule: missed_slots.induct)
  case (1 E self active t until m c)
  show ?case
  proof (cases "t < until")
    case True
    with 1(2) obtain c1 where m: "miss_slot E self active t c = Inr c1"
      and rest: "missed_slots E self active (t + ALP_BLOCKCHAIN_BLOCK_INTERVAL_SEC) until
        (u64 (m + 2)) c1 = Inr (m', c')"
      by (auto simp: missed_slots.simps [of E self active t])
    from miss_slot_step [OF m 1(3)] 1(1) [OF True m rest] show ?thesis
      by (blast intro: same_sums_trans)
  next
    case False
    with 1(2,3) show ?thesis by (simp add: missed_slots.simps)
  qed
qed

lemma production_step:
  assumes "update_delegate_production_info E B d b bid key c = Inr c'" "chain_inv E c0 n c"
  shows "chain_inv E c0 n c' \<and> same_sums c c'"
proof -
  from assms(1) obtain k c1 t0 active m m1 c2 where
    p: "produced_by E B b bid k c = Inr c1"
    and ms: "missed_slots E (Database d) active t0 (bh_timestamp b) m c1 = Inr (m1, c2)"
    and st: "store_property_entry confirmation_requirement (pv_int (clamp_confirmations m1)) c2 = Inr c'"
    by (auto simp: update_delegate_production_info_def Let_def set_required_confirmations_def)
  have c1: "chain_inv E c0 n c1" "same_sums c c1" using produced_by_step [OF p assms(2)] by simp_all
  then have c2: "chain_inv E c0 n c2" "same_sums c1 c2" using missed_slots_step [OF ms] by simp_all
  then have c3: "chain_inv E c0 n c'" "same_sums c2 c'" using store_property_step [OF st] by simp_all
  from c1 c2 c3 show ?thesis by (blast intro: same_sums_trans)
qed

section \<open>Pay, rounds and the random seed\<close>

lemma store_account_assets:
  assumes "store_account_entry E a c = Inr c'" "live c"
  shows "asset_lookup_by_id c' = asset_lookup_by_id c"
proof -
  have "view c' = (view c)\<lparr>v_account := (account_lookup_by_id c)(acc_id a \<mapsto> a)\<rparr>"
    using AccountEntry_store_view assms by (simp add: store_account_entry_def)
  from arg_cong [OF this, of v_asset] show ?thesis by simp
qed

lemma pay_step:
  assumes "pay_delegate E d key c = Inr (p, c')" "chain_inv E c0 n c"
  shows "chain_inv E c0 n c' \<and> same_sums c c'"
proof -
  from assms(1) obtain a i e di m r where a: "asset_lookup_by_id c 0 = Some a"
    and e: "account_lookup_by_id c i = Some e" and di: "acc_delegate_info e = Some di"
    and p: "compute_pay m r (ast_collected_fees a) = Inr p"
    and st: "ebind (store_account_entry E (e\<lparr>acc_delegate_info :=
        Some (pay_stats (accepted_paycheck p) di)\<rparr>) c) (store_asset_entry (pay_asset p a)) = Inr c'"
    by (auto simp: pay_delegate_def)
  let ?e = "e\<lparr>acc_delegate_info := Some (pay_stats (accepted_paycheck p) di)\<rparr>"
  let ?f = "\<lambda>c. ebind (store_account_entry E ?e c) (store_asset_entry (pay_asset p a))"
  have p': "w64 (accepted_paycheck p) = w64 (shares_issued p) + w64 (fees_collected p)"
    "w64 (fees_destroyed p) = w64 (cdiv (ast_collected_fees a) (14 * int ALP_BLOCKCHAIN_BLOCKS_PER_DAY)) -
       w64 (fees_collected p)"
    using p by (auto simp: compute_pay_def Let_def)
  show ?thesis
  proof (rule chain_step [where f = ?f, OF st assms(2)])
    fix s s' assume m: "lift_chain ?f s = Inr s'" and s: "cur s = c"
    then obtain c1 where c1: "store_account_entry E ?e c = Inr c1"
      and c2: "store_asset_entry (pay_asset p a) c1 = Inr (cur s')" and s': "s' = s\<lparr>cur := cur s'\<rparr>"
      by (auto simp: lift_chain_def)
    have m1: "moves E (\<lambda>k. if k = 0 then w64 (accepted_paycheck p) else 0) s (s\<lparr>cur := c1\<rparr>)"
      by (rule store_account_moves [of E ?e, where a = e])
        (use c1 s e account_at [OF _ e] in \<open>auto simp: lift_chain_def pay_word_def di pay_stats_def\<close>)
    have "asset_lookup_by_id c1 = asset_lookup_by_id c"
      using store_account_assets [OF c1] assms(2) by (simp add: chain_inv_def ledger_ok_def)
    with a asset_at [of E c 0 a] assms(2) have a1: "asset_lookup_by_id c1 (ast_id (pay_asset p a)) = Some a"
      by (simp add: chain_inv_def pay_asset_def Let_def)
    have m2: "moves E (\<lambda>k. if k = ast_id (pay_asset p a) then - w64 (accepted_paycheck p) else 0)
        (s\<lparr>cur := c1\<rparr>) s'"
      by (rule store_asset_moves)
        (use c2 s' a1 in \<open>simp_all add: lift_chain_def asset_word_def p'\<close>,
         simp add: pay_asset_def Let_def p')
    show "keeps_ledger E s s'"
      by (rule moves_eq [OF moves_trans [OF m1 m2]])
        (use s asset_at [OF _ a] in \<open>simp add: pay_asset_def Let_def\<close>)
  qed
qed

lemma active_step:
  assumes "update_active_delegate_list B d b c = Inr c'" "chain_inv E c0 n c"
  shows "chain_inv E c0 n c' \<and> same_sums c c'"
  using assms store_property_step [of active_delegate_list_id _ c c' E c0 n]
  by (auto simp: update_active_delegate_list_def Let_def set_active_delegates_def split: if_splits)

lemma seed_step:
  assumes "update_random_seed B x c = Inr c'" "chain_inv E c0 n c"
  shows "chain_inv E c0 n c' \<and> same_sums c c'"
  using assms store_property_step [of last_random_seed_id _ c c' E c0 n]
  by (auto simp: update_random_seed_def)

section \<open>Transactions\<close>

lemma set_location_step:
  assumes "set_location E b i tid c = Inr c'" "chain_inv E c0 n c"
  shows "chain_inv E c0 n c' \<and> same_sums c c'"
proof -
  from assms(1) obtain e where "TransactionEntry_store E tid e c = Inr c'"
    by (auto simp: set_location_def)
  from chain_step [where f = "TransactionEntry_store E tid e", OF this assms(2)] show ?thesis
    using transaction_store_keeps by blast
qed

lemma set_locations_step:
  assumes "set_locations E b i t c = Inr c'" "chain_inv E c0 n c"
  shows "chain_inv E c0 n c' \<and> same_sums c c'"
  using assms set_location_step same_sums_trans
  by (auto simp: set_locations_def split: if_splits; metis)

lemma apply_transaction_step:
  assumes "apply_transaction E vm d v g b t r = Inr r'" "plain_transaction t"
    "chain_inv E c0 (length (operations t) + n) (run_state r)"
  shows "chain_inv E c0 n (run_state r') \<and> same_sums (run_state r) (run_state r')"
proof -
  define s where "s sk = (new_eval_state E (run_state r) False)\<lparr>skip_signature_check := True, es_skipexec := sk\<rparr>" for sk
  from assms(1) obtain sk ok s1 where
    ev: "evaluate_core E vm t (s sk) = Inr (ok, s1)"
    and loc: "set_locations E b (run_trx_num r) t (cur s1) = Inr (run_state r')"
    by (auto simp: apply_transaction_def Let_def evaluate_def s_def split: if_splits)
  have "ledger_inv E c0 (length (operations t) + n) (s sk)"
    using assms(3) by (simp add: s_def ledger_inv_def chain_inv_def new_eval_state_def smap_ok_def)
  from evaluate_core_conserves [OF ev assms(2) this]
  have "chain_inv E c0 n (cur s1)" "same_sums (run_state r) (cur s1)"
    by (auto simp: ledger_inv_def chain_inv_def same_sums_def s_def new_eval_state_def
        asset_total_def get_fees_def)
  with set_locations_step [OF loc] show ?thesis by (blast intro: same_sums_trans)
qed

definition trx_ops :: "SignedTransaction list \<Rightarrow> nat" where
  "trx_ops ts = sum_list (map (\<lambda>t. length (operations t)) ts)"

lemma apply_transactions_fold:
  assumes "efold (apply_transaction E vm d v g b) ts r = Inr r'"
    "\<forall>t \<in> set ts. plain_transaction t" "chain_inv E c0 (trx_ops ts + n) (run_state r)"
  shows "chain_inv E c0 n (run_state r') \<and> same_sums (run_state r) (run_state r')"
  using assms
proof (induction ts arbitrary: r)
  case (Cons t ts)
  then obtain r1 where r1: "apply_transaction E vm d v g b t r = Inr r1"
    and rest: "efold (apply_transaction E vm d v g b) ts r1 = Inr r'" by auto
  have "chain_inv E c0 (trx_ops ts + n) (run_state r1) \<and> same_sums (run_state r) (run_state r1)"
    by (rule apply_transaction_step [OF r1]) (use Cons.prems in \<open>simp_all add: trx_ops_def add.assoc\<close>)
  with Cons.IH [OF rest] Cons.prems(2) show ?case by (auto intro: same_sums_trans)
qed (simp add: trx_ops_def)

lemma apply_block_step:
  assumes "apply_block E B vm d v g b bid key c = Inr (p, ev, c')"
    "\<forall>t \<in> set (user_transactions b). plain_transaction t"
    "chain_inv E c0 (trx_ops (user_transactions b) + n) c"
  shows "chain_inv E c0 n c' \<and> same_sums c c'"
proof -
  let ?m = "trx_ops (user_transactions b) + n"
  from assms(1) obtain c1 c2 c3 c4 r where
    p1: "update_delegate_production_info E B d b bid key c = Inr c1"
    and p2: "efold (apply_transaction E vm d v g (bh_block_num b)) (user_transactions b)
      \<lparr>run_state = c1, run_trx_num = 0, run_events = [], run_all_check = True\<rparr> = Inr r"
      "c2 = run_state r"
    and p3: "pay_delegate E d key c2 = Inr (p, c3)"
    and p4: "update_active_delegate_list B d (bh_block_num b) c3 = Inr c4"
    and p5: "update_random_seed B (bh_previous_secret b) c4 = Inr c'"
    by (auto simp: apply_block_def apply_transactions_def)
  have c1: "chain_inv E c0 ?m c1" "same_sums c c1" using production_step [OF p1 assms(3)] by blast+
  then have c2: "chain_inv E c0 n c2" "same_sums c1 c2"
    using apply_transactions_fold [OF p2(1) assms(2)] p2(2) by simp_all
  from c2(1) have c3: "chain_inv E c0 n c3" "same_sums c2 c3" using pay_step [OF p3] by blast+
  from c3(1) have c4: "chain_inv E c0 n c4" "same_sums c3 c4" using active_step [OF p4] by blast+
  from c4(1) have c5: "chain_inv E c0 n c'" "same_sums c4 c'" using seed_step [OF p5] by blast+
  from c1 c2 c3 c4 c5 show ?thesis by (blast intro: same_sums_trans)
qed

end
