(* ===== verification/Fork_Laws.thy ===== *)
theory Fork_Laws
  imports Fork_Db
begin

text \<open>
  The block tree: the three walks that mark the descendants of a block end, and mark exactly
  these; and the invariant of the tree that \<open>store_and_index\<close> and the marks keep.
\<close>

section \<open>Walks\<close>

text \<open>What every step of a loop relates, the loop relates.\<close>

lemma afold_frame:
  assumes "afold f xs y s = (r, s')" "\<And>x y s r s'. f x y s = (r, s') \<Longrightarrow> P s s'"
    and "\<And>s. P s s" "\<And>a b c. P a b \<Longrightarrow> P b c \<Longrightarrow> P a c"
  shows "P s s'"
  using assms(1)
proof (induction xs arbitrary: y s)
  case Nil
  then show ?case by (simp add: aret_def assms(3))
next
  case (Cons x xs)
  obtain r1 s1 where f: "f x y s = (r1, s1)" by (cases "f x y s")
  then have "P s s1" by (rule assms(2))
  moreover have "r1 = Returns z \<Longrightarrow> P s1 s'" for z
    using Cons f by (simp add: abind_def)
  ultimately show ?case using Cons.prems f assms(4)
    by (cases r1) (auto simp: abind_def)
qed

section \<open>The tree\<close>

definition children :: "'a fork_state_scheme \<Rightarrow> block_id \<Rightarrow> block_id list" where
  "children s k = (case map_of (fork_db s) k of Some f \<Rightarrow> next_blocks f | None \<Rightarrow> [])"

definition edges :: "'a fork_state_scheme \<Rightarrow> (block_id \<times> block_id) set" where
  "edges s = {(k, j). j \<in> set (children s k)}"

lemma children_fork_db: "map_of (fork_db s) k = Some f \<Longrightarrow> children s k = next_blocks f"
  by (simp add: children_def)

lemma edges_closed_finite:
  "finite (edges s)"
proof -
  have "edges s \<subseteq> (SIGMA k : dom (map_of (fork_db s)). set (children s k))"
    by (auto simp: edges_def children_def split: option.splits dest: sym)
  then show ?thesis by (rule finite_subset) (simp add: finite_dom_map_of)
qed

lemma level_reach:
  "set ids \<union> (edges s)\<^sup>* `` (\<Union>k \<in> set ids. set (children s k)) = (edges s)\<^sup>* `` set ids"
proof -
  have "(\<Union>k \<in> set ids. set (children s k)) = edges s `` set ids" by (auto simp: edges_def)
  moreover have "(edges s)\<^sup>* `` (edges s `` K) = (edges s)\<^sup>+ `` K" for K
    by (simp add: trancl_unfold_left relcomp_Image)
  moreover have "(edges s)\<^sup>* `` K = K \<union> (edges s)\<^sup>+ `` K" for K
    by (auto simp: rtrancl_eq_or_trancl)
  ultimately show ?thesis by simp
qed

lemma set_fold_uset: "set (fold uset_insert xs ys) = set ys \<union> set xs"
  by (induction xs arbitrary: ys) (auto simp: uset_insert_def)

lemma self_not_below:
  "acyclic (edges s) \<Longrightarrow> k \<notin> (edges s)\<^sup>* `` set (children s k)"
  by (auto simp: acyclic_def edges_def) (meson rtrancl_into_trancl2 mem_Collect_eq case_prodI)

text \<open>The number of descendants falls along an edge.\<close>

definition descendants :: "'a fork_state_scheme \<Rightarrow> block_id \<Rightarrow> block_id set" where
  "descendants s k = (edges s)\<^sup>+ `` {k}"

lemma finite_descendants [simp]: "finite (descendants s k)"
  using finite_trancl [of "edges s"] edges_closed_finite [of s]
  by (simp add: descendants_def finite_Image)

lemma descendants_less:
  assumes "acyclic (edges s)" "j \<in> set (children s k)"
  shows "card (descendants s j) < card (descendants s k)"
proof (rule psubset_card_mono)
  have e: "(k, j) \<in> edges s" using assms(2) by (simp add: edges_def)
  have "descendants s j \<subseteq> descendants s k"
    using trancl_into_trancl2 [OF e] by (auto simp: descendants_def)
  moreover have "j \<in> descendants s k" "j \<notin> descendants s j"
    using e assms(1) by (auto simp: descendants_def acyclic_def)
  ultimately show "descendants s j \<subset> descendants s k" by blast
qed simp

text \<open>The state in which the entries of the blocks of \<open>K\<close> have been rewritten with \<open>g\<close>.\<close>

definition marked ::
  "(BlockForkData \<Rightarrow> BlockForkData) \<Rightarrow> block_id set \<Rightarrow> 'a fork_state_scheme \<Rightarrow> 'a fork_state_scheme \<Rightarrow> bool" where
  "marked g K s s' \<longleftrightarrow> s' = s\<lparr>fork_db := fork_db s'\<rparr> \<and>
     (\<forall>k. map_of (fork_db s') k =
        (if k \<in> K then map_option g (map_of (fork_db s) k) else map_of (fork_db s) k))"

lemma marked_empty [simp]: "marked g {} s s"
  by (simp add: marked_def)

lemma marked_trans:
  assumes "marked g K s s1" "marked g L s1 s'" "\<And>f. g (g f) = g f"
  shows "marked g (K \<union> L) s s'"
proof -
  have "s' = s1\<lparr>fork_db := fork_db s'\<rparr>" "s1 = s\<lparr>fork_db := fork_db s1\<rparr>"
    using assms(1,2) by (simp_all add: marked_def)
  then have "s' = s\<lparr>fork_db := fork_db s'\<rparr>" by (metis fork_state.update_convs(1) fork_state.surjective)
  moreover have "map_option g (map_option g x) = map_option g x" for x
    by (simp add: option.map_comp o_def assms(3))
  ultimately show ?thesis using assms(1,2) by (simp add: marked_def)
qed

lemma marked_one:
  "map_of (fork_db s) k = Some f \<Longrightarrow> marked g {k} s (s\<lparr>fork_db := smap_set k (g f) (fork_db s)\<rparr>)"
  by (simp add: marked_def)

lemma marked_children:
  assumes "marked g K s s'" "\<And>f. next_blocks (g f) = next_blocks f"
  shows "children s' = children s" "edges s' = edges s"
proof -
  show "children s' = children s"
    using assms by (auto simp: marked_def children_def fun_eq_iff split: option.splits)
  then show "edges s' = edges s" by (simp add: edges_def)
qed

lemma marked_dom: "marked g K s s' \<Longrightarrow> dom (map_of (fork_db s')) = dom (map_of (fork_db s))"
  by (auto simp: marked_def dom_def)

lemma marked_outside: "marked g K s s' \<Longrightarrow> k \<notin> K \<Longrightarrow> map_of (fork_db s') k = map_of (fork_db s) k"
  by (simp add: marked_def)

lemma marked_blocks: "marked g K s s' \<Longrightarrow> block_id_to_full_block s' = block_id_to_full_block s"
  by (auto simp: marked_def) (metis fork_state.select_convs(3) fork_state.surjective fork_state.update_convs(1))

text \<open>
  A walk that calls \<open>visit\<close> on each block: \<open>visit\<close> rewrites the entry of the block with \<open>g\<close>, which
  keeps its successors, and adds these to the next level. \<open>ready\<close> is what it reads besides.
\<close>

definition can_visit ::
  "((block_id \<rightharpoonup> FullBlock) \<Rightarrow> block_id \<Rightarrow> bool) \<Rightarrow> 'a fork_state_scheme \<Rightarrow> block_id set \<Rightarrow> bool" where
  "can_visit ready s K \<longleftrightarrow> (\<forall>k \<in> K. k \<in> dom (map_of (fork_db s)) \<and> ready (block_id_to_full_block s) k)"

lemma can_visit_marked: "marked g K s s' \<Longrightarrow> can_visit ready s' L = can_visit ready s L"
  using marked_dom [of g K s s'] marked_blocks [of g K s s'] by (simp add: can_visit_def)

locale marker =
  fixes visit :: "block_id \<Rightarrow> 'b \<times> block_id list \<Rightarrow> ('a fork_state_scheme, 'b \<times> block_id list) act"
    and g :: "BlockForkData \<Rightarrow> BlockForkData"
    and ready :: "(block_id \<rightharpoonup> FullBlock) \<Rightarrow> block_id \<Rightarrow> bool"
  assumes visits: "map_of (fork_db s) k = Some f \<Longrightarrow> ready (block_id_to_full_block s) k \<Longrightarrow>
      \<exists>acc'. visit k (acc, pending) s = (Returns (acc', fold uset_insert (next_blocks f) pending),
        s\<lparr>fork_db := smap_set k (g f) (fork_db s)\<rparr>)"
    and next_g: "next_blocks (g f) = next_blocks f"
    and g_g: "g (g f) = g f"
begin

lemma visits_level:
  assumes "can_visit ready s (set ids)"
  shows "\<exists>acc' pending' s'. afold visit ids (acc, pending) s = (Returns (acc', pending'), s') \<and>
    marked g (set ids) s s' \<and> set pending' = set pending \<union> (\<Union>k \<in> set ids. set (children s k))"
  using assms
proof (induction ids arbitrary: acc pending s)
  case Nil
  then show ?case by (simp add: aret_def)
next
  case (Cons k ids)
  then obtain f where f: "map_of (fork_db s) k = Some f" and r: "ready (block_id_to_full_block s) k"
    by (auto simp: can_visit_def)
  obtain acc1 where v: "visit k (acc, pending) s =
      (Returns (acc1, fold uset_insert (next_blocks f) pending),
       s\<lparr>fork_db := smap_set k (g f) (fork_db s)\<rparr>)"
    using visits [OF f r] by blast
  let ?s1 = "s\<lparr>fork_db := smap_set k (g f) (fork_db s)\<rparr>"
  have m: "marked g {k} s ?s1" using f by (rule marked_one)
  have "can_visit ready ?s1 (set ids)"
    using Cons.prems by (simp add: can_visit_marked [OF m]) (simp add: can_visit_def)
  from Cons.IH [OF this, of acc1 "fold uset_insert (next_blocks f) pending"]
  obtain acc' pending' s' where
    IH: "afold visit ids (acc1, fold uset_insert (next_blocks f) pending) ?s1 = (Returns (acc', pending'), s')"
      "marked g (set ids) ?s1 s'"
      "set pending' = set (fold uset_insert (next_blocks f) pending) \<union> (\<Union>k \<in> set ids. set (children ?s1 k))"
    by blast
  have "marked g (set (k # ids)) s s'" using marked_trans [OF m IH(2) g_g] by simp
  moreover have "set pending' = set pending \<union> (\<Union>k \<in> set (k # ids). set (children s k))"
    using IH(3) f by (auto simp: set_fold_uset marked_children [OF m next_g] children_fork_db)
  ultimately show ?case using IH(1) v by (auto simp: abind_def)
qed

text \<open>
  A walk with fuel for the longest way down ends, and rewrites the blocks of the level it starts
  from and everything below them.
\<close>

lemma walk_marks:
  assumes "acyclic (edges s)" "can_visit ready s (set ids)"
    and "\<And>k j. j \<in> set (children s k) \<Longrightarrow> can_visit ready s {j}"
    and "\<And>k. k \<in> set ids \<Longrightarrow> card (descendants s k) < n"
  shows "\<exists>acc' s'. walk n visit ids acc s = (Returns acc', s') \<and>
    marked g ((edges s)\<^sup>* `` set ids) s s'"
  using assms
proof (induction n arbitrary: ids acc s)
  case 0
  then have "ids = []" by (cases ids) auto
  then show ?case by (auto simp: aret_def)
next
  case (Suc n)
  show ?case
  proof (cases ids)
    case Nil
    then show ?thesis by (auto simp: aret_def)
  next
    case (Cons x xs)
    obtain acc1 pending s1 where v: "afold visit ids (acc, []) s = (Returns (acc1, pending), s1)"
      and m: "marked g (set ids) s s1" and p: "set pending = (\<Union>k \<in> set ids. set (children s k))"
      using visits_level [OF Suc.prems(2), of acc "[]"] by auto
    note same = marked_children [OF m next_g] can_visit_marked [OF m]
    have desc: "descendants s1 = descendants s" by (simp add: descendants_def same fun_eq_iff)
    have "\<exists>acc' s'. walk n visit pending acc1 s1 = (Returns acc', s') \<and>
        marked g ((edges s1)\<^sup>* `` set pending) s1 s'"
    proof (rule Suc.IH)
      show "can_visit ready s1 (set pending)"
        unfolding same(3) using Suc.prems(3) by (fastforce simp: p can_visit_def)
      show "card (descendants s1 k) < n" if "k \<in> set pending" for k
      proof -
        obtain i where "i \<in> set ids" "k \<in> set (children s i)" using \<open>k \<in> set pending\<close> p by auto
        then have "card (descendants s k) < card (descendants s i)" "card (descendants s i) < Suc n"
          using descendants_less [OF Suc.prems(1)] Suc.prems(4) by simp_all
        then show ?thesis by (simp add: desc)
      qed
    qed (use Suc.prems(1,3) same in simp_all)
    then obtain acc' s' where IH: "walk n visit pending acc1 s1 = (Returns acc', s')"
      "marked g ((edges s1)\<^sup>* `` set pending) s1 s'" by blast
    have "set ids \<union> (edges s1)\<^sup>* `` set pending = (edges s)\<^sup>* `` set ids"
      using level_reach [of ids s] by (simp add: same p)
    with marked_trans [OF m IH(2) g_g] v IH(1) Cons show ?thesis by (simp add: abind_def)
  qed
qed

end

section \<open>Trees in good order\<close>

text \<open>
  A tree in good order: no cycles (a block names its predecessor by its hash), and every successor
  that an entry lists is a known block that names it as its predecessor. The genesis block, with
  the id 0, is known without a stored block.
\<close>

definition known :: "'a fork_state_scheme \<Rightarrow> block_id \<Rightarrow> bool" where
  "known s k \<longleftrightarrow> (\<exists>f. map_of (fork_db s) k = Some f \<and> is_known f)"

definition tree_ok :: "'a fork_state_scheme \<Rightarrow> bool" where
  "tree_ok s \<longleftrightarrow> acyclic (edges s) \<and>
     (\<forall>k j. j \<in> set (children s k) \<longrightarrow>
        known s j \<and> (\<exists>b. block_id_to_full_block s j = Some b \<and> bh_previous b = k)) \<and>
     (\<forall>k. known s k \<and> k \<noteq> 0 \<longrightarrow>
        (\<exists>b. block_id_to_full_block s k = Some b \<and> k \<in> set (children s (bh_previous b))))"

lemma descendants_bound:
  assumes "tree_ok s"
  shows "card (descendants s k) < tree_bound s"
proof -
  have "descendants s k \<subseteq> dom (map_of (fork_db s))"
  proof
    fix j assume "j \<in> descendants s k"
    then obtain i where "(i, j) \<in> edges s" by (auto simp: descendants_def elim: tranclE)
    with assms show "j \<in> dom (map_of (fork_db s))" by (auto simp: tree_ok_def edges_def known_def) blast
  qed
  then have "card (descendants s k) \<le> card (dom (map_of (fork_db s)))"
    by (rule card_mono [OF finite_dom_map_of])
  also have "\<dots> \<le> length (fork_db s)"
    by (metis card_length dom_map_of_conv_image_fst image_set length_map)
  finally show ?thesis by (simp add: tree_bound_def)
qed

text \<open>\<open>below s k\<close> is a block with everything after it.\<close>

definition below :: "'a fork_state_scheme \<Rightarrow> block_id \<Rightarrow> block_id set" where
  "below s k = (edges s)\<^sup>* `` {k}"

lemma below_children: "below s k = insert k ((edges s)\<^sup>* `` set (children s k))"
  using level_reach [of "[k]" s] by (auto simp: below_def)

lemma tree_ok_marked:
  assumes "marked g K s s'" "\<And>f. next_blocks (g f) = next_blocks f" "\<And>f. is_known (g f) = is_known f"
  shows "tree_ok s' \<longleftrightarrow> tree_ok s"
proof -
  have "known s' = known s" using assms(1,3) by (auto simp: marked_def known_def fun_eq_iff)
  then show ?thesis
    using marked_children [OF assms(1,2)] marked_blocks [OF assms(1)] by (simp add: tree_ok_def)
qed

locale tree_marker = marker +
  assumes known_g: "is_known (g f) = is_known f"
    and ready_known: "k \<in> dom blocks \<Longrightarrow> ready blocks k"
begin

lemma tree_visits: "tree_ok s \<Longrightarrow> j \<in> set (children s k) \<Longrightarrow> can_visit ready s {j}"
  unfolding tree_ok_def can_visit_def known_def using ready_known by blast

lemma marks_children:
  assumes ok: "tree_ok s"
  shows "\<exists>acc' s'. walk (tree_bound s) visit (children s k) acc s = (Returns acc', s') \<and>
    marked g ((edges s)\<^sup>* `` set (children s k)) s s'"
proof (rule walk_marks)
  show "acyclic (edges s)" using ok by (simp add: tree_ok_def)
  show "can_visit ready s (set (children s k))"
    using tree_visits [OF ok, of _ k] by (auto simp: can_visit_def)
qed (use tree_visits [OF ok] descendants_bound [OF ok] in auto)

text \<open>Marking a block and walking down from it.\<close>

lemma marks_below:
  assumes "tree_ok s" "map_of (fork_db s) k = Some f"
    and s1: "s1 = s\<lparr>fork_db := smap_set k (g f) (fork_db s)\<rparr>"
  shows "\<exists>acc' s'. walk (tree_bound s1) visit (next_blocks f) acc s1 = (Returns acc', s') \<and>
    marked g (below s k) s s'"
proof -
  have m: "marked g {k} s s1" unfolding s1 using assms(2) by (rule marked_one)
  have ok: "tree_ok s1" using tree_ok_marked [OF m next_g known_g] assms(1) by simp
  have ids: "next_blocks f = children s1 k"
    using assms(2) by (simp add: marked_children [OF m next_g] children_fork_db)
  have "{k} \<union> (edges s1)\<^sup>* `` set (children s1 k) = below s k"
    by (simp add: below_children marked_children [OF m next_g])
  then show ?thesis
    using marks_children [OF ok, of k acc] marked_trans [OF m _ g_g] unfolding ids by metis
qed

end

section \<open>The three walks of the code\<close>

definition set_invalid :: "chain_error \<Rightarrow> BlockForkData \<Rightarrow> BlockForkData" where
  "set_invalid reason f = f\<lparr>is_valid := Some False, invalid_reason := Some reason\<rparr>"

definition set_unchecked :: "BlockForkData \<Rightarrow> BlockForkData" where
  "set_unchecked f = f\<lparr>is_valid := None, invalid_reason := None\<rparr>"

definition set_linked :: "BlockForkData \<Rightarrow> BlockForkData" where
  "set_linked f = f\<lparr>is_linked := True\<rparr>"

lemmas mark_defs = set_invalid_def set_unchecked_def set_linked_def

interpretation invalid_walk: tree_marker "visit_invalid reason" "set_invalid reason" "\<lambda>_ _. True"
  by unfold_locales
    (auto simp: visit_invalid_def mark_defs fork_fetch_def fork_store_def act_defs require_def)

interpretation unchecked_walk: tree_marker visit_unchecked set_unchecked "\<lambda>_ _. True"
  by unfold_locales
    (auto simp: visit_unchecked_def mark_defs fork_fetch_def fork_store_def act_defs require_def)

interpretation linked_walk: tree_marker visit_linked set_linked "\<lambda>blocks k. k \<in> dom blocks"
  by unfold_locales
    (auto simp: visit_linked_def mark_defs fork_fetch_def fork_store_def block_fetch_def act_defs
      require_def Let_def split: prod.splits)

lemma mark_invalid_descendants:
  assumes "tree_ok s" "k \<in> dom (map_of (fork_db s))"
  shows "\<exists>s'. mark_invalid k reason s = (Returns (), s') \<and> marked (set_invalid reason) (below s k) s s'"
proof -
  obtain f where f: "map_of (fork_db s) k = Some f" using assms(2) by blast
  from invalid_walk.marks_below [OF assms(1) f refl] show ?thesis
    using f by (simp add: mark_invalid_def recursive_mark_as_invalid_def fork_fetch_def
        fork_store_def act_defs require_def set_invalid_def [abs_def])
qed

text \<open>
  \<open>mark_invalid\<close> ends and marks exactly the block and its descendants as invalid,
  with the reason of the block, however the tree branches; every other entry of the block tree
  and the rest of the state is as before.
\<close>

theorem mark_invalid_marks_descendants:
  assumes "tree_ok s" "k \<in> dom (map_of (fork_db s))"
  shows "\<exists>s'. mark_invalid k reason s = (Returns (), s') \<and> marked (set_invalid reason) (below s k) s s'"
  using assms by (rule mark_invalid_descendants)

text \<open>
  \<open>mark_as_unchecked\<close> ends and takes back the verdict of exactly the block and its
  descendants.
\<close>

theorem mark_as_unchecked_marks_descendants:
  assumes "tree_ok s" "k \<in> dom (map_of (fork_db s))"
  shows "\<exists>s'. mark_as_unchecked k s = (Returns (), s') \<and> marked set_unchecked (below s k) s s'"
proof -
  obtain f where f: "map_of (fork_db s) k = Some f" using assms(2) by blast
  from unchecked_walk.marks_below [OF assms(1) f refl] show ?thesis
    using f by (simp add: mark_as_unchecked_def fork_fetch_def
        fork_store_def act_defs require_def set_unchecked_def [abs_def])
qed

section \<open>store\_and\_index\<close>

text \<open>The tree with one more block.\<close>

lemma tree_ok_insert:
  assumes "tree_ok s" "\<not> known s bid" "bh_previous b \<notin> below s bid"
    and forks: "map_of (fork_db s2) = (map_of (fork_db s))(bh_previous b \<mapsto> pf, bid \<mapsto> f)"
    and blocks: "block_id_to_full_block s2 = (block_id_to_full_block s)(bid \<mapsto> b)"
    and pf: "next_blocks pf = uset_insert bid (children s (bh_previous b))"
      "is_known pf \<longleftrightarrow> known s (bh_previous b)"
    and f: "next_blocks f = children s bid" "is_known f"
  shows "tree_ok s2" "known s2 k \<longleftrightarrow> k = bid \<or> known s k"
proof -
  let ?prev = "bh_previous b"
  have ne: "?prev \<noteq> bid" using assms(3) by (auto simp: below_def)
  have ch: "children s2 k = (if k = ?prev then uset_insert bid (children s k) else children s k)" for k
    using pf(1) f(1) ne by (simp add: children_def forks)
  have kn: "known s2 k \<longleftrightarrow> k = bid \<or> known s k" for k
    using pf(2) f(2) by (auto simp: known_def forks)
  then show "known s2 k \<longleftrightarrow> k = bid \<or> known s k" by simp
  have "edges s2 = insert (?prev, bid) (edges s)"
    by (auto simp: edges_def ch uset_insert_def split: if_splits)
  moreover have "(bid, ?prev) \<notin> (edges s)\<^sup>*" using assms(3) by (simp add: below_def)
  ultimately have "acyclic (edges s2)" using assms(1) by (simp add: tree_ok_def acyclic_insert)
  moreover have "known s2 j \<and> (\<exists>b. block_id_to_full_block s2 j = Some b \<and> bh_previous b = k)"
    if "j \<in> set (children s2 k)" for k j
  proof (cases "j = bid")
    case True
    then have "k = ?prev"
      using that assms(1,2) by (auto simp: ch tree_ok_def split: if_splits)
    with True show ?thesis by (simp add: kn blocks)
  next
    case False
    then have "j \<in> set (children s k)" using that by (auto simp: ch uset_insert_def split: if_splits)
    with False assms(1) show ?thesis by (auto simp: tree_ok_def kn blocks)
  qed
  moreover have "\<exists>b. block_id_to_full_block s2 k = Some b \<and> k \<in> set (children s2 (bh_previous b))"
    if "known s2 k" "k \<noteq> 0" for k
  proof (cases "k = bid")
    case True
    then show ?thesis by (simp add: blocks ch uset_insert_def)
  next
    case False
    then have "\<exists>b. block_id_to_full_block s k = Some b \<and> k \<in> set (children s (bh_previous b))"
      using that assms(1) by (simp add: kn tree_ok_def)
    with False show ?thesis by (auto simp: blocks ch uset_insert_def)
  qed
  ultimately show "tree_ok s2" by (simp add: tree_ok_def)
qed

text \<open>An invalid entry records why.\<close>

definition reasons_ok :: "'a fork_state_scheme \<Rightarrow> bool" where
  "reasons_ok s \<longleftrightarrow> (\<forall>k f. map_of (fork_db s) k = Some f \<and> fork_invalid f \<longrightarrow> invalid_reason f \<noteq> None)"

definition prev_entry :: "'a fork_state_scheme \<Rightarrow> block_id \<Rightarrow> FullBlock \<Rightarrow> BlockForkData" where
  "prev_entry s bid b =
     (let f = (case map_of (fork_db s) (bh_previous b) of Some f \<Rightarrow> f | None \<Rightarrow> new_BlockForkData)
      in f\<lparr>next_blocks := uset_insert bid (next_blocks f)\<rparr>)"

lemma prev_entry_fields:
  "next_blocks (prev_entry s bid b) = uset_insert bid (children s (bh_previous b))"
  "is_known (prev_entry s bid b) \<longleftrightarrow> known s (bh_previous b)"
  by (simp_all add: prev_entry_def children_def known_def new_BlockForkData_def Let_def split: option.split)

definition indexed :: "'a fork_state_scheme \<Rightarrow> block_id \<Rightarrow> FullBlock \<Rightarrow> BlockForkData \<Rightarrow> 'a fork_state_scheme" where
  "indexed s bid b f = s\<lparr>
     fork_number_db := (fork_number_db s)
       (bh_block_num b \<mapsto> fetch_blocks_at_number (bh_block_num b) s @ [bid]),
     block_id_to_full_block := (block_id_to_full_block s)(bid \<mapsto> b),
     fork_db := smap_set bid f (smap_set (bh_previous b) (prev_entry s bid b) (fork_db s))\<rparr>"

lemma index_block_run:
  "index_block bid b s = (Returns (prev_entry s bid b), s\<lparr>
     fork_number_db := (fork_number_db s)
       (bh_block_num b \<mapsto> fetch_blocks_at_number (bh_block_num b) s @ [bid]),
     block_id_to_full_block := (block_id_to_full_block s)(bid \<mapsto> b),
     fork_db := smap_set (bh_previous b) (prev_entry s bid b) (fork_db s)\<rparr>)"
  by (simp add: index_block_def act_defs fork_store_def fetch_blocks_at_number_def prev_entry_def
      new_BlockForkData_def Let_def split: option.split)

text \<open>\<open>store_and_index\<close> stores the block's entry and then walks down from it, or not.\<close>

lemma store_and_index_run:
  assumes "bh_previous b \<noteq> bid"
  obtains f where "next_blocks f = children s bid" "is_known f"
    "is_included f \<longrightarrow> (\<exists>g. map_of (fork_db s) bid = Some g \<and> is_included g)"
    "is_linked f = (is_linked (prev_entry s bid b) \<or> (\<exists>g. map_of (fork_db s) bid = Some g \<and> is_linked g))"
    "fork_invalid f \<longrightarrow> invalid_reason f = invalid_reason (prev_entry s bid b) \<and> fork_invalid (prev_entry s bid b) \<or>
       (\<exists>g. map_of (fork_db s) bid = Some g \<and> fork_invalid g \<and> invalid_reason f = invalid_reason g)"
    "store_and_index bid b s = (Returns (bid, f), indexed s bid b f) \<or>
     store_and_index bid b s = recursive_mark_as_linked (next_blocks f) (indexed s bid b f) \<or>
     fork_invalid (prev_entry s bid b) \<and>
     store_and_index bid b s =
       abind (aread (\<lambda>_. require null_optional (invalid_reason (prev_entry s bid b)))) (\<lambda>reason.
       abind (recursive_mark_as_invalid (next_blocks f) reason) (\<lambda>_. aret (bid, f))) (indexed s bid b f)"
proof (cases "map_of (fork_db s) bid")
  case None
  let ?p = "prev_entry s bid b"
  let ?f = "inherit_invalid ?p (new_BlockForkData\<lparr>is_known := True, is_linked := is_linked ?p\<rparr>)"
  show ?thesis
  proof (rule that [of ?f])
    show "store_and_index bid b s = (Returns (bid, ?f), indexed s bid b ?f) \<or>
       store_and_index bid b s = recursive_mark_as_linked (next_blocks ?f) (indexed s bid b ?f) \<or>
       fork_invalid ?p \<and> store_and_index bid b s =
         abind (aread (\<lambda>_. require null_optional (invalid_reason ?p))) (\<lambda>reason.
         abind (recursive_mark_as_invalid (next_blocks ?f) reason) (\<lambda>_. aret (bid, ?f))) (indexed s bid b ?f)"
      using assms None
      by (intro disjI1) (simp add: store_and_index_def index_block_run abind_def aget_def fork_store_def amodify_def aret_def indexed_def Let_def)
  qed (use None in \<open>auto simp: inherit_invalid_def new_BlockForkData_def children_def fork_invalid_def split: if_splits\<close>)
next
  case (Some ph)
  let ?p = "prev_entry s bid b"
  let ?f = "if is_linked ?p then inherit_invalid ?p (ph\<lparr>is_known := True, is_linked := True\<rparr>)
    else ph\<lparr>is_known := True\<rparr>"
  show ?thesis
  proof (rule that [of ?f])
    show "store_and_index bid b s = (Returns (bid, ?f), indexed s bid b ?f) \<or>
       store_and_index bid b s = recursive_mark_as_linked (next_blocks ?f) (indexed s bid b ?f) \<or>
       fork_invalid ?p \<and> store_and_index bid b s =
         abind (aread (\<lambda>_. require null_optional (invalid_reason ?p))) (\<lambda>reason.
         abind (recursive_mark_as_invalid (next_blocks ?f) reason) (\<lambda>_. aret (bid, ?f))) (indexed s bid b ?f)"
      using assms Some
      by (simp add: store_and_index_def index_block_run abind_def aget_def fork_store_def amodify_def aret_def indexed_def Let_def)
  qed (use Some in \<open>auto simp: inherit_invalid_def children_def fork_invalid_def\<close>)
qed

lemma reasons_ok_marked:
  assumes "marked g K s s'" "reasons_ok s" "\<And>f. fork_invalid (g f) \<Longrightarrow> invalid_reason (g f) \<noteq> None \<or>
    fork_invalid f \<and> invalid_reason (g f) = invalid_reason f"
  shows "reasons_ok s'"
  using assms by (fastforce simp: marked_def reasons_ok_def split: if_splits)

text \<open>
  Whatever branch \<open>store_and_index\<close> takes, it stores the entry \<open>f\<close> of the block and rewrites the entries
  below it with some \<open>g\<close>.
\<close>

definition mild :: "(BlockForkData \<Rightarrow> BlockForkData) \<Rightarrow> bool" where
  "mild g \<longleftrightarrow> (\<forall>f. next_blocks (g f) = next_blocks f \<and> is_known (g f) = is_known f \<and>
     is_included (g f) = is_included f \<and>
     (fork_invalid (g f) \<longrightarrow> invalid_reason (g f) \<noteq> None \<or> fork_invalid f \<and> invalid_reason (g f) = invalid_reason f))"

lemma mild_marks [simp]: "mild (\<lambda>f. f)" "mild set_linked" "mild (set_invalid reason)" "mild set_unchecked"
  by (simp_all add: mild_def mark_defs fork_invalid_def)

lemma marked_mild:
  assumes "marked g K s s'" "mild g"
  shows "edges s' = edges s" "known s' = known s" "tree_ok s' \<longleftrightarrow> tree_ok s" "reasons_ok s \<Longrightarrow> reasons_ok s'"
  using assms marked_children [of g K s s'] tree_ok_marked [of g K s s'] reasons_ok_marked [of g K s s']
  by (auto simp: mild_def marked_def known_def fun_eq_iff)

lemma store_and_index_branches:
  assumes "tree_ok s2" "fork_invalid p \<longrightarrow> invalid_reason p \<noteq> None" "children s2 bid = ids"
    and run: "run = (Returns (bid, f), s2) \<or> run = recursive_mark_as_linked ids s2 \<or>
      fork_invalid p \<and> run =
        abind (aread (\<lambda>_. require null_optional (invalid_reason p))) (\<lambda>reason.
        abind (recursive_mark_as_invalid ids reason) (\<lambda>_. aret (bid, f))) s2"
  obtains g r s' where "run = (Returns r, s')" "marked g ((edges s2)\<^sup>* `` set ids) s2 s'" "mild g"
proof -
  from run assms(2) consider
    (none) "run = (Returns (bid, f), s2)"
  | (link) "run = recursive_mark_as_linked ids s2"
  | (bad) reason where "run = abind (recursive_mark_as_invalid ids reason) (\<lambda>_. aret (bid, f)) s2"
    by (auto simp: abind_def [where m = "aread h" for h] aread_def require_def)
  then show ?thesis
  proof cases
    case none
    then show ?thesis by (rule that [of _ _ "\<lambda>f. f"]) (simp_all add: marked_def option.map_ident)
  next
    case link
    obtain acc s' where "walk (tree_bound s2) visit_linked ids (0, 0, new_BlockForkData) s2 = (Returns acc, s')"
      and m: "marked set_linked ((edges s2)\<^sup>* `` set ids) s2 s'"
      using linked_walk.marks_children [OF assms(1)] assms(3) by blast
    with link have "run = (Returns (snd acc), s')"
      by (simp add: recursive_mark_as_linked_def act_defs split: prod.splits)
    then show ?thesis by (rule that [OF _ m]) simp
  next
    case bad
    obtain s' where "walk (tree_bound s2) (visit_invalid reason) ids () s2 = (Returns (), s')"
      and m: "marked (set_invalid reason) ((edges s2)\<^sup>* `` set ids) s2 s'"
      using invalid_walk.marks_children [OF assms(1)] assms(3) by auto
    with bad have "run = (Returns (bid, f), s')" by (simp add: recursive_mark_as_invalid_def act_defs)
    then show ?thesis by (rule that [OF _ m]) simp
  qed
qed

lemma store_and_index_marked:
  assumes "tree_ok s" "reasons_ok s" "\<not> known s bid" "bh_previous b \<notin> below s bid"
  obtains f g r s' where
    "store_and_index bid b s = (Returns r, s')"
    "marked g ((edges (indexed s bid b f))\<^sup>* `` set (children (indexed s bid b f) bid)) (indexed s bid b f) s'"
    "mild g" "tree_ok (indexed s bid b f)" "reasons_ok (indexed s bid b f)"
    "\<And>k. known (indexed s bid b f) k \<longleftrightarrow> k = bid \<or> known s k"
    "next_blocks f = children s bid"
    "is_included f \<longrightarrow> (\<exists>g. map_of (fork_db s) bid = Some g \<and> is_included g)"
    "is_linked f = (is_linked (prev_entry s bid b) \<or> (\<exists>g. map_of (fork_db s) bid = Some g \<and> is_linked g))"
proof -
  have ne: "bh_previous b \<noteq> bid" using assms(4) by (auto simp: below_def)
  obtain f where f: "next_blocks f = children s bid" "is_known f"
    and ic: "is_included f \<longrightarrow> (\<exists>g. map_of (fork_db s) bid = Some g \<and> is_included g)"
    and lk: "is_linked f = (is_linked (prev_entry s bid b) \<or> (\<exists>g. map_of (fork_db s) bid = Some g \<and> is_linked g))"
    and inv: "fork_invalid f \<longrightarrow> invalid_reason f = invalid_reason (prev_entry s bid b) \<and> fork_invalid (prev_entry s bid b) \<or>
       (\<exists>g. map_of (fork_db s) bid = Some g \<and> fork_invalid g \<and> invalid_reason f = invalid_reason g)"
    and run: "store_and_index bid b s = (Returns (bid, f), indexed s bid b f) \<or>
     store_and_index bid b s = recursive_mark_as_linked (next_blocks f) (indexed s bid b f) \<or>
     fork_invalid (prev_entry s bid b) \<and>
     store_and_index bid b s =
       abind (aread (\<lambda>_. require null_optional (invalid_reason (prev_entry s bid b)))) (\<lambda>reason.
       abind (recursive_mark_as_invalid (next_blocks f) reason) (\<lambda>_. aret (bid, f))) (indexed s bid b f)"
    using ne by (rule store_and_index_run)
  let ?s2 = "indexed s bid b f" and ?p = "prev_entry s bid b"
  have forks: "map_of (fork_db ?s2) = (map_of (fork_db s))(bh_previous b \<mapsto> ?p, bid \<mapsto> f)"
    by (auto simp: indexed_def fun_eq_iff)
  have ok: "tree_ok ?s2" "\<And>k. known ?s2 k \<longleftrightarrow> k = bid \<or> known s k"
    using tree_ok_insert [OF assms(1,3,4) forks _ prev_entry_fields f] by (simp_all add: indexed_def)
  have p: "fork_invalid ?p \<longrightarrow> invalid_reason ?p \<noteq> None"
    using assms(2) by (auto simp: prev_entry_def reasons_ok_def new_BlockForkData_def fork_invalid_def
        Let_def split: option.splits)
  have rs: "reasons_ok ?s2"
    using assms(2) inv p by (auto simp: reasons_ok_def forks split: if_splits)
  have ids: "children ?s2 bid = next_blocks f" by (simp add: children_def forks)
  obtain g r s' where g: "store_and_index bid b s = (Returns r, s')"
    "marked g ((edges ?s2)\<^sup>* `` set (children ?s2 bid)) ?s2 s'" "mild g"
    using store_and_index_branches [OF ok(1) p ids run] unfolding ids .
  from that [OF g ok(1) rs ok(2) f(1) ic lk] show ?thesis .
qed

text \<open>
  C17 (invariant). \<open>store_and_index\<close> keeps the block tree in good order: for a block that the node
  does not know yet, whose predecessor is not one of its own descendants, it returns; afterwards
  the known blocks are the old ones and the new one, each of them stored and listed once with its
  predecessor, there is still no cycle, the new block is linked to the genesis block if and only
  if its predecessor (or a placeholder of it) is, and every invalid block has a reason.
\<close>

theorem store_and_index_keeps_tree:
  assumes "tree_ok s" "reasons_ok s" "\<not> known s bid" "bh_previous b \<notin> below s bid"
  shows "\<exists>r s'. store_and_index bid b s = (Returns r, s') \<and> tree_ok s' \<and> reasons_ok s' \<and>
    (\<forall>k. known s' k \<longleftrightarrow> k = bid \<or> known s k) \<and>
    block_id_to_full_block s' = (block_id_to_full_block s)(bid \<mapsto> b) \<and>
    (\<exists>f. map_of (fork_db s') bid = Some f \<and>
       (is_linked f \<longleftrightarrow> is_linked (prev_entry s bid b) \<or> (\<exists>g. map_of (fork_db s) bid = Some g \<and> is_linked g)))"
proof (rule store_and_index_marked [OF assms])
  fix f g r s'
  assume run: "store_and_index bid b s = (Returns r, s')"
    and m: "marked g ((edges (indexed s bid b f))\<^sup>* `` set (children (indexed s bid b f) bid)) (indexed s bid b f) s'"
    and mild: "mild g" and ok: "tree_ok (indexed s bid b f)" "reasons_ok (indexed s bid b f)"
      "\<And>k. known (indexed s bid b f) k \<longleftrightarrow> k = bid \<or> known s k"
    and lk: "is_linked f = (is_linked (prev_entry s bid b) \<or> (\<exists>g. map_of (fork_db s) bid = Some g \<and> is_linked g))"
  let ?s2 = "indexed s bid b f"
  have "map_of (fork_db ?s2) bid = Some f" by (simp add: indexed_def)
  then have "map_of (fork_db s') bid = Some f"
    using marked_outside [OF m self_not_below] ok(1) by (simp add: tree_ok_def)
  moreover have "block_id_to_full_block s' = (block_id_to_full_block s)(bid \<mapsto> b)"
    using marked_blocks [OF m] by (simp add: indexed_def)
  ultimately show ?thesis
    using run marked_mild [OF m mild] ok lk by auto
qed

section \<open>Instances\<close>

text \<open>The genesis block and one block on top of it.\<close>

definition sample_tree_block :: "nat \<Rightarrow> block_id \<Rightarrow> FullBlock" where
  "sample_tree_block n prev = \<lparr>bh_previous = prev, bh_block_num = n, bh_timestamp = 10 * n,
     bh_transaction_digest = 0, bh_next_secret_hash = 0, bh_previous_secret = 0,
     bh_delegate_signature = 0, user_transactions = []\<rparr>"

definition sample_tree :: fork_state where
  "sample_tree = \<lparr>
     fork_db = [(0, new_BlockForkData\<lparr>next_blocks := [100], is_linked := True, is_valid := Some True,
                  is_included := True, is_known := True\<rparr>),
                (100, new_BlockForkData\<lparr>is_linked := True, is_known := True\<rparr>)],
     fork_number_db = [1 \<mapsto> [100]], block_id_to_full_block = [100 \<mapsto> sample_tree_block 1 0]\<rparr>"

lemma sample_tree_children: "children sample_tree k = (if k = 0 then [100] else [])"
  by (simp add: children_def sample_tree_def new_BlockForkData_def)

lemma sample_tree_ok: "tree_ok sample_tree" "reasons_ok sample_tree"
proof -
  have "edges sample_tree \<subseteq> less_than" by (auto simp: edges_def sample_tree_children split: if_splits)
  then have "acyclic (edges sample_tree)" by (rule acyclic_subset [OF wf_acyclic [OF wf_less_than]])
  moreover have "known sample_tree k \<longleftrightarrow> k = 0 \<or> k = 100"
    "block_id_to_full_block sample_tree k = (if k = 100 then Some (sample_tree_block 1 0) else None)" for k
    by (auto simp: known_def sample_tree_def new_BlockForkData_def)
  moreover have "bh_previous (sample_tree_block n k) = k" for n k by (simp add: sample_tree_block_def)
  ultimately show "tree_ok sample_tree" by (auto simp: tree_ok_def sample_tree_children)
  show "reasons_ok sample_tree"
    by (auto simp: reasons_ok_def sample_tree_def new_BlockForkData_def fork_invalid_def split: if_splits)
qed

theorem mark_invalid_marks_descendants_witness:
  "\<exists>s'. mark_invalid 0 time_in_future sample_tree = (Returns (), s') \<and>
     marked (set_invalid time_in_future) (below sample_tree 0) sample_tree s'"
  by (rule mark_invalid_marks_descendants [OF sample_tree_ok(1)]) (simp add: sample_tree_def)

theorem mark_as_unchecked_marks_descendants_witness:
  "\<exists>s'. mark_as_unchecked 0 sample_tree = (Returns (), s') \<and>
     marked set_unchecked (below sample_tree 0) sample_tree s'"
  by (rule mark_as_unchecked_marks_descendants [OF sample_tree_ok(1)]) (simp add: sample_tree_def)

theorem store_and_index_keeps_tree_witness:
  "\<exists>r s'. store_and_index 200 (sample_tree_block 2 100) sample_tree = (Returns r, s') \<and> tree_ok s' \<and>
     known s' 200"
proof -
  have b: "below sample_tree 200 = {200}" by (simp add: below_children sample_tree_children)
  have k: "\<not> known sample_tree 200" "bh_previous (sample_tree_block 2 100) \<notin> below sample_tree 200"
    unfolding b by (simp_all add: known_def sample_tree_def sample_tree_block_def)
  from store_and_index_keeps_tree [OF sample_tree_ok k] show ?thesis by (elim exE) auto
qed

end
