(* ===== verification/Node_Laws.thy ===== *)
theory Node_Laws
  imports Block_Ledger Fork_Laws
begin

text \<open>
  What the operations that move the head block do to the node as a whole: a block that extends
  the chain becomes the head and conserves every asset in the database, a block that is rejected
  leaves the database alone, and popping the block restores what the database showed before it.
\<close>

section \<open>Frames\<close>

text \<open>The database apart from the head block and the cache of unique transactions.\<close>

lemma view_head [simp]:
  "view (Database (d\<lparr>db_head_block_num := n, db_head_block_timestamp := t\<rparr>)) = view (Database d)"
  "view (Database (d\<lparr>db_unique_transactions := us\<rparr>)) = view (Database d)"
  "view (Database (d\<lparr>db_head_block_num := n, db_head_block_timestamp := t,
     db_unique_transactions := us\<rparr>)) = view (Database d)"
  by (simp_all add: view_def fun_eq_iff db_access_defs)

lemma clear_pending_trx_frame:
  "clear_pending_trx E t u s = (r, s') \<Longrightarrow> s' = s\<lparr>pending_transaction_db := pending_transaction_db s'\<rparr>"
  by (auto simp: clear_pending_trx_def act_defs split: list.splits Operation.splits if_splits)

lemma clear_pending_frame:
  assumes "clear_pending E b s = (r, s')"
  shows "\<exists>q fi ps. s' = s\<lparr>pending_transaction_db := q, pending_fee_index := fi, pending_trx_state := ps\<rparr>"
proof -
  obtain r1 s1 where f: "afold (clear_pending_trx E) (user_transactions b) () s = (r1, s1)"
    by (cases "afold (clear_pending_trx E) (user_transactions b) () s")
  have "\<exists>q. s1 = s\<lparr>pending_transaction_db := q\<rparr>"
  proof (rule afold_frame [OF f, of "\<lambda>s s'. \<exists>q. s' = s\<lparr>pending_transaction_db := q\<rparr>"])
    show "\<exists>q. u = u\<lparr>pending_transaction_db := q\<rparr>" for u :: node
      by (rule exI [of _ "pending_transaction_db u"]) simp
  qed (use clear_pending_trx_frame in \<open>blast, auto\<close>)
  then obtain q where q: "s1 = s\<lparr>pending_transaction_db := q\<rparr>" by blast
  show ?thesis
  proof (cases "\<exists>u. r1 = Returns u")
    case True
    then have "s' = s1\<lparr>pending_fee_index := [], pending_trx_state := new_pending\<rparr>"
      using assms f by (auto simp: clear_pending_def abind_def amodify_def)
    then show ?thesis using q by blast
  next
    case False
    then have "s' = s1" using assms f by (cases r1) (auto simp: clear_pending_def abind_def)
    also have "\<dots> = s\<lparr>pending_transaction_db := q, pending_fee_index := pending_fee_index s,
        pending_trx_state := pending_trx_state s\<rparr>" by (simp add: q)
    finally show ?thesis by blast
  qed
qed

lemma mark_included_frame:
  "mark_included k i s = (Returns u, s') \<Longrightarrow>
     \<exists>f. map_of (fork_db s) k = Some f \<and>
       s' = s\<lparr>fork_db := smap_set k (f\<lparr>is_included := i,
         is_valid := (if i then Some True else is_valid f)\<rparr>) (fork_db s)\<rparr>"
  by (auto simp: mark_included_def fork_fetch_def fork_store_def abind_Returns act_Returns
      Let_def require_def split: option.splits)

lemma update_relay_fee_frame:
  "update_relay_fee w s = (Returns u, s') \<Longrightarrow> \<exists>f. s' = s\<lparr>relay_fee := f\<rparr>"
proof (cases w)
  case None
  assume "update_relay_fee w s = (Returns u, s')"
  with None have "s' = s\<lparr>relay_fee := relay_fee s\<rparr>" by (simp add: update_relay_fee_def act_Returns)
  then show ?thesis by blast
qed (auto simp: update_relay_fee_def act_Returns)

section \<open>A block that extends the chain\<close>

lemma drop_undo_frame:
  assumes "(if c then abind (get_block_id k) (\<lambda>i. amodify (\<lambda>s. s\<lparr>block_id_to_undo_state :=
      (block_id_to_undo_state s)(i := None)\<rparr>)) else aret ()) s = (Returns (), s')"
  shows "\<exists>m. s' = s\<lparr>block_id_to_undo_state := m\<rparr>"
proof (cases c)
  case True
  with assms show ?thesis by (auto simp: get_block_id_def abind_Returns act_Returns)
next
  case False
  with assms have "s' = s\<lparr>block_id_to_undo_state := block_id_to_undo_state s\<rparr>"
    by (simp add: act_Returns)
  then show ?thesis by blast
qed

text \<open>
  The state after \<open>save_undo_state\<close>: the map of undo states differs at the block, and at the
  block that leaves the undo history.
\<close>

lemma save_undo_state_frame:
  assumes "save_undo_state E n bid (Pending p prev) s = (Returns u, s')"
  shows "\<exists>m. s' = s\<lparr>block_id_to_undo_state := m\<rparr> \<and>
    (min_undo_block s \<le> n \<longrightarrow> (\<exists>undo below.
       get_undo_state E p prev (Pending new_pending (Pending p prev)) = Inr (Pending undo below) \<and>
       m bid = Some undo))"
proof (cases "n < min_undo_block s")
  case True
  then have "s' = s\<lparr>block_id_to_undo_state := block_id_to_undo_state s\<rparr>"
    using assms by (simp add: save_undo_state_def abind_Returns act_Returns)
  with True show ?thesis by (intro exI [of _ "block_id_to_undo_state s"]) simp
next
  case False
  let ?drop = "if ALP_BLOCKCHAIN_MAX_UNDO_HISTORY < n
      then abind (get_block_id (n - ALP_BLOCKCHAIN_MAX_UNDO_HISTORY)) (\<lambda>i. amodify (\<lambda>s.
        s\<lparr>block_id_to_undo_state := (block_id_to_undo_state s)(i := None)\<rparr>)) else aret ()"
  from False obtain c s1 where c: "get_undo_state E p prev (Pending new_pending (Pending p prev)) = Inr c"
    and s1: "?drop s = (Returns (), s1)"
    and s': "(case c of
         Pending u _ \<Rightarrow> amodify (\<lambda>s. s\<lparr>block_id_to_undo_state := (block_id_to_undo_state s)(bid \<mapsto> u)\<rparr>)
       | _ \<Rightarrow> aret ()) s1 = (Returns u, s')"
    using assms by (auto simp: save_undo_state_def abind_Returns [where m = "aget f" for f]
        abind_Returns [where m = "aread f" for f] abind_Returns [where m = ?drop] act_Returns)
  have "is_pending c" using get_undo_state_keeps [OF c] by (simp add: keeps_def)
  then obtain undo below where "c = Pending undo below" by (cases c) auto
  with c s' drop_undo_frame [OF s1] show ?thesis by (auto simp: act_Returns)
qed

lemma block_header_simps [simp]:
  "bh_previous (block_header b) = bh_previous b" "bh_block_num (block_header b) = bh_block_num b"
  "bh_timestamp (block_header b) = bh_timestamp b"
  by (simp_all add: block_header_def SignedBlockHeader.defs)

lemma block_signee_frame: "block_signee B b bid s = (Returns k, s') \<Longrightarrow> s' = s"
  by (auto simp: block_signee_def abind_Returns act_Returns split: if_splits option.splits)

lemma commit_to_db_Returns:
  assumes "commit_to_db E p s = (Returns u, s')" "self_chain s = Database base" "pending_ok E p"
  obtains d where "apply_changes E p (Database base) = Inr (Database d)" "s' = s\<lparr>node_db := d\<rparr>"
proof -
  from assms obtain c where c: "apply_changes E p (Database base) = Inr c"
    and s': "(case c of Database d \<Rightarrow> amodify (\<lambda>s. s\<lparr>node_db := d\<rparr>) | _ \<Rightarrow> aret ()) s = (Returns u, s')"
    by (auto simp: commit_to_db_def abind_Returns act_Returns)
  have "prev_of c = prev_of (Database base) \<and> is_pending c = is_pending (Database base)"
    using apply_changes_keeps [OF c] by (simp add: keeps_def)
  moreover have "live c" using apply_changes_view [OF c] assms(3) by simp
  ultimately obtain d where "c = Database d" by (cases c) auto
  with c s' that show ?thesis by (simp add: act_Returns)
qed

text \<open>
  The state that a block leaves behind: \<open>p\<close> are its changes, \<open>d\<close> the database with them, \<open>f\<close> the
  block's old entry in the block tree.
\<close>

definition extended ::
  "FullBlock \<Rightarrow> block_id \<Rightarrow> database \<Rightarrow> BlockForkData \<Rightarrow> (block_id \<rightharpoonup> PendingChainState) \<Rightarrow> node \<Rightarrow> node \<Rightarrow> bool" where
  "extended b bid d f m s s' \<longleftrightarrow> (\<exists>q fi ps rf us. s' = s\<lparr>
     block_id_to_undo_state := m,
     fork_db := smap_set bid (f\<lparr>is_included := True, is_valid := Some True\<rparr>) (fork_db s),
     head_block_header := block_header b, head_block_id := bid,
     node_db := d\<lparr>db_head_block_num := bh_block_num b, db_head_block_timestamp := bh_timestamp b,
                  db_unique_transactions := us\<rparr>,
     pending_transaction_db := q, pending_fee_index := fi, pending_trx_state := ps,
     block_num_to_id_db := (block_num_to_id_db s)(bh_block_num b \<mapsto> bid),
     block_extend_status := (bid, 2), relay_fee := rf\<rparr>)"

lemma extended_purge:
  assumes "extended b bid d f m s s1"
  shows "extended b bid d f m s (s1\<lparr>node_db := (node_db s1)\<lparr>db_unique_transactions := us\<rparr>\<rparr>)"
proof -
  obtain q fi ps rf us' where s1: "s1 = s\<lparr>
     block_id_to_undo_state := m,
     fork_db := smap_set bid (f\<lparr>is_included := True, is_valid := Some True\<rparr>) (fork_db s),
     head_block_header := block_header b, head_block_id := bid,
     node_db := d\<lparr>db_head_block_num := bh_block_num b, db_head_block_timestamp := bh_timestamp b,
                  db_unique_transactions := us'\<rparr>,
     pending_transaction_db := q, pending_fee_index := fi, pending_trx_state := ps,
     block_num_to_id_db := (block_num_to_id_db s)(bh_block_num b \<mapsto> bid),
     block_extend_status := (bid, 2), relay_fee := rf\<rparr>"
    using assms unfolding extended_def by blast
  show ?thesis unfolding extended_def s1
    by (intro exI [of _ q] exI [of _ fi] exI [of _ ps] exI [of _ rf] exI [of _ us]) simp
qed

lemma include_block_steps:
  assumes "include_block E B vm w b bid s = (Returns u, s')"
  obtains signer pc ev pend s1 s2 s3 s4 where
    "verify_header E B (node_db s) (head_block_id s) (mk_DigestBlock E b) signer = Inr ()"
    "apply_block E B vm (node_db s) (verify_transaction_signatures s) (generating_block s) b
       bid signer (Pending new_pending (self_chain s)) = Inr (pc, ev, pend)"
    "save_undo_state E (bh_block_num b) bid pend s = (Returns (), s1)"
    "(case pend of Pending p _ \<Rightarrow> commit_to_db E p | _ \<Rightarrow> aret ())
       (s1\<lparr>block_extend_status := (bid, 1)\<rparr>) = (Returns (), s2)"
    "mark_included bid True s2 = (Returns (), s3)"
    "clear_pending E b (s3\<lparr>head_block_header := block_header b, head_block_id := bid,
       node_db := (node_db s3)\<lparr>db_head_block_num := bh_block_num b,
                               db_head_block_timestamp := bh_timestamp b\<rparr>\<rparr>) = (Returns (), s4)"
    "update_relay_fee w (s4\<lparr>block_num_to_id_db := (block_num_to_id_db s4)(bh_block_num b \<mapsto> bid),
       block_extend_status := (bid, 2)\<rparr>) = (Returns u, s')"
  using assms unfolding include_block_def
  by (auto simp: abind_Returns act_Returns update_head_block_def store_extend_status_def
      dest!: block_signee_frame)

lemma include_block_Returns:
  assumes "include_block E B vm w b bid s = (Returns u, s')" "database_ok (node_db s)"
    and keeps: "\<And>signer pc ev pend. apply_block E B vm (node_db s) (verify_transaction_signatures s)
      (generating_block s) b bid signer (Pending new_pending (self_chain s)) = Inr (pc, ev, pend) \<Longrightarrow>
      keeps E (Pending new_pending (self_chain s)) pend"
  obtains signer pc ev p d f m where
    "verify_header E B (node_db s) (head_block_id s) (mk_DigestBlock E b) signer = Inr ()"
    "apply_block E B vm (node_db s) (verify_transaction_signatures s) (generating_block s) b bid signer
       (Pending new_pending (self_chain s)) = Inr (pc, ev, Pending p (self_chain s))"
    "apply_changes E p (self_chain s) = Inr (Database d)" "pending_ok E p"
    "map_of (fork_db s) bid = Some f" "extended b bid d f m s s'"
    "min_undo_block s \<le> bh_block_num b \<Longrightarrow> \<exists>undo below.
       get_undo_state E p (self_chain s) (Pending new_pending (Pending p (self_chain s))) =
         Inr (Pending undo below) \<and> m bid = Some undo"
proof (rule include_block_steps [OF assms(1)])
  fix signer pc ev pend s1 s2 s3 s4
  assume v: "verify_header E B (node_db s) (head_block_id s) (mk_DigestBlock E b) signer = Inr ()"
    and ab: "apply_block E B vm (node_db s) (verify_transaction_signatures s) (generating_block s) b
       bid signer (Pending new_pending (self_chain s)) = Inr (pc, ev, pend)"
    and s1: "save_undo_state E (bh_block_num b) bid pend s = (Returns (), s1)"
    and s2: "(case pend of Pending p _ \<Rightarrow> commit_to_db E p | _ \<Rightarrow> aret ())
       (s1\<lparr>block_extend_status := (bid, 1)\<rparr>) = (Returns (), s2)"
    and s3: "mark_included bid True s2 = (Returns (), s3)"
    and s4: "clear_pending E b (s3\<lparr>head_block_header := block_header b, head_block_id := bid,
       node_db := (node_db s3)\<lparr>db_head_block_num := bh_block_num b,
                               db_head_block_timestamp := bh_timestamp b\<rparr>\<rparr>) = (Returns (), s4)"
    and s5: "update_relay_fee w (s4\<lparr>block_num_to_id_db := (block_num_to_id_db s4)(bh_block_num b \<mapsto> bid),
       block_extend_status := (bid, 2)\<rparr>) = (Returns u, s')"
  have "keeps E (Pending new_pending (self_chain s)) pend" using keeps [OF ab] .
  then obtain p where p: "pend = Pending p (self_chain s)" and ok: "pending_ok E p"
    using assms(2) by (cases pend) (auto simp: keeps_def self_chain_def)
  obtain m where m: "s1 = s\<lparr>block_id_to_undo_state := m\<rparr>"
    "min_undo_block s \<le> bh_block_num b \<Longrightarrow> \<exists>undo below.
       get_undo_state E p (self_chain s) (Pending new_pending (Pending p (self_chain s))) =
         Inr (Pending undo below) \<and> m bid = Some undo"
    using save_undo_state_frame [OF s1 [unfolded p]] by blast
  have "commit_to_db E p (s1\<lparr>block_extend_status := (bid, 1)\<rparr>) = (Returns (), s2)"
    using s2 p by simp
  then obtain d where d: "apply_changes E p (self_chain s) = Inr (Database d)"
    "s2 = s1\<lparr>block_extend_status := (bid, 1), node_db := d\<rparr>"
    by (rule commit_to_db_Returns [where base = "node_db s"]) (simp_all add: m self_chain_def ok)
  obtain f where f: "map_of (fork_db s) bid = Some f"
    "s3 = s2\<lparr>fork_db := smap_set bid (f\<lparr>is_included := True, is_valid := Some True\<rparr>) (fork_db s)\<rparr>"
    using mark_included_frame [OF s3] by (auto simp: d(2) m(1))
  obtain q fi ps rf where r: "s' = s4\<lparr>block_num_to_id_db := (block_num_to_id_db s4)(bh_block_num b \<mapsto> bid),
      block_extend_status := (bid, 2), relay_fee := rf\<rparr>"
    and q: "s4 = s3\<lparr>head_block_header := block_header b, head_block_id := bid,
       node_db := (node_db s3)\<lparr>db_head_block_num := bh_block_num b,
                               db_head_block_timestamp := bh_timestamp b\<rparr>,
       pending_transaction_db := q, pending_fee_index := fi, pending_trx_state := ps\<rparr>"
    using clear_pending_frame [OF s4] update_relay_fee_frame [OF s5] by blast
  have "extended b bid d f m s s'"
    unfolding extended_def r q f(2) d(2) m(1) 
    by (intro exI [of _ q] exI [of _ fi] exI [of _ ps] exI [of _ rf] exI [of _ "db_unique_transactions d"]) simp
  from that [OF v ab [unfolded p] d(1) ok f(1) this m(2)] show ?thesis .
qed

lemma extend_chain_Returns:
  assumes "extend_chain E B vm w b s = (Returns u, s')"
  obtains s1 where "include_block E B vm w b (header_id B (block_header b)) s = (Returns (), s1)"
    "s' = s1\<lparr>node_db := (node_db s1)\<lparr>db_unique_transactions :=
       filter (\<lambda>(expiry, _). \<not> expiry \<le> now E (self_chain s1)) (db_unique_transactions (node_db s1))\<rparr>\<rparr>"
  using assms
  by (auto simp: extend_chain_def Let_def abind_Returns acatch_Returns act_Returns purge_unique_def)

text \<open>
  For a block without contract calls the shape of the evaluated state follows from the
  invariant of the ledger.
\<close>

definition plain_block :: "FullBlock \<Rightarrow> bool" where
  "plain_block b \<longleftrightarrow> (\<forall>t \<in> set (user_transactions b). plain_transaction t)"

definition node_ok :: "env \<Rightarrow> nat \<Rightarrow> node \<Rightarrow> bool" where
  "node_ok E n s \<longleftrightarrow> database_ok (node_db s) \<and> ledger_ok E (self_chain s) \<and> account_room n (self_chain s)"

lemma overlay_new [simp]: "overlay new_pending w = w"
  by (cases w) (simp add: overlay_def overlay_map_def new_pending_def restrict_map_def)

lemma view_fresh [simp]: "view (Pending new_pending c) = view c"
  by (simp add: view_Pending)

lemma chain_inv_fresh:
  assumes "node_ok E n s"
  shows "chain_inv E (Pending new_pending (self_chain s)) n (Pending new_pending (self_chain s))"
proof -
  let ?c = "Pending new_pending (self_chain s)"
  have "property_lookup_by_id ?c = property_lookup_by_id (self_chain s)"
    "account_lookup_by_id ?c = account_lookup_by_id (self_chain s)"
    unfolding view_simps(1,2) [symmetric] by simp_all
  with assms show ?thesis
    by (simp add: chain_inv_def node_ok_def ledger_ok_def account_room_def get_last_account_id_def)
qed

lemma commit_refines_overlay_aux:
  assumes "apply_changes E p c = Inr c'" "live c" "pending_ok E p"
  shows "view c' = view (Pending p c)" "chain_ok E c \<Longrightarrow> chain_ok E c'"
  using apply_changes_view [OF assms] apply_changes_keeps [OF assms(1)]
  by (auto simp: view_Pending keeps_def)

lemma verify_header_previous:
  "verify_header E B d h (mk_DigestBlock E b) key = Inr () \<Longrightarrow> bh_previous b = h"
  by (auto simp: verify_header_def mk_DigestBlock_def SignedBlockHeader.defs)

lemma extend_plain_block:
  assumes "extend_chain E B vm w b s = (Returns u, s')" "plain_block b"
    and "node_ok E (trx_ops (user_transactions b) + n) s"
  obtains p d f m where
    "view (self_chain s') = view (Pending p (self_chain s))" "chain_inv E (Pending new_pending (self_chain s)) n (Pending p (self_chain s))"
    "same_sums (self_chain s) (self_chain s')" "node_ok E n s'"
    "bh_previous b = head_block_id s" "map_of (fork_db s) (header_id B (block_header b)) = Some f"
    "pending_ok E p" "apply_changes E p (self_chain s) = Inr (Database d)"
    "extended b (header_id B (block_header b)) d f m s s'"
    "min_undo_block s \<le> bh_block_num b \<Longrightarrow> \<exists>undo below.
       get_undo_state E p (self_chain s) (Pending new_pending (Pending p (self_chain s))) =
         Inr (Pending undo below) \<and> m (header_id B (block_header b)) = Some undo"
proof -
  let ?bid = "header_id B (block_header b)" and ?c = "Pending new_pending (self_chain s)"
  obtain s1 where inc: "include_block E B vm w b ?bid s = (Returns (), s1)"
    and s': "s' = s1\<lparr>node_db := (node_db s1)\<lparr>db_unique_transactions :=
       filter (\<lambda>(expiry, _). \<not> expiry \<le> now E (self_chain s1)) (db_unique_transactions (node_db s1))\<rparr>\<rparr>"
    using assms(1) by (rule extend_chain_Returns)
  have step: "chain_inv E ?c n c' \<and> same_sums ?c c'"
    if "apply_block E B vm (node_db s) v g b ?bid k ?c = Inr (pc, ev, c')" for v g k pc ev c'
    using apply_block_step [OF that _ chain_inv_fresh [OF assms(3)]] assms(2)
    by (simp add: plain_block_def)
  have db: "database_ok (node_db s)" using assms(3) by (simp add: node_ok_def)
  from inc db obtain signer pc ev p d f m where
    v: "verify_header E B (node_db s) (head_block_id s) (mk_DigestBlock E b) signer = Inr ()"
    and ab: "apply_block E B vm (node_db s) (verify_transaction_signatures s) (generating_block s) b ?bid signer
       ?c = Inr (pc, ev, Pending p (self_chain s))"
    and ch: "apply_changes E p (self_chain s) = Inr (Database d)" and ok: "pending_ok E p"
    and f: "map_of (fork_db s) ?bid = Some f" and x: "extended b ?bid d f m s s1"
    and m: "min_undo_block s \<le> bh_block_num b \<Longrightarrow> \<exists>undo below.
       get_undo_state E p (self_chain s) (Pending new_pending (Pending p (self_chain s))) =
         Inr (Pending undo below) \<and> m ?bid = Some undo"
    by (rule include_block_Returns) (use step in \<open>auto simp: chain_inv_def\<close>)
  have live: "live (self_chain s)" by (simp add: self_chain_def)
  note c1 = commit_refines_overlay_aux(1) [OF ch live ok]
  have c2: "database_ok d"
    using commit_refines_overlay_aux(2) [OF ch live ok] db by (simp add: self_chain_def)
  obtain us where s1: "node_db s1 = d\<lparr>db_head_block_num := bh_block_num b,
      db_head_block_timestamp := bh_timestamp b, db_unique_transactions := us\<rparr>"
    using x by (auto simp: extended_def)
  have view: "view (self_chain s') = view (Pending p (self_chain s))"
    unfolding c1 [symmetric] by (simp add: s' s1 self_chain_def)
  have inv: "chain_inv E ?c n (Pending p (self_chain s))" "same_sums ?c (Pending p (self_chain s))"
    using step [OF ab] by simp_all
  have ok': "database_ok (node_db s')" using c2 by (simp add: s' s1 database_ok_def)
  have lk: "property_lookup_by_id (self_chain s') = property_lookup_by_id (Pending p (self_chain s))"
    "account_lookup_by_id (self_chain s') = account_lookup_by_id (Pending p (self_chain s))"
    using arg_cong [OF view, of v_property] arg_cong [OF view, of v_account] by simp_all
  have "node_ok E n s'"
    using inv(1) ok' by (simp add: node_ok_def chain_inv_def ledger_ok_def view account_room_def
        get_last_account_id_def lk) (simp add: self_chain_def)
  moreover have "same_sums (self_chain s) (self_chain s')"
    using inv(2) by (simp add: same_sums_def view)
  moreover have "bh_previous b = head_block_id s"
    using v by (simp add: verify_header_previous)
  moreover have "extended b ?bid d f m s s'"
    unfolding s' using x by (rule extended_purge)
  ultimately show ?thesis using that [OF view inv(1)] f ok ch m by blast
qed

lemma extend_keeps_sums:
  assumes "extend_chain E B vm w b s = (Returns u, s')" "plain_block b"
    and "node_ok E (trx_ops (user_transactions b) + n) s"
  shows "node_ok E n s' \<and> same_sums (self_chain s) (self_chain s')"
  using extend_plain_block [OF assms] by metis

text \<open>
  C2 (invariant). A block without contract calls that \<open>extend_chain\<close> accepts conserves every asset
  in the node's database: for each asset id, all balances, the delegates' unclaimed pay (core
  asset) and the collected fees, less the recorded share supply, add up to the same after the
  block as before, modulo the 64-bit width of a share. The pay issued to the delegate and the
  fees destroyed are exactly recorded in the supply, and the database stays well formed, so that
  the next block finds it so.
\<close>

theorem block_conserves_shares:
  assumes "extend_chain E B vm w b s = (Returns u, s')" "plain_block b"
    and "node_ok E (trx_ops (user_transactions b) + n) s"
  shows "node_ok E n s' \<and> (\<forall>k. vsum k (view (self_chain s')) = vsum k (view (self_chain s)))"
  using extend_keeps_sums [OF assms] by (simp add: same_sums_def)

section \<open>Popping a block\<close>

definition popped :: "database \<Rightarrow> SignedBlockHeader \<Rightarrow> node \<Rightarrow> node \<Rightarrow> bool" where
  "popped d h s s' \<longleftrightarrow> (\<exists>fd. s' = s\<lparr>fork_db := fd,
     block_num_to_id_db := (block_num_to_id_db s)(bh_block_num (head_block_header s) := None),
     head_block_header := h, head_block_id := bh_previous (head_block_header s),
     node_db := d\<lparr>db_head_block_num := bh_block_num h, db_head_block_timestamp := bh_timestamp h\<rparr>\<rparr>)"

lemma undo_to_Returns:
  assumes "undo_to E bid prev s = (Returns u, s')" "pending_ok E undo"
    and "block_id_to_undo_state s bid = Some undo"
  obtains d h where "apply_changes E undo (self_chain s) = Inr (Database d)"
    "s' = s\<lparr>head_block_header := h, head_block_id := prev,
       node_db := d\<lparr>db_head_block_num := bh_block_num h, db_head_block_timestamp := bh_timestamp h\<rparr>\<rparr>"
    "prev = 0 \<longrightarrow> h = empty_header"
    "prev \<noteq> 0 \<longrightarrow> (\<exists>b. block_id_to_full_block s prev = Some b \<and> h = block_header b)"
proof -
  from assms(1,3) obtain s1 where s1: "commit_to_db E undo s = (Returns (), s1)"
    and rest: "(if prev = 0 then update_head_block empty_header 0
       else abind (amodify (\<lambda>s. s\<lparr>head_block_id := prev\<rparr>)) (\<lambda>_.
         abind (get_block_header prev) (\<lambda>h. update_head_block h prev))) s1 = (Returns u, s')"
    by (auto simp: undo_to_def abind_Returns [where m = "aread f" for f]
        abind_Returns [where m = "commit_to_db E f" for f] act_Returns)
  obtain d where d: "apply_changes E undo (self_chain s) = Inr (Database d)" "s1 = s\<lparr>node_db := d\<rparr>"
    using commit_to_db_Returns [OF s1 _ assms(2)] by (auto simp: self_chain_def)
  show ?thesis
  proof (cases "prev = 0")
    case True
    with rest d that [of d empty_header] show ?thesis
      by (simp add: update_head_block_def act_Returns)
  next
    case False
    with rest obtain b where "block_id_to_full_block s prev = Some b"
      and "s' = s\<lparr>head_block_header := block_header b, head_block_id := prev,
        node_db := d\<lparr>db_head_block_num := bh_block_num b, db_head_block_timestamp := bh_timestamp b\<rparr>\<rparr>"
      by (auto simp: d(2) abind_Returns act_Returns get_block_header_def get_block_def block_fetch_def
          update_head_block_def require_def split: option.splits)
    with False d(1) that [of d "block_header b"] show ?thesis by simp
  qed
qed

lemma pop_block_Returns:
  assumes "pop_block E s = (Returns u, s')" "bh_block_num (head_block_header s) \<noteq> 0"
    and "block_id_to_undo_state s (head_block_id s) = Some undo" "pending_ok E undo"
  obtains d h where "apply_changes E undo (self_chain s) = Inr (Database d)" "popped d h s s'"
    "bh_previous (head_block_header s) = 0 \<longrightarrow> h = empty_header"
    "bh_previous (head_block_header s) \<noteq> 0 \<longrightarrow>
       (\<exists>b. block_id_to_full_block s (bh_previous (head_block_header s)) = Some b \<and> h = block_header b)"
proof -
  let ?num = "bh_block_num (head_block_header s)" and ?prev = "bh_previous (head_block_header s)"
  from assms(1,2) obtain s1 where s1: "mark_included (head_block_id s) False s = (Returns (), s1)"
    and un: "undo_to E (head_block_id s) ?prev
      (s1\<lparr>block_num_to_id_db := (block_num_to_id_db s1)(?num := None)\<rparr>) = (Returns u, s')"
    by (auto simp: pop_block_def abind_Returns act_Returns)
  obtain fd where fd: "s1 = s\<lparr>fork_db := fd\<rparr>" using mark_included_frame [OF s1] by blast
  obtain d h where d: "apply_changes E undo (self_chain s) = Inr (Database d)"
    and h: "?prev = 0 \<longrightarrow> h = empty_header"
      "?prev \<noteq> 0 \<longrightarrow> (\<exists>b. block_id_to_full_block s ?prev = Some b \<and> h = block_header b)"
    and s': "s' = s\<lparr>fork_db := fd, block_num_to_id_db := (block_num_to_id_db s)(?num := None),
       head_block_header := h, head_block_id := ?prev,
       node_db := d\<lparr>db_head_block_num := bh_block_num h, db_head_block_timestamp := bh_timestamp h\<rparr>\<rparr>"
    by (rule undo_to_Returns [OF un assms(4)]) (use assms(3) that in \<open>auto simp: fd self_chain_def\<close>)
  have "popped d h s s'" unfolding popped_def s' by (rule exI [of _ fd]) simp
  from that [OF d this h] show ?thesis .
qed


section \<open>A block that is rejected\<close>

lemma clear_pending_returns:
  assumes "\<forall>t \<in> set (user_transactions b). raw_op transaction_op_type \<notin> set (operations t)"
  shows "clear_pending E b s \<noteq> (Throws e, s')"
proof -
  have t: "clear_pending_trx E t u s \<noteq> (Throws e, s')" if "t \<in> set (user_transactions b)" for t u s s'
    using assms that
    by (auto simp: clear_pending_trx_def act_defs split: list.splits Operation.splits if_splits)
  have "set ts \<subseteq> set (user_transactions b) \<Longrightarrow> afold (clear_pending_trx E) ts u s \<noteq> (Throws e, s')" for ts u s s'
    by (induction ts arbitrary: u s) (auto simp: abind_Throws act_Throws t)
  then show ?thesis by (simp add: clear_pending_def abind_Throws act_Throws)
qed

lemma case_chain_Throws:
  "(case c of Pending u _ \<Rightarrow> amodify (g u) | _ \<Rightarrow> aret ()) s \<noteq> (Throws e, s')"
  "(case c of Database d \<Rightarrow> amodify (h d) | _ \<Rightarrow> aret ()) s \<noteq> (Throws e, s')"
  by (cases c; simp add: act_Throws)+

lemma save_undo_state_Throws: "save_undo_state E n bid c s = (Throws e, s') \<Longrightarrow> s' = s"
  by (auto simp: save_undo_state_def get_block_id_def abind_Throws abind_Returns act_Throws act_Returns
      case_chain_Throws split: if_splits)

lemma save_undo_state_only:
  assumes "save_undo_state E n bid c s = (r, s')"
  shows "node_db s' = node_db s" "fork_db s' = fork_db s"
  using assms
  by (auto simp: save_undo_state_def act_defs get_block_id_def require_def
      split: if_splits option.splits sum.splits chain.splits)

lemma block_signee_Throws: "block_signee B b bid s = (Throws e, s') \<Longrightarrow> s' = s"
  by (auto simp: block_signee_def abind_Throws abind_Returns act_Throws act_Returns
      split: if_splits option.splits)

lemma include_block_Throws:
  assumes "include_block E B vm w b bid s = (Throws e, s')" "bid \<in> dom (map_of (fork_db s))"
    and ops: "\<forall>t \<in> set (user_transactions b). raw_op transaction_op_type \<notin> set (operations t)"
    and commits: "\<And>signer pc ev p prev. apply_block E B vm (node_db s) (verify_transaction_signatures s)
      (generating_block s) b bid signer (Pending new_pending (self_chain s)) = Inr (pc, ev, Pending p prev) \<Longrightarrow>
      \<not> isl (apply_changes E p (self_chain s))"
  shows "s' = s"
proof -
  have commit: "(case c of Pending p _ \<Rightarrow> commit_to_db E p | _ \<Rightarrow> aret ()) u \<noteq> (Throws x, u')"
    if "apply_block E B vm (node_db s) (verify_transaction_signatures s) (generating_block s) b bid k
      (Pending new_pending (self_chain s)) = Inr (pc, ev, c)" "self_chain u = self_chain s" for c k pc ev u u' x
  proof (cases c)
    case (Pending p prev)
    then have "\<not> isl (apply_changes E p (self_chain s))" using commits that(1) by simp
    with Pending that(2) show ?thesis
      by (auto simp: commit_to_db_def abind_Throws act_Throws act_Returns case_chain_Throws)
  qed (simp_all add: act_Throws)
  have undo: "self_chain u' = self_chain u \<and> fork_db u' = fork_db u" 
    if "save_undo_state E n bid c u = (Returns (), u')" for n c u u'
    using save_undo_state_only [OF that] by (simp add: self_chain_def)
  have incl: "mark_included bid True u \<noteq> (Throws x, u')" if "fork_db u = fork_db s" for u u' x
    using assms(2) that by (auto simp: mark_included_def fork_fetch_def fork_store_def abind_Throws
        act_Throws act_Returns require_def Let_def split: option.splits)
  have db: "fork_db u' = fork_db u"
    if "(case c of Pending p _ \<Rightarrow> commit_to_db E p | _ \<Rightarrow> aret ()) u = (Returns (), u')" for c u u'
    using that by (auto simp: commit_to_db_def act_defs split: chain.splits sum.splits)
  have relay: "update_relay_fee w u \<noteq> (Throws x, u')" for u u' x
    by (simp add: update_relay_fee_def act_Throws split: option.split)
  have late: False
    if "apply_block E B vm (node_db s) (verify_transaction_signatures s) (generating_block s) b bid k
      (Pending new_pending (self_chain s)) = Inr (pc, ev, c)"
      and u: "save_undo_state E n bid c s = (Returns (), u)"
      and "(case c of Pending p _ \<Rightarrow> commit_to_db E p | _ \<Rightarrow> aret ()) (u\<lparr>block_extend_status := z\<rparr>) = (Throws x, u1) \<or>
        (case c of Pending p _ \<Rightarrow> commit_to_db E p | _ \<Rightarrow> aret ()) (u\<lparr>block_extend_status := z\<rparr>) = (Returns (), u1) \<and>
        mark_included bid True u1 = (Throws x, u2)"
    for k pc ev c n u z x u1 u2
  proof -
    let ?u = "u\<lparr>block_extend_status := z\<rparr>"
    have "self_chain ?u = self_chain s" "fork_db ?u = fork_db s"
      using undo [OF u] by (simp_all add: self_chain_def)
    with that(3) commit [OF that(1), of ?u] incl db [of c ?u u1] show False by metis
  qed
  show ?thesis
    using assms(1) unfolding include_block_def
    by (auto simp: abind_Throws abind_Returns act_Throws act_Returns update_head_block_def
        store_extend_status_def clear_pending_returns [OF ops] relay
        dest!: block_signee_frame block_signee_Throws dest: save_undo_state_Throws late)
qed


section \<open>Unlinked descendants\<close>


section \<open>Instances\<close>

lemma sample_next_plain: "plain_block sample_next"
  using sample_transfer_plain by (simp add: plain_block_def sample_block_def)

lemma sample_node_ok: "node_ok sample_env (trx_ops (user_transactions sample_next) + 0) sample_waiting"
  by (auto simp: node_ok_def trx_ops_def database_ok_def ledger_ok_def keys_ok_def account_room_def
      smap_ok_def eval_simps sample_waiting_def split: if_splits)

theorem block_conserves_shares_witness:
  "\<exists>s'. extend_chain sample_env sample_lib idle_vm None sample_next sample_waiting = (Returns (), s') \<and>
     (\<forall>k. vsum k (view (self_chain s')) = vsum k (view (self_chain sample_waiting)))"
proof -
  obtain s' where s': "extend_chain sample_env sample_lib idle_vm None sample_next sample_waiting =
      (Returns (), s')"
    using sample_extends by blast
  from block_conserves_shares [OF s' sample_next_plain sample_node_ok] s' show ?thesis by blast
qed

lemma sample_extends_pops:
  "\<exists>s. abind (extend_chain sample_env sample_lib idle_vm None sample_next) (\<lambda>_. pop_block sample_env)
     sample_waiting = (Returns (), s)"
  by (rule fst_eq) (simp add: eval_simps commit_defs block_header_def cong: ebind_weak_cong)


text \<open>A block in the slot of the delegate that another key has signed.\<close>

abbreviation sample_forged :: FullBlock where
  "sample_forged \<equiv> sample_next\<lparr>bh_delegate_signature := 2\<rparr>"

lemma sample_forged_rejected:
  "\<exists>s. extend_chain sample_env sample_lib idle_vm None sample_forged sample_waiting =
     (Throws invalid_delegate_signee, s)"
  by (rule fst_eq) (simp add: eval_simps commit_defs block_header_def cong: ebind_weak_cong)

lemma sample_forged_commits:
  assumes "apply_block sample_env sample_lib idle_vm (node_db sample_waiting) True False sample_forged 2000
    signer (Pending new_pending (self_chain sample_waiting)) = Inr (pc, ev, Pending p prev)"
  shows "\<not> isl (apply_changes sample_env p (self_chain sample_waiting))"
proof (cases "signer = 1")
  case True
  with assms show ?thesis
    by (auto simp add: eval_simps commit_defs block_header_def cong: ebind_weak_cong)
next
  case False
  with assms show ?thesis
    by (auto simp add: eval_simps commit_defs block_header_def cong: ebind_weak_cong split: if_splits)
qed

lemma sample_waiting_children:
  "children sample_waiting k = (if k = 0 then [1000] else if k = 1000 then [2000] else [])"
  by (simp add: children_def eval_simps sample_waiting_def)

lemma sample_waiting_tree: "tree_ok sample_waiting"
proof -
  have "edges sample_waiting \<subseteq> less_than"
    by (auto simp: edges_def sample_waiting_children split: if_splits)
  then have "acyclic (edges sample_waiting)" by (rule acyclic_subset [OF wf_acyclic [OF wf_less_than]])
  moreover have "known sample_waiting k \<longleftrightarrow> k \<in> {0, 1000, 2000}"
    "block_id_to_full_block sample_waiting k =
       (if k = 1000 then Some sample_head else if k = 2000 then Some sample_next else None)" for k
    by (auto simp: known_def eval_simps sample_waiting_def)
  moreover have "bh_previous sample_head = 0" "bh_previous sample_next = 1000"
    by (simp_all add: sample_head_def sample_block_def)
  ultimately show ?thesis by (auto simp: tree_ok_def sample_waiting_children)
qed


end
