(* ===== verification/Genesis.thy ===== *)
theory Genesis
  imports Chain_Node
begin

text \<open>
  The first state of a node (\<open>initialize_genesis\<close>) and the audit of an asset
  (\<open>calculate_supply\<close>), both of \<open>ChainDatabase.cpp\<close>. Reading the genesis file and hashing it
  into the chain id are left to the caller; \<open>parse_address\<close> stands for the parser of addresses,
  which fails on a malformed one.
\<close>

section \<open>GenesisState.hpp\<close>

record GenesisAsset =
  ga_symbol :: string
  ga_name :: string
  ga_description :: string
  ga_precision :: nat

record GenesisDelegate =
  gd_name :: string
  gd_owner :: public_key

record GenesisBalance =
  gb_raw_address :: string
  gb_balance :: share

record GenesisState =
  gs_timestamp :: time
  gs_market_assets :: "GenesisAsset list"
  gs_delegates :: "GenesisDelegate list"
  gs_initial_balances :: "GenesisBalance list"

section \<open>initialize\_genesis\<close>

definition genesis_delegate ::
  "env \<Rightarrow> time \<Rightarrow> GenesisDelegate \<Rightarrow> account_id \<times> chain \<Rightarrow> (account_id \<times> chain) result" where
  "genesis_delegate E timestamp delegate = (\<lambda>(k, c).
     let account_id = wrap32 (k + 1);
         rec = \<lparr>acc_id = account_id, acc_name = gd_name delegate, acc_public_data = [],
                acc_owner_key = gd_owner delegate, acc_active_key_history = [],
                acc_registration_date = 0, acc_last_update = 0, acc_delegate_info = None,
                acc_meta_data = None\<rparr>
     in ebind (set_active_key rec timestamp (gd_owner delegate)) (\<lambda>rec1.
        let rec2 = rec1\<lparr>acc_registration_date := timestamp, acc_last_update := timestamp,
                        acc_delegate_info := Some (new_DelegateStats\<lparr>pay_rate := 100\<rparr>)\<rparr>
        in ebind (set_signing_key rec2 0 (gd_owner delegate)) (\<lambda>rec3.
           ebind (store_account_entry E rec3 c) (\<lambda>c1. Inr (account_id, c1)))))"

text \<open>\<open>BalanceEntry(owner, balance, slate)\<close>.\<close>

definition owner_balance :: "address \<Rightarrow> asset_id \<Rightarrow> share \<Rightarrow> BalanceEntry" where
  "owner_balance ow k x =
     (new_balance (signature_condition ow k 0 withdraw_common_type))\<lparr>bal_balance := x\<rparr>"

definition genesis_balance ::
  "env \<Rightarrow> (string \<Rightarrow> address option) \<Rightarrow> time \<Rightarrow> GenesisBalance \<Rightarrow> share \<times> chain \<Rightarrow> (share \<times> chain) result" where
  "genesis_balance E parse_address timestamp g = (\<lambda>(total_base_supply, c).
     ebind (require invalid_pts_address (parse_address (gb_raw_address g))) (\<lambda>addr.
     let initial_balance = owner_balance addr 0 (gb_balance g);
         b = (case balance_lookup_by_id c (balance_id E initial_balance) of
                None \<Rightarrow> initial_balance
              | Some prior \<Rightarrow> initial_balance\<lparr>bal_balance := wrap64 (bal_balance initial_balance + bal_balance prior)\<rparr>)
     in ebind (store_balance_entry E
                 (b\<lparr>bal_snapshot_info := Some (gb_raw_address g, gb_balance g),
                    bal_last_update := timestamp\<rparr>) c) (\<lambda>c1.
          Inr (wrap64 (total_base_supply + gb_balance g), c1))))"

definition base_asset :: "time \<Rightarrow> share \<Rightarrow> AssetEntry" where
  "base_asset timestamp total_base_supply = \<lparr>ast_id = 0, ast_symbol = ''ACT'', ast_name = ''ACT'',
     ast_description = ''The Future of Banking'', ast_public_data = [], ast_issuer_account_id = 0,
     ast_precision = nat ALP_BLOCKCHAIN_PRECISION, ast_registration_date = timestamp,
     ast_last_update = timestamp, ast_maximum_share_supply = ALP_BLOCKCHAIN_MAX_SHARES,
     ast_current_share_supply = total_base_supply, ast_collected_fees = 0, ast_flags = 0,
     ast_issuer_permissions = 0, ast_transaction_fee = 0, ast_market_fee = 0,
     ast_authority = \<lparr>mm_required = 0, mm_owners = []\<rparr>\<rparr>"

definition genesis_asset ::
  "time \<Rightarrow> GenesisAsset \<Rightarrow> asset_id \<times> chain \<Rightarrow> (asset_id \<times> chain) result" where
  "genesis_asset timestamp a = (\<lambda>(k, c).
     let asset_id = wrap32 (k + 1);
         rec = \<lparr>ast_id = asset_id, ast_symbol = ga_symbol a, ast_name = ga_name a,
                ast_description = ga_description a, ast_public_data = [],
                ast_issuer_account_id = - 2, ast_precision = ga_precision a,
                ast_registration_date = timestamp, ast_last_update = timestamp,
                ast_maximum_share_supply = ALP_BLOCKCHAIN_MAX_SHARES, ast_current_share_supply = 0,
                ast_collected_fees = 0, ast_flags = 0, ast_issuer_permissions = - 1,
                ast_transaction_fee = 0, ast_market_fee = 0,
                ast_authority = \<lparr>mm_required = 0, mm_owners = []\<rparr>\<rparr>
     in ebind (store_asset_entry rec c) (\<lambda>c1. Inr (asset_id, c1)))"

text \<open>The writes to the database, in their order.\<close>

definition genesis_entries ::
  "env \<Rightarrow> (string \<Rightarrow> address option) \<Rightarrow> GenesisState \<Rightarrow> digest \<Rightarrow> bool \<Rightarrow> chain \<Rightarrow> chain result" where
  "genesis_entries E parse_address config cid statistics c0 =
     (let timestamp = gs_timestamp config in
      ebind (set_chain_id cid c0) (\<lambda>c1.
      ebind (ensure (length (gs_delegates config) \<ge> ALP_BLOCKCHAIN_NUM_DELEGATES) assert_exception) (\<lambda>_.
      ebind (efold (genesis_delegate E timestamp) (gs_delegates config) (0, c1)) (\<lambda>(last_account, c2).
      ebind (efold (genesis_balance E parse_address timestamp) (gs_initial_balances config) (0, c2))
        (\<lambda>(total_base_supply, c3).
      ebind (store_asset_entry (base_asset timestamp total_base_supply) c3) (\<lambda>c4.
      ebind (efold (genesis_asset timestamp) (gs_market_assets config) (0, c4)) (\<lambda>(last_asset, c5).
      ebind (store_property_entry last_asset_id (pv_int last_asset) c5) (\<lambda>c6.
      ebind (store_property_entry last_account_id (pv_int last_account) c6) (\<lambda>c7.
      ebind (case c7 of Database d \<Rightarrow> set_active_delegates (next_round_active_delegates d) c7
             | _ \<Rightarrow> Inl assert_exception) (\<lambda>c8.
      ebind (set_statistics_enabled statistics c8) (\<lambda>c9.
        set_node_vm_enabled False c9)))))))))))"

text \<open>
  The entry of the genesis block makes it the root of the block tree. An exception ends the
  start of the node, so that the writes before it are not followed.
\<close>

definition initialize_genesis ::
  "env \<Rightarrow> (string \<Rightarrow> address option) \<Rightarrow> GenesisState \<Rightarrow> digest \<Rightarrow> bool \<Rightarrow> digest node_act" where
  "initialize_genesis E parse_address config cid statistics =
     abind (aread (\<lambda>s. genesis_entries E parse_address config cid statistics (self_chain s))) (\<lambda>c.
     abind (fork_store 0 (new_BlockForkData\<lparr>is_valid := Some True, is_included := True,
              is_linked := True, is_known := True\<rparr>)) (\<lambda>_.
     case c of
       Database d \<Rightarrow> abind (amodify (\<lambda>s. s\<lparr>node_db := d\<rparr>)) (\<lambda>_. aret cid)
     | _ \<Rightarrow> aret cid))"

section \<open>calculate\_supply\<close>

text \<open>The sums run over the entries in the order of their maps; the amounts wrap.\<close>

definition calculate_supply :: "database \<Rightarrow> asset_id \<Rightarrow> Asset result" where
  "calculate_supply d k =
     ebind (require assert_exception (asset_lookup_by_id (Database d) k)) (\<lambda>entry.
     let balances = fold (\<lambda>(_, b) x. if bal_asset_id b = k then wrap64 (x + bal_balance b) else x)
           (db_balance_id_to_entry d) (ast_collected_fees entry);
         pays = (if k = 0
           then fold (\<lambda>(_, a) x. case acc_delegate_info a of
                  Some di \<Rightarrow> wrap64 (x + pay_balance di) | None \<Rightarrow> x)
                  (db_account_id_to_entry d) balances
           else balances)
     in Inr (mk_Asset pays k))"

lemmas genesis_defs =
  genesis_delegate_def owner_balance_def genesis_balance_def base_asset_def genesis_asset_def
  genesis_entries_def initialize_genesis_def calculate_supply_def

end
