(* ===== verification/Supply.thy ===== *)
theory Supply
  imports Node_Laws Genesis
begin

text \<open>
  The supply of an asset from the genesis block on: the first state accounts for every share, and
  every block keeps it so; \<open>calculate_supply\<close> therefore always finds the recorded supply.
\<close>

section \<open>The genesis state\<close>

definition gen_ok :: "env \<Rightarrow> account_id \<Rightarrow> asset_id set \<Rightarrow> 64 word \<Rightarrow> chain \<Rightarrow> bool" where
  "gen_ok E i A t c \<longleftrightarrow> live c \<and> chain_ok E c \<and> \<not> is_pending c \<and> keys_ok E (view c) \<and>
     (\<forall>k \<in> dom (account_lookup_by_id c). k \<le> i) \<and>
     (\<forall>k b. balance_lookup_by_id c k = Some b \<longrightarrow> bal_asset_id b = 0) \<and>
     dom (asset_lookup_by_id c) = A \<and>
     (\<forall>k. vsum k (view c) = (if k = 0 then t else 0))"

lemma gen_ok_property:
  assumes "store_property_entry p v c = Inr c'" "gen_ok E i A t c"
  shows "gen_ok E i A t c'"
proof -
  have st: "PropertyEntry_store p \<lparr>prop_id = p, prop_value = v\<rparr> c = Inr c'"
    using assms(1) by (simp add: store_property_entry_def)
  have k: "keeps E c c'" using st by (rule simple_entry_keeps)
  have v: "view c' = (view c)\<lparr>v_property := (property_lookup_by_id c)(p \<mapsto> \<lparr>prop_id = p, prop_value = v\<rparr>)\<rparr>" "live c'"
    using property_store.store_view [OF _ _ st] assms(2) by (simp_all add: gen_ok_def)
  have l: "account_lookup_by_id c' = account_lookup_by_id c" "balance_lookup_by_id c' = balance_lookup_by_id c"
    "asset_lookup_by_id c' = asset_lookup_by_id c"
    using arg_cong [OF v(1), of v_account] arg_cong [OF v(1), of v_balance] arg_cong [OF v(1), of v_asset]
    by simp_all
  from k v(2) l assms(2) show ?thesis unfolding gen_ok_def v(1) by (simp add: keeps_def)
qed

lemma gen_ok_account:
  assumes "store_account_entry E a c = Inr c'" "gen_ok E i A t c"
    and "i < acc_id a" "pay_word a = 0"
  shows "gen_ok E (acc_id a) A t c'"
proof -
  have st: "AccountEntry_store E (acc_id a) a c = Inr c'" using assms(1) by (simp add: store_account_entry_def)
  have k: "keeps E c c'" using st by (rule store_keeps)
  have v: "view c' = (view c)\<lparr>v_account := (account_lookup_by_id c)(acc_id a \<mapsto> a)\<rparr>" "live c'"
    using AccountEntry_store_view [OF st] assms(2) by (simp_all add: gen_ok_def)
  have l: "account_lookup_by_id c' = (account_lookup_by_id c)(acc_id a \<mapsto> a)"
    "balance_lookup_by_id c' = balance_lookup_by_id c" "asset_lookup_by_id c' = asset_lookup_by_id c"
    using arg_cong [OF v(1), of v_account] arg_cong [OF v(1), of v_balance] arg_cong [OF v(1), of v_asset]
    by simp_all
  have new: "account_lookup_by_id c (acc_id a) = None" using assms(2,3) by (force simp: gen_ok_def)
  have "keys_ok E (view c')" using assms(2) by (auto simp: v(1) gen_ok_def keys_ok_def)
  moreover have "vsum j (view c') = vsum j (view c)" for j
    by (simp add: v(1) vsum_account new assms(4))
  moreover have "\<forall>j \<in> dom (account_lookup_by_id c'). j \<le> acc_id a"
    using assms(2,3) unfolding l gen_ok_def by (auto dest: bspec)
  ultimately show ?thesis using k v(2) l(2,3) assms(2) by (simp add: gen_ok_def keeps_def)
qed

lemma gen_ok_balance:
  assumes "store_balance_entry E b c = Inr c'" "gen_ok E i A t c"
    and "bal_asset_id b = 0" "is_deposit_type (cond_type (bal_condition b))"
    and "w64 (bal_balance b) = opt_val (\<lambda>b. w64 (bal_balance b)) (balance_lookup_by_id c (balance_id E b)) + x"
  shows "gen_ok E i A (t + x) c'"
proof -
  have st: "BalanceEntry_store (balance_id E b) b c = Inr c'" using assms(1) by (simp add: store_balance_entry_def)
  have k: "keeps E c c'" using st by (rule simple_entry_keeps)
  have v: "view c' = (view c)\<lparr>v_balance := (balance_lookup_by_id c)(balance_id E b \<mapsto> b)\<rparr>" "live c'"
    using balance_store.store_view [OF _ _ st] assms(2) by (simp_all add: gen_ok_def)
  have l: "account_lookup_by_id c' = account_lookup_by_id c"
    "balance_lookup_by_id c' = (balance_lookup_by_id c)(balance_id E b \<mapsto> b)" "asset_lookup_by_id c' = asset_lookup_by_id c"
    using arg_cong [OF v(1), of v_account] arg_cong [OF v(1), of v_balance] arg_cong [OF v(1), of v_asset]
    by simp_all
  have "keys_ok E (view c')" using assms(2,4) by (auto simp: v(1) gen_ok_def keys_ok_def)
  moreover have "vsum j (view c') = (if j = 0 then t + x else 0)" for j
  proof -
    have "bal_asset_id b' = 0" if "balance_lookup_by_id c (balance_id E b) = Some b'" for b'
      using assms(2) that by (simp add: gen_ok_def)
    then show ?thesis using assms(2,3,5)
      by (cases "balance_lookup_by_id c (balance_id E b)")
        (auto simp: v(1) vsum_balance bal_word_def gen_ok_def)
  qed
  ultimately show ?thesis using k v(2) l assms(2,3) by (auto simp: gen_ok_def keeps_def)
qed

lemma gen_ok_asset:
  assumes "store_asset_entry a c = Inr c'" "gen_ok E i A t c"
    and "ast_id a \<notin> A" "asset_word a = (if ast_id a = 0 then - x else 0)" "ast_id a \<noteq> 0 \<Longrightarrow> x = 0"
  shows "gen_ok E i (insert (ast_id a) A) (t - x) c'"
proof -
  have st: "AssetEntry_store (ast_id a) a c = Inr c'" using assms(1) by (simp add: store_asset_entry_def)
  have k: "keeps E c c'" using st by (rule store_keeps)
  have v: "view c' = (view c)\<lparr>v_asset := (asset_lookup_by_id c)(ast_id a \<mapsto> a)\<rparr>" "live c'"
    using asset_store.store_view [OF _ _ st] assms(2) by (simp_all add: gen_ok_def)
  have l: "account_lookup_by_id c' = account_lookup_by_id c"
    "balance_lookup_by_id c' = balance_lookup_by_id c" "asset_lookup_by_id c' = (asset_lookup_by_id c)(ast_id a \<mapsto> a)"
    using arg_cong [OF v(1), of v_account] arg_cong [OF v(1), of v_balance] arg_cong [OF v(1), of v_asset]
    by simp_all
  have new: "asset_lookup_by_id c (ast_id a) = None" using assms(2,3) by (force simp: gen_ok_def)
  have "keys_ok E (view c')" using assms(2) by (auto simp: v(1) gen_ok_def keys_ok_def)
  moreover have "vsum j (view c') = (if j = 0 then t - x else 0)" for j
    using assms(2,4,5) new by (cases "ast_id a = 0") (auto simp: v(1) vsum_asset gen_ok_def)
  ultimately show ?thesis using k v(2) l assms(2) by (auto simp: gen_ok_def keeps_def)
qed

lemma wrap32_succ: "0 \<le> k \<Longrightarrow> k + 1 < 2 ^ 31 \<Longrightarrow> wrap32 (k + 1) = k + 1"
  by (simp add: wrap32_id)

lemma genesis_delegates_ok:
  assumes "efold (genesis_delegate E ts) ds (k, c) = Inr (k', c')" "gen_ok E k A t c"
    and "0 \<le> k" "k + int (length ds) < 2 ^ 31"
  shows "k' = k + int (length ds) \<and> gen_ok E k' A t c'"
  using assms
proof (induction ds arbitrary: k c)
  case (Cons x ds)
  from Cons.prems(1) obtain k1 c1 where s: "genesis_delegate E ts x (k, c) = Inr (k1, c1)"
    and rest: "efold (genesis_delegate E ts) ds (k1, c1) = Inr (k', c')" by auto
  have w: "wrap32 (k + 1) = k + 1" using Cons.prems(3,4) by (intro wrap32_succ) simp_all
  from s obtain a where a: "store_account_entry E a c = Inr c1" "acc_id a = k + 1" "pay_word a = 0" and k1: "k1 = k + 1"
    by (auto simp: genesis_delegate_def Let_def set_active_key_def set_signing_key_def w pay_word_def
        new_DelegateStats_def split: if_splits)
  have "gen_ok E k1 A t c1" using gen_ok_account [OF a(1) Cons.prems(2)] a(2,3) k1 by simp
  from Cons.IH [OF rest this] Cons.prems(3,4) show ?case by (auto simp: k1 add.assoc)
qed simp

lemma genesis_balances_ok:
  assumes "efold (genesis_balance E pa ts) gs (x, c) = Inr (x', c')" "gen_ok E i A (w64 x) c"
  shows "gen_ok E i A (w64 x') c'"
  using assms
proof (induction gs arbitrary: x c)
  case (Cons g gs)
  from Cons.prems(1) obtain x1 c1 where s: "genesis_balance E pa ts g (x, c) = Inr (x1, c1)"
    and rest: "efold (genesis_balance E pa ts) gs (x1, c1) = Inr (x', c')" by auto
  from s obtain addr b where
    b: "b = (case balance_lookup_by_id c (balance_id E (owner_balance addr 0 (gb_balance g))) of
                None \<Rightarrow> owner_balance addr 0 (gb_balance g)
              | Some prior \<Rightarrow> (owner_balance addr 0 (gb_balance g))
                  \<lparr>bal_balance := wrap64 (bal_balance (owner_balance addr 0 (gb_balance g)) + bal_balance prior)\<rparr>)"
    and st: "store_balance_entry E (b\<lparr>bal_snapshot_info := Some (gb_raw_address g, gb_balance g),
                    bal_last_update := ts\<rparr>) c = Inr c1"
    and x1: "x1 = wrap64 (x + gb_balance g)"
    by (auto simp: genesis_balance_def Let_def)
  have "gen_ok E i A (w64 x + w64 (gb_balance g)) c1"
    by (rule gen_ok_balance [OF st Cons.prems(2)])
      (auto simp: b owner_balance_def new_balance_def bal_asset_id_def signature_condition_def
        is_deposit_type_def balance_id_def split: option.split)
  then show ?case using Cons.IH [OF rest] by (simp add: x1)
qed simp

lemma genesis_assets_ok:
  assumes "efold (genesis_asset ts) as (k, c) = Inr (k', c')" "gen_ok E i {0..k} t c"
    and "0 \<le> k" "k + int (length as) < 2 ^ 31"
  shows "gen_ok E i {0..k'} t c' \<and> 0 \<le> k'"
  using assms
proof (induction as arbitrary: k c)
  case (Cons x as)
  from Cons.prems(1) obtain k1 c1 where s: "genesis_asset ts x (k, c) = Inr (k1, c1)"
    and rest: "efold (genesis_asset ts) as (k1, c1) = Inr (k', c')" by auto
  have w: "wrap32 (k + 1) = k + 1" using Cons.prems(3,4) by (intro wrap32_succ) simp_all
  from s obtain a where a: "store_asset_entry a c = Inr c1" "ast_id a = k + 1" "asset_word a = 0" and k1: "k1 = k + 1"
    by (auto simp: genesis_asset_def Let_def w asset_word_def)
  have "gen_ok E i (insert (k + 1) {0..k}) (t - 0) c1"
    using gen_ok_asset [OF a(1) Cons.prems(2), of 0] a(2,3) Cons.prems(3) by simp
  also have "insert (k + 1) {0..k} = {0..k1}" using Cons.prems(3) by (auto simp: k1)
  finally show ?case using Cons.IH [OF rest] Cons.prems(3,4) by (simp add: k1)
qed simp

lemma store_property_lookup:
  assumes "store_property_entry p v c = Inr c'" "live c"
  shows "property_lookup_by_id c' = (property_lookup_by_id c)(p \<mapsto> \<lparr>prop_id = p, prop_value = v\<rparr>)"
  using assms by (auto simp: store_property_entry_def PropertyEntry_store_def property_map.lookup_insert)

definition fresh_database :: "database \<Rightarrow> bool" where
  "fresh_database d \<longleftrightarrow> database_ok d \<and> db_account_id_to_entry d = [] \<and> db_balance_id_to_entry d = [] \<and>
     db_asset_id_to_entry d = []"

lemma fresh_gen_ok:
  assumes "fresh_database d"
  shows "gen_ok E 0 {} 0 (Database d)"
proof -
  have "account_lookup_by_id (Database d) = (\<lambda>_. None)" "balance_lookup_by_id (Database d) = (\<lambda>_. None)"
    "asset_lookup_by_id (Database d) = (\<lambda>_. None)"
    using assms by (simp_all add: fresh_database_def fun_eq_iff db_access_defs)
  then show ?thesis using assms by (simp add: fresh_database_def gen_ok_def keys_ok_def vsum_def)
qed

lemma genesis_entries_ok:
  assumes "genesis_entries E pa config cid st (Database d) = Inr c" "fresh_database d"
    and "int (length (gs_delegates config)) < 2 ^ 31" "int (length (gs_market_assets config)) < 2 ^ 31"
  shows "\<exists>d' A. c = Database d' \<and> 0 \<in> A \<and> gen_ok E (int (length (gs_delegates config))) A 0 c \<and>
    get_last_account_id c = Inr (int (length (gs_delegates config)))"
proof -
  let ?n = "int (length (gs_delegates config))" and ?ts = "gs_timestamp config"
  from assms(1) obtain c1 k c2 x c3 c4 j c5 c6 c7 ids c8 c9 where
    s1: "store_property_entry chain_id (pv_digest cid) (Database d) = Inr c1"
    and s2: "efold (genesis_delegate E ?ts) (gs_delegates config) (0, c1) = Inr (k, c2)"
    and s3: "efold (genesis_balance E pa ?ts) (gs_initial_balances config) (0, c2) = Inr (x, c3)"
    and s4: "store_asset_entry (base_asset ?ts x) c3 = Inr c4"
    and s5: "efold (genesis_asset ?ts) (gs_market_assets config) (0, c4) = Inr (j, c5)"
    and s6: "store_property_entry last_asset_id (pv_int j) c5 = Inr c6"
    and s7: "store_property_entry last_account_id (pv_int k) c6 = Inr c7"
    and s8: "store_property_entry active_delegate_list_id (pv_ids ids) c7 = Inr c8"
    and s9: "store_property_entry statistics_enabled (pv_bool st) c8 = Inr c9"
    and s10: "store_property_entry node_vm_enabled (pv_bool False) c9 = Inr c"
    by (auto simp: genesis_entries_def Let_def set_chain_id_def set_active_delegates_def
        set_statistics_enabled_def set_node_vm_enabled_def split: chain.splits)
  have "gen_ok E 0 {} 0 c1" using gen_ok_property [OF s1 fresh_gen_ok [OF assms(2)]] .
  then have "k = 0 + ?n \<and> gen_ok E k {} 0 c2" by (rule genesis_delegates_ok [OF s2]) (use assms(3) in simp_all)
  then have c2: "k = ?n" "gen_ok E ?n {} 0 c2" by auto
  then have "gen_ok E ?n {} (w64 x) c3" using genesis_balances_ok [OF s3] by simp
  then have "gen_ok E ?n {0..0} 0 c4"
    using gen_ok_asset [OF s4, of E ?n "{}" "w64 x" "w64 x"] by (simp add: base_asset_def asset_word_def)
  then have c5: "gen_ok E ?n {0..j} 0 c5" "0 \<le> j" using genesis_assets_ok [OF s5] assms(4) by simp_all
  from c5(1) have c6: "gen_ok E ?n {0..j} 0 c6" by (rule gen_ok_property [OF s6])
  then have c7: "gen_ok E ?n {0..j} 0 c7" by (rule gen_ok_property [OF s7])
  then have c8: "gen_ok E ?n {0..j} 0 c8" by (rule gen_ok_property [OF s8])
  then have c9: "gen_ok E ?n {0..j} 0 c9" by (rule gen_ok_property [OF s9])
  then have c: "gen_ok E ?n {0..j} 0 c" by (rule gen_ok_property [OF s10])
  have live: "live c6" "live c7" "live c8" "live c9" using c6 c7 c8 c9 by (simp_all add: gen_ok_def)
  have "get_last_account_id c = Inr ?n"
    by (simp add: get_last_account_id_def store_property_lookup [OF s10 live(4)]
        store_property_lookup [OF s9 live(3)] store_property_lookup [OF s8 live(2)]
        store_property_lookup [OF s7 live(1)] c2(1))
  moreover obtain d' where "c = Database d'" using c by (cases c) (auto simp: gen_ok_def)
  moreover have "0 \<in> {0..j}" using c5(2) by simp
  ultimately show ?thesis using c by blast
qed

text \<open>Starting a node does not fail on a config that has enough delegates and proper addresses.\<close>

lemma genesis_delegate_returns:
  assumes "gen_ok E k A t c" "0 \<le> k" "k + 1 < 2 ^ 31" "ts \<noteq> 0"
  shows "\<exists>c1. genesis_delegate E ts x (k, c) = Inr (k + 1, c1)"
proof -
  have "account_lookup_by_id c (k + 1) = None" using assms(1) by (force simp: gen_ok_def)
  with assms(4) wrap32_succ [OF assms(2,3)] show ?thesis
    by (simp add: genesis_delegate_def Let_def set_active_key_def set_signing_key_def
        store_account_entry_def AccountEntry_store_def is_retracted_def active_key_def)
qed

lemma genesis_delegates_return:
  assumes "gen_ok E k A t c" "0 \<le> k" "k + int (length ds) < 2 ^ 31" "ts \<noteq> 0"
  shows "\<exists>k' c'. efold (genesis_delegate E ts) ds (k, c) = Inr (k', c')"
  using assms
proof (induction ds arbitrary: k c)
  case (Cons x ds)
  then obtain c1 where c1: "genesis_delegate E ts x (k, c) = Inr (k + 1, c1)"
    using genesis_delegate_returns [of E k A t c ts x] by auto
  have "gen_ok E (k + 1) A t c1"
    using genesis_delegates_ok [of E ts "[x]" k c "k + 1" c1 A t] c1 Cons.prems by simp
  from Cons.IH [OF this] Cons.prems c1 show ?case by simp
qed simp

lemma genesis_balances_return:
  assumes "\<forall>g \<in> set gs. pa (gb_raw_address g) \<noteq> None"
  shows "\<exists>x' c'. efold (genesis_balance E pa ts) gs (x, c) = Inr (x', c')"
  using assms
proof (induction gs arbitrary: x c)
  case (Cons g gs)
  then show ?case
    by (auto simp: genesis_balance_def Let_def store_balance_entry_def BalanceEntry_store_def)
qed simp

lemma genesis_assets_return: "\<exists>k' c'. efold (genesis_asset ts) as (k, c) = Inr (k', c')"
  by (induction as arbitrary: k c)
    (auto simp: genesis_asset_def Let_def store_asset_entry_def AssetEntry_store_def)

lemma genesis_entries_return:
  assumes "fresh_database d" "gs_timestamp config \<noteq> 0"
    and "ALP_BLOCKCHAIN_NUM_DELEGATES \<le> length (gs_delegates config)"
    and "int (length (gs_delegates config)) < 2 ^ 31" "int (length (gs_market_assets config)) < 2 ^ 31"
    and "\<forall>g \<in> set (gs_initial_balances config). pa (gb_raw_address g) \<noteq> None"
  shows "\<exists>c. genesis_entries E pa config cid st (Database d) = Inr c"
proof -
  let ?ts = "gs_timestamp config"
  obtain c1 where s1: "store_property_entry chain_id (pv_digest cid) (Database d) = Inr c1"
    by (simp add: store_property_entry_def PropertyEntry_store_def)
  have g1: "gen_ok E 0 {} 0 c1" using gen_ok_property [OF s1 fresh_gen_ok [OF assms(1)]] .
  obtain k c2 where s2: "efold (genesis_delegate E ?ts) (gs_delegates config) (0, c1) = Inr (k, c2)"
    using genesis_delegates_return [OF g1, of "gs_delegates config" ?ts] assms(2,4) by auto
  have g2: "gen_ok E k {} 0 c2" using genesis_delegates_ok [OF s2 g1] assms(4) by auto
  obtain x c3 where s3: "efold (genesis_balance E pa ?ts) (gs_initial_balances config) (0, c2) = Inr (x, c3)"
    using genesis_balances_return [OF assms(6)] by blast
  have g3: "gen_ok E k {} (w64 x) c3" using genesis_balances_ok [OF s3] g2 by simp
  obtain c4 where s4: "store_asset_entry (base_asset ?ts x) c3 = Inr c4"
    by (simp add: store_asset_entry_def AssetEntry_store_def)
  have g4: "gen_ok E k {0..0} 0 c4"
    using gen_ok_asset [OF s4 g3, of "w64 x"] by (simp add: base_asset_def asset_word_def)
  obtain j c5 where s5: "efold (genesis_asset ?ts) (gs_market_assets config) (0, c4) = Inr (j, c5)"
    using genesis_assets_return by blast
  obtain c6 where s6: "store_property_entry last_asset_id (pv_int j) c5 = Inr c6"
    by (simp add: store_property_entry_def PropertyEntry_store_def)
  obtain c7 where s7: "store_property_entry last_account_id (pv_int k) c6 = Inr c7"
    by (simp add: store_property_entry_def PropertyEntry_store_def)
  have "gen_ok E k {0..j} 0 c7"
    using gen_ok_property [OF s7 gen_ok_property [OF s6 conjunct1 [OF genesis_assets_ok [OF s5 g4]]]] assms(5) by simp
  then obtain d7 where "c7 = Database d7" by (cases c7) (auto simp: gen_ok_def)
  with s1 s2 s3 s4 s5 s6 s7 assms(3) show ?thesis
    by (simp add: genesis_entries_def Let_def set_chain_id_def set_active_delegates_def
        set_statistics_enabled_def set_node_vm_enabled_def ensure_def)
      (simp add: store_property_entry_def PropertyEntry_store_def)
qed

section \<open>The supply\<close>

lemma w64_fold_add:
  assumes "\<And>e x. w64 (f e x) = w64 x + h e"
  shows "w64 (fold f xs x) = w64 x + sum_list (map h xs)"
  by (induction xs arbitrary: x) (simp_all add: assms add.assoc)

lemma calculate_supply_word:
  assumes "database_ok d" "asset_lookup_by_id (Database d) k = Some a"
  shows "\<exists>t. calculate_supply d k = Inr t \<and> asset_of t = k \<and>
    w64 (amount t) = vsum k (view (Database d)) + w64 (ast_current_share_supply a)"
proof -
  let ?b = "fold (\<lambda>(_, b) x. if bal_asset_id b = k then wrap64 (x + bal_balance b) else x)
    (db_balance_id_to_entry d) (ast_collected_fees a)"
  have ok: "distinct (map fst (db_balance_id_to_entry d))" "distinct (map fst (db_account_id_to_entry d))"
    using assms(1) by (simp_all add: database_ok_def smap_ok_distinct)
  have lk: "balance_lookup_by_id (Database d) = map_of (db_balance_id_to_entry d)"
    "account_lookup_by_id (Database d) = map_of (db_account_id_to_entry d)"
    by (simp_all add: fun_eq_iff db_access_defs)
  have b: "w64 ?b = w64 (ast_collected_fees a) + map_sum (bal_word k) (balance_lookup_by_id (Database d))"
    unfolding lk map_sum_alist [OF ok(1)]
    by (rule w64_fold_add) (auto simp: bal_word_def)
  have p: "w64 (fold (\<lambda>(_, a) x. case acc_delegate_info a of
        Some di \<Rightarrow> wrap64 (x + pay_balance di) | None \<Rightarrow> x) (db_account_id_to_entry d) ?b) =
      w64 ?b + map_sum pay_word (account_lookup_by_id (Database d))"
    unfolding lk map_sum_alist [OF ok(2)]
    by (rule w64_fold_add) (auto simp: pay_word_def split: option.split)
  show ?thesis
    using assms(2) b p by (auto simp: calculate_supply_def vsum_def asset_word_def)
qed

text \<open>A node that starts from a genesis state and extends its chain with a list of blocks.\<close>

definition run_from_genesis ::
  "env \<Rightarrow> block_lib \<Rightarrow> vm \<Rightarrow> share option \<Rightarrow> (string \<Rightarrow> address option) \<Rightarrow> GenesisState \<Rightarrow> digest \<Rightarrow> bool \<Rightarrow>
     FullBlock list \<Rightarrow> unit node_act" where
  "run_from_genesis E B vm w pa config cid st bs =
     abind (initialize_genesis E pa config cid st) (\<lambda>_. afold (\<lambda>b _. extend_chain E B vm w b) bs ())"

definition blocks_ops :: "FullBlock list \<Rightarrow> nat" where
  "blocks_ops bs = sum_list (map (\<lambda>b. trx_ops (user_transactions b)) bs)"

lemma blocks_conserve:
  assumes "afold (\<lambda>b _. extend_chain E B vm w b) bs () s = (Returns u, s')"
    and "\<forall>b \<in> set bs. plain_block b" "node_ok E (blocks_ops bs + n) s"
  shows "node_ok E n s' \<and> same_sums (self_chain s) (self_chain s')"
  using assms
proof (induction bs arbitrary: s)
  case Nil
  then show ?case by (simp add: act_Returns blocks_ops_def)
next
  case (Cons b bs)
  from Cons.prems(1) obtain s1 where e: "extend_chain E B vm w b s = (Returns (), s1)"
    and rest: "afold (\<lambda>b _. extend_chain E B vm w b) bs () s1 = (Returns u, s')"
    by (auto simp: abind_Returns)
  have "node_ok E (trx_ops (user_transactions b) + (blocks_ops bs + n)) s"
    using Cons.prems(3) by (simp add: blocks_ops_def add.assoc)
  then have "node_ok E (blocks_ops bs + n) s1" "same_sums (self_chain s) (self_chain s1)"
    using extend_keeps_sums [OF e _] Cons.prems(2) by simp_all
  with Cons.IH [OF rest] Cons.prems(2) show ?case by (auto intro: same_sums_trans)
qed

text \<open>
  C1 (invariant). The audit of the supply never fails: after the genesis block and any list of
  accepted blocks without contract calls, \<open>calculate_supply\<close> of every asset, which adds up the
  fees, the balances and the delegates' pay, gives the share supply recorded in the entry of the
  asset, as a 64-bit number. The hypotheses are the empty database of a first start and that the
  32-bit account and asset ids do not run out.
\<close>

theorem supply_is_accounted:
  assumes "run_from_genesis E B vm w pa config cid st bs s = (Returns (), s')"
    and "fresh_database (node_db s)" "\<forall>b \<in> set bs. plain_block b"
    and "int (length (gs_delegates config)) + int (blocks_ops bs) < 2 ^ 31"
    and "int (length (gs_market_assets config)) < 2 ^ 31"
    and "asset_lookup_by_id (self_chain s') k = Some a"
  shows "\<exists>t. calculate_supply (node_db s') k = Inr t \<and> asset_of t = k \<and>
    w64 (amount t) = w64 (ast_current_share_supply a)"
proof -
  let ?n = "int (length (gs_delegates config))"
  from assms(1) obtain s1 x where g: "initialize_genesis E pa config cid st s = (Returns x, s1)"
    and run: "afold (\<lambda>b _. extend_chain E B vm w b) bs () s1 = (Returns (), s')"
    by (auto simp: run_from_genesis_def abind_Returns)
  from g obtain c where c: "genesis_entries E pa config cid st (Database (node_db s)) = Inr c"
    and s1': "(case c of Database d \<Rightarrow> abind (amodify (\<lambda>s. s\<lparr>node_db := d\<rparr>)) (\<lambda>_. aret cid) | _ \<Rightarrow> aret cid)
      (s\<lparr>fork_db := smap_set 0 (new_BlockForkData\<lparr>is_valid := Some True, is_included := True,
         is_linked := True, is_known := True\<rparr>) (fork_db s)\<rparr>) = (Returns x, s1)"
    by (auto simp: initialize_genesis_def abind_Returns act_Returns self_chain_def fork_store_def)
  have s1: "node_db s1 = d" if "c = Database d" for d
    using s1' that by (auto simp: abind_Returns act_Returns)
  obtain d A where d: "c = Database d" "gen_ok E ?n A 0 c" "get_last_account_id c = Inr ?n"
    using genesis_entries_ok [OF c assms(2)] assms(4,5) by auto
  have self: "self_chain s1 = c" using s1 [OF d(1)] d(1) by (simp add: self_chain_def)
  have "node_ok E (blocks_ops bs + 0) s1"
    using d assms(4) by (auto simp: node_ok_def self gen_ok_def ledger_ok_def account_room_def s1)
  from blocks_conserve [OF run assms(3) this]
  have ok: "node_ok E 0 s'" and same: "same_sums c (self_chain s')" by (simp_all add: self)
  have "vsum k (view (Database (node_db s'))) = 0"
    using same d(2) by (simp add: same_sums_def gen_ok_def self_chain_def)
  with calculate_supply_word [of "node_db s'" k a] ok assms(6) show ?thesis
    by (simp add: node_ok_def self_chain_def)
qed

section \<open>Instances\<close>

definition sample_genesis :: GenesisState where
  "sample_genesis = \<lparr>gs_timestamp = 2000,
     gs_market_assets = [\<lparr>ga_symbol = ''XYZ'', ga_name = ''xyz'', ga_description = [], ga_precision = 100\<rparr>],
     gs_delegates = map (\<lambda>i. \<lparr>gd_name = ''init'', gd_owner = i\<rparr>) [1..<100],
     gs_initial_balances = [\<lparr>gb_raw_address = ''A'', gb_balance = 700\<rparr>, \<lparr>gb_raw_address = ''A'', gb_balance = 300\<rparr>]\<rparr>"

definition empty_node :: node where
  "empty_node = sample_node\<lparr>fork_db := [], fork_number_db := Map.empty, block_id_to_full_block := Map.empty,
     node_db := sample_db\<lparr>db_head_block_num := 0, db_head_block_timestamp := 0,
       db_property_id_to_entry := [], db_account_id_to_entry := [], db_account_name_to_id := Map.empty,
       db_account_address_to_id := Map.empty, db_delegate_votes := [], db_asset_id_to_entry := [],
       db_asset_symbol_to_id := Map.empty, db_balance_id_to_entry := []\<rparr>\<rparr>"

lemma empty_node_fresh: "fresh_database (node_db empty_node)"
  by (simp add: fresh_database_def empty_node_def database_ok_def sample_db_def smap_ok_def)

theorem supply_is_accounted_witness:
  "\<exists>s' t. run_from_genesis sample_env sample_lib idle_vm None (\<lambda>_. Some 11) sample_genesis 7 False []
       empty_node = (Returns (), s') \<and>
     calculate_supply (node_db s') 0 = Inr t \<and>
     (\<exists>a. asset_lookup_by_id (self_chain s') 0 = Some a \<and> w64 (amount t) = w64 (ast_current_share_supply a))"
proof -
  have len: "length (gs_delegates sample_genesis) = 99" "length (gs_market_assets sample_genesis) = 1"
    "gs_timestamp sample_genesis = 2000" by (simp_all add: sample_genesis_def)
  have "\<exists>c. genesis_entries sample_env (\<lambda>_. Some 11) sample_genesis 7 False (Database (node_db empty_node)) = Inr c"
    by (rule genesis_entries_return [OF empty_node_fresh]) (simp_all add: len ALP_BLOCKCHAIN_NUM_DELEGATES_def)
  then obtain c where c: "genesis_entries sample_env (\<lambda>_. Some 11) sample_genesis 7 False
      (Database (node_db empty_node)) = Inr c" by blast
  obtain d A where d: "c = Database d" "0 \<in> A" "gen_ok sample_env 99 A 0 c"
    using genesis_entries_ok [OF c empty_node_fresh] len by auto
  obtain s' where run: "run_from_genesis sample_env sample_lib idle_vm None (\<lambda>_. Some 11)
      sample_genesis 7 False [] empty_node = (Returns (), s')" and s': "node_db s' = d"
    using c d(1) by (auto simp: run_from_genesis_def initialize_genesis_def act_defs self_chain_def fork_store_def)
  obtain a where a: "asset_lookup_by_id (self_chain s') 0 = Some a"
    using d s' by (auto simp: gen_ok_def self_chain_def)
  have "\<exists>t. calculate_supply (node_db s') 0 = Inr t \<and> asset_of t = 0 \<and>
      w64 (amount t) = w64 (ast_current_share_supply a)"
    by (rule supply_is_accounted [OF run empty_node_fresh _ _ _ a]) (simp_all add: len blocks_ops_def)
  with run a show ?thesis by blast
qed

end
