(* ===== verification/Pending_Pool.thy ===== *)
theory Pending_Pool
  imports Chain_Node
begin

text \<open>
  The pool of transactions that wait for a block, and the block a delegate makes of them:
  \<open>evaluate_transaction\<close>, \<open>store_pending_transaction\<close>, \<open>revalidate_pending\<close>,
  \<open>check_asset_transfer\<close> and \<open>generate_block\<close> of \<open>ChainDatabase.cpp\<close>, the order \<open>fee_index\<close> of
  \<open>ChainDatabaseImpl.hpp\<close> and the limits of \<open>DelegateConfig.hpp\<close>. The pool is evaluated on the
  overlay \<open>_pending_trx_state\<close> over the database. Cancellation of a task is left out.
\<close>

section \<open>DelegateConfig.hpp\<close>

definition ALP_BLOCKCHAIN_MAX_BLOCK_SIZE :: nat where
  "ALP_BLOCKCHAIN_MAX_BLOCK_SIZE =
     2 * ALP_BLOCKCHAIN_AVERAGE_TRX_SIZE * ALP_BLOCKCHAIN_MAX_PENDING_QUEUE_SIZE"

definition ALP_BLOCKCHAIN_MAX_TRX_PER_SECOND :: nat where
  "ALP_BLOCKCHAIN_MAX_TRX_PER_SECOND = 1000"

definition ALP_BLOCKCHAIN_REVALIDATE_MAX_TRX_COUNT :: nat where
  "ALP_BLOCKCHAIN_REVALIDATE_MAX_TRX_COUNT =
     ALP_BLOCKCHAIN_MAX_TRX_PER_SECOND * ALP_BLOCKCHAIN_BLOCK_INTERVAL_SEC"

text \<open>The production time is counted in microseconds.\<close>

record DelegateConfig =
  network_min_connection_count :: nat
  block_max_transaction_count :: nat
  block_max_size :: nat
  block_max_production_time :: int
  transaction_max_size :: nat
  transaction_canonical_signatures_required :: bool
  transaction_min_fee :: share
  transaction_imessage_max_soft_length :: int
  transaction_imessage_min_fee_coe :: int
  transaction_blacklist :: "trx_id list"
  operation_blacklist :: "nat list"

definition default_DelegateConfig :: DelegateConfig where
  "default_DelegateConfig = \<lparr>network_min_connection_count = 4,
     block_max_transaction_count = 2 ^ 32 - 1, block_max_size = ALP_BLOCKCHAIN_MAX_BLOCK_SIZE,
     block_max_production_time = 3 * 1000000, transaction_max_size = ALP_BLOCKCHAIN_MAX_TRX_SIZE,
     transaction_canonical_signatures_required = False,
     transaction_min_fee = ALP_BLOCKCHAIN_PRECISION div 100,
     transaction_imessage_max_soft_length = ALP_BLOCKCHAIN_MAX_SOFT_MAX_MESSAGE_SIZE,
     transaction_imessage_min_fee_coe = ALP_BLOCKCHAIN_MIN_MESSAGE_FEE_COE,
     transaction_blacklist = [], operation_blacklist = []\<rparr>"

definition DelegateConfig_validate :: "DelegateConfig \<Rightarrow> unit result" where
  "DelegateConfig_validate config =
     ebind (ensure (block_max_size config \<le> ALP_BLOCKCHAIN_MAX_BLOCK_SIZE) assert_exception) (\<lambda>_.
     ebind (ensure (block_max_production_time config \<ge> 0) assert_exception) (\<lambda>_.
     ebind (ensure (block_max_production_time config div 1000000 \<le> int ALP_BLOCKCHAIN_BLOCK_INTERVAL_SEC)
              assert_exception) (\<lambda>_.
     ebind (ensure (transaction_max_size config \<le> ALP_BLOCKCHAIN_MAX_TRX_SIZE) assert_exception) (\<lambda>_.
     ebind (ensure (transaction_min_fee config \<ge> ALP_BLOCKCHAIN_DEFAULT_RELAY_FEE) assert_exception) (\<lambda>_.
     ebind (ensure (transaction_min_fee config \<le> ALP_BLOCKCHAIN_MAX_SHARES) assert_exception) (\<lambda>_.
     ebind (ensure (transaction_imessage_min_fee_coe config \<ge> ALP_BLOCKCHAIN_MIN_MESSAGE_FEE_COE)
              assert_exception) (\<lambda>_.
     ebind (ensure (transaction_imessage_max_soft_length config \<ge> 0) assert_exception) (\<lambda>_.
       ensure (transaction_imessage_max_soft_length config \<le> int ALP_BLOCKCHAIN_MAX_MESSAGE_SIZE)
         assert_exception))))))))"

section \<open>fee\_index\<close>

text \<open>The map \<open>_pending_fee_index\<close> is ordered by descending fee, then by descending id.\<close>

definition fee_before :: "share \<times> trx_id \<Rightarrow> share \<times> trx_id \<Rightarrow> bool" where
  "fee_before a b \<longleftrightarrow> fst a > fst b \<or> fst a = fst b \<and> snd a > snd b"

fun fee_index_set ::
  "share \<times> trx_id \<Rightarrow> 'v \<Rightarrow> ((share \<times> trx_id) \<times> 'v) list \<Rightarrow> ((share \<times> trx_id) \<times> 'v) list" where
  "fee_index_set k v [] = [(k, v)]"
| "fee_index_set k v ((k', v') # m) =
     (if fee_before k k' then (k, v) # (k', v') # m
      else if k = k' then (k, v) # m
      else (k', v') # fee_index_set k v m)"

section \<open>evaluate\_transaction\<close>

definition pool_chain :: "node \<Rightarrow> chain" where
  "pool_chain s = Pending (pending_trx_state s) (self_chain s)"

text \<open>\<open>apply_changes\<close> of a pending state: its previous state with the changes.\<close>

definition apply_to_previous :: "env \<Rightarrow> chain \<Rightarrow> chain result" where
  "apply_to_previous E c = (case c of Pending p prev \<Rightarrow> apply_changes E p prev | _ \<Rightarrow> Inr c)"

definition paid_fees :: "eval_state \<Rightarrow> share" where
  "paid_fees s = wrap64 (get_fees s 0 + amount (es_alt_fees_paid s))"

text \<open>
  Whether the virtual machine is skipped: not on a node that makes a block, nor on one whose
  database enables the machine, nor for a call of the local wallet.
\<close>

definition pool_skipexec :: "node \<Rightarrow> bool \<Rightarrow> bool result" where
  "pool_skipexec s contract_vm_exec =
     ebind (if generating_block s then Inr False
            else ebind (get_node_vm_enabled (self_chain s)) (\<lambda>b. Inr (\<not> b))) (\<lambda>skip.
       Inr (if skip \<and> contract_vm_exec then \<not> contract_vm_exec else skip))"

text \<open>
  The result is the evaluation state and the changed \<open>_pending_trx_state\<close>. The evaluation state
  of a contract call is a new one, which holds no fees and of which only the transactions are
  read.
\<close>

definition evaluate_in_pool ::
  "env \<Rightarrow> vm \<Rightarrow> node \<Rightarrow> SignedTransaction \<Rightarrow> share \<Rightarrow> bool \<Rightarrow> bool \<Rightarrow> bool \<Rightarrow> (eval_state \<times> chain) result" where
  "evaluate_in_pool E vm s trx required_fees contract_vm_exec skip_signatures throw_exception =
     ebind (pool_skipexec s contract_vm_exec) (\<lambda>skip.
     let s0 = (new_eval_state E (Pending new_pending (pool_chain s)) skip)
                \<lparr>skip_signature_check := skip_signatures, throw_exec_exception := throw_exception\<rparr> in
     ebind (ensure (origin_trx_basic_verify trx) illegal_transaction) (\<lambda>_.
     ebind (evaluate_core E vm trx s0) (\<lambda>(no_check_required_fee, s1).
     let has_result = operations (p_result_trx s1) \<noteq> [] in
     ebind (if has_result then lift_chain (TransactionEntry_remove E (trx_id E trx)) s1 else Inr s1) (\<lambda>s2.
     ebind (ensure (\<not> (\<not> no_check_required_fee \<and> paid_fees s2 < required_fees))
              insufficient_relay_fee) (\<lambda>_.
     if \<not> has_result
     then ebind (apply_to_previous E (cur s2)) (\<lambda>pool. Inr (s2, pool))
     else
       ebind (evaluate E vm (p_result_trx s2) True
                (new_eval_state E (Pending new_pending (pool_chain s)) True)) (\<lambda>s3.
       ebind (apply_to_previous E (cur s3)) (\<lambda>pool.
         Inr ((new_eval_state E (cur s2) False)\<lparr>p_result_trx := p_result_trx s2, es_trx := trx\<rparr>, pool))))))))"

definition evaluate_transaction ::
  "env \<Rightarrow> vm \<Rightarrow> SignedTransaction \<Rightarrow> share \<Rightarrow> bool \<Rightarrow> bool \<Rightarrow> bool \<Rightarrow> eval_state node_act" where
  "evaluate_transaction E vm trx required_fees contract_vm_exec skip_signatures throw_exception =
     abind (aread (\<lambda>s. evaluate_in_pool E vm s trx required_fees contract_vm_exec skip_signatures
                         throw_exception)) (\<lambda>(eval_state, pool).
     abind (case pool of
              Pending p _ \<Rightarrow> amodify (\<lambda>s. s\<lparr>pending_trx_state := p\<rparr>)
            | _ \<Rightarrow> aret ()) (\<lambda>_. aret eval_state))"

text \<open>\<open>skip_exec\<close> is the value of the field that the constructor leaves unset.\<close>

definition get_transaction_error ::
  "env \<Rightarrow> vm \<Rightarrow> bool \<Rightarrow> database \<Rightarrow> SignedTransaction \<Rightarrow> share \<Rightarrow> chain_error option" where
  "get_transaction_error E vm skip_exec d trx min_fee =
     (case ebind (evaluate E vm trx True (new_eval_state E (Pending new_pending (Database d)) skip_exec)) (\<lambda>s.
             ensure (\<not> paid_fees s < min_fee) insufficient_relay_fee) of
        Inl e \<Rightarrow> Some e
      | Inr _ \<Rightarrow> None)"

section \<open>The pool\<close>

definition clear_result :: "eval_state \<Rightarrow> eval_state" where
  "clear_result s = (if result_ops s \<noteq> [] then set_result_ops [] s else s)"

definition index_pending :: "share \<Rightarrow> trx_id \<Rightarrow> eval_state \<Rightarrow> unit node_act" where
  "index_pending fees k es = amodify (\<lambda>s. s\<lparr>pending_fee_index :=
     fee_index_set (fees, k) es (pending_fee_index s)\<rparr>)"

text \<open>The product is computed in unsigned 64-bit arithmetic and stored as a signed number.\<close>

definition required_relay_fee :: "share \<Rightarrow> nat \<Rightarrow> bool \<Rightarrow> share" where
  "required_relay_fee fee queue_size override_limits =
     (if \<not> override_limits \<and> queue_size > ALP_BLOCKCHAIN_MAX_PENDING_QUEUE_SIZE
      then let overage = int (queue_size - ALP_BLOCKCHAIN_MAX_PENDING_QUEUE_SIZE)
           in wrap64 (fee * overage * overage)
      else fee)"

definition store_pending_transaction ::
  "env \<Rightarrow> vm \<Rightarrow> SignedTransaction \<Rightarrow> bool \<Rightarrow> bool \<Rightarrow> bool \<Rightarrow> (eval_state option) node_act" where
  "store_pending_transaction E vm trx override_limits contract_vm_exec cache =
     (let k = trx_id E trx in
      abind (aget (\<lambda>s. map_of (pending_transaction_db s) k)) (\<lambda>current_itr.
      if current_itr \<noteq> None then aret None
      else
        abind (aget (\<lambda>s. required_relay_fee (relay_fee s) (length (pending_fee_index s)) override_limits))
          (\<lambda>fee.
        abind (evaluate_transaction E vm trx fee contract_vm_exec False cache) (\<lambda>es.
        abind (index_pending (paid_fees es) k (clear_result es)) (\<lambda>_.
        abind (amodify (\<lambda>s. s\<lparr>pending_transaction_db :=
                 smap_set k trx (pending_transaction_db s)\<rparr>)) (\<lambda>_.
          aret (Some (clear_result es))))))))"

definition get_pending_transactions :: "node \<Rightarrow> eval_state list" where
  "get_pending_transactions s = map snd (pending_fee_index s)"

text \<open>
  The loop of \<open>revalidate_pending\<close>: \<open>counted\<close> transactions have been accepted, and the value is
  the list of the ids to discard.
\<close>

fun revalidate_loop ::
  "env \<Rightarrow> vm \<Rightarrow> (trx_id \<times> SignedTransaction) list \<Rightarrow> nat \<Rightarrow> trx_id list \<Rightarrow> (trx_id list) node_act" where
  "revalidate_loop E vm [] counted discard = aret discard"
| "revalidate_loop E vm ((k, trx) # rest) counted discard =
     abind (acatch (abind (aget relay_fee) (\<lambda>fee.
                    abind (evaluate_transaction E vm trx fee False True False) (\<lambda>es.
                    abind (index_pending (get_fees es 0) k (clear_result es)) (\<lambda>_. aret True))))
                   (\<lambda>_. aret False)) (\<lambda>accepted.
     if accepted then
       (if Suc counted > ALP_BLOCKCHAIN_REVALIDATE_MAX_TRX_COUNT then aret discard
        else revalidate_loop E vm rest (Suc counted) discard)
     else revalidate_loop E vm rest counted (discard @ [k]))"

definition revalidate_pending :: "env \<Rightarrow> vm \<Rightarrow> unit node_act" where
  "revalidate_pending E vm =
     abind (amodify (\<lambda>s. s\<lparr>pending_fee_index := [], pending_trx_state := new_pending\<rparr>)) (\<lambda>_.
     abind (aget pending_transaction_db) (\<lambda>trxs.
     abind (revalidate_loop E vm trxs 0 []) (\<lambda>trx_to_discard.
       amodify (\<lambda>s. s\<lparr>pending_transaction_db := fold smap_del trx_to_discard (pending_transaction_db s)\<rparr>))))"

section \<open>check\_asset\_transfer\<close>

abbreviation (input) withdraw_op_type :: nat where "withdraw_op_type \<equiv> 1"
abbreviation (input) deposit_op_type :: nat where "deposit_op_type \<equiv> 2"
abbreviation (input) define_slate_op_type :: nat where "define_slate_op_type \<equiv> 18"
abbreviation (input) imessage_memo_op_type :: nat where "imessage_memo_op_type \<equiv> 66"

record transfer_scan =
  ts_withdraw_amount :: share
  ts_deposit_amount :: share
  ts_deposit_asset :: asset_id
  ts_withdraw_asset :: asset_id
  ts_deposit_num :: nat

text \<open>
  The loop over the operations: \<open>None\<close> is the early \<open>return true\<close> on an operation of another
  type, an early \<open>return false\<close> is \<open>Some None\<close>.
\<close>

definition scan_withdraw :: "database \<Rightarrow> WithdrawOperation \<Rightarrow> transfer_scan \<Rightarrow> transfer_scan option" where
  "scan_withdraw d op t =
     (case balance_lookup_by_id (Database d) (wd_balance_id op) of
        None \<Rightarrow> None
      | Some b \<Rightarrow>
          let t1 = t\<lparr>ts_withdraw_amount := wrap64 (ts_withdraw_amount t + wd_amount op)\<rparr>;
              k = bal_asset_id b
          in if k = 0 then Some t1
             else if ts_withdraw_asset t1 \<noteq> 0 \<and> ts_withdraw_asset t1 \<noteq> k then None
             else Some (t1\<lparr>ts_withdraw_asset := k\<rparr>))"

definition scan_deposit :: "DepositOperation \<Rightarrow> transfer_scan \<Rightarrow> transfer_scan" where
  "scan_deposit op t =
     t\<lparr>ts_deposit_num := ts_deposit_num t + 1,
       ts_deposit_asset := cond_asset_id (dep_condition op),
       ts_deposit_amount := wrap64 (ts_deposit_amount t + dep_amount op)\<rparr>"

fun scan_transfer ::
  "database \<Rightarrow> Operation list \<Rightarrow> transfer_scan \<Rightarrow> ((transfer_scan option) option) result" where
  "scan_transfer d [] t = Inr (Some (Some t))"
| "scan_transfer d (op # ops) t =
     (if op_type op = deposit_op_type then
        (case op of deposit_op dop \<Rightarrow> scan_transfer d ops (scan_deposit dop t)
         | _ \<Rightarrow> Inl out_of_range_exception)
      else if op_type op = withdraw_op_type then
        (case op of
           withdraw_op wop \<Rightarrow>
             (case scan_withdraw d wop t of
                None \<Rightarrow> Inr (Some None)
              | Some t' \<Rightarrow> scan_transfer d ops t')
         | _ \<Rightarrow> Inl out_of_range_exception)
      else if op_type op = imessage_memo_op_type \<or> op_type op = define_slate_op_type
      then scan_transfer d ops t
      else Inr None)"

definition transfer_fits :: "SignedTransaction \<Rightarrow> transfer_scan \<Rightarrow> bool" where
  "transfer_fits trx t \<longleftrightarrow>
     \<not> ts_deposit_num t > 1 \<and>
     \<not> ts_withdraw_amount t < wrap64 (ts_deposit_amount t + 1000) \<and>
     \<not> (alp_account trx \<noteq> [] \<and>
        (ts_deposit_asset t \<noteq> asset_of (alp_inport_asset trx) \<or>
         ts_deposit_amount t \<noteq> amount (alp_inport_asset trx))) \<and>
     ts_deposit_asset t = ts_withdraw_asset t"

definition check_asset_transfer :: "database \<Rightarrow> SignedTransaction \<Rightarrow> bool result" where
  "check_asset_transfer d trx =
     ebind (scan_transfer d (operations trx)
              \<lparr>ts_withdraw_amount = 0, ts_deposit_amount = 0, ts_deposit_asset = 0,
               ts_withdraw_asset = 0, ts_deposit_num = 0\<rparr>) (\<lambda>r.
       Inr (case r of
              None \<Rightarrow> True
            | Some None \<Rightarrow> False
            | Some (Some t) \<Rightarrow> transfer_fits trx t))"

section \<open>generate\_block\<close>

text \<open>The tests that exclude a transaction before it is evaluated.\<close>

definition excluded :: "env \<Rightarrow> DelegateConfig \<Rightarrow> nat \<Rightarrow> SignedTransaction \<Rightarrow> bool" where
  "excluded E config bsize trx \<longleftrightarrow>
     trx_data_size E trx > transaction_max_size config \<or>
     bsize + trx_data_size E trx > block_max_size config \<or>
     trx_id E trx \<in> set (transaction_blacklist config) \<or>
     (\<exists>op \<in> set (operations trx). op_type op \<in> set (operation_blacklist config))"

text \<open>The limits on the message of a transaction and on the fee it pays.\<close>

definition pays_enough :: "DelegateConfig \<Rightarrow> int \<Rightarrow> share \<Rightarrow> bool" where
  "pays_enough config message_length fee \<longleftrightarrow>
     \<not> message_length > transaction_imessage_max_soft_length config \<and>
     \<not> fee < wrap64 (transaction_min_fee config +
        (if message_length > ALP_BLOCKCHAIN_MAX_FREE_MESSAGE_SIZE
         then wrap64 (transaction_imessage_min_fee_coe config *
                      (message_length - ALP_BLOCKCHAIN_MAX_FREE_MESSAGE_SIZE))
         else 0))"

text \<open>The transaction a contract call enters the block as: its result, cut short when it is too long.\<close>

definition block_result_trx :: "env \<Rightarrow> DelegateConfig \<Rightarrow> SignedTransaction \<Rightarrow> SignedTransaction" where
  "block_result_trx E config result =
     (if trx_data_size E result > transaction_max_size config
      then set_operations (take 1 (operations result))
             (set_result incomplete_result_transaction (trx_id E result) result)
      else set_result complete_result_transaction (trx_id E result) result)"

definition fresh_evaluation :: "env \<Rightarrow> DelegateConfig \<Rightarrow> chain \<Rightarrow> bool \<Rightarrow> eval_state" where
  "fresh_evaluation E config pending_state skip =
     (new_eval_state E (Pending new_pending pending_state) skip)
       \<lparr>enforce_canonical_signatures := transaction_canonical_signatures_required config,
        skip_signature_check := True\<rparr>"

text \<open>
  The evaluation of one transaction of the pool: \<open>None\<close> when it is left out, else the
  transaction that enters the block and the pending state with its changes.
\<close>

definition evaluate_for_block ::
  "env \<Rightarrow> vm \<Rightarrow> DelegateConfig \<Rightarrow> chain \<Rightarrow> SignedTransaction \<Rightarrow> ((SignedTransaction \<times> chain) option) result" where
  "evaluate_for_block E vm config pending_state new_transaction =
     ebind (evaluate E vm new_transaction True (fresh_evaluation E config pending_state False)) (\<lambda>s1.
     if operations (p_result_trx s1) \<noteq> [] then
       ebind (evaluate E vm (p_result_trx s1) True (fresh_evaluation E config pending_state True)) (\<lambda>s2.
       if \<not> pays_enough config (es_imessage_length s1) (paid_fees s2) then Inr None
       else ebind (apply_to_previous E (cur s2)) (\<lambda>c.
              Inr (Some (block_result_trx E config (p_result_trx s1), c))))
     else if \<not> pays_enough config (es_imessage_length s1) (paid_fees s1) then Inr None
     else ebind (apply_to_previous E (cur s1)) (\<lambda>c. Inr (Some (new_transaction, c))))"

definition select_transaction ::
  "env \<Rightarrow> vm \<Rightarrow> DelegateConfig \<Rightarrow> database \<Rightarrow> nat \<Rightarrow> chain \<Rightarrow> SignedTransaction \<Rightarrow>
     ((SignedTransaction \<times> chain) option) result" where
  "select_transaction E vm config d bsize pending_state trx =
     (if excluded E config bsize trx then Inr None
      else ebind (check_asset_transfer d trx) (\<lambda>ok.
             if \<not> ok then Inr None else evaluate_for_block E vm config pending_state trx))"

text \<open>
  The loop over the pool. \<open>in_time n\<close> tells whether the production time has not run out when the
  \<open>n\<close>th transaction of the pool is looked at; an exception leaves the transaction out.
\<close>

fun select_transactions ::
  "env \<Rightarrow> vm \<Rightarrow> DelegateConfig \<Rightarrow> database \<Rightarrow> (nat \<Rightarrow> bool) \<Rightarrow> nat \<Rightarrow> SignedTransaction list \<Rightarrow>
     nat \<Rightarrow> chain \<Rightarrow> SignedTransaction list \<Rightarrow> SignedTransaction list" where
  "select_transactions E vm config d in_time n [] bsize c chosen = chosen"
| "select_transactions E vm config d in_time n (trx # rest) bsize c chosen =
     (if \<not> in_time n then chosen
      else case select_transaction E vm config d bsize c trx of
             Inr (Some (trx', c')) \<Rightarrow>
               if length (chosen @ [trx']) \<ge> block_max_transaction_count config then chosen @ [trx']
               else select_transactions E vm config d in_time (Suc n) rest
                      (bsize + trx_data_size E trx') c' (chosen @ [trx'])
           | _ \<Rightarrow> select_transactions E vm config d in_time (Suc n) rest bsize c chosen)"

definition empty_block :: FullBlock where
  "empty_block = \<lparr>bh_previous = 0, bh_block_num = 0, bh_timestamp = 0, bh_transaction_digest = 0,
     bh_next_secret_hash = 0, bh_previous_secret = 0, bh_delegate_signature = 0,
     user_transactions = []\<rparr>"

definition block_transactions ::
  "env \<Rightarrow> block_lib \<Rightarrow> vm \<Rightarrow> DelegateConfig \<Rightarrow> (nat \<Rightarrow> bool) \<Rightarrow> node \<Rightarrow> SignedTransaction list" where
  "block_transactions E B vm config in_time s =
     (if block_max_transaction_count config > 0 \<and> block_max_size config > block_size B empty_block
      then select_transactions E vm config (node_db s) in_time 0
             (map es_trx (get_pending_transactions s)) (block_size B empty_block)
             (Pending new_pending (self_chain s)) []
      else [])"

definition generate_block ::
  "env \<Rightarrow> block_lib \<Rightarrow> vm \<Rightarrow> (nat \<Rightarrow> bool) \<Rightarrow> time \<Rightarrow> DelegateConfig \<Rightarrow> node \<Rightarrow> FullBlock" where
  "generate_block E B vm in_time block_timestamp config s =
     (let head_block = head_block_header s;
          b = empty_block\<lparr>user_transactions := block_transactions E B vm config in_time s,
                bh_previous := (if bh_block_num head_block > 0 then header_id B head_block else 0),
                bh_block_num := (bh_block_num head_block + 1) mod 2 ^ 32,
                bh_timestamp := block_timestamp\<rparr>
      in b\<lparr>bh_transaction_digest := calculate_transaction_digest B (mk_DigestBlock E b)\<rparr>)"

section \<open>Queries\<close>

definition is_known_block :: "block_id \<Rightarrow> node \<Rightarrow> bool" where
  "is_known_block bid s = (case map_of (fork_db s) bid of Some f \<Rightarrow> is_known f | None \<Rightarrow> False)"

definition is_included_block :: "block_id \<Rightarrow> node \<Rightarrow> bool" where
  "is_included_block bid s = (case map_of (fork_db s) bid of Some f \<Rightarrow> is_included f | None \<Rightarrow> False)"

lemmas pool_defs =
  fee_before_def pool_chain_def apply_to_previous_def paid_fees_def pool_skipexec_def
  evaluate_in_pool_def evaluate_transaction_def get_transaction_error_def clear_result_def
  index_pending_def required_relay_fee_def store_pending_transaction_def
  get_pending_transactions_def revalidate_pending_def scan_withdraw_def scan_deposit_def
  transfer_fits_def check_asset_transfer_def excluded_def pays_enough_def block_result_trx_def
  fresh_evaluation_def evaluate_for_block_def select_transaction_def empty_block_def
  block_transactions_def generate_block_def

declare pool_defs [eval_simps]

end
