(* ===== verification/Pool_Laws.thy ===== *)
theory Pool_Laws
  imports Pending_Pool Delegates "HOL-Library.Sublist"
begin

text \<open>
  Properties of the pool of pending transactions and of the blocks made of it: the index by fee
  stays consistent with the stored transactions, a block respects the limits of the delegate's
  configuration, and its header is one that \<open>verify_header\<close> accepts in its slot.
\<close>

section \<open>The index by fee\<close>

lemma fee_before_linear: "a = b \<or> fee_before a b \<or> fee_before b a"
  by (auto simp: fee_before_def prod_eq_iff)

lemma fee_before_trans: "fee_before a b \<Longrightarrow> fee_before b c \<Longrightarrow> fee_before a c"
  by (auto simp: fee_before_def)

lemma fee_before_irrefl [simp]: "\<not> fee_before a a"
  by (simp add: fee_before_def)

lemma set_fee_index_set: "set (fee_index_set k v m) \<subseteq> insert (k, v) (set m)"
  by (induction k v m rule: fee_index_set.induct) auto

lemma keys_fee_index_set: "fst ` set (fee_index_set k v m) = insert k (fst ` set m)"
  by (induction k v m rule: fee_index_set.induct) auto

lemma sorted_fee_index_set:
  assumes "sorted_wrt fee_before (map fst m)"
  shows "sorted_wrt fee_before (map fst (fee_index_set k v m))"
  using assms
proof (induction k v m rule: fee_index_set.induct)
  case (2 k v k' v' m)
  have *: "(x, w) \<in> set (fee_index_set k v m) \<Longrightarrow> (x, w) = (k, v) \<or> (x, w) \<in> set m" for x w
    using set_fee_index_set [of k v m] by auto
  show ?case using 2 fee_before_linear [of k k'] fee_before_trans [of k k']
    by (auto dest!: *)
qed auto

text \<open>
  A consistent pool: the stored transactions are under their ids, the index is ordered by fee
  with one entry for an id, and an entry holds the stored transaction of its id.
\<close>

definition pool_ok :: "env \<Rightarrow> node \<Rightarrow> bool" where
  "pool_ok E s \<longleftrightarrow>
     smap_ok (pending_transaction_db s) \<and>
     (\<forall>k t. map_of (pending_transaction_db s) k = Some t \<longrightarrow> trx_id E t = k) \<and>
     sorted_wrt fee_before (map fst (pending_fee_index s)) \<and>
     distinct (map (snd \<circ> fst) (pending_fee_index s)) \<and>
     (\<forall>x \<in> set (pending_fee_index s).
        map_of (pending_transaction_db s) (snd (fst x)) = Some (es_trx (snd x)))"

lemma ids_fee_index_set:
  "(snd \<circ> fst) ` set (fee_index_set (fee, k) v m) = insert k ((snd \<circ> fst) ` set m)"
proof -
  have "snd ` fst ` set (fee_index_set (fee, k) v m) = snd ` insert (fee, k) (fst ` set m)"
    by (simp only: keys_fee_index_set)
  then show ?thesis by (simp add: image_image)
qed

lemma fee_index_set_ids:
  assumes "distinct (map (snd \<circ> fst) m)" "k \<notin> (snd \<circ> fst) ` set m"
  shows "distinct (map (snd \<circ> fst) (fee_index_set (fee, k) v m))"
  using assms
proof (induction "(fee, k)" v m rule: fee_index_set.induct)
  case (2 v k' v' m)
  then show ?case using ids_fee_index_set [of fee k v m] by (auto simp: comp_def)
qed auto

section \<open>Evaluation in the pool\<close>

lemma lift_chain_trx: "lift_chain f s = Inr s' \<Longrightarrow> es_trx s' = es_trx s"
  by (auto simp: lift_chain_def)

lemma finish_transaction_trx:
  "finish_transaction E t result s = Inr (b, s') \<Longrightarrow> es_trx s' = result"
  by (auto simp: finish_transaction_def store_transaction_def Let_def dest!: lift_chain_trx)

text \<open>The evaluation of a transaction of its own ends with that transaction in the state.\<close>

lemma evaluate_core_trx:
  assumes "evaluate_core E vm t s = Inr (b, s')" "origin_trx_basic_verify t"
  shows "es_trx s' = t"
proof (cases "operations t")
  case Nil
  then show ?thesis using assms(1)
    by (auto simp: evaluate_core.simps Let_def dest!: finish_transaction_trx)
next
  case (Cons first rest)
  then have "op_type first \<noteq> transaction_op_type"
    using assms(2) by (auto simp: origin_trx_basic_verify_def)
  then show ?thesis using assms(1) Cons
    by (auto simp: evaluate_core.simps Let_def dest!: finish_transaction_trx)
qed

lemma evaluate_in_pool_trx:
  assumes "evaluate_in_pool E vm s trx fee vme skip thr = Inr (es, pool)"
  shows "es_trx es = trx"
  using assms
  by (auto simp: evaluate_in_pool_def Let_def evaluate_core_trx dest!: evaluate_core_trx lift_chain_trx
      split: if_splits)

lemma evaluate_transaction_Returns:
  assumes "evaluate_transaction E vm trx fee vme skip thr s = (Returns es, s')"
  obtains p where "s' = s\<lparr>pending_trx_state := p\<rparr>" "es_trx es = trx"
proof -
  obtain pool where e: "evaluate_in_pool E vm s trx fee vme skip thr = Inr (es, pool)"
    and s': "s' = (case pool of Pending p _ \<Rightarrow> s\<lparr>pending_trx_state := p\<rparr> | _ \<Rightarrow> s)"
    using assms unfolding evaluate_transaction_def
    by (auto simp: act_defs split: sum.splits chain.splits)
  have "\<exists>p. s' = s\<lparr>pending_trx_state := p\<rparr>"
    using s' exI [of "\<lambda>p. s = s\<lparr>pending_trx_state := p\<rparr>" "pending_trx_state s"] by (cases pool) auto
  then show ?thesis using that evaluate_in_pool_trx [OF e] by blast
qed

lemma evaluate_transaction_Throws:
  "evaluate_transaction E vm trx fee vme skip thr s = (Throws e, s') \<longleftrightarrow>
     evaluate_in_pool E vm s trx fee vme skip thr = Inl e \<and> s' = s"
  unfolding evaluate_transaction_def by (auto simp: act_defs split: sum.splits chain.splits)

lemma evaluate_transaction_total:
  "evaluate_transaction E vm trx fee vme skip thr s \<noteq> (Diverges, s')"
  unfolding evaluate_transaction_def by (auto simp: act_defs split: sum.splits chain.splits)

lemma clear_result_trx [simp]: "es_trx (clear_result es) = es_trx es"
  by (simp add: clear_result_def set_result_ops_def)


section \<open>The invariant of the pool\<close>

definition indexed_ids :: "node \<Rightarrow> trx_id set" where
  "indexed_ids s = (snd \<circ> fst) ` set (pending_fee_index s)"

lemma pool_ok_state [simp]: "pool_ok E (s\<lparr>pending_trx_state := p\<rparr>) = pool_ok E s"
  by (simp add: pool_ok_def)

lemma indexed_ids_state [simp]: "indexed_ids (s\<lparr>pending_trx_state := p\<rparr>) = indexed_ids s"
  by (simp add: indexed_ids_def)

lemma indexed_stored: "pool_ok E s \<Longrightarrow> k \<in> indexed_ids s \<Longrightarrow> map_of (pending_transaction_db s) k \<noteq> None"
  by (force simp: pool_ok_def indexed_ids_def)

lemma pool_ok_store:
  assumes "pool_ok E s" "map_of (pending_transaction_db s) k = None" "trx_id E trx = k"
  shows "pool_ok E (s\<lparr>pending_transaction_db := smap_set k trx (pending_transaction_db s)\<rparr>)"
  using assms by (fastforce simp: pool_ok_def map_of_smap_set)

lemma pool_ok_index:
  assumes "pool_ok E s" "k \<notin> indexed_ids s" "map_of (pending_transaction_db s) k = Some (es_trx es)"
  shows "pool_ok E (s\<lparr>pending_fee_index := fee_index_set (fee, k) es (pending_fee_index s)\<rparr>)"
    "indexed_ids (s\<lparr>pending_fee_index := fee_index_set (fee, k) es (pending_fee_index s)\<rparr>) =
       insert k (indexed_ids s)"
proof -
  show ids: "indexed_ids (s\<lparr>pending_fee_index := fee_index_set (fee, k) es (pending_fee_index s)\<rparr>) =
       insert k (indexed_ids s)"
    using ids_fee_index_set [of fee k es "pending_fee_index s"] by (simp add: indexed_ids_def)
  have "\<forall>x \<in> set (fee_index_set (fee, k) es (pending_fee_index s)).
      map_of (pending_transaction_db s) (snd (fst x)) = Some (es_trx (snd x))"
    using assms(1,3) set_fee_index_set [of "(fee, k)" es "pending_fee_index s"]
    by (auto simp: pool_ok_def dest!: subsetD)
  then show "pool_ok E (s\<lparr>pending_fee_index := fee_index_set (fee, k) es (pending_fee_index s)\<rparr>)"
    using assms(1,2) by (simp add: pool_ok_def sorted_fee_index_set fee_index_set_ids indexed_ids_def)
qed

lemma pool_ok_discard:
  assumes "pool_ok E s" "set ks \<inter> indexed_ids s = {}"
  shows "pool_ok E (s\<lparr>pending_transaction_db := fold smap_del ks (pending_transaction_db s)\<rparr>)"
proof -
  have m: "map_of (fold smap_del ks db) k = (if k \<in> set ks then None else map_of db k)" for db k
    by (induction ks arbitrary: db) (simp_all add: map_of_smap_del)
  have "smap_ok (fold smap_del ks db)" if "smap_ok db" for db
    using that by (induction ks arbitrary: db) simp_all
  then show ?thesis using assms by (auto simp: pool_ok_def indexed_ids_def m image_iff disjoint_iff)
qed

lemma revalidate_loop_ok:
  assumes "revalidate_loop E vm rest n discard s = (Returns ks, s')" "pool_ok E s"
    and "\<forall>(k, t) \<in> set rest. map_of (pending_transaction_db s) k = Some t"
    and "distinct (map fst rest)" "fst ` set rest \<inter> (indexed_ids s \<union> set discard) = {}"
    and "set discard \<inter> indexed_ids s = {}"
  shows "pool_ok E s' \<and> set ks \<inter> indexed_ids s' = {} \<and>
    (\<exists>i p. s' = s\<lparr>pending_fee_index := i, pending_trx_state := p\<rparr>)"
  using assms
proof (induction rest arbitrary: n discard s)
  case Nil
  then have run: "ks = discard" "s' = s" by (simp_all add: act_defs)
  have "s' = s\<lparr>pending_fee_index := pending_fee_index s, pending_trx_state := pending_trx_state s\<rparr>"
    by (simp add: run)
  with Nil.prems(2,6) run(1) show ?case unfolding run(2) by blast
next
  case (Cons x rest)
  obtain k trx where x: "x = (k, trx)" by force
  show ?case
  proof (cases "evaluate_transaction E vm trx (relay_fee s) False True False s")
    case (Pair r s1)
    show ?thesis
    proof (cases r)
      case (Returns es)
      then obtain p where s1: "s1 = s\<lparr>pending_trx_state := p\<rparr>" "es_trx es = trx"
        using Pair by (auto elim!: evaluate_transaction_Returns)
      define s2 where "s2 = s1\<lparr>pending_fee_index := fee_index_set (get_fees es 0, k) (clear_result es) (pending_fee_index s1)\<rparr>"
      have ok: "pool_ok E s2" "indexed_ids s2 = insert k (indexed_ids s)"
        using pool_ok_index [of E s1 k "clear_result es" "get_fees es 0"] Cons.prems(2,3,5) s1
        by (simp_all add: s2_def x)
      have s2: "s2 = s\<lparr>pending_fee_index := fee_index_set (get_fees es 0, k) (clear_result es) (pending_fee_index s),
          pending_trx_state := p\<rparr>" by (simp add: s2_def s1(1))
      have run: "(if Suc n > ALP_BLOCKCHAIN_REVALIDATE_MAX_TRX_COUNT then aret discard
          else revalidate_loop E vm rest (Suc n) discard) s2 = (Returns ks, s')"
        using Cons.prems(1) Returns Pair by (simp add: x act_defs index_pending_def s2_def)
      show ?thesis
      proof (cases "Suc n > ALP_BLOCKCHAIN_REVALIDATE_MAX_TRX_COUNT")
        case True
        then have "ks = discard" "s' = s2" using run by (simp_all add: act_defs)
        moreover have "set discard \<inter> indexed_ids s2 = {}" using ok(2) Cons.prems(5,6) by (auto simp: x)
        ultimately show ?thesis using ok(1) s2 by blast
      next
        case False
        then have "revalidate_loop E vm rest (Suc n) discard s2 = (Returns ks, s')" using run by simp
        then have "pool_ok E s' \<and> set ks \<inter> indexed_ids s' = {} \<and>
            (\<exists>i p. s' = s2\<lparr>pending_fee_index := i, pending_trx_state := p\<rparr>)"
          by (rule Cons.IH) (use ok Cons.prems(3-6) in \<open>auto simp: x s2\<close>)
        then show ?thesis unfolding s2 by auto
      qed
    next
      case (Throws e)
      then have "s1 = s" using Pair by (simp add: evaluate_transaction_Throws)
      then have "revalidate_loop E vm rest n (discard @ [k]) s = (Returns ks, s')"
        using Cons.prems(1) Throws Pair by (simp add: x act_defs)
      then show ?thesis by (rule Cons.IH) (use Cons.prems(2-6) in \<open>auto simp: x\<close>)
    next
      case Diverges
      then show ?thesis using Pair by (simp add: evaluate_transaction_total)
    qed
  qed
qed

lemma revalidate_loop_returns:
  "\<exists>ks s'. revalidate_loop E vm rest n discard s = (Returns ks, s')"
proof (induction rest arbitrary: n discard s)
  case (Cons x rest)
  then show ?case
    by (cases x; cases "evaluate_transaction E vm (snd x) (relay_fee s) False True False s"; cases "fst (evaluate_transaction E vm (snd x) (relay_fee s) False True False s)")
      (auto simp: act_defs index_pending_def evaluate_transaction_total)
qed (simp add: act_defs)

lemma revalidate_pending_ok:
  assumes "pool_ok E s"
  shows "\<exists>s'. revalidate_pending E vm s = (Returns (), s') \<and> pool_ok E s'"
proof -
  let ?s0 = "s\<lparr>pending_fee_index := [], pending_trx_state := new_pending\<rparr>"
  obtain ks s1 where run: "revalidate_loop E vm (pending_transaction_db s) 0 [] ?s0 = (Returns ks, s1)"
    using revalidate_loop_returns by blast
  have ok: "pool_ok E ?s0" "smap_ok (pending_transaction_db s)" using assms by (simp_all add: pool_ok_def)
  have "pool_ok E s1 \<and> set ks \<inter> indexed_ids s1 = {} \<and>
      (\<exists>i p. s1 = ?s0\<lparr>pending_fee_index := i, pending_trx_state := p\<rparr>)"
    by (rule revalidate_loop_ok [OF run ok(1)])
      (use smap_ok_distinct [OF ok(2)] in \<open>auto simp: indexed_ids_def\<close>)
  then show ?thesis using run pool_ok_discard [of E s1 ks]
    by (auto simp: revalidate_pending_def act_defs)
qed

lemma store_pending_ok:
  assumes "pool_ok E s"
  shows "pool_ok E (snd (store_pending_transaction E vm trx over vme cache s))"
proof (cases "map_of (pending_transaction_db s) (trx_id E trx)")
  case None
  define fee where "fee = required_relay_fee (relay_fee s) (length (pending_fee_index s)) over"
  obtain r s1 where e: "evaluate_transaction E vm trx fee vme False cache s = (r, s1)" by force
  show ?thesis
  proof (cases r)
    case (Returns es)
    then obtain p where s1: "s1 = s\<lparr>pending_trx_state := p\<rparr>" "es_trx es = trx"
      using e by (auto elim!: evaluate_transaction_Returns)
    let ?k = "trx_id E trx"
    have db: "pool_ok E (s1\<lparr>pending_transaction_db := smap_set ?k trx (pending_transaction_db s1)\<rparr>)"
      using pool_ok_store [of E s1 ?k trx] assms None by (simp add: s1(1))
    have "pool_ok E (s1\<lparr>pending_transaction_db := smap_set ?k trx (pending_transaction_db s1),
        pending_fee_index := fee_index_set (paid_fees es, ?k) (clear_result es) (pending_fee_index s1)\<rparr>)"
      using pool_ok_index(1) [OF db, of ?k "clear_result es" "paid_fees es"] indexed_stored [OF assms, of ?k] None s1
      by (auto simp: indexed_ids_def)
    moreover have "s1\<lparr>pending_transaction_db := db, pending_fee_index := i\<rparr> =
        s1\<lparr>pending_fee_index := i, pending_transaction_db := db\<rparr>" for db i by simp
    ultimately show ?thesis using e Returns None
      by (simp add: store_pending_transaction_def act_defs Let_def fee_def index_pending_def)
  next
    case (Throws err)
    then have "s1 = s" using e by (simp add: evaluate_transaction_Throws)
    then show ?thesis using e Throws None assms
      by (simp add: store_pending_transaction_def act_defs Let_def fee_def)
  next
    case Diverges
    then show ?thesis using e by (simp add: evaluate_transaction_total)
  qed
qed (simp add: store_pending_transaction_def act_defs Let_def assms)

text \<open>The stored transactions are in order and under their ids.\<close>

definition ids_ok :: "env \<Rightarrow> (trx_id \<times> SignedTransaction) list \<Rightarrow> bool" where
  "ids_ok E db \<longleftrightarrow> smap_ok db \<and> (\<forall>k t. map_of db k = Some t \<longrightarrow> trx_id E t = k)"

lemma ids_ok_del: "ids_ok E db \<Longrightarrow> ids_ok E (smap_del k db)"
  by (simp add: ids_ok_def map_of_smap_del)

lemma clear_pending_trx_ids:
  assumes "ids_ok E (pending_transaction_db s)"
  shows "ids_ok E (pending_transaction_db (snd (clear_pending_trx E trx u s)))"
proof (cases "operations trx")
  case (Cons op ops)
  then show ?thesis
    by (cases op) (simp_all add: clear_pending_trx_def act_defs ids_ok_del assms)
qed (simp add: clear_pending_trx_def act_defs ids_ok_del assms)

lemma clear_pending_ok:
  assumes "clear_pending E b s = (Returns (), s')" "pool_ok E s"
  shows "pool_ok E s'"
proof -
  obtain s1 where f: "afold (clear_pending_trx E) (user_transactions b) () s = (Returns (), s1)"
    and s': "s' = s1\<lparr>pending_fee_index := [], pending_trx_state := new_pending\<rparr>"
    using assms(1) by (auto simp: clear_pending_def abind_Returns act_Returns)
  have "ids_ok E (pending_transaction_db (snd (afold (clear_pending_trx E) (user_transactions b) () s)))"
  proof (rule afold_keeps)
    show "ids_ok E (pending_transaction_db s)" using assms(2) by (simp add: pool_ok_def ids_ok_def)
  qed (rule clear_pending_trx_ids)
  then show ?thesis by (simp add: f s' pool_ok_def ids_ok_def)
qed

text \<open>
  C8 (invariant). The pool stays consistent: the stored transactions are under their ids, the index by fee
  is sorted, has one entry for an id and holds the stored transaction of that id. This survives
  \<open>store_pending_transaction\<close>, whatever its outcome, \<open>revalidate_pending\<close>, which always returns, and
  the \<open>clear_pending\<close> of an accepted block.
\<close>

theorem pool_stays_consistent:
  assumes "pool_ok E s"
  shows "pool_ok E (snd (store_pending_transaction E vm trx override_limits contract_vm_exec cache s)) \<and>
    (\<exists>s1. revalidate_pending E vm s = (Returns (), s1) \<and> pool_ok E s1) \<and>
    (\<forall>s2. clear_pending E b s = (Returns (), s2) \<longrightarrow> pool_ok E s2)"
  using store_pending_ok [OF assms] revalidate_pending_ok [OF assms] clear_pending_ok [OF _ assms]
  by blast

section \<open>The transactions of a block\<close>

text \<open>How a transaction of the block relates to the one of the pool it comes from.\<close>

definition block_entry :: "env \<Rightarrow> DelegateConfig \<Rightarrow> SignedTransaction \<Rightarrow> SignedTransaction \<Rightarrow> bool" where
  "block_entry E config origin t \<longleftrightarrow>
     trx_data_size E origin \<le> transaction_max_size config \<and>
     trx_id E origin \<notin> set (transaction_blacklist config) \<and>
     (\<forall>op \<in> set (operations origin). op_type op \<notin> set (operation_blacklist config)) \<and>
     (t = origin \<or> (\<exists>result. operations result \<noteq> [] \<and> t = block_result_trx E config result))"

lemma select_transaction_entry:
  assumes "select_transaction E vm config d n c trx = Inr (Some (t, c'))"
  shows "block_entry E config trx t \<and> n + trx_data_size E trx \<le> block_max_size config"
  using assms
  by (auto simp: select_transaction_def evaluate_for_block_def excluded_def block_entry_def split: if_splits) blast+

lemma select_transactions_entries:
  assumes "length chosen < block_max_transaction_count config"
    and "bsize = base + (\<Sum>t \<leftarrow> chosen. trx_data_size E t)"
    and "chosen \<noteq> [] \<longrightarrow> base + (\<Sum>t \<leftarrow> butlast chosen. trx_data_size E t) \<le> block_max_size config"
    and "txs = select_transactions E vm config d in_time n trxs bsize c chosen"
  shows "length txs \<le> block_max_transaction_count config \<and>
    (txs \<noteq> [] \<longrightarrow> base + (\<Sum>t \<leftarrow> butlast txs. trx_data_size E t) \<le> block_max_size config) \<and>
    (\<exists>origins added. txs = chosen @ added \<and> subseq origins trxs \<and>
       list_all2 (block_entry E config) origins added)"
  using assms
proof (induction trxs arbitrary: n bsize c chosen)
  case Nil
  then show ?case by auto
next
  case (Cons trx rest)
  show ?case
  proof (cases "\<exists>t c'. in_time n \<and> select_transaction E vm config d bsize c trx = Inr (Some (t, c'))")
    case True
    then obtain t c' where t: "in_time n" "select_transaction E vm config d bsize c trx = Inr (Some (t, c'))"
      by blast
    then have entry: "block_entry E config trx t" and fits: "bsize \<le> block_max_size config"
      using select_transaction_entry [OF t(2)] by auto
    show ?thesis
    proof (cases "length (chosen @ [t]) \<ge> block_max_transaction_count config")
      case True
      then have "txs = chosen @ [t]" using Cons.prems(4) t by simp
      moreover have "subseq [trx] (trx # rest)" by simp
      ultimately show ?thesis using Cons.prems(1,2) entry fits by fastforce
    next
      case False
      have "length txs \<le> block_max_transaction_count config \<and>
        (txs \<noteq> [] \<longrightarrow> base + (\<Sum>t \<leftarrow> butlast txs. trx_data_size E t) \<le> block_max_size config) \<and>
        (\<exists>origins added. txs = (chosen @ [t]) @ added \<and> subseq origins rest \<and>
           list_all2 (block_entry E config) origins added)"
        by (rule Cons.IH [of "chosen @ [t]" "bsize + trx_data_size E t" "Suc n" c'])
          (use False Cons.prems t fits in auto)
      then obtain origins added where "txs = chosen @ (t # added)" "subseq (trx # origins) (trx # rest)"
        "list_all2 (block_entry E config) (trx # origins) (t # added)"
        "length txs \<le> block_max_transaction_count config"
        "txs \<noteq> [] \<longrightarrow> base + (\<Sum>t \<leftarrow> butlast txs. trx_data_size E t) \<le> block_max_size config"
        using entry by auto
      then show ?thesis by blast
    qed
  next
    case False
    then consider "\<not> in_time n" | "txs = select_transactions E vm config d in_time (Suc n) rest bsize c chosen"
      using Cons.prems(4)
      by (cases "in_time n"; cases "select_transaction E vm config d bsize c trx")
        (auto split: option.splits)
    then show ?thesis
    proof cases
      case 1
      then show ?thesis using Cons.prems by auto
    next
      case 2
      from Cons.IH [OF Cons.prems(1-3) 2] show ?thesis by (blast intro: list_emb_Cons)
    qed
  qed
qed

lemma generate_block_fields:
  "user_transactions (generate_block E B vm in_time ts config s) = block_transactions E B vm config in_time s"
  "bh_block_num (generate_block E B vm in_time ts config s) = (bh_block_num (head_block_header s) + 1) mod 2 ^ 32"
  "bh_timestamp (generate_block E B vm in_time ts config s) = ts"
  "bh_previous (generate_block E B vm in_time ts config s) =
     (if bh_block_num (head_block_header s) > 0 then header_id B (head_block_header s) else 0)"
  "bh_transaction_digest (generate_block E B vm in_time ts config s) =
     trx_ids_hash B (map (trx_id E) (block_transactions E B vm config in_time s))"
  by (simp_all add: generate_block_def Let_def calculate_transaction_digest_def mk_DigestBlock_def
      DigestBlock.defs SignedBlockHeader.defs block_header_def)

lemma block_transactions_entries:
  fixes s :: node
  assumes "txs = block_transactions E B vm config in_time s"
  shows "length txs \<le> block_max_transaction_count config \<and>
    (txs \<noteq> [] \<longrightarrow> block_size B empty_block + (\<Sum>t \<leftarrow> butlast txs. trx_data_size E t) \<le> block_max_size config) \<and>
    (\<exists>origins. subseq origins (map (es_trx \<circ> snd) (pending_fee_index s)) \<and>
       list_all2 (block_entry E config) origins txs)"
proof (cases "block_max_transaction_count config > 0 \<and> block_max_size config > block_size B empty_block")
  case True
  with assms have "txs = select_transactions E vm config (node_db s) in_time 0
      (map es_trx (get_pending_transactions s)) (block_size B empty_block) (Pending new_pending (self_chain s)) []"
    by (simp add: block_transactions_def)
  from select_transactions_entries [OF _ _ _ this, of "block_size B empty_block"] True
  show ?thesis by (auto simp: get_pending_transactions_def)
next
  case False
  then have "txs = []" using assms by (auto simp: block_transactions_def)
  then show ?thesis by auto
qed


section \<open>The header of a block\<close>

text \<open>The cached header of the head block agrees with the database.\<close>

definition head_consistent :: "block_lib \<Rightarrow> node \<Rightarrow> bool" where
  "head_consistent B s \<longleftrightarrow>
     head_block_id s = (if bh_block_num (head_block_header s) > 0 then header_id B (head_block_header s) else 0) \<and>
     db_head_block_num (node_db s) = bh_block_num (head_block_header s) \<and>
     db_head_block_timestamp (node_db s) = bh_timestamp (head_block_header s)"

definition signed_with :: "digest \<Rightarrow> digest \<Rightarrow> nat \<Rightarrow> FullBlock \<Rightarrow> FullBlock" where
  "signed_with next_hash previous sig b = b\<lparr>bh_next_secret_hash := next_hash,
     bh_previous_secret := previous, bh_delegate_signature := sig\<rparr>"

lemma block_result_type: "result_trx_type (block_result_trx E config t) \<noteq> origin_transaction"
  by (simp add: block_result_trx_def)

lemma plain_block_ids:
  assumes "pool_ok E s" "txs = block_transactions E B vm config in_time s"
    and "\<forall>t \<in> set txs. result_trx_type t = origin_transaction"
  shows "distinct (map (trx_id E) txs)"
proof -
  let ?pool = "map (es_trx \<circ> snd) (pending_fee_index s)"
  obtain origins where o: "subseq origins ?pool" "list_all2 (block_entry E config) origins txs"
    using block_transactions_entries [OF assms(2)] by blast
  from o(2) assms(3) have "txs = origins"
    by (induction rule: list_all2_induct) (auto simp: block_entry_def block_result_type)
  moreover have "map (trx_id E) ?pool = map (snd \<circ> fst) (pending_fee_index s)"
    using assms(1) by (auto simp: pool_ok_def)
  then have "distinct (map (trx_id E) ?pool)" using assms(1) by (simp only: pool_ok_def)
  ultimately show ?thesis
    using subseq_map [OF o(1), of "trx_id E"] by (metis subseq_conv_nths distinct_nthsI)
qed

text \<open>
  C9 (refinement). A block made by \<open>generate_block\<close> and signed extends the chain of its node: if it holds no
  contract results, \<open>verify_header\<close> accepts it exactly if its time is a slot after the head block
  and not too far ahead, and the signer is the delegate of that slot. The number, the link, the
  digest and the uniqueness of the transactions are never at fault.
\<close>

theorem generated_block_verifies:
  assumes "pool_ok E s" "head_consistent B s"
    and "\<forall>t \<in> set (user_transactions (generate_block E B vm in_time ts config s)).
           result_trx_type t = origin_transaction"
  shows "verify_header E B (node_db s) (head_block_id s)
      (mk_DigestBlock E (signed_with next_hash prev sig (generate_block E B vm in_time ts config s))) key = Inr () \<longleftrightarrow>
    (bh_block_num (generate_block E B vm in_time ts config s) > 1 \<longrightarrow> bh_timestamp (head_block_header s) < ts) \<and>
    ALP_BLOCKCHAIN_BLOCK_INTERVAL_SEC dvd ts \<and>
    ts \<le> wall_clock E + 2 * ALP_BLOCKCHAIN_BLOCK_INTERVAL_SEC \<and>
    (\<exists>active a. get_active_delegates (Database (node_db s)) = Inr active \<and>
       get_slot_signee (Database (node_db s)) ts active = Inr a \<and> signing_key a = Inr key)"
  using assms(2) plain_block_ids [OF assms(1) refl assms(3) [unfolded generate_block_fields(1)]]
  by (auto simp: verify_header_def signed_with_def mk_DigestBlock_def block_header_def
      SignedBlockHeader.defs DigestBlock.defs generate_block_fields validate_digest_def
      calculate_transaction_digest_def validate_unique_def insert_all_new_distinct dvd_eq_mod_eq_0
      head_consistent_def)

section \<open>Pure transfers\<close>

definition is_transfer_op :: "Operation \<Rightarrow> bool" where
  "is_transfer_op op = (case op of withdraw_op _ \<Rightarrow> True | deposit_op _ \<Rightarrow> True
     | imessage_memo_op _ \<Rightarrow> True | define_slate_op _ \<Rightarrow> True | _ \<Rightarrow> False)"

definition withdrawals :: "Operation list \<Rightarrow> WithdrawOperation list" where
  "withdrawals ops = concat (map (\<lambda>op. case op of withdraw_op w \<Rightarrow> [w] | _ \<Rightarrow> []) ops)"

definition deposits_of :: "Operation list \<Rightarrow> DepositOperation list" where
  "deposits_of ops = concat (map (\<lambda>op. case op of deposit_op x \<Rightarrow> [x] | _ \<Rightarrow> []) ops)"

definition withdrawn_asset :: "database \<Rightarrow> WithdrawOperation \<Rightarrow> asset_id option" where
  "withdrawn_asset d w = map_option bal_asset_id (balance_lookup_by_id (Database d) (wd_balance_id w))"

definition other_assets :: "database \<Rightarrow> Operation list \<Rightarrow> asset_id set" where
  "other_assets d ops = {k. k \<noteq> 0 \<and> Some k \<in> withdrawn_asset d ` set (withdrawals ops)}"

lemma op_lists_simps [simp]:
  "withdrawals [] = []" "deposits_of [] = []"
  "withdrawals (withdraw_op w # ops) = w # withdrawals ops"
  "deposits_of (withdraw_op w # ops) = deposits_of ops"
  "withdrawals (deposit_op x # ops) = withdrawals ops"
  "deposits_of (deposit_op x # ops) = x # deposits_of ops"
  "withdrawals (imessage_memo_op m # ops) = withdrawals ops"
  "deposits_of (imessage_memo_op m # ops) = deposits_of ops"
  "withdrawals (define_slate_op l # ops) = withdrawals ops"
  "deposits_of (define_slate_op l # ops) = deposits_of ops"
  by (simp_all add: withdrawals_def deposits_of_def)

lemma other_assets_simps [simp]:
  "other_assets d [] = {}"
  "other_assets d (withdraw_op w # ops) =
     (case withdrawn_asset d w of None \<Rightarrow> {} | Some k \<Rightarrow> {k} - {0}) \<union> other_assets d ops"
  "other_assets d (deposit_op x # ops) = other_assets d ops"
  "other_assets d (imessage_memo_op m # ops) = other_assets d ops"
  "other_assets d (define_slate_op l # ops) = other_assets d ops"
  by (auto simp: other_assets_def split: option.splits)

lemma wrap64_plus [simp]: "wrap64 (wrap64 x + y) = wrap64 (x + y)"
  by (simp add: wrap64_def mod_simps) (metis (no_types) add.assoc add.commute diff_add_cancel mod_add_left_eq)

text \<open>What the loop has gathered when it reaches its end.\<close>

lemma scan_transfer_pure:
  assumes "\<forall>op \<in> set ops. is_transfer_op op"
    and "in_int64 (ts_withdraw_amount t)" "in_int64 (ts_deposit_amount t)"
  shows "scan_transfer d ops t = Inr (Some (Some t')) \<longleftrightarrow>
     (\<forall>w \<in> set (withdrawals ops). withdrawn_asset d w \<noteq> None) \<and>
     other_assets d ops \<union> ({ts_withdraw_asset t} - {0}) = {ts_withdraw_asset t'} - {0} \<and>
     t' = \<lparr>ts_withdraw_amount = wrap64 (ts_withdraw_amount t + (\<Sum>w \<leftarrow> withdrawals ops. wd_amount w)),
           ts_deposit_amount = wrap64 (ts_deposit_amount t + (\<Sum>x \<leftarrow> deposits_of ops. dep_amount x)),
           ts_deposit_asset = (case rev (deposits_of ops) of [] \<Rightarrow> ts_deposit_asset t | x # _ \<Rightarrow> cond_asset_id (dep_condition x)),
           ts_withdraw_asset = ts_withdraw_asset t',
           ts_deposit_num = ts_deposit_num t + length (deposits_of ops)\<rparr>"
  using assms
proof (induction ops arbitrary: t)
  case Nil
  then show ?case by (cases t; cases t') (auto)
next
  case (Cons op ops)
  note prems = Cons.prems and IH = Cons.IH
  show ?case
  proof (cases op)
    case (withdraw_op w)
    show ?thesis 
    proof (cases "balance_lookup_by_id (Database d) (wd_balance_id w)")
      case None
      then show ?thesis by (simp add: withdraw_op scan_withdraw_def withdrawn_asset_def)
    next
      case (Some b)
      then have wa: "withdrawn_asset d w = Some (bal_asset_id b)" by (simp add: withdrawn_asset_def)
      note run = withdraw_op wa Some Cons.IH scan_withdraw_def Let_def add.assoc
      consider "bal_asset_id b = 0"
        | "bal_asset_id b \<noteq> 0" "ts_withdraw_asset t \<noteq> 0" "ts_withdraw_asset t \<noteq> bal_asset_id b"
        | "bal_asset_id b \<noteq> 0" "ts_withdraw_asset t = 0"
        | "bal_asset_id b \<noteq> 0" "ts_withdraw_asset t = bal_asset_id b" by blast
      then show ?thesis
      proof cases
        case 1
        then show ?thesis using Cons.prems Some by (simp add: run cong: list.case_cong)
      next
        case 2
        then have "scan_transfer d (withdraw_op w # ops) t = Inr (Some None)" using Some by (simp add: run)
        moreover have "other_assets d (withdraw_op w # ops) \<union> ({ts_withdraw_asset t} - {0}) \<noteq> {x} - {0}" for x
        proof
          assume eq: "other_assets d (withdraw_op w # ops) \<union> ({ts_withdraw_asset t} - {0}) = {x} - {0}"
          have "ts_withdraw_asset t \<in> {x} - {0}" "bal_asset_id b \<in> {x} - {0}"
            using 2 unfolding eq [symmetric] by (simp_all add: wa)
          then show False using 2(3) by simp
        qed
        ultimately show ?thesis by (simp add: withdraw_op del: other_assets_simps)
      next
        case 3
        then show ?thesis using Cons.prems Some by (simp add: run cong: list.case_cong)
      next
        case 4
        then show ?thesis using Cons.prems Some by (simp add: run cong: list.case_cong)
      qed
    qed
  next
    case (deposit_op x)
    show ?thesis
    proof (cases "rev (deposits_of ops)")
      case Nil
      then show ?thesis using prems by (simp add: deposit_op IH scan_deposit_def)
    next
      case (Cons y ys)
      then show ?thesis using prems by (simp add: deposit_op IH scan_deposit_def add.assoc)
    qed
  qed (use Cons in \<open>simp_all add: is_transfer_op_def\<close>)
qed


lemma scan_transfer_not_None:
  "\<forall>op \<in> set ops. is_transfer_op op \<Longrightarrow> scan_transfer d ops t \<noteq> Inr None"
  by (induction ops arbitrary: t)
    (auto simp: is_transfer_op_def split: Operation.splits option.splits)

lemma ex_scan:
  "(\<exists>t. Q (ts_withdraw_asset t) \<and> t = R (ts_withdraw_asset t) \<and> F t) \<longleftrightarrow> (\<exists>k. Q k \<and> F (R k))"
  if "\<And>k. ts_withdraw_asset (R k) = k"
  by (metis that)

text \<open>
  Which transfers a block may hold. A transaction of withdrawals, deposits, messages and
  slates whose sums do not overflow passes \<open>check_asset_transfer\<close> exactly if it has at most one
  deposit, every balance it withdraws from exists, the withdrawals exceed the deposits by the fee
  of 1000, whatever the assets, the only asset besides the core asset that it withdraws is the one
  it deposits, and a named account is given exactly the deposit.
\<close>

theorem check_asset_transfer_iff:
  assumes "\<forall>op \<in> set (operations trx). is_transfer_op op"
    and "in_int64 (\<Sum>w \<leftarrow> withdrawals (operations trx). wd_amount w)"
    and "in_int64 (\<Sum>x \<leftarrow> deposits_of (operations trx). dep_amount x)"
    and "in_int64 ((\<Sum>x \<leftarrow> deposits_of (operations trx). dep_amount x) + 1000)"
  shows "check_asset_transfer d trx = Inr True \<longleftrightarrow>
     (\<exists>k. length (deposits_of (operations trx)) \<le> 1 \<and>
       (\<forall>x \<in> set (deposits_of (operations trx)). cond_asset_id (dep_condition x) = k) \<and>
       (deposits_of (operations trx) = [] \<longrightarrow> k = 0) \<and>
       (\<forall>w \<in> set (withdrawals (operations trx)). withdrawn_asset d w \<noteq> None) \<and>
       other_assets d (operations trx) = {k} - {0} \<and>
       (\<Sum>x \<leftarrow> deposits_of (operations trx). dep_amount x) + 1000 \<le>
         (\<Sum>w \<leftarrow> withdrawals (operations trx). wd_amount w) \<and>
       (alp_account trx \<noteq> [] \<longrightarrow> alp_inport_asset trx =
          mk_Asset (\<Sum>x \<leftarrow> deposits_of (operations trx). dep_amount x) k))"
proof -
  let ?ops = "operations trx" and ?t0 = "\<lparr>ts_withdraw_amount = 0, ts_deposit_amount = 0,
    ts_deposit_asset = 0, ts_withdraw_asset = 0, ts_deposit_num = 0\<rparr>"
  let ?R = "\<lambda>k. \<lparr>ts_withdraw_amount = (\<Sum>w \<leftarrow> withdrawals ?ops. wd_amount w),
    ts_deposit_amount = (\<Sum>x \<leftarrow> deposits_of ?ops. dep_amount x),
    ts_deposit_asset = (case rev (deposits_of ?ops) of [] \<Rightarrow> 0 | x # _ \<Rightarrow> cond_asset_id (dep_condition x)),
    ts_withdraw_asset = k, ts_deposit_num = length (deposits_of ?ops)\<rparr>"
  let ?Q = "\<lambda>k. (\<forall>w \<in> set (withdrawals ?ops). withdrawn_asset d w \<noteq> None) \<and> other_assets d ?ops = {k} - {0}"
  have "check_asset_transfer d trx = Inr True \<longleftrightarrow>
      (\<exists>t. scan_transfer d ?ops ?t0 = Inr (Some (Some t)) \<and> transfer_fits trx t)"
    using scan_transfer_not_None [OF assms(1), of d ?t0]
    by (auto simp: check_asset_transfer_def split: option.splits)
  also have "\<dots> \<longleftrightarrow> (\<exists>t. ?Q (ts_withdraw_asset t) \<and> t = ?R (ts_withdraw_asset t) \<and> transfer_fits trx t)"
    using assms by (simp add: scan_transfer_pure conj_assoc cong: list.case_cong)
  also have "\<dots> \<longleftrightarrow> (\<exists>k. ?Q k \<and> transfer_fits trx (?R k))"
    by (rule ex_scan) simp
  also have "\<dots> \<longleftrightarrow> (\<exists>k. length (deposits_of ?ops) \<le> 1 \<and>
       (\<forall>x \<in> set (deposits_of ?ops). cond_asset_id (dep_condition x) = k) \<and>
       (deposits_of ?ops = [] \<longrightarrow> k = 0) \<and>
       (\<forall>w \<in> set (withdrawals ?ops). withdrawn_asset d w \<noteq> None) \<and>
       other_assets d ?ops = {k} - {0} \<and>
       (\<Sum>x \<leftarrow> deposits_of ?ops. dep_amount x) + 1000 \<le> (\<Sum>w \<leftarrow> withdrawals ?ops. wd_amount w) \<and>
       (alp_account trx \<noteq> [] \<longrightarrow> alp_inport_asset trx =
          mk_Asset (\<Sum>x \<leftarrow> deposits_of ?ops. dep_amount x) k))"
    by (rule iff_exI, cases "deposits_of ?ops"; cases "alp_inport_asset trx")
      (use assms(4) in \<open>auto simp: transfer_fits_def not_less\<close>)
  finally show ?thesis .
qed


section \<open>A pool of one transfer\<close>

definition sample_pool :: node where
  "sample_pool = sample_node\<lparr>pending_transaction_db := [(3000, sample_transfer)],
     pending_fee_index := [((100000, 3000),
       (new_eval_state sample_env sample_chain False)\<lparr>es_trx := sample_transfer\<rparr>)]\<rparr>"

lemma sample_pool_ok: "pool_ok sample_env sample_pool"
  by (simp add: pool_ok_def sample_pool_def smap_ok_def trx_id_def sample_trx_def sample_env_def)

lemma sample_pool_block:
  "block_transactions sample_env sample_lib idle_vm default_DelegateConfig (\<lambda>_. True) sample_pool =
     [sample_transfer]"
  by (simp add: eval_simps sample_pool_def default_DelegateConfig_def ALP_BLOCKCHAIN_MAX_BLOCK_SIZE_def
      commit_defs cong: ebind_weak_cong)

theorem pool_stays_consistent_witness:
  "pool_ok sample_env (snd (store_pending_transaction sample_env idle_vm sample_transfer True False False sample_pool)) \<and>
   (\<exists>s. revalidate_pending sample_env idle_vm sample_pool = (Returns (), s) \<and> pool_ok sample_env s)"
  using pool_stays_consistent [OF sample_pool_ok, of idle_vm sample_transfer True False False] by blast

theorem generated_block_verifies_witness:
  "verify_header sample_env sample_lib sample_node_db 1000
     (mk_DigestBlock sample_env (signed_with 0 1 1
       (generate_block sample_env sample_lib idle_vm (\<lambda>_. True) 2970 default_DelegateConfig sample_pool))) 1 = Inr ()"
proof -
  have h: "head_consistent sample_lib sample_pool"
    by (simp add: head_consistent_def sample_pool_def eval_simps block_header_def)
  have slot: "\<exists>active a. get_active_delegates (Database sample_node_db) = Inr active \<and>
      get_slot_signee (Database sample_node_db) 2970 active = Inr a \<and> signing_key a = Inr 1"
    by (simp add: eval_simps cong: ebind_weak_cong)
  have fields: "node_db sample_pool = sample_node_db" "head_block_id sample_pool = 1000"
    "bh_timestamp (head_block_header sample_pool) = 2960"
    by (simp_all add: sample_pool_def sample_node_def block_header_def sample_head_def sample_block_def SignedBlockHeader.defs)
  have clock: "wall_clock sample_env = 5000" by (simp add: sample_env_def)
  show ?thesis
    using generated_block_verifies [OF sample_pool_ok h, of idle_vm "\<lambda>_. True" 2970 default_DelegateConfig 0 1 1 1] slot
    by (simp add: fields generate_block_fields sample_pool_block ALP_BLOCKCHAIN_BLOCK_INTERVAL_SEC_def
        sample_trx_def clock)
qed

theorem check_asset_transfer_iff_witness:
  "check_asset_transfer sample_db sample_transfer = Inr True"
  using check_asset_transfer_iff [of sample_transfer sample_db]
  by (simp add: sample_trx_def sample_withdraw_def sample_deposit_def is_transfer_op_def in_int64_def INT64_MIN_def
      INT64_MAX_def withdrawn_asset_def db_balance_lookup_by_id_def sample_db_def sample_balance_def
      bal_asset_id_def signature_condition_def)

end
