(* ===== verification/Asset_Text.thy ===== *)
theory Asset_Text
  imports Entries
begin

text \<open>
  Amounts as text: \<open>AssetEntry::amount_to_string\<close>, and how it fits \<open>asset_from_string\<close>. The
  digits of the whole part come from \<open>fc::to_pretty_string\<close>, which is the parameter \<open>pretty\<close>: it
  may group them, and then \<open>atoll\<close> stops at the first separator.
\<close>

definition digit_char :: "nat \<Rightarrow> char" where
  "digit_char n = ''0123456789'' ! n"

text \<open>\<open>fc::to_string(uint64_t)\<close>.\<close>

fun to_string :: "nat \<Rightarrow> string" where
  "to_string n = (if n < 10 then [digit_char n] else to_string (n div 10) @ [digit_char (n mod 10)])"

declare to_string.simps [simp del]

definition amount_to_string :: "(int \<Rightarrow> string) \<Rightarrow> AssetEntry \<Rightarrow> share \<Rightarrow> bool \<Rightarrow> string" where
  "amount_to_string pretty a amnt append_symbol =
     (let shares = u64 (if amnt \<ge> 0 then amnt else wrap64 (- amnt));
          prec = int (ast_precision a);
          decimal = to_string (nat (u64 (prec + shares mod prec)));
          str = pretty (wrap64 (shares div prec)) @ (CHR ''.'' # tl decimal) @
                (if append_symbol then '' '' @ ast_symbol a else [])
      in if amnt < 0 then ''-'' @ str else str)"

section \<open>Digits\<close>

lemma digit_cases:
  assumes "n < 10"
  obtains "n = 0" | "n = 1" | "n = 2" | "n = 3" | "n = 4" | "n = 5" | "n = 6" | "n = 7" | "n = 8" | "n = (9::nat)"
proof -
  have "n = 0 \<or> n = 1 \<or> n = 2 \<or> n = 3 \<or> n = 4 \<or> n = 5 \<or> n = 6 \<or> n = 7 \<or> n = 8 \<or> n = 9"
    using assms by arith
  then show ?thesis using that by blast
qed

lemma digit_char_classes:
  assumes "n < 10"
  shows "is_digit (digit_char n)" "\<not> is_space (digit_char n)" "digit_char n \<noteq> CHR ''.''"
    "digit_char n \<noteq> CHR ''-''" "digit_char n \<noteq> CHR ''+''" "digit_char n = CHR ''0'' \<longleftrightarrow> n = 0"
    "char_code (digit_char n) = 48 + int n"
  by (rule digit_cases [OF assms]; simp add: digit_char_def is_digit_def is_space_def char_code_def)+

text \<open>The five digits of a fraction.\<close>

definition five :: "nat \<Rightarrow> string" where
  "five f = map digit_char [f div 10 div 10 div 10 div 10, f div 10 div 10 div 10 mod 10,
     f div 10 div 10 mod 10, f div 10 mod 10, f mod 10]"

lemma ten_plus: "(10 * k + n) div 10 = k + n div 10" "(10 * k + n) mod 10 = n mod (10::nat)"
  by simp_all

lemma to_string_step: "10 \<le> n \<Longrightarrow> to_string n = to_string (n div 10) @ [digit_char (n mod 10)]"
  by (simp add: to_string.simps [of n])

lemma to_string_five:
  assumes "f < 100000"
  shows "tl (to_string (100000 + f)) = five f"
proof -
  have s: "to_string (10 * k + n) = to_string (k + n div 10) @ [digit_char (n mod 10)]" if "0 < k" for k n
    using to_string_step [of "10 * k + n"] that by (simp add: ten_plus)
  have top: "f div 10 div 10 div 10 div 10 < 10" using assms by (simp add: div_mult2_eq [symmetric])
  have "to_string (100000 + f) = to_string (1 + f div 10 div 10 div 10 div 10 div 10) @ five f"
    using s [of 10000 f] s [of 1000 "f div 10"] s [of 100 "f div 10 div 10"]
      s [of 10 "f div 10 div 10 div 10"] s [of 1 "f div 10 div 10 div 10 div 10"] top
    by (simp add: five_def)
  moreover have "to_string (1 + f div 10 div 10 div 10 div 10 div 10) = [digit_char 1]"
    using top by (simp add: to_string.simps)
  ultimately show ?thesis by simp
qed

lemma five_split:
  fixes f :: nat
  assumes "f < 100000"
  obtains a b c d e where "a < 10" "b < 10" "c < 10" "d < 10" "e < 10"
    "f = (((a * 10 + b) * 10 + c) * 10 + d) * 10 + e" "five f = map digit_char [a, b, c, d, e]"
proof (rule that)
  show "f div 10 div 10 div 10 div 10 < 10" using assms by (simp add: div_mult2_eq [symmetric])
  show "f = (((f div 10 div 10 div 10 div 10 * 10 + f div 10 div 10 div 10 mod 10) * 10 +
      f div 10 div 10 mod 10) * 10 + f div 10 mod 10) * 10 + f mod 10"
    by (simp only: div_mult_mod_eq)
qed (simp_all add: five_def)

lemma atoll_five:
  assumes "f < 100000"
  shows "atoll (five f) = int f"
proof (rule five_split [OF assms])
  fix a b c d e :: nat
  assume r: "a < 10" "b < 10" "c < 10" "d < 10" "e < 10"
    and f: "f = (((a * 10 + b) * 10 + c) * 10 + d) * 10 + e" and five: "five f = map digit_char [a, b, c, d, e]"
  have v: "digits_value 0 (five f) = int f"
    unfolding five by (simp add: digit_char_classes r) (simp add: f)
  have "atoll (five f) = clamp64 (digits_value 0 (five f))"
    by (simp add: atoll_def five digit_char_classes r)
  then show ?thesis using assms by (simp add: v clamp64_def INT64_MIN_def INT64_MAX_def)
qed

section \<open>The loops\<close>

text \<open>With five digits both scaling loops end, and the leading zeros undo the scaling.\<close>

lemma scale_up_step:
  assumes "0 \<le> x" "x < 100000"
  shows "scale_up 100000 x = scale_up 100000 (x * 10)"
proof -
  have "u32 x = x" "wrap64 (x * 10) = x * 10" using assms by (simp_all add: u32_def wrap64_def)
  then show ?thesis using assms by (simp add: scale_up.simps [of _ x])
qed

lemma scale_up_stop: "100000 \<le> x \<Longrightarrow> x < 1000000 \<Longrightarrow> scale_up 100000 x = Some x"
  by (simp add: scale_up.simps [of _ x] u32_def)

lemma scale_down_once:
  assumes "100000 \<le> x" "x < 1000000"
  shows "scale_down 100000 x = Some (x div 10)"
proof -
  have "u32 x = x" "u32 (x div 10) = x div 10" "x div 10 < 100000" using assms by (simp_all add: u32_def)
  then show ?thesis using assms
    by (simp add: scale_down.simps [of _ x] scale_down.simps [of _ "x div 10"] cdiv_nonneg)
qed

lemma scale_up_run:
  assumes "0 \<le> x" "10000 \<le> x * 10 ^ z" "x * 10 ^ z < 100000"
  shows "scale_up 100000 x = Some (x * 10 ^ z * 10)"
  using assms
proof (induction z arbitrary: x)
  case 0
  then show ?case using scale_up_step [of x] scale_up_stop [of "x * 10"] by simp
next
  case (Suc z)
  have "(1::int) \<le> 10 ^ Suc z" by (rule one_le_power) simp
  then have "x * 1 \<le> x * 10 ^ Suc z" using Suc.prems(1) by (rule mult_left_mono)
  then have "x < 100000" using Suc.prems(3) by linarith
  then show ?case using Suc.IH [of "x * 10"] Suc.prems scale_up_step [of x] by (simp add: ac_simps)
qed

lemma strip_zeros_run:
  assumes "0 \<le> x" "c \<noteq> CHR ''0''"
  shows "strip_zeros (replicate z (CHR ''0'') @ c # cs) (x * 10 ^ z) = x"
proof (induction z)
  case (Suc z)
  have "cdiv (x * 10 ^ Suc z) 10 = x * 10 ^ z" using assms(1) by (simp add: cdiv_nonneg)
  then show ?case using Suc by simp
qed (use assms(2) in simp)

lemma scaled_fraction:
  assumes "0 < f" "f < 100000"
  shows "\<exists>f1 f2. scale_up 100000 (int f) = Some f1 \<and> scale_down 100000 f1 = Some f2 \<and>
    strip_zeros (five f) f2 = int f"
proof (rule five_split [OF assms(2)])
  fix a b c d e :: nat
  assume r: "a < 10" "b < 10" "c < 10" "d < 10" "e < 10"
    and f: "f = (((a * 10 + b) * 10 + c) * 10 + d) * 10 + e" and five: "five f = map digit_char [a, b, c, d, e]"
  obtain z n cs where z: "map digit_char [a, b, c, d, e] = replicate z (CHR ''0'') @ digit_char n # cs"
    "0 < n" "n < 10" "10000 \<le> f * 10 ^ z" "f * 10 ^ z < 100000"
  proof -
    have zero: "digit_char 0 = CHR ''0''" by (simp add: digit_char_def)
    consider "0 < a" | "a = 0" "0 < b" | "a = 0" "b = 0" "0 < c" | "a = 0" "b = 0" "c = 0" "0 < d"
      | "a = 0" "b = 0" "c = 0" "d = 0" by blast
    then show ?thesis
    proof cases
      case 1
      show ?thesis by (rule that [of 0 a]) (use 1 f r assms in simp_all)
    next
      case 2
      show ?thesis by (rule that [of "Suc 0" b]) (use 2 f r zero in simp_all)
    next
      case 3
      show ?thesis by (rule that [of "Suc (Suc 0)" c]) (use 3 f r zero in simp_all)
    next
      case 4
      show ?thesis by (rule that [of "Suc (Suc (Suc 0))" d]) (use 4 f r zero in simp_all)
    next
      case 5
      show ?thesis by (rule that [of "Suc (Suc (Suc (Suc 0)))" e]) (use 5 f r zero assms in simp_all)
    qed
  qed
  have e: "int f * 10 ^ z = int (f * 10 ^ z)" by simp
  have iz: "10000 \<le> int f * 10 ^ z" "int f * 10 ^ z < 100000"
    unfolding e using z(4,5) by linarith+
  have "scale_down 100000 (int f * 10 ^ z * 10) = Some (int f * 10 ^ z)"
    using scale_down_once [of "int f * 10 ^ z * 10"] iz by simp
  moreover have "strip_zeros (five f) (int f * 10 ^ z) = int f"
    using strip_zeros_run [of "int f" "digit_char n" z cs] digit_char_classes(6) [OF z(3)] z(1,2) by (simp add: five)
  ultimately show ?thesis using scale_up_run [OF _ iz] by auto
qed

section \<open>Round trip\<close>

text \<open>
  Printing an amount and reading it back gives the amount, and the loops of the parser end,
  for every amount that is not negative, in the precision of five digits that \<open>is_power_of_ten\<close>
  admits, as long as \<open>atoll\<close> reads the printed whole part, that is, as long as
  \<open>to_pretty_string\<close> has not grouped its digits.
\<close>

theorem amount_string_roundtrip:
  assumes "ast_precision a = 100000" "0 \<le> x" "x \<le> INT64_MAX"
    and "atoll (pretty (x div 100000)) = x div 100000" "CHR ''.'' \<notin> set (pretty (x div 100000))"
  shows "asset_from_string a (amount_to_string pretty a x False) = Some (mk_Asset x (ast_id a))"
proof -
  let ?w = "pretty (x div 100000)"
  define f where "f = nat (x mod 100000)"
  have f: "f < 100000" "int f = x mod 100000" by (simp_all add: f_def nat_less_iff)
  have r: "u64 x = x" "wrap64 (x div 100000) = x div 100000" "u64 (100000 + x mod 100000) = 100000 + x mod 100000"
    "wrap64 (x div 100000 * 100000) = x div 100000 * 100000"
    using assms(2,3) by (simp_all add: u64_def wrap64_def INT64_MAX_def) 
  have printed: "amount_to_string pretty a x False = ?w @ CHR ''.'' # five f"
    using assms(1,2) to_string_five [OF f(1)] by (simp add: amount_to_string_def r nat_add_distrib f_def)
  have parts: "takeWhile (\<lambda>c. c \<noteq> CHR ''.'') (?w @ CHR ''.'' # five f) = ?w"
    "dropWhile (\<lambda>c. c \<noteq> CHR ''.'') (?w @ CHR ''.'' # five f) = CHR ''.'' # five f"
    using assms(5) by (auto simp: takeWhile_append dropWhile_append)
  have wx: "wrap64 x = x" using assms(2,3) by (simp add: wrap64_def INT64_MAX_def)
  have sum: "x div 100000 * 100000 + int f = x" by (simp add: f(2))
  show ?thesis
  proof (cases "f = 0")
    case True
    then have "atoll (five f) = 0" "x div 100000 * 100000 = x" using sum atoll_five [OF f(1)] by simp_all
    then show ?thesis by (simp add: asset_from_string_def printed parts assms(1,4) wx Let_def)
  next
    case False
    then obtain f1 f2 where l: "scale_up 100000 (int f) = Some f1" "scale_down 100000 f1 = Some f2"
      "strip_zeros (five f) f2 = int f" using scaled_fraction [OF _ f(1)] by auto
    have "wrap64 (x div 100000 * 100000 + int f) = x" unfolding sum by (rule wx)
    moreover have "five f \<noteq> []" by (simp add: five_def)
    moreover have "0 \<le> x div 100000 * 100000" using assms(2) by (simp add: pos_imp_zdiv_nonneg_iff)
    ultimately show ?thesis using False atoll_five [OF f(1)] l
      by (simp add: asset_from_string_def printed parts assms(1,4) r(4) Let_def)
  qed
qed


text \<open>The plain decimal digits, on which the round trip is run.\<close>

definition plain_digits :: "int \<Rightarrow> string" where
  "plain_digits n = to_string (nat n)"

definition coin :: AssetEntry where
  "coin = \<lparr>ast_id = 0, ast_symbol = ''ACT'', ast_name = ''ACT'', ast_description = [],
     ast_public_data = [], ast_issuer_account_id = 0, ast_precision = 100000,
     ast_registration_date = 0, ast_last_update = 0, ast_maximum_share_supply = 0,
     ast_current_share_supply = 0, ast_collected_fees = 0, ast_flags = 0,
     ast_issuer_permissions = 0, ast_transaction_fee = 0, ast_market_fee = 0,
     ast_authority = \<lparr>mm_required = 0, mm_owners = []\<rparr>\<rparr>"

theorem amount_string_roundtrip_witness:
  "asset_from_string coin (amount_to_string plain_digits coin 1200045 False) = Some (mk_Asset 1200045 0)"
proof -
  have "plain_digits 12 = ''12''" by (simp add: plain_digits_def to_string.simps digit_char_def)
  then show ?thesis
    using amount_string_roundtrip [of coin 1200045 plain_digits]
    by (simp add: coin_def INT64_MAX_def atoll_def is_space_def is_digit_def char_code_def clamp64_def INT64_MIN_def)
qed

text \<open>An amount between minus one unit and zero loses its sign: its whole part reads as zero.\<close>

lemma negative_amount_loses_sign:
  "asset_from_string coin (amount_to_string plain_digits coin (- 50000) False) = Some (mk_Asset 50000 0)"
proof -
  have "amount_to_string plain_digits coin (- 50000) False = ''-0.50000''"
    by (simp add: amount_to_string_def coin_def u64_def wrap64_def plain_digits_def to_string.simps digit_char_def)
  moreover have "scale_up 100000 50000 = Some 500000" using scale_up_run [of 50000 0] by simp
  moreover have "scale_down 100000 500000 = Some 50000" using scale_down_once [of 500000] by simp
  ultimately show ?thesis
    by (simp add: asset_from_string_def coin_def Let_def atoll_def is_space_def is_digit_def char_code_def
        clamp64_def INT64_MIN_def INT64_MAX_def wrap64_def)
qed

end
