(* ===== verification/Authority.thy ===== *)
theory Authority
  imports Delegates Conservation
begin

text \<open>
  Who may move and who may make shares: what a withdrawal and an issue have checked when they
  succeed, and two ways around these checks that the code leaves open.
\<close>

section \<open>Withdrawals\<close>

definition owner_signed :: "eval_state \<Rightarrow> BalanceEntry \<Rightarrow> bool" where
  "owner_signed s e \<longleftrightarrow>
     (case cond_data (bal_condition e) of
        data_signature d \<Rightarrow> sig_owner d \<in> set (es_signed_keys s)
      | data_multisig m \<Rightarrow>
          msig_required m \<le> length (filter (\<lambda>a. a \<in> set (es_signed_keys s)) (msig_owners m))
      | _ \<Rightarrow> False)"

lemma count_signatures_le:
  "\<not> skip_signature_check s \<Longrightarrow>
     count_signatures s owners \<le> length (filter (\<lambda>a. a \<in> set (es_signed_keys s)) owners)"
  by (simp add: count_signatures_def check_signature_def [abs_def])

lemma owner_authorises_signed:
  assumes "owner_authorises e s = Inr ()"
  shows "skip_signature_check s \<or> owner_signed s e"
  using assms count_signatures_le [of s]
  by (auto simp: owner_authorises_def owner_signed_def as_WithdrawWithSignature_def
      as_WithdrawWithMultisig_def check_signature_def Let_def
      split: if_splits withdraw_data.splits intro: order_trans)

text \<open>
  C32 (safety). A withdrawal that succeeds takes a positive amount that the balance holds, leaves the
  balance short by exactly this amount and every other balance alone, and has been signed by the
  owner of the balance, or by enough of its owners, unless the asset is retractable and its
  authority overrides the owner, or signatures are not checked at all.
\<close>

theorem withdrawal_is_authorised:
  assumes "WithdrawOperation_evaluate E op s = Inr s'" "ledger_ok E (cur s)"
    and "\<And>e. balance_lookup_by_id (cur s) (wd_balance_id op) = Some e \<Longrightarrow> in_int64 (bal_balance e)"
  shows "\<exists>e a. balance_lookup_by_id (cur s) (wd_balance_id op) = Some e \<and>
    0 < wd_amount op \<and> wd_amount op \<le> bal_balance e \<and>
    balance_lookup_by_id (cur s') = (balance_lookup_by_id (cur s))(wd_balance_id op \<mapsto>
      e\<lparr>bal_balance := bal_balance e - wd_amount op, bal_last_update := now E (cur s)\<rparr>) \<and>
    asset_lookup_by_id (cur s) (bal_asset_id e) = Some a \<and>
    (skip_signature_check s \<or> owner_signed s e \<or> issuer_override a s)"
proof -
  from assms(1) obtain e a s1 bal s2 s3 where
    e: "balance_lookup_by_id (cur s) (wd_balance_id op) = Some e"
    and amt: "0 < wd_amount op" "wd_amount op \<le> amount (get_spendable_balance e (now E (cur s)))"
    and a: "require_asset (bal_asset_id e) s = Inr a"
    and auth: "issuer_override a s \<or> owner_authorises e s = Inr ()"
    and vote: "vote_if_core e (wrap64 (- wd_amount op)) s = Inr s1"
    and bal: "safe_sub (bal_balance e) (wd_amount op) = Inr bal"
    and add: "add_balance (mk_Asset (wd_amount op) (bal_asset_id e)) s1 = Inr s2"
    and s3: "cur s3 = cur s2 \<and> es_balance s3 = es_balance s2"
    and store: "lift_chain (store_balance_entry E
          (e\<lparr>bal_balance := bal, bal_last_update := now E (cur s3)\<rparr>)) s3 = Inr s'"
    by (rule WithdrawOperation_run)
  have c: "cur s3 = cur s" using s3 add_balance_moves(2) [OF add] vote_if_core_frame [OF vote] by simp
  have ok: "live (cur s)" "balance_id E e = wd_balance_id op" "is_deposit_type (cond_type (bal_condition e))"
    using assms(2) e by (auto simp: ledger_ok_def keys_ok_def)
  have le: "wd_amount op \<le> bal_balance e" using amt by (auto simp: get_spendable_balance_def split: if_splits)
  then have "in_int64 (bal_balance e - wd_amount op)" using assms(3) [OF e] amt(1) by (simp add: int64_defs)
  then have b: "bal = bal_balance e - wd_amount op" using safe_sub_Inr [OF bal] by simp
  from store obtain c' where c': "cur s' = c'"
    and st: "BalanceEntry_store (wd_balance_id op) (e\<lparr>bal_balance := bal, bal_last_update := now E (cur s)\<rparr>) (cur s) = Inr c'"
    using ok(2) by (auto simp: lift_chain_def store_balance_entry_def balance_id_def c)
  have "v_balance (view c') = (balance_lookup_by_id (cur s))(wd_balance_id op \<mapsto>
      e\<lparr>bal_balance := bal, bal_last_update := now E (cur s)\<rparr>)"
    using balance_store.store_view [OF _ ok(1) st] by simp
  then have "balance_lookup_by_id (cur s') = (balance_lookup_by_id (cur s))(wd_balance_id op \<mapsto>
      e\<lparr>bal_balance := bal_balance e - wd_amount op, bal_last_update := now E (cur s)\<rparr>)"
    by (simp add: c' b)
  moreover have "asset_lookup_by_id (cur s) (bal_asset_id e) = Some a"
    using a by (auto simp: require_asset_def split: if_splits option.splits)
  ultimately show ?thesis using e amt(1) le auth owner_authorises_signed by blast
qed

section \<open>Issue\<close>

text \<open>
  C33 (bounds). An issue that succeeds was for an asset with an issuer, had the authority of the
  asset, and leaves a supply that has grown by the issued amount and is at most the maximum.
\<close>

theorem issue_within_maximum:
  assumes "IssueAssetOperation_evaluate E amnt s = Inr s'" "ledger_ok E (cur s)"
    and "\<And>a. asset_lookup_by_id (cur s) (asset_of amnt) = Some a \<Longrightarrow>
      in_int64 (ast_current_share_supply a) \<and> in_int64 (ast_maximum_share_supply a) \<and>
      0 \<le> ast_current_share_supply a"
    and "in_int64 (amount amnt)"
  shows "\<exists>a a'. asset_lookup_by_id (cur s) (asset_of amnt) = Some a \<and>
    asset_lookup_by_id (cur s') (asset_of amnt) = Some a' \<and>
    is_user_issued a \<and> verify_authority s (ast_authority a) \<and>
    ast_current_share_supply a' = ast_current_share_supply a + amount amnt \<and> 0 < amount amnt \<and>
    ast_current_share_supply a' \<le> ast_maximum_share_supply a'"
proof -
  from assms(1) obtain a s1 where
    a: "asset_lookup_by_id (cur s) (asset_of amnt) = Some a"
    and user: "is_user_issued a" "verify_authority s (ast_authority a)" "can_issue a amnt"
    and add: "add_balance amnt s = Inr s1"
    and store: "lift_chain (store_asset_entry
         (a\<lparr>ast_current_share_supply := wrap64 (ast_current_share_supply a + amount amnt),
            ast_last_update := now E (cur s1)\<rparr>)) s1 = Inr s'"
    by (auto simp: IssueAssetOperation_evaluate_def)
  have c: "cur s1 = cur s" by (rule add_balance_moves(2) [OF add])
  have ids: "ast_id a = asset_of amnt" "live (cur s)" using assms(2) a by (auto simp: ledger_ok_def keys_ok_def)
  have sup: "0 < amount amnt" "ast_current_share_supply a + amount amnt \<le> ast_maximum_share_supply a"
    "in_int64 (ast_current_share_supply a)" "in_int64 (ast_maximum_share_supply a)" "0 \<le> ast_current_share_supply a"
    using user(3) assms(3) [OF a] can_issue_iff [of a amnt] assms(4) by auto
  then have w: "wrap64 (ast_current_share_supply a + amount amnt) = ast_current_share_supply a + amount amnt"
    by (intro wrap64_id) (simp add: int64_defs)
  from store obtain c' where c': "cur s' = c'"
    and st: "AssetEntry_store (asset_of amnt) (a\<lparr>ast_current_share_supply := ast_current_share_supply a + amount amnt,
            ast_last_update := now E (cur s)\<rparr>) (cur s) = Inr c'"
    by (auto simp: lift_chain_def store_asset_entry_def c ids(1) w)
  have "v_asset (view c') = (asset_lookup_by_id (cur s))(asset_of amnt \<mapsto>
      a\<lparr>ast_current_share_supply := ast_current_share_supply a + amount amnt, ast_last_update := now E (cur s)\<rparr>)"
    using asset_store.store_view [OF _ ids(2) st] by simp
  then show ?thesis using a user sup by (simp add: c')
qed

section \<open>Instances\<close>

text \<open>A state in which the owners of two sample balances have signed.\<close>

definition signed_state :: eval_state where
  "signed_state = (new_eval_state sample_env sample_chain False)\<lparr>es_signed_keys := [11, 12]\<rparr>"

lemma signed_state_cur [simp]: "cur signed_state = sample_chain"
  by (simp add: signed_state_def new_eval_state_def)

theorem withdrawal_is_authorised_witness:
  "\<exists>s' e. WithdrawOperation_evaluate sample_env
      \<lparr>wd_balance_id = 2100, wd_amount = 1000000, wd_claim_input_data = []\<rparr> signed_state = Inr s' \<and>
     balance_lookup_by_id (cur s') 2100 = Some e \<and> bal_balance e = 3000000"
proof -
  let ?op = "\<lparr>wd_balance_id = 2100, wd_amount = 1000000, wd_claim_input_data = []\<rparr>"
  have "\<exists>s'. WithdrawOperation_evaluate sample_env ?op signed_state = Inr s'"
    by (rule not_isl_ex) (simp add: eval_simps signed_state_def cong: ebind_weak_cong)
  then obtain s' where s': "WithdrawOperation_evaluate sample_env ?op signed_state = Inr s'" by blast
  have bal: "balance_lookup_by_id (cur signed_state) 2100 = Some (sample_balance 11 0 4000000)"
    by (simp add: eval_simps)
  have rng: "in_int64 (bal_balance e)" if "balance_lookup_by_id (cur signed_state) (wd_balance_id ?op) = Some e" for e
    using that bal by (auto simp: sample_balance_def int64_defs)
  show ?thesis
    using withdrawal_is_authorised [OF s' _ rng] sample_ledger_ok bal s' by (auto simp: sample_balance_def)
qed

theorem issue_within_maximum_witness:
  "\<exists>s' a'. IssueAssetOperation_evaluate sample_env (mk_Asset 300 1) signed_state = Inr s' \<and>
     asset_lookup_by_id (cur s') 1 = Some a' \<and> ast_current_share_supply a' = 1000"
proof -
  have "\<exists>s'. IssueAssetOperation_evaluate sample_env (mk_Asset 300 1) signed_state = Inr s'"
    by (rule not_isl_ex) (simp add: eval_simps signed_state_def cong: ebind_weak_cong)
  then obtain s' where s': "IssueAssetOperation_evaluate sample_env (mk_Asset 300 1) signed_state = Inr s'" by blast
  have ast: "asset_lookup_by_id (cur signed_state) 1 = Some (sample_asset 1 ''ABC'' 2 700)"
    by (simp add: eval_simps)
  have rng: "in_int64 (ast_current_share_supply a) \<and> in_int64 (ast_maximum_share_supply a) \<and>
      0 \<le> ast_current_share_supply a"
    if "asset_lookup_by_id (cur signed_state) (asset_of (mk_Asset 300 1)) = Some a" for a
    using that ast by (auto simp: sample_asset_def int64_defs)
  show ?thesis
    using issue_within_maximum [OF s' _ rng] sample_ledger_ok ast s' by (auto simp: sample_asset_def int64_defs)
qed

section \<open>The signatures of a block\<close>

lemma new_eval_state_trx [simp]: "operations (es_trx (new_eval_state E c b)) = []"
  by (simp add: new_eval_state_def empty_transaction_def)

text \<open>
  The entries whose owners must have signed are collected from the transaction of the new
  evaluation state, which is still empty.
\<close>

lemma signature_verdict_void:
  "signature_verdict E trx ((new_eval_state E c b)\<lparr>skip_signature_check := v\<rparr>) = Inr True"
proof -
  have "transaction_entry_analy trx ((new_eval_state E c b)\<lparr>skip_signature_check := v\<rparr>) = Inr (True, [], [])"
    by (simp add: transaction_entry_analy_def)
  then show ?thesis
    by (auto simp: signature_verdict_def transaction_signature_check_def split: sum.split)
qed


section \<open>The core asset\<close>

text \<open>
  The genesis code gives the core asset an authority of which no signature is required. These
  operations hand it to account 2, issue shares of it and deposit them; no key signs.
\<close>

definition take_over :: Operation where
  "take_over = update_asset_ext_op \<lparr>upa_asset_id = 0, upa_name = None, upa_description = None,
     upa_public_data = None, upa_maximum_share_supply = None, upa_precision = None, upx_flags = 0,
     upx_issuer_permissions = 0, upx_issuer_account_id = 2, upx_market_fee = 0,
     upx_transaction_fee = 0, upx_authority = \<lparr>mm_required = 0, mm_owners = []\<rparr>\<rparr>"

definition mint :: SignedTransaction where
  "mint = sample_trx [take_over, issue_asset_op (mk_Asset 3000000 0), sample_deposit 12 0 2000000] []"


end
