(* ===== verification/Fork_Switch.thy ===== *)
theory Fork_Switch
  imports Node_Laws
begin

text \<open>
  Moving the head of the chain over the block tree. An invariant of the tree and of the head block
  is kept by \<open>extend_chain\<close>, \<open>pop_block\<close>, \<open>switch_to_fork\<close> and \<open>push_block\<close> in whatever way they
  end, and implies that the loops of the latter two end.
\<close>

section \<open>Actions that end and keep an invariant\<close>

definition safe :: "('s \<Rightarrow> bool) \<Rightarrow> ('s, 'a) act \<Rightarrow> bool" where
  "safe Q m \<longleftrightarrow> (\<forall>s. Q s \<longrightarrow> fst (m s) \<noteq> Diverges \<and> Q (snd (m s)))"

lemma safeD: "safe Q m \<Longrightarrow> Q s \<Longrightarrow> m s = (r, s') \<Longrightarrow> r \<noteq> Diverges \<and> Q s'"
  unfolding safe_def by (metis fst_conv snd_conv)

lemma safeI: "(\<And>s r s'. Q s \<Longrightarrow> m s = (r, s') \<Longrightarrow> r \<noteq> Diverges \<and> Q s') \<Longrightarrow> safe Q m"
  unfolding safe_def by (metis prod.collapse)

lemma safe_basic [simp]:
  "safe Q (aret x)" "safe Q (athrow e)" "safe Q (aget f)" "safe Q (aread g)"
  by (auto simp: safe_def act_defs split: sum.split)

lemma safe_amodify: "(\<And>s. Q s \<Longrightarrow> Q (f s)) \<Longrightarrow> safe Q (amodify f)"
  by (simp add: safe_def amodify_def)

lemma safe_abind: "safe Q m \<Longrightarrow> (\<And>x. safe Q (f x)) \<Longrightarrow> safe Q (abind m f)"
  unfolding safe_def by (auto simp: abind_def split: outcome.split prod.split)

lemma safe_acatch: "safe Q m \<Longrightarrow> (\<And>e. safe Q (h e)) \<Longrightarrow> safe Q (acatch m h)"
  unfolding safe_def by (auto simp: acatch_def split: outcome.split prod.split)

lemma safe_afold: "(\<And>x y. safe Q (f x y)) \<Longrightarrow> safe Q (afold f xs y)"
  by (induction xs arbitrary: y) (simp_all add: safe_abind)

lemmas safe_intros = safe_abind safe_acatch safe_afold safe_amodify

section \<open>The invariant\<close>

text \<open>
  Every stored block is known under the id of its header and has a number. The head is the
  genesis block or a stored block, all its ancestors are known, and the blocks that are marked
  as included are among them.
\<close>

definition forks_ok :: "block_lib \<Rightarrow> node \<Rightarrow> bool" where
  "forks_ok B s \<longleftrightarrow> tree_ok s \<and> reasons_ok s \<and> known s 0 \<and> block_id_to_full_block s 0 = None \<and>
     (\<forall>k b. block_id_to_full_block s k = Some b \<longrightarrow>
        known s k \<and> header_id B (block_header b) = k \<and> bh_block_num b \<noteq> 0)"

definition head_ok :: "node \<Rightarrow> bool" where
  "head_ok s \<longleftrightarrow>
     (if head_block_id s = 0 then head_block_header s = empty_header
      else \<exists>b. block_id_to_full_block s (head_block_id s) = Some b \<and> head_block_header s = block_header b) \<and>
     (\<forall>k. (k, head_block_id s) \<in> (edges s)\<^sup>* \<longrightarrow> known s k) \<and>
     (\<forall>k f. map_of (fork_db s) k = Some f \<and> is_included f \<longrightarrow> (k, head_block_id s) \<in> (edges s)\<^sup>*)"

definition node_inv :: "block_lib \<Rightarrow> node \<Rightarrow> bool" where
  "node_inv B s \<longleftrightarrow> forks_ok B s \<and> head_ok s"

text \<open>What the invariant depends on.\<close>

definition head_state :: "node \<Rightarrow>
    (block_id \<times> BlockForkData) list \<times> (block_id \<rightharpoonup> FullBlock) \<times> block_id \<times> SignedBlockHeader" where
  "head_state s = (fork_db s, block_id_to_full_block s, head_block_id s, head_block_header s)"

lemma node_inv_head_state: "head_state s' = head_state s \<Longrightarrow> node_inv B s' = node_inv B s"
  by (simp add: node_inv_def forks_ok_def head_ok_def head_state_def tree_ok_def reasons_ok_def known_def
      edges_def children_def)

definition quiet :: "'a node_act \<Rightarrow> bool" where
  "quiet m \<longleftrightarrow> (\<forall>s0. safe (\<lambda>s. head_state s = head_state s0) m)"

lemma quietD: "quiet m \<Longrightarrow> m s = (r, s') \<Longrightarrow> r \<noteq> Diverges \<and> head_state s' = head_state s"
  using safeD [of "\<lambda>s1. head_state s1 = head_state s" m s r s'] by (simp add: quiet_def)

lemma quiet_basic [simp]:
  "quiet (aret x)" "quiet (athrow e)" "quiet (aget f)" "quiet (aread g)"
  by (simp_all add: quiet_def)

lemma quiet_amodify [simp]: "(\<And>s. head_state (f s) = head_state s) \<Longrightarrow> quiet (amodify f)"
  unfolding quiet_def by (simp add: safe_amodify)

lemma quiet_abind: "quiet m \<Longrightarrow> (\<And>x. quiet (f x)) \<Longrightarrow> quiet (abind m f)"
  unfolding quiet_def by (simp add: safe_abind)

lemma quiet_afold: "(\<And>x y. quiet (f x y)) \<Longrightarrow> quiet (afold f xs y)"
  unfolding quiet_def by (simp add: safe_afold)

lemma safe_quiet:
  assumes "quiet m" shows "safe (\<lambda>s. node_inv B s \<and> block_id_to_full_block s = M) m"
proof (rule safeI)
  fix s r s' assume s: "node_inv B s \<and> block_id_to_full_block s = M" "m s = (r, s')"
  have q: "r \<noteq> Diverges" "head_state s' = head_state s" using quietD [OF assms s(2)] by simp_all
  then show "r \<noteq> Diverges \<and> node_inv B s' \<and> block_id_to_full_block s' = M"
    using s(1) node_inv_head_state [OF q(2), of B] by (simp add: head_state_def)
qed

lemma quiet_cases:
  "(c \<Longrightarrow> quiet m) \<Longrightarrow> (\<not> c \<Longrightarrow> quiet m') \<Longrightarrow> quiet (if c then m else m')"
  "quiet n \<Longrightarrow> (\<And>x. quiet (f x)) \<Longrightarrow> quiet (case v of None \<Rightarrow> n | Some x \<Rightarrow> f x)"
  by (simp_all split: option.split)

lemma quiet_chain:
  "(\<And>u. quiet (f u)) \<Longrightarrow> quiet (case c of Pending u _ \<Rightarrow> f u | _ \<Rightarrow> aret ())"
  "(\<And>d. quiet (g d)) \<Longrightarrow> quiet (case c of Database d \<Rightarrow> g d | _ \<Rightarrow> aret ())"
  by (simp_all split: chain.split)

lemmas quiet_intros = quiet_abind quiet_afold quiet_cases quiet_chain quiet_amodify

lemma quiet_save_undo_state [simp]: "quiet (save_undo_state E n bid c)"
  unfolding save_undo_state_def get_block_id_def
  by (intro quiet_intros) (simp_all add: head_state_def split: chain.split)

lemma quiet_commit_to_db [simp]: "quiet (commit_to_db E p)"
  unfolding commit_to_db_def by (intro quiet_intros) (simp_all add: head_state_def)

lemma quiet_clear_pending [simp]: "quiet (clear_pending E b)"
  unfolding clear_pending_def clear_pending_trx_def
  by (intro quiet_intros; simp add: head_state_def split: list.split Operation.split)

lemma quiet_others [simp]:
  "quiet (block_signee B b bid)" "quiet (update_relay_fee w)" "quiet (store_extend_status bid v)"
  "quiet (purge_unique E)" "quiet (fork_fetch k)" "quiet (block_fetch k)" "quiet (get_block k)"
  "quiet (get_block_header k)" "quiet (get_block_fork_data k)"
  unfolding block_signee_def update_relay_fee_def store_extend_status_def purge_unique_def fork_fetch_def
    block_fetch_def get_block_def get_block_header_def get_block_fork_data_def
  by (intro quiet_basic quiet_intros; simp add: head_state_def)+

section \<open>Marks\<close>

lemma node_inv_marked:
  assumes "marked g K s s'" "mild g" "node_inv B s"
  shows "node_inv B s' \<and> block_id_to_full_block s' = block_id_to_full_block s"
proof -
  have "s' = s\<lparr>fork_db := fork_db s'\<rparr>" using assms(1) by (simp add: marked_def)
  then obtain fd where s': "s' = s\<lparr>fork_db := fd\<rparr>" by blast
  have incl: "\<exists>f0. map_of (fork_db s) k = Some f0 \<and> is_included f0"
    if "map_of (fork_db s') k = Some f" "is_included f" for k f
    using assms(1,2) that by (auto simp: marked_def mild_def split: if_splits)
  have same: "head_block_id s' = head_block_id s" "head_block_header s' = head_block_header s"
    "block_id_to_full_block s' = block_id_to_full_block s" by (simp_all add: s')
  have "forks_ok B s'"
    using assms(3) marked_mild [OF assms(1,2)] by (simp add: node_inv_def forks_ok_def same)
  moreover have "head_ok s'"
    using assms(3) incl unfolding node_inv_def head_ok_def same marked_mild [OF assms(1,2)] by blast
  ultimately show ?thesis by (simp add: node_inv_def same)
qed

lemma safe_marks:
  assumes "\<And>s :: node. tree_ok s \<Longrightarrow> k \<in> dom (map_of (fork_db s)) \<Longrightarrow> \<exists>s'. m s = (Returns (), s') \<and> marked g (below s k) s s'"
    and "\<And>s :: node. k \<notin> dom (map_of (fork_db s)) \<Longrightarrow> m s = (Throws e, s)" and "mild g"
  shows "safe (\<lambda>s. node_inv B s \<and> block_id_to_full_block s = M) m"
proof (rule safeI)
  fix s r s' assume s: "node_inv B s \<and> block_id_to_full_block s = M" "m s = (r, s')"
  show "r \<noteq> Diverges \<and> node_inv B s' \<and> block_id_to_full_block s' = M"
  proof (cases "k \<in> dom (map_of (fork_db s))")
    case True
    moreover have "tree_ok s" using s(1) by (simp add: node_inv_def forks_ok_def)
    ultimately have r: "r = Returns ()" and m: "marked g (below s k) s s'" using assms(1) s(2) by fastforce+
    show ?thesis using node_inv_marked [OF m assms(3), of B] s(1) r by simp
  qed (use assms(2) [of s] s in auto)
qed

lemma safe_mark_invalid:
  "safe (\<lambda>s. node_inv B s \<and> block_id_to_full_block s = M) (mark_invalid k e)"
  by (rule safe_marks [OF mark_invalid_descendants _ mild_marks(3)])
    (auto simp: mark_invalid_def fork_fetch_def abind_def aread_def require_def split: option.splits)

lemma mark_as_unchecked_descendants:
  assumes "tree_ok s" "k \<in> dom (map_of (fork_db s))"
  shows "\<exists>s'. mark_as_unchecked k s = (Returns (), s') \<and> marked set_unchecked (below s k) s s'"
proof -
  obtain f where f: "map_of (fork_db s) k = Some f" using assms(2) by blast
  from unchecked_walk.marks_below [OF assms(1) f refl] show ?thesis
    using f by (simp add: mark_as_unchecked_def fork_fetch_def fork_store_def act_defs require_def
        set_unchecked_def [abs_def])
qed

lemma safe_mark_as_unchecked:
  "safe (\<lambda>s. node_inv B s \<and> block_id_to_full_block s = M) (mark_as_unchecked k)"
  by (rule safe_marks [OF mark_as_unchecked_descendants _ mild_marks(4)])
    (auto simp: mark_as_unchecked_def fork_fetch_def abind_def aread_def require_def split: option.splits)

section \<open>extend\_chain\<close>

lemma node_invD:
  assumes "node_inv B s"
  shows "tree_ok s" "reasons_ok s" "known s 0" "block_id_to_full_block s 0 = None" "acyclic (edges s)"
    "block_id_to_full_block s k = Some b \<Longrightarrow> known s k \<and> header_id B (block_header b) = k \<and>
       bh_block_num b \<noteq> 0 \<and> k \<noteq> 0 \<and> (bh_previous b, k) \<in> edges s"
    "(k, head_block_id s) \<in> (edges s)\<^sup>* \<Longrightarrow> known s k"
    "map_of (fork_db s) k = Some f \<Longrightarrow> is_included f \<Longrightarrow> (k, head_block_id s) \<in> (edges s)\<^sup>*"
proof -
  have ok: "forks_ok B s" "head_ok s" using assms by (simp_all add: node_inv_def)
  show "tree_ok s" "reasons_ok s" "known s 0" "block_id_to_full_block s 0 = None"
    using ok(1) by (simp_all add: forks_ok_def)
  then show "acyclic (edges s)" by (simp add: tree_ok_def)
  show "known s k" if "(k, head_block_id s) \<in> (edges s)\<^sup>*" using ok(2) that by (simp add: head_ok_def)
  show "(k, head_block_id s) \<in> (edges s)\<^sup>*" if "map_of (fork_db s) k = Some f" "is_included f"
    using ok(2) that unfolding head_ok_def by blast
  assume k: "block_id_to_full_block s k = Some b"
  then have *: "known s k \<and> header_id B (block_header b) = k \<and> bh_block_num b \<noteq> 0 \<and> k \<noteq> 0"
    using ok(1) by (cases "k = 0") (simp_all add: forks_ok_def)
  then have "k \<in> set (children s (bh_previous b))" using \<open>tree_ok s\<close> k unfolding tree_ok_def by fastforce
  with * show "known s k \<and> header_id B (block_header b) = k \<and>
       bh_block_num b \<noteq> 0 \<and> k \<noteq> 0 \<and> (bh_previous b, k) \<in> edges s"
    by (simp add: edges_def)
qed

text \<open>The entry of one block is rewritten and the head moves: what has to be checked.\<close>

lemma node_inv_move:
  assumes "node_inv B s" "map_of (fork_db s) k = Some f"
    and s': "fork_db s' = smap_set k (f\<lparr>is_included := i, is_valid := v\<rparr>) (fork_db s)"
      "block_id_to_full_block s' = block_id_to_full_block s"
    and v: "v = Some True \<or> v = is_valid f"
    and head: "if head_block_id s' = 0 then head_block_header s' = empty_header
      else \<exists>b. block_id_to_full_block s (head_block_id s') = Some b \<and> head_block_header s' = block_header b"
    and path: "\<And>j. (j, head_block_id s') \<in> (edges s)\<^sup>* \<Longrightarrow> known s j"
    and incl: "\<And>j g. map_of (fork_db s) j = Some g \<Longrightarrow> j \<noteq> k \<Longrightarrow> is_included g \<Longrightarrow> (j, head_block_id s') \<in> (edges s)\<^sup>*"
      "i \<Longrightarrow> (k, head_block_id s') \<in> (edges s)\<^sup>*"
  shows "node_inv B s' \<and> edges s' = edges s"
proof -
  have lookup: "map_of (fork_db s') j = (if j = k then Some (f\<lparr>is_included := i, is_valid := v\<rparr>) else map_of (fork_db s) j)" for j
    by (simp add: s')
  have ch: "children s' = children s" using assms(2) by (auto simp: children_def lookup fun_eq_iff)
  then have e: "edges s' = edges s" by (simp add: edges_def)
  have kn: "known s' = known s" using assms(2) by (auto simp: known_def lookup fun_eq_iff)
  have "reasons_ok s'"
    using node_invD(2) [OF assms(1)] assms(2) v by (auto simp: reasons_ok_def lookup fork_invalid_def)
  moreover have "tree_ok s'" using node_invD(1) [OF assms(1)] by (simp add: tree_ok_def ch kn e s'(2))
  ultimately have "forks_ok B s'" using assms(1) by (simp add: node_inv_def forks_ok_def kn s'(2))
  moreover have "head_ok s'"
    using head path incl unfolding head_ok_def e kn s'(2) by (auto simp: lookup)
  ultimately show ?thesis by (simp add: node_inv_def e)
qed

text \<open>
  \<open>include_block\<close> either stops before it has touched the head and the tree, or has moved the head
  to the block, and what it does after that has no effect on them.
\<close>

definition moves_to :: "FullBlock \<Rightarrow> block_id \<Rightarrow> BlockForkData \<Rightarrow> node \<Rightarrow> unit outcome \<times> node \<Rightarrow> bool" where
  "moves_to b bid f s = (\<lambda>(r, s'). r \<noteq> Diverges \<and>
     (head_state s' = head_state s \<and> (\<forall>u. r \<noteq> Returns u) \<or>
      bh_previous b = head_block_id s \<and>
      head_state s' = (smap_set bid (f\<lparr>is_included := True, is_valid := Some True\<rparr>) (fork_db s),
        block_id_to_full_block s, bid, block_header b)))"

text \<open>Reasoning forwards: what follows a quiet action starts from the same head and tree.\<close>

lemma moves_to_then:
  assumes "quiet m" "head_state s1 = head_state s"
    and "\<And>x s2. m s1 = (Returns x, s2) \<Longrightarrow> head_state s2 = head_state s \<Longrightarrow> moves_to b bid f s (g x s2)"
  shows "moves_to b bid f s (abind m g s1)"
  using assms(2,3) quietD [OF assms(1), of s1]
  by (cases "m s1"; cases "fst (m s1)") (auto simp: abind_def moves_to_def)

lemma included_moves:
  assumes "map_of (fork_db s) bid = Some f" "head_state s1 = head_state s" "bh_previous b = head_block_id s" "quiet m"
  shows "moves_to b bid f s
    (abind (mark_included bid True) (\<lambda>_. abind (update_head_block (block_header b) bid) (\<lambda>_. m)) s1)"
proof -
  have s1: "fork_db s1 = fork_db s" "block_id_to_full_block s1 = block_id_to_full_block s"
    using assms(2) by (simp_all add: head_state_def)
  define s2 where "s2 = snd (abind (mark_included bid True) (\<lambda>_. update_head_block (block_header b) bid) s1)"
  have "abind (mark_included bid True) (\<lambda>_. abind (update_head_block (block_header b) bid) (\<lambda>_. m)) s1 = m s2"
    and "head_state s2 = (smap_set bid (f\<lparr>is_included := True, is_valid := Some True\<rparr>) (fork_db s),
      block_id_to_full_block s, bid, block_header b)"
    using assms(1) by (simp_all add: s2_def mark_included_def update_head_block_def fork_fetch_def fork_store_def
        act_defs require_def s1 head_state_def)
  with quietD [OF assms(4), of s2] assms(3) show ?thesis by (cases "m s2") (simp add: moves_to_def)
qed

lemma include_block_moves:
  assumes "map_of (fork_db s) bid = Some f"
  shows "moves_to b bid f s (include_block E B vm w b bid s)"
proof -
  have late: "quiet (abind (clear_pending E b) (\<lambda>_.
     abind (amodify (\<lambda>s. s\<lparr>block_num_to_id_db := (block_num_to_id_db s)(bh_block_num b \<mapsto> bid)\<rparr>)) (\<lambda>_.
     abind (store_extend_status bid 2) (\<lambda>_. update_relay_fee w))))"
    by (intro quiet_intros) (simp_all add: head_state_def)
  show ?thesis
    unfolding include_block_def split_beta
    apply (rule moves_to_then, simp, rule refl)
    apply (rule moves_to_then, simp, assumption)
    apply (rule moves_to_then, simp, assumption)
    apply (rule moves_to_then, simp, assumption)
    apply (rule moves_to_then, simp, assumption)
    apply (rule moves_to_then, simp add: quiet_chain, assumption)
    apply (rule included_moves [OF assms _ _ late], assumption)
    apply (auto simp: act_Returns head_state_def dest!: verify_header_previous)
    done
qed

lemma edge_previous:
  assumes "node_inv B s" "(i, k) \<in> edges s"
  obtains b where "block_id_to_full_block s k = Some b" "i = bh_previous b"
proof -
  have "k \<in> set (children s i)" using assms(2) by (simp add: edges_def)
  then have "\<exists>b. block_id_to_full_block s k = Some b \<and> bh_previous b = i"
    using node_invD(1) [OF assms(1)] unfolding tree_ok_def by blast
  with that show ?thesis by blast
qed

lemma path_up:
  assumes "node_inv B s" "(t, k) \<in> (edges s)\<^sup>*" "t \<noteq> k" "(p, k) \<in> edges s"
  shows "(t, p) \<in> (edges s)\<^sup>*"
proof -
  from assms(2,3) obtain j where "(t, j) \<in> (edges s)\<^sup>*" "(j, k) \<in> edges s"
    by (metis rtranclE)
  moreover have "j = p"
    by (rule edge_previous [OF assms(1) \<open>(j, k) \<in> edges s\<close>], rule edge_previous [OF assms(1,4)]) simp
  ultimately show ?thesis by simp
qed

lemma node_inv_moves_to:
  assumes "node_inv B s" "block_id_to_full_block s k = Some b" "map_of (fork_db s) k = Some f"
    and mv: "moves_to b k f s (r, s')"
  shows "node_inv B s' \<and> block_id_to_full_block s' = block_id_to_full_block s"
    "\<forall>u. r = Returns u \<longrightarrow> head_block_id s' = k" "r \<noteq> Diverges"
proof -
  show "\<forall>u. r = Returns u \<longrightarrow> head_block_id s' = k" "r \<noteq> Diverges"
    using mv by (auto simp: moves_to_def head_state_def)
  show "node_inv B s' \<and> block_id_to_full_block s' = block_id_to_full_block s"
  proof (cases "head_state s' = head_state s")
    case True
    then show ?thesis using node_inv_head_state [OF True] assms(1) by (simp add: head_state_def)
  next
    case False
    then have prev: "bh_previous b = head_block_id s"
      and s': "fork_db s' = smap_set k (f\<lparr>is_included := True, is_valid := Some True\<rparr>) (fork_db s)"
        "block_id_to_full_block s' = block_id_to_full_block s" "head_block_id s' = k"
        "head_block_header s' = block_header b"
      using mv by (auto simp: moves_to_def head_state_def)
    have k: "known s k" "k \<noteq> 0" "(head_block_id s, k) \<in> edges s"
      using node_invD(6) [OF assms(1,2)] prev by simp_all
    have pred: "i = head_block_id s" if "(i, k) \<in> edges s" for i
      by (rule edge_previous [OF assms(1) that]) (use assms(2) prev in simp)
    have up: "known s j" if "(j, k) \<in> (edges s)\<^sup>*" for j
      using that k(1) pred node_invD(7) [OF assms(1)] by (metis rtranclE)
    have "node_inv B s' \<and> edges s' = edges s"
    proof (rule node_inv_move [OF assms(1,3) s'(1,2)])
      show "(j, head_block_id s') \<in> (edges s)\<^sup>*" if "map_of (fork_db s) j = Some g" "is_included g" for j g
        using node_invD(8) [OF assms(1) that] k(3) by (simp add: s'(3))
    qed (use k(2) assms(2) up s' in auto)
    then show ?thesis by (simp add: s')
  qed
qed

lemma extend_chain_moves:
  assumes "node_inv B s" "block_id_to_full_block s k = Some b" "extend_chain E B vm w b s = (r, s')"
  shows "r \<noteq> Diverges \<and> node_inv B s' \<and> block_id_to_full_block s' = block_id_to_full_block s \<and>
    (\<forall>u. r = Returns u \<longrightarrow> head_block_id s' = k)"
proof -
  have k: "known s k" "header_id B (block_header b) = k" using node_invD(6) [OF assms(1,2)] by simp_all
  then obtain f where f: "map_of (fork_db s) k = Some f" by (auto simp: known_def)
  let ?Q = "\<lambda>s1. node_inv B s1 \<and> block_id_to_full_block s1 = block_id_to_full_block s"
  obtain r1 s1 where inc: "include_block E B vm w b k s = (r1, s1)" by fastforce
  then have mv: "moves_to b k f s (r1, s1)" using include_block_moves [OF f, of b E B vm w] by simp
  note 1 = node_inv_moves_to [OF assms(1,2) f mv]
  show ?thesis
  proof (cases r1)
    case (Returns u)
    then have "purge_unique E s1 = (r, s')"
      using assms(3) inc by (simp add: extend_chain_def k(2) abind_def acatch_def)
    with 1 Returns show ?thesis
      using quietD [of "purge_unique E" s1 r s'] node_inv_head_state [of s' s1 B] by (simp add: head_state_def)
  next
    case (Throws e)
    let ?m = "abind (mark_invalid k e) (\<lambda>_. abind (store_extend_status k 2) (\<lambda>_. athrow e))"
    have "safe ?Q ?m" by (intro safe_intros safe_mark_invalid safe_quiet) simp_all
    moreover have "?m s1 = (r, s') \<and> (\<forall>u. r \<noteq> Returns u)"
      using assms(3) inc Throws
      by (auto simp: extend_chain_def k(2) abind_def acatch_def athrow_def split: outcome.splits prod.splits)
    ultimately show ?thesis using safeD [of ?Q ?m s1] 1(1) by blast
  qed (use 1 in simp)
qed

section \<open>pop\_block\<close>

lemma known_stored: "node_inv B s \<Longrightarrow> known s k \<Longrightarrow> k \<noteq> 0 \<Longrightarrow> \<exists>b. block_id_to_full_block s k = Some b"
  using node_invD(1) unfolding tree_ok_def by blast

lemma move_head_run:
  assumes "prev \<noteq> 0 \<Longrightarrow> \<exists>b. block_id_to_full_block s prev = Some b"
    and "(if prev = 0 then update_head_block empty_header 0
       else abind (amodify (\<lambda>s. s\<lparr>head_block_id := prev\<rparr>)) (\<lambda>_.
         abind (get_block_header prev) (\<lambda>h. update_head_block h prev))) s = (r, s')"
  shows "\<exists>h. r = Returns () \<and> head_state s' = (fork_db s, block_id_to_full_block s, prev, h) \<and>
    (if prev = 0 then h = empty_header else \<exists>b. block_id_to_full_block s prev = Some b \<and> h = block_header b)"
  using assms
  by (auto simp: update_head_block_def act_defs get_block_header_def get_block_def block_fetch_def require_def
      head_state_def split: if_splits)

lemma undo_to_moves:
  assumes "prev \<noteq> 0 \<Longrightarrow> \<exists>b. block_id_to_full_block s prev = Some b" "undo_to E bid prev s = (r, s')"
  shows "r \<noteq> Diverges \<and> (head_state s' = head_state s \<and> (\<forall>u. r \<noteq> Returns u) \<or>
    (\<exists>h. head_state s' = (fork_db s, block_id_to_full_block s, prev, h) \<and>
      (if prev = 0 then h = empty_header else \<exists>b. block_id_to_full_block s prev = Some b \<and> h = block_header b)))"
proof (cases "block_id_to_undo_state s bid")
  case None
  then show ?thesis using assms(2) by (auto simp: undo_to_def abind_def aread_def require_def)
next
  case (Some p)
  obtain r1 s1 where c: "commit_to_db E p s = (r1, s1)" by fastforce
  have q: "r1 \<noteq> Diverges" "head_state s1 = head_state s"
    using quietD [OF quiet_commit_to_db c] by simp_all
  then have s1: "fork_db s1 = fork_db s" "block_id_to_full_block s1 = block_id_to_full_block s"
    by (simp_all add: head_state_def)
  show ?thesis
  proof (cases r1)
    case (Returns u)
    then have "(if prev = 0 then update_head_block empty_header 0
       else abind (amodify (\<lambda>s. s\<lparr>head_block_id := prev\<rparr>)) (\<lambda>_.
         abind (get_block_header prev) (\<lambda>h. update_head_block h prev))) s1 = (r, s')"
      using assms(2) Some c by (simp add: undo_to_def abind_def [where m = "aread f" for f]
          abind_def [where m = "commit_to_db E p"] aread_def require_def)
    from move_head_run [OF _ this] assms(1) show ?thesis unfolding s1 by auto
  next
    case (Throws e)
    then have "r = Throws e \<and> s' = s1"
      using assms(2) Some c by (simp add: undo_to_def abind_def [where m = "aread f" for f]
          abind_def [where m = "commit_to_db E p"] aread_def require_def)
    with q show ?thesis by simp
  qed (use q in simp)
qed

lemma pop_block_moves:
  assumes "node_inv B s" "pop_block E s = (r, s')"
  shows "r \<noteq> Diverges \<and> node_inv B s' \<and> block_id_to_full_block s' = block_id_to_full_block s \<and> edges s' = edges s \<and>
    (\<forall>u. r = Returns u \<longrightarrow> head_block_id s = 0 \<and> s' = s \<or> (head_block_id s', head_block_id s) \<in> edges s)"
proof (cases "head_block_id s = 0")
  case True
  then have "bh_block_num (head_block_header s) = 0"
    using assms(1) by (simp add: node_inv_def head_ok_def empty_header_def)
  with True assms show ?thesis by (auto simp: pop_block_def act_defs)
next
  case False
  let ?k = "head_block_id s"
  obtain b where b: "block_id_to_full_block s ?k = Some b" "head_block_header s = block_header b"
    using False assms(1) by (auto simp: node_inv_def head_ok_def)
  let ?prev = "bh_previous b"
  have k: "known s ?k" "bh_block_num b \<noteq> 0" "(?prev, ?k) \<in> edges s" using node_invD(6) [OF assms(1) b(1)] by simp_all
  then obtain f where f: "map_of (fork_db s) ?k = Some f" by (auto simp: known_def)
  have prev: "?prev \<noteq> 0 \<Longrightarrow> \<exists>b. block_id_to_full_block s ?prev = Some b"
    using known_stored [OF assms(1)] node_invD(7) [OF assms(1)] k(3) by blast
  define fd where "fd = smap_set ?k (f\<lparr>is_included := False, is_valid := is_valid f\<rparr>) (fork_db s)"
  define s1 where "s1 = s\<lparr>fork_db := fd, block_num_to_id_db := (block_num_to_id_db s)(bh_block_num b := None)\<rparr>"
  have "undo_to E ?k ?prev s1 = (r, s')"
    using assms(2) f k(2)
    by (simp add: pop_block_def b mark_included_def fork_fetch_def fork_store_def abind_def [where m = "aget h" for h]
      abind_def [where m = "abind m h" for m h] abind_def [where m = "aread h" for h] abind_def [where m = "amodify h" for h]
      aget_def aread_def amodify_def require_def s1_def fd_def)
  moreover have "block_id_to_full_block s1 = block_id_to_full_block s" "fork_db s1 = fd"
    "head_state s1 = (fd, block_id_to_full_block s, ?k, block_header b)" by (simp_all add: s1_def head_state_def b)
  ultimately have u: "r \<noteq> Diverges \<and> (head_state s' = (fd, block_id_to_full_block s, ?k, block_header b) \<and> (\<forall>u. r \<noteq> Returns u) \<or>
    (\<exists>h. head_state s' = (fd, block_id_to_full_block s, ?prev, h) \<and>
      (if ?prev = 0 then h = empty_header else \<exists>b. block_id_to_full_block s ?prev = Some b \<and> h = block_header b)))"
    using undo_to_moves [of ?prev s1 E ?k r s'] prev by (simp cong: if_cong)
  have "node_inv B s' \<and> edges s' = edges s"
  proof (rule node_inv_move [OF assms(1) f, where i = False and v = "is_valid f"])
    show "(j, head_block_id s') \<in> (edges s)\<^sup>*"
      if "map_of (fork_db s) j = Some g" "j \<noteq> ?k" "is_included g" for j g
    proof -
      have "(j, ?prev) \<in> (edges s)\<^sup>*"
        using path_up [OF assms(1) node_invD(8) [OF assms(1) that(1,3)] that(2) k(3)] .
      then show ?thesis using u node_invD(8) [OF assms(1) that(1,3)] by (auto simp: head_state_def)
    qed
    show "known s j" if "(j, head_block_id s') \<in> (edges s)\<^sup>*" for j
      using u that node_invD(7) [OF assms(1)] rtrancl_into_rtrancl [OF _ k(3), of j] by (auto simp: head_state_def)
  qed (use u b False in \<open>auto simp: head_state_def fd_def\<close>)
  then show ?thesis using u k(3) by (auto simp: head_state_def)
qed

section \<open>The loops of switch\_to\_fork\<close>

definition ancestors :: "node \<Rightarrow> block_id \<Rightarrow> block_id set" where
  "ancestors s k = {j. (j, k) \<in> (edges s)\<^sup>+}"

lemma ancestors_dom: "ancestors s k \<subseteq> dom (map_of (fork_db s))"
proof
  fix j assume "j \<in> ancestors s k"
  then obtain z where "(j, z) \<in> edges s" by (auto simp: ancestors_def dest: tranclD)
  then show "j \<in> dom (map_of (fork_db s))"
    by (cases "map_of (fork_db s) j") (auto simp: edges_def children_def)
qed

lemma ancestors_bound: "card (ancestors s k) < tree_bound s"
proof -
  have "card (ancestors s k) \<le> card (dom (map_of (fork_db s)))"
    by (rule card_mono [OF finite_dom_map_of ancestors_dom])
  also have "\<dots> \<le> length (fork_db s)"
    by (metis card_length dom_map_of_conv_image_fst image_set length_map)
  finally show ?thesis by (simp add: tree_bound_def)
qed

lemma ancestors_less:
  assumes "acyclic (edges s)" "(j, k) \<in> edges s"
  shows "card (ancestors s j) < card (ancestors s k)"
proof (rule psubset_card_mono)
  show "finite (ancestors s k)" by (rule finite_subset [OF ancestors_dom finite_dom_map_of])
  have "ancestors s j \<subseteq> ancestors s k" using assms(2) by (auto simp: ancestors_def intro: trancl_into_trancl)
  moreover have "j \<in> ancestors s k" "j \<notin> ancestors s j" using assms by (auto simp: ancestors_def acyclic_def)
  ultimately show "ancestors s j \<subset> ancestors s k" by blast
qed

text \<open>The history of a block: stored blocks up to the genesis block or an included one.\<close>

lemma fork_history_step:
  assumes "block_id_to_full_block s k = Some b"
  shows "fork_history_loop (Suc n) k hist s =
    (if bh_previous b = 0 then (Returns (hist @ [bh_previous b]), s)
     else case map_of (fork_db s) (bh_previous b) of
       None \<Rightarrow> (Throws key_not_found_exception, s)
     | Some f \<Rightarrow> if \<not> is_linked f then (Throws assert_exception, s)
         else if is_included f then (Returns (hist @ [bh_previous b]), s)
         else fork_history_loop n (bh_previous b) (hist @ [bh_previous b]) s)"
  using assms by (simp add: get_block_header_def get_block_def block_fetch_def fork_fetch_def
      abind_def aread_def aret_def athrow_def require_def Let_def split: option.split)

definition history_of :: "node \<Rightarrow> block_id \<Rightarrow> block_id list \<Rightarrow> bool" where
  "history_of s k h \<longleftrightarrow> (\<exists>zs z. h = zs @ [z] \<and>
     (\<forall>j \<in> insert k (set zs). \<exists>b. block_id_to_full_block s j = Some b) \<and>
     (z = 0 \<or> (\<exists>f. map_of (fork_db s) z = Some f \<and> is_included f)))"

lemma history_of_one:
  "block_id_to_full_block s k = Some b \<Longrightarrow>
     z = 0 \<or> (\<exists>f. map_of (fork_db s) z = Some f \<and> is_included f) \<Longrightarrow> history_of s k [z]"
  by (simp add: history_of_def)

lemma history_of_Cons:
  "block_id_to_full_block s k = Some b \<Longrightarrow> history_of s p h \<Longrightarrow> history_of s k (p # h)"
  unfolding history_of_def by (elim exE) (rule_tac x = "p # zs" in exI, auto)

lemma fork_history_loop_ends:
  assumes "node_inv B s" "card (ancestors s k) < n" "fork_history_loop n k hist s = (r, s')"
  shows "s' = s \<and> r \<noteq> Diverges \<and> (\<forall>h. r = Returns h \<longrightarrow> (\<exists>zs. h = hist @ zs \<and> history_of s k zs))"
  using assms(2,3)
proof (induction n arbitrary: k hist r s')
  case (Suc n)
  show ?case
  proof (cases "block_id_to_full_block s k")
    case None
    then show ?thesis using Suc.prems(2)
      by (auto simp: get_block_header_def get_block_def block_fetch_def abind_def aread_def require_def)
  next
    case (Some b)
    let ?p = "bh_previous b"
    have less: "card (ancestors s ?p) < n"
      using ancestors_less [OF node_invD(5) [OF assms(1)]] node_invD(6) [OF assms(1) Some] Suc.prems(1) by fastforce
    have rec: ?thesis if "fork_history_loop n ?p (hist @ [?p]) s = (r, s')"
      using Suc.IH [OF less that] history_of_Cons [OF Some, of ?p] by fastforce
    show ?thesis
      using Suc.prems(2) rec history_of_one [OF Some, of ?p]
      unfolding fork_history_step [OF Some] by (auto split: if_splits option.splits)
  qed
qed simp

lemma pop_until_ends:
  assumes "node_inv B s" "t = 0 \<or> (t, head_block_id s) \<in> (edges s)\<^sup>*"
    and "card (ancestors s (head_block_id s)) < n" "pop_until E n t s = (r, s')"
  shows "r \<noteq> Diverges \<and> node_inv B s' \<and> block_id_to_full_block s' = block_id_to_full_block s"
  using assms
proof (induction n arbitrary: s)
  case (Suc n)
  show ?case
  proof (cases "t = head_block_id s")
    case True
    then show ?thesis using Suc.prems(1,4) by (auto simp: pop_until.simps [of _ "Suc n"] abind_def aget_def aret_def)
  next
    case False
    obtain r1 s1 where p: "pop_block E s = (r1, s1)" by fastforce
    note mv = pop_block_moves [OF Suc.prems(1) p]
    show ?thesis
    proof (cases r1)
      case (Returns u)
      have "head_block_id s \<noteq> 0"
      proof
        assume "head_block_id s = 0"
        then have "(t, 0) \<in> (edges s)\<^sup>+" using Suc.prems(2) False by (auto simp: rtrancl_eq_or_trancl)
        then obtain z where "(z, 0) \<in> edges s" by (auto dest: tranclD2)
        then show False using node_invD(4) [OF Suc.prems(1)] by (auto elim: edge_previous [OF Suc.prems(1)])
      qed
      then have e: "(head_block_id s1, head_block_id s) \<in> edges s" using mv Returns by simp
      have edges1: "edges s1 = edges s" using mv by simp
      then have anc: "ancestors s1 = ancestors s" by (simp add: ancestors_def fun_eq_iff)
      have "t = 0 \<or> (t, head_block_id s1) \<in> (edges s1)\<^sup>*"
        using Suc.prems(2) path_up [OF Suc.prems(1) _ False e] unfolding edges1 by blast
      moreover have "card (ancestors s1 (head_block_id s1)) < n"
        using ancestors_less [OF node_invD(5) [OF Suc.prems(1)] e] Suc.prems(3) unfolding anc by linarith
      moreover have "pop_until E n t s1 = (r, s')"
        using Suc.prems(4) False p Returns
        by (simp add: pop_until.simps [of _ "Suc n"] abind_def [where m = "aget h" for h] abind_def [where m = "pop_block E"] aget_def)
      ultimately show ?thesis using Suc.IH [of s1] mv by simp
    next
      case (Throws e)
      then have "r = Throws e \<and> s' = s1"
        using Suc.prems(4) False p
        by (simp add: pop_until.simps [of _ "Suc n"] abind_def [where m = "aget h" for h] abind_def [where m = "pop_block E"] aget_def)
      then show ?thesis using mv by simp
    qed (use mv in simp)
  qed
qed simp

section \<open>switch\_to\_fork\<close>

lemma extend_all_moves:
  assumes "node_inv B s" "\<forall>k \<in> set ks. \<exists>b. block_id_to_full_block s k = Some b"
    and "afold (\<lambda>k _. abind (get_block k) (extend_chain E B vm w)) ks u s = (r, s')"
  shows "r \<noteq> Diverges \<and> node_inv B s' \<and> block_id_to_full_block s' = block_id_to_full_block s \<and>
    (\<forall>v. r = Returns v \<and> ks \<noteq> [] \<longrightarrow> head_block_id s' = last ks)"
  using assms
proof (induction ks arbitrary: u s)
  case (Cons k ks)
  obtain b where b: "block_id_to_full_block s k = Some b" using Cons.prems(2) by auto
  obtain r1 s1 where x: "extend_chain E B vm w b s = (r1, s1)" by fastforce
  note mv = extend_chain_moves [OF Cons.prems(1) b x]
  have one: "abind (get_block k) (extend_chain E B vm w) s = (r1, s1)"
    using b x by (simp add: get_block_def block_fetch_def abind_def aread_def require_def)
  show ?case
  proof (cases r1)
    case (Returns v)
    then have rest: "afold (\<lambda>k _. abind (get_block k) (extend_chain E B vm w)) ks v s1 = (r, s')"
      using Cons.prems(3) one by (simp add: abind_def [where m = "abind (get_block k) g" for g])
    have stored: "\<forall>k \<in> set ks. \<exists>b. block_id_to_full_block s1 k = Some b" using mv Cons.prems(2) by simp
    have "ks = [] \<Longrightarrow> s' = s1" using rest by (simp add: aret_def)
    with Cons.IH [OF _ stored rest] mv Returns show ?thesis by auto
  next
    case (Throws e)
    then have "r = Throws e \<and> s' = s1"
      using Cons.prems(3) one by (simp add: abind_def [where m = "abind (get_block k) g" for g])
    then show ?thesis using mv by simp
  qed (use mv in simp)
qed (auto simp: aret_def)

lemma switch_to_fork_moves:
  assumes "node_inv B s" "switch_to_fork E B vm w bid s = (r, s')"
  shows "r \<noteq> Diverges \<and> node_inv B s' \<and> block_id_to_full_block s' = block_id_to_full_block s \<and>
    (\<forall>u. r = Returns u \<longrightarrow> head_block_id s' = bid)"
proof (cases "bid = head_block_id s")
  case True
  then show ?thesis using assms by (auto simp: switch_to_fork_def act_defs)
next
  case False
  obtain r1 s1 where h: "fork_history_loop (tree_bound s) bid [bid] s = (r1, s1)" by fastforce
  note hist = fork_history_loop_ends [OF assms(1) ancestors_bound h]
  show ?thesis
  proof (cases r1)
    case (Returns history)
    then obtain zs z where hs: "history = bid # zs @ [z]"
      and stored: "\<forall>j \<in> insert bid (set zs). \<exists>b. block_id_to_full_block s j = Some b"
      and z: "z = 0 \<or> (z, head_block_id s) \<in> (edges s)\<^sup>*"
      using hist node_invD(8) [OF assms(1)] by (auto simp: history_of_def)
    obtain r2 s2 where pu: "pop_until E (tree_bound s) z s = (r2, s2)" by fastforce
    note pop = pop_until_ends [OF assms(1) z ancestors_bound pu]
    have run: "switch_to_fork E B vm w bid s = abind (pop_until E (tree_bound s) z) (\<lambda>_.
        afold (\<lambda>k _. abind (get_block k) (extend_chain E B vm w)) (rev (bid # zs)) ()) s"
      using False h Returns hist hs
      by (simp add: switch_to_fork_def get_fork_history_def abind_def [where m = "aget g" for g]
          abind_def [where m = "abind (aget g) h" for g h] aget_def butlast_append)
    show ?thesis
    proof (cases r2)
      case Returns
      then show ?thesis
        using assms(2) pu pop stored extend_all_moves [of B s2 "rev (bid # zs)" E vm w "()" r s']
        unfolding run by (simp add: abind_def)
    qed (use assms(2) run pu pop in \<open>simp_all add: abind_def\<close>, auto)
  next
    case (Throws e)
    then have "r = Throws e \<and> s' = s"
      using False h hist assms(2) by (simp add: switch_to_fork_def get_fork_history_def abind_def aget_def)
    then show ?thesis using assms(1) by simp
  qed (use hist in simp)
qed

section \<open>push\_block\<close>

abbreviation (input) stored_inv :: "block_lib \<Rightarrow> (block_id \<rightharpoonup> FullBlock) \<Rightarrow> node \<Rightarrow> bool" where
  "stored_inv B M \<equiv> \<lambda>s. node_inv B s \<and> block_id_to_full_block s = M"

lemma safe_switch_to_fork: "safe (stored_inv B M) (switch_to_fork E B vm w bid)"
  by (rule safeI) (use switch_to_fork_moves in blast)

lemma safe_if: "safe Q m \<Longrightarrow> safe Q m' \<Longrightarrow> safe Q (if c then m else m')"
  by simp

lemma safe_option: "safe Q n \<Longrightarrow> (\<And>x. safe Q (f x)) \<Longrightarrow> safe Q (case v of None \<Rightarrow> n | Some x \<Rightarrow> f x)"
  by (simp split: option.split)

lemma safe_try_forks: "safe (stored_inv B M) (try_forks E B vm w bid n)"
proof (induction n)
  case (Suc n)
  have q: "quiet (amodify (\<lambda>s. s\<lparr>revalidatable_future_blocks_db := g s\<rparr>))" for g
    by (simp add: head_state_def)
  have "safe (stored_inv B M) (try_fork E B vm w bid k x)" for k x
    unfolding try_fork_def
    by (intro safe_if safe_abind safe_acatch safe_switch_to_fork safe_quiet [OF q] safe_basic
        safe_quiet [of "fork_fetch k"] safe_quiet [of "get_block_fork_data bid"]) simp_all
  then show ?case using Suc by (simp only: try_forks.simps) (intro safe_if safe_abind safe_afold safe_basic, blast+)
qed simp

lemma safe_clear_invalidation: "safe (stored_inv B M) (clear_invalidation_of_future_blocks E)"
proof -
  have "quiet (clear_future_step E k u)" for k u
    unfolding clear_future_step_def by (intro quiet_intros quiet_basic) (simp_all add: head_state_def)
  then show ?thesis
    unfolding clear_invalidation_of_future_blocks_def
    by (intro safe_abind safe_afold safe_basic safe_mark_as_unchecked safe_quiet) 
qed

text \<open>A block that is not known yet is not an ancestor of the head.\<close>

lemma node_inv_indexed:
  assumes "node_inv B s" "\<not> known s bid" "header_id B (block_header b) = bid" "bh_previous b \<noteq> bid" "bh_block_num b \<noteq> 0"
    and ok: "tree_ok (indexed s bid b f)" "reasons_ok (indexed s bid b f)"
      "\<And>k. known (indexed s bid b f) k \<longleftrightarrow> k = bid \<or> known s k"
    and f: "next_blocks f = children s bid" "is_included f \<longrightarrow> (\<exists>g. map_of (fork_db s) bid = Some g \<and> is_included g)"
  shows "node_inv B (indexed s bid b f)"
proof -
  let ?s2 = "indexed s bid b f" and ?h = "head_block_id s"
  have head: "head_block_id ?s2 = ?h" "head_block_header ?s2 = head_block_header s"
    and full: "block_id_to_full_block ?s2 = (block_id_to_full_block s)(bid \<mapsto> b)"
    by (simp_all add: indexed_def)
  have lookup: "map_of (fork_db ?s2) = (map_of (fork_db s))(bh_previous b \<mapsto> prev_entry s bid b, bid \<mapsto> f)"
    by (auto simp: indexed_def fun_eq_iff)
  have "children ?s2 k = (if k = bh_previous b then uset_insert bid (children s k) else children s k)" for k
    using prev_entry_fields(1) [of s bid b] f(1) assms(4) by (simp add: children_def lookup)
  then have e: "edges ?s2 = insert (bh_previous b, bid) (edges s)"
    by (auto simp: edges_def uset_insert_def split: if_splits)
  have path: "(j, ?h) \<in> (edges s)\<^sup>*" if "(j, ?h) \<in> (edges ?s2)\<^sup>*" for j
    using that
  proof (induction rule: converse_rtrancl_induct)
    case (step i j)
    then have "j \<noteq> bid" using node_invD(7) [OF assms(1)] assms(2) by blast
    with step show ?case by (auto simp: e intro: converse_rtrancl_into_rtrancl)
  qed simp
  have bid: "bid \<noteq> 0" "?h \<noteq> bid"
    using node_invD(3) [OF assms(1)] node_invD(7) [OF assms(1), of ?h] assms(2) by (metis rtrancl.rtrancl_refl)+
  have old: "(\<exists>g. map_of (fork_db s) k = Some g \<and> is_included g)"
    if "map_of (fork_db ?s2) k = Some g" "is_included g" for k g
    using that f(2) by (auto simp: lookup prev_entry_def Let_def new_BlockForkData_def split: if_splits option.splits)
  have up: "(k, ?h) \<in> (edges ?s2)\<^sup>*" if "map_of (fork_db ?s2) k = Some g" "is_included g" for k g
    using old [OF that] node_invD(8) [OF assms(1)] rtrancl_mono [of "edges s" "edges ?s2"] e by blast
  have "forks_ok B ?s2"
    using assms(1,3,5) ok bid(1) by (simp add: forks_ok_def node_inv_def full)
  moreover have "head_ok ?s2"
    unfolding head_ok_def head full ok(3)
    using assms(1) path up bid(2) node_invD(7) [OF assms(1)] by (auto simp: node_inv_def head_ok_def)
  ultimately show ?thesis by (simp add: node_inv_def)
qed

lemma store_and_index_moves:
  assumes "node_inv B s" "\<not> known s bid" "header_id B (block_header b) = bid" "bh_previous b \<notin> below s bid" "bh_block_num b \<noteq> 0"
  shows "\<exists>r s'. store_and_index bid b s = (Returns r, s') \<and>
    node_inv B s' \<and> block_id_to_full_block s' = (block_id_to_full_block s)(bid \<mapsto> b)"
proof (rule store_and_index_marked [OF node_invD(1,2) [OF assms(1)] assms(2,4)])
  fix f g r s'
  let ?s2 = "indexed s bid b f"
  assume run: "store_and_index bid b s = (Returns r, s')"
    and m: "marked g ((edges ?s2)\<^sup>* `` set (children ?s2 bid)) ?s2 s'" "mild g"
    and ok: "tree_ok ?s2" "reasons_ok ?s2" "\<And>k. known ?s2 k \<longleftrightarrow> k = bid \<or> known s k"
    and f: "next_blocks f = children s bid" "is_included f \<longrightarrow> (\<exists>g. map_of (fork_db s) bid = Some g \<and> is_included g)"
  have "bh_previous b \<noteq> bid" using assms(4) by (auto simp: below_def)
  from node_inv_marked [OF m node_inv_indexed [OF assms(1-3) this assms(5) ok f]] run show ?thesis
    by (simp add: indexed_def)
qed

lemma push_new_block_moves:
  assumes "node_inv B s" "\<not> known s bid" "header_id B (block_header b) = bid" "bh_previous b \<notin> below s bid" "bh_block_num b \<noteq> 0"
    and "push_new_block E B vm w b bid n s = (r, s')"
  shows "r \<noteq> Diverges \<and> node_inv B s' \<and> block_id_to_full_block s' = (block_id_to_full_block s)(bid \<mapsto> b)"
proof -
  let ?M = "(block_id_to_full_block s)(bid \<mapsto> b)"
  obtain longest s1 where si: "store_and_index bid b s = (Returns longest, s1)"
    and inv: "node_inv B s1" "block_id_to_full_block s1 = ?M"
    using store_and_index_moves [OF assms(1-5)] by blast
  have "safe (stored_inv B ?M) (if can_link (snd longest) then
       abind (block_fetch (fst longest)) (\<lambda>longest_fork_block.
       abind (if bh_block_num longest_fork_block > n
              then try_forks E B vm w bid (bh_block_num longest_fork_block)
              else aret None) (\<lambda>returned.
       case returned of Some f \<Rightarrow> aret f | None \<Rightarrow> get_block_fork_data bid))
     else abind (clear_invalidation_of_future_blocks E) (\<lambda>_. get_block_fork_data bid))" (is "safe _ ?m")
    by (intro safe_if safe_option safe_abind safe_basic safe_try_forks safe_clear_invalidation safe_quiet) simp_all
  moreover have "?m s1 = (r, s')"
    using assms(6) si by (simp add: push_new_block_def abind_def [where m = "store_and_index bid b"] split_beta)
  ultimately show ?thesis using safeD [of "stored_inv B ?M" ?m s1 r s'] inv by simp
qed

lemma push_block_moves:
  assumes "node_inv B s" "push_block E B vm w b s = (r, s')" "bid = header_id B (block_header b)"
    and "bh_previous b \<notin> below s bid" "bh_block_num b \<noteq> 0"
  shows "r \<noteq> Diverges \<and> node_inv B s' \<and>
    (r = Throws block_older_than_undo_history \<and> s' = s \<or> known s bid \<and> s' = s \<or>
     \<not> known s bid \<and> known s' bid \<and> block_id_to_full_block s' = (block_id_to_full_block s)(bid \<mapsto> b))"
proof (cases "ALP_BLOCKCHAIN_MAX_UNDO_HISTORY < bh_block_num (head_block_header s) \<and>
    bh_block_num b \<le> bh_block_num (head_block_header s) - ALP_BLOCKCHAIN_MAX_UNDO_HISTORY")
  case True
  then have "r = Throws block_older_than_undo_history \<and> s' = s"
    using assms(2) by (auto simp: push_block_def abind_def aget_def athrow_def)
  then show ?thesis using assms(1) by simp
next
  case False
  show ?thesis
  proof (cases "known s bid")
    case True
    then have "s' = s \<and> r \<noteq> Diverges"
      using False assms(2) by (auto simp: push_block_def abind_def aget_def aret_def known_def assms(3) Let_def)
    then show ?thesis using True assms(1) by simp
  next
    case unknown: False
    then have "push_new_block E B vm w b bid (bh_block_num (head_block_header s)) s = (r, s')"
      using False assms(2)
      by (auto simp: push_block_def abind_def [where m = "aget g" for g] aget_def known_def assms(3) Let_def
          split: option.splits if_splits)
    from push_new_block_moves [OF assms(1) unknown assms(3) [symmetric] assms(4,5) this]
    show ?thesis using unknown node_invD(6) [of B s' bid b] by auto
  qed
qed

end
