(* ===== verification/Fork_Runs.thy ===== *)
theory Fork_Runs
  imports Fork_Switch Supply
begin

text \<open>
  Runs of a node: the states that \<open>push_block\<close> reaches from the genesis state, whatever blocks
  arrive in whatever order, and what holds in all of them.
\<close>

section \<open>The genesis state\<close>

definition fresh_node :: "node \<Rightarrow> bool" where
  "fresh_node s \<longleftrightarrow> fork_db s = [] \<and> block_id_to_full_block s = Map.empty \<and>
     head_block_id s = 0 \<and> head_block_header s = empty_header"

abbreviation (input) genesis_fork_entry :: BlockForkData where
  "genesis_fork_entry \<equiv> new_BlockForkData\<lparr>is_valid := Some True, is_included := True, is_linked := True, is_known := True\<rparr>"

lemma genesis_head_state:
  assumes "initialize_genesis E pa config cid st s = (Returns x, s0)" "fresh_node s"
  shows "head_state s0 = ([(0, genesis_fork_entry)], Map.empty, 0, empty_header)"
  using assms by (auto simp: initialize_genesis_def act_defs fork_store_def head_state_def
      fresh_node_def split: chain.splits sum.splits)

lemma genesis_node_inv:
  assumes "initialize_genesis E pa config cid st s = (Returns x, s0)" "fresh_node s"
  shows "node_inv B s0"
proof -
  have fd: "fork_db s0 = [(0, genesis_fork_entry)]" "block_id_to_full_block s0 = Map.empty" "head_block_id s0 = 0"
    "head_block_header s0 = empty_header" using genesis_head_state [OF assms] by (simp_all add: head_state_def)
  have ch: "children s0 k = []" for k by (simp add: children_def fd new_BlockForkData_def)
  then have e: "edges s0 = {}" by (simp add: edges_def)
  have kn: "known s0 k \<longleftrightarrow> k = 0" for k by (simp add: known_def fd)
  have "tree_ok s0" by (auto simp: tree_ok_def e kn ch acyclic_def)
  moreover have "reasons_ok s0" by (simp add: reasons_ok_def fd fork_invalid_def)
  ultimately show ?thesis
    by (auto simp add: node_inv_def forks_ok_def head_ok_def kn e fd)
qed

section \<open>Runs\<close>

text \<open>
  A block arrives. Its predecessor is not one of its own descendants, since ids are hashes, and
  it has a number.
\<close>

definition arrives :: "block_lib \<Rightarrow> FullBlock \<Rightarrow> node \<Rightarrow> bool" where
  "arrives B b s \<longleftrightarrow> bh_previous b \<notin> below s (header_id B (block_header b)) \<and> bh_block_num b \<noteq> 0"

inductive reaches :: "env \<Rightarrow> block_lib \<Rightarrow> vm \<Rightarrow> node \<Rightarrow> node \<Rightarrow> bool"
  for E :: env and B :: block_lib and vm :: vm and s0 :: node where
  start: "reaches E B vm s0 s0"
| push: "reaches E B vm s0 s \<Longrightarrow> arrives B b s \<Longrightarrow> push_block E B vm w b s = (r, s') \<Longrightarrow> reaches E B vm s0 s'"

lemma reaches_node_inv: "reaches E B vm s0 s \<Longrightarrow> node_inv B s0 \<Longrightarrow> node_inv B s"
  by (induction rule: reaches.induct) (auto simp: arrives_def dest: push_block_moves)

text \<open>
  C11 (termination). From the genesis state on, whatever numbered blocks have arrived in whatever order, valid
  or not, \<open>push_block\<close> ends for every further block: the loops of \<open>get_fork_history\<close>,
  \<open>switch_to_fork\<close> and of the walks over the tree, for which the model has the outcome \<open>Diverges\<close>,
  do not run forever.
\<close>

theorem every_push_ends:
  assumes "initialize_genesis E pa config cid st s = (Returns x, s0)" "fresh_node s"
    and "reaches E B vm s0 s1" "arrives B b s1"
  shows "fst (push_block E B vm w b s1) \<noteq> Diverges"
  using push_block_moves [OF reaches_node_inv [OF assms(3) genesis_node_inv [OF assms(1,2)]] surjective_pairing refl]
    assms(4) unfolding arrives_def by blast


text \<open>
  C13 (functional). When \<open>switch_to_fork\<close> returns, the block it was asked for is the head block; in
  whatever way it ends, no block is lost and the tree and the head keep their invariant.
\<close>

theorem switch_to_fork_reaches:
  assumes "node_inv B s" "switch_to_fork E B vm w bid s = (r, s')"
  shows "node_inv B s' \<and> block_id_to_full_block s' = block_id_to_full_block s \<and>
    (r = Returns () \<longrightarrow> head_block_id s' = bid) \<and> r \<noteq> Diverges"
  using switch_to_fork_moves [OF assms] by simp

text \<open>
  A block that has arrived before has no effect: pushing it again, right after, leaves the node
  exactly as it is, whether the block was accepted, rejected, orphaned or too old.
\<close>

theorem push_block_idempotent:
  assumes "node_inv B s" "arrives B b s" "push_block E B vm w b s = (r, s1)"
  shows "\<exists>r2. push_block E B vm w b s1 = (r2, s1)"
proof -
  let ?bid = "header_id B (block_header b)"
  have "s1 = s \<and> r = Throws block_older_than_undo_history \<or> known s1 ?bid"
    using push_block_moves [OF assms(1,3) refl] assms(2) by (auto simp: arrives_def)
  then show ?thesis
  proof
    assume "known s1 ?bid"
    then show ?thesis
      by (auto simp: push_block_def abind_def aget_def aret_def athrow_def known_def Let_def)
  qed (use assms(3) in blast)
qed

section \<open>Blocks without a number\<close>

text \<open>A head block whose number is zero cannot be popped.\<close>

lemma pop_until_zero:
  assumes "bh_block_num (head_block_header s) = 0" "t \<noteq> head_block_id s"
  shows "pop_until E n t s = (Diverges, s)"
proof (induction n)
  case 0
  show ?case using assms(2) by (simp add: pop_until.simps abind_def aget_def)
next
  case (Suc n)
  have "pop_block E s = (Returns (), s)" using assms(1) by (simp add: pop_block_def abind_def aget_def aret_def)
  with Suc assms(2) show ?case
    by (simp add: pop_until.simps [of _ "Suc n"] abind_def [where m = "aget h" for h]
        abind_def [where m = "pop_block E"] aget_def)
qed

lemma try_forks_numeral:
  "try_forks E B vm w bid (numeral v) =
     abind (aget (\<lambda>s. fetch_blocks_at_number (numeral v) s)) (\<lambda>parallel_blocks.
     abind (afold (try_fork E B vm w bid) parallel_blocks None) (\<lambda>returned.
     if returned \<noteq> None then aret returned else try_forks E B vm w bid (pred_numeral v)))"
  "try_forks E B vm w bid 1 =
     abind (aget (\<lambda>s. fetch_blocks_at_number 1 s)) (\<lambda>parallel_blocks.
     abind (afold (try_fork E B vm w bid) parallel_blocks None) (\<lambda>returned.
     if returned \<noteq> None then aret returned else try_forks E B vm w bid 0))"
  by (simp_all add: numeral_eq_Suc)

definition zero_block :: FullBlock where
  "zero_block = sample_block 0 1000 5000 []"

definition zero_child :: FullBlock where
  "zero_child = sample_block 3 5000 0 []"

lemma zero_block_run:
  "fst (abind (push_block sample_env sample_lib idle_vm None zero_block) (\<lambda>_.
     push_block sample_env sample_lib idle_vm None zero_child) sample_node) = Diverges \<and>
   head_block_id (snd (abind (push_block sample_env sample_lib idle_vm None zero_block) (\<lambda>_.
     push_block sample_env sample_lib idle_vm None zero_child) sample_node)) = 5000 \<and>
   bh_block_num (head_block_header (snd (abind (push_block sample_env sample_lib idle_vm None zero_block) (\<lambda>_.
     push_block sample_env sample_lib idle_vm None zero_child) sample_node))) = 0"
  by (simp add: eval_simps commit_defs block_header_def zero_block_def zero_child_def try_forks_numeral
      cong: ebind_weak_cong)


section \<open>Instances\<close>

definition sample_start :: node where
  "sample_start = empty_node\<lparr>head_block_id := 0, head_block_header := empty_header\<rparr>"

lemma sample_start_fresh: "fresh_node sample_start"
  by (simp add: fresh_node_def sample_start_def empty_node_def)

lemma sample_genesis_runs:
  obtains x s0 where "initialize_genesis sample_env (\<lambda>_. Some 11) sample_genesis 7 False sample_start = (Returns x, s0)"
proof -
  have db: "node_db sample_start = node_db empty_node" by (simp add: sample_start_def)
  have "\<exists>c. genesis_entries sample_env (\<lambda>_. Some 11) sample_genesis 7 False (Database (node_db sample_start)) = Inr c"
    unfolding db by (rule genesis_entries_return [OF empty_node_fresh])
      (simp_all add: sample_genesis_def ALP_BLOCKCHAIN_NUM_DELEGATES_def)
  then obtain c where c: "genesis_entries sample_env (\<lambda>_. Some 11) sample_genesis 7 False
      (Database (node_db sample_start)) = Inr c" by blast
  show ?thesis
    by (cases c) (rule that, simp add: c initialize_genesis_def act_defs self_chain_def fork_store_def)+
qed

lemma sample_arrives:
  assumes "node_inv sample_lib s" "block_id_to_full_block s = Map.empty"
  shows "arrives sample_lib (sample_block 1 0 0 []) s"
proof -
  have "(1000, j) \<notin> edges s" for j
    using edge_previous [OF assms(1), of 1000 j] assms(2) by auto
  then have "below s 1000 = {1000}" by (auto simp: below_def elim: converse_rtranclE)
  then show ?thesis
    by (simp add: arrives_def sample_block_def header_id_def block_header_def sample_lib_def SignedBlockHeader.defs)
qed

theorem every_push_ends_witness:
  "\<exists>x s0. initialize_genesis sample_env (\<lambda>_. Some 11) sample_genesis 7 False sample_start = (Returns x, s0) \<and>
     fst (push_block sample_env sample_lib idle_vm None (sample_block 1 0 0 []) s0) \<noteq> Diverges"
proof -
  obtain x s0 where g: "initialize_genesis sample_env (\<lambda>_. Some 11) sample_genesis 7 False sample_start = (Returns x, s0)"
    by (rule sample_genesis_runs)
  have "block_id_to_full_block s0 = Map.empty"
    using genesis_head_state [OF g sample_start_fresh] by (simp add: head_state_def)
  then have "arrives sample_lib (sample_block 1 0 0 []) s0"
    by (rule sample_arrives [OF genesis_node_inv [OF g sample_start_fresh]])
  with g every_push_ends [OF g sample_start_fresh reaches.start] show ?thesis by blast
qed


lemma sample_waiting_inv: "node_inv sample_lib sample_waiting"
proof -
  have kn: "known sample_waiting k \<longleftrightarrow> k \<in> {0, 1000, 2000}"
    and fb: "block_id_to_full_block sample_waiting k =
       (if k = 1000 then Some sample_head else if k = 2000 then Some sample_next else None)" for k
    by (auto simp: known_def eval_simps sample_waiting_def)
  have e: "(j, k) \<in> edges sample_waiting \<longleftrightarrow> (j, k) \<in> {(0, 1000), (1000, 2000)}" for j k
    by (auto simp: edges_def sample_waiting_children split: if_splits)
  have up: "j \<in> {0, 1000}" if "(j, 1000) \<in> (edges sample_waiting)\<^sup>*" for j
    using that by (induction rule: converse_rtrancl_induct) (auto simp: e)
  have ids: "header_id sample_lib (block_header sample_head) = 1000" "bh_block_num sample_head = 1"
    "header_id sample_lib (block_header (sample_block n p i t)) = 1000 * n + i" "bh_block_num (sample_block n p i t) = n"
    for n p i t
    by (simp_all add: eval_simps block_header_def)
  have "reasons_ok sample_waiting" by (auto simp: reasons_ok_def eval_simps sample_waiting_def split: if_splits)
  then have "forks_ok sample_lib sample_waiting"
    using sample_waiting_tree by (auto simp: forks_ok_def kn fb ids split: if_splits)
  moreover have "head_ok sample_waiting"
  proof -
    have hd: "head_block_id sample_waiting = 1000" "head_block_header sample_waiting = block_header sample_head"
      by (simp_all add: sample_waiting_def sample_node_def)
    have inc: "k \<in> {0, 1000}" if "map_of (fork_db sample_waiting) k = Some f" "is_included f" for k f
      using that by (auto simp: eval_simps sample_waiting_def split: if_splits)
    have "(0, 1000) \<in> (edges sample_waiting)\<^sup>*" using e by blast
    then show ?thesis using up inc unfolding head_ok_def hd kn fb by auto
  qed
  ultimately show ?thesis by (simp add: node_inv_def)
qed

lemma sample_switches:
  "\<exists>s. switch_to_fork sample_env sample_lib idle_vm None 2000 sample_waiting = (Returns (), s)"
  by (rule fst_eq) (simp add: eval_simps commit_defs block_header_def cong: ebind_weak_cong)

theorem switch_to_fork_reaches_witness:
  "\<exists>s. switch_to_fork sample_env sample_lib idle_vm None 2000 sample_waiting = (Returns (), s) \<and>
     head_block_id s = 2000 \<and> node_inv sample_lib s"
  using sample_switches switch_to_fork_reaches [OF sample_waiting_inv, of sample_env idle_vm None 2000] by fastforce

theorem push_block_idempotent_witness:
  "\<exists>r s1 r2. push_block sample_env sample_lib idle_vm None (sample_block 3 2000 0 []) sample_waiting = (r, s1) \<and>
     push_block sample_env sample_lib idle_vm None (sample_block 3 2000 0 []) s1 = (r2, s1)"
proof -
  have "(3000, j) \<notin> edges sample_waiting" for j
    by (auto simp: edges_def sample_waiting_children split: if_splits)
  then have "below sample_waiting 3000 = {3000}" by (auto simp: below_def elim: converse_rtranclE)
  then have "arrives sample_lib (sample_block 3 2000 0 []) sample_waiting"
    by (simp add: arrives_def eval_simps block_header_def)
  from push_block_idempotent [OF sample_waiting_inv this, of sample_env idle_vm None] show ?thesis
    by (metis surj_pair)
qed

end
