(* ===== verification/Glua_Storage.thy ===== *)
theory Glua_Storage
  imports Contract_Ops
begin

text \<open>
  The storage of a contract as the virtual machine sees it: the values \<open>GluaStorageValue\<close> of
  \<open>glua/thinkyoung_lua_api.h\<close>, their conversion to and from the values on the chain
  (\<open>StorageTypes.cpp\<close>), and the difference of two tables that a commit records
  (\<open>lthinkyounglib.cpp\<close>).
\<close>

unbundle bit_operations_syntax

section \<open>Types of values\<close>

abbreviation (input) storage_value_null :: nat where "storage_value_null \<equiv> 0"
abbreviation (input) storage_value_int :: nat where "storage_value_int \<equiv> 1"
abbreviation (input) storage_value_number :: nat where "storage_value_number \<equiv> 2"
abbreviation (input) storage_value_bool :: nat where "storage_value_bool \<equiv> 3"
abbreviation (input) storage_value_string :: nat where "storage_value_string \<equiv> 4"
abbreviation (input) storage_value_stream :: nat where "storage_value_stream \<equiv> 5"

definition is_any_table_storage_value_type :: "nat \<Rightarrow> bool" where
  "is_any_table_storage_value_type ty \<longleftrightarrow> 50 \<le> ty \<and> ty \<le> 55"

definition is_any_array_storage_value_type :: "nat \<Rightarrow> bool" where
  "is_any_array_storage_value_type ty \<longleftrightarrow> 100 \<le> ty \<and> ty \<le> 105"

definition lua_storage_is_table :: "nat \<Rightarrow> bool" where
  "lua_storage_is_table ty \<longleftrightarrow> is_any_table_storage_value_type ty \<or> is_any_array_storage_value_type ty"

definition get_storage_base_type :: "nat \<Rightarrow> nat" where
  "get_storage_base_type ty =
     (if ty \<in> {3, 103, 53} then storage_value_bool
      else if ty \<in> {1, 101, 51} then storage_value_int
      else if ty \<in> {2, 102, 52} then storage_value_number
      else if ty \<in> {4, 104, 54} then storage_value_string
      else if ty \<in> {5, 105, 55} then storage_value_stream
      else storage_value_null)"

definition get_item_type_in_table_or_array :: "nat \<Rightarrow> nat" where
  "get_item_type_in_table_or_array ty =
     (if ty \<in> {51, 101} then storage_value_int
      else if ty \<in> {53, 103} then storage_value_bool
      else if ty \<in> {52, 102} then storage_value_number
      else if ty \<in> {54, 104} then storage_value_string
      else if ty \<in> {55, 105} then storage_value_stream
      else storage_value_null)"

section \<open>Values\<close>

text \<open>
  The union is the member that has been written. A C string is what comes before its terminator,
  a table the items of the map in its order, and a pointer to anything else a number.
\<close>

datatype GluaStorageValue = Glua (glua_type: nat) (glua_value: glua_union)
and glua_union =
    no_value
  | int_value int
  | number_value "64 word"
  | bool_value bool
  | string_value string
  | table_value "(string \<times> GluaStorageValue) list"
  | userdata_value nat

text \<open>Reading a member that has not been written is undefined.\<close>

definition as_int :: "glua_union \<Rightarrow> int option" where
  "as_int u = (case u of int_value i \<Rightarrow> Some i | _ \<Rightarrow> None)"

definition as_number :: "glua_union \<Rightarrow> 64 word option" where
  "as_number u = (case u of number_value d \<Rightarrow> Some d | _ \<Rightarrow> None)"

definition as_bool :: "glua_union \<Rightarrow> bool option" where
  "as_bool u = (case u of bool_value b \<Rightarrow> Some b | _ \<Rightarrow> None)"

definition as_string :: "glua_union \<Rightarrow> string option" where
  "as_string u = (case u of string_value s \<Rightarrow> Some s | _ \<Rightarrow> None)"

definition as_table :: "glua_union \<Rightarrow> (string \<times> GluaStorageValue) list option" where
  "as_table u = (case u of table_value t \<Rightarrow> Some t | _ \<Rightarrow> None)"

lemmas union_defs = as_int_def as_number_def as_bool_def as_string_def as_table_def

definition null_value :: GluaStorageValue where
  "null_value = Glua storage_value_null no_value"

text \<open>The map of a table orders its keys by length first.\<close>

definition lua_table_less :: "string \<Rightarrow> string \<Rightarrow> bool" where
  "lua_table_less l r =
     (if length l \<noteq> length r then length l < length r else l < r)"

text \<open>\<open>insert\<close> keeps the value of a key that is there.\<close>

fun table_insert :: "string \<Rightarrow> 'v \<Rightarrow> (string \<times> 'v) list \<Rightarrow> (string \<times> 'v) list" where
  "table_insert k v [] = [(k, v)]"
| "table_insert k v ((k', v') # m) =
     (if lua_table_less k k' then (k, v) # (k', v') # m
      else if k = k' then (k', v') # m
      else (k', v') # table_insert k v m)"

definition map_insert :: "'k::linorder \<Rightarrow> 'v \<Rightarrow> ('k \<times> 'v) list \<Rightarrow> ('k \<times> 'v) list" where
  "map_insert k v m = (case map_of m k of None \<Rightarrow> smap_set k v m | Some _ \<Rightarrow> m)"

definition table_ok :: "(string \<times> 'v) list \<Rightarrow> bool" where
  "table_ok t \<longleftrightarrow> sorted_wrt (\<lambda>x y. lua_table_less (fst x) (fst y)) t"

section \<open>StorageTypes.cpp\<close>

text \<open>A C string ends at the first zero byte.\<close>

definition c_str :: "string \<Rightarrow> string" where
  "c_str s = takeWhile (\<lambda>c. c \<noteq> CHR 0x00) s"

definition default_storage :: StorageDataType where
  "default_storage = storage_raw storage_value_null []"

text \<open>The items of a table, each read as the member that the type of the table calls for.\<close>

fun items_as :: "(glua_union \<Rightarrow> 'v option) \<Rightarrow> (string \<times> GluaStorageValue) list \<Rightarrow>
    (string \<times> 'v) list \<Rightarrow> (string \<times> 'v) list option" where
  "items_as get [] m = Some m"
| "items_as get ((k, v) # t) m =
     (case get (glua_value v) of None \<Rightarrow> None | Some x \<Rightarrow> items_as get t (map_insert k x m))"

definition table_as :: "(glua_union \<Rightarrow> 'v option) \<Rightarrow> glua_union \<Rightarrow> (string \<times> 'v) list option" where
  "table_as get u = (case as_table u of None \<Rightarrow> None | Some t \<Rightarrow> items_as get t [])"

definition get_storage_data_from_lua_storage :: "GluaStorageValue \<Rightarrow> StorageDataType option" where
  "get_storage_data_from_lua_storage v =
     (let ty = glua_type v; u = glua_value v; base = get_storage_base_type ty in
      if ty = storage_value_null then Some (storage_null 0)
      else if ty = storage_value_int then map_option storage_int (as_int u)
      else if ty = storage_value_number then map_option storage_number (as_number u)
      else if ty = storage_value_bool then map_option storage_bool (as_bool u)
      else if ty = storage_value_string then map_option storage_string (as_string u)
      else if lua_storage_is_table ty then
        (if base = storage_value_int then
           map_option (if ty = 51 then storage_int_table else storage_int_array) (table_as as_int u)
         else if base = storage_value_number then
           map_option (if ty = 52 then storage_number_table else storage_number_array) (table_as as_number u)
         else if base = storage_value_bool then
           map_option (if ty = 53 then storage_bool_table else storage_bool_array) (table_as as_bool u)
         else if base = storage_value_string then
           map_option (if ty = 54 then storage_string_table else storage_string_array) (table_as as_string u)
         else Some default_storage)
      else Some default_storage)"

definition glua_int :: "int \<Rightarrow> GluaStorageValue" where
  "glua_int i = Glua storage_value_int (int_value i)"

definition glua_number :: "64 word \<Rightarrow> GluaStorageValue" where
  "glua_number d = Glua storage_value_number (number_value d)"

definition glua_string :: "string \<Rightarrow> GluaStorageValue" where
  "glua_string s = Glua storage_value_string (string_value (c_str s))"

definition glua_bool :: "bool \<Rightarrow> GluaStorageValue" where
  "glua_bool b = Glua storage_value_bool (bool_value b)"

text \<open>
  \<open>mem n\<close> says whether allocation number \<open>n\<close> of the call succeeds; the first is for the table.
\<close>

definition fill_table :: "('v \<Rightarrow> GluaStorageValue) \<Rightarrow> (string \<times> 'v) list \<Rightarrow> (string \<times> GluaStorageValue) list" where
  "fill_table mk m = fold (\<lambda>(k, x). table_insert k (mk x)) m []"

fun fill_strings :: "(nat \<Rightarrow> bool) \<Rightarrow> nat \<Rightarrow> (string \<times> string) list \<Rightarrow>
    (string \<times> GluaStorageValue) list \<Rightarrow> (string \<times> GluaStorageValue) list option" where
  "fill_strings mem n [] t = Some t"
| "fill_strings mem n ((k, s) # m) t =
     (if mem n then fill_strings mem (Suc n) m (table_insert k (glua_string s) t)
      else None)"

definition new_table :: "(nat \<Rightarrow> bool) \<Rightarrow> nat \<Rightarrow> (string \<times> GluaStorageValue) list option \<Rightarrow> GluaStorageValue" where
  "new_table mem ty items =
     (if \<not> mem 0 then null_value
      else case items of None \<Rightarrow> null_value | Some t \<Rightarrow> Glua ty (table_value t))"

definition create_lua_storage_from_storage_data ::
  "(nat \<Rightarrow> bool) \<Rightarrow> StorageDataType \<Rightarrow> GluaStorageValue result" where
  "create_lua_storage_from_storage_data mem d =
     (case d of
        storage_null _ \<Rightarrow> Inr null_value
      | storage_int i \<Rightarrow> Inr (glua_int i)
      | storage_number x \<Rightarrow> Inr (glua_number x)
      | storage_bool b \<Rightarrow> Inr (glua_bool b)
      | storage_string s \<Rightarrow>
          Inr (if mem 0 then glua_string s else null_value)
      | storage_int_table m \<Rightarrow> Inr (new_table mem (storage_type d) (Some (fill_table glua_int m)))
      | storage_int_array m \<Rightarrow> Inr (new_table mem (storage_type d) (Some (fill_table glua_int m)))
      | storage_number_table m \<Rightarrow> Inr (new_table mem (storage_type d) (Some (fill_table glua_number m)))
      | storage_number_array m \<Rightarrow> Inr (new_table mem (storage_type d) (Some (fill_table glua_number m)))
      | storage_bool_table m \<Rightarrow> Inr (new_table mem (storage_type d) (Some (fill_table glua_bool m)))
      | storage_bool_array m \<Rightarrow> Inr (new_table mem (storage_type d) (Some (fill_table glua_bool m)))
      | storage_string_table m \<Rightarrow> Inr (new_table mem (storage_type d) (fill_strings mem 1 m []))
      | storage_string_array m \<Rightarrow> Inr (new_table mem (storage_type d) (fill_strings mem 1 m []))
      | storage_raw ty _ \<Rightarrow>
          if ty = storage_value_null then Inr null_value
          else if ty \<in> {1, 2, 3, 4} then Inl out_of_range_exception
          else if lua_storage_is_table ty then
            (if mem 0 \<and> ty \<in> {51, 52, 53, 54, 101, 102, 103, 104} then Inl out_of_range_exception
             else Inr (new_table mem ty (Some [])))
          else Inr null_value)"

section \<open>Equality of values\<close>

text \<open>
  \<open>==\<close> of two doubles, given by their bits: a number that is not a number equals nothing, and the
  two zeros are equal.
\<close>

definition number_eq :: "64 word \<Rightarrow> 64 word \<Rightarrow> bool" where
  "number_eq x y \<longleftrightarrow>
     (let magnitude = (\<lambda>d. d AND 0x7FFFFFFFFFFFFFFF); inf = 0x7FF0000000000000 in
      magnitude x \<le> inf \<and> magnitude y \<le> inf \<and> (x = y \<or> magnitude x = 0 \<and> magnitude y = 0))"

lemma size_item [termination_simp]:
  "kv \<in> set t \<Longrightarrow> size (snd kv) < size_list (size_prod (\<lambda>_. 0) size) t"
  unfolding size_prod_simp by (induction t) auto

function glua_equals :: "GluaStorageValue \<Rightarrow> GluaStorageValue \<Rightarrow> bool" where
  "glua_equals (Glua ty u) (Glua ty' u') =
     (if ty \<noteq> ty' then False
      else if ty = storage_value_string then
        (case (u, u') of (string_value s, string_value s') \<Rightarrow> s = s' | _ \<Rightarrow> False)
      else if ty = storage_value_int then
        (case (u, u') of (int_value i, int_value i') \<Rightarrow> i = i' | _ \<Rightarrow> False)
      else if ty = storage_value_number then
        (case (u, u') of (number_value x, number_value y) \<Rightarrow> number_eq x y | _ \<Rightarrow> False)
      else if ty = storage_value_bool then
        (case (u, u') of (bool_value b, bool_value b') \<Rightarrow> b = b' | _ \<Rightarrow> False)
      else if ty = storage_value_null then True
      else if lua_storage_is_table ty then
        (case (u, u') of
           (table_value t, table_value t') \<Rightarrow>
             length t = length t' \<and>
             (\<forall>kv \<in> set t. case map_of t' (fst kv) of
                None \<Rightarrow> False
              | Some v' \<Rightarrow> glua_equals (snd kv) v')
         | _ \<Rightarrow> False)
      else False)"
  by pat_completeness auto

termination glua_equals
  by (relation "measure (\<lambda>(v, _). size v)") (auto dest!: size_item)

section \<open>The difference of two tables\<close>

record GluaStorageChangeItem =
  chg_contract_id :: string
  chg_key :: string
  chg_before :: GluaStorageValue
  chg_after :: GluaStorageValue

text \<open>One item of the table before: what it adds to the new tables before and after.\<close>

definition diff_item ::
  "(string \<times> GluaStorageValue) list \<Rightarrow> string \<times> GluaStorageValue \<Rightarrow>
     (string \<times> GluaStorageValue) list \<times> (string \<times> GluaStorageValue) list \<Rightarrow>
     (string \<times> GluaStorageValue) list \<times> (string \<times> GluaStorageValue) list" where
  "diff_item after = (\<lambda>(k, v) (new_before, new_after).
     case map_of after k of
       None \<Rightarrow> (table_insert k v new_before, new_after)
     | Some found \<Rightarrow>
         if glua_equals found v then (new_before, new_after)
         else if glua_type v = storage_value_null then (new_before, new_after)
         else (table_insert k v new_before, table_insert k found new_after))"

definition diff_new_item ::
  "(string \<times> GluaStorageValue) list \<Rightarrow> string \<times> GluaStorageValue \<Rightarrow>
     (string \<times> GluaStorageValue) list \<Rightarrow> (string \<times> GluaStorageValue) list" where
  "diff_new_item before = (\<lambda>(k, v) new_after.
     if map_of before k = None then table_insert k v new_after else new_after)"

definition diff_tables ::
  "(string \<times> GluaStorageValue) list \<Rightarrow> (string \<times> GluaStorageValue) list \<Rightarrow>
     (string \<times> GluaStorageValue) list \<times> (string \<times> GluaStorageValue) list" where
  "diff_tables before after =
     (let (new_before, new_after) = fold (diff_item after) before ([], [])
      in (new_before, fold (diff_new_item before) after new_after))"

definition diff_storage_change_if_is_table :: "GluaStorageChangeItem \<Rightarrow> GluaStorageChangeItem" where
  "diff_storage_change_if_is_table c =
     (if \<not> lua_storage_is_table (glua_type (chg_after c)) \<or> \<not> lua_storage_is_table (glua_type (chg_before c)) then c
      else case (glua_value (chg_before c), glua_value (chg_after c)) of
        (table_value before, table_value after) \<Rightarrow>
          (let (new_before, new_after) = diff_tables before after
           in c\<lparr>chg_before := Glua (glua_type (chg_before c)) (table_value new_before),
                chg_after := Glua (glua_type (chg_after c)) (table_value new_after)\<rparr>)
      | _ \<Rightarrow> c)"

section \<open>Tables\<close>

lemma table_less_order:
  "\<not> lua_table_less k k" "lua_table_less j k \<Longrightarrow> lua_table_less k l \<Longrightarrow> lua_table_less j l"
  "lua_table_less j k \<or> j = k \<or> lua_table_less k j"
  by (auto simp: lua_table_less_def split: if_splits)

lemma set_table_insert: "set (table_insert k v t) \<subseteq> insert (k, v) (set t)"
  by (induction k v t rule: table_insert.induct) auto

lemma table_ok_Cons: "table_ok ((k, v) # t) \<longleftrightarrow> (\<forall>x \<in> set t. lua_table_less k (fst x)) \<and> table_ok t"
  by (simp add: table_ok_def)

lemma table_ok_insert: "table_ok t \<Longrightarrow> table_ok (table_insert k v t)"
proof (induction k v t rule: table_insert.induct)
  case (2 k v k' v' m)
  have m: "\<forall>x \<in> set m. lua_table_less k' (fst x)" "table_ok m" using "2.prems" by (simp_all add: table_ok_Cons)
  consider "lua_table_less k k'" | "k = k'" | "\<not> lua_table_less k k'" "lua_table_less k' k" "k \<noteq> k'"
    using table_less_order(3) by blast
  then show ?case
  proof cases
    case 1
    then have "\<forall>x \<in> set m. lua_table_less k (fst x)" using m(1) table_less_order(2) by blast
    with 1 m show ?thesis by (simp add: table_ok_Cons)
  next
    case 3
    then have "\<forall>x \<in> set (table_insert k v m). lua_table_less k' (fst x)"
      using m(1) set_table_insert [of k v m] by auto
    with 2 3 m show ?thesis by (simp add: table_ok_Cons)
  qed (use "2.prems" table_less_order(1) in simp)
qed (simp add: table_ok_def)

lemma table_ok_distinct: "table_ok t \<Longrightarrow> distinct (map fst t)"
  by (induction t) (auto simp: table_ok_def table_less_order(1))

lemma map_of_table_insert:
  "table_ok t \<Longrightarrow> map_of (table_insert k v t) j = (case map_of t j of Some x \<Rightarrow> Some x | None \<Rightarrow> if j = k then Some v else None)"
proof (induction k v t rule: table_insert.induct)
  case (2 k v k' v' m)
  have "map_of m k = None" if "lua_table_less k k'"
  proof (rule ccontr)
    assume "map_of m k \<noteq> None"
    then obtain x where "(k, x) \<in> set m" by (auto dest: map_of_SomeD)
    then have "lua_table_less k' k" using "2.prems" by (auto simp: table_ok_Cons)
    then show False using table_less_order(1,2) that by blast
  qed
  then show ?case using 2 table_less_order(1) by (auto simp: table_ok_Cons split: option.splits)
qed simp

text \<open>Two sorted maps with the same bindings are equal.\<close>

lemma smap_eqI:
  assumes "smap_ok m" "smap_ok m'" "map_of m = map_of m'"
  shows "m = m'"
proof (rule map_sorted_distinct_set_unique [where f = fst])
  have d: "distinct (map fst m)" "distinct (map fst m')" using assms by (simp_all add: smap_ok_distinct)
  then show "distinct (map fst m)" "distinct (map fst m')" .
  show "sorted (map fst m)" "sorted (map fst m')"
    using assms by (simp_all add: smap_ok_def strict_sorted_iff)
  show "set m = set m'"
    using d assms(3) by (metis map_of_eqI map_of_inject_set)
  then show "inj_on fst (set m \<union> set m')" using d by (simp add: distinct_map)
qed

lemma map_of_map_insert:
  "map_of (map_insert k v m) j = (case map_of m j of Some x \<Rightarrow> Some x | None \<Rightarrow> if j = k then Some v else None)"
  by (auto simp: map_insert_def split: option.splits)

lemma smap_ok_insert: "smap_ok m \<Longrightarrow> smap_ok (map_insert k v m)"
  by (simp add: map_insert_def split: option.split)

lemma items_as_spec:
  assumes "items_as get t m = Some m'" "smap_ok m"
  shows "smap_ok m'" "map_of m' j = (case map_of m j of Some x \<Rightarrow> Some x
    | None \<Rightarrow> (case map_of t j of Some v \<Rightarrow> get (glua_value v) | None \<Rightarrow> None))"
  using assms
  by (induction get t m rule: items_as.induct)
    (auto simp: smap_ok_insert map_of_map_insert split: option.splits if_splits)

lemma items_as_defined: "(\<forall>kv \<in> set t. get (glua_value (snd kv)) \<noteq> None) \<Longrightarrow> \<exists>m'. items_as get t m = Some m'"
  by (induction get t m rule: items_as.induct) auto

lemma fold_insert_spec:
  assumes "table_ok t"
  shows "table_ok (fold (\<lambda>(k, x). table_insert k (mk x)) m t)"
    "map_of (fold (\<lambda>(k, x). table_insert k (mk x)) m t) j =
       (case map_of t j of Some y \<Rightarrow> Some y | None \<Rightarrow> map_option mk (map_of m j))"
    "snd ` set (fold (\<lambda>(k, x). table_insert k (mk x)) m t) \<subseteq> snd ` set t \<union> mk ` snd ` set m"
proof -
  show ok: "table_ok (fold (\<lambda>(k, x). table_insert k (mk x)) m t)"
    using assms by (induction m arbitrary: t) (auto simp: table_ok_insert)
  show "map_of (fold (\<lambda>(k, x). table_insert k (mk x)) m t) j =
       (case map_of t j of Some y \<Rightarrow> Some y | None \<Rightarrow> map_option mk (map_of m j))"
    using assms by (induction m arbitrary: t) (auto simp: table_ok_insert map_of_table_insert split: option.splits)
  show "snd ` set (fold (\<lambda>(k, x). table_insert k (mk x)) m t) \<subseteq> snd ` set t \<union> mk ` snd ` set m"
  proof (induction m arbitrary: t)
    case (Cons kx m)
    have "snd ` set (table_insert (fst kx) (mk (snd kx)) t) \<subseteq> insert (mk (snd kx)) (snd ` set t)"
      using set_table_insert [of "fst kx" "mk (snd kx)" t] by auto
    with Cons [of "table_insert (fst kx) (mk (snd kx)) t"] show ?case by (cases kx) auto
  qed simp
qed

definition changed :: "(string \<times> GluaStorageValue) list \<Rightarrow> string \<Rightarrow> GluaStorageValue \<Rightarrow> bool" where
  "changed after k v = (case map_of after k of
     None \<Rightarrow> True | Some found \<Rightarrow> \<not> glua_equals found v \<and> glua_type v \<noteq> storage_value_null)"

lemma fold_diff_item:
  assumes "fold (diff_item after) before (nb, na) = (nb', na')" "table_ok nb" "table_ok na" "distinct (map fst before)"
  shows "table_ok nb' \<and> table_ok na' \<and>
    map_of nb' k = (case map_of nb k of Some y \<Rightarrow> Some y | None \<Rightarrow>
      (case map_of before k of Some v \<Rightarrow> if changed after k v then Some v else None | None \<Rightarrow> None)) \<and>
    map_of na' k = (case map_of na k of Some y \<Rightarrow> Some y | None \<Rightarrow>
      (case map_of before k of Some v \<Rightarrow> if changed after k v then map_of after k else None | None \<Rightarrow> None))"
  using assms
proof (induction before arbitrary: nb na)
  case (Cons kv before)
  obtain j v where kv: "kv = (j, v)" by fastforce
  obtain nb1 na1 where 1: "diff_item after (j, v) (nb, na) = (nb1, na1)" by fastforce
  have ok: "table_ok nb1" "table_ok na1"
    using 1 Cons.prems(2,3) by (auto simp: diff_item_def table_ok_insert split: option.splits if_splits)
  have m: "map_of nb1 k = (case map_of nb k of Some y \<Rightarrow> Some y | None \<Rightarrow>
      if k = j \<and> changed after k v then Some v else None)"
    "map_of na1 k = (case map_of na k of Some y \<Rightarrow> Some y | None \<Rightarrow>
      if k = j \<and> changed after k v then map_of after k else None)"
    using 1 Cons.prems(2,3)
    by (auto simp: diff_item_def changed_def map_of_table_insert split: option.splits if_splits)
  have "map_of before j = None" using Cons.prems(4) by (simp add: kv map_of_eq_None_iff)
  with Cons.IH [OF _ ok] Cons.prems(1,4) 1 m show ?case
    by (auto simp: kv split: option.splits)
qed (simp split: option.split)

lemma fold_diff_new_item:
  assumes "table_ok na"
  shows "table_ok (fold (diff_new_item before) after na) \<and>
    map_of (fold (diff_new_item before) after na) k = (case map_of na k of Some y \<Rightarrow> Some y | None \<Rightarrow>
      if map_of before k = None then map_of after k else None)"
  using assms
proof (induction after arbitrary: na)
  case (Cons kv after)
  obtain j v where kv: "kv = (j, v)" by fastforce
  have ok: "table_ok (diff_new_item before (j, v) na)"
    using Cons.prems by (simp add: diff_new_item_def table_ok_insert)
  have "map_of (diff_new_item before (j, v) na) k = (case map_of na k of Some y \<Rightarrow> Some y | None \<Rightarrow>
      if k = j \<and> map_of before k = None then Some v else None)"
    using Cons.prems by (auto simp: diff_new_item_def map_of_table_insert split: option.splits)
  with Cons.IH [OF ok] show ?case by (auto simp: kv split: option.splits)
qed (simp split: option.split)

lemma diff_tables_spec:
  assumes "diff_tables before after = (nb, na)" "distinct (map fst before)"
  shows "table_ok nb" "table_ok na"
    "map_of nb k = (case map_of before k of Some v \<Rightarrow> if changed after k v then Some v else None | None \<Rightarrow> None)"
    "map_of na k = (case map_of before k of Some v \<Rightarrow> if changed after k v then map_of after k else None
       | None \<Rightarrow> map_of after k)"
proof -
  obtain na1 where 1: "fold (diff_item after) before ([], []) = (nb, na1)" "na = fold (diff_new_item before) after na1"
    using assms(1) by (auto simp: diff_tables_def split: prod.splits)
  have ok: "table_ok ([] :: (string \<times> GluaStorageValue) list)" by (simp add: table_ok_def)
  note a = fold_diff_item [OF 1(1) ok ok assms(2), of k]
  note b = fold_diff_new_item [of na1 before after k]
  show "table_ok nb" using a by simp
  show "table_ok na" using a b 1(2) by simp
  show "map_of nb k = (case map_of before k of Some v \<Rightarrow> if changed after k v then Some v else None | None \<Rightarrow> None)"
    using a by simp
  show "map_of na k = (case map_of before k of Some v \<Rightarrow> if changed after k v then map_of after k else None
       | None \<Rightarrow> map_of after k)"
    using a b 1(2) by (auto split: option.splits if_splits)
qed

lemma update_contract_map_spec:
  assumes "smap_ok t" "smap_ok a"
  shows "smap_ok (update_contract_map_storage t b a)"
    "map_of (update_contract_map_storage t b a) k =
       (case map_of a k of Some v \<Rightarrow> Some v | None \<Rightarrow> if map_of b k = None then map_of t k else None)"
proof -
  have del: "smap_ok (fold (\<lambda>kv. smap_del (fst kv)) b t) \<and>
      map_of (fold (\<lambda>kv. smap_del (fst kv)) b t) k = (if map_of b k = None then map_of t k else None)"
    if "smap_ok t" for t
    using that
  proof (induction b arbitrary: t)
    case (Cons kv b)
    show ?case using Cons.IH [OF smap_ok_del [OF Cons.prems, of "fst kv"]]
      by (cases kv; cases "map_of b k") simp_all
  qed simp
  have set: "smap_ok (fold (\<lambda>(k, v). smap_set k v) a t) \<and>
      map_of (fold (\<lambda>(k, v). smap_set k v) a t) k = (case map_of a k of Some v \<Rightarrow> Some v | None \<Rightarrow> map_of t k)"
    if "smap_ok t" "distinct (map fst a)" for t
    using that
  proof (induction a arbitrary: t)
    case (Cons kv a)
    then have "map_of a (fst kv) = None" by (simp add: map_of_eq_None_iff)
    with Cons show ?case by (cases kv) (auto split: option.splits)
  qed simp
  show "smap_ok (update_contract_map_storage t b a)"
    "map_of (update_contract_map_storage t b a) k =
       (case map_of a k of Some v \<Rightarrow> Some v | None \<Rightarrow> if map_of b k = None then map_of t k else None)"
    using set [OF conjunct1 [OF del [OF assms(1)]] smap_ok_distinct [OF assms(2)]] del [OF assms(1)]
    by (simp_all add: update_contract_map_storage_def split: option.split)
qed

lemma update_table_run:
  assumes "map_of storages name = Some d" "storage_type d \<in> {51, 52, 53, 54, 101, 102, 103, 104}"
    and "storage_type b = storage_type d" "storage_type a = storage_type d"
    and "update_storage_table \<lparr>storage_before = b, storage_after = a\<rparr> d = Inr d'"
  shows "update_contract_storages (name, \<lparr>storage_before = b, storage_after = a\<rparr>) storages =
    Inr (smap_set name d' storages)"
  using assms by (auto simp: update_contract_storages_def Let_def is_any_base_storage_value_type_def require_def)

text \<open>
  The tables of one type: \<open>mk\<close> makes an item of a value, \<open>get\<close> reads it, \<open>good\<close> are the values it
  does so faithfully, and \<open>same\<close> those that \<open>glua_equals\<close> does not tell apart.
\<close>

locale item_codec =
  fixes mk :: "'v \<Rightarrow> GluaStorageValue" and get :: "glua_union \<Rightarrow> 'v option"
    and good :: "'v \<Rightarrow> bool" and same :: "'v \<Rightarrow> 'v \<Rightarrow> bool"
  assumes get_mk: "good x \<Longrightarrow> get (glua_value (mk x)) = Some x"
    and equals_mk: "good x \<Longrightarrow> good y \<Longrightarrow> glua_equals (mk x) (mk y) \<longleftrightarrow> same x y"
    and mk_not_null: "glua_type (mk x) \<noteq> storage_value_null"
begin

text \<open>The items of a table are made of good values.\<close>

lemma items_get:
  assumes "\<forall>v \<in> snd ` set t. \<exists>x. good x \<and> v = mk x"
  shows "\<exists>m. items_as get t [] = Some m \<and> smap_ok m \<and>
    (\<forall>k. map_of m k = (case map_of t k of None \<Rightarrow> None | Some v \<Rightarrow> get (glua_value v)))"
proof -
  have "\<forall>kv \<in> set t. get (glua_value (snd kv)) \<noteq> None" using assms get_mk by fastforce
  then obtain m where m: "items_as get t [] = Some m" using items_as_defined by blast
  show ?thesis
    by (rule exI [of _ m]) (use m items_as_spec [OF m] in \<open>simp add: smap_ok_def\<close>)
qed

lemma fill_get:
  assumes "smap_ok m" "\<forall>x \<in> snd ` set m. good x"
  shows "items_as get (fill_table mk m) [] = Some m"
proof -
  let ?t = "fill_table mk m"
  have ok: "table_ok ([] :: (string \<times> GluaStorageValue) list)" by (simp add: table_ok_def)
  have t: "\<And>k. map_of ?t k = map_option mk (map_of m k)" "snd ` set ?t \<subseteq> mk ` snd ` set m"
    using fold_insert_spec [OF ok, of mk m] by (simp_all add: fill_table_def)
  have "\<forall>v \<in> snd ` set ?t. \<exists>x. good x \<and> v = mk x" using t(2) assms(2) by blast
  from items_get [OF this] obtain m' where m': "items_as get ?t [] = Some m'" "smap_ok m'"
    "\<And>k. map_of m' k = (case map_of ?t k of None \<Rightarrow> None | Some v \<Rightarrow> get (glua_value v))"
    by blast
  have "map_of m' k = map_of m k" for k
    using assms(2) get_mk by (cases "map_of m k") (auto simp: m'(3) t(1) dest!: map_of_SomeD)
  then show ?thesis using smap_eqI [OF m'(2) assms(1)] m'(1) by auto
qed

text \<open>
  The table on the chain, from which the items of the difference before are erased and into
  which those after are put, is the table after.
\<close>

lemma diff_applies:
  assumes m: "smap_ok m" "\<forall>x \<in> snd ` set m. good x"
    and after: "table_ok after" "\<forall>v \<in> snd ` set after. \<exists>x. good x \<and> v = mk x"
    and diff: "diff_tables (fill_table mk m) after = (nb, na)"
  shows "\<exists>b a m'. items_as get nb [] = Some b \<and> items_as get na [] = Some a \<and> items_as get after [] = Some m' \<and>
    smap_ok m' \<and> smap_ok (update_contract_map_storage m b a) \<and>
    (\<forall>k. rel_option (\<lambda>x y. x = y \<or> same y x) (map_of (update_contract_map_storage m b a) k) (map_of m' k))"
proof -
  let ?t = "fill_table mk m"
  have ok: "table_ok ([] :: (string \<times> GluaStorageValue) list)" by (simp add: table_ok_def)
  have t: "table_ok ?t" "\<And>k. map_of ?t k = map_option mk (map_of m k)" "snd ` set ?t \<subseteq> mk ` snd ` set m"
    using fold_insert_spec [OF ok, of mk m] by (simp_all add: fill_table_def)
  note d = diff_tables_spec [OF diff table_ok_distinct [OF t(1)]]
  have nb: "\<forall>v \<in> snd ` set nb. \<exists>x. good x \<and> v = mk x"
  proof
    fix v assume "v \<in> snd ` set nb"
    then obtain k where "map_of nb k = Some v"
      using table_ok_distinct [OF d(1)] by (auto simp: image_iff)
    then have "map_of ?t k = Some v" by (auto simp: d(3) split: option.splits if_splits)
    then show "\<exists>x. good x \<and> v = mk x" using t(2) m(2) by (auto dest!: map_of_SomeD)
  qed
  have na: "\<forall>v \<in> snd ` set na. \<exists>x. good x \<and> v = mk x"
  proof
    fix v assume "v \<in> snd ` set na"
    then obtain k where "map_of na k = Some v"
      using table_ok_distinct [OF d(2)] by (auto simp: image_iff)
    then have "map_of after k = Some v" by (auto simp: d(4) split: option.splits if_splits)
    then show "\<exists>x. good x \<and> v = mk x" using after(2) by (force dest!: map_of_SomeD)
  qed
  obtain b a m' where b: "items_as get nb [] = Some b" "smap_ok b"
      "\<And>k. map_of b k = (case map_of nb k of None \<Rightarrow> None | Some v \<Rightarrow> get (glua_value v))"
    and a: "items_as get na [] = Some a" "smap_ok a"
      "\<And>k. map_of a k = (case map_of na k of None \<Rightarrow> None | Some v \<Rightarrow> get (glua_value v))"
    and m': "items_as get after [] = Some m'" "smap_ok m'"
      "\<And>k. map_of m' k = (case map_of after k of None \<Rightarrow> None | Some v \<Rightarrow> get (glua_value v))"
    using items_get [OF nb] items_get [OF na] items_get [OF after(2)] by auto
  note u = update_contract_map_spec [OF m(1) a(2), of b]
  have "rel_option (\<lambda>x y. x = y \<or> same y x) (map_of (update_contract_map_storage m b a) k) (map_of m' k)" for k
  proof (cases "map_of m k")
    case None
    then have "map_of b k = None" "map_of a k = map_of m' k" by (simp_all add: a(3) b(3) m'(3) d(3,4) t(2))
    with None show ?thesis by (simp add: u(2) option.rel_refl split: option.split)
  next
    case (Some x)
    then have x: "good x" using m(2) by (auto dest!: map_of_SomeD)
    show ?thesis
    proof (cases "map_of after k")
      case None
      with Some x show ?thesis by (simp add: u(2) a(3) b(3) m'(3) d(3,4) t(2) changed_def get_mk)
    next
      case (Some v)
      then obtain y where y: "good y" "v = mk y" using after(2) by (force dest!: map_of_SomeD)
      with Some x \<open>map_of m k = Some x\<close> mk_not_null [of x] show ?thesis
        by (simp add: u(2) a(3) b(3) m'(3) d(3,4) t(2) changed_def get_mk equals_mk)
    qed
  qed
  with u(1) a(1) b(1) m'(1,2) show ?thesis by blast
qed

text \<open>\<open>con\<close> is the type of the stored value, and \<open>ty\<close> its tag.\<close>

lemma committed:
  assumes exact: "\<And>x y. same x y \<Longrightarrow> x = y"
    and con: "\<And>m. storage_type (con m) = ty" "ty \<in> {51, 52, 53, 54, 101, 102, 103, 104}"
      "\<And>t. get_storage_data_from_lua_storage (Glua ty (table_value t)) = map_option con (items_as get t [])"
      "\<And>t b a. update_storage_table \<lparr>storage_before = con b, storage_after = con a\<rparr> (con t) =
        Inr (con (update_contract_map_storage t b a))"
    and m: "smap_ok m" "\<forall>x \<in> snd ` set m. good x" "map_of storages name = Some (con m)"
    and after: "table_ok t" "\<forall>v \<in> snd ` set t. \<exists>x. good x \<and> v = mk x"
    and c: "c = diff_storage_change_if_is_table \<lparr>chg_contract_id = contract_id, chg_key = name,
      chg_before = Glua ty (table_value (fill_table mk m)), chg_after = Glua ty (table_value t)\<rparr>"
  shows "\<exists>b a d'. get_storage_data_from_lua_storage (chg_before c) = Some b \<and>
    get_storage_data_from_lua_storage (chg_after c) = Some a \<and>
    get_storage_data_from_lua_storage (Glua ty (table_value t)) = Some d' \<and> storage_type d' = ty \<and>
    update_contract_storages (name, \<lparr>storage_before = b, storage_after = a\<rparr>) storages =
      Inr (smap_set name d' storages)"
proof -
  obtain nb na where d: "diff_tables (fill_table mk m) t = (nb, na)" by fastforce
  have "lua_storage_is_table ty"
    using con(2) by (auto simp: lua_storage_is_table_def is_any_table_storage_value_type_def
        is_any_array_storage_value_type_def)
  then have c': "chg_before c = Glua ty (table_value nb)" "chg_after c = Glua ty (table_value na)"
    by (simp_all add: c diff_storage_change_if_is_table_def d)
  obtain b a m' where g: "items_as get nb [] = Some b" "items_as get na [] = Some a" "items_as get t [] = Some m'"
    and ok: "smap_ok m'" "smap_ok (update_contract_map_storage m b a)"
    and rel: "\<forall>k. rel_option (\<lambda>x y. x = y \<or> same y x) (map_of (update_contract_map_storage m b a) k) (map_of m' k)"
    using diff_applies [OF m(1,2) after d] by blast
  have "map_of (update_contract_map_storage m b a) k = map_of m' k" for k
    using rel [rule_format, of k] by (auto elim!: option.rel_cases dest: exact)
  then have eq: "update_contract_map_storage m b a = m'" using smap_eqI [OF ok(2,1)] by blast
  have "update_contract_storages (name, \<lparr>storage_before = con b, storage_after = con a\<rparr>) storages =
      Inr (smap_set name (con m') storages)"
    by (rule update_table_run [OF m(3)]) (use con(1,2,4) eq in auto)
  then show ?thesis using con(1) by (simp add: c' con(3) g)
qed

end

definition nul_free :: "string \<Rightarrow> bool" where
  "nul_free s \<longleftrightarrow> CHR 0x00 \<notin> set s"

lemma c_str_nul_free [simp]: "nul_free s \<Longrightarrow> c_str s = s"
  unfolding c_str_def takeWhile_eq_all_conv nul_free_def by metis

lemmas glua_item_defs = glua_int_def glua_number_def glua_bool_def glua_string_def

interpretation int_items: item_codec glua_int as_int "\<lambda>_. True" "(=)"
  by unfold_locales (simp_all add: glua_item_defs union_defs)

interpretation number_items: item_codec glua_number as_number "\<lambda>_. True" number_eq
  by unfold_locales (simp_all add: glua_item_defs union_defs)

interpretation bool_items: item_codec glua_bool as_bool "\<lambda>_. True" "(=)"
  by unfold_locales (simp_all add: glua_item_defs union_defs)

interpretation string_items: item_codec glua_string as_string nul_free "(=)"
  by unfold_locales (simp_all add: glua_item_defs union_defs)

lemma fill_strings_fill:
  "\<forall>n. mem n \<Longrightarrow> fill_strings mem n m t = Some (fold (\<lambda>(k, s). table_insert k (glua_string s)) m t)"
  by (induction m arbitrary: n t) auto

section \<open>Round trip\<close>

text \<open>The values that the chain stores: sorted tables, and strings without a zero byte.\<close>

fun storage_ok :: "StorageDataType \<Rightarrow> bool" where
  "storage_ok (storage_null i) \<longleftrightarrow> i = 0"
| "storage_ok (storage_string s) \<longleftrightarrow> nul_free s"
| "storage_ok (storage_int_table m) \<longleftrightarrow> smap_ok m"
| "storage_ok (storage_number_table m) \<longleftrightarrow> smap_ok m"
| "storage_ok (storage_bool_table m) \<longleftrightarrow> smap_ok m"
| "storage_ok (storage_string_table m) \<longleftrightarrow> smap_ok m \<and> (\<forall>s \<in> snd ` set m. nul_free s)"
| "storage_ok (storage_int_array m) \<longleftrightarrow> smap_ok m"
| "storage_ok (storage_number_array m) \<longleftrightarrow> smap_ok m"
| "storage_ok (storage_bool_array m) \<longleftrightarrow> smap_ok m"
| "storage_ok (storage_string_array m) \<longleftrightarrow> smap_ok m \<and> (\<forall>s \<in> snd ` set m. nul_free s)"
| "storage_ok (storage_raw _ _) \<longleftrightarrow> False"
| "storage_ok _ \<longleftrightarrow> True"

lemmas table_type_defs =
  lua_storage_is_table_def is_any_table_storage_value_type_def is_any_array_storage_value_type_def
  get_storage_base_type_def

lemmas storage_conv_defs =
  create_lua_storage_from_storage_data_def get_storage_data_from_lua_storage_def new_table_def
  null_value_def table_as_def as_table_def table_type_defs

text \<open>
  C16 (roundtrip). What a contract reads from its storage and writes back unchanged is what was
  stored: converting a value of the chain for the virtual machine gives a value of the same type,
  and converting that back gives the value, if no allocation fails.
\<close>

theorem storage_value_roundtrip:
  assumes "storage_ok d" "\<forall>n. mem n"
  shows "\<exists>v. create_lua_storage_from_storage_data mem d = Inr v \<and> glua_type v = storage_type d \<and>
    get_storage_data_from_lua_storage v = Some d"
  using assms
  by (cases d)
    (simp_all add: storage_conv_defs fill_strings_fill fill_table_def [symmetric] int_items.fill_get
      number_items.fill_get bool_items.fill_get string_items.fill_get,
     simp_all add: glua_item_defs union_defs)

section \<open>A committed table is stored\<close>

text \<open>An item of a table whose base type is \<open>base\<close>.\<close>

definition item_ok :: "nat \<Rightarrow> GluaStorageValue \<Rightarrow> bool" where
  "item_ok base v \<longleftrightarrow> glua_type v = base \<and>
     (case glua_value v of
        int_value _ \<Rightarrow> base = storage_value_int
      | number_value _ \<Rightarrow> base = storage_value_number
      | bool_value _ \<Rightarrow> base = storage_value_bool
      | string_value s \<Rightarrow> base = storage_value_string \<and> nul_free s
      | _ \<Rightarrow> False)"

lemma item_ok_iff:
  "item_ok (Suc 0) v \<longleftrightarrow> (\<exists>x. v = glua_int x)"
  "item_ok storage_value_bool v \<longleftrightarrow> (\<exists>x. v = glua_bool x)"
  "item_ok storage_value_string v \<longleftrightarrow> (\<exists>x. nul_free x \<and> v = glua_string x)"
  by (cases v; cases "glua_value v"; auto simp: item_ok_def glua_item_defs)+

definition glua_table_ok :: "nat \<Rightarrow> (string \<times> GluaStorageValue) list \<Rightarrow> bool" where
  "glua_table_ok ty t \<longleftrightarrow> table_ok t \<and> (\<forall>v \<in> snd ` set t. item_ok (get_storage_base_type ty) v)"

text \<open>The tables and arrays whose items \<open>==\<close> tells apart: all but those of doubles.\<close>

definition exact_table :: "nat \<Rightarrow> bool" where
  "exact_table ty \<longleftrightarrow> ty \<in> {51, 53, 54, 101, 103, 104}"

lemmas commit_simps =
  storage_conv_defs fill_strings_fill fill_table_def update_storage_table_def glua_table_ok_def item_ok_iff


section \<open>Instances\<close>

theorem storage_value_roundtrip_witness:
  "\<exists>v. create_lua_storage_from_storage_data (\<lambda>_. True) (storage_string_table [(''a'', ''x''), (''bb'', [])]) = Inr v \<and>
     glua_type v = 54 \<and> get_storage_data_from_lua_storage v = Some (storage_string_table [(''a'', ''x''), (''bb'', [])])"
  using storage_value_roundtrip [of "storage_string_table [(''a'', ''x''), (''bb'', [])]" "\<lambda>_. True"]
  by (simp add: smap_ok_def nul_free_def less_char_def)


end
