(* ===== verification/Glua_Session.thy ===== *)
theory Glua_Session
  imports Glua_Storage
begin

text \<open>
  A run of a contract and its storage: \<open>set_storage\<close> and \<open>get_storage\<close> of
  \<open>glua/lthinkyounglib.cpp\<close> keep a log of changes in the Lua state, and
  \<open>luaL_commit_storage_changes\<close> turns the log into the storage operations of the result
  transaction. An exception of the library ends the run; the commit then drops the log, so that
  an error is a value and the state it leaves does not matter.
\<close>

section \<open>Numbers\<close>

fun log2 :: "nat \<Rightarrow> nat" where
  "log2 n = (if n < 2 then 0 else Suc (log2 (n div 2)))"

declare log2.simps [simp del]

text \<open>
  The conversions between \<open>lua_Integer\<close> and \<open>lua_Number\<close>: to the nearest double, ties to even, and
  truncation. A double beyond the range of the integers gives what x86-64 gives.
\<close>

definition number_of_int :: "int \<Rightarrow> 64 word" where
  "number_of_int i =
     (if i = 0 then 0
      else
        let a = nat \<bar>i\<bar>; n = log2 a; s = n - 52;
            q = a div 2 ^ s; r = a mod 2 ^ s;
            up = (n > 52 \<and> (2 * r > 2 ^ s \<or> 2 * r = 2 ^ s \<and> odd q));
            q1 = (if n \<le> 52 then a * 2 ^ (52 - n) else if up then q + 1 else q);
            (mant, ex) = (if q1 = 2 ^ 53 then (2 ^ 52, n + 1) else (q1, n))
        in word_of_nat ((if i < 0 then 2 ^ 63 else 0) + (ex + 1023) * 2 ^ 52 + (mant - 2 ^ 52)))"

definition int_of_number :: "64 word \<Rightarrow> int" where
  "int_of_number d =
     (let ex = unat (drop_bit 52 d) mod 2 ^ 11; mant = 2 ^ 52 + unat d mod 2 ^ 52;
          a = (if ex < 1023 then 0
               else if ex \<ge> 1075 then mant * 2 ^ (ex - 1075) else mant div 2 ^ (1075 - ex));
          v = (if bit d 63 then - int a else int a)
      in if in_int64 v then v else INT64_MIN)"

definition try_parse_type :: "nat \<Rightarrow> GluaStorageValue \<Rightarrow> GluaStorageValue" where
  "try_parse_type new_type v =
     (if new_type = storage_value_int \<and> glua_type v = storage_value_number then
        (case glua_value v of number_value d \<Rightarrow> glua_int (int_of_number d) | _ \<Rightarrow> v)
      else if new_type = storage_value_number \<and> glua_type v = storage_value_int then
        (case glua_value v of int_value i \<Rightarrow> glua_number (number_of_int i) | _ \<Rightarrow> v)
      else v)"

section \<open>The log\<close>

text \<open>
  The lists are kept as values of the Lua state. A table in the storage is also a Lua global,
  which the code of the contract changes in place: \<open>table_globals\<close> gives what
  \<open>lua_type_to_storage_value_type\<close> makes of it.
\<close>

record storage_session =
  change_list :: "GluaStorageChangeItem list option"
  table_read_list :: "GluaStorageChangeItem list"
  table_globals :: "string \<rightharpoonup> GluaStorageValue"

text \<open>What the library asks the Lua state and the chain.\<close>

record lua_env =
  current_using_contract_id :: string
  in_lua_sandbox :: bool
  calling_contract_init_api :: bool
  starting_contract_address :: string
  storage_value_from_chain :: "string \<Rightarrow> string \<Rightarrow> GluaStorageValue"
  contract_storage_properties :: "string \<Rightarrow> (string \<times> nat) list option"
  numbers_close :: "64 word \<Rightarrow> 64 word \<Rightarrow> bool"
  streams_equal :: "nat \<Rightarrow> nat \<Rightarrow> bool"

datatype lua_error = lua_simple_error string

definition global_key_for_storage_prop :: "string \<Rightarrow> string \<Rightarrow> string" where
  "global_key_for_storage_prop contract_id key = ''gk_'' @ contract_id @ ''__'' @ key"

definition is_change_of :: "string \<Rightarrow> string \<Rightarrow> GluaStorageChangeItem \<Rightarrow> bool" where
  "is_change_of contract_id key c \<longleftrightarrow> chg_contract_id c = contract_id \<and> chg_key c = key"

definition note_table_read :: "string \<Rightarrow> string \<Rightarrow> GluaStorageValue \<Rightarrow> storage_session \<Rightarrow> storage_session" where
  "note_table_read contract_id key v s =
     (if lua_storage_is_table (glua_type v) \<and> \<not> (\<exists>c \<in> set (table_read_list s). is_change_of contract_id key c)
      then s\<lparr>table_read_list := table_read_list s @
        [\<lparr>chg_contract_id = contract_id, chg_key = key, chg_before = v, chg_after = null_value\<rparr>]\<rparr>
      else s)"

definition get_last_storage_changed_value ::
  "lua_env \<Rightarrow> string \<Rightarrow> string \<Rightarrow> storage_session \<Rightarrow> GluaStorageValue \<times> storage_session" where
  "get_last_storage_changed_value L contract_id key s =
     (let chain_value = storage_value_from_chain L contract_id key in
      case change_list s of
        None \<Rightarrow> (chain_value, (note_table_read contract_id key chain_value s)\<lparr>change_list :=
          Some [\<lparr>chg_contract_id = contract_id, chg_key = key, chg_before = chain_value, chg_after = chain_value\<rparr>]\<rparr>)
      | Some [] \<Rightarrow> (chain_value, (note_table_read contract_id key chain_value s)\<lparr>change_list :=
          Some [\<lparr>chg_contract_id = contract_id, chg_key = key, chg_before = chain_value, chg_after = chain_value\<rparr>]\<rparr>)
      | Some l \<Rightarrow>
          (case find (is_change_of contract_id key) (rev l) of
             Some c \<Rightarrow> (chg_after c, s)
           | None \<Rightarrow> (chain_value, note_table_read contract_id key chain_value s)))"

section \<open>get\_storage\<close>

definition thinkyounglib_get_storage_impl ::
  "lua_env \<Rightarrow> string \<Rightarrow> string \<Rightarrow> storage_session \<Rightarrow> lua_error + (GluaStorageValue \<times> storage_session)" where
  "thinkyounglib_get_storage_impl L contract_id name s =
     (let gk = global_key_for_storage_prop contract_id name in
      if current_using_contract_id L \<noteq> contract_id
      then Inl (lua_simple_error ''contract can only access its own storage directly'')
      else case table_globals s gk of
        Some v \<Rightarrow> Inr (v, s)
      | None \<Rightarrow>
          if change_list s \<noteq> None \<and> in_lua_sandbox L then Inr (null_value, s)
          else
            let (v, s1) = get_last_storage_changed_value L contract_id name s
            in Inr (v, if lua_storage_is_table (glua_type v)
                       then s1\<lparr>table_globals := (table_globals s1)(gk \<mapsto> v)\<rparr> else s1))"

section \<open>set\_storage\<close>

text \<open>The items of a value that is a table.\<close>

definition items_of :: "GluaStorageValue \<Rightarrow> GluaStorageValue list" where
  "items_of v = (case glua_value v of table_value t \<Rightarrow> map snd t | _ \<Rightarrow> [])"

text \<open>\<open>table_value_type\<close>, which starts at -1: the one type that the items other than nil have.\<close>

fun scan_types :: "nat option \<Rightarrow> GluaStorageValue list \<Rightarrow> lua_error + nat option" where
  "scan_types ty [] = Inr ty"
| "scan_types ty (v # vs) =
     (if glua_type v = storage_value_null then scan_types ty vs
      else case ty of
        None \<Rightarrow> scan_types (Some (glua_type v)) vs
      | Some t \<Rightarrow>
          if t \<noteq> glua_type v then Inl (lua_simple_error ''storage table type must be same'')
          else scan_types ty vs)"

definition check_history_types ::
  "string \<Rightarrow> string \<Rightarrow> nat option \<Rightarrow> GluaStorageChangeItem list \<Rightarrow> bool" where
  "check_history_types contract_id name ty l \<longleftrightarrow>
     (\<forall>c \<in> set l. is_change_of contract_id name c \<and> lua_storage_is_table (glua_type (chg_after c)) \<longrightarrow>
        (\<forall>v \<in> set (items_of (chg_after c)). glua_type v \<noteq> storage_value_null \<longrightarrow> Some (glua_type v) = ty))"

definition check_table_types ::
  "string \<Rightarrow> string \<Rightarrow> GluaStorageValue \<Rightarrow> GluaStorageValue \<Rightarrow> GluaStorageChangeItem list \<Rightarrow> lua_error + unit" where
  "check_table_types contract_id name before after l =
     (if \<not> lua_storage_is_table (glua_type after) then Inr ()
      else
        case scan_types None (if lua_storage_is_table (glua_type before) then items_of before else []) of
          Inl e \<Rightarrow> Inl e
        | Inr ty1 \<Rightarrow>
            (case scan_types ty1 (items_of after) of
               Inl e \<Rightarrow> Inl e
             | Inr ty \<Rightarrow>
                 if (\<not> lua_storage_is_table (glua_type before) \<or> items_of before = []) \<and> items_of after \<noteq> [] \<and>
                    \<not> check_history_types contract_id name ty l
                 then Inl (lua_simple_error ''storage table type must be same'')
                 else Inr ()))"

definition storage_cannot :: "string \<Rightarrow> string \<Rightarrow> string" where
  "storage_cannot name what = name @ ''storage can'' @ [CHR 0x27] @ ''t '' @ what"

text \<open>A table that is written may be changed in place later: it becomes a global and is noted as read.\<close>

definition begin_change :: "string \<Rightarrow> string \<Rightarrow> GluaStorageValue \<Rightarrow> storage_session \<Rightarrow> storage_session" where
  "begin_change contract_id name after s =
     (let s1 = (if lua_storage_is_table (glua_type after) then
                  s\<lparr>table_globals := (table_globals s)(global_key_for_storage_prop contract_id name \<mapsto> after),
                    table_read_list :=
                      (if \<exists>c \<in> set (table_read_list s). is_change_of contract_id name c then table_read_list s
                       else table_read_list s @ [\<lparr>chg_contract_id = contract_id, chg_key = name,
                         chg_before = after, chg_after = after\<rparr>])\<rparr>
                else s)
      in s1\<lparr>change_list := (case change_list s1 of None \<Rightarrow> Some [] | Some l \<Rightarrow> Some l)\<rparr>)"

definition logged :: "storage_session \<Rightarrow> GluaStorageChangeItem list" where
  "logged s = (case change_list s of None \<Rightarrow> [] | Some l \<Rightarrow> l)"

definition record_change ::
  "lua_env \<Rightarrow> string \<Rightarrow> string \<Rightarrow> GluaStorageValue \<Rightarrow> GluaStorageValue \<times> storage_session \<Rightarrow> lua_error + storage_session" where
  "record_change L contract_id name after = (\<lambda>(before, s).
     if glua_type after = storage_value_null
     then Inl (lua_simple_error (storage_cannot name ''change to nil''))
     else if glua_type before \<noteq> storage_value_null \<and> glua_type before \<noteq> glua_type after \<and>
             \<not> lua_storage_is_table (glua_type before)
     then Inl (lua_simple_error (storage_cannot name ''change type''))
     else if \<not> calling_contract_init_api L \<and> glua_type before = storage_value_null
     then Inl (lua_simple_error (storage_cannot name ''register storage after inited''))
     else if lua_storage_is_table (glua_type after) \<and>
             (\<exists>v \<in> set (items_of after). lua_storage_is_table (glua_type v))
     then Inl (lua_simple_error ''storage not support nested map'')
     else case check_table_types contract_id name before after (logged s) of
       Inl e \<Rightarrow> Inl e
     | Inr _ \<Rightarrow> Inr (s\<lparr>change_list := Some (logged s @ [\<lparr>chg_contract_id = contract_id, chg_key = name,
         chg_before = before, chg_after = after\<rparr>])\<rparr>))"

definition thinkyounglib_set_storage_impl ::
  "lua_env \<Rightarrow> string \<Rightarrow> string \<Rightarrow> GluaStorageValue \<Rightarrow> storage_session \<Rightarrow> lua_error + storage_session" where
  "thinkyounglib_set_storage_impl L contract_id name after s =
     (if current_using_contract_id L \<noteq> contract_id
      then Inl (lua_simple_error ''contract can only access its own storage directly'')
      else if name = [] then Inl (lua_simple_error ''second argument of set_storage must be name'')
      else
        let s1 = begin_change contract_id name after s in
        if in_lua_sandbox L then Inr s1
        else record_change L contract_id name after (get_last_storage_changed_value L contract_id name s1))"

section \<open>Commit\<close>

text \<open>The changes of a run: contract, then key, in the order of the log.\<close>

type_synonym contract_changes = "(string \<times> GluaStorageChangeItem) list"
type_synonym all_changes = "(string \<times> contract_changes) list"

fun amap_set :: "'k \<Rightarrow> 'v \<Rightarrow> ('k \<times> 'v) list \<Rightarrow> ('k \<times> 'v) list" where
  "amap_set k v [] = [(k, v)]"
| "amap_set k v ((k', v') # m) = (if k = k' then (k, v) # m else (k', v') # amap_set k v m)"

text \<open>Tables that have been read are compared with what has become of them.\<close>

definition merge_read :: "storage_session \<Rightarrow> GluaStorageChangeItem \<Rightarrow> GluaStorageChangeItem list \<Rightarrow>
    GluaStorageChangeItem list" where
  "merge_read s c l =
     (case table_globals s (global_key_for_storage_prop (chg_contract_id c) (chg_key c)) of
        None \<Rightarrow> l
      | Some v \<Rightarrow> if glua_equals (chg_before c) v then l else l @ [c\<lparr>chg_after := v\<rparr>])"

definition merge_change :: "GluaStorageChangeItem \<Rightarrow> all_changes \<Rightarrow> all_changes" where
  "merge_change c changes =
     (case map_of changes (chg_contract_id c) of
        None \<Rightarrow> amap_set (chg_contract_id c) [(chg_key c, c)] changes
      | Some m \<Rightarrow>
          (case map_of m (chg_key c) of
             None \<Rightarrow> amap_set (chg_contract_id c) (amap_set (chg_key c) c m) changes
           | Some old \<Rightarrow> amap_set (chg_contract_id c) (amap_set (chg_key c) (old\<lparr>chg_after := chg_after c\<rparr>) m) changes))"

text \<open>The type that the compiled contract declares for the storage, and the value that goes there.\<close>

definition type_not_matched :: "string \<Rightarrow> lua_error" where
  "type_not_matched key = lua_simple_error (''storage '' @ key @ '' type not matched in chain'')"

definition fit_after :: "nat \<Rightarrow> string \<Rightarrow> GluaStorageValue \<Rightarrow> lua_error + GluaStorageValue" where
  "fit_after info key after =
     (if lua_storage_is_table (glua_type after) then
        (if \<not> lua_storage_is_table info then Inl (type_not_matched key)
         else case glua_value after of
           table_value t \<Rightarrow>
             let t' = map (\<lambda>(k, v). (k, try_parse_type (get_storage_base_type info) v)) t
             in if t' \<noteq> [] \<and> glua_type (snd (hd t')) \<noteq> get_item_type_in_table_or_array info
                then Inl (type_not_matched key)
                else Inr (Glua (if glua_type after \<in> {50, 100} then info else glua_type after) (table_value t'))
         | _ \<Rightarrow> Inr after)
      else if glua_type after = storage_value_number \<and> info = storage_value_int then
        Inr (try_parse_type storage_value_int after)
      else if glua_type after = storage_value_int \<and> info = storage_value_number then
        Inr (try_parse_type storage_value_number after)
      else Inr after)"

text \<open>An empty table has no type of its own.\<close>

definition retag_after :: "GluaStorageChangeItem \<Rightarrow> GluaStorageChangeItem" where
  "retag_after c =
     (let tb = glua_type (chg_before c) in
      if is_any_array_storage_value_type tb \<and> items_of (chg_after c) = [] \<or>
         lua_storage_is_table tb \<and> items_of (chg_before c) \<noteq> []
      then c\<lparr>chg_after := Glua tb (glua_value (chg_after c))\<rparr> else c)"

text \<open>The loop that compares the types of the items: \<open>(is_first, item_value_type, verdict)\<close>.\<close>

definition compare_item :: "GluaStorageValue \<Rightarrow> bool \<times> nat \<times> bool \<Rightarrow> bool \<times> nat \<times> bool" where
  "compare_item v = (\<lambda>(is_first, ty, ok).
     if is_first then (is_first, glua_type v, ok) else (True, ty, ok \<and> glua_type v = ty))"

definition items_same_type :: "GluaStorageValue \<Rightarrow> bool" where
  "items_same_type after = snd (snd (fold compare_item (items_of after) (True, 0, True)))"

definition is_unchanged :: "lua_env \<Rightarrow> GluaStorageChangeItem \<Rightarrow> bool" where
  "is_unchanged L c \<longleftrightarrow>
     (let after = chg_after c; before = chg_before c; ty = glua_type after in
      ty = glua_type before \<and>
      (case (glua_value after, glua_value before) of
         (number_value x, number_value y) \<Rightarrow>
           ty = storage_value_number \<and> numbers_close L x y \<or> \<not> lua_storage_is_table ty \<and> x = y
       | (userdata_value x, userdata_value y) \<Rightarrow>
           ty = storage_value_stream \<and> streams_equal L x y \<or> \<not> lua_storage_is_table ty \<and> x = y
       | (table_value t, table_value t') \<Rightarrow> lua_storage_is_table ty \<and> t = [] \<and> t' = []
       | (u, u') \<Rightarrow> u = u'))"

definition commit_item ::
  "lua_env \<Rightarrow> bool \<Rightarrow> (string \<times> nat) list \<Rightarrow> string \<times> GluaStorageChangeItem \<Rightarrow>
     contract_changes \<Rightarrow> lua_error + contract_changes" where
  "commit_item L in_starting_init props = (\<lambda>(key, c) m.
     let c1 = (if lua_storage_is_table (glua_type (chg_after c))
               then diff_storage_change_if_is_table (retag_after c) else c);
         fitted = (case map_of props key of
                     Some info \<Rightarrow>
                       if \<not> in_starting_init \<and> glua_type (chg_before c1) \<noteq> storage_value_null
                       then fit_after info key (chg_after c1) else Inr (chg_after c1)
                   | None \<Rightarrow> Inr (chg_after c1))
     in case fitted of
          Inl e \<Rightarrow> Inl e
        | Inr after \<Rightarrow>
            let c2 = c1\<lparr>chg_after := after\<rparr> in
            if lua_storage_is_table (glua_type after) \<and> \<not> items_same_type after
            then Inl (lua_simple_error (''array/map'' @ [CHR 0x27] @ ''s value type must be same in contract storage''))
            else if is_unchanged L c2 then Inr m
            else Inr (m @ [(key, c2)]))"

definition fit_initial ::
  "(string \<times> nat) list \<Rightarrow> string \<times> GluaStorageChangeItem \<Rightarrow> contract_changes \<Rightarrow> lua_error + contract_changes" where
  "fit_initial props = (\<lambda>(key, c) m.
     case map_of props key of
       None \<Rightarrow> Inl (lua_simple_error (''Can'' @ [CHR 0x27] @ ''t find storage '' @ key))
     | Some info \<Rightarrow>
         (case fit_after info key (chg_after c) of
            Inl e \<Rightarrow> Inl e
          | Inr after \<Rightarrow> Inr (m @ [(key, c\<lparr>chg_after := after\<rparr>)])))"

fun lfold :: "('a \<Rightarrow> 'b \<Rightarrow> lua_error + 'b) \<Rightarrow> 'a list \<Rightarrow> 'b \<Rightarrow> lua_error + 'b" where
  "lfold f [] y = Inr y"
| "lfold f (x # xs) y = (case f x y of Inl e \<Rightarrow> Inl e | Inr y' \<Rightarrow> lfold f xs y')"

definition commit_contract ::
  "lua_env \<Rightarrow> string \<times> contract_changes \<Rightarrow> all_changes \<Rightarrow> lua_error + all_changes" where
  "commit_contract L = (\<lambda>(contract_id, m) out.
     case contract_storage_properties L contract_id of
       None \<Rightarrow> Inl (lua_simple_error (''Can'' @ [CHR 0x27] @ ''t get contract info by contract address '' @ contract_id))
     | Some props \<Rightarrow>
         let in_start = (calling_contract_init_api L \<and> contract_id = starting_contract_address L) in
         if in_start \<and> length m \<noteq> length props
         then Inl (lua_simple_error ''some storage of this contract not init'')
         else
           case (if in_start then lfold (fit_initial props) m [] else Inr m) of
             Inl e \<Rightarrow> Inl e
           | Inr m1 \<Rightarrow>
               (case lfold (commit_item L in_start props) m1 [] of
                  Inl e \<Rightarrow> Inl e
                | Inr m2 \<Rightarrow> Inr (out @ [(contract_id, m2)])))"

definition luaL_commit_storage_changes ::
  "lua_env \<Rightarrow> bool \<Rightarrow> storage_session \<Rightarrow> lua_error + (all_changes option \<times> storage_session)" where
  "luaL_commit_storage_changes L has_exception s =
     (if has_exception then Inr (None, s\<lparr>change_list := map_option (\<lambda>_. []) (change_list s)\<rparr>)
      else
        let l0 = (case change_list s of None \<Rightarrow> [] | Some l \<Rightarrow> l);
            l = fold (merge_read s) (table_read_list s) l0;
            changes = fold merge_change l [];
            s1 = s\<lparr>change_list := Some l, table_read_list := []\<rparr>;
            missing = (calling_contract_init_api L \<and> changes = [] \<and>
              (case contract_storage_properties L (starting_contract_address L) of
                 Some props \<Rightarrow> props \<noteq> [] | None \<Rightarrow> False))
        in if missing then Inl (lua_simple_error ''some storage of this contract not init'')
           else case lfold (commit_contract L) changes [] of
             Inl e \<Rightarrow> Inl e
           | Inr out \<Rightarrow>
               if in_lua_sandbox L then Inr (None, s1)
               else Inr (Some out, s1\<lparr>change_list := Some []\<rparr>))"

section \<open>GluaChainApi\<close>

definition get_storage_value_from_thinkyoung_by_address ::
  "(nat \<Rightarrow> bool) \<Rightarrow> chain \<Rightarrow> address \<Rightarrow> string \<Rightarrow> GluaStorageValue result" where
  "get_storage_value_from_thinkyoung_by_address mem c a name =
     (case contractstorage_lookup_by_id c a of
        None \<Rightarrow> Inr null_value
      | Some e \<Rightarrow>
          (case map_of (cst_contract_storages e) name of
             None \<Rightarrow> Inr null_value
           | Some d \<Rightarrow> create_lua_storage_from_storage_data mem d))"

fun change_operation :: "contract_changes \<Rightarrow> (string \<times> StorageDataChangeType) list \<Rightarrow>
    (string \<times> StorageDataChangeType) list option" where
  "change_operation [] m = Some m"
| "change_operation ((key, c) # cs) m =
     (case (get_storage_data_from_lua_storage (chg_before c), get_storage_data_from_lua_storage (chg_after c)) of
        (Some b, Some a) \<Rightarrow> change_operation cs (map_insert key \<lparr>storage_before = b, storage_after = a\<rparr> m)
      | _ \<Rightarrow> None)"

text \<open>The operations are appended to the result transaction, one for each contract.\<close>

fun commit_storage_changes_to_thinkyoung ::
  "(string \<Rightarrow> address) \<Rightarrow> all_changes \<Rightarrow> SignedTransaction \<Rightarrow> SignedTransaction option" where
  "commit_storage_changes_to_thinkyoung contract_address [] t = Some t"
| "commit_storage_changes_to_thinkyoung contract_address ((contract_id, m) # rest) t =
     (case change_operation m [] of
        None \<Rightarrow> None
      | Some changes \<Rightarrow> commit_storage_changes_to_thinkyoung contract_address rest
          (push_storage_operation \<lparr>st_contract_id = contract_address contract_id,
             st_contract_change_storages = changes\<rparr> t))"

section \<open>What set\_storage admits\<close>

lemma get_last_value:
  "fst (get_last_storage_changed_value L contract_id key s) =
     (case find (is_change_of contract_id key) (rev (logged s)) of
        Some c \<Rightarrow> chg_after c | None \<Rightarrow> storage_value_from_chain L contract_id key)"
  by (auto simp: get_last_storage_changed_value_def logged_def Let_def split: option.split list.split)

lemma get_last_log:
  "logged (snd (get_last_storage_changed_value L contract_id key s)) =
     (if logged s = [] then [\<lparr>chg_contract_id = contract_id, chg_key = key,
        chg_before = storage_value_from_chain L contract_id key,
        chg_after = storage_value_from_chain L contract_id key\<rparr>] else logged s)"
  by (auto simp: get_last_storage_changed_value_def logged_def note_table_read_def Let_def split: option.split list.split)

lemma scan_types_uniform:
  "scan_types ty vs = Inr ty' \<Longrightarrow>
     (ty \<noteq> None \<longrightarrow> ty' = ty) \<and> (\<forall>v \<in> set vs. glua_type v = storage_value_null \<or> ty' = Some (glua_type v))"
  by (induction ty vs rule: scan_types.induct) (auto split: if_splits option.splits)

lemma check_table_types_uniform:
  assumes "check_table_types contract_id name before after l = Inr u" "lua_storage_is_table (glua_type after)"
  shows "\<exists>ty. \<forall>v \<in> set (items_of after) \<union> (if lua_storage_is_table (glua_type before) then set (items_of before) else {}).
    glua_type v \<in> {storage_value_null, ty}"
proof -
  from assms obtain ty1 ty where
    1: "scan_types None (if lua_storage_is_table (glua_type before) then items_of before else []) = Inr ty1"
    and 2: "scan_types ty1 (items_of after) = Inr ty"
    by (auto simp: check_table_types_def split: sum.splits if_splits)
  note u = scan_types_uniform [OF 1] scan_types_uniform [OF 2]
  have "\<forall>v \<in> set (items_of after) \<union> (if lua_storage_is_table (glua_type before) then set (items_of before) else {}).
    glua_type v = storage_value_null \<or> ty = Some (glua_type v)"
    using u by (auto split: if_splits)
  then show ?thesis by (intro exI [of _ "the ty"]) auto
qed


section \<open>Instances\<close>

definition sample_lua :: lua_env where
  "sample_lua = \<lparr>current_using_contract_id = ''c'', in_lua_sandbox = False, calling_contract_init_api = False,
     starting_contract_address = ''c'',
     storage_value_from_chain = (\<lambda>_ key. if key = ''t'' then Glua 51 (table_value [(''a'', glua_int 1)])
       else if key = ''n'' then glua_int 5 else null_value),
     contract_storage_properties = (\<lambda>_. Some [(''t'', 51), (''n'', 1)]),
     numbers_close = (=), streams_equal = (=)\<rparr>"

definition new_session :: storage_session where
  "new_session = \<lparr>change_list = None, table_read_list = [], table_globals = Map.empty\<rparr>"

lemmas session_defs =
  global_key_for_storage_prop_def is_change_of_def note_table_read_def get_last_storage_changed_value_def
  thinkyounglib_get_storage_impl_def items_of_def check_history_types_def check_table_types_def
  begin_change_def logged_def record_change_def thinkyounglib_set_storage_impl_def merge_read_def
  merge_change_def fit_after_def retag_after_def compare_item_def items_same_type_def is_unchanged_def
  commit_item_def fit_initial_def commit_contract_def luaL_commit_storage_changes_def
  diff_storage_change_if_is_table_def diff_tables_def diff_item_def diff_new_item_def lua_table_less_def
  table_type_defs get_item_type_in_table_or_array_def try_parse_type_def null_value_def glua_item_defs
  sample_lua_def new_session_def



end
