(* ===== verification/Level_Map.thy ===== *)
theory Level_Map
  imports Actions
begin

text \<open>
  \<open>LevelMap\<close> of \<open>include/db/LevelMap.hpp\<close>: a map from keys to values in a level-db database,
  both packed into bytes. Level-db is a library: the record \<open>leveldb\<close> holds the calls that the
  code makes, and \<open>leveldb_ok\<close> what its header promises of them, for the comparator that the
  map passes to it. A write may fail, and is then either done or not done.
\<close>

section \<open>The libraries below\<close>

text \<open>\<open>fc::raw::pack\<close> and \<open>unpack\<close> at the type of the key and at that of the value.\<close>

record ('k, 'v) packing =
  pack_key :: "'k \<Rightarrow> string"
  unpack_key :: "string \<Rightarrow> 'k"
  pack_value :: "'v \<Rightarrow> string"
  unpack_value :: "string \<Rightarrow> 'v"
  sizeof_key :: nat

definition packing_ok :: "('k, 'v) packing \<Rightarrow> bool" where
  "packing_ok P \<longleftrightarrow> (\<forall>k. unpack_key P (pack_key P k) = k) \<and> (\<forall>v. unpack_value P (pack_value P v) = v)"

datatype ldb_status = status_ok | status_not_found | status_error

datatype batch_op = Put string string | Delete string

text \<open>
  The calls of level-db on the files \<open>'d\<close> of a database. A write returns whether its status is
  ok. \<open>db_entries\<close> is the sequence of entries that an iterator visits from \<open>SeekToFirst\<close> on.
\<close>

record 'd leveldb =
  db_Open :: "'d \<Rightarrow> bool"
  db_Put :: "'d \<Rightarrow> string \<Rightarrow> string \<Rightarrow> bool \<times> 'd"
  db_Delete :: "'d \<Rightarrow> string \<Rightarrow> bool \<times> 'd"
  db_Write :: "'d \<Rightarrow> batch_op list \<Rightarrow> bool \<times> 'd"
  db_Get :: "'d \<Rightarrow> string \<Rightarrow> ldb_status \<times> string"
  db_entries :: "'d \<Rightarrow> (string \<times> string) list"
  db_iter_status :: "'d \<Rightarrow> ldb_status"
  db_remove_all :: "'d \<Rightarrow> 'd"

fun put_entry :: "(string \<Rightarrow> string \<Rightarrow> int) \<Rightarrow> string \<Rightarrow> string \<Rightarrow> (string \<times> string) list \<Rightarrow> (string \<times> string) list" where
  "put_entry cmp k v [] = [(k, v)]"
| "put_entry cmp k v ((k', v') # m) =
     (if cmp k k' = 0 then (k, v) # m
      else if cmp k k' < 0 then (k, v) # (k', v') # m
      else (k', v') # put_entry cmp k v m)"

definition delete_entry :: "(string \<Rightarrow> string \<Rightarrow> int) \<Rightarrow> string \<Rightarrow> (string \<times> string) list \<Rightarrow> (string \<times> string) list" where
  "delete_entry cmp k m = filter (\<lambda>(k', v'). cmp k k' \<noteq> 0) m"

fun apply_batch_op :: "(string \<Rightarrow> string \<Rightarrow> int) \<Rightarrow> batch_op \<Rightarrow> (string \<times> string) list \<Rightarrow> (string \<times> string) list" where
  "apply_batch_op cmp (Put k v) m = put_entry cmp k v m"
| "apply_batch_op cmp (Delete k) m = delete_entry cmp k m"

text \<open>A write that is not ok has been done completely or not at all.\<close>

definition write_result :: "'d leveldb \<Rightarrow> 'd \<Rightarrow> (string \<times> string) list \<Rightarrow> bool \<times> 'd \<Rightarrow> bool" where
  "write_result L d m = (\<lambda>(success, d').
     db_entries L d' = m \<or> \<not> success \<and> db_entries L d' = db_entries L d)"

definition get_result :: "string option \<Rightarrow> ldb_status \<times> string \<Rightarrow> bool" where
  "get_result v = (\<lambda>(status, value).
     case status of
       status_ok \<Rightarrow> v = Some value
     | status_not_found \<Rightarrow> v = None
     | status_error \<Rightarrow> True)"

definition leveldb_ok :: "(string \<Rightarrow> string \<Rightarrow> int) \<Rightarrow> 'd leveldb \<Rightarrow> bool" where
  "leveldb_ok cmp L \<longleftrightarrow>
     (\<forall>d k v. write_result L d (put_entry cmp k v (db_entries L d)) (db_Put L d k v)) \<and>
     (\<forall>d k. write_result L d (delete_entry cmp k (db_entries L d)) (db_Delete L d k)) \<and>
     (\<forall>d ops. write_result L d (fold (apply_batch_op cmp) ops (db_entries L d)) (db_Write L d ops)) \<and>
     (\<forall>d k. get_result (map_option snd (find (\<lambda>e. cmp k (fst e) = 0) (db_entries L d))) (db_Get L d k)) \<and>
     (\<forall>d. db_entries L (db_remove_all L d) = [])"

section \<open>Exceptions and state\<close>

abbreviation level_map_failure :: chain_error where "level_map_failure \<equiv> exn 10000"
abbreviation level_map_open_failure :: chain_error where "level_map_open_failure \<equiv> exn 10001"

text \<open>The files of the database, and whether \<open>_db\<close> points to an open database on them.\<close>

record 'd level_map =
  lm_files :: 'd
  lm_is_open :: bool

definition lm_assert_open :: "('d level_map, unit) act" where
  "lm_assert_open s = (if lm_is_open s then (Returns (), s) else (Throws assert_exception, s))"

definition key_compare :: "('k::linorder, 'v) packing \<Rightarrow> string \<Rightarrow> string \<Rightarrow> int" where
  "key_compare P a b =
     (let ak = unpack_key P a; bk = unpack_key P b in
      if ak < bk then - 1 else if ak = bk then 0 else 1)"

text \<open>
  The map opens the files and leaves the format of the values alone: no type is registered
  for an upgrade.
\<close>

definition lm_open :: "'d leveldb \<Rightarrow> ('d level_map, unit) act" where
  "lm_open L s =
     (if lm_is_open s then (Throws assert_exception, s)
      else if \<not> db_Open L (lm_files s) then (Throws level_map_open_failure, s)
      else (Returns (), s\<lparr>lm_is_open := True\<rparr>))"

definition lm_close :: "('d level_map, unit) act" where
  "lm_close s = (Returns (), s\<lparr>lm_is_open := False\<rparr>)"

section \<open>Iterators\<close>

text \<open>
  A level-db iterator sees the entries as they were when it was made; a position at the length of
  the sequence is not valid. The iterator \<open>iterator()\<close> without a level-db iterator is \<open>([], 0)\<close>.
\<close>

type_synonym lm_iterator = "(string \<times> string) list \<times> nat"

definition lm_valid :: "lm_iterator \<Rightarrow> bool" where
  "lm_valid it \<longleftrightarrow> snd it < length (fst it)"

definition lm_key :: "('k, 'v) packing \<Rightarrow> lm_iterator \<Rightarrow> 'k" where
  "lm_key P it = unpack_key P (fst (fst it ! snd it))"

definition lm_value :: "('k, 'v) packing \<Rightarrow> lm_iterator \<Rightarrow> 'v" where
  "lm_value P it = unpack_value P (snd (fst it ! snd it))"

definition lm_next :: "lm_iterator \<Rightarrow> lm_iterator" where
  "lm_next it = (fst it, snd it + 1)"

definition lm_prev :: "lm_iterator \<Rightarrow> lm_iterator" where
  "lm_prev it = (fst it, if snd it = 0 then length (fst it) else snd it - 1)"

definition Seek :: "('k::linorder, 'v) packing \<Rightarrow> string \<Rightarrow> (string \<times> string) list \<Rightarrow> lm_iterator" where
  "Seek P k m = (m, length (takeWhile (\<lambda>e. key_compare P (fst e) k < 0) m))"

definition lm_begin :: "'d leveldb \<Rightarrow> ('d level_map, lm_iterator) act" where
  "lm_begin L =
     abind lm_assert_open (\<lambda>_.
     abind (aget lm_files) (\<lambda>d.
     case db_iter_status L d of
       status_not_found \<Rightarrow> athrow key_not_found_exception
     | status_error \<Rightarrow> athrow level_map_failure
     | status_ok \<Rightarrow> aret (if lm_valid (db_entries L d, 0) then (db_entries L d, 0) else ([], 0))))"

text \<open>
  \<open>find\<close> packs the key into a buffer on the stack, or, if it does not fit, into a vector that is
  destroyed before \<open>Seek\<close> reads it: \<open>stale\<close> is what is then at its place.
\<close>

definition lm_find :: "('k::linorder, 'v) packing \<Rightarrow> 'd leveldb \<Rightarrow> (string \<Rightarrow> string) \<Rightarrow> 'k \<Rightarrow> ('d level_map, lm_iterator) act" where
  "lm_find P L stale key =
     abind lm_assert_open (\<lambda>_.
     abind (aget lm_files) (\<lambda>d.
     let packed = pack_key P key;
         key_slice = (if length packed \<le> 256 + sizeof_key P then packed else stale packed);
         itr = Seek P key_slice (db_entries L d)
     in aret (if lm_valid itr \<and> lm_key P itr = key then itr else ([], 0))))"

definition lm_lower_bound :: "('k::linorder, 'v) packing \<Rightarrow> 'd leveldb \<Rightarrow> 'k \<Rightarrow> ('d level_map, lm_iterator) act" where
  "lm_lower_bound P L key =
     abind lm_assert_open (\<lambda>_.
     abind (aget lm_files) (\<lambda>d. aret (Seek P (pack_key P key) (db_entries L d))))"

definition SeekToLast :: "(string \<times> string) list \<Rightarrow> lm_iterator" where
  "SeekToLast m = (m, length m - 1)"

definition lm_last :: "'d leveldb \<Rightarrow> ('d level_map, lm_iterator) act" where
  "lm_last L =
     abind lm_assert_open (\<lambda>_.
     abind (aget lm_files) (\<lambda>d. aret (SeekToLast (db_entries L d))))"

definition lm_last_entry :: "('k, 'v) packing \<Rightarrow> 'd leveldb \<Rightarrow> ('d level_map, ('k \<times> 'v) option) act" where
  "lm_last_entry P L =
     abind lm_assert_open (\<lambda>_.
     abind (aget lm_files) (\<lambda>d.
     let it = SeekToLast (db_entries L d) in
     aret (if \<not> lm_valid it then None else Some (lm_key P it, lm_value P it))))"

function iter_count :: "lm_iterator \<Rightarrow> nat \<Rightarrow> nat" where
  "iter_count it n = (if lm_valid it then iter_count (lm_next it) (n + 1) else n)"
  by pat_completeness auto

termination iter_count
  by (relation "measure (\<lambda>(it, n). length (fst it) - snd it)") (auto simp: lm_valid_def lm_next_def)

declare iter_count.simps [simp del]

definition lm_size :: "'d leveldb \<Rightarrow> ('d level_map, nat) act" where
  "lm_size L = abind lm_assert_open (\<lambda>_. abind (lm_begin L) (\<lambda>it. aret (iter_count it 0)))"

section \<open>Reading and writing\<close>

definition lm_fetch_optional :: "('k::linorder, 'v) packing \<Rightarrow> 'd leveldb \<Rightarrow> (string \<Rightarrow> string) \<Rightarrow> 'k \<Rightarrow> ('d level_map, 'v option) act" where
  "lm_fetch_optional P L stale key =
     abind lm_assert_open (\<lambda>_.
     abind (lm_find P L stale key) (\<lambda>itr. aret (if lm_valid itr then Some (lm_value P itr) else None)))"

definition lm_fetch :: "('k, 'v) packing \<Rightarrow> 'd leveldb \<Rightarrow> 'k \<Rightarrow> ('d level_map, 'v) act" where
  "lm_fetch P L key =
     abind lm_assert_open (\<lambda>_.
     abind (aget lm_files) (\<lambda>d.
     case db_Get L d (pack_key P key) of
       (status_not_found, _) \<Rightarrow> athrow key_not_found_exception
     | (status_error, _) \<Rightarrow> athrow level_map_failure
     | (status_ok, value) \<Rightarrow> aret (unpack_value P value)))"

text \<open>What the code does with the status of a write.\<close>

definition lm_written :: "('d \<Rightarrow> bool \<times> 'd) \<Rightarrow> ('d level_map, unit) act" where
  "lm_written f s =
     (case f (lm_files s) of
        (True, d) \<Rightarrow> (Returns (), s\<lparr>lm_files := d\<rparr>)
      | (False, d) \<Rightarrow> (Throws level_map_failure, s\<lparr>lm_files := d\<rparr>))"

definition lm_store :: "('k, 'v) packing \<Rightarrow> 'd leveldb \<Rightarrow> 'k \<Rightarrow> 'v \<Rightarrow> ('d level_map, unit) act" where
  "lm_store P L k v =
     abind lm_assert_open (\<lambda>_. lm_written (\<lambda>d. db_Put L d (pack_key P k) (pack_value P v)))"

definition lm_remove :: "('k, 'v) packing \<Rightarrow> 'd leveldb \<Rightarrow> 'k \<Rightarrow> ('d level_map, unit) act" where
  "lm_remove P L k = abind lm_assert_open (\<lambda>_. lm_written (\<lambda>d. db_Delete L d (pack_key P k)))"

text \<open>A batch is the list of its operations; it commits once more when it is destroyed.\<close>

definition create_batch :: "('d level_map, batch_op list) act" where
  "create_batch = abind lm_assert_open (\<lambda>_. aret [])"

definition batch_store :: "('k, 'v) packing \<Rightarrow> 'k \<Rightarrow> 'v \<Rightarrow> batch_op list \<Rightarrow> batch_op list" where
  "batch_store P k v batch = batch @ [Put (pack_key P k) (pack_value P v)]"

definition batch_remove :: "('k, 'v) packing \<Rightarrow> 'k \<Rightarrow> batch_op list \<Rightarrow> batch_op list" where
  "batch_remove P k batch = batch @ [Delete (pack_key P k)]"

definition batch_commit :: "'d leveldb \<Rightarrow> batch_op list \<Rightarrow> ('d level_map, batch_op list) act" where
  "batch_commit L batch =
     abind lm_assert_open (\<lambda>_. abind (lm_written (\<lambda>d. db_Write L d batch)) (\<lambda>_. aret []))"

definition batch_destructor :: "'d leveldb \<Rightarrow> batch_op list \<Rightarrow> ('d level_map, unit) act" where
  "batch_destructor L batch =
     acatch (abind (batch_commit L batch) (\<lambda>_. aret ())) (\<lambda>_. aret ())"

text \<open>\<open>batch.commit()\<close> and the end of the scope of the batch, in whatever way it is left.\<close>

definition commit_and_destroy :: "'d leveldb \<Rightarrow> batch_op list \<Rightarrow> ('d level_map, unit) act" where
  "commit_and_destroy L batch =
     abind (acatch (batch_commit L batch)
       (\<lambda>e. abind (batch_destructor L batch) (\<lambda>_. athrow e))) (batch_destructor L)"

section \<open>The map that the database holds\<close>

definition unpack_entry :: "('k, 'v) packing \<Rightarrow> string \<times> string \<Rightarrow> 'k \<times> 'v" where
  "unpack_entry P = map_prod (unpack_key P) (unpack_value P)"

definition lm_contents :: "('k, 'v) packing \<Rightarrow> 'd leveldb \<Rightarrow> 'd level_map \<Rightarrow> ('k \<times> 'v) list" where
  "lm_contents P L s = map (unpack_entry P) (db_entries L (lm_files s))"

fun batch_effect :: "('k::linorder, 'v) packing \<Rightarrow> batch_op \<Rightarrow> ('k \<times> 'v) list \<Rightarrow> ('k \<times> 'v) list" where
  "batch_effect P (Put k v) m = smap_set (unpack_key P k) (unpack_value P v) m"
| "batch_effect P (Delete k) m = smap_del (unpack_key P k) m"

lemma lm_contents_open [simp]: "lm_contents P L (s\<lparr>lm_is_open := b\<rparr>) = lm_contents P L s"
  by (simp add: lm_contents_def)

lemma key_compare_simps [simp]:
  "key_compare P a b = 0 \<longleftrightarrow> unpack_key P a = unpack_key P b"
  "key_compare P a b < 0 \<longleftrightarrow> unpack_key P a < unpack_key P b"
  by (auto simp: key_compare_def Let_def)

lemma unpack_put_entry:
  "map (unpack_entry P) (put_entry (key_compare P) k v m) =
     smap_set (unpack_key P k) (unpack_value P v) (map (unpack_entry P) m)"
  by (induction m) (auto simp: unpack_entry_def)

lemma unpack_delete_entry:
  "map (unpack_entry P) (delete_entry (key_compare P) k m) = smap_del (unpack_key P k) (map (unpack_entry P) m)"
  by (induction m) (auto simp: unpack_entry_def delete_entry_def smap_del_def)

lemma unpack_batch_op:
  "map (unpack_entry P) (apply_batch_op (key_compare P) x m) = batch_effect P x (map (unpack_entry P) m)"
  by (cases x) (simp_all add: unpack_put_entry unpack_delete_entry)

lemma unpack_batch:
  "map (unpack_entry P) (fold (apply_batch_op (key_compare P)) ops m) =
     fold (batch_effect P) ops (map (unpack_entry P) m)"
  by (induction ops arbitrary: m) (simp_all add: unpack_batch_op)

lemma smap_ok_batch_effect: "smap_ok m \<Longrightarrow> smap_ok (batch_effect P x m)"
  by (cases x) auto

lemma smap_ok_batch: "smap_ok m \<Longrightarrow> smap_ok (fold (batch_effect P) ops m)"
  by (induction ops arbitrary: m) (auto intro: smap_ok_batch_effect)

text \<open>
  What a write of the map is: it needs an open database, does what it should when it
  returns, and when it throws has done that or nothing.
\<close>

definition lm_writes ::
  "('k::linorder, 'v) packing \<Rightarrow> 'd leveldb \<Rightarrow> (('k \<times> 'v) list \<Rightarrow> ('k \<times> 'v) list) \<Rightarrow> ('d level_map, 'a) act \<Rightarrow> bool" where
  "lm_writes P L f m \<longleftrightarrow>
     (\<forall>s. smap_ok (lm_contents P L s) \<longrightarrow> lm_is_open (snd (m s)) = lm_is_open s \<and>
        (case m s of
           (Returns _, s') \<Rightarrow> lm_is_open s \<and> lm_contents P L s' = f (lm_contents P L s)
         | (Throws e, s') \<Rightarrow>
             e = (if lm_is_open s then level_map_failure else assert_exception) \<and>
             (lm_contents P L s' = lm_contents P L s \<or> lm_is_open s \<and> lm_contents P L s' = f (lm_contents P L s))
         | (Diverges, _) \<Rightarrow> False))"

lemma lm_writesI:
  fixes L :: "'d leveldb"
  assumes "\<And>d. write_result L d (g (db_entries L d)) (w d)"
    and "\<And>m. map (unpack_entry P) (g m) = f (map (unpack_entry P) m)"
  shows "lm_writes P L f (abind lm_assert_open (\<lambda>_. lm_written w))"
  unfolding lm_writes_def
proof (intro allI impI)
  fix s :: "'d level_map"
  obtain success d where w: "w (lm_files s) = (success, d)" by fastforce
  show "lm_is_open (snd (abind lm_assert_open (\<lambda>_. lm_written w) s)) = lm_is_open s \<and>
    (case abind lm_assert_open (\<lambda>_. lm_written w) s of
       (Returns _, s') \<Rightarrow> lm_is_open s \<and> lm_contents P L s' = f (lm_contents P L s)
     | (Throws e, s') \<Rightarrow>
         e = (if lm_is_open s then level_map_failure else assert_exception) \<and>
         (lm_contents P L s' = lm_contents P L s \<or> lm_is_open s \<and> lm_contents P L s' = f (lm_contents P L s))
     | (Diverges, _) \<Rightarrow> False)"
    using assms(1) [of "lm_files s"]
    by (auto simp: w write_result_def abind_def lm_assert_open_def lm_written_def lm_contents_def assms(2)
      split: bool.split)
qed

lemma lm_store_writes:
  assumes "packing_ok P" "leveldb_ok (key_compare P) L"
  shows "lm_writes P L (smap_set k v) (lm_store P L k v)"
  unfolding lm_store_def
  by (rule lm_writesI [where g = "put_entry (key_compare P) (pack_key P k) (pack_value P v)"])
    (use assms in \<open>simp_all add: leveldb_ok_def packing_ok_def unpack_put_entry\<close>)

lemma lm_remove_writes:
  assumes "packing_ok P" "leveldb_ok (key_compare P) L"
  shows "lm_writes P L (smap_del k) (lm_remove P L k)"
  unfolding lm_remove_def
  by (rule lm_writesI [where g = "delete_entry (key_compare P) (pack_key P k)"])
    (use assms in \<open>simp_all add: leveldb_ok_def packing_ok_def unpack_delete_entry\<close>)

lemma batch_writes:
  assumes "leveldb_ok (key_compare P) L"
  shows "lm_writes P L (fold (batch_effect P) ops) (abind lm_assert_open (\<lambda>_. lm_written (\<lambda>d. db_Write L d ops)))"
  by (rule lm_writesI [where g = "fold (apply_batch_op (key_compare P)) ops"])
    (use assms in \<open>simp_all add: leveldb_ok_def unpack_batch\<close>)

text \<open>Two sorted maps with the same lookups are the same, and a batch done twice is a batch done once.\<close>

lemma smap_ok_eq:
  assumes "smap_ok m" "smap_ok m'" "map_of m = map_of m'"
  shows "m = m'"
proof -
  have d: "distinct (map fst m)" "distinct (map fst m')"
    using assms(1,2) by (auto dest: smap_ok_distinct)
  have eq: "set m = set m'"
    using map_of_eq_Some_iff [OF d(1)] map_of_eq_Some_iff [OF d(2)] assms(3) by auto
  moreover have "sorted (map fst m)" "sorted (map fst m')"
    using assms(1,2) unfolding smap_ok_def by (auto intro: strict_sorted_imp_sorted)
  ultimately show ?thesis
    using map_sorted_distinct_set_unique [of fst m m'] d by (simp add: distinct_map)
qed

lemma map_of_batch:
  "\<exists>D g. \<forall>m. map_of (fold (batch_effect P) ops m) = (\<lambda>k. if k \<in> D then g k else map_of m k)"
proof (induction ops)
  case Nil
  show ?case by (rule exI [of _ "{}"]) simp
next
  case (Cons x ops)
  then obtain D g where *: "\<And>m. map_of (fold (batch_effect P) ops m) = (\<lambda>k. if k \<in> D then g k else map_of m k)"
    by blast
  show ?case
  proof (cases x)
    case (Put a b)
    have "map_of (fold (batch_effect P) (x # ops) m) =
      (\<lambda>k. if k \<in> insert (unpack_key P a) D then (if k \<in> D then g k else Some (unpack_value P b)) else map_of m k)" for m
      by (auto simp: Put *)
    then show ?thesis
      by (intro exI [of _ "insert (unpack_key P a) D"] exI [of _ "\<lambda>k. if k \<in> D then g k else Some (unpack_value P b)"]) blast
  next
    case (Delete a)
    have "map_of (fold (batch_effect P) (x # ops) m) =
      (\<lambda>k. if k \<in> insert (unpack_key P a) D then (if k \<in> D then g k else None) else map_of m k)" for m
      by (auto simp: Delete *)
    then show ?thesis
      by (intro exI [of _ "insert (unpack_key P a) D"] exI [of _ "\<lambda>k. if k \<in> D then g k else None"]) blast
  qed
qed

lemma batch_twice:
  assumes "smap_ok m"
  shows "fold (batch_effect P) ops (fold (batch_effect P) ops m) = fold (batch_effect P) ops m"
proof (rule smap_ok_eq)
  obtain D g where "\<And>m. map_of (fold (batch_effect P) ops m) = (\<lambda>k. if k \<in> D then g k else map_of m k)"
    using map_of_batch [of P ops] by blast
  then show "map_of (fold (batch_effect P) ops (fold (batch_effect P) ops m)) = map_of (fold (batch_effect P) ops m)"
    by (simp add: fun_eq_iff)
qed (simp_all add: assms smap_ok_batch)

text \<open>A commit and the second commit of the destructor, together.\<close>

lemma batch_commit_cases:
  assumes "leveldb_ok (key_compare P) L" "smap_ok (lm_contents P L s)" "lm_is_open s"
  obtains (returns) s' where "batch_commit L ops s = (Returns [], s')" "lm_is_open s'"
      "lm_contents P L s' = fold (batch_effect P) ops (lm_contents P L s)"
  | (throws) s' where "batch_commit L ops s = (Throws level_map_failure, s')" "lm_is_open s'"
      "lm_contents P L s' \<in> {lm_contents P L s, fold (batch_effect P) ops (lm_contents P L s)}"
proof -
  let ?w = "abind lm_assert_open (\<lambda>_. lm_written (\<lambda>d. db_Write L d ops))"
  obtain r s' where w: "?w s = (r, s')" by fastforce
  have law: "lm_is_open s' \<and> (case r of
      Returns _ \<Rightarrow> lm_contents P L s' = fold (batch_effect P) ops (lm_contents P L s)
    | Throws e \<Rightarrow> e = level_map_failure \<and>
        lm_contents P L s' \<in> {lm_contents P L s, fold (batch_effect P) ops (lm_contents P L s)}
    | Diverges \<Rightarrow> False)"
    using batch_writes [OF assms(1), of ops, unfolded lm_writes_def, rule_format, OF assms(2)] w assms(3)
    by (cases r) auto
  have c: "batch_commit L ops s = (case r of
      Returns _ \<Rightarrow> (Returns [], s') | Throws e \<Rightarrow> (Throws e, s') | Diverges \<Rightarrow> (Diverges, s'))"
  proof -
    have "batch_commit L ops = abind ?w (\<lambda>_. aret [])"
      by (simp add: batch_commit_def abind_def fun_eq_iff split: prod.split outcome.split)
    then show ?thesis using w by (cases r) (simp_all add: abind_def aret_def)
  qed
  show thesis
  proof (cases r)
    case (Returns u)
    with law c show thesis by (intro returns [of s']) auto
  next
    case (Throws e)
    with law c show thesis by (intro throws [of s']) auto
  qed (use law in simp)
qed

lemma batch_destructor_returns:
  assumes "leveldb_ok (key_compare P) L" "smap_ok (lm_contents P L s)" "lm_is_open s"
  obtains s' where "batch_destructor L ops s = (Returns (), s')" "lm_is_open s'"
    "lm_contents P L s' \<in> {lm_contents P L s, fold (batch_effect P) ops (lm_contents P L s)}"
  using assms by (cases rule: batch_commit_cases [where ops = ops])
    (auto simp: batch_destructor_def acatch_def abind_def aret_def)

lemma commit_and_destroy_writes:
  assumes "leveldb_ok (key_compare P) L"
  shows "lm_writes P L (fold (batch_effect P) ops) (commit_and_destroy L ops)"
  unfolding lm_writes_def
proof (intro allI impI)
  fix s assume ok: "smap_ok (lm_contents P L s)"
  show "lm_is_open (snd (commit_and_destroy L ops s)) = lm_is_open s \<and>
    (case commit_and_destroy L ops s of
       (Returns _, s') \<Rightarrow> lm_is_open s \<and> lm_contents P L s' = fold (batch_effect P) ops (lm_contents P L s)
     | (Throws e, s') \<Rightarrow>
         e = (if lm_is_open s then level_map_failure else assert_exception) \<and>
         (lm_contents P L s' = lm_contents P L s \<or>
          lm_is_open s \<and> lm_contents P L s' = fold (batch_effect P) ops (lm_contents P L s))
     | (Diverges, _) \<Rightarrow> False)"
  proof (cases "lm_is_open s")
    case False
    then show ?thesis
      by (simp add: commit_and_destroy_def batch_commit_def batch_destructor_def acatch_def abind_def
        lm_assert_open_def athrow_def aret_def)
  next
    case True
    from assms ok True show ?thesis
    proof (cases rule: batch_commit_cases [where ops = ops])
      case (returns s1)
      have "smap_ok (lm_contents P L s1)" using ok by (simp add: returns smap_ok_batch)
      from batch_destructor_returns [OF assms this returns(2), of "[]"] obtain s2
        where "batch_destructor L [] s1 = (Returns (), s2)" "lm_is_open s2" "lm_contents P L s2 = lm_contents P L s1"
        by auto
      then show ?thesis using returns True by (simp add: commit_and_destroy_def acatch_def abind_def)
    next
      case (throws s1)
      have "smap_ok (lm_contents P L s1)" using ok throws by (auto simp: smap_ok_batch)
      from batch_destructor_returns [OF assms this throws(2), of ops] obtain s2
        where "batch_destructor L ops s1 = (Returns (), s2)" "lm_is_open s2"
          "lm_contents P L s2 \<in> {lm_contents P L s1, fold (batch_effect P) ops (lm_contents P L s1)}" .
      then show ?thesis using throws True ok
        by (auto simp: commit_and_destroy_def acatch_def abind_def athrow_def batch_twice)
    qed
  qed
qed

section \<open>What can be read\<close>

lemma seek_finds:
  assumes "smap_ok (map (unpack_entry P) m)"
  shows "map_of (map (unpack_entry P) m) k =
    (let it = (m, length (takeWhile (\<lambda>e. unpack_key P (fst e) < k) m))
     in if lm_valid it \<and> lm_key P it = k then Some (lm_value P it) else None)"
  using assms
proof (induction m)
  case (Cons e m)
  have tail: "smap_ok (map (unpack_entry P) m)" "\<forall>x \<in> set m. unpack_key P (fst e) < unpack_key P (fst x)"
    using Cons.prems by (auto simp: smap_ok_def unpack_entry_def)
  consider "unpack_key P (fst e) < k" | "unpack_key P (fst e) = k" | "k < unpack_key P (fst e)" by fastforce
  then show ?case
  proof cases
    case 3
    then have "k \<notin> fst ` unpack_entry P ` set m" using tail(2) by (auto simp: unpack_entry_def)
    then have "map_of (map (unpack_entry P) m) k = None" by (simp add: map_of_eq_None_iff)
    then show ?thesis using 3 by (auto simp: unpack_entry_def lm_key_def Let_def)
  qed (use Cons.IH [OF tail(1)] in
    \<open>auto simp: unpack_entry_def Let_def lm_valid_def lm_key_def lm_value_def\<close>)
qed (simp add: lm_valid_def)

lemma lm_fetch_optional_eq:
  assumes "packing_ok P" "smap_ok (lm_contents P L s)" "lm_is_open s"
    "length (pack_key P k) \<le> 256 + sizeof_key P"
  shows "lm_fetch_optional P L stale k s = (Returns (map_of (lm_contents P L s) k), s)"
  using assms seek_finds [of P "db_entries L (lm_files s)" k]
  by (auto simp: lm_fetch_optional_def lm_find_def abind_def aret_def aget_def lm_assert_open_def Let_def
    Seek_def lm_contents_def packing_ok_def lm_valid_def)

end
