(* ===== verification/Stored_Maps.thy ===== *)
theory Stored_Maps
  imports Level_Map
begin

text \<open>
  The maps that keep their entries in memory beside the level-db database: \<open>fast_level_map\<close>
  (\<open>include/db/FastLevelMap.hpp\<close>), in which the maps of the chain database are kept and whose
  database can be switched off, and \<open>cached_level_map\<close> (\<open>include/db/CachedLevelMap.hpp\<close>), which
  can collect its writes. Both promise what the locale \<open>durable_map\<close> says.
\<close>

section \<open>Filling a cache from the database\<close>

definition emplace :: "'k::linorder \<times> 'v \<Rightarrow> ('k \<times> 'v) list \<Rightarrow> ('k \<times> 'v) list" where
  "emplace e m = (if map_of m (fst e) = None then smap_set (fst e) (snd e) m else m)"

function load_cache :: "('k::linorder, 'v) packing \<Rightarrow> lm_iterator \<Rightarrow> ('k \<times> 'v) list \<Rightarrow> ('k \<times> 'v) list" where
  "load_cache P it m =
     (if lm_valid it then load_cache P (lm_next it) (emplace (lm_key P it, lm_value P it) m) else m)"
  by pat_completeness auto

termination load_cache
  by (relation "measure (\<lambda>(P, it, m). length (fst it) - snd it)") (auto simp: lm_valid_def lm_next_def)

declare load_cache.simps [simp del]

section \<open>fast\_level\_map\<close>

text \<open>\<open>fm_path\<close>: whether \<open>_ldb_path\<close> is set; the files at the path are those of \<open>_ldb\<close>.\<close>

record ('k, 'v, 'd) fast_level_map =
  fm_ldb :: "'d level_map"
  fm_path :: bool
  fm_enabled :: bool
  fm_cache :: "('k \<times> 'v) list"

definition fm_on_ldb :: "('d level_map, 'a) act \<Rightarrow> (('k, 'v, 'd) fast_level_map, 'a) act" where
  "fm_on_ldb m s = (case m (fm_ldb s) of (r, l) \<Rightarrow> (r, s\<lparr>fm_ldb := l\<rparr>))"

definition fm_open :: "('k::linorder, 'v) packing \<Rightarrow> 'd leveldb \<Rightarrow> (('k, 'v, 'd) fast_level_map, unit) act" where
  "fm_open P L =
     abind (aread (\<lambda>s. ensure (\<not> fm_path s) assert_exception)) (\<lambda>_.
     abind (amodify (\<lambda>s. s\<lparr>fm_path := True\<rparr>)) (\<lambda>_.
     abind (fm_on_ldb (lm_open L)) (\<lambda>_.
     abind (fm_on_ldb (lm_begin L)) (\<lambda>it.
       amodify (\<lambda>s. s\<lparr>fm_cache := load_cache P it (fm_cache s)\<rparr>)))))"

definition toggle_leveldb :: "('k, 'v) packing \<Rightarrow> 'd leveldb \<Rightarrow> bool \<Rightarrow> (('k, 'v, 'd) fast_level_map, unit) act" where
  "toggle_leveldb P L enabled =
     abind (aread (\<lambda>s. ensure (fm_path s) assert_exception)) (\<lambda>_.
     abind (aget fm_enabled) (\<lambda>ldb_enabled.
     if enabled = ldb_enabled then aret ()
     else
       abind
         (if enabled then
            abind (fm_on_ldb (lm_open L)) (\<lambda>_.
            abind (fm_on_ldb create_batch) (\<lambda>batch.
            abind (aget fm_cache) (\<lambda>cache.
              fm_on_ldb (commit_and_destroy L (fold (\<lambda>(k, v). batch_store P k v) cache batch)))))
          else
            abind (fm_on_ldb lm_close) (\<lambda>_.
              fm_on_ldb (amodify (\<lambda>l. l\<lparr>lm_files := db_remove_all L (lm_files l)\<rparr>))))
         (\<lambda>_. amodify (\<lambda>s. s\<lparr>fm_enabled := enabled\<rparr>))))"

definition fm_close :: "('k, 'v) packing \<Rightarrow> 'd leveldb \<Rightarrow> (('k, 'v, 'd) fast_level_map, unit) act" where
  "fm_close P L =
     abind (aget fm_path) (\<lambda>valid.
     abind
       (if valid then
          abind (aget fm_enabled) (\<lambda>ldb_enabled.
          abind (if \<not> ldb_enabled then toggle_leveldb P L True else aret ()) (\<lambda>_.
          abind (fm_on_ldb lm_close) (\<lambda>_.
            amodify (\<lambda>s. s\<lparr>fm_path := False\<rparr>))))
        else aret ())
       (\<lambda>_. amodify (\<lambda>s. s\<lparr>fm_cache := []\<rparr>)))"

definition fm_store :: "('k::linorder, 'v) packing \<Rightarrow> 'd leveldb \<Rightarrow> 'k \<Rightarrow> 'v \<Rightarrow> (('k, 'v, 'd) fast_level_map, unit) act" where
  "fm_store P L key value =
     abind (amodify (\<lambda>s. s\<lparr>fm_cache := smap_set key value (fm_cache s)\<rparr>)) (\<lambda>_.
     abind (aget fm_enabled) (\<lambda>ldb_enabled.
     if ldb_enabled then fm_on_ldb (lm_store P L key value) else aret ()))"

definition fm_remove :: "('k, 'v) packing \<Rightarrow> 'd leveldb \<Rightarrow> 'k \<Rightarrow> (('k, 'v, 'd) fast_level_map, unit) act" where
  "fm_remove P L key =
     abind (amodify (\<lambda>s. s\<lparr>fm_cache := smap_del key (fm_cache s)\<rparr>)) (\<lambda>_.
     abind (aget fm_enabled) (\<lambda>ldb_enabled.
     if ldb_enabled then fm_on_ldb (lm_remove P L key) else aret ()))"

definition fm_empty :: "('k, 'v, 'd) fast_level_map \<Rightarrow> bool" where
  "fm_empty s \<longleftrightarrow> fm_cache s = []"

definition fm_size :: "('k, 'v, 'd) fast_level_map \<Rightarrow> nat" where
  "fm_size s = length (fm_cache s)"

definition fm_count :: "('k, 'v, 'd) fast_level_map \<Rightarrow> 'k \<Rightarrow> nat" where
  "fm_count s key = (if map_of (fm_cache s) key = None then 0 else 1)"

definition unordered_find :: "('k, 'v, 'd) fast_level_map \<Rightarrow> 'k \<Rightarrow> 'v option" where
  "unordered_find s key = map_of (fm_cache s) key"

definition ordered_first :: "'d leveldb \<Rightarrow> (('k, 'v, 'd) fast_level_map, lm_iterator) act" where
  "ordered_first L = fm_on_ldb (lm_begin L)"

definition ordered_last :: "'d leveldb \<Rightarrow> (('k, 'v, 'd) fast_level_map, lm_iterator) act" where
  "ordered_last L = fm_on_ldb (lm_last L)"

definition ordered_lower_bound ::
  "('k::linorder, 'v) packing \<Rightarrow> 'd leveldb \<Rightarrow> 'k \<Rightarrow> (('k, 'v, 'd) fast_level_map, lm_iterator) act" where
  "ordered_lower_bound P L key = fm_on_ldb (lm_lower_bound P L key)"

section \<open>cached\_level\_map\<close>

record ('k, 'v, 'd) cached_level_map =
  cm_db :: "'d level_map"
  cm_cache :: "('k \<times> 'v) list"
  dirty_store :: "'k list"
  dirty_remove :: "'k list"
  write_through :: bool

definition cm_on_db :: "('d level_map, 'a) act \<Rightarrow> (('k, 'v, 'd) cached_level_map, 'a) act" where
  "cm_on_db m s = (case m (cm_db s) of (r, l) \<Rightarrow> (r, s\<lparr>cm_db := l\<rparr>))"

definition cm_open :: "('k::linorder, 'v) packing \<Rightarrow> 'd leveldb \<Rightarrow> bool \<Rightarrow> (('k, 'v, 'd) cached_level_map, unit) act" where
  "cm_open P L through =
     abind (cm_on_db (lm_open L)) (\<lambda>_.
     abind (cm_on_db (lm_begin L)) (\<lambda>it.
       amodify (\<lambda>s. s\<lparr>cm_cache := load_cache P it (cm_cache s), write_through := through\<rparr>)))"

text \<open>
  The stores of a batch: \<open>_cache.at(key)\<close> throws when the key is not in the cache, and what the
  batch holds by then is written when it is destroyed.
\<close>

fun batch_stores :: "('k, 'v) packing \<Rightarrow> ('k \<times> 'v) list \<Rightarrow> 'k list \<Rightarrow> batch_op list \<Rightarrow> bool \<times> batch_op list" where
  "batch_stores P cache [] batch = (True, batch)"
| "batch_stores P cache (key # ks) batch =
     (case map_of cache key of
        None \<Rightarrow> (False, batch)
      | Some v \<Rightarrow> batch_stores P cache ks (batch_store P key v batch))"

definition flush :: "('k, 'v) packing \<Rightarrow> 'd leveldb \<Rightarrow> (('k, 'v, 'd) cached_level_map, unit) act" where
  "flush P L =
     abind (cm_on_db create_batch) (\<lambda>batch0.
     abind (aget (\<lambda>s. batch_stores P (cm_cache s) (dirty_store s) batch0)) (\<lambda>(found, batch).
     if \<not> found then abind (cm_on_db (batch_destructor L batch)) (\<lambda>_. athrow std_exception)
     else
       abind (aget dirty_remove) (\<lambda>removed.
       abind (cm_on_db (commit_and_destroy L (fold (batch_remove P) removed batch))) (\<lambda>_.
         amodify (\<lambda>s. s\<lparr>dirty_store := [], dirty_remove := []\<rparr>)))))"

definition cm_close :: "('k, 'v) packing \<Rightarrow> 'd leveldb \<Rightarrow> (('k, 'v, 'd) cached_level_map, unit) act" where
  "cm_close P L =
     abind (aget (\<lambda>s. lm_is_open (cm_db s))) (\<lambda>is_open.
     abind (if is_open then flush P L else aret ()) (\<lambda>_.
     abind (cm_on_db lm_close) (\<lambda>_.
       amodify (\<lambda>s. s\<lparr>cm_cache := [], dirty_store := [], dirty_remove := []\<rparr>))))"

definition set_write_through :: "('k, 'v) packing \<Rightarrow> 'd leveldb \<Rightarrow> bool \<Rightarrow> (('k, 'v, 'd) cached_level_map, unit) act" where
  "set_write_through P L through =
     abind (aget write_through) (\<lambda>through0.
     if through = through0 then aret ()
     else
       abind (if through then flush P L else aret ()) (\<lambda>_.
         amodify (\<lambda>s. s\<lparr>write_through := through\<rparr>)))"

definition cm_fetch_optional :: "('k, 'v, 'd) cached_level_map \<Rightarrow> 'k \<Rightarrow> 'v option" where
  "cm_fetch_optional s key = map_of (cm_cache s) key"

definition cm_fetch :: "('k, 'v, 'd) cached_level_map \<Rightarrow> 'k \<Rightarrow> 'v result" where
  "cm_fetch s key = require key_not_found_exception (map_of (cm_cache s) key)"

definition cm_store :: "('k::linorder, 'v) packing \<Rightarrow> 'd leveldb \<Rightarrow> 'k \<Rightarrow> 'v \<Rightarrow> (('k, 'v, 'd) cached_level_map, unit) act" where
  "cm_store P L key value =
     abind (amodify (\<lambda>s. s\<lparr>cm_cache := smap_set key value (cm_cache s)\<rparr>)) (\<lambda>_.
     abind (aget write_through) (\<lambda>through.
     if through then cm_on_db (lm_store P L key value)
     else amodify (\<lambda>s. s\<lparr>dirty_store := sset_insert key (dirty_store s),
       dirty_remove := removeAll key (dirty_remove s)\<rparr>)))"

definition cm_remove :: "('k::linorder, 'v) packing \<Rightarrow> 'd leveldb \<Rightarrow> 'k \<Rightarrow> (('k, 'v, 'd) cached_level_map, unit) act" where
  "cm_remove P L key =
     abind (amodify (\<lambda>s. s\<lparr>cm_cache := smap_del key (cm_cache s)\<rparr>)) (\<lambda>_.
     abind (aget write_through) (\<lambda>through.
     if through then cm_on_db (lm_remove P L key)
     else amodify (\<lambda>s. s\<lparr>dirty_store := removeAll key (dirty_store s),
       dirty_remove := sset_insert key (dirty_remove s)\<rparr>)))"

definition cm_size :: "('k, 'v, 'd) cached_level_map \<Rightarrow> nat" where
  "cm_size s = length (cm_cache s)"

definition cm_last :: "('k, 'v, 'd) cached_level_map \<Rightarrow> ('k \<times> 'v) option" where
  "cm_last s = (if cm_cache s = [] then None else Some (last (cm_cache s)))"

end
