(* ===== verification/Map_Laws.thy ===== *)
theory Map_Laws
  imports Stored_Maps
begin

text \<open>
  What the stored maps promise: the contract \<open>durable_map\<close> and its two implementations, what is
  left after a restart and after a crash, and what a failed write leaves behind.
\<close>

section \<open>The contract\<close>

datatype ('k, 'v) map_update = Store 'k 'v | Remove 'k

fun updated :: "('k::linorder, 'v) map_update \<Rightarrow> ('k \<times> 'v) list \<Rightarrow> ('k \<times> 'v) list" where
  "updated (Store k v) m = smap_set k v m"
| "updated (Remove k) m = smap_del k m"

fun update_with :: "('k \<Rightarrow> 'v \<Rightarrow> ('s, unit) act) \<Rightarrow> ('k \<Rightarrow> ('s, unit) act) \<Rightarrow> ('k, 'v) map_update \<Rightarrow> unit \<Rightarrow> ('s, unit) act" where
  "update_with store remove (Store k v) _ = store k v"
| "update_with store remove (Remove k) _ = remove k"

definition run_updates :: "('k \<Rightarrow> 'v \<Rightarrow> ('s, unit) act) \<Rightarrow> ('k \<Rightarrow> ('s, unit) act) \<Rightarrow> ('k, 'v) map_update list \<Rightarrow> ('s, unit) act" where
  "run_updates store remove us = afold (update_with store remove) us ()"

text \<open>
  The entries that are read are those of the updates that have returned, and in a state that
  writes through they are the ones that are saved.
\<close>

locale durable_map =
  fixes invar :: "'s \<Rightarrow> bool" and synced :: "'s \<Rightarrow> bool"
    and contents :: "'s \<Rightarrow> ('k::linorder \<times> 'v) list" and saved :: "'s \<Rightarrow> ('k \<times> 'v) list"
    and store :: "'k \<Rightarrow> 'v \<Rightarrow> ('s, unit) act" and remove :: "'k \<Rightarrow> ('s, unit) act"
  assumes store_law: "invar s \<Longrightarrow> store k v s = (Returns u, s') \<Longrightarrow>
      invar s' \<and> synced s' = synced s \<and> contents s' = smap_set k v (contents s)"
    and remove_law: "invar s \<Longrightarrow> remove k s = (Returns u, s') \<Longrightarrow>
      invar s' \<and> synced s' = synced s \<and> contents s' = smap_del k (contents s)"
    and saved_law: "invar s \<Longrightarrow> synced s \<Longrightarrow> saved s = contents s"
begin

lemma update_law:
  assumes "invar s" "update_with store remove u x s = (Returns y, s')"
  shows "invar s' \<and> synced s' = synced s \<and> contents s' = updated u (contents s)"
proof (cases u)
  case (Store k v)
  with assms(2) have "store k v s = (Returns y, s')" by simp
  from store_law [OF assms(1) this] show ?thesis by (simp add: Store)
next
  case (Remove k)
  with assms(2) have "remove k s = (Returns y, s')" by simp
  from remove_law [OF assms(1) this] show ?thesis by (simp add: Remove)
qed

lemma updates_law:
  assumes "invar s" "run_updates store remove us s = (Returns y, s')"
  shows "invar s' \<and> synced s' = synced s \<and> contents s' = fold updated us (contents s)"
  using assms unfolding run_updates_def
proof (induction us arbitrary: s)
  case (Cons u us)
  from Cons.prems(2) obtain s1 where
    1: "update_with store remove u () s = (Returns (), s1)" "afold (update_with store remove) us () s1 = (Returns y, s')"
    by (auto simp: abind_Returns)
  show ?case using update_law [OF Cons.prems(1) 1(1)] Cons.IH [OF _ 1(2)] by simp
qed (simp add: aret_def)

lemma updates_saved:
  assumes "invar s" "synced s" "run_updates store remove us s = (Returns y, s')"
  shows "saved s' = fold updated us (contents s)"
  using updates_law [OF assms(1,3)] assms(2) saved_law by simp

end

section \<open>Loading\<close>

lemma map_of_emplace: "map_of (emplace e m) = (if map_of m (fst e) = None then (map_of m)(fst e \<mapsto> snd e) else map_of m)"
  by (simp add: emplace_def)

lemma smap_ok_emplace: "smap_ok m \<Longrightarrow> smap_ok (emplace e m)"
  by (simp add: emplace_def)

lemma load_cache_fold: "load_cache P it m = fold emplace (map (unpack_entry P) (drop (snd it) (fst it))) m"
proof (induction P it m rule: load_cache.induct)
  case (1 P it m)
  show ?case
  proof (cases "lm_valid it")
    case True
    then have "drop (snd it) (fst it) = fst it ! snd it # drop (snd it + 1) (fst it)"
      by (simp add: lm_valid_def Cons_nth_drop_Suc)
    then show ?thesis using True 1
      by (simp add: load_cache.simps [of P it] lm_next_def unpack_entry_def lm_key_def lm_value_def map_prod_def
        split: prod.split)
  qed (simp add: load_cache.simps [of P it] lm_valid_def)
qed

lemma map_of_fold_emplace: "map_of (fold emplace xs m) = map_of xs ++ map_of m"
  by (induction xs arbitrary: m)
    (auto simp: map_of_emplace map_add_def fun_eq_iff split: option.split)

lemma smap_ok_fold_emplace: "smap_ok m \<Longrightarrow> smap_ok (fold emplace xs m)"
  by (induction xs arbitrary: m) (simp_all add: smap_ok_emplace)

lemma load_cache_all:
  assumes "smap_ok (map (unpack_entry P) m)"
  shows "load_cache P (m, 0) [] = map (unpack_entry P) m"
  by (rule smap_ok_eq)
    (use assms in \<open>simp_all add: load_cache_fold map_of_fold_emplace smap_ok_fold_emplace smap_ok_def [of "[]"]\<close>)

text \<open>What \<open>begin()\<close> gives to a loop that loads a cache.\<close>

lemma lm_begin_loads:
  assumes "lm_begin L l = (Returns it, l')" "smap_ok (lm_contents P L l)"
  shows "l' = l" "load_cache P it [] = lm_contents P L l"
proof -
  have 1: "l' = l \<and> (it = (db_entries L (lm_files l), 0) \<or> it = ([], 0) \<and> db_entries L (lm_files l) = [])"
    using assms(1)
    by (auto simp: lm_begin_def abind_def aget_def aret_def athrow_def lm_assert_open_def lm_valid_def
      split: if_splits ldb_status.splits)
  then show "l' = l" by simp
  show "load_cache P it [] = lm_contents P L l"
    using 1 load_cache_all [of P "db_entries L (lm_files l)"] assms(2)
    by (auto simp: lm_contents_def)
qed

section \<open>fast\_level\_map\<close>

text \<open>
  A map that is open: the database holds the entries of the cache while it is switched on, and
  is deleted while it is switched off.
\<close>

definition fm_saved :: "('k, 'v) packing \<Rightarrow> 'd leveldb \<Rightarrow> ('k, 'v, 'd) fast_level_map \<Rightarrow> ('k \<times> 'v) list" where
  "fm_saved P L s = lm_contents P L (fm_ldb s)"

definition fm_ok :: "('k::linorder, 'v) packing \<Rightarrow> 'd leveldb \<Rightarrow> ('k, 'v, 'd) fast_level_map \<Rightarrow> bool" where
  "fm_ok P L s \<longleftrightarrow>
     packing_ok P \<and> leveldb_ok (key_compare P) L \<and> fm_path s \<and> smap_ok (fm_cache s) \<and>
     lm_is_open (fm_ldb s) = fm_enabled s \<and> fm_saved P L s = (if fm_enabled s then fm_cache s else [])"

lemma lm_writes_Returns:
  assumes "lm_writes P L f m" "smap_ok (lm_contents P L l)" "m l = (Returns x, l')"
  shows "lm_is_open l" "lm_is_open l'" "lm_contents P L l' = f (lm_contents P L l)"
  using assms(1) [unfolded lm_writes_def, rule_format, OF assms(2)] assms(3) by auto

lemma lm_writes_open:
  assumes "lm_writes P L f m" "smap_ok (lm_contents P L l)"
  shows "lm_is_open (snd (m l)) = lm_is_open l"
  using assms(1) [unfolded lm_writes_def, rule_format, OF assms(2)] by simp

lemma fm_write_law:
  assumes "fm_ok P L s" "lm_writes P L f m" "\<And>x. smap_ok x \<Longrightarrow> smap_ok (f x)"
    and "abind (amodify (\<lambda>s. s\<lparr>fm_cache := f (fm_cache s)\<rparr>)) (\<lambda>_.
      abind (aget fm_enabled) (\<lambda>b. if b then fm_on_ldb m else aret ())) s = (Returns u, s')"
  shows "fm_ok P L s' \<and> fm_enabled s' = fm_enabled s \<and> fm_cache s' = f (fm_cache s)"
proof (cases "fm_enabled s")
  case False
  have s': "s' = s\<lparr>fm_cache := f (fm_cache s)\<rparr>"
    using assms(4) False by (simp add: abind_def amodify_def aget_def aret_def)
  show ?thesis using assms(1,3) False by (simp add: s' fm_ok_def fm_saved_def)
next
  case True
  obtain l where l: "m (fm_ldb s) = (Returns (), l)"
    and s': "s' = s\<lparr>fm_cache := f (fm_cache s), fm_ldb := l\<rparr>"
    using assms(4) True
    by (auto simp: abind_def amodify_def aget_def fm_on_ldb_def split: prod.splits)
  have ok: "smap_ok (lm_contents P L (fm_ldb s))"
    using assms(1) True by (simp add: fm_ok_def fm_saved_def)
  show ?thesis
    using lm_writes_Returns [OF assms(2) ok l] assms(1,3) True
    by (auto simp: s' fm_ok_def fm_saved_def)
qed

interpretation fm: durable_map "fm_ok P L" fm_enabled fm_cache "fm_saved P L" "fm_store P L" "fm_remove P L"
  for P :: "('k::linorder, 'v) packing" and L :: "'d leveldb"
proof
  fix s s' :: "('k, 'v, 'd) fast_level_map" and k v u
  assume ok: "fm_ok P L s"
  then have lib: "packing_ok P" "leveldb_ok (key_compare P) L" by (simp_all add: fm_ok_def)
  show "fm_ok P L s' \<and> fm_enabled s' = fm_enabled s \<and> fm_cache s' = smap_set k v (fm_cache s)"
    if "fm_store P L k v s = (Returns u, s')"
    using fm_write_law [OF ok lm_store_writes [OF lib] smap_ok_set] that by (simp add: fm_store_def)
  show "fm_ok P L s' \<and> fm_enabled s' = fm_enabled s \<and> fm_cache s' = smap_del k (fm_cache s)"
    if "fm_remove P L k s = (Returns u, s')"
    using fm_write_law [OF ok lm_remove_writes [OF lib] smap_ok_del] that by (simp add: fm_remove_def)
  show "fm_saved P L s = fm_cache s" if "fm_enabled s"
    using ok that by (simp add: fm_ok_def)
qed

text \<open>The batch that writes a whole cache into an empty database.\<close>

lemma fold_batch_store:
  "fold (\<lambda>(k, v). batch_store P k v) xs batch = batch @ map (\<lambda>(k, v). Put (pack_key P k) (pack_value P v)) xs"
  by (induction xs arbitrary: batch) (auto simp: batch_store_def)

lemma write_all:
  assumes "packing_ok P" "smap_ok m"
  shows "fold (batch_effect P) (map (\<lambda>(k, v). Put (pack_key P k) (pack_value P v)) m) [] = m"
proof (rule smap_ok_eq)
  have "map_of (fold (batch_effect P) (map (\<lambda>(k, v). Put (pack_key P k) (pack_value P v)) xs) z) =
    map_of z ++ map_of (rev xs)" for xs z
    using assms(1) by (induction xs arbitrary: z) (auto simp: packing_ok_def)
  then show "map_of (fold (batch_effect P) (map (\<lambda>(k, v). Put (pack_key P k) (pack_value P v)) m) []) = map_of m"
    using smap_ok_distinct [OF assms(2)] map_of_inject_set [of "rev m" m] by (simp flip: rev_map)
qed (simp_all add: assms smap_ok_batch smap_ok_def [of "[]"])

lemma toggle_law:
  assumes "fm_ok P L s" "toggle_leveldb P L b s = (Returns u, s')"
  shows "fm_ok P L s' \<and> fm_enabled s' = b \<and> fm_cache s' = fm_cache s"
proof (cases "b = fm_enabled s")
  case True
  then have "s' = s" using assms by (simp add: toggle_leveldb_def abind_def aread_def aget_def aret_def fm_ok_def)
  then show ?thesis using assms(1) True by simp
next
  case False
  have lib: "packing_ok P" "leveldb_ok (key_compare P) L" "fm_path s" "smap_ok (fm_cache s)"
    using assms(1) by (simp_all add: fm_ok_def)
  show ?thesis
  proof (cases b)
    case False
    then have s': "s' = s\<lparr>fm_ldb := (fm_ldb s)\<lparr>lm_is_open := False,
        lm_files := db_remove_all L (lm_files (fm_ldb s))\<rparr>, fm_enabled := False\<rparr>"
      using assms(2) \<open>b \<noteq> fm_enabled s\<close> lib(3)
      by (simp add: toggle_leveldb_def abind_def aread_def aget_def amodify_def fm_on_ldb_def lm_close_def)
    show ?thesis using lib False by (simp add: s' fm_ok_def fm_saved_def lm_contents_def leveldb_ok_def)
  next
    case True
    let ?ops = "map (\<lambda>(k, v). Put (pack_key P k) (pack_value P v)) (fm_cache s)"
    let ?l = "(fm_ldb s)\<lparr>lm_is_open := True\<rparr>"
    have empty: "lm_contents P L (fm_ldb s) = []" "\<not> lm_is_open (fm_ldb s)"
      using assms(1) \<open>b \<noteq> fm_enabled s\<close> True by (simp_all add: fm_ok_def fm_saved_def)
    obtain l where l: "commit_and_destroy L ?ops ?l = (Returns (), l)"
      and s': "s' = s\<lparr>fm_ldb := l, fm_enabled := True\<rparr>"
      using assms(2) \<open>b \<noteq> fm_enabled s\<close> lib(3) True empty(2)
      by (auto simp: toggle_leveldb_def abind_def aread_def aget_def amodify_def fm_on_ldb_def lm_open_def
        create_batch_def lm_assert_open_def aret_def fold_batch_store split: if_splits prod.splits outcome.splits)
    have "smap_ok (lm_contents P L ?l)" by (simp add: empty smap_ok_def)
    from lm_writes_Returns [OF commit_and_destroy_writes [OF lib(2)] this l]
    show ?thesis using lib True by (simp add: s' fm_ok_def fm_saved_def empty write_all)
  qed
qed

lemma fm_close_law:
  assumes "fm_ok P L s" "fm_close P L s = (Returns u, s')"
  shows "fm_saved P L s' = fm_cache s \<and> \<not> fm_path s' \<and> fm_cache s' = [] \<and> fm_enabled s' \<and> \<not> lm_is_open (fm_ldb s')"
proof -
  obtain s1 where s1: "(if \<not> fm_enabled s then toggle_leveldb P L True else aret ()) s = (Returns (), s1)"
    and s': "s' = s1\<lparr>fm_ldb := (fm_ldb s1)\<lparr>lm_is_open := False\<rparr>, fm_path := False, fm_cache := []\<rparr>"
    using assms
    by (auto simp: fm_close_def abind_def aget_def amodify_def fm_on_ldb_def lm_close_def fm_ok_def
      split: prod.splits outcome.splits)
  have "fm_ok P L s1 \<and> fm_enabled s1 \<and> fm_cache s1 = fm_cache s"
  proof (cases "fm_enabled s")
    case True
    then have "s1 = s" using s1 by (simp add: aret_def)
    then show ?thesis using assms(1) True by simp
  next
    case False
    then show ?thesis using toggle_law [OF assms(1), of True] s1 by simp
  qed
  then show ?thesis by (simp add: s' fm_ok_def fm_saved_def)
qed

text \<open>Opening a map on the files of a database.\<close>

lemma fm_open_law:
  assumes "packing_ok P" "leveldb_ok (key_compare P) L" "smap_ok (fm_saved P L s)"
    "fm_cache s = []" "fm_enabled s" "fm_open P L s = (Returns u, s')"
  shows "fm_ok P L s' \<and> fm_enabled s' \<and> fm_cache s' = fm_saved P L s"
proof -
  let ?l = "(fm_ldb s)\<lparr>lm_is_open := True\<rparr>"
  obtain it l where l: "lm_begin L ?l = (Returns it, l)"
    and s': "s' = s\<lparr>fm_path := True, fm_ldb := l, fm_cache := load_cache P it []\<rparr>"
    using assms(4-6)
    by (auto simp: fm_open_def abind_def aread_def amodify_def fm_on_ldb_def lm_open_def ensure_def
      split: if_splits prod.splits outcome.splits)
  show ?thesis
    using lm_begin_loads [OF l, of P] assms(1-5) by (simp add: s' fm_ok_def fm_saved_def)
qed

text \<open>What a new process finds when the old one has stopped at any point.\<close>

definition fm_crashed :: "('k, 'v, 'd) fast_level_map \<Rightarrow> ('k, 'v, 'd) fast_level_map" where
  "fm_crashed s = s\<lparr>fm_ldb := (fm_ldb s)\<lparr>lm_is_open := False\<rparr>, fm_path := False, fm_enabled := True, fm_cache := []\<rparr>"

lemma smap_ok_updates: "smap_ok m \<Longrightarrow> smap_ok (fold updated us m)"
proof (induction us arbitrary: m)
  case (Cons u us)
  then show ?case by (cases u) simp_all
qed simp

text \<open>
  C18: A \<open>fast_level_map\<close> that is open reads as its entries with the updates that have returned.
  Closed and opened again it has exactly these entries, in the database and in memory, whether or
  not the database was switched off meanwhile; and after a crash it has them too, unless the
  database was switched off: then it is empty.
\<close>

theorem fast_map_survives_restart:
  assumes "fm_ok P L s" "run_updates (fm_store P L) (fm_remove P L) us s = (Returns (), s1)"
  shows "unordered_find s1 = map_of (fold updated us (fm_cache s)) \<and>
    (\<forall>s2 s3. fm_close P L s1 = (Returns (), s2) \<and> fm_open P L s2 = (Returns (), s3) \<longrightarrow>
      fm_ok P L s3 \<and> fm_saved P L s3 = fold updated us (fm_cache s) \<and> fm_cache s3 = fold updated us (fm_cache s)) \<and>
    (\<forall>s4. fm_open P L (fm_crashed s1) = (Returns (), s4) \<longrightarrow>
      fm_ok P L s4 \<and> fm_cache s4 = (if fm_enabled s then fold updated us (fm_cache s) else []))"
proof -
  have lib: "packing_ok P" "leveldb_ok (key_compare P) L" using assms(1) by (simp_all add: fm_ok_def)
  have s1: "fm_ok P L s1" "fm_enabled s1 = fm_enabled s" "fm_cache s1 = fold updated us (fm_cache s)"
    using fm.updates_law [OF assms] by auto
  then have sm: "smap_ok (fold updated us (fm_cache s))" "smap_ok (fm_saved P L s1)"
    using assms(1) by (auto simp: fm_ok_def smap_ok_updates smap_ok_def [of "[]"])
  have find: "unordered_find s1 = map_of (fold updated us (fm_cache s))"
    by (simp add: unordered_find_def s1 fun_eq_iff)
  have restart: "fm_ok P L s3 \<and> fm_saved P L s3 = fold updated us (fm_cache s) \<and> fm_cache s3 = fold updated us (fm_cache s)"
    if "fm_close P L s1 = (Returns (), s2)" "fm_open P L s2 = (Returns (), s3)" for s2 s3
    using fm_close_law [OF s1(1) that(1)] fm_open_law [OF lib _ _ _ that(2)] sm s1(3)
    by (auto simp: fm.saved_law)
  have crash: "fm_ok P L s4 \<and> fm_cache s4 = (if fm_enabled s then fold updated us (fm_cache s) else [])"
    if "fm_open P L (fm_crashed s1) = (Returns (), s4)" for s4
    using fm_open_law [OF lib _ _ _ that] sm s1
    by (auto simp: fm_crashed_def fm_saved_def fm_ok_def)
  show ?thesis using find restart crash by blast
qed

text \<open>A map whose database is open while it counts as switched off.\<close>

definition fm_stuck :: "('k, 'v, 'd) fast_level_map \<Rightarrow> bool" where
  "fm_stuck s \<longleftrightarrow> fm_path s \<and> \<not> fm_enabled s \<and> lm_is_open (fm_ldb s)"

lemma stuck_updates:
  assumes "fm_stuck s"
  shows "\<exists>s'. run_updates (fm_store P L) (fm_remove P L) us s = (Returns (), s') \<and> fm_stuck s' \<and>
    fm_cache s' = fold updated us (fm_cache s) \<and> fm_ldb s' = fm_ldb s"
  using assms unfolding run_updates_def
proof (induction us arbitrary: s)
  case (Cons u us)
  have "\<exists>s1. update_with (fm_store P L) (fm_remove P L) u () s = (Returns (), s1) \<and> fm_stuck s1 \<and>
    fm_cache s1 = updated u (fm_cache s) \<and> fm_ldb s1 = fm_ldb s"
    using Cons.prems by (cases u)
      (simp_all add: fm_store_def fm_remove_def fm_stuck_def abind_def amodify_def aget_def aret_def)
  then obtain s1 where 1: "update_with (fm_store P L) (fm_remove P L) u () s = (Returns (), s1)" "fm_stuck s1"
    "fm_cache s1 = updated u (fm_cache s)" "fm_ldb s1 = fm_ldb s" by blast
  show ?case using Cons.IH [OF 1(2)] 1 by (simp add: abind_def)
qed (simp add: aret_def)

lemma stuck_calls:
  assumes "fm_stuck s"
  shows "toggle_leveldb P L True s = (Throws assert_exception, s)"
    "toggle_leveldb P L False s = (Returns (), s)" "fm_close P L s = (Throws assert_exception, s)"
  using assms
  by (simp_all add: fm_stuck_def toggle_leveldb_def fm_close_def abind_def aread_def aget_def aret_def
    fm_on_ldb_def lm_open_def)

lemma failed_toggle_stuck:
  assumes "fm_ok P L s" "toggle_leveldb P L b s = (Throws level_map_failure, s')"
  shows "fm_stuck s' \<and> fm_cache s' = fm_cache s"
proof -
  let ?ops = "map (\<lambda>(k, v). Put (pack_key P k) (pack_value P v)) (fm_cache s)"
  let ?l = "(fm_ldb s)\<lparr>lm_is_open := True\<rparr>"
  have b: "b" "\<not> fm_enabled s" "fm_path s" "\<not> lm_is_open (fm_ldb s)" "smap_ok (lm_contents P L ?l)"
    using assms
    by (auto simp: toggle_leveldb_def abind_def aread_def aget_def aret_def amodify_def fm_on_ldb_def lm_close_def
      fm_ok_def fm_saved_def smap_ok_def [of "[]"] split: if_splits)
  obtain l where l: "commit_and_destroy L ?ops ?l = (Throws level_map_failure, l)" and s': "s' = s\<lparr>fm_ldb := l\<rparr>"
    using assms(2) b
    by (auto simp: toggle_leveldb_def abind_def aread_def aget_def amodify_def fm_on_ldb_def lm_open_def
      create_batch_def lm_assert_open_def aret_def fold_batch_store split: if_splits prod.splits outcome.splits)
  have "leveldb_ok (key_compare P) L" using assms(1) by (simp add: fm_ok_def)
  then have "lm_is_open l"
    using lm_writes_open [OF commit_and_destroy_writes b(5), of ?ops] l by simp
  then show ?thesis using b by (simp add: s' fm_stuck_def)
qed

text \<open>
  C37: When switching the database of a \<open>fast_level_map\<close> on again fails with an error of level-db,
  the map can from then on neither be switched on nor closed: every later attempt throws, also
  after further updates, which stay in memory only.
\<close>

theorem failed_toggle_is_final:
  assumes "fm_ok P L s" "toggle_leveldb P L True s = (Throws level_map_failure, s')"
  shows "\<exists>s1. run_updates (fm_store P L) (fm_remove P L) us s' = (Returns (), s1) \<and>
    fm_cache s1 = fold updated us (fm_cache s) \<and> fm_ldb s1 = fm_ldb s' \<and>
    toggle_leveldb P L True s1 = (Throws assert_exception, s1) \<and>
    toggle_leveldb P L False s1 = (Returns (), s1) \<and>
    fm_close P L s1 = (Throws assert_exception, s1)"
  using stuck_updates [of s' P L us] failed_toggle_stuck [OF assms] stuck_calls by metis

section \<open>cached\_level\_map\<close>

definition cm_saved :: "('k, 'v) packing \<Rightarrow> 'd leveldb \<Rightarrow> ('k, 'v, 'd) cached_level_map \<Rightarrow> ('k \<times> 'v) list" where
  "cm_saved P L s = lm_contents P L (cm_db s)"

text \<open>A map that is open: database and cache differ at the dirty keys only.\<close>

definition cm_ok :: "('k::linorder, 'v) packing \<Rightarrow> 'd leveldb \<Rightarrow> ('k, 'v, 'd) cached_level_map \<Rightarrow> bool" where
  "cm_ok P L s \<longleftrightarrow>
     packing_ok P \<and> leveldb_ok (key_compare P) L \<and> lm_is_open (cm_db s) \<and>
     smap_ok (cm_cache s) \<and> smap_ok (cm_saved P L s) \<and>
     set (dirty_store s) \<subseteq> dom (map_of (cm_cache s)) \<and> set (dirty_remove s) \<inter> dom (map_of (cm_cache s)) = {} \<and>
     (\<forall>k. k \<notin> set (dirty_store s) \<union> set (dirty_remove s) \<longrightarrow> map_of (cm_saved P L s) k = map_of (cm_cache s) k) \<and>
     (write_through s \<longrightarrow> dirty_store s = [] \<and> dirty_remove s = [])"

lemma cm_okD:
  assumes "cm_ok P L s"
  shows "packing_ok P" "leveldb_ok (key_compare P) L" "lm_is_open (cm_db s)" "smap_ok (cm_cache s)" "smap_ok (cm_saved P L s)"
  using assms by (simp_all add: cm_ok_def)

lemma cm_synced:
  assumes "cm_ok P L s" "dirty_store s = []" "dirty_remove s = []"
  shows "cm_saved P L s = cm_cache s"
  using assms by (intro smap_ok_eq) (auto simp: cm_ok_def)

lemma cm_through_law:
  assumes "cm_ok P L s" "write_through s" "lm_writes P L f m" "\<And>x. smap_ok x \<Longrightarrow> smap_ok (f x)"
    and "cm_on_db m (s\<lparr>cm_cache := f (cm_cache s)\<rparr>) = (Returns u, s')"
  shows "cm_ok P L s' \<and> write_through s' = write_through s \<and> cm_cache s' = f (cm_cache s)"
proof -
  obtain l where l: "m (cm_db s) = (Returns u, l)" and s': "s' = s\<lparr>cm_cache := f (cm_cache s), cm_db := l\<rparr>"
    using assms(5) by (auto simp: cm_on_db_def split: prod.splits)
  have dirty: "dirty_store s = []" "dirty_remove s = []" using assms(1,2) by (simp_all add: cm_ok_def)
  note eq = cm_synced [OF assms(1) dirty]
  have "smap_ok (lm_contents P L (cm_db s))" using assms(1) by (simp add: cm_ok_def cm_saved_def)
  from lm_writes_Returns [OF assms(3) this l] eq
  show ?thesis using cm_okD [OF assms(1)] assms(4) dirty by (simp add: s' cm_ok_def cm_saved_def)
qed

interpretation cm: durable_map "cm_ok P L" write_through cm_cache "cm_saved P L" "cm_store P L" "cm_remove P L"
  for P :: "('k::linorder, 'v) packing" and L :: "'d leveldb"
proof
  fix s s' :: "('k, 'v, 'd) cached_level_map" and k v u
  assume ok: "cm_ok P L s"
  show "cm_ok P L s' \<and> write_through s' = write_through s \<and> cm_cache s' = smap_set k v (cm_cache s)"
    if st: "cm_store P L k v s = (Returns u, s')"
  proof (cases "write_through s")
    case True
    show ?thesis
      using cm_through_law [OF ok True lm_store_writes smap_ok_set] cm_okD(1,2) [OF ok] st True
      by (simp add: cm_store_def abind_def amodify_def aget_def)
  next
    case False
    then have s': "s' = s\<lparr>cm_cache := smap_set k v (cm_cache s), dirty_store := sset_insert k (dirty_store s),
        dirty_remove := removeAll k (dirty_remove s)\<rparr>"
      using st by (simp add: cm_store_def abind_def amodify_def aget_def)
    show ?thesis using ok False by (auto simp: s' cm_ok_def cm_saved_def)
  qed
  show "cm_ok P L s' \<and> write_through s' = write_through s \<and> cm_cache s' = smap_del k (cm_cache s)"
    if st: "cm_remove P L k s = (Returns u, s')"
  proof (cases "write_through s")
    case True
    show ?thesis
      using cm_through_law [OF ok True lm_remove_writes smap_ok_del] cm_okD(1,2) [OF ok] st True
      by (simp add: cm_remove_def abind_def amodify_def aget_def)
  next
    case False
    then have s': "s' = s\<lparr>cm_cache := smap_del k (cm_cache s), dirty_store := removeAll k (dirty_store s),
        dirty_remove := sset_insert k (dirty_remove s)\<rparr>"
      using st by (simp add: cm_remove_def abind_def amodify_def aget_def)
    show ?thesis using ok False by (auto simp: s' cm_ok_def cm_saved_def)
  qed
  show "cm_saved P L s = cm_cache s" if "write_through s"
    using ok that cm_synced [OF ok] by (simp add: cm_ok_def)
qed

text \<open>The batch of \<open>flush\<close>.\<close>

lemma batch_stores_all:
  assumes "set ks \<subseteq> dom (map_of cache)"
  shows "batch_stores P cache ks b = (True, b @ map (\<lambda>k. Put (pack_key P k) (pack_value P (the (map_of cache k)))) ks)"
  using assms by (induction ks arbitrary: b) (auto simp: batch_store_def split: option.split)

lemma fold_batch_remove: "fold (batch_remove P) ks b = b @ map (\<lambda>k. Delete (pack_key P k)) ks"
  by (induction ks arbitrary: b) (auto simp: batch_remove_def)

lemma map_of_puts:
  assumes "packing_ok P"
  shows "map_of (fold (batch_effect P) (map (\<lambda>k. Put (pack_key P k) (pack_value P (f k))) ks) m) =
    (\<lambda>k. if k \<in> set ks then Some (f k) else map_of m k)"
  using assms by (induction ks arbitrary: m) (auto simp: packing_ok_def fun_eq_iff)

lemma map_of_deletes:
  assumes "packing_ok P"
  shows "map_of (fold (batch_effect P) (map (\<lambda>k. Delete (pack_key P k)) ks) m) =
    (\<lambda>k. if k \<in> set ks then None else map_of m k)"
  using assms by (induction ks arbitrary: m) (auto simp: packing_ok_def fun_eq_iff)

definition flush_ops :: "('k, 'v) packing \<Rightarrow> ('k, 'v, 'd) cached_level_map \<Rightarrow> batch_op list" where
  "flush_ops P s =
     map (\<lambda>k. Put (pack_key P k) (pack_value P (the (map_of (cm_cache s) k)))) (dirty_store s) @
     map (\<lambda>k. Delete (pack_key P k)) (dirty_remove s)"

lemma flush_effect:
  assumes "cm_ok P L s"
  shows "fold (batch_effect P) (flush_ops P s) (cm_saved P L s) = cm_cache s"
proof (rule smap_ok_eq)
  have "map_of (cm_saved P L s) k = map_of (cm_cache s) k"
    if "k \<notin> set (dirty_store s)" "k \<notin> set (dirty_remove s)" for k
    using assms that by (simp add: cm_ok_def)
  moreover have "map_of (cm_cache s) k \<noteq> None" if "k \<in> set (dirty_store s)" for k
    using assms that by (auto simp: cm_ok_def)
  moreover have "map_of (cm_cache s) k = None" if "k \<in> set (dirty_remove s)" for k
    using assms that by (auto simp: cm_ok_def)
  ultimately show "map_of (fold (batch_effect P) (flush_ops P s) (cm_saved P L s)) = map_of (cm_cache s)"
    by (auto simp: flush_ops_def map_of_puts map_of_deletes cm_okD(1) [OF assms] fun_eq_iff)
qed (use cm_okD [OF assms] in \<open>simp_all add: smap_ok_batch\<close>)

lemma flush_eq:
  assumes "cm_ok P L s"
  shows "flush P L s = abind (cm_on_db (commit_and_destroy L (flush_ops P s)))
    (\<lambda>_. amodify (\<lambda>s. s\<lparr>dirty_store := [], dirty_remove := []\<rparr>)) s"
proof -
  have "set (dirty_store s) \<subseteq> dom (map_of (cm_cache s))" using assms by (simp add: cm_ok_def)
  then show ?thesis using cm_okD(3) [OF assms]
    by (simp add: flush_def abind_def cm_on_db_def create_batch_def lm_assert_open_def aget_def aret_def
      batch_stores_all fold_batch_remove flush_ops_def)
qed

text \<open>A \<open>flush\<close> that returns has saved the entries; one that throws can be tried again.\<close>

lemma flush_cases:
  assumes "cm_ok P L s"
  obtains (returns) l where "flush P L s = (Returns (), s\<lparr>cm_db := l, dirty_store := [], dirty_remove := []\<rparr>)"
      "lm_is_open l" "lm_contents P L l = cm_cache s"
  | (throws) l where "flush P L s = (Throws level_map_failure, s\<lparr>cm_db := l\<rparr>)"
      "lm_is_open l" "lm_contents P L l \<in> {cm_saved P L s, cm_cache s}"
proof -
  obtain r l where r: "commit_and_destroy L (flush_ops P s) (cm_db s) = (r, l)" by fastforce
  have fl: "flush P L s = (case r of Returns _ \<Rightarrow> (Returns (), s\<lparr>cm_db := l, dirty_store := [], dirty_remove := []\<rparr>)
    | Throws e \<Rightarrow> (Throws e, s\<lparr>cm_db := l\<rparr>) | Diverges \<Rightarrow> (Diverges, s\<lparr>cm_db := l\<rparr>))"
    by (simp add: flush_eq [OF assms] abind_def cm_on_db_def r amodify_def split: outcome.split)
  have "lm_is_open l \<and> (case r of Returns _ \<Rightarrow> lm_contents P L l = cm_cache s
    | Throws e \<Rightarrow> e = level_map_failure \<and> lm_contents P L l \<in> {cm_saved P L s, cm_cache s} | Diverges \<Rightarrow> False)"
    using commit_and_destroy_writes [OF cm_okD(2) [OF assms], of "flush_ops P s", unfolded lm_writes_def,
        rule_format, OF cm_okD(5) [OF assms, unfolded cm_saved_def]]
      r cm_okD(3) [OF assms] flush_effect [OF assms]
    by (cases r) (auto simp: cm_saved_def)
  then show thesis using fl returns throws by (cases r) auto
qed

lemma cm_updates_back:
  assumes "\<not> write_through s"
  shows "\<exists>s1. run_updates (cm_store P L) (cm_remove P L) us s = (Returns (), s1) \<and> cm_db s1 = cm_db s"
  using assms unfolding run_updates_def
proof (induction us arbitrary: s)
  case (Cons u us)
  obtain s1 where 1: "update_with (cm_store P L) (cm_remove P L) u () s = (Returns (), s1)"
    "\<not> write_through s1" "cm_db s1 = cm_db s"
    using Cons.prems by (cases u) (simp_all add: cm_store_def cm_remove_def abind_def amodify_def aget_def)
  show ?case using Cons.IH [OF 1(2)] 1 by (simp add: abind_def)
qed (simp add: aret_def)

lemma cm_ok_after_flush:
  assumes "cm_ok P L s" "lm_is_open l"
  shows "lm_contents P L l = cm_cache s \<Longrightarrow> cm_ok P L (s\<lparr>cm_db := l, dirty_store := [], dirty_remove := []\<rparr>)"
    and "lm_contents P L l \<in> {cm_saved P L s, cm_cache s} \<Longrightarrow> cm_ok P L (s\<lparr>cm_db := l\<rparr>)"
  using assms by (auto simp: cm_ok_def cm_saved_def)

text \<open>
  C19: A \<open>cached_level_map\<close> reads as its entries with the updates that have returned; without
  write-through the updates always return and do not touch the database. A \<open>flush\<close> ends: if it
  returns, the database holds these entries; if level-db reports an error, the cache is as before,
  the database holds the entries of before or those of the cache, and the map can be flushed again.
\<close>

theorem flush_saves_or_can_be_repeated:
  assumes "cm_ok P L s" "run_updates (cm_store P L) (cm_remove P L) us s = (Returns (), s1)"
  shows "cm_fetch_optional s1 = map_of (fold updated us (cm_cache s)) \<and>
    cm_saved P L s1 = (if write_through s then fold updated us (cm_cache s) else cm_saved P L s) \<and>
    (case flush P L s1 of
       (Returns _, s2) \<Rightarrow> cm_ok P L s2 \<and> cm_cache s2 = fold updated us (cm_cache s) \<and>
         cm_saved P L s2 = fold updated us (cm_cache s)
     | (Throws e, s2) \<Rightarrow> e = level_map_failure \<and> cm_ok P L s2 \<and> cm_cache s2 = fold updated us (cm_cache s) \<and>
         cm_saved P L s2 \<in> {cm_saved P L s1, fold updated us (cm_cache s)}
     | (Diverges, _) \<Rightarrow> False)"
proof -
  have s1: "cm_ok P L s1" "write_through s1 = write_through s" "cm_cache s1 = fold updated us (cm_cache s)"
    using cm.updates_law [OF assms] by auto
  have saved: "cm_saved P L s1 = (if write_through s then fold updated us (cm_cache s) else cm_saved P L s)"
  proof (cases "write_through s")
    case True
    then show ?thesis using cm.saved_law [OF s1(1)] s1 by simp
  next
    case False
    then show ?thesis using cm_updates_back [OF False, of P L us] assms(2) by (simp add: cm_saved_def)
  qed
  have find: "cm_fetch_optional s1 = map_of (fold updated us (cm_cache s))"
    by (simp add: cm_fetch_optional_def fun_eq_iff s1)
  from s1(1) show ?thesis
  proof (cases rule: flush_cases)
    case (returns l)
    then show ?thesis using find saved s1 cm_ok_after_flush(1) [OF s1(1) returns(2)] by (simp add: cm_saved_def)
  next
    case (throws l)
    then show ?thesis using find saved s1 cm_ok_after_flush(2) [OF s1(1) throws(2)] by (simp add: cm_saved_def)
  qed
qed

section \<open>Instances\<close>

text \<open>Numbers as keys and values, and a database in memory that fails as the list of its outcomes says.\<close>

definition unary :: "(nat, nat) packing" where
  "unary = \<lparr>pack_key = (\<lambda>n. replicate n CHR ''k''), unpack_key = length,
     pack_value = (\<lambda>n. replicate n CHR ''v''), unpack_value = length, sizeof_key = 4\<rparr>"

definition outcome_of :: "((string \<times> string) list \<Rightarrow> (string \<times> string) list) \<Rightarrow>
    (string \<times> string) list \<times> bool list \<Rightarrow> bool \<times> (string \<times> string) list \<times> bool list" where
  "outcome_of f = (\<lambda>(m, os). case os of [] \<Rightarrow> (True, f m, []) | b # os' \<Rightarrow> (b, if b then f m else m, os'))"

definition memory_db :: "(string \<Rightarrow> string \<Rightarrow> int) \<Rightarrow> ((string \<times> string) list \<times> bool list) leveldb" where
  "memory_db cmp = \<lparr>db_Open = (\<lambda>_. True), db_Put = (\<lambda>d k v. outcome_of (put_entry cmp k v) d),
     db_Delete = (\<lambda>d k. outcome_of (delete_entry cmp k) d),
     db_Write = (\<lambda>d ops. outcome_of (fold (apply_batch_op cmp) ops) d),
     db_Get = (\<lambda>(m, _) k. case find (\<lambda>e. cmp k (fst e) = 0) m of
        None \<Rightarrow> (status_not_found, []) | Some e \<Rightarrow> (status_ok, snd e)),
     db_entries = fst, db_iter_status = (\<lambda>_. status_ok), db_remove_all = (\<lambda>(_, os). ([], os))\<rparr>"

lemma unary_ok: "packing_ok unary"
  by (simp add: packing_ok_def unary_def)

lemma memory_db_ok: "leveldb_ok cmp (memory_db cmp)"
  by (auto simp: leveldb_ok_def memory_db_def write_result_def outcome_of_def get_result_def
    split: list.split option.split)

definition sample_fast :: "bool list \<Rightarrow> (nat, nat, (string \<times> string) list \<times> bool list) fast_level_map" where
  "sample_fast outcomes = \<lparr>fm_ldb = \<lparr>lm_files = ([], outcomes), lm_is_open = False\<rparr>, fm_path = True,
     fm_enabled = False, fm_cache = [(1, 5)]\<rparr>"

definition sample_cached :: "(nat, nat, (string \<times> string) list \<times> bool list) cached_level_map" where
  "sample_cached = \<lparr>cm_db = \<lparr>lm_files = ([], [False, False]), lm_is_open = True\<rparr>, cm_cache = [],
     dirty_store = [], dirty_remove = [], write_through = False\<rparr>"

abbreviation memory :: "((string \<times> string) list \<times> bool list) leveldb" where
  "memory \<equiv> memory_db (key_compare unary)"

lemma memory_entries: "db_entries memory = fst"
  by (simp add: memory_db_def)

lemma sample_fast_ok: "fm_ok unary memory (sample_fast outcomes)"
  by (simp add: fm_ok_def unary_ok memory_db_ok sample_fast_def fm_saved_def lm_contents_def memory_entries smap_ok_def)

lemma sample_cached_ok: "cm_ok unary memory sample_cached"
  by (simp add: cm_ok_def unary_ok memory_db_ok sample_cached_def cm_saved_def lm_contents_def memory_entries smap_ok_def)

lemmas map_eval = run_updates_def fm_store_def fm_remove_def fm_close_def fm_open_def fm_crashed_def toggle_leveldb_def
  fm_on_ldb_def cm_store_def cm_remove_def cm_on_db_def flush_def act_defs lm_store_def lm_remove_def lm_open_def
  lm_close_def lm_begin_def lm_assert_open_def lm_written_def create_batch_def batch_store_def batch_remove_def
  batch_commit_def batch_destructor_def commit_and_destroy_def load_cache.simps lm_valid_def lm_next_def lm_key_def
  lm_value_def emplace_def sample_fast_def sample_cached_def memory_db_def outcome_of_def unary_def key_compare_def
  smap_del_def delete_entry_def

lemma sample_restart:
  "\<exists>s1 s2 s3. run_updates (fm_store unary memory) (fm_remove unary memory) [Store 2 7, Remove 1] (sample_fast []) = (Returns (), s1) \<and>
    fm_close unary memory s1 = (Returns (), s2) \<and> fm_open unary memory s2 = (Returns (), s3)"
  by (simp add: map_eval)

theorem fast_map_survives_restart_witness:
  "\<exists>s1 s2 s3. run_updates (fm_store unary memory) (fm_remove unary memory) [Store 2 7, Remove 1] (sample_fast []) = (Returns (), s1) \<and>
    fm_close unary memory s1 = (Returns (), s2) \<and> fm_open unary memory s2 = (Returns (), s3) \<and>
    unordered_find s1 2 = Some 7 \<and> fm_cache s3 = [(2, 7)]"
proof -
  obtain s1 s2 s3 where
    r: "run_updates (fm_store unary memory) (fm_remove unary memory) [Store 2 7, Remove 1] (sample_fast []) = (Returns (), s1)"
    "fm_close unary memory s1 = (Returns (), s2)" "fm_open unary memory s2 = (Returns (), s3)"
    using sample_restart by blast
  have m: "fold updated [Store 2 7, Remove 1] (fm_cache (sample_fast [])) = [(2, 7)]"
    by (simp add: sample_fast_def smap_del_def)
  note law = fast_map_survives_restart [OF sample_fast_ok r(1), unfolded m]
  have "unordered_find s1 2 = Some 7" using law by simp
  moreover have "fm_cache s3 = [(2, 7)]" using law r(2,3) by blast
  ultimately show ?thesis using r by blast
qed

lemma sample_failed_toggle:
  "\<exists>s'. toggle_leveldb unary memory True (sample_fast [False, False]) = (Throws level_map_failure, s')"
  by (simp add: map_eval)

theorem failed_toggle_is_final_witness:
  "\<exists>s' s1. toggle_leveldb unary memory True (sample_fast [False, False]) = (Throws level_map_failure, s') \<and>
    run_updates (fm_store unary memory) (fm_remove unary memory) [Store 2 7] s' = (Returns (), s1) \<and>
    fm_close unary memory s1 = (Throws assert_exception, s1)"
proof -
  obtain s' where t: "toggle_leveldb unary memory True (sample_fast [False, False]) = (Throws level_map_failure, s')"
    using sample_failed_toggle by blast
  show ?thesis using failed_toggle_is_final [OF sample_fast_ok t, of "[Store 2 7]"] t by blast
qed

theorem flush_saves_or_can_be_repeated_witness:
  "\<exists>s1 s2. run_updates (cm_store unary memory) (cm_remove unary memory) [Store 2 7] sample_cached = (Returns (), s1) \<and>
    flush unary memory s1 = (Throws level_map_failure, s2) \<and> cm_fetch_optional s1 2 = Some 7 \<and>
    cm_saved unary memory s1 = [] \<and> cm_ok unary memory s2 \<and> cm_cache s2 = [(2, 7)]"
proof -
  obtain s1 s2 where r: "run_updates (cm_store unary memory) (cm_remove unary memory) [Store 2 7] sample_cached = (Returns (), s1)"
    "flush unary memory s1 = (Throws level_map_failure, s2)"
    by (simp add: map_eval)
  have "fold updated [Store 2 7] (cm_cache sample_cached) = [(2, 7)]" "\<not> write_through sample_cached"
    "cm_saved unary memory sample_cached = []"
    by (simp_all add: sample_cached_def cm_saved_def lm_contents_def memory_entries)
  then show ?thesis
    using flush_saves_or_can_be_repeated [OF sample_cached_ok r(1)] r by simp
qed

end
