(* ===== verification/Chain_Queries.thy ===== *)
theory Chain_Queries
  imports Sample_Node Pending_Pool Complex_Main
begin

text \<open>
  Queries on the chain of the node: blocks by number and id, and \<open>find_block_num\<close> of
  \<open>ChainDatabase.cpp\<close>, an interpolation search by time that computes its steps in \<open>double\<close>.
  The rounding of these computations is written out, and the search is shown to end at the
  last block that is not after the given time.
\<close>

section \<open>Blocks by number and by id\<close>

definition get_block_at :: "nat \<Rightarrow> FullBlock node_act" where
  "get_block_at block_num = abind (get_block_id block_num) get_block"

definition get_block_header_at :: "nat \<Rightarrow> SignedBlockHeader node_act" where
  "get_block_header_at block_num = abind (get_block_id block_num) get_block_header"

definition get_block_num :: "block_id \<Rightarrow> nat node_act" where
  "get_block_num bid = (if bid = 0 then aret 0 else abind (get_block bid) (\<lambda>b. aret (bh_block_num b)))"

definition node_head_block_num :: "nat node_act" where
  "node_head_block_num = aget (\<lambda>s. bh_block_num (head_block_header s))"

section \<open>Computations in double\<close>

text \<open>
  A double that is not negative, as \<open>(m, k)\<close> for \<open>m / 2 ^ k\<close>. The double nearest to a fraction
  has a mantissa of 53 bits, and is even at a tie.
\<close>

type_synonym dbl = "nat \<times> nat"

definition round_half_even :: "nat \<Rightarrow> nat \<Rightarrow> nat" where
  "round_half_even x y =
     (let q = x div y; r = x mod y in
      if 2 * r < y \<or> 2 * r = y \<and> even q then q else q + 1)"

function dbl_scale :: "nat \<Rightarrow> nat \<Rightarrow> nat" where
  "dbl_scale a b = (if a = 0 \<or> 2 ^ 52 * b \<le> a then 0 else Suc (dbl_scale (2 * a) b))"
  by pat_completeness auto

termination dbl_scale
  by (relation "measure (\<lambda>(a, b). 2 ^ 52 * b - a)") auto

declare dbl_scale.simps [simp del]

definition dbl_nearest :: "nat \<Rightarrow> nat \<Rightarrow> dbl" where
  "dbl_nearest a b = (let k = dbl_scale a b in (round_half_even (a * 2 ^ k) b, k))"

definition dbl_div :: "nat \<Rightarrow> nat \<Rightarrow> dbl" where
  "dbl_div a b = dbl_nearest a b"

definition dbl_mult :: "nat \<Rightarrow> dbl \<Rightarrow> dbl" where
  "dbl_mult n = (\<lambda>(m, k). dbl_nearest (n * m) (2 ^ k))"

definition dbl_add :: "nat \<Rightarrow> dbl \<Rightarrow> dbl" where
  "dbl_add n = (\<lambda>(m, k). dbl_nearest (n * 2 ^ k + m) (2 ^ k))"

definition dbl_to_uint32 :: "dbl \<Rightarrow> nat" where
  "dbl_to_uint32 = (\<lambda>(m, k). m div 2 ^ k)"

section \<open>find\_block\_num\<close>

definition sub32 :: "nat \<Rightarrow> nat \<Rightarrow> nat" where
  "sub32 a b = (a + 2 ^ 32 - b) mod 2 ^ 32"

text \<open>The block between \<open>start\<close> and \<open>end\<close> that is looked at next.\<close>

definition interpolate :: "nat \<Rightarrow> nat \<Rightarrow> time \<Rightarrow> time \<Rightarrow> time \<Rightarrow> nat" where
  "interpolate first past start_time end_time t =
     (let relative = dbl_div (sub32 t start_time) (sub32 end_time start_time);
          mid = dbl_to_uint32 (dbl_add first (dbl_mult (past - first) relative))
      in if mid = first then mid + 1 else mid)"

fun find_block_loop :: "nat \<Rightarrow> time \<Rightarrow> nat \<Rightarrow> nat \<Rightarrow> time \<Rightarrow> time \<Rightarrow> nat node_act" where
  "find_block_loop n t first past start_time end_time =
     (if past > first + 1 then
        (case n of
           0 \<Rightarrow> (\<lambda>s. (Diverges, s))
         | Suc n' \<Rightarrow>
             let mid = interpolate first past start_time end_time t in
             abind (get_block_header_at mid) (\<lambda>h.
             if bh_timestamp h > t
             then find_block_loop n' t first mid start_time (bh_timestamp h)
             else find_block_loop n' t mid past (bh_timestamp h) end_time))
      else aret first)"

declare find_block_loop.simps [simp del]

definition find_block_num :: "time \<Rightarrow> nat node_act" where
  "find_block_num t =
     abind node_head_block_num (\<lambda>past.
     abind (get_block_header_at 1) (\<lambda>h.
     if bh_timestamp h \<ge> t then aret 1
     else
       abind (get_block_header_at past) (\<lambda>h'.
       if bh_timestamp h' \<le> t then aret past
       else find_block_loop past t 1 past (bh_timestamp h) (bh_timestamp h'))))"

section \<open>The error of the roundings\<close>

lemma round_half_even_bounds:
  assumes "0 < y"
  shows "real (round_half_even x y) \<le> real x / real y + 1 / 2"
proof -
  have x: "real x = real (x div y) * real y + real (x mod y)"
    by (metis div_mult_mod_eq of_nat_add of_nat_mult)
  have "real (x mod y) < real y" using assms by simp
  then show ?thesis using assms x
    by (auto simp: round_half_even_def Let_def field_simps)
qed

lemma round_half_even_ge:
  assumes "0 < y" "c * y \<le> x"
  shows "c \<le> round_half_even x y"
proof -
  have "c \<le> x div y" using assms by (simp add: less_eq_div_iff_mult_less_eq)
  then show ?thesis by (simp add: round_half_even_def Let_def)
qed

lemma dbl_scale_large: "0 < a \<Longrightarrow> 2 ^ 52 * b \<le> a * 2 ^ dbl_scale a b"
  by (induction a b rule: dbl_scale.induct) (subst dbl_scale.simps, auto simp: algebra_simps)

text \<open>A rounded value exceeds the exact one by at most its part of \<open>2 ^ 53\<close>.\<close>

lemma dbl_nearest_le:
  assumes "0 < b" "dbl_nearest a b = (m, k)"
  shows "real m / 2 ^ k \<le> real a / real b * (1 + 1 / 2 ^ 53)"
proof (cases "a = 0")
  case True
  then show ?thesis using assms
    by (simp add: dbl_nearest_def Let_def round_half_even_def dbl_scale.simps [of 0])
next
  case False
  have "k = dbl_scale a b" using assms(2) by (simp add: dbl_nearest_def Let_def)
  then have "2 ^ 52 * b \<le> a * 2 ^ k" using dbl_scale_large [of a b] False by simp
  then have "real (2 ^ 52 * b) \<le> real (a * 2 ^ k)" by (rule of_nat_mono)
  then have k: "2 ^ 52 * real b \<le> real a * 2 ^ k" by simp
  have "real m \<le> real a * 2 ^ k / real b + 1 / 2"
    using round_half_even_bounds [OF assms(1), of "a * 2 ^ k"] assms(2) by (auto simp: dbl_nearest_def Let_def)
  also have "1 / 2 \<le> (real a * 2 ^ k / real b) / 2 ^ 53"
    using k assms(1) by (simp add: field_simps)
  finally have "real m \<le> 2 ^ k * (real a / real b * (1 + 1 / 2 ^ 53))" by (simp add: algebra_simps)
  then show ?thesis by (simp add: divide_le_eq mult.commute)
qed

lemma interpolation_bound:
  fixes a b n first past e :: real
  assumes "0 \<le> a" "a + 1 \<le> b" "b < 2 ^ 32" "past = first + n" "0 \<le> first" "2 \<le> n"
    "b * past \<le> 2 ^ 53" "e = 1 / 2 ^ 53"
    "d \<le> n * (a / b * (1 + e)) * (1 + e)" "x \<le> (first + d) * (1 + e)"
  shows "x < past"
proof -
  have b: "0 < b" using assms(1,2) by simp
  have "e * b = b / 2 ^ 53" using assms(8) by simp
  also have "\<dots> < 1 / 6" using assms(3) by simp
  finally have eb: "e * b < 1 / 6" .
  have e: "0 < e" "e \<le> 1" using assms(8) by simp_all
  have ab: "a / b \<le> 1 - 1 / b" using assms(2) b by (simp add: field_simps)
  have "(1 + e) * (1 + e) \<le> 1 + 3 * e" using e by (simp add: algebra_simps mult_left_le)
  then have "n * (a / b) * ((1 + e) * (1 + e)) \<le> n * (a / b) * (1 + 3 * e)"
    using assms(1,6) b by (intro mult_left_mono) auto
  also have "\<dots> \<le> n * (1 - 1 / b) * (1 + 3 * e)"
    using ab assms(6) e by (intro mult_right_mono mult_left_mono) auto
  also have "\<dots> \<le> n - n / b + 3 * e * n"
    using assms(6) b e by (simp add: algebra_simps)
  finally have d: "d \<le> n - n / b + 3 * e * n" using assms(9) by (simp add: mult_ac)
  have small: "3 * e * n < n / b - 1 / b"
  proof -
    have "3 * e * n * b < n / 2" using eb assms(6) b mult_strict_right_mono [of "e * b" "1 / 6" "3 * n"]
      by (simp add: mult_ac)
    also have "n / 2 \<le> n - 1" using assms(6) by simp
    finally show ?thesis using b by (simp add: field_simps)
  qed
  have "first + d < past - 1 / b" using d small assms(4) by simp
  then have "(first + d) * (1 + e) < (past - 1 / b) * (1 + e)" using e by simp
  also have "\<dots> \<le> past - 1 / b + e * past" using b e divide_right_mono [of 1 "1 + e" b] by (simp add: algebra_simps)
  also have "e * past \<le> 1 / b"
  proof -
    have "e * past = past / 2 ^ 53" using assms(8) by simp
    also have "\<dots> \<le> 1 / b" using assms(7) b by (simp add: field_simps)
    finally show ?thesis .
  qed
  finally show ?thesis using assms(10) by simp
qed

lemma interpolate_between:
  assumes "sub32 t st < sub32 et st" "first + 1 < past" "sub32 et st * past \<le> 2 ^ 53"
  shows "first < interpolate first past st et t \<and> interpolate first past st et t < past"
proof -
  define a b n where "a = sub32 t st" and "b = sub32 et st" and "n = past - first"
  obtain m k where 1: "dbl_div a b = (m, k)" by fastforce
  obtain m2 k2 where 2: "dbl_mult n (m, k) = (m2, k2)" by fastforce
  obtain m3 k3 where 3: "dbl_add first (m2, k2) = (m3, k3)" by fastforce
  have b: "a < b" "b < 2 ^ 32" using assms(1) by (auto simp: a_def b_def sub32_def)
  then have b32: "real b < 2 ^ 32" by (metis of_nat_less_iff of_nat_numeral of_nat_power)
  have "b * past \<le> 2 ^ 53" using assms(3) by (simp add: b_def)
  then have "real (b * past) \<le> real (2 ^ 53)" by (rule of_nat_mono)
  then have span: "real b * real past \<le> 2 ^ 53" by simp
  let ?e = "1 / 2 ^ 53 :: real"
  have r: "real m / 2 ^ k \<le> real a / real b * (1 + ?e)"
    using dbl_nearest_le [of b a m k] 1 b by (simp add: dbl_div_def)
  have "real m2 / 2 ^ k2 \<le> real (n * m) / real (2 ^ k) * (1 + ?e)"
    using dbl_nearest_le [of "2 ^ k" "n * m" m2 k2] 2 by (simp add: dbl_mult_def)
  also have "real (n * m) / real (2 ^ k) = real n * (real m / 2 ^ k)" by simp
  also have "real n * (real m / 2 ^ k) * (1 + ?e) \<le> real n * (real a / real b * (1 + ?e)) * (1 + ?e)"
    by (intro mult_right_mono mult_left_mono r) simp_all
  finally have d: "real m2 / 2 ^ k2 \<le> real n * (real a / real b * (1 + ?e)) * (1 + ?e)" .
  have x: "real m3 / 2 ^ k3 \<le> (real first + real m2 / 2 ^ k2) * (1 + ?e)"
  proof -
    have "dbl_nearest (first * 2 ^ k2 + m2) (2 ^ k2) = (m3, k3)" using 3 by (simp add: dbl_add_def)
    from dbl_nearest_le [OF _ this]
    have "real m3 / 2 ^ k3 \<le> real (first * 2 ^ k2 + m2) / real (2 ^ k2) * (1 + ?e)" by simp
    also have "real (first * 2 ^ k2 + m2) / real (2 ^ k2) = real first + real m2 / 2 ^ k2"
      by (simp add: field_simps)
    finally show ?thesis .
  qed
  have "real m3 / 2 ^ k3 < real past"
    by (rule interpolation_bound [where a = "real a" and b = "real b" and n = "real n" and first = "real first"
        and e = ?e and d = "real m2 / 2 ^ k2"])
      (use b b32 assms(2) span d x in \<open>auto simp: n_def of_nat_diff\<close>)
  then have "real m3 < real (past * 2 ^ k3)" by (simp add: divide_less_eq)
  then have "m3 < past * 2 ^ k3" by (simp only: of_nat_less_iff)
  then have upper: "m3 div 2 ^ k3 < past" by (simp add: less_mult_imp_div_less)
  have "m3 = round_half_even ((first * 2 ^ k2 + m2) * 2 ^ k3) (2 ^ k2)"
    using 3 by (auto simp: dbl_add_def dbl_nearest_def Let_def)
  then have "first * 2 ^ k3 \<le> m3"
    using round_half_even_ge [of "2 ^ k2" "first * 2 ^ k3"] by (simp add: algebra_simps)
  then have lower: "first \<le> m3 div 2 ^ k3" by (simp add: less_eq_div_iff_mult_less_eq)
  show ?thesis
    using upper lower assms(2)
    by (auto simp: interpolate_def Let_def 1 [unfolded a_def b_def] 2 [unfolded n_def] 3 dbl_to_uint32_def)
qed

section \<open>What the search finds\<close>

text \<open>The blocks \<open>1, \<dots>, N\<close> of a chain that is indexed and stored, and their times.\<close>

definition stored_header :: "node \<Rightarrow> nat \<Rightarrow> SignedBlockHeader option" where
  "stored_header s i =
     (case block_num_to_id_db s i of
        None \<Rightarrow> None
      | Some k \<Rightarrow> map_option block_header (block_id_to_full_block s k))"

definition chain_times :: "node \<Rightarrow> (nat \<Rightarrow> time) \<Rightarrow> bool" where
  "chain_times s T \<longleftrightarrow>
     (\<forall>i. 1 \<le> i \<and> i \<le> bh_block_num (head_block_header s) \<longrightarrow>
        (\<exists>h. stored_header s i = Some h \<and> bh_timestamp h = T i))"

lemma get_block_header_at_eq:
  "stored_header s i = Some h \<Longrightarrow> get_block_header_at i s = (Returns h, s)"
  by (auto simp: stored_header_def get_block_header_at_def get_block_id_def get_block_header_def get_block_def
    block_fetch_def abind_def aread_def aret_def split: option.splits)

lemma sub32_diff:
  assumes "b \<le> a" "a < 2 ^ 32"
  shows "sub32 a b = a - b"
proof -
  have "a + 2 ^ 32 - b = 2 ^ 32 + (a - b)" using assms(1) by simp
  then have "sub32 a b = (a - b) mod 2 ^ 32" by (simp only: sub32_def mod_add_self1)
  also have "\<dots> = a - b" using assms(2) by (simp add: less_imp_diff_less)
  finally show ?thesis .
qed

lemma find_block_loop_finds:
  assumes times: "chain_times s T" "\<And>i j. 1 \<le> i \<Longrightarrow> i < j \<Longrightarrow> j \<le> N \<Longrightarrow> T i < T j" "T N < 2 ^ 32"
      "N = bh_block_num (head_block_header s)" "(T N - T 1) * N \<le> 2 ^ 53"
    and loop: "1 \<le> first" "first < past" "past \<le> N" "T first \<le> t" "t < T past" "past \<le> first + 1 + n"
  shows "\<exists>r. find_block_loop n t first past (T first) (T past) s = (Returns r, s) \<and>
    1 \<le> r \<and> r < N \<and> T r \<le> t \<and> t < T (r + 1)"
  using loop
proof (induction n arbitrary: first past)
  case 0
  then have past: "past = first + 1" by simp
  show ?case using 0 unfolding past by (simp add: find_block_loop.simps [of 0] aret_def)
next
  case (Suc n)
  show ?case
  proof (cases "first + 1 < past")
    case False
    then have past: "past = first + 1" using Suc.prems(2) by simp
    show ?thesis using Suc.prems unfolding past by (simp add: find_block_loop.simps [of "Suc n"] aret_def)
  next
    case True
    let ?mid = "interpolate first past (T first) (T past) t"
    have mono: "T 1 \<le> T first" "T past \<le> T N"
      using times(2) [of 1 first] times(2) [of past N] Suc.prems by (auto simp: le_less)
    have lt: "T past < 2 ^ 32" using mono(2) times(3) by simp
    have "sub32 (T past) (T first) * past \<le> (T N - T 1) * N"
      using Suc.prems mono lt by (intro mult_le_mono) (auto simp: sub32_diff)
    then have "first < ?mid \<and> ?mid < past"
      using Suc.prems lt times(5) by (intro interpolate_between [OF _ True]) (auto simp: sub32_diff)
    then have mid: "first < ?mid" "?mid < past" by simp_all
    obtain h where h: "stored_header s ?mid = Some h" "bh_timestamp h = T ?mid"
      using times(1,4) mid Suc.prems unfolding chain_times_def by (metis le_trans less_imp_le_nat)
    show ?thesis
    proof (cases "T ?mid > t")
      case gt: True
      then show ?thesis using Suc.IH [of first ?mid] Suc.prems mid True h
        by (simp add: find_block_loop.simps [of "Suc n"] Let_def abind_def get_block_header_at_eq [OF h(1)])
    next
      case le: False
      then show ?thesis using Suc.IH [of ?mid past] Suc.prems mid True h
        by (simp add: find_block_loop.simps [of "Suc n"] Let_def abind_def get_block_header_at_eq [OF h(1)])
    qed
  qed
qed

text \<open>
  C25: On a chain of blocks with increasing times \<open>find_block_num\<close> returns, without changing the
  node, the number of the last block that is not after the given time, or the first block if all
  are. The hypothesis on the number of blocks times the seconds between the first and the
  last (at one block in ten seconds, some twenty million blocks) is what the precision of \<open>double\<close>
  allows: it keeps the search moving.
\<close>

theorem find_block_num_finds:
  assumes "chain_times s T" "N = bh_block_num (head_block_header s)" "1 \<le> N" "T N < 2 ^ 32"
    "\<And>i j. 1 \<le> i \<Longrightarrow> i < j \<Longrightarrow> j \<le> N \<Longrightarrow> T i < T j" "(T N - T 1) * N \<le> 2 ^ 53"
  shows "\<exists>r. find_block_num t s = (Returns r, s) \<and> 1 \<le> r \<and> r \<le> N \<and>
    (T 1 \<le> t \<longrightarrow> T r \<le> t) \<and> (t < T 1 \<longrightarrow> r = 1) \<and> (\<forall>i. r < i \<and> i \<le> N \<longrightarrow> t < T i)"
proof -
  have later: "t < T i" if "t < T (r + 1)" "r < i" "i \<le> N" for r i
    using that assms(5) [of "r + 1" i] by (cases "i = r + 1") auto
  obtain h where h: "stored_header s 1 = Some h" "bh_timestamp h = T 1"
    using assms(1-3) unfolding chain_times_def by auto
  obtain h' where h': "stored_header s N = Some h'" "bh_timestamp h' = T N"
    using assms(1-3) unfolding chain_times_def by auto
  have run: "find_block_num t s = (if T 1 \<ge> t then (Returns 1, s) else if T N \<le> t then (Returns N, s)
    else find_block_loop N t 1 N (T 1) (T N) s)"
    using get_block_header_at_eq [OF h(1)] get_block_header_at_eq [OF h'(1)] h(2) h'(2) assms(2)
    by (simp add: find_block_num_def node_head_block_num_def abind_def aget_def aret_def)
  consider "t \<le> T 1" | "T 1 < t" "T N \<le> t" | "T 1 < t" "t < T N" by linarith
  then show ?thesis
  proof cases
    case 1
    then have "t < T i" if "1 < i" "i \<le> N" for i using assms(5) [of 1 i] that by simp
    then show ?thesis using 1 run assms(3) by (intro exI [of _ 1]) auto
  next
    case 2
    then show ?thesis using run assms(3) by (intro exI [of _ N]) auto
  next
    case 3
    then have "1 < N" using assms(3) by (cases "N = 1") auto
    then obtain r where r: "find_block_loop N t 1 N (T 1) (T N) s = (Returns r, s)" "1 \<le> r" "r < N" "T r \<le> t" "t < T (r + 1)"
      using find_block_loop_finds [OF assms(1,5,4,2,6), of 1 N t N] 3 by auto
    have "find_block_num t s = (Returns r, s)" using run 3 r(1) by simp
    then show ?thesis
      using r 3(1) later [OF r(5)] by (intro exI [of _ r]) auto
  qed
qed

section \<open>Instances\<close>

text \<open>A chain of \<open>N\<close> blocks, one in ten seconds; the id of block \<open>i\<close> is \<open>i\<close> modulo \<open>10 ^ 9\<close>.\<close>

definition linear_time :: "nat \<Rightarrow> time" where
  "linear_time i = 1000 + 10 * i"

definition linear_block :: "block_id \<Rightarrow> FullBlock" where
  "linear_block k =
     (sample_block (k mod 10 ^ 9) (k - 1) (k div 10 ^ 9) [])\<lparr>bh_timestamp := linear_time (k mod 10 ^ 9)\<rparr>"

definition linear_node :: "(nat \<Rightarrow> block_id) \<Rightarrow> nat \<Rightarrow> node" where
  "linear_node ids N = sample_node\<lparr>
     fork_db := map (\<lambda>i. (ids i, new_BlockForkData\<lparr>is_included := True\<rparr>)) [1..<N + 1],
     block_id_to_full_block := (\<lambda>k. Some (linear_block k)),
     block_num_to_id_db := (\<lambda>i. if 1 \<le> i \<and> i \<le> N then Some (ids i) else None),
     head_block_header := (block_header (linear_block (ids N)))\<lparr>bh_block_num := N\<rparr>\<rparr>"

lemma linear_node_head: "bh_block_num (head_block_header (linear_node ids N)) = N"
  by (simp add: linear_node_def linear_block_def sample_block_def block_header_def FullBlock.defs
    DigestBlock.defs SignedBlockHeader.defs)

lemma linear_node_times:
  assumes "\<And>i. 1 \<le> i \<Longrightarrow> i \<le> N \<Longrightarrow> ids i mod 10 ^ 9 = i"
  shows "chain_times (linear_node ids N) linear_time"
  unfolding chain_times_def linear_node_head
  using assms by (auto simp: stored_header_def linear_node_def linear_block_def block_header_def sample_block_def
    FullBlock.defs DigestBlock.defs SignedBlockHeader.defs)

theorem find_block_num_finds_witness:
  "\<exists>r. find_block_num 1034 (linear_node (\<lambda>i. i) 4) = (Returns r, linear_node (\<lambda>i. i) 4) \<and> linear_time r \<le> 1034 \<and>
    (\<forall>i. r < i \<and> i \<le> 4 \<longrightarrow> 1034 < linear_time i)"
proof -
  have "chain_times (linear_node (\<lambda>i. i) 4) linear_time" by (rule linear_node_times) simp
  from find_block_num_finds [OF this linear_node_head [symmetric], of 1034]
  show ?thesis by (auto simp: linear_time_def)
qed

end
