(* ===== verification/Chain_Sync.thy ===== *)
theory Chain_Sync
  imports Chain_Queries "HOL-Library.Log_Nat"
begin

text \<open>
  How two nodes find out which blocks one of them misses: \<open>get_blockchain_synopsis\<close> and
  \<open>get_item_ids\<close> of \<open>client/Client.cpp\<close>, which the network layer calls. The asserts of the code
  are left out; a read beyond the end of a vector is the result \<open>None\<close>.
\<close>

abbreviation unspecified_exception :: chain_error where "unspecified_exception \<equiv> exn 0"

definition block_message_type :: nat where "block_message_type = 1001"

definition ALP_BLOCKCHAIN_BLOCKS_PER_YEAR :: nat where
  "ALP_BLOCKCHAIN_BLOCKS_PER_YEAR = ALP_BLOCKCHAIN_BLOCKS_PER_DAY * 365"

text \<open>\<open>(unsigned)(log2(x))\<close> is one less than the number of bits of \<open>x\<close>.\<close>

definition blockchain_synopsis_size_limit :: nat where
  "blockchain_synopsis_size_limit = floorlog 2 (ALP_BLOCKCHAIN_BLOCKS_PER_YEAR * 20) - 1"

section \<open>get\_item\_ids\<close>

text \<open>A \<open>catch\<close> of \<open>key_not_found_exception\<close> only.\<close>

definition catch_not_found :: "'a node_act \<Rightarrow> 'a node_act \<Rightarrow> 'a node_act" where
  "catch_not_found m h = acatch m (\<lambda>e. if e = key_not_found_exception then h else athrow e)"

text \<open>The number of the last block of the synopsis that is on the chain of the node.\<close>

fun find_last_seen :: "block_id list \<Rightarrow> nat node_act" where
  "find_last_seen [] = aret 1"
| "find_last_seen (item_hash # rest) =
     abind (catch_not_found
       (abind (get_block_num item_hash) (\<lambda>block_num.
        abind (aget (is_included_block item_hash)) (\<lambda>included. aret (if included then Some block_num else None))))
       (aret None)) (\<lambda>seen.
     case seen of Some block_num \<Rightarrow> aret block_num | None \<Rightarrow> find_last_seen rest)"

fun collect_ids :: "nat \<Rightarrow> nat \<Rightarrow> block_id list \<Rightarrow> (block_id list option) node_act" where
  "collect_ids 0 block_num hashes = aret (Some hashes)"
| "collect_ids (Suc i) block_num hashes =
     abind (catch_not_found (abind (get_block_id block_num) (\<lambda>k. aret (Some k))) (aret None)) (\<lambda>found.
     case found of
       None \<Rightarrow> aret None
     | Some k \<Rightarrow> collect_ids i (block_num + 1) (hashes @ [k]))"

text \<open>The ids and the number of items that remain.\<close>

definition get_item_ids :: "nat \<Rightarrow> block_id list \<Rightarrow> nat \<Rightarrow> (block_id list \<times> nat) node_act" where
  "get_item_ids item_type synopsis limit =
     (if item_type \<noteq> block_message_type then athrow assert_exception
      else if length synopsis > blockchain_synopsis_size_limit then athrow unspecified_exception
      else
        abind (find_last_seen (rev synopsis)) (\<lambda>seen.
        abind node_head_block_num (\<lambda>head_block_num.
        if head_block_num = 0 then aret ([], 0)
        else
          let last_seen = (if seen > head_block_num then head_block_num else seen);
              remaining = head_block_num - last_seen + 1;
              items = min limit remaining
          in abind (collect_ids items last_seen []) (\<lambda>hashes.
             case hashes of
               None \<Rightarrow> aret ([], 0)
             | Some hs \<Rightarrow> aret (hs, remaining - items)))))"

section \<open>get\_blockchain\_synopsis\<close>

text \<open>
  The number of the reference block, of the last block of its history on the chain of the node,
  and the blocks between them; \<open>None\<close> if the reference block is not known.
\<close>

definition reference_range :: "block_id \<Rightarrow> ((nat \<times> nat \<times> block_id list) option) node_act" where
  "reference_range reference_point =
     catch_not_found
       (abind (aget (is_included_block reference_point)) (\<lambda>included.
        if included then
          abind (get_block_num reference_point) (\<lambda>num. aret (Some (num, num, [])))
        else
          abind (get_fork_history reference_point) (\<lambda>history.
          let last_non_fork_block = last history; fork_history = rev (butlast history) in
          abind (if last_non_fork_block = 0 then aret 0
                 else catch_not_found (get_block_num last_non_fork_block) (aret 0)) (\<lambda>non_fork.
            aret (Some ((non_fork + length fork_history) mod 2 ^ 32, non_fork, fork_history))))))
       (aret None)"

definition synopsis_id :: "block_lib \<Rightarrow> nat \<Rightarrow> block_id list \<Rightarrow> nat \<Rightarrow> (block_id option) node_act" where
  "synopsis_id B non_fork fork_history low =
     (if low \<le> non_fork then abind (get_block_at low) (\<lambda>b. aret (Some (header_id B (block_header b))))
      else
        let i = low - non_fork - 1 in
        aret (if i < length fork_history then Some (fork_history ! i) else None))"

fun synopsis_loop :: "block_lib \<Rightarrow> nat \<Rightarrow> nat \<Rightarrow> block_id list \<Rightarrow> nat \<Rightarrow> nat \<Rightarrow> nat \<Rightarrow> block_id list \<Rightarrow>
    (block_id list option) node_act" where
  "synopsis_loop B 0 non_fork fork_history high true_high low synopsis = (\<lambda>s. (Diverges, s))"
| "synopsis_loop B (Suc n) non_fork fork_history high true_high low synopsis =
     abind (synopsis_id B non_fork fork_history low) (\<lambda>k.
     case k of
       None \<Rightarrow> aret None
     | Some k' \<Rightarrow>
         let low' = (low + (sub32 true_high low + 2) mod 2 ^ 32 div 2) mod 2 ^ 32 in
         if low' \<le> high then synopsis_loop B n non_fork fork_history high true_high low' (synopsis @ [k'])
         else aret (Some (synopsis @ [k'])))"

definition get_blockchain_synopsis ::
  "block_lib \<Rightarrow> nat \<Rightarrow> block_id \<Rightarrow> nat \<Rightarrow> (block_id list option) node_act" where
  "get_blockchain_synopsis B item_type reference_point blocks_after =
     (if item_type \<noteq> block_message_type then athrow assert_exception
      else
        abind (if reference_point \<noteq> 0 then reference_range reference_point
               else
                 abind node_head_block_num (\<lambda>high.
                   aret (if high = 0 then None else Some (high, high, [])))) (\<lambda>range.
        case range of
          None \<Rightarrow> aret (Some [])
        | Some (high, non_fork, fork_history) \<Rightarrow>
            synopsis_loop B (high + 2) non_fork fork_history high ((high + blocks_after) mod 2 ^ 32) 1 []))"

section \<open>The blocks of a synopsis\<close>

text \<open>A number and its halves, down to one: how far the blocks of a synopsis are from the top.\<close>

fun halves :: "nat \<Rightarrow> nat list" where
  "halves x = (if x = 0 then [] else x # halves (x div 2))"

declare halves.simps [simp del]

definition synopsis_nums :: "nat \<Rightarrow> nat \<Rightarrow> nat list" where
  "synopsis_nums H x = map (\<lambda>y. H + 1 - y) (halves x)"

lemma synopsis_limit_25: "blockchain_synopsis_size_limit = 25"
  by (simp add: blockchain_synopsis_size_limit_def ALP_BLOCKCHAIN_BLOCKS_PER_YEAR_def ALP_BLOCKCHAIN_BLOCKS_PER_DAY_def
    ALP_BLOCKCHAIN_BLOCKS_PER_HOUR_def ALP_BLOCKCHAIN_BLOCK_INTERVAL_SEC_def compute_floorlog)

lemma length_halves: "length (halves x) = floorlog 2 x"
proof (induction x rule: halves.induct)
  case (1 x)
  then show ?case by (simp add: halves.simps [of x] compute_floorlog [of 2 x])
qed

lemma halves_zero [simp]: "halves 0 = []"
  by (simp add: halves.simps)

lemma halves_half: "Suc i < length (halves x) \<Longrightarrow> halves x ! Suc i = halves x ! i div 2"
proof (induction x arbitrary: i rule: halves.induct)
  case (1 x)
  then show ?case
    by (cases i; cases "x = 0"; cases "x div 2 = 0") (auto simp: halves.simps [of x] halves.simps [of "x div 2"])
qed

lemma halves_le: "y \<in> set (halves x) \<Longrightarrow> y \<le> x"
proof (induction x rule: halves.induct)
  case (1 x)
  then show ?case by (cases "x = 0") (auto simp: halves.simps [of x])
qed

lemma length_synopsis_nums: "length (synopsis_nums H x) = length (halves x)"
  by (simp add: synopsis_nums_def)

lemma synopsis_nums_step: "0 < x \<Longrightarrow> synopsis_nums H x = (H + 1 - x) # synopsis_nums H (x div 2)"
  by (simp add: synopsis_nums_def halves.simps [of x])

lemma synopsis_nums_zero [simp]: "synopsis_nums H 0 = []"
  by (simp add: synopsis_nums_def halves.simps)

lemma synopsis_nums_range: "x \<le> H \<Longrightarrow> set (synopsis_nums H x) \<subseteq> {H + 1 - x..H}"
proof (induction x rule: halves.induct)
  case (1 x)
  show ?case
  proof (cases "x = 0")
    case False
    have "x div 2 \<le> H" using 1(2) div_le_dividend [of x 2] by linarith
    with 1(1) False have "set (synopsis_nums H (x div 2)) \<subseteq> {H + 1 - x div 2..H}" by simp
    moreover have "H + 1 - x \<le> H + 1 - x div 2" by (simp add: diff_le_mono2)
    ultimately show ?thesis using False 1(2) by (fastforce simp: synopsis_nums_step)
  qed simp
qed

lemma synopsis_nums_last: "0 < x \<Longrightarrow> last (synopsis_nums H x) = H"
proof (induction x rule: halves.induct)
  case (1 x)
  show ?case
  proof (cases "x div 2 = 0")
    case True
    then have "x = 1" using 1(2) by linarith
    then show ?thesis by (simp add: synopsis_nums_step)
  next
    case False
    then have "last (synopsis_nums H (x div 2)) = H" using 1 by simp
    moreover have "synopsis_nums H (x div 2) \<noteq> []" using False by (simp add: synopsis_nums_step)
    ultimately show ?thesis using 1(2) by (simp add: synopsis_nums_step [of x])
  qed
qed

lemma find_append: "find P (xs @ ys) = (case find P xs of None \<Rightarrow> find P ys | r \<Rightarrow> r)"
  by (induction xs) auto

text \<open>The last block of the synopsis that is not after a block is at most as far before it as the top is after it.\<close>

lemma synopsis_nums_near:
  assumes "x \<le> H" "H + 1 - x \<le> C" "C \<le> H"
  shows "\<exists>m. find (\<lambda>y. y \<le> C) (rev (synopsis_nums H x)) = Some m \<and> m \<in> set (synopsis_nums H x) \<and> m \<le> C \<and> C - m \<le> H - C"
  using assms
proof (induction x rule: halves.induct)
  case (1 x)
  then have x: "0 < x" by (cases x) simp_all
  have le: "x div 2 \<le> H" using 1(2) div_le_dividend [of x 2] by linarith
  show ?case
  proof (cases "H + 1 - x div 2 \<le> C")
    case True
    from 1(1) [OF _ le True 1(4)] x obtain m where
      "find (\<lambda>y. y \<le> C) (rev (synopsis_nums H (x div 2))) = Some m" "m \<in> set (synopsis_nums H (x div 2))" "m \<le> C" "C - m \<le> H - C"
      by auto
    then show ?thesis using x by (simp add: synopsis_nums_step [OF x] find_append)
  next
    case False
    then have "find (\<lambda>y. y \<le> C) (rev (synopsis_nums H (x div 2))) = None"
      using synopsis_nums_range [OF le] by (fastforce simp: find_None_iff)
    moreover have "C - (H + 1 - x) \<le> H - C" using False 1(2-4) by linarith
    ultimately show ?thesis using 1(3) by (simp add: synopsis_nums_step [OF x] find_append)
  qed
qed

text \<open>One iteration of the loop goes from a distance to its half.\<close>

lemma synopsis_step:
  assumes "0 < x" "x \<le> H" "H < 2 ^ 32 - 1"
  shows "(H + 1 - x + (sub32 H (H + 1 - x) + 2) mod 2 ^ 32 div 2) mod 2 ^ 32 = H + 1 - x div 2"
proof -
  have "sub32 H (H + 1 - x) = x - 1" using assms by (subst sub32_diff) auto
  then have "(sub32 H (H + 1 - x) + 2) mod 2 ^ 32 = x + 1" using assms by simp
  moreover have "H + 1 - x + (x + 1) div 2 = H + 1 - x div 2" using assms(2) by linarith
  moreover have "H + 1 - x div 2 < 2 ^ 32" using assms(3) by linarith
  ultimately show ?thesis by (simp only: mod_less)
qed

lemma synopsis_loop_eq:
  assumes "high \<le> H" "H < 2 ^ 32 - 1" "\<And>j. 1 \<le> j \<Longrightarrow> j \<le> high \<Longrightarrow> synopsis_id B non_fork fh j s = (Returns (Some (f j)), s)"
    and "0 < x" "x \<le> H" "H - high < x" "x \<le> n"
  shows "synopsis_loop B n non_fork fh high H (H + 1 - x) acc s =
    (Returns (Some (acc @ map f (filter (\<lambda>j. j \<le> high) (synopsis_nums H x)))), s)"
  using assms(4-7)
proof (induction n arbitrary: x acc)
  case (Suc n)
  have le: "x div 2 \<le> H" using Suc.prems(2) div_le_dividend [of x 2] by linarith
  have low: "1 \<le> H + 1 - x" "H + 1 - x \<le> high" using Suc.prems assms(1) by linarith+
  have run: "synopsis_loop B (Suc n) non_fork fh high H (H + 1 - x) acc s =
    (if H + 1 - x div 2 \<le> high then synopsis_loop B n non_fork fh high H (H + 1 - x div 2) (acc @ [f (H + 1 - x)]) s
     else (Returns (Some (acc @ [f (H + 1 - x)])), s))"
    using assms(3) [OF low] synopsis_step [OF Suc.prems(1,2) assms(2)]
    by (simp add: abind_def aret_def Let_def del: One_nat_def)
  show ?case
  proof (cases "H + 1 - x div 2 \<le> high")
    case True
    then have "0 < x div 2" "H - high < x div 2" using assms(1) le by linarith+
    from Suc.IH [OF this(1) le this(2), of "acc @ [f (H + 1 - x)]"] show ?thesis
      unfolding run using True low Suc.prems by (simp add: synopsis_nums_step)
  next
    case False
    then have "filter (\<lambda>j. j \<le> high) (synopsis_nums H (x div 2)) = []"
      using synopsis_nums_range [OF le] by (fastforce simp: filter_empty_conv)
    then show ?thesis unfolding run using False low Suc.prems by (simp add: synopsis_nums_step)
  qed
qed simp

section \<open>The chain of a node\<close>

text \<open>The blocks \<open>1, \<dots>, N\<close> of the chain of the node and their ids.\<close>

definition chain_ids :: "block_lib \<Rightarrow> node \<Rightarrow> nat \<Rightarrow> (nat \<Rightarrow> block_id) \<Rightarrow> bool" where
  "chain_ids B s N ids \<longleftrightarrow> bh_block_num (head_block_header s) = N \<and>
     (\<forall>i. 1 \<le> i \<and> i \<le> N \<longrightarrow> ids i \<noteq> 0 \<and> block_num_to_id_db s i = Some (ids i) \<and>
        (\<exists>b. block_id_to_full_block s (ids i) = Some b \<and> bh_block_num b = i \<and> header_id B (block_header b) = ids i))"

lemma chain_ids_get:
  assumes "chain_ids B s N ids" "1 \<le> i" "i \<le> N"
  shows "get_block_id i s = (Returns (ids i), s)"
    "synopsis_id B N fh i s = (Returns (Some (ids i)), s)" "get_block_num (ids i) s = (Returns i, s)"
proof -
  obtain b where b: "ids i \<noteq> 0" "block_num_to_id_db s i = Some (ids i)" "block_id_to_full_block s (ids i) = Some b"
    "bh_block_num b = i" "header_id B (block_header b) = ids i"
    using assms unfolding chain_ids_def by blast
  then show "get_block_id i s = (Returns (ids i), s)" "synopsis_id B N fh i s = (Returns (Some (ids i)), s)"
    "get_block_num (ids i) s = (Returns i, s)"
    using assms(3)
    by (simp_all add: get_block_id_def aread_def synopsis_id_def get_block_at_def get_block_def block_fetch_def
      abind_def aret_def get_block_num_def)
qed

lemma synopsis_of_chain:
  assumes "chain_ids B s N ids" "1 \<le> N" "N < 2 ^ 32 - 1"
  shows "get_blockchain_synopsis B block_message_type 0 0 s =
    (Returns (Some (map ids (synopsis_nums N N))), s)"
proof -
  have N: "bh_block_num (head_block_header s) = N" using assms(1) by (simp add: chain_ids_def)
  have all: "filter (\<lambda>j. j \<le> N) (synopsis_nums N N) = synopsis_nums N N"
    using synopsis_nums_range [of N N] by (auto simp: filter_id_conv)
  have "synopsis_loop B (N + 2) N [] N N (N + 1 - N) [] s =
    (Returns (Some ([] @ map ids (filter (\<lambda>j. j \<le> N) (synopsis_nums N N)))), s)"
    by (rule synopsis_loop_eq) (use assms chain_ids_get(2) [OF assms(1)] in auto)
  then have "synopsis_loop B (N + 2) N [] N N 1 [] s = (Returns (Some (map ids (synopsis_nums N N))), s)"
    by (simp add: all)
  then show ?thesis using assms(2,3) N
    by (simp add: get_blockchain_synopsis_def node_head_block_num_def abind_def aget_def aret_def del: synopsis_loop.simps)
qed

text \<open>
  The synopsis of a chain of \<open>N\<close> blocks is the list of the ids of as many blocks as \<open>N\<close> has
  binary digits, from the first block to the head, at distances from the top that halve.
\<close>

theorem synopsis_halves_distances:
  assumes "chain_ids B s N ids" "1 \<le> N" "N < 2 ^ 32 - 1"
  shows "\<exists>nums. get_blockchain_synopsis B block_message_type 0 0 s = (Returns (Some (map ids nums)), s) \<and>
    length nums = floorlog 2 N \<and> hd nums = 1 \<and> last nums = N \<and>
    (\<forall>i. Suc i < length nums \<longrightarrow> N + 1 - nums ! Suc i = (N + 1 - nums ! i) div 2)"
proof -
  have "N + 1 - synopsis_nums N N ! i = halves N ! i" if "i < length (halves N)" for i
    using that halves_le [of "halves N ! i" N] by (simp add: synopsis_nums_def)
  moreover have "hd (synopsis_nums N N) = 1" using assms(2) by (simp add: synopsis_nums_step)
  ultimately show ?thesis
    using synopsis_of_chain [OF assms] assms(2) synopsis_nums_last [of N N] halves_half [of _ N]
    by (intro exI [of _ "synopsis_nums N N"]) (simp add: length_halves [symmetric] length_synopsis_nums)
qed

section \<open>Two nodes\<close>

lemma get_block_num_cases:
  "(\<exists>n. get_block_num k s = (Returns n, s)) \<or> get_block_num k s = (Throws key_not_found_exception, s)"
  by (cases "block_id_to_full_block s k")
    (auto simp: get_block_num_def get_block_def block_fetch_def abind_def aread_def aret_def)

lemma find_last_seen_eq:
  assumes "\<And>y. y \<in> set ys \<Longrightarrow> is_included_block (ids y) s = (y \<le> C)"
    and "\<And>y. y \<in> set ys \<Longrightarrow> y \<le> C \<Longrightarrow> get_block_num (ids y) s = (Returns y, s)"
  shows "find_last_seen (map ids ys) s = (Returns (case find (\<lambda>y. y \<le> C) ys of Some y \<Rightarrow> y | None \<Rightarrow> 1), s)"
  using assms
proof (induction ys)
  case (Cons y ys)
  from Cons have rest: "find_last_seen (map ids ys) s = (Returns (case find (\<lambda>y. y \<le> C) ys of Some y \<Rightarrow> y | None \<Rightarrow> 1), s)"
    and inc: "is_included_block (ids y) s = (y \<le> C)" by simp_all
  show ?case
  proof (cases "y \<le> C")
    case True
    then show ?thesis using Cons.prems(2) [of y] inc
      by (simp add: abind_def aget_def catch_not_found_def acatch_def aret_def)
  next
    case False
    from get_block_num_cases [of "ids y" s] show ?thesis
      using False rest inc by (auto simp: abind_def aget_def catch_not_found_def acatch_def aret_def)
  qed
qed (simp add: aret_def)

lemma collect_ids_eq:
  assumes "chain_ids B s M ids" "1 \<le> n" "n + i \<le> M + 1"
  shows "collect_ids i n acc s = (Returns (Some (acc @ map ids [n..<n + i])), s)"
  using assms(2,3)
proof (induction i arbitrary: n acc)
  case (Suc i)
  have "get_block_id n s = (Returns (ids n), s)" using chain_ids_get(1) [OF assms(1), of n] Suc.prems by simp
  moreover have "[n..<n + Suc i] = n # [n + 1..<(n + 1) + i]" by (simp add: upt_rec [of n])
  ultimately show ?case using Suc.IH [of "n + 1" "acc @ [ids n]"] Suc.prems
    by (simp add: abind_def catch_not_found_def acatch_def aret_def)
qed (simp add: aret_def)

lemma length_synopsis_limit:
  assumes "0 < N"
  shows "length (synopsis_nums N N) > blockchain_synopsis_size_limit \<longleftrightarrow> 2 ^ 25 \<le> N"
proof -
  have "length (synopsis_nums N N) = floorlog 2 N" by (simp add: length_synopsis_nums length_halves)
  moreover have "25 < floorlog 2 N \<longleftrightarrow> 2 ^ 25 \<le> N"
    using floorlog_le_iff [of 2 N 25] by auto
  ultimately show ?thesis by (simp add: synopsis_limit_25)
qed

text \<open>
  C24: A node with \<open>N\<close> blocks sends its synopsis to a node with \<open>M\<close> blocks whose chain is the same
  up to block \<open>C\<close>. The answer is a run of consecutive blocks of the other chain, as many as are
  allowed, together with the number of those that remain; it starts at a block that both have, and
  at most as many blocks before the last common one as the first node has after it.
\<close>

theorem peers_agree_on_missing_blocks:
  assumes "chain_ids B a N idA" "chain_ids B b M idB" "1 \<le> C" "C \<le> N" "C \<le> M" "N < 2 ^ 25"
    and "\<And>i. 1 \<le> i \<Longrightarrow> i \<le> C \<Longrightarrow> idB i = idA i"
    and "\<And>i. 1 \<le> i \<Longrightarrow> i \<le> N \<Longrightarrow> is_included_block (idA i) b = (i \<le> C)"
  shows "\<exists>synopsis m. get_blockchain_synopsis B block_message_type 0 0 a = (Returns (Some synopsis), a) \<and>
    1 \<le> m \<and> m \<le> C \<and> C - m \<le> N - C \<and>
    get_item_ids block_message_type synopsis limit b =
      (Returns (map idB [m..<m + min limit (M - m + 1)], M - m + 1 - min limit (M - m + 1)), b)"
proof -
  let ?ys = "synopsis_nums N N"
  have ys: "1 \<le> y \<and> y \<le> N" if "y \<in> set ?ys" for y using synopsis_nums_range [of N N] that by auto
  obtain m where m: "find (\<lambda>y. y \<le> C) (rev ?ys) = Some m" "m \<in> set ?ys" "m \<le> C" "C - m \<le> N - C"
    using synopsis_nums_near [of N N C] assms(3,4) by auto
  have seen: "find_last_seen (rev (map idA ?ys)) b = (Returns m, b)"
    unfolding rev_map
    by (subst find_last_seen_eq [where C = C])
      (use ys assms(7,8) chain_ids_get(3) [OF assms(2)] m(1) assms(5) in \<open>auto simp flip: assms(7)\<close>)
  have "\<not> length (map idA ?ys) > blockchain_synopsis_size_limit"
    using length_synopsis_limit [of N] assms(3,4,6) by simp
  moreover have "bh_block_num (head_block_header b) = M" using assms(2) by (simp add: chain_ids_def)
  moreover have "collect_ids (min limit (M - m + 1)) m [] b = (Returns (Some (map idB [m..<m + min limit (M - m + 1)])), b)"
    using collect_ids_eq [OF assms(2), of m "min limit (M - m + 1)" "[]"] ys [OF m(2)] m(3) assms(5) by simp
  ultimately have "get_item_ids block_message_type (map idA ?ys) limit b =
      (Returns (map idB [m..<m + min limit (M - m + 1)], M - m + 1 - min limit (M - m + 1)), b)"
    using seen m(3) assms(3,5)
    by (simp add: get_item_ids_def node_head_block_num_def abind_def aget_def aret_def Let_def)
  moreover have "get_blockchain_synopsis B block_message_type 0 0 a = (Returns (Some (map idA ?ys)), a)"
    using synopsis_of_chain [OF assms(1)] assms(3,4,6) by simp
  ultimately show ?thesis using m ys [OF m(2)] by blast
qed

text \<open>
  C38: The synopsis of a chain of \<open>2 ^ 25\<close> blocks or more, which is less than eleven years of blocks,
  is rejected by every node as unreasonably long.
\<close>

theorem long_synopsis_is_rejected:
  assumes "chain_ids B a N idA" "2 ^ 25 \<le> N" "N < 2 ^ 32 - 1"
  shows "\<exists>synopsis. get_blockchain_synopsis B block_message_type 0 0 a = (Returns (Some synopsis), a) \<and>
    get_item_ids block_message_type synopsis limit b = (Throws unspecified_exception, b)"
proof -
  have "0 < N" using assms(2) by (simp add: Suc_le_eq less_le_trans [of 0 "2 ^ 25"])
  then show ?thesis
    using synopsis_of_chain [OF assms(1)] length_synopsis_limit [of N] assms(2,3)
    by (simp add: get_item_ids_def athrow_def)
qed

section \<open>Instances\<close>

text \<open>Ids that tell the branch and the number of a block, and two chains that differ from their third block on.\<close>

definition branch_lib :: block_lib where
  "branch_lib = sample_lib\<lparr>header_hash_id := (\<lambda>h. bh_next_secret_hash h * 10 ^ 9 + bh_block_num h)\<rparr>"

definition branch_ids :: "nat \<Rightarrow> block_id" where
  "branch_ids i = (if i \<le> 2 then i else 10 ^ 9 + i)"

lemma linear_node_ids:
  assumes "\<And>i. 1 \<le> i \<Longrightarrow> i \<le> N \<Longrightarrow> ids i mod 10 ^ 9 = i"
  shows "chain_ids branch_lib (linear_node ids N) N ids"
proof -
  have "ids i \<noteq> 0" if "1 \<le> i" "i \<le> N" for i
  proof
    assume "ids i = 0"
    then show False using assms [OF that] that by simp
  qed
  moreover have "ids i div 10 ^ 9 * 10 ^ 9 + i = ids i" if "1 \<le> i" "i \<le> N" for i
    using assms [OF that] div_mult_mod_eq [of "ids i" "10 ^ 9"] by simp
  ultimately show ?thesis
    using assms unfolding chain_ids_def linear_node_head
    by (auto simp: linear_node_def linear_block_def branch_lib_def header_id_def block_header_def sample_block_def
      FullBlock.defs DigestBlock.defs SignedBlockHeader.defs)
qed

theorem synopsis_halves_distances_witness:
  "\<exists>nums. get_blockchain_synopsis branch_lib block_message_type 0 0 (linear_node (\<lambda>i. i) 5) =
    (Returns (Some nums), linear_node (\<lambda>i. i) 5) \<and> length nums = 3 \<and> hd nums = 1 \<and> last nums = 5"
proof -
  have "chain_ids branch_lib (linear_node (\<lambda>i. i) 5) 5 (\<lambda>i. i)" by (rule linear_node_ids) simp
  from synopsis_halves_distances [OF this] show ?thesis by (auto simp: compute_floorlog)
qed

theorem peers_agree_on_missing_blocks_witness:
  "\<exists>synopsis m. get_blockchain_synopsis branch_lib block_message_type 0 0 (linear_node (\<lambda>i. i) 3) =
      (Returns (Some synopsis), linear_node (\<lambda>i. i) 3) \<and>
    1 \<le> m \<and> m \<le> 2 \<and> get_item_ids block_message_type synopsis 100 (linear_node branch_ids 4) =
      (Returns (map branch_ids [m..<5], 0), linear_node branch_ids 4)"
proof -
  have a: "chain_ids branch_lib (linear_node (\<lambda>i. i) 3) 3 (\<lambda>i. i)" by (rule linear_node_ids) simp
  have b: "chain_ids branch_lib (linear_node branch_ids 4) 4 branch_ids"
    by (rule linear_node_ids) (simp add: branch_ids_def)
  have inc: "is_included_block i (linear_node branch_ids 4) = (i \<le> 2)"
    if "1 \<le> i" "i \<le> 3" for i
  proof -
    have "i = 1 \<or> i = 2 \<or> i = 3" using that by linarith
    then show ?thesis
      by (auto simp: is_included_block_def aget_def linear_node_def branch_ids_def upt_rec)
  qed
  have "\<exists>synopsis m. get_blockchain_synopsis branch_lib block_message_type 0 0 (linear_node (\<lambda>i. i) 3) =
      (Returns (Some synopsis), linear_node (\<lambda>i. i) 3) \<and> 1 \<le> m \<and> m \<le> 2 \<and> 2 - m \<le> 3 - 2 \<and>
    get_item_ids block_message_type synopsis 100 (linear_node branch_ids 4) =
      (Returns (map branch_ids [m..<m + min 100 (4 - m + 1)], 4 - m + 1 - min 100 (4 - m + 1)), linear_node branch_ids 4)"
    by (rule peers_agree_on_missing_blocks [OF a b]) (use inc in \<open>auto simp: branch_ids_def\<close>)
  then obtain synopsis m where "get_blockchain_synopsis branch_lib block_message_type 0 0 (linear_node (\<lambda>i. i) 3) =
      (Returns (Some synopsis), linear_node (\<lambda>i. i) 3)" and m: "1 \<le> m" "m \<le> 2"
    and "get_item_ids block_message_type synopsis 100 (linear_node branch_ids 4) =
      (Returns (map branch_ids [m..<m + min 100 (4 - m + 1)], 4 - m + 1 - min 100 (4 - m + 1)), linear_node branch_ids 4)"
    by blast
  moreover have "m + min 100 (4 - m + 1) = 5" "4 - m + 1 - min 100 (4 - m + 1) = 0" using m by simp_all
  ultimately show ?thesis by auto
qed

theorem long_synopsis_is_rejected_witness:
  "\<exists>synopsis. get_blockchain_synopsis branch_lib block_message_type 0 0 (linear_node (\<lambda>i. i) (2 ^ 25)) =
      (Returns (Some synopsis), linear_node (\<lambda>i. i) (2 ^ 25)) \<and>
    get_item_ids block_message_type synopsis 2000 sample_node = (Throws unspecified_exception, sample_node)"
proof -
  have "chain_ids branch_lib (linear_node (\<lambda>i. i) (2 ^ 25)) (2 ^ 25) (\<lambda>i. i)"
    by (rule linear_node_ids) simp
  from long_synopsis_is_rejected [OF this] show ?thesis by simp
qed

end
