(* ===== verification/Addresses.thy ===== *)
theory Addresses
  imports Chain_Base
begin

text \<open>
  Addresses and keys as text: \<open>Address.cpp\<close>, \<open>PtsAddress.cpp\<close>, the strings of \<open>PublicKeyType\<close>
  in \<open>Types.cpp\<close> and the wallet import format of \<open>utilities/KeyConversion.cpp\<close>. Base 58, the hash
  functions and the check of a secret key are functions of other libraries.
\<close>

abbreviation parse_error_exception :: chain_error where "parse_error_exception \<equiv> exn 4"
abbreviation invalid_address :: chain_error where "invalid_address \<equiv> exn 30028"

type_synonym bytes = "8 word list"

record key_lib =
  to_base58 :: "bytes \<Rightarrow> string"
  from_base58 :: "string \<Rightarrow> bytes result"
  ripemd160 :: "bytes \<Rightarrow> bytes"
  sha256 :: "bytes \<Rightarrow> bytes"
  sha512 :: "bytes \<Rightarrow> bytes"
  key_of_bytes :: "bytes \<Rightarrow> bytes result"

text \<open>What is decoded is what was encoded; hashes have their lengths; 32 bytes are a secret key.\<close>

definition key_lib_ok :: "key_lib \<Rightarrow> bool" where
  "key_lib_ok K \<longleftrightarrow>
     (\<forall>v. v \<noteq> [] \<longrightarrow> to_base58 K v \<noteq> []) \<and> (\<forall>v. from_base58 K (to_base58 K v) = Inr v) \<and>
     (\<forall>v. length (ripemd160 K v) = 20) \<and> (\<forall>v. length (sha256 K v) = 32) \<and>
     (\<forall>v. length v = 32 \<longrightarrow> key_of_bytes K v = Inr v)"

section \<open>Address\<close>

datatype AddressType = alp_address | contract_address | script_id

definition ALP_ADDRESS_PREFIX :: string where "ALP_ADDRESS_PREFIX = ''ACT''"
definition CONTRACT_ADDRESS_PREFIX :: string where "CONTRACT_ADDRESS_PREFIX = ''CON''"
definition SCRIPT_ID_PREFIX :: string where "SCRIPT_ID_PREFIX = ''SCR''"

fun address_prefix :: "AddressType \<Rightarrow> string" where
  "address_prefix alp_address = ALP_ADDRESS_PREFIX"
| "address_prefix contract_address = CONTRACT_ADDRESS_PREFIX"
| "address_prefix script_id = SCRIPT_ID_PREFIX"

definition Address_is_valid :: "key_lib \<Rightarrow> string \<Rightarrow> string \<Rightarrow> bool result" where
  "Address_is_valid K base58str prefix =
     (if length base58str \<le> length prefix then Inr False
      else if take (length prefix) base58str \<noteq> prefix then Inr False
      else
        case from_base58 K (drop (length prefix) base58str) of
          Inl e \<Rightarrow> if e = parse_error_exception then Inr False else Inl e
        | Inr v \<Rightarrow>
            Inr (length v = 20 + 4 \<and> take 4 (drop 20 v) = take 4 (ripemd160 K (take (length v - 4) v))))"

definition Address_of_string :: "key_lib \<Rightarrow> string \<Rightarrow> AddressType \<Rightarrow> bytes result" where
  "Address_of_string K base58str address_type =
     (let prefix = address_prefix address_type in
      ebind (Address_is_valid K base58str prefix) (\<lambda>valid.
      ebind (ensure valid invalid_address) (\<lambda>_.
      ebind (from_base58 K (drop (length prefix) base58str)) (\<lambda>v.
        Inr (take (min (length v - 4) 20) v)))))"

definition AddressToString :: "key_lib \<Rightarrow> bytes \<Rightarrow> AddressType \<Rightarrow> string" where
  "AddressToString K a address_type =
     address_prefix address_type @ to_base58 K (a @ take 4 (ripemd160 K a))"

definition Address_of_public_key_data :: "key_lib \<Rightarrow> bytes \<Rightarrow> bytes" where
  "Address_of_public_key_data K pub = ripemd160 K (sha512 K pub)"

definition Address_of_PtsAddress :: "key_lib \<Rightarrow> bytes \<Rightarrow> bytes" where
  "Address_of_PtsAddress K ptsaddr = ripemd160 K ptsaddr"

section \<open>PtsAddress\<close>

text \<open>The 25 bytes of the address; \<open>memory\<close> is what was in their place before.\<close>

definition PtsAddress_is_valid :: "key_lib \<Rightarrow> bytes \<Rightarrow> bool" where
  "PtsAddress_is_valid K a \<longleftrightarrow> take 4 (drop 21 a) = take 4 (sha256 K (sha256 K (take 21 a)))"

definition PtsAddress_of_string :: "key_lib \<Rightarrow> bytes \<Rightarrow> string \<Rightarrow> bytes result" where
  "PtsAddress_of_string K memory base58str =
     ebind (from_base58 K base58str) (\<lambda>v.
     let n = min (length v) 25; a = (if v = [] then memory else take n v @ drop n memory) in
     ebind (ensure (PtsAddress_is_valid K a) invalid_pts_address) (\<lambda>_. Inr a))"

definition PtsAddress_of_key :: "key_lib \<Rightarrow> bytes \<Rightarrow> 8 word \<Rightarrow> bytes" where
  "PtsAddress_of_key K dat version =
     (let body = version # ripemd160 K (sha256 K dat) in body @ take 4 (sha256 K (sha256 K body)))"

definition PtsAddress_to_string :: "key_lib \<Rightarrow> bytes \<Rightarrow> string" where
  "PtsAddress_to_string K a = to_base58 K a"

section \<open>PublicKeyType\<close>

text \<open>
  \<open>BinaryKey\<close> packed: the 33 bytes of the key and the 4 bytes of the check. \<open>unpack\<close> needs as many
  bytes and does not look at more.
\<close>

definition unpack_BinaryKey :: "bytes \<Rightarrow> (bytes \<times> bytes) result" where
  "unpack_BinaryKey bin =
     (if length bin < 37 then Inl out_of_range_exception else Inr (take 33 bin, take 4 (drop 33 bin)))"

definition decode_key :: "key_lib \<Rightarrow> string \<Rightarrow> string \<Rightarrow> bytes result" where
  "decode_key K prefix base58str =
     ebind (ensure (length base58str > length prefix) assert_exception) (\<lambda>_.
     ebind (ensure (take (length prefix) base58str = prefix) assert_exception) (\<lambda>_.
     ebind (from_base58 K (drop (length prefix) base58str)) (\<lambda>bin.
     ebind (unpack_BinaryKey bin) (\<lambda>(data, check).
     ebind (ensure (take 4 (ripemd160 K data) = check) assert_exception) (\<lambda>_. Inr data)))))"

definition is_valid_v1 :: "key_lib \<Rightarrow> string \<Rightarrow> bool result" where
  "is_valid_v1 K base58str = ebind (decode_key K ''ALP'' base58str) (\<lambda>_. Inr True)"

definition PublicKeyType_of_string :: "key_lib \<Rightarrow> string \<Rightarrow> bytes result" where
  "PublicKeyType_of_string K base58str =
     (let prefix = (case is_valid_v1 K base58str of Inr True \<Rightarrow> ''ALP'' | _ \<Rightarrow> ALP_ADDRESS_PREFIX)
      in decode_key K prefix base58str)"

definition PublicKeyType_to_string :: "key_lib \<Rightarrow> bytes \<Rightarrow> string" where
  "PublicKeyType_to_string K key_data =
     ALP_ADDRESS_PREFIX @ to_base58 K (key_data @ take 4 (ripemd160 K key_data))"

section \<open>The wallet import format\<close>

definition key_to_wif :: "key_lib \<Rightarrow> bytes \<Rightarrow> string" where
  "key_to_wif K secret =
     (let data = 0x80 # secret; digest = sha256 K data; digest' = sha256 K digest
      in to_base58 K (data @ take 4 digest'))"

definition key_to_wif_single_hash :: "key_lib \<Rightarrow> bytes \<Rightarrow> string" where
  "key_to_wif_single_hash K secret =
     (let data = 0x80 # secret; digest = sha256 K data; digest' = sha256 K digest
      in to_base58 K (data @ take 4 digest'))"

definition wif_to_key :: "key_lib \<Rightarrow> string \<Rightarrow> bytes option result" where
  "wif_to_key K wif_key =
     ebind (from_base58 K wif_key) (\<lambda>wif_bytes.
     let n = length wif_bytes in
     if n < 5 then Inr None
     else
       ebind (key_of_bytes K (take (n - 5) (drop 1 wif_bytes))) (\<lambda>key.
       let check = sha256 K (take (n - 4) wif_bytes); check2 = sha256 K check; sum = drop (n - 4) wif_bytes
       in Inr (if take 4 check = sum \<or> take 4 check2 = sum then Some key else None)))"

section \<open>Laws\<close>

lemma prefix_length [simp]: "length (address_prefix ty) = 3"
  by (cases ty) (simp_all add: ALP_ADDRESS_PREFIX_def CONTRACT_ADDRESS_PREFIX_def SCRIPT_ID_PREFIX_def)

lemma prefix_inj: "address_prefix ty = address_prefix ty' \<longleftrightarrow> ty = ty'"
  by (cases ty; cases ty') (simp_all add: ALP_ADDRESS_PREFIX_def CONTRACT_ADDRESS_PREFIX_def SCRIPT_ID_PREFIX_def)

lemma key_lib_okD:
  assumes "key_lib_ok K"
  shows "v \<noteq> [] \<Longrightarrow> to_base58 K v \<noteq> []" "from_base58 K (to_base58 K v) = Inr v"
    "length (ripemd160 K v) = 20" "length (sha256 K v) = 32" "length v = 32 \<Longrightarrow> key_of_bytes K v = Inr v"
  using assms by (simp_all add: key_lib_ok_def)

lemma decode_key_encoded:
  assumes "key_lib_ok K" "length key = 33"
  shows "decode_key K prefix (prefix @ to_base58 K (key @ take 4 (ripemd160 K key))) = Inr key"
proof -
  have "to_base58 K (key @ take 4 (ripemd160 K key)) \<noteq> []"
    using assms(2) by (intro key_lib_okD(1) [OF assms(1)]) auto
  then show ?thesis
    using assms by (simp add: decode_key_def unpack_BinaryKey_def key_lib_okD)
qed

text \<open>
  C39: An address printed with the prefix of a type is read back as that address, and only
  as an address of that type; a public key and a secret key that are printed are read back too, the
  secret key also when it was printed for the old format.
\<close>

theorem address_and_key_strings_roundtrip:
  assumes "key_lib_ok K" "length a = 20" "length key = 33" "length secret = 32"
  shows "Address_of_string K (AddressToString K a ty) ty' = (if ty = ty' then Inr a else Inl invalid_address) \<and>
    PublicKeyType_of_string K (PublicKeyType_to_string K key) = Inr key \<and>
    wif_to_key K (key_to_wif K secret) = Inr (Some secret) \<and>
    wif_to_key K (key_to_wif_single_hash K secret) = Inr (Some secret)"
proof -
  have "to_base58 K (a @ take 4 (ripemd160 K a)) \<noteq> []"
    using assms(2) by (intro key_lib_okD(1) [OF assms(1)]) auto
  then have "Address_of_string K (AddressToString K a ty) ty' = (if ty = ty' then Inr a else Inl invalid_address)"
    using assms(1,2)
    by (simp add: Address_of_string_def AddressToString_def Address_is_valid_def key_lib_okD prefix_inj Let_def)
  moreover have "PublicKeyType_of_string K (PublicKeyType_to_string K key) = Inr key"
  proof -
    have "is_valid_v1 K (PublicKeyType_to_string K key) \<noteq> Inr True"
      by (auto simp: is_valid_v1_def decode_key_def PublicKeyType_to_string_def ALP_ADDRESS_PREFIX_def)
    then have "(case is_valid_v1 K (PublicKeyType_to_string K key) of Inr True \<Rightarrow> ''ALP'' | _ \<Rightarrow> ALP_ADDRESS_PREFIX)
      = ALP_ADDRESS_PREFIX"
      by (auto split: sum.split bool.split)
    then show ?thesis
      using decode_key_encoded [OF assms(1,3)]
      unfolding PublicKeyType_of_string_def PublicKeyType_to_string_def by (simp only: Let_def)
  qed
  moreover have "wif_to_key K (key_to_wif K secret) = Inr (Some secret)"
    using assms(1,4) by (simp add: wif_to_key_def key_to_wif_def key_lib_okD Let_def)
  ultimately show ?thesis by (simp add: key_to_wif_single_hash_def key_to_wif_def)
qed

text \<open>A PTS address is read from any text that begins with its bytes.\<close>

lemma PtsAddress_ignores_more_bytes:
  assumes "key_lib_ok K" "length a = 25" "PtsAddress_is_valid K a" "length memory = 25"
  shows "PtsAddress_of_string K memory (to_base58 K (a @ extra)) = Inr a"
  using assms by (auto simp: PtsAddress_of_string_def key_lib_okD Let_def)

lemma PtsAddress_of_key_valid:
  assumes "key_lib_ok K"
  shows "length (PtsAddress_of_key K dat v) = 25 \<and> PtsAddress_is_valid K (PtsAddress_of_key K dat v)"
  using assms by (simp add: PtsAddress_of_key_def PtsAddress_is_valid_def key_lib_okD Let_def)

section \<open>Instances\<close>

definition sample_key_lib :: key_lib where
  "sample_key_lib = \<lparr>to_base58 = map (\<lambda>b. char_of (unat b)), from_base58 = (\<lambda>s. Inr (map (\<lambda>c. word_of_nat (of_char c)) s)),
     ripemd160 = (\<lambda>v. replicate 20 (sum_list v)), sha256 = (\<lambda>v. replicate 32 (sum_list v)),
     sha512 = (\<lambda>v. replicate 64 (sum_list v)), key_of_bytes = Inr\<rparr>"

lemma sample_key_lib_ok: "key_lib_ok sample_key_lib"
proof -
  have "word_of_nat (of_char (char_of (unat b) :: char)) = b" for b :: "8 word"
  proof -
    have "unat b < 256" using unsigned_less [of b] by simp
    then show ?thesis by simp
  qed
  then show ?thesis by (simp add: key_lib_ok_def sample_key_lib_def comp_def map_idI)
qed

theorem address_and_key_strings_roundtrip_witness:
  "Address_of_string sample_key_lib (AddressToString sample_key_lib (replicate 20 7) contract_address) contract_address =
     Inr (replicate 20 7) \<and>
   PublicKeyType_of_string sample_key_lib (PublicKeyType_to_string sample_key_lib (replicate 33 2)) = Inr (replicate 33 2) \<and>
   wif_to_key sample_key_lib (key_to_wif sample_key_lib (replicate 32 9)) = Inr (Some (replicate 32 9))"
  using address_and_key_strings_roundtrip [OF sample_key_lib_ok, of "replicate 20 7" "replicate 33 2" "replicate 32 9"
    contract_address contract_address]
  by simp

end
