(* ===== verification/Tx_Creation.thy ===== *)
theory Tx_Creation
  imports Conservation
begin

text \<open>
  \<open>TransactionCreationState.cpp\<close>: a transaction built up together with its evaluation, on an overlay
  that holds the balances it may spend. The loop of \<open>withdraw\<close> runs over the balances of the overlay,
  whose order the language leaves open, while it evaluates withdrawals that change these entries in
  place; each entry is visited once, as it was before.
\<close>

section \<open>State and operations\<close>

record MultisigCondition =
  mc_required :: nat
  mc_owners :: "address list"

text \<open>\<open>required_signatures\<close> is a vector with a first element; only that is changed here.\<close>

record TransactionCreationState =
  tc_trx :: SignedTransaction
  tc_required_front :: MultisigCondition
  tc_eval_state :: eval_state

definition new_TransactionCreationState :: "env \<Rightarrow> chain \<Rightarrow> bool \<Rightarrow> TransactionCreationState" where
  "new_TransactionCreationState E prev_state skip_exec =
     \<lparr>tc_trx = empty_transaction, tc_required_front = \<lparr>mc_required = 2 ^ 32 - 1, mc_owners = []\<rparr>,
      tc_eval_state = (new_eval_state E (Pending new_pending prev_state) skip_exec)\<lparr>skip_vote_adjustment := True\<rparr>\<rparr>"

definition add_known_key :: "address \<Rightarrow> TransactionCreationState \<Rightarrow> TransactionCreationState" where
  "add_known_key key st = st\<lparr>tc_eval_state := (tc_eval_state st)\<lparr>es_signed_keys :=
     sset_insert key (es_signed_keys (tc_eval_state st))\<rparr>\<rparr>"

definition pending_balances :: "chain \<Rightarrow> (address \<times> BalanceEntry) list" where
  "pending_balances c = (case c of Pending p _ \<Rightarrow> p_balance_id_to_entry p | _ \<Rightarrow> [])"

text \<open>The owner of a balance that can be spent: of the right asset, not empty, and with a known key.\<close>

definition spendable_owner :: "asset_id \<Rightarrow> address list \<Rightarrow> BalanceEntry \<Rightarrow> address option result" where
  "spendable_owner k keys e =
     (if bal_asset_id e = k then
        ebind (condition_owner (bal_condition e)) (\<lambda>owner. Inr (case owner of
          Some ow \<Rightarrow> if ow \<in> set keys \<and> bal_balance e > 0 then Some ow else None
        | None \<Rightarrow> None))
      else Inr None)"

definition require_owner :: "address \<Rightarrow> MultisigCondition \<Rightarrow> MultisigCondition" where
  "require_owner ow c =
     (let owners = sset_insert ow (mc_owners c) in \<lparr>mc_required = length owners, mc_owners = owners\<rparr>)"

fun withdraw_loop :: "env \<Rightarrow> vm \<Rightarrow> asset_id \<Rightarrow> (address \<times> BalanceEntry) list \<Rightarrow> share \<Rightarrow> TransactionCreationState \<Rightarrow>
    (share \<times> TransactionCreationState) result" where
  "withdraw_loop E vm k [] left_to_withdraw st = Inr (left_to_withdraw, st)"
| "withdraw_loop E vm k ((bid, e) # items) left_to_withdraw st =
     ebind (spendable_owner k (es_signed_keys (tc_eval_state st)) e) (\<lambda>owner.
     case owner of
       None \<Rightarrow> withdraw_loop E vm k items left_to_withdraw st
     | Some ow \<Rightarrow>
         let withdraw_from_balance = min (bal_balance e) left_to_withdraw;
             rest = left_to_withdraw - withdraw_from_balance
         in
         ebind (withdraw bid withdraw_from_balance (tc_trx st)) (\<lambda>trx.
         ebind (evaluate_operation E vm (last (operations trx)) (tc_eval_state st)) (\<lambda>es.
         let st' = \<lparr>tc_trx = trx, tc_required_front = require_owner ow (tc_required_front st), tc_eval_state = es\<rparr>
         in if rest = 0 then Inr (rest, st') else withdraw_loop E vm k items rest st')))"

definition creation_withdraw :: "env \<Rightarrow> vm \<Rightarrow> Asset \<Rightarrow> TransactionCreationState \<Rightarrow> TransactionCreationState result" where
  "creation_withdraw E vm amount_to_withdraw st =
     ebind (withdraw_loop E vm (asset_of amount_to_withdraw) (pending_balances (cur (tc_eval_state st)))
       (amount amount_to_withdraw) st) (\<lambda>(left_to_withdraw, st').
     ebind (ensure (left_to_withdraw = 0) assert_exception) (\<lambda>_. Inr st'))"

text \<open>
  With a one-time key the condition of the deposit is that of \<open>encrypt_memo_data\<close>: the key to
  receive it and the condition are \<open>encrypted\<close>.
\<close>

definition creation_deposit :: "env \<Rightarrow> vm \<Rightarrow> Asset \<Rightarrow> public_key \<Rightarrow> slate_id \<Rightarrow> (public_key \<times> WithdrawWithSignature) option \<Rightarrow>
    TransactionCreationState \<Rightarrow> (public_key \<times> TransactionCreationState) result" where
  "creation_deposit E vm amnt to_key slate encrypted st =
     ebind (case encrypted of
              None \<Rightarrow> ebind (deposit (key_address E to_key) amnt (tc_trx st)) (\<lambda>trx. Inr (to_key, trx))
            | Some (receive_key, by_account) \<Rightarrow>
                Inr (receive_key, push_operation (deposit_op \<lparr>dep_amount = amount amnt,
                  dep_condition = \<lparr>cond_asset_id = asset_of amnt, cond_slate_id = slate, cond_type = withdraw_signature_type,
                    cond_balance_type = withdraw_common_type, cond_data = data_signature by_account\<rparr>\<rparr>) (tc_trx st)))
       (\<lambda>(receive_key, trx).
     ebind (evaluate_operation E vm (last (operations trx)) (tc_eval_state st)) (\<lambda>es.
       Inr (receive_key, st\<lparr>tc_trx := trx, tc_eval_state := es\<rparr>)))"

section \<open>What a withdrawal leaves alone\<close>

lemma adjust_vote_keys: "adjust_vote sid amnt s = Inr s' \<Longrightarrow> es_signed_keys s' = es_signed_keys s"
proof -
  have "es_signed_keys s' = es_signed_keys s" if "efold (add_vote_delta amnt) ks s = Inr s'" for ks
    by (rule efold_frame [OF that]) (auto simp: add_vote_delta_def)
  then show "adjust_vote sid amnt s = Inr s' \<Longrightarrow> es_signed_keys s' = es_signed_keys s"
    by (auto simp: adjust_vote_def split: if_splits option.splits)
qed

lemma add_balance_keys: "add_balance a s = Inr s' \<Longrightarrow> es_signed_keys s' = es_signed_keys s"
  by (auto simp: add_balance_def set_delta_def Let_def)

lemma withdrawal_keys:
  assumes "WithdrawOperation_evaluate E op s = Inr s'"
  shows "es_signed_keys s' = es_signed_keys s"
  using assms
  by (auto simp: WithdrawOperation_evaluate_def lift_chain_def vote_if_core_def Let_def
    dest!: add_balance_keys adjust_vote_keys split: if_splits option.splits)

section \<open>The withdrawals of a transaction\<close>

text \<open>A withdrawal that the loop has added for one of the balances.\<close>

definition taken_from :: "asset_id \<Rightarrow> address list \<Rightarrow> (address \<times> BalanceEntry) list \<Rightarrow> address list \<Rightarrow> WithdrawOperation \<Rightarrow> bool" where
  "taken_from k keys items owners w \<longleftrightarrow>
     (\<exists>e ow. (wd_balance_id w, e) \<in> set items \<and> spendable_owner k keys e = Inr (Some ow) \<and>
        0 < wd_amount w \<and> wd_amount w \<le> bal_balance e \<and> ow \<in> set owners)"

lemma withdraw_loop_exact:
  assumes "withdraw_loop E vm k items left_to_withdraw st = Inr (rest, st')" "distinct (map fst items)"
  shows "\<exists>ws. operations (tc_trx st') = operations (tc_trx st) @ map withdraw_op ws \<and>
    efold (evaluate_operation E vm) (map withdraw_op ws) (tc_eval_state st) = Inr (tc_eval_state st') \<and>
    sum_list (map wd_amount ws) = left_to_withdraw - rest \<and>
    distinct (map wd_balance_id ws) \<and> set (map wd_balance_id ws) \<subseteq> fst ` set items \<and>
    set (mc_owners (tc_required_front st)) \<subseteq> set (mc_owners (tc_required_front st')) \<and>
    (\<forall>w \<in> set ws. taken_from k (es_signed_keys (tc_eval_state st)) items (mc_owners (tc_required_front st')) w)"
  using assms
proof (induction items arbitrary: left_to_withdraw st)
  case Nil
  then show ?case by (intro exI [of _ "[]"]) simp
next
  case (Cons item items)
  obtain bid e where item: "item = (bid, e)" by fastforce
  let ?keys = "es_signed_keys (tc_eval_state st)"
  have mono: "taken_from k ?keys (item # items) os w" if "taken_from k ?keys items os w" for os w
    using that by (auto simp: taken_from_def)
  from Cons.prems(1) obtain owner where owner: "spendable_owner k ?keys e = Inr owner" by (auto simp: item)
  show ?case
  proof (cases owner)
    case None
    then have "withdraw_loop E vm k items left_to_withdraw st = Inr (rest, st')"
      using Cons.prems(1) owner by (simp add: item)
    from Cons.IH [OF this] Cons.prems(2) obtain ws where
      "operations (tc_trx st') = operations (tc_trx st) @ map withdraw_op ws"
      "efold (evaluate_operation E vm) (map withdraw_op ws) (tc_eval_state st) = Inr (tc_eval_state st')"
      "sum_list (map wd_amount ws) = left_to_withdraw - rest" "distinct (map wd_balance_id ws)"
      "set (map wd_balance_id ws) \<subseteq> fst ` set items"
      "set (mc_owners (tc_required_front st)) \<subseteq> set (mc_owners (tc_required_front st'))"
      "\<forall>w \<in> set ws. taken_from k ?keys items (mc_owners (tc_required_front st')) w"
      by auto
    then show ?thesis using mono by (intro exI [of _ ws]) auto
  next
    case (Some ow)
    define amt where "amt = min (bal_balance e) left_to_withdraw"
    then have le: "amt \<le> bal_balance e" by simp
    define w where "w = \<lparr>wd_balance_id = bid, wd_amount = amt, wd_claim_input_data = []\<rparr>"
    let ?trx = "push_operation (withdraw_op w) (tc_trx st)"
    from Cons.prems(1) owner Some obtain es where pos: "0 < amt"
      and es: "evaluate_operation E vm (withdraw_op w) (tc_eval_state st) = Inr es"
      and next_st: "(let st1 = \<lparr>tc_trx = ?trx, tc_required_front = require_owner ow (tc_required_front st), tc_eval_state = es\<rparr>
        in if left_to_withdraw - amt = 0 then Inr (left_to_withdraw - amt, st1)
           else withdraw_loop E vm k items (left_to_withdraw - amt) st1) = Inr (rest, st')"
      by (auto simp: item withdraw_def w_def Let_def simp flip: amt_def)
    define st1 where "st1 = \<lparr>tc_trx = ?trx, tc_required_front = require_owner ow (tc_required_front st), tc_eval_state = es\<rparr>"
    have keys: "es_signed_keys es = ?keys" using es withdrawal_keys by simp
    have here: "taken_from k ?keys (item # items) os w" if "ow \<in> set os" for os
      using that owner Some pos le by (auto simp: taken_from_def w_def item)
    have ow: "set (mc_owners (tc_required_front st1)) = insert ow (set (mc_owners (tc_required_front st)))"
      by (simp add: st1_def require_owner_def Let_def)
    show ?thesis
    proof (cases "left_to_withdraw - amt = 0")
      case True
      then have "st' = st1" "rest = left_to_withdraw - amt" using next_st by (simp_all add: st1_def Let_def)
      then show ?thesis using True es here ow
        by (intro exI [of _ "[w]"]) (auto simp: st1_def w_def item)
    next
      case False
      then have "withdraw_loop E vm k items (left_to_withdraw - amt) st1 = Inr (rest, st')"
        using next_st by (simp add: st1_def Let_def)
      from Cons.IH [OF this] Cons.prems(2) obtain ws where
        ws: "operations (tc_trx st') = operations (tc_trx st1) @ map withdraw_op ws"
        "efold (evaluate_operation E vm) (map withdraw_op ws) (tc_eval_state st1) = Inr (tc_eval_state st')"
        "sum_list (map wd_amount ws) = left_to_withdraw - amt - rest" "distinct (map wd_balance_id ws)"
        "set (map wd_balance_id ws) \<subseteq> fst ` set items"
        "set (mc_owners (tc_required_front st1)) \<subseteq> set (mc_owners (tc_required_front st'))"
        "\<forall>w \<in> set ws. taken_from k ?keys items (mc_owners (tc_required_front st')) w"
        using keys by (auto simp: st1_def)
      have "bid \<notin> set (map wd_balance_id ws)" using ws(5) Cons.prems(2) item by auto
      then show ?thesis using ws es here [of "mc_owners (tc_required_front st')"] ow mono
        by (intro exI [of _ "w # ws"]) (auto simp: st1_def w_def item)
    qed
  qed
qed


section \<open>Instances\<close>

definition sample_creation :: TransactionCreationState where
  "sample_creation = add_known_key 11 (new_TransactionCreationState sample_env (Database sample_db) False)
     \<lparr>tc_eval_state := (new_eval_state sample_env (Pending sample_pending (Database sample_db)) False)
        \<lparr>skip_vote_adjustment := True, es_signed_keys := [11]\<rparr>\<rparr>"


end
