(* ===== verification/Wallet_Db.thy ===== *)
theory Wallet_Db
  imports Transactions Actions
begin

text \<open>
  \<open>wallet/WalletDb.cpp\<close>: the accounts, keys, contacts, transactions, settings and properties of a
  wallet, as numbered entries in a level-db map and as caches with indexes over them. The conversion
  of an entry to a variant and back is taken to be exact. Where the code reads an \<open>optional\<close> that is
  empty, which it does not check, the model throws \<open>null_optional\<close>.
\<close>

section \<open>Keys and entries\<close>

type_synonym password = nat
type_synonym private_key = nat
type_synonym extended_key = nat

text \<open>Functions of the elliptic curve and AES libraries; \<open>0\<close> is the password \<open>fc::sha512()\<close>.\<close>

record wallet_lib =
  get_public_key :: "private_key \<Rightarrow> public_key"
  aes_encrypt_key :: "password \<Rightarrow> private_key \<Rightarrow> string"
  aes_decrypt_key :: "password \<Rightarrow> string \<Rightarrow> private_key result"
  aes_encrypt_master :: "password \<Rightarrow> extended_key \<Rightarrow> string"
  aes_decrypt_master :: "password \<Rightarrow> string \<Rightarrow> extended_key result"
  sha512_hash :: "password \<Rightarrow> nat"
  master_child :: "extended_key \<Rightarrow> nat \<Rightarrow> private_key"
  account_child :: "private_key \<Rightarrow> nat \<Rightarrow> private_key"

record MasterKey =
  mk_encrypted_key :: string
  mk_checksum :: nat

text \<open>\<open>AccountData\<close> extends the account entry of the chain.\<close>

record AccountData =
  ad_account :: AccountEntry
  is_my_account :: bool
  approved :: int
  is_favorite :: bool
  block_production_enabled :: bool
  last_used_gen_sequence :: nat
  private_data :: variant

record KeyData =
  kd_account_address :: address
  kd_public_key :: public_key
  encrypted_private_key :: string
  valid_from_signature :: bool
  kd_memo :: "string option"
  gen_seq_number :: nat

record ContactData =
  contact_type :: nat
  contact_data :: string
  contact_label :: string
  contact_favorite :: bool

record LedgerEntry =
  le_from_account :: "public_key option"
  le_to_account :: "public_key option"
  le_from_contract_balance :: "address option"
  le_to_contract_balance :: "address option"
  le_amount :: Asset
  le_memo :: string
  le_memo_from_account :: "public_key option"

record TransactionData =
  td_entry_id :: trx_id
  td_block_num :: nat
  td_is_virtual :: bool
  td_is_confirmed :: bool
  td_is_market :: bool
  td_trx :: SignedTransaction
  td_ledger_entries :: "LedgerEntry list"
  td_fee :: Asset
  td_created_time :: time
  td_received_time :: time
  td_extra_addresses :: "address list"

record Setting =
  setting_name :: string
  setting_value :: variant

datatype PropertyEnum =
    version | next_entry_number | next_child_key_index | automatic_backups | transaction_scanning
  | last_unlocked_scanned_block_number | default_transaction_priority_fee | transaction_expiration_sec
  | transaction_min_imessage_soft_length | transaction_min_imessage_fee_coe
  | last_scanned_block_number_for_thinkyoung

text \<open>The variant of a property, by the type it is written with.\<close>

datatype wallet_variant = null_variant | int_variant int | asset_variant Asset | bool_variant bool

record WalletProperty =
  wp_key :: PropertyEnum
  wp_value :: wallet_variant

record 'a WalletEntry =
  wallet_entry_index :: int
  entry_data :: 'a

type_synonym WalletAccountEntry = "AccountData WalletEntry"
type_synonym WalletKeyEntry = "KeyData WalletEntry"

text \<open>
  An entry as it is stored. Wallets of older versions have a property \<open>next_record_number\<close>, whose name
  is not one of the enumeration any more: reading it as a property throws.
\<close>

datatype GenericWalletEntry =
    property_entry "WalletProperty WalletEntry"
  | old_next_record_number int int
  | master_key_entry "MasterKey WalletEntry"
  | account_entry WalletAccountEntry
  | key_entry WalletKeyEntry
  | contact_entry "ContactData WalletEntry"
  | transaction_entry "TransactionData WalletEntry"
  | setting_entry "Setting WalletEntry"
  | contract_entry "ContractEntry WalletEntry"

fun get_wallet_entry_index :: "GenericWalletEntry \<Rightarrow> int" where
  "get_wallet_entry_index (property_entry e) = wallet_entry_index e"
| "get_wallet_entry_index (old_next_record_number i _) = i"
| "get_wallet_entry_index (master_key_entry e) = wallet_entry_index e"
| "get_wallet_entry_index (account_entry e) = wallet_entry_index e"
| "get_wallet_entry_index (key_entry e) = wallet_entry_index e"
| "get_wallet_entry_index (contact_entry e) = wallet_entry_index e"
| "get_wallet_entry_index (transaction_entry e) = wallet_entry_index e"
| "get_wallet_entry_index (setting_entry e) = wallet_entry_index e"
| "get_wallet_entry_index (contract_entry e) = wallet_entry_index e"

definition has_private_key :: "KeyData \<Rightarrow> bool" where
  "has_private_key k \<longleftrightarrow> encrypted_private_key k \<noteq> []"

definition decrypt_private_key :: "wallet_lib \<Rightarrow> password \<Rightarrow> KeyData \<Rightarrow> private_key result" where
  "decrypt_private_key K pw k =
     ebind (ensure (pw \<noteq> 0) assert_exception) (\<lambda>_. aes_decrypt_key K pw (encrypted_private_key k))"

definition encrypt_private_key :: "wallet_lib \<Rightarrow> password \<Rightarrow> private_key \<Rightarrow> KeyData \<Rightarrow> KeyData result" where
  "encrypt_private_key K pw key_to_encrypt k =
     ebind (ensure (pw \<noteq> 0) assert_exception) (\<lambda>_.
     let k' = k\<lparr>kd_public_key := get_public_key K key_to_encrypt,
                encrypted_private_key := aes_encrypt_key K pw key_to_encrypt\<rparr>
     in ebind (decrypt_private_key K pw k') (\<lambda>decrypted.
        ebind (ensure (key_to_encrypt = decrypted) assert_exception) (\<lambda>_. Inr k')))"

definition decrypt_master_key :: "wallet_lib \<Rightarrow> password \<Rightarrow> MasterKey \<Rightarrow> extended_key result" where
  "decrypt_master_key K pw k =
     ebind (ensure (pw \<noteq> 0) assert_exception) (\<lambda>_.
     ebind (ensure (mk_encrypted_key k \<noteq> []) assert_exception) (\<lambda>_.
       aes_decrypt_master K pw (mk_encrypted_key k)))"

definition encrypt_master_key :: "wallet_lib \<Rightarrow> password \<Rightarrow> extended_key \<Rightarrow> MasterKey result" where
  "encrypt_master_key K pw key =
     ebind (ensure (pw \<noteq> 0) assert_exception) (\<lambda>_.
     let k = \<lparr>mk_encrypted_key = aes_encrypt_master K pw key, mk_checksum = sha512_hash K pw\<rparr>
     in ebind (decrypt_master_key K pw k) (\<lambda>decrypted.
        ebind (ensure (decrypted = key) assert_exception) (\<lambda>_. Inr k)))"

definition new_KeyData :: "env \<Rightarrow> KeyData" where
  "new_KeyData E = \<lparr>kd_account_address = 0, kd_public_key = null_key E, encrypted_private_key = [],
     valid_from_signature = False, kd_memo = None, gen_seq_number = 0\<rparr>"

section \<open>The state of a wallet\<close>

record WalletDb =
  w_entrys :: "(int \<times> GenericWalletEntry) list"
  w_entrys_open :: bool
  w_properties :: "PropertyEnum \<rightharpoonup> WalletProperty WalletEntry"
  wallet_master_key :: "MasterKey WalletEntry option"
  w_accounts :: "(int \<times> WalletAccountEntry) list"
  w_keys :: "(address \<times> WalletKeyEntry) list"
  w_contacts :: "string \<rightharpoonup> ContactData WalletEntry"
  w_transactions :: "(trx_id \<times> TransactionData WalletEntry) list"
  w_settings :: "string \<rightharpoonup> Setting WalletEntry"
  address_to_account_index :: "address \<rightharpoonup> int"
  name_to_account_index :: "string \<rightharpoonup> int"
  account_id_to_index :: "account_id \<rightharpoonup> int"
  btc_to_alp_address :: "address \<rightharpoonup> address"
  label_to_account_or_contact :: "string \<rightharpoonup> string"
  id_to_transaction_index :: "trx_id \<rightharpoonup> trx_id"
  contracts_of_wallet :: "address \<rightharpoonup> ContractEntry WalletEntry list"
  id_to_contract :: "address \<rightharpoonup> ContractEntry WalletEntry"

type_synonym 'a wallet_act = "(WalletDb, 'a) act"

definition new_WalletDb :: "(int \<times> GenericWalletEntry) list \<Rightarrow> WalletDb" where
  "new_WalletDb entrys =
     \<lparr>w_entrys = entrys, w_entrys_open = False, w_properties = Map.empty, wallet_master_key = None, w_accounts = [],
      w_keys = [], w_contacts = Map.empty, w_transactions = [], w_settings = Map.empty,
      address_to_account_index = Map.empty, name_to_account_index = Map.empty, account_id_to_index = Map.empty,
      btc_to_alp_address = Map.empty, label_to_account_or_contact = Map.empty, id_to_transaction_index = Map.empty,
      contracts_of_wallet = Map.empty, id_to_contract = Map.empty\<rparr>"

definition wallet_is_open :: "WalletDb \<Rightarrow> bool" where
  "wallet_is_open w \<longleftrightarrow> w_entrys_open w \<and> wallet_master_key w \<noteq> None"

definition assert_that :: "bool \<Rightarrow> ('s, unit) act" where
  "assert_that b = (if b then aret () else athrow assert_exception)"

definition assert_open :: "unit wallet_act" where
  "assert_open = abind (aget wallet_is_open) assert_that"

section \<open>Loading an entry into the caches\<close>

text \<open>The public keys of an account: its owner key, the active keys it has had, and as a delegate its signing keys.\<close>

definition history_keys :: "env \<Rightarrow> AccountEntry \<Rightarrow> public_key list" where
  "history_keys E a =
     filter (\<lambda>k. k \<noteq> null_key E) (map snd (acc_active_key_history a)) @
     (case acc_delegate_info a of
        None \<Rightarrow> []
      | Some d \<Rightarrow> filter (\<lambda>k. k \<noteq> null_key E) (map snd (signing_key_history d)))"

definition load_account_entry :: "env \<Rightarrow> WalletAccountEntry \<Rightarrow> WalletDb \<Rightarrow> WalletDb" where
  "load_account_entry E e w =
     (let i = wallet_entry_index e; a = ad_account (entry_data e) in
      w\<lparr>w_accounts := smap_set i e (w_accounts w),
        address_to_account_index :=
          fold (\<lambda>k m. m(key_address E k \<mapsto> i)) (acc_owner_key a # history_keys E a) (address_to_account_index w),
        name_to_account_index := (name_to_account_index w)(acc_name a \<mapsto> i),
        account_id_to_index :=
          (if acc_id a \<noteq> 0 then (account_id_to_index w)(acc_id a \<mapsto> i) else account_id_to_index w)\<rparr>)"

text \<open>The addresses under which a key can be found: its own, and those of Bitcoin and PTS.\<close>

definition derived_addresses :: "env \<Rightarrow> public_key \<Rightarrow> address list" where
  "derived_addresses E k =
     [key_address E k, pts_address E k False 0, pts_address E k True 0, pts_address E k False 56, pts_address E k True 56]"

definition load_key_entry :: "env \<Rightarrow> WalletKeyEntry \<Rightarrow> WalletDb \<Rightarrow> WalletDb" where
  "load_key_entry E e w =
     (let key = kd_public_key (entry_data e); a = key_address E key in
      w\<lparr>w_keys := smap_set a e (w_keys w),
        btc_to_alp_address := fold (\<lambda>d m. m(d \<mapsto> a)) (derived_addresses E key) (btc_to_alp_address w)\<rparr>)"

definition load_contact_entry :: "ContactData WalletEntry \<Rightarrow> WalletDb \<Rightarrow> WalletDb" where
  "load_contact_entry e w =
     (let data = contact_data (entry_data e) in
      w\<lparr>w_contacts := (w_contacts w)(data \<mapsto> e),
        label_to_account_or_contact := (label_to_account_or_contact w)(contact_label (entry_data e) \<mapsto> data)\<rparr>)"

definition load_transaction_entry :: "env \<Rightarrow> TransactionData WalletEntry \<Rightarrow> WalletDb \<Rightarrow> WalletDb" where
  "load_transaction_entry E e w =
     (let entry_id = td_entry_id (entry_data e); transaction_id = trx_id E (td_trx (entry_data e));
          index = (id_to_transaction_index w)(entry_id \<mapsto> entry_id)
      in w\<lparr>w_transactions := smap_set entry_id e (w_transactions w),
           id_to_transaction_index :=
             (if transaction_id \<noteq> trx_id E empty_transaction then index(transaction_id \<mapsto> entry_id) else index)\<rparr>)"

definition load_contract_entry :: "env \<Rightarrow> ContractEntry WalletEntry \<Rightarrow> WalletDb \<Rightarrow> WalletDb" where
  "load_contract_entry E e w =
     (let a = key_address E (con_owner (entry_data e)) in
      w\<lparr>contracts_of_wallet := (contracts_of_wallet w)(a \<mapsto>
          (case contracts_of_wallet w a of None \<Rightarrow> [] | Some es \<Rightarrow> es) @ [e]),
        id_to_contract := (id_to_contract w)(con_id (entry_data e) \<mapsto> e)\<rparr>)"

text \<open>An entry that cannot be read throws; \<open>open\<close> logs that and goes on.\<close>

fun load_generic_entry :: "env \<Rightarrow> GenericWalletEntry \<Rightarrow> unit wallet_act" where
  "load_generic_entry E (property_entry e) =
     amodify (\<lambda>w. w\<lparr>w_properties := (w_properties w)(wp_key (entry_data e) \<mapsto> e)\<rparr>)"
| "load_generic_entry E (old_next_record_number _ _) = athrow bad_cast_exception"
| "load_generic_entry E (master_key_entry e) = amodify (\<lambda>w. w\<lparr>wallet_master_key := Some e\<rparr>)"
| "load_generic_entry E (account_entry e) = amodify (load_account_entry E e)"
| "load_generic_entry E (key_entry e) = amodify (load_key_entry E e)"
| "load_generic_entry E (contact_entry e) = amodify (load_contact_entry e)"
| "load_generic_entry E (transaction_entry e) = amodify (load_transaction_entry E e)"
| "load_generic_entry E (setting_entry e) =
     amodify (\<lambda>w. w\<lparr>w_settings := (w_settings w)(setting_name (entry_data e) \<mapsto> e)\<rparr>)"
| "load_generic_entry E (contract_entry e) = amodify (load_contract_entry E e)"

definition store_and_reload_generic_entry :: "env \<Rightarrow> GenericWalletEntry \<Rightarrow> unit wallet_act" where
  "store_and_reload_generic_entry E e =
     abind (aget w_entrys_open) (\<lambda>is_open.
     abind (assert_that is_open) (\<lambda>_.
     abind (assert_that (get_wallet_entry_index e \<noteq> 0)) (\<lambda>_.
     abind (amodify (\<lambda>w. w\<lparr>w_entrys := smap_set (get_wallet_entry_index e) e (w_entrys w)\<rparr>)) (\<lambda>_.
       load_generic_entry E e))))"

section \<open>Opening and closing\<close>

text \<open>
  \<open>close\<close> clears every cache but the contacts and their labels; \<open>open\<close> loads the entries in the order
  of their numbers.
\<close>

definition wallet_close :: "unit wallet_act" where
  "wallet_close =
     amodify (\<lambda>w. (new_WalletDb (w_entrys w))\<lparr>w_contacts := w_contacts w,
       label_to_account_or_contact := label_to_account_or_contact w\<rparr>)"

text \<open>\<open>open\<close> is called with the map of the wallet file that is opened; that map is \<open>file\<close>.\<close>

definition wallet_open :: "env \<Rightarrow> (int \<times> GenericWalletEntry) list \<Rightarrow> unit wallet_act" where
  "wallet_open E file =
     abind (amodify (\<lambda>w. w\<lparr>w_entrys := file, w_entrys_open := True\<rparr>)) (\<lambda>_.
       afold (\<lambda>(_, e) _. acatch (load_generic_entry E e) (\<lambda>_. aret ())) file ())"

section \<open>Properties and numbers of entries\<close>

definition get_property :: "PropertyEnum \<Rightarrow> wallet_variant wallet_act" where
  "get_property p = aget (\<lambda>w. case w_properties w p of Some e \<Rightarrow> wp_value (entry_data e) | None \<Rightarrow> null_variant)"

text \<open>
  \<open>store_and_reload_entry\<close> gives an entry without a number the next one, and \<open>set_property\<close> does so for a
  new property except the counter of entries itself, which has the number 1. The function that
  numbers an entry is an argument, since that calls \<open>set_property\<close> for the counter in turn.
\<close>

definition set_property_numbered :: "env \<Rightarrow> int wallet_act \<Rightarrow> PropertyEnum \<Rightarrow> wallet_variant \<Rightarrow> unit wallet_act" where
  "set_property_numbered E number p v =
     abind (aget (\<lambda>w. w_properties w p)) (\<lambda>found.
     abind (case found of
              Some e \<Rightarrow> aret (e\<lparr>entry_data := (entry_data e)\<lparr>wp_value := v\<rparr>\<rparr>)
            | None \<Rightarrow>
                if p = next_entry_number then aret \<lparr>wallet_entry_index = 1, entry_data = \<lparr>wp_key = p, wp_value = v\<rparr>\<rparr>
                else abind number (\<lambda>i. aret \<lparr>wallet_entry_index = i, entry_data = \<lparr>wp_key = p, wp_value = v\<rparr>\<rparr>)) (\<lambda>e.
     abind (if wallet_entry_index e = 0 then abind number (\<lambda>i. aret (e\<lparr>wallet_entry_index := i\<rparr>)) else aret e) (\<lambda>e'.
       store_and_reload_generic_entry E (property_entry e'))))"

text \<open>
  In a wallet of an older version the counter is taken over from the old property, and all
  transactions are removed. The counter itself always has a number, so that the numbering function
  of the inner call is not used.
\<close>

definition is_transaction_entry :: "GenericWalletEntry \<Rightarrow> bool" where
  "is_transaction_entry e = (case e of transaction_entry _ \<Rightarrow> True | _ \<Rightarrow> False)"

definition old_record_number :: "(int \<times> GenericWalletEntry) list \<Rightarrow> int option" where
  "old_record_number entrys =
     (case find (\<lambda>e. case e of old_next_record_number _ _ \<Rightarrow> True | _ \<Rightarrow> False) (map snd entrys) of
        Some (old_next_record_number _ n) \<Rightarrow> Some n | _ \<Rightarrow> None)"

definition next_number :: "int wallet_act" where
  "next_number =
     abind (get_property next_entry_number) (\<lambda>v.
     case v of
       null_variant \<Rightarrow>
         abind (aget (\<lambda>w. old_record_number (w_entrys w))) (\<lambda>old.
         case old of
           Some n \<Rightarrow>
             abind (amodify (\<lambda>w. w\<lparr>w_entrys := filter (\<lambda>(_, e). \<not> is_transaction_entry e) (w_entrys w),
                                   w_transactions := [], id_to_transaction_index := Map.empty\<rparr>)) (\<lambda>_. aret n)
         | None \<Rightarrow> aret 2)
     | int_variant n \<Rightarrow> aret n
     | bool_variant b \<Rightarrow> aret (if b then 1 else 0)
     | asset_variant _ \<Rightarrow> athrow bad_cast_exception)"

text \<open>
  Numbers have 32 bits and a sign; that the counter exceeds them, which is undefined in the code,
  is an exception of the model.
\<close>

definition new_wallet_entry_index :: "env \<Rightarrow> int wallet_act" where
  "new_wallet_entry_index E =
     abind next_number (\<lambda>n.
     abind (if n + 1 < 2 ^ 31 then aret () else athrow overflow_exception) (\<lambda>_.
     abind (set_property_numbered E (athrow assert_exception) next_entry_number (int_variant (n + 1))) (\<lambda>_. aret n)))"

definition set_property :: "env \<Rightarrow> PropertyEnum \<Rightarrow> wallet_variant \<Rightarrow> unit wallet_act" where
  "set_property E = set_property_numbered E (new_wallet_entry_index E)"

definition store_and_reload_entry ::
  "env \<Rightarrow> ('a WalletEntry \<Rightarrow> GenericWalletEntry) \<Rightarrow> 'a WalletEntry \<Rightarrow> 'a WalletEntry wallet_act" where
  "store_and_reload_entry E mk e =
     abind (if wallet_entry_index e = 0 then abind (new_wallet_entry_index E) (\<lambda>i. aret (e\<lparr>wallet_entry_index := i\<rparr>))
            else aret e) (\<lambda>e'.
     abind (store_and_reload_generic_entry E (mk e')) (\<lambda>_. aret e'))"

definition get_last_wallet_child_key_index :: "nat wallet_act" where
  "get_last_wallet_child_key_index =
     abind assert_open (\<lambda>_.
     abind (get_property next_child_key_index) (\<lambda>v. aret (case v of int_variant n \<Rightarrow> nat n | bool_variant b \<Rightarrow> if b then 1 else 0 | _ \<Rightarrow> 0)))"

definition set_last_wallet_child_key_index :: "env \<Rightarrow> nat \<Rightarrow> unit wallet_act" where
  "set_last_wallet_child_key_index E key_index =
     abind assert_open (\<lambda>_. set_property E next_child_key_index (int_variant (int key_index)))"

section \<open>Lookups\<close>

definition indexed_account :: "(WalletDb \<Rightarrow> int option) \<Rightarrow> WalletDb \<Rightarrow> WalletAccountEntry option" where
  "indexed_account f w = (case f w of Some i \<Rightarrow> map_of (w_accounts w) i | None \<Rightarrow> None)"

definition lookup_account_by_address :: "address \<Rightarrow> WalletAccountEntry option wallet_act" where
  "lookup_account_by_address a = abind assert_open (\<lambda>_. aget (indexed_account (\<lambda>w. address_to_account_index w a)))"

definition lookup_account_by_name :: "string \<Rightarrow> WalletAccountEntry option wallet_act" where
  "lookup_account_by_name n = abind assert_open (\<lambda>_. aget (indexed_account (\<lambda>w. name_to_account_index w n)))"

definition lookup_account_by_id :: "account_id \<Rightarrow> WalletAccountEntry option wallet_act" where
  "lookup_account_by_id i = abind assert_open (\<lambda>_. aget (indexed_account (\<lambda>w. account_id_to_index w i)))"

definition key_at :: "WalletDb \<Rightarrow> address \<Rightarrow> WalletKeyEntry option" where
  "key_at w a = (case btc_to_alp_address w a of Some k \<Rightarrow> map_of (w_keys w) k | None \<Rightarrow> None)"

definition lookup_key :: "address \<Rightarrow> WalletKeyEntry option wallet_act" where
  "lookup_key derived_address = abind assert_open (\<lambda>_. aget (\<lambda>w. key_at w derived_address))"

definition db_has_private_key :: "address \<Rightarrow> bool wallet_act" where
  "db_has_private_key a = aget (\<lambda>w. case map_of (w_keys w) a of Some e \<Rightarrow> has_private_key (entry_data e) | None \<Rightarrow> False)"

definition get_account_name :: "address \<Rightarrow> string wallet_act" where
  "get_account_name a = abind (lookup_account_by_address a) (\<lambda>found.
     aret (case found of Some e \<Rightarrow> acc_name (ad_account (entry_data e)) | None \<Rightarrow> ''?''))"

section \<open>Storing accounts and keys\<close>

definition account_keys :: "env \<Rightarrow> AccountEntry \<Rightarrow> public_key list" where
  "account_keys E a = fold sset_insert (acc_owner_key a # history_keys E a) []"

definition wallet_owner_address :: "env \<Rightarrow> WalletAccountEntry \<Rightarrow> address" where
  "wallet_owner_address E e = owner_address E (ad_account (entry_data e))"

text \<open>
  \<open>store_key\<close> and \<open>store_account\<close> call each other: a private key makes its account one of the user's
  own, and an account that is stored takes over its keys. The first argument bounds the depth of
  these calls; in \<open>Wallet_Laws\<close> it is shown that 4 is enough.
\<close>

fun store_key_at :: "nat \<Rightarrow> env \<Rightarrow> wallet_lib \<Rightarrow> KeyData \<Rightarrow> unit wallet_act"
  and store_account_at :: "nat \<Rightarrow> env \<Rightarrow> wallet_lib \<Rightarrow> AccountData \<Rightarrow> password \<Rightarrow> unit wallet_act" where
  "store_key_at 0 E K key = (\<lambda>w. (Diverges, w))"
| "store_key_at (Suc n) E K key =
     abind assert_open (\<lambda>_.
     abind (assert_that (kd_public_key key \<noteq> null_key E)) (\<lambda>_.
     abind (lookup_key (key_address E (kd_public_key key))) (\<lambda>found.
     abind (store_and_reload_entry E key_entry
              \<lparr>wallet_entry_index = (case found of Some e \<Rightarrow> wallet_entry_index e | None \<Rightarrow> 0), entry_data = key\<rparr>) (\<lambda>e.
     if \<not> has_private_key key then aret ()
     else
       abind (lookup_account_by_address (key_address E (kd_public_key key))) (\<lambda>by_key.
       abind (case by_key of Some a \<Rightarrow> aret (Some a) | None \<Rightarrow> lookup_account_by_address (kd_account_address key)) (\<lambda>account.
       case account of
         None \<Rightarrow> aret ()
       | Some a \<Rightarrow>
           abind (if kd_account_address key \<noteq> wallet_owner_address E a then
                    store_and_reload_entry E key_entry
                      (e\<lparr>entry_data := key\<lparr>kd_account_address := wallet_owner_address E a\<rparr>\<rparr>)
                  else aret e) (\<lambda>_.
           if \<not> is_my_account (entry_data a) then store_account_at n E K ((entry_data a)\<lparr>is_my_account := True\<rparr>) 0
           else aret ())))))))"
| "store_account_at 0 E K account pw = (\<lambda>w. (Diverges, w))"
| "store_account_at (Suc n) E K account pw =
     abind assert_open (\<lambda>_.
     abind (assert_that (acc_name (ad_account account) \<noteq> [])) (\<lambda>_.
     abind (assert_that (acc_owner_key (ad_account account) \<noteq> null_key E)) (\<lambda>_.
     abind (lookup_account_by_address (owner_address E (ad_account account))) (\<lambda>found.
     abind (store_and_reload_entry E account_entry
              \<lparr>wallet_entry_index = (case found of Some e \<Rightarrow> wallet_entry_index e | None \<Rightarrow> 0), entry_data = account\<rparr>) (\<lambda>e0.
     abind (afold (\<lambda>account_public_key e.
              abind (lookup_key (key_address E account_public_key)) (\<lambda>key.
              case key of
                None \<Rightarrow>
                  abind (store_key_at n E K ((new_KeyData E)\<lparr>kd_account_address := key_address E account_public_key,
                           kd_public_key := account_public_key\<rparr>)) (\<lambda>_. aret e)
              | Some k \<Rightarrow>
                  if \<not> has_private_key (entry_data k) then aret e
                  else
                    abind (if \<not> is_my_account (entry_data e)
                           then store_and_reload_entry E account_entry (e\<lparr>entry_data := (entry_data e)\<lparr>is_my_account := True\<rparr>\<rparr>)
                           else aret e) (\<lambda>e'.
                    abind (if kd_account_address (entry_data k) \<noteq> wallet_owner_address E e'
                           then store_key_at n E K ((entry_data k)\<lparr>kd_account_address := wallet_owner_address E e'\<rparr>)
                           else aret ()) (\<lambda>_. aret e'))))
            (account_keys E (ad_account account)) e0) (\<lambda>_.
       afold (\<lambda>account_public_key _.
         abind (lookup_key (key_address E account_public_key)) (\<lambda>key.
         if (case key of Some k \<Rightarrow> has_private_key (entry_data k) | None \<Rightarrow> False) \<or> pw = 0 then aret ()
         else
           abind (case found of Some cc \<Rightarrow> aret cc | None \<Rightarrow> athrow null_optional) (\<lambda>cc.
           abind (lookup_key (wallet_owner_address E cc)) (\<lambda>owner_key_entry.
           case owner_key_entry of
             None \<Rightarrow> aret ()
           | Some ok \<Rightarrow>
               if \<not> has_private_key (entry_data ok) then aret ()
               else
                 abind (aread (\<lambda>_. decrypt_private_key K pw (entry_data ok))) (\<lambda>owner_key.
                 abind assert_open (\<lambda>_.
                 let active_private_key = account_child K owner_key 0;
                     active_public_key = get_public_key K active_private_key
                 in
                 if active_public_key = account_public_key then
                   abind (aread (\<lambda>_. encrypt_private_key K pw active_private_key
                     ((new_KeyData E)\<lparr>kd_account_address := key_address E active_public_key,
                        kd_public_key := active_public_key\<rparr>))) (store_key_at n E K)
                 else aret ()))))))
         (account_keys E (ad_account account)) ()))))))"

declare store_key_at.simps [simp del] store_account_at.simps [simp del]

definition store_key :: "env \<Rightarrow> wallet_lib \<Rightarrow> KeyData \<Rightarrow> unit wallet_act" where
  "store_key = store_key_at 4"

definition store_account :: "env \<Rightarrow> wallet_lib \<Rightarrow> AccountData \<Rightarrow> password \<Rightarrow> unit wallet_act" where
  "store_account = store_account_at 4"

definition new_AccountData :: "AccountEntry \<Rightarrow> AccountData" where
  "new_AccountData a = \<lparr>ad_account = a, is_my_account = False, approved = 0, is_favorite = False,
     block_production_enabled = False, last_used_gen_sequence = 0, private_data = []\<rparr>"

text \<open>The overload for an account of the chain, which keeps the data of the wallet.\<close>

definition store_chain_account :: "env \<Rightarrow> wallet_lib \<Rightarrow> AccountEntry \<Rightarrow> password \<Rightarrow> unit wallet_act" where
  "store_chain_account E K a pw =
     abind (lookup_account_by_address (owner_address E a)) (\<lambda>found.
       store_account E K (case found of
           Some e \<Rightarrow> (entry_data e)\<lparr>ad_account := a\<rparr>
         | None \<Rightarrow> new_AccountData a) pw)"

definition import_key :: "env \<Rightarrow> wallet_lib \<Rightarrow> password \<Rightarrow> string \<Rightarrow> private_key \<Rightarrow> bool \<Rightarrow> unit wallet_act" where
  "import_key E K pw account_name private move_existing =
     abind (lookup_account_by_name account_name) (\<lambda>account.
     case account of
       None \<Rightarrow> athrow assert_exception
     | Some a \<Rightarrow>
         abind (lookup_key (key_address E (get_public_key K private))) (\<lambda>found.
         abind (case found of
                  None \<Rightarrow> aret (new_KeyData E)
                | Some k \<Rightarrow>
                    abind (assert_that (move_existing \<or> kd_account_address (entry_data k) = wallet_owner_address E a)) (\<lambda>_.
                      aret (entry_data k))) (\<lambda>k.
         abind (aread (\<lambda>_. encrypt_private_key K pw private
                  (k\<lparr>kd_account_address := wallet_owner_address E a, kd_public_key := get_public_key K private\<rparr>)))
           (store_key E K))))"

end
