(* ===== verification/Wallet_Accounts.thy ===== *)
theory Wallet_Accounts
  imports Wallet_Db
begin

text \<open>
  The operations of \<open>wallet/WalletDb.cpp\<close> on top of \<open>store_key\<close> and \<open>store_account\<close>: new accounts and
  keys, contacts, transactions, settings, renaming and removal, and the password.
\<close>

section \<open>New accounts and keys\<close>

text \<open>
  The loops that look for an unused key count in 32 bits and throw when the counter wraps. The argument
  is the last number tried; \<open>None\<close> is the overflow.
\<close>

function next_unused :: "(nat \<Rightarrow> bool) \<Rightarrow> nat \<Rightarrow> nat option" where
  "next_unused used n =
     (if n + 1 \<ge> 2 ^ 32 then None
      else if used (n + 1) then next_unused used (n + 1)
      else Some (n + 1))"
  by pat_completeness auto

termination next_unused
  by (relation "measure (\<lambda>(_, n). 2 ^ 32 - n)") auto

declare next_unused.simps [simp del]

definition owns_key :: "WalletDb \<Rightarrow> address \<Rightarrow> bool" where
  "owns_key w a = (case key_at w a of Some k \<Rightarrow> has_private_key (entry_data k) | None \<Rightarrow> False)"

definition account_at_address :: "WalletDb \<Rightarrow> address \<Rightarrow> WalletAccountEntry option" where
  "account_at_address w a = indexed_account (\<lambda>w. address_to_account_index w a) w"

definition or_throw :: "chain_error \<Rightarrow> 'a option \<Rightarrow> ('s, 'a) act" where
  "or_throw e x = (case x of Some y \<Rightarrow> aret y | None \<Rightarrow> athrow e)"

definition new_AccountEntry :: "env \<Rightarrow> AccountEntry" where
  "new_AccountEntry E = \<lparr>acc_id = 0, acc_name = [], acc_public_data = [], acc_owner_key = null_key E,
     acc_active_key_history = [], acc_registration_date = 0, acc_last_update = 0, acc_delegate_info = None,
     acc_meta_data = None\<rparr>"

definition taken_child :: "env \<Rightarrow> wallet_lib \<Rightarrow> extended_key \<Rightarrow> WalletDb \<Rightarrow> nat \<Rightarrow> bool" where
  "taken_child E K master w key_index =
     (let owner_private_key = master_child K master key_index;
          owner_addr = key_address E (get_public_key K owner_private_key);
          active_addr = key_address E (get_public_key K (account_child K owner_private_key 0))
      in account_at_address w owner_addr \<noteq> None \<or> owns_key w owner_addr \<or>
         account_at_address w active_addr \<noteq> None \<or> owns_key w active_addr)"

definition generate_new_account :: "env \<Rightarrow> wallet_lib \<Rightarrow> password \<Rightarrow> string \<Rightarrow> variant \<Rightarrow> public_key wallet_act" where
  "generate_new_account E K pw account_name data =
     abind (lookup_account_by_name account_name) (\<lambda>found.
     abind (assert_that (found = None)) (\<lambda>_.
     abind get_last_wallet_child_key_index (\<lambda>last_index.
     abind (assert_that (last_index + 1 < 2 ^ 32)) (\<lambda>_.
     abind (aget wallet_master_key) (\<lambda>mk.
     abind (or_throw null_optional mk) (\<lambda>m.
     abind (aread (\<lambda>_. decrypt_master_key K pw (entry_data m))) (\<lambda>master.
     abind (aget (\<lambda>w. next_unused (taken_child E K master w) last_index)) (\<lambda>unused.
     abind (or_throw assert_exception unused) (\<lambda>key_index.
     let owner_private_key = master_child K master key_index;
         active_private_key = account_child K owner_private_key 0;
         owner_public_key = get_public_key K owner_private_key;
         active_public_key = get_public_key K active_private_key;
         owner_addr = key_address E owner_public_key
     in
     abind (aread (\<lambda>_. encrypt_private_key K pw active_private_key
       ((new_KeyData E)\<lparr>kd_account_address := owner_addr, kd_public_key := active_public_key\<rparr>))) (\<lambda>active_data.
     abind (aread (\<lambda>_. encrypt_private_key K pw owner_private_key
       ((new_KeyData E)\<lparr>kd_account_address := owner_addr, kd_public_key := owner_public_key\<rparr>))) (\<lambda>owner_data.
     abind (aread (\<lambda>_. set_active_key ((new_AccountEntry E)\<lparr>acc_name := account_name, acc_owner_key := owner_public_key\<rparr>)
       (wall_clock E) active_public_key)) (\<lambda>a.
     abind (store_key E K active_data) (\<lambda>_.
     abind (set_last_wallet_child_key_index E key_index) (\<lambda>_.
     abind (store_key E K (owner_data\<lparr>gen_seq_number := key_index\<rparr>)) (\<lambda>_.
     abind (store_account E K ((new_AccountData (a\<lparr>acc_last_update := wall_clock E\<rparr>))\<lparr>is_my_account := True,
              private_data := data\<rparr>) 0) (\<lambda>_.
       aret owner_public_key))))))))))))))))"

definition generate_new_account_child_key :: "env \<Rightarrow> wallet_lib \<Rightarrow> password \<Rightarrow> string \<Rightarrow> private_key wallet_act" where
  "generate_new_account_child_key E K pw account_name =
     abind (lookup_account_by_name account_name) (\<lambda>found.
     abind (or_throw assert_exception found) (\<lambda>e.
     let account = entry_data e in
     abind (aread (\<lambda>_. is_retracted E (ad_account account))) (\<lambda>retracted.
     abind (assert_that (\<not> retracted)) (\<lambda>_.
     abind (assert_that (is_my_account account)) (\<lambda>_.
     abind (aread (\<lambda>_. active_address E (ad_account account))) (\<lambda>addr.
     abind (lookup_key addr) (\<lambda>key.
     abind (or_throw assert_exception key) (\<lambda>k.
     abind (assert_that (has_private_key (entry_data k))) (\<lambda>_.
     abind (aread (\<lambda>_. decrypt_private_key K pw (entry_data k))) (\<lambda>active_private_key.
     abind (aget (\<lambda>w. next_unused (\<lambda>n. owns_key w (key_address E (get_public_key K (account_child K active_private_key n))))
       (last_used_gen_sequence account))) (\<lambda>unused.
     abind (or_throw assert_exception unused) (\<lambda>seq_num.
     let child = account_child K active_private_key seq_num in
     abind (aread (\<lambda>_. encrypt_private_key K pw child ((new_KeyData E)\<lparr>
       kd_account_address := owner_address E (ad_account account), kd_public_key := get_public_key K child\<rparr>))) (\<lambda>data.
     abind (store_account E K (account\<lparr>last_used_gen_sequence := seq_num\<rparr>) 0) (\<lambda>_.
     abind (store_key E K (data\<lparr>gen_seq_number := seq_num\<rparr>)) (\<lambda>_.
       aret child)))))))))))))))"

definition generate_new_one_time_key :: "env \<Rightarrow> wallet_lib \<Rightarrow> password \<Rightarrow> private_key \<Rightarrow> private_key wallet_act" where
  "generate_new_one_time_key E K pw generated =
     abind (lookup_key (key_address E (get_public_key K generated))) (\<lambda>found.
     abind (assert_that (found = None)) (\<lambda>_.
     abind (aread (\<lambda>_. encrypt_private_key K pw generated
       ((new_KeyData E)\<lparr>kd_public_key := get_public_key K generated\<rparr>))) (\<lambda>data.
     abind (store_key E K data) (\<lambda>_. aret generated))))"

definition cache_memo :: "env \<Rightarrow> wallet_lib \<Rightarrow> private_key \<Rightarrow> bool \<Rightarrow> private_key \<Rightarrow> password \<Rightarrow> unit wallet_act" where
  "cache_memo E K owner_private has_valid_signature account_private pw =
     abind (aread (\<lambda>_. encrypt_private_key K pw owner_private ((new_KeyData E)\<lparr>
       kd_account_address := key_address E (get_public_key K account_private),
       kd_public_key := get_public_key K owner_private\<rparr>))) (\<lambda>data.
       store_key E K (data\<lparr>valid_from_signature := has_valid_signature\<rparr>))"

definition add_contact_account :: "env \<Rightarrow> wallet_lib \<Rightarrow> AccountEntry \<Rightarrow> variant \<Rightarrow> unit wallet_act" where
  "add_contact_account E K a data =
     abind (lookup_account_by_name (acc_name a)) (\<lambda>found.
     abind (assert_that (found = None)) (\<lambda>_.
     abind (lookup_key (key_address E (acc_owner_key a))) (\<lambda>key.
     abind (assert_that (key = None)) (\<lambda>_.
       store_account E K ((new_AccountData a)\<lparr>private_data := data\<rparr>) 0))))"

section \<open>Removing and renaming accounts\<close>

text \<open>The keys of an account, empty ones included, as they are taken out of the index.\<close>

definition unindexed_keys :: "AccountEntry \<Rightarrow> public_key list" where
  "unindexed_keys a =
     acc_owner_key a # map snd (acc_active_key_history a) @
     (case acc_delegate_info a of None \<Rightarrow> [] | Some d \<Rightarrow> map snd (signing_key_history d))"

definition unindex_account :: "env \<Rightarrow> WalletAccountEntry \<Rightarrow> WalletDb \<Rightarrow> WalletDb" where
  "unindex_account E e w =
     (let a = ad_account (entry_data e) in
      w\<lparr>w_accounts := smap_del (wallet_entry_index e) (w_accounts w),
        address_to_account_index :=
          fold (\<lambda>k m. m(key_address E k := None)) (unindexed_keys a) (address_to_account_index w),
        name_to_account_index := (name_to_account_index w)(acc_name a := None),
        account_id_to_index := (account_id_to_index w)(acc_id a := None)\<rparr>)"

definition remove_contact_account :: "env \<Rightarrow> string \<Rightarrow> unit wallet_act" where
  "remove_contact_account E account_name =
     abind (lookup_account_by_name account_name) (\<lambda>found.
     abind (or_throw assert_exception found) (\<lambda>e.
     abind (assert_that (\<not> is_my_account (entry_data e))) (\<lambda>_.
       amodify (unindex_account E e))))"

definition remove_stored :: "int list \<Rightarrow> WalletDb \<Rightarrow> WalletDb" where
  "remove_stored indices w = w\<lparr>w_entrys := fold smap_del indices (w_entrys w)\<rparr>"

definition remove_contracts :: "address \<Rightarrow> WalletDb \<Rightarrow> WalletDb" where
  "remove_contracts a w =
     (let es = (case contracts_of_wallet w a of Some es \<Rightarrow> es | None \<Rightarrow> []) in
      remove_stored (map wallet_entry_index es)
        (w\<lparr>id_to_contract := fold (\<lambda>e m. m(con_id (entry_data e) := None)) es (id_to_contract w),
           contracts_of_wallet := (contracts_of_wallet w)(a := None)\<rparr>))"

definition forget_derived :: "env \<Rightarrow> public_key \<Rightarrow> WalletDb \<Rightarrow> WalletDb" where
  "forget_derived E k w =
     w\<lparr>btc_to_alp_address := fold (\<lambda>d m. m(d := None)) (derived_addresses E k) (btc_to_alp_address w)\<rparr>"

text \<open>The entry of a key that can still be found under its address is removed from the file.\<close>

definition remove_found_key :: "address \<Rightarrow> unit wallet_act" where
  "remove_found_key a =
     abind (lookup_key a) (\<lambda>found.
     amodify (case found of Some k \<Rightarrow> remove_stored [wallet_entry_index k] | None \<Rightarrow> (\<lambda>w. w)))"

definition remove_cached_key :: "address \<Rightarrow> WalletDb \<Rightarrow> WalletDb" where
  "remove_cached_key a w =
     (case map_of (w_keys w) a of
        Some k \<Rightarrow> (remove_stored [wallet_entry_index k] w)\<lparr>w_keys := smap_del a (w_keys w)\<rparr>
      | None \<Rightarrow> w)"

text \<open>\<open>remove_account\<close> ends with the removal of every transaction of the wallet.\<close>

definition remove_all_transactions :: "WalletDb \<Rightarrow> WalletDb" where
  "remove_all_transactions w =
     (remove_stored (map (\<lambda>(_, t). wallet_entry_index t) (w_transactions w)) w)\<lparr>w_transactions := []\<rparr>"

definition remove_account :: "env \<Rightarrow> string \<Rightarrow> unit wallet_act" where
  "remove_account E account_name =
     abind (lookup_account_by_name account_name) (\<lambda>found.
     case found of
       None \<Rightarrow> aret ()
     | Some e \<Rightarrow>
         let a = ad_account (entry_data e) in
         abind (amodify (\<lambda>w. remove_stored [wallet_entry_index e]
                  (remove_contracts (owner_address E a) (unindex_account E e w)))) (\<lambda>_.
         abind (amodify (forget_derived E (acc_owner_key a))) (\<lambda>_.
         abind (if is_delegate a then abind (aread (\<lambda>_. signing_key a)) (\<lambda>sk. amodify (forget_derived E sk)) else aret ()) (\<lambda>_.
         abind (aread (\<lambda>_. active_key a)) (\<lambda>ak.
         abind (amodify (forget_derived E ak)) (\<lambda>_.
         abind (remove_found_key (owner_address E a)) (\<lambda>_.
         abind (remove_found_key (key_address E ak)) (\<lambda>_.
         abind (if is_delegate a then abind (aread (\<lambda>_. signing_address E a)) remove_found_key else aret ()) (\<lambda>_.
         abind (amodify (remove_cached_key (owner_address E a))) (\<lambda>_.
         abind (amodify (remove_cached_key (key_address E ak))) (\<lambda>_.
         abind (if is_delegate a then abind (aread (\<lambda>_. signing_address E a)) (\<lambda>sa. amodify (remove_cached_key sa)) else aret ()) (\<lambda>_.
           amodify remove_all_transactions))))))))))))"

definition rename_account :: "env \<Rightarrow> public_key \<Rightarrow> string \<Rightarrow> unit wallet_act" where
  "rename_account E old_account_key new_account_name =
     abind (lookup_account_by_address (key_address E old_account_key)) (\<lambda>found.
     abind (or_throw assert_exception found) (\<lambda>old.
     let i = wallet_entry_index old;
         old_name = acc_name (ad_account (entry_data old));
         e = old\<lparr>entry_data := (entry_data old)\<lparr>ad_account := (ad_account (entry_data old))\<lparr>acc_name := new_account_name\<rparr>\<rparr>\<rparr>;
         a = ad_account (entry_data e)
     in
     abind (amodify (\<lambda>w.
       let names = (name_to_account_index w)(new_account_name \<mapsto> i) in
       w\<lparr>name_to_account_index := (case names old_name of
             Some j \<Rightarrow> if j = i then names(old_name := None) else names
           | None \<Rightarrow> names(old_name \<mapsto> 0)),
         w_accounts := smap_set i e (w_accounts w),
         address_to_account_index :=
           fold (\<lambda>k m. m(key_address E k \<mapsto> i)) (acc_owner_key a # map snd (acc_active_key_history a)) (address_to_account_index w)\<rparr>)) (\<lambda>_.
     abind (store_and_reload_entry E account_entry e) (\<lambda>_. aret ()))))"

section \<open>Contacts, transactions, settings and contracts\<close>

text \<open>The data of a contact is the string of its variant, which is not null.\<close>

definition lookup_contact :: "string \<Rightarrow> ContactData WalletEntry option wallet_act" where
  "lookup_contact data = abind assert_open (\<lambda>_. aget (\<lambda>w. w_contacts w data))"

definition lookup_contact_by_label :: "string \<Rightarrow> ContactData WalletEntry option wallet_act" where
  "lookup_contact_by_label label =
     abind assert_open (\<lambda>_.
     abind (assert_that (label \<noteq> [])) (\<lambda>_.
     abind (aget (\<lambda>w. label_to_account_or_contact w label)) (\<lambda>data.
     case data of Some d \<Rightarrow> lookup_contact d | None \<Rightarrow> aret None)))"

definition remove_item :: "int \<Rightarrow> unit wallet_act" where
  "remove_item i = amodify (remove_stored [i])"

definition store_contact :: "env \<Rightarrow> ContactData \<Rightarrow> ContactData WalletEntry wallet_act" where
  "store_contact E contact =
     abind assert_open (\<lambda>_.
     abind (assert_that (contact_label contact \<noteq> [])) (\<lambda>_.
     abind (lookup_contact_by_label (contact_label contact)) (\<lambda>same_label.
     abind (case same_label of
              Some e \<Rightarrow> if contact_data (entry_data e) \<noteq> contact_data contact then athrow (exn 20045) else aret ()
            | None \<Rightarrow> aret ()) (\<lambda>_.
     abind (lookup_contact (contact_data contact)) (\<lambda>found.
     abind (case found of
              Some e \<Rightarrow>
                if contact_label (entry_data e) \<noteq> contact_label contact then
                  amodify (\<lambda>w. w\<lparr>label_to_account_or_contact :=
                    (label_to_account_or_contact w)(contact_label (entry_data e) := None)\<rparr>)
                else aret ()
            | None \<Rightarrow> aret ()) (\<lambda>_.
       store_and_reload_entry E contact_entry
         \<lparr>wallet_entry_index = (case found of Some e \<Rightarrow> wallet_entry_index e | None \<Rightarrow> 0), entry_data = contact\<rparr>))))))"

definition remove_contact :: "string \<Rightarrow> ContactData WalletEntry option wallet_act" where
  "remove_contact data =
     abind (lookup_contact data) (\<lambda>found.
     case found of
       None \<Rightarrow> aret None
     | Some e \<Rightarrow>
         abind (amodify (\<lambda>w. w\<lparr>label_to_account_or_contact :=
                    (label_to_account_or_contact w)(contact_label (entry_data e) := None),
                  w_contacts := (w_contacts w)(data := None)\<rparr>)) (\<lambda>_.
         abind (remove_item (wallet_entry_index e)) (\<lambda>_. aret (Some e))))"

definition remove_contact_by_label :: "string \<Rightarrow> ContactData WalletEntry option wallet_act" where
  "remove_contact_by_label label =
     abind (lookup_contact_by_label label) (\<lambda>found.
     case found of Some e \<Rightarrow> remove_contact (contact_data (entry_data e)) | None \<Rightarrow> aret None)"

definition lookup_transaction :: "trx_id \<Rightarrow> TransactionData WalletEntry option wallet_act" where
  "lookup_transaction tid =
     abind assert_open (\<lambda>_.
     aget (\<lambda>w. case id_to_transaction_index w tid of Some i \<Rightarrow> map_of (w_transactions w) i | None \<Rightarrow> None))"

definition wallet_store_transaction :: "env \<Rightarrow> TransactionData \<Rightarrow> unit wallet_act" where
  "wallet_store_transaction E t =
     abind assert_open (\<lambda>_.
     abind (assert_that (td_entry_id t \<noteq> 0)) (\<lambda>_.
     abind (assert_that (td_is_virtual t \<or> trx_id E (td_trx t) \<noteq> trx_id E empty_transaction)) (\<lambda>_.
     abind (lookup_transaction (td_entry_id t)) (\<lambda>found.
     abind (store_and_reload_entry E transaction_entry
       \<lparr>wallet_entry_index = (case found of Some e \<Rightarrow> wallet_entry_index e | None \<Rightarrow> 0), entry_data = t\<rparr>) (\<lambda>_. aret ())))))"

definition remove_transaction :: "trx_id \<Rightarrow> unit wallet_act" where
  "remove_transaction entry_id =
     abind (lookup_transaction entry_id) (\<lambda>found.
     case found of
       None \<Rightarrow> aret ()
     | Some e \<Rightarrow> abind (remove_item (wallet_entry_index e)) (\<lambda>_.
         amodify (\<lambda>w. w\<lparr>w_transactions := smap_del entry_id (w_transactions w)\<rparr>)))"

definition wallet_pending_transactions :: "WalletDb \<Rightarrow> TransactionData WalletEntry list" where
  "wallet_pending_transactions w =
     filter (\<lambda>e. \<not> td_is_virtual (entry_data e) \<and> \<not> td_is_confirmed (entry_data e)) (map snd (w_transactions w))"

definition store_setting :: "env \<Rightarrow> string \<Rightarrow> variant \<Rightarrow> unit wallet_act" where
  "store_setting E name v =
     abind (aget (\<lambda>w. w_settings w name)) (\<lambda>found.
     abind (case found of
              Some e \<Rightarrow> aret (e\<lparr>entry_data := (entry_data e)\<lparr>setting_value := v\<rparr>\<rparr>)
            | None \<Rightarrow> abind (new_wallet_entry_index E) (\<lambda>i.
                aret \<lparr>wallet_entry_index = i, entry_data = \<lparr>setting_name = name, setting_value = v\<rparr>\<rparr>)) (\<lambda>e.
     abind (amodify (\<lambda>w. w\<lparr>w_settings := (w_settings w)(name \<mapsto> e)\<rparr>)) (\<lambda>_.
     abind (store_and_reload_entry E setting_entry e) (\<lambda>_. aret ()))))"

definition store_contract :: "env \<Rightarrow> ContractEntry \<Rightarrow> unit wallet_act" where
  "store_contract E c =
     abind assert_open (\<lambda>_.
     abind (aget (\<lambda>w. id_to_contract w (con_id c))) (\<lambda>found.
     case found of
       Some _ \<Rightarrow> aret ()
     | None \<Rightarrow> abind (store_and_reload_entry E contract_entry \<lparr>wallet_entry_index = 0, entry_data = c\<rparr>) (\<lambda>_. aret ())))"

section \<open>The password\<close>

definition validate_password :: "wallet_lib \<Rightarrow> password \<Rightarrow> bool wallet_act" where
  "validate_password K pw =
     abind (aget wallet_master_key) (\<lambda>mk.
     abind (or_throw assert_exception mk) (\<lambda>m. aret (mk_checksum (entry_data m) = sha512_hash K pw)))"

definition set_master_key :: "env \<Rightarrow> wallet_lib \<Rightarrow> extended_key \<Rightarrow> password \<Rightarrow> unit wallet_act" where
  "set_master_key E K key pw =
     abind (aread (\<lambda>_. encrypt_master_key K pw key)) (\<lambda>m.
     abind (store_and_reload_entry E master_key_entry \<lparr>wallet_entry_index = -1, entry_data = m\<rparr>) (\<lambda>_. aret ()))"

text \<open>The loop of \<open>change_password\<close> runs over copies of the entries of the map it writes to.\<close>

definition change_password :: "env \<Rightarrow> wallet_lib \<Rightarrow> password \<Rightarrow> password \<Rightarrow> unit wallet_act" where
  "change_password E K old_password new_password =
     abind assert_open (\<lambda>_.
     abind (aget wallet_master_key) (\<lambda>mk.
     abind (or_throw null_optional mk) (\<lambda>m.
     abind (aread (\<lambda>_. decrypt_master_key K old_password (entry_data m))) (\<lambda>master.
     abind (set_master_key E K master new_password) (\<lambda>_.
     abind (aget w_keys) (\<lambda>keys.
       afold (\<lambda>(_, k) _.
         if \<not> has_private_key (entry_data k) then aret ()
         else
           abind (aread (\<lambda>_. decrypt_private_key K old_password (entry_data k))) (\<lambda>private.
           abind (aread (\<lambda>_. encrypt_private_key K new_password private (entry_data k))) (\<lambda>data.
           abind (store_and_reload_entry E key_entry (k\<lparr>entry_data := data\<rparr>)) (\<lambda>_. aret ())))) keys ()))))))"

end
