(* ===== verification/Wallet_Laws.thy ===== *)
theory Wallet_Laws
  imports Wallet_Accounts
begin

text \<open>
  The caches of a wallet agree with its entries, \<open>store_key\<close> and \<open>store_account\<close> end and keep this,
  and what is left of it after the wallet has been closed and opened again. The proofs are in
  terms of weakest preconditions of actions.
\<close>

section \<open>Weakest preconditions\<close>

text \<open>\<open>Q\<close> holds where the action returns and \<open>R\<close> where it throws; it does not diverge.\<close>

definition awp :: "('s, 'a) act \<Rightarrow> ('a \<Rightarrow> 's \<Rightarrow> bool) \<Rightarrow> ('s \<Rightarrow> bool) \<Rightarrow> 's \<Rightarrow> bool" where
  "awp m Q R s = (case m s of (Returns x, s') \<Rightarrow> Q x s' | (Throws e, s') \<Rightarrow> R s' | (Diverges, s') \<Rightarrow> False)"

lemma awp_simps [simp]:
  "awp (aret x) Q1 R s = Q1 x s" "awp (athrow e) Q2 R s = R s" "awp (aget f) Q3 R s = Q3 (f s) s"
  "awp (amodify g) Q4 R s = Q4 () (g s)"
  "awp (aread h) Q5 R s = (case h s of Inl _ \<Rightarrow> R s | Inr x \<Rightarrow> Q5 x s)"
  "awp (abind m n) Q6 R s = awp m (\<lambda>x. awp (n x) Q6 R) R s"
  "awp (assert_that b) Q4 R s = (if b then Q4 () s else R s)"
  "awp (or_throw e y) Q7 R s = (case y of Some y \<Rightarrow> Q7 y s | None \<Rightarrow> R s)"
  by (auto simp: awp_def act_defs assert_that_def or_throw_def split: outcome.split prod.split sum.split option.split)

lemma awp_points [simp]: "awp (aret x) Q R = Q x" "awp (abind m n) Q' R = awp m (\<lambda>x. awp (n x) Q' R) R"
  by (rule ext, simp)+

lemma awp_weaken: "awp m Q R s \<Longrightarrow> (\<And>x s'. Q x s' \<Longrightarrow> Q' x s') \<Longrightarrow> (\<And>s'. R s' \<Longrightarrow> R' s') \<Longrightarrow> awp m Q' R' s"
  by (auto simp: awp_def split: outcome.splits prod.splits)

lemma awp_afold:
  assumes "Q y s" "\<And>x y s. x \<in> set xs \<Longrightarrow> Q y s \<Longrightarrow> awp (f x y) Q R s"
  shows "awp (afold f xs y) Q R s"
  using assms
proof (induction xs arbitrary: y s)
  case (Cons x xs)
  have "awp (f x y) Q R s" using Cons.prems by simp
  then show ?case using Cons.IH Cons.prems(2) by (auto intro: awp_weaken)
qed simp

lemma awp_open [simp]: "awp assert_open Q R w = (if wallet_is_open w then Q () w else R w)"
  by (simp add: assert_open_def)

lemma awp_lookups [simp]:
  "awp (lookup_key a) Q R w = (if wallet_is_open w then Q (key_at w a) w else R w)"
  "awp (lookup_account_by_address a) Q' R w = (if wallet_is_open w then Q' (account_at_address w a) w else R w)"
  by (simp_all add: lookup_key_def lookup_account_by_address_def account_at_address_def)

section \<open>Caches and entries\<close>

text \<open>No address belongs to two keys.\<close>

definition addresses_ok :: "env \<Rightarrow> bool" where
  "addresses_ok E \<longleftrightarrow> (\<forall>k k'. set (derived_addresses E k) \<inter> set (derived_addresses E k') \<noteq> {} \<longrightarrow> k = k')"

abbreviation entry_at :: "WalletDb \<Rightarrow> int \<Rightarrow> GenericWalletEntry option" where
  "entry_at w \<equiv> map_of (w_entrys w)"

abbreviation key_of :: "WalletKeyEntry \<Rightarrow> public_key" where
  "key_of k \<equiv> kd_public_key (entry_data k)"

text \<open>
  The caches of accounts, keys, properties and the master key are those of the entries; the index of
  keys finds every key under its addresses; the counter of entries is beyond the numbers given.
\<close>

definition counter_ok :: "WalletDb \<Rightarrow> bool" where
  "counter_ok w \<longleftrightarrow> (case w_properties w next_entry_number of
       None \<Rightarrow> (\<forall>i e. entry_at w i = Some e \<longrightarrow> i = -1)
     | Some p \<Rightarrow> wallet_entry_index p = 1 \<and>
         (\<exists>n \<ge> 2. wp_value (entry_data p) = int_variant n \<and> (\<forall>i e. entry_at w i = Some e \<longrightarrow> i < n)))"

definition caches_ok :: "env \<Rightarrow> WalletDb \<Rightarrow> bool" where
  "caches_ok E w \<longleftrightarrow>
     smap_ok (w_entrys w) \<and> smap_ok (w_accounts w) \<and> smap_ok (w_keys w) \<and>
     (\<forall>i e. entry_at w i = Some e \<longrightarrow> get_wallet_entry_index e = i \<and> i \<noteq> 0) \<and>
     (\<forall>i a. map_of (w_accounts w) i = Some a \<longleftrightarrow> entry_at w i = Some (account_entry a)) \<and>
     (\<forall>a k. map_of (w_keys w) a = Some k \<longleftrightarrow>
        entry_at w (wallet_entry_index k) = Some (key_entry k) \<and> a = key_address E (key_of k)) \<and>
     (\<forall>p e. w_properties w p = Some e \<longleftrightarrow>
        entry_at w (wallet_entry_index e) = Some (property_entry e) \<and> wp_key (entry_data e) = p) \<and>
     (\<forall>i m. entry_at w i = Some (master_key_entry m) \<longleftrightarrow> i = -1 \<and> wallet_master_key w = Some m)"

definition keys_indexed :: "env \<Rightarrow> WalletDb \<Rightarrow> bool" where
  "keys_indexed E w \<longleftrightarrow>
     (\<forall>d a. btc_to_alp_address w d = Some a \<longleftrightarrow>
        (\<exists>k. map_of (w_keys w) a = Some k \<and> d \<in> set (derived_addresses E (key_of k))))"

definition wallet_inv :: "env \<Rightarrow> WalletDb \<Rightarrow> bool" where
  "wallet_inv E w \<longleftrightarrow> wallet_is_open w \<and> caches_ok E w \<and> keys_indexed E w \<and> counter_ok w"

lemma key_at_iff:
  assumes "addresses_ok E" "wallet_inv E w"
  shows "key_at w (key_address E k) = Some e \<longleftrightarrow>
    key_of e = k \<and> entry_at w (wallet_entry_index e) = Some (key_entry e)"
proof -
  have mine: "key_address E k \<in> set (derived_addresses E k)" for k by (simp add: derived_addresses_def)
  have keys: "map_of (w_keys w) a = Some e \<longleftrightarrow>
      entry_at w (wallet_entry_index e) = Some (key_entry e) \<and> a = key_address E (key_of e)" for a e
    using assms(2) by (simp add: wallet_inv_def caches_ok_def)
  have btc: "btc_to_alp_address w d = Some a \<longleftrightarrow>
      (\<exists>k. map_of (w_keys w) a = Some k \<and> d \<in> set (derived_addresses E (key_of k)))" for d a
    using assms(2) by (simp add: wallet_inv_def keys_indexed_def)
  have eq: "key_of e' = k" if "key_address E k \<in> set (derived_addresses E (key_of e'))" for e'
    using that mine assms(1) unfolding addresses_ok_def by blast
  show ?thesis
  proof
    assume "key_at w (key_address E k) = Some e"
    then obtain a where a: "btc_to_alp_address w (key_address E k) = Some a" "map_of (w_keys w) a = Some e"
      by (auto simp: key_at_def split: option.splits)
    then have "key_address E k \<in> set (derived_addresses E (key_of e))" using btc by auto
    then show "key_of e = k \<and> entry_at w (wallet_entry_index e) = Some (key_entry e)" using a(2) keys eq by auto
  next
    assume e: "key_of e = k \<and> entry_at w (wallet_entry_index e) = Some (key_entry e)"
    then have k: "map_of (w_keys w) (key_address E k) = Some e" using keys by simp
    then have "btc_to_alp_address w (key_address E k) = Some (key_address E k)" using btc e mine by blast
    then show "key_at w (key_address E k) = Some e" using k by (simp add: key_at_def)
  qed
qed


section \<open>Writing an entry\<close>

text \<open>A number at which an entry of a kind may be written: a new one below the counter, or that of an entry of the kind.\<close>

definition below_counter :: "WalletDb \<Rightarrow> int \<Rightarrow> bool" where
  "below_counter w i \<longleftrightarrow> (\<exists>p n. w_properties w next_entry_number = Some p \<and>
     wp_value (entry_data p) = int_variant n \<and> i < n)"

definition fresh_number :: "WalletDb \<Rightarrow> int \<Rightarrow> bool" where
  "fresh_number w i \<longleftrightarrow> 2 \<le> i \<and> entry_at w i = None \<and> below_counter w i"

definition key_slot :: "WalletDb \<Rightarrow> int \<Rightarrow> public_key \<Rightarrow> bool" where
  "key_slot w i k \<longleftrightarrow>
     fresh_number w i \<and> (\<forall>j e. entry_at w j = Some (key_entry e) \<longrightarrow> key_of e \<noteq> k) \<or>
     (\<exists>e. entry_at w i = Some (key_entry e) \<and> key_of e = k)"

definition account_slot :: "WalletDb \<Rightarrow> int \<Rightarrow> bool" where
  "account_slot w i \<longleftrightarrow> fresh_number w i \<or> (\<exists>e. entry_at w i = Some (account_entry e))"

lemma wallet_invD:
  assumes "wallet_inv E w"
  shows "entry_at w i = Some e \<Longrightarrow> get_wallet_entry_index e = i \<and> i \<noteq> 0"
    and "map_of (w_accounts w) i = Some a \<longleftrightarrow> entry_at w i = Some (account_entry a)"
    and "map_of (w_keys w) d = Some k \<longleftrightarrow>
        entry_at w (wallet_entry_index k) = Some (key_entry k) \<and> d = key_address E (key_of k)"
    and "w_properties w p = Some pe \<longleftrightarrow>
        entry_at w (wallet_entry_index pe) = Some (property_entry pe) \<and> wp_key (entry_data pe) = p"
    and "entry_at w i = Some (master_key_entry m) \<longleftrightarrow> i = -1 \<and> wallet_master_key w = Some m"
    and "wallet_is_open w" "counter_ok w" "keys_indexed E w"
  using assms by (auto simp: wallet_inv_def caches_ok_def)

lemma master_at: "wallet_inv E w \<Longrightarrow> \<exists>m. entry_at w (-1) = Some (master_key_entry m)"
  using wallet_invD(5) [of E w "-1"] wallet_invD(6) [of E w] by (auto simp: wallet_is_open_def)

lemma number_below:
  assumes "wallet_inv E w" "entry_at w i = Some e"
  shows "i = -1 \<and> (\<exists>m. e = master_key_entry m) \<or> below_counter w i"
  using wallet_invD(7) [OF assms(1)] assms(2) master_at [OF assms(1)]
  by (auto simp: counter_ok_def below_counter_def split: option.splits)

lemma counter_ok_written:
  assumes "counter_ok w" "below_counter w i" "w_entrys w' = smap_set i e (w_entrys w)" "w_properties w' = w_properties w"
  shows "counter_ok w'"
  using assms by (fastforce simp: counter_ok_def below_counter_def split: option.splits)

lemma key_unique:
  assumes "wallet_inv E w" "entry_at w i = Some (key_entry e)" "entry_at w j = Some (key_entry e')" "key_of e = key_of e'"
  shows "i = j \<and> e = e'"
proof -
  have i: "wallet_entry_index e = i" "wallet_entry_index e' = j"
    using wallet_invD(1) [OF assms(1,2)] wallet_invD(1) [OF assms(1,3)] by simp_all
  then have "map_of (w_keys w) (key_address E (key_of e)) = Some e" "map_of (w_keys w) (key_address E (key_of e)) = Some e'"
    using wallet_invD(3) [OF assms(1)] assms(2-4) by simp_all
  then show ?thesis using i by simp
qed

lemma key_slotD:
  assumes "wallet_inv E w" "key_slot w i k"
  shows "i \<noteq> 0" "i \<noteq> -1" "below_counter w i" "entry_at w i = Some e' \<Longrightarrow> \<exists>e. e' = key_entry e \<and> key_of e = k"
    "entry_at w j = Some (key_entry e) \<Longrightarrow> key_of e = k \<Longrightarrow> j = i"
  using assms master_at [OF assms(1)] number_below [OF assms(1)] wallet_invD(1) [OF assms(1)] key_unique [OF assms(1)]
  by (auto simp: key_slot_def fresh_number_def)

definition write_entry :: "env \<Rightarrow> GenericWalletEntry \<Rightarrow> WalletDb \<Rightarrow> WalletDb" where
  "write_entry E e w = snd (load_generic_entry E e (w\<lparr>w_entrys := smap_set (get_wallet_entry_index e) e (w_entrys w)\<rparr>))"

lemma fold_map_upd: "fold (\<lambda>d m. m(f d \<mapsto> a)) ds m d = (if d \<in> f ` set ds then Some a else m d)"
  by (induction ds arbitrary: m) auto

lemma write_key_fields [simp]:
  "w_entrys (write_entry E (key_entry e) w) = smap_set (wallet_entry_index e) (key_entry e) (w_entrys w)"
  "w_entrys_open (write_entry E (key_entry e) w) = w_entrys_open w"
  "w_properties (write_entry E (key_entry e) w) = w_properties w"
  "wallet_master_key (write_entry E (key_entry e) w) = wallet_master_key w"
  "w_accounts (write_entry E (key_entry e) w) = w_accounts w"
  "w_keys (write_entry E (key_entry e) w) = smap_set (key_address E (key_of e)) e (w_keys w)"
  "address_to_account_index (write_entry E (key_entry e) w) = address_to_account_index w"
  "name_to_account_index (write_entry E (key_entry e) w) = name_to_account_index w"
  "account_id_to_index (write_entry E (key_entry e) w) = account_id_to_index w"
  "btc_to_alp_address (write_entry E (key_entry e) w) d =
     (if d \<in> set (derived_addresses E (key_of e)) then Some (key_address E (key_of e)) else btc_to_alp_address w d)"
  by (simp_all add: write_entry_def amodify_def load_key_entry_def Let_def fold_map_upd [where f = "\<lambda>d. d"])

lemma key_address_inj: "addresses_ok E \<Longrightarrow> key_address E k = key_address E k' \<longleftrightarrow> k = k'"
proof
  assume "addresses_ok E" "key_address E k = key_address E k'"
  moreover have "key_address E k \<in> set (derived_addresses E k)" "key_address E k' \<in> set (derived_addresses E k')"
    by (simp_all add: derived_addresses_def)
  ultimately show "k = k'" unfolding addresses_ok_def by force
qed simp

lemma write_key_inv:
  assumes "addresses_ok E" "wallet_inv E w" "key_slot w (wallet_entry_index e) (key_of e)"
  shows "wallet_inv E (write_entry E (key_entry e) w)"
proof -
  let ?w = "write_entry E (key_entry e) w" and ?i = "wallet_entry_index e"
  note inv = wallet_invD [OF assms(2)] and slot = key_slotD [OF assms(2,3)]
  have "smap_ok (w_entrys ?w) \<and> smap_ok (w_accounts ?w) \<and> smap_ok (w_keys ?w)"
    using assms(2) by (simp add: wallet_inv_def caches_ok_def smap_ok_set)
  moreover have "\<forall>i e. entry_at ?w i = Some e \<longrightarrow> get_wallet_entry_index e = i \<and> i \<noteq> 0"
    using slot(1) by (auto simp: inv(1))
  moreover have "\<forall>i a. map_of (w_accounts ?w) i = Some a \<longleftrightarrow> entry_at ?w i = Some (account_entry a)"
    by (auto simp: inv(2) dest: slot(4))
  moreover have "map_of (w_keys ?w) a = Some k \<longleftrightarrow>
      entry_at ?w (wallet_entry_index k) = Some (key_entry k) \<and> a = key_address E (key_of k)" for a k
    using slot(5) [of "wallet_entry_index k" k] slot(4) [of "key_entry k"]
    by (auto simp: inv(3) key_address_inj [OF assms(1)])
  moreover have "\<forall>p pe. w_properties ?w p = Some pe \<longleftrightarrow>
      entry_at ?w (wallet_entry_index pe) = Some (property_entry pe) \<and> wp_key (entry_data pe) = p"
    by (auto simp: inv(4) dest: slot(4))
  moreover have "\<forall>i m. entry_at ?w i = Some (master_key_entry m) \<longleftrightarrow> i = -1 \<and> wallet_master_key ?w = Some m"
    using slot(2) by (auto simp: inv(5) dest: slot(4))
  moreover have "counter_ok ?w"
    by (rule counter_ok_written [OF inv(7) slot(3)]) simp_all
  moreover have "keys_indexed E ?w"
    unfolding keys_indexed_def
  proof (intro allI)
    fix d a
    have btc: "btc_to_alp_address w d = Some a \<longleftrightarrow>
      (\<exists>k. map_of (w_keys w) a = Some k \<and> d \<in> set (derived_addresses E (key_of k)))"
      using inv(8) by (simp add: keys_indexed_def)
    have addr: "a = key_address E (key_of k)" if "map_of (w_keys w) a = Some k" for k using that inv(3) by simp
    show "btc_to_alp_address ?w d = Some a \<longleftrightarrow>
      (\<exists>k. map_of (w_keys ?w) a = Some k \<and> d \<in> set (derived_addresses E (key_of k)))"
    proof (cases "d \<in> set (derived_addresses E (key_of e))")
      case True
      have "d \<notin> set (derived_addresses E (key_of k))" if "map_of (w_keys w) a = Some k" "a \<noteq> key_address E (key_of e)" for k
      proof
        assume "d \<in> set (derived_addresses E (key_of k))"
        then have "key_of k = key_of e" using True assms(1) unfolding addresses_ok_def by blast
        then show False using that addr by simp
      qed
      then show ?thesis using True by (cases "a = key_address E (key_of e)") auto
    next
      case False
      have "a \<noteq> key_address E (key_of e)" if "map_of (w_keys w) a = Some k" "d \<in> set (derived_addresses E (key_of k))" for k
        using that False addr key_address_inj [OF assms(1), of "key_of k" "key_of e"] by auto
      then show ?thesis using False btc by (cases "a = key_address E (key_of e)") auto
    qed
  qed
  ultimately show ?thesis
    using inv(6) by (simp add: wallet_inv_def caches_ok_def wallet_is_open_def)
qed

lemma write_account_fields [simp]:
  "w_entrys (write_entry E (account_entry e) w) = smap_set (wallet_entry_index e) (account_entry e) (w_entrys w)"
  "w_entrys_open (write_entry E (account_entry e) w) = w_entrys_open w"
  "w_properties (write_entry E (account_entry e) w) = w_properties w"
  "wallet_master_key (write_entry E (account_entry e) w) = wallet_master_key w"
  "w_accounts (write_entry E (account_entry e) w) = smap_set (wallet_entry_index e) e (w_accounts w)"
  "w_keys (write_entry E (account_entry e) w) = w_keys w"
  "btc_to_alp_address (write_entry E (account_entry e) w) = btc_to_alp_address w"
  "address_to_account_index (write_entry E (account_entry e) w) a =
     (if a \<in> key_address E ` set (acc_owner_key (ad_account (entry_data e)) # history_keys E (ad_account (entry_data e)))
      then Some (wallet_entry_index e) else address_to_account_index w a)"
  "name_to_account_index (write_entry E (account_entry e) w) =
     (name_to_account_index w)(acc_name (ad_account (entry_data e)) \<mapsto> wallet_entry_index e)"
  unfolding write_entry_def
  by (simp_all add: amodify_def load_account_entry_def Let_def fold_map_upd [where f = "key_address E"] del: fold_simps)

lemma write_account_inv:
  assumes "wallet_inv E w" "account_slot w (wallet_entry_index e)"
  shows "wallet_inv E (write_entry E (account_entry e) w)"
proof -
  let ?w = "write_entry E (account_entry e) w" and ?i = "wallet_entry_index e"
  note inv = wallet_invD [OF assms(1)]
  have slot: "?i \<noteq> 0" "?i \<noteq> -1" "below_counter w ?i"
    using assms(2) inv(1) master_at [OF assms(1)] number_below [OF assms(1)] by (auto simp: account_slot_def fresh_number_def)
  have other: "\<exists>a. e' = account_entry a" if "entry_at w ?i = Some e'" for e'
    using that assms(2) by (auto simp: account_slot_def fresh_number_def)
  have "smap_ok (w_entrys ?w) \<and> smap_ok (w_accounts ?w) \<and> smap_ok (w_keys ?w)"
    using assms(1) by (simp add: wallet_inv_def caches_ok_def smap_ok_set)
  moreover have "\<forall>i e. entry_at ?w i = Some e \<longrightarrow> get_wallet_entry_index e = i \<and> i \<noteq> 0"
    using slot(1) by (auto simp: inv(1))
  moreover have "\<forall>i a. map_of (w_accounts ?w) i = Some a \<longleftrightarrow> entry_at ?w i = Some (account_entry a)"
    by (auto simp: inv(2))
  moreover have "\<forall>a k. map_of (w_keys ?w) a = Some k \<longleftrightarrow>
      entry_at ?w (wallet_entry_index k) = Some (key_entry k) \<and> a = key_address E (key_of k)"
    by (auto simp: inv(3) dest: other)
  moreover have "\<forall>p pe. w_properties ?w p = Some pe \<longleftrightarrow>
      entry_at ?w (wallet_entry_index pe) = Some (property_entry pe) \<and> wp_key (entry_data pe) = p"
    by (auto simp: inv(4) dest: other)
  moreover have "\<forall>i m. entry_at ?w i = Some (master_key_entry m) \<longleftrightarrow> i = -1 \<and> wallet_master_key ?w = Some m"
    using slot(2) by (auto simp: inv(5) dest: other)
  moreover have "counter_ok ?w" by (rule counter_ok_written [OF inv(7) slot(3)]) simp_all
  moreover have "keys_indexed E ?w" using inv(8) by (simp add: keys_indexed_def)
  ultimately show ?thesis
    using inv(6) by (simp add: wallet_inv_def caches_ok_def wallet_is_open_def)
qed

section \<open>New numbers\<close>

text \<open>The number for an entry changes the counter only.\<close>

definition numbered :: "WalletDb \<Rightarrow> WalletDb \<Rightarrow> bool" where
  "numbered w w' \<longleftrightarrow> w' = w\<lparr>w_entrys := w_entrys w', w_properties := w_properties w'\<rparr>"

lemma write_property_fields [simp]:
  "w_entrys (write_entry E (property_entry e) w) = smap_set (wallet_entry_index e) (property_entry e) (w_entrys w)"
  "w_properties (write_entry E (property_entry e) w) = (w_properties w)(wp_key (entry_data e) \<mapsto> e)"
  "numbered w (write_entry E (property_entry e) w)"
  by (simp_all add: write_entry_def amodify_def numbered_def)

lemma numbered_fields:
  assumes "numbered w w'"
  shows "w_entrys_open w' = w_entrys_open w" "wallet_master_key w' = wallet_master_key w"
    "w_accounts w' = w_accounts w" "w_keys w' = w_keys w" "btc_to_alp_address w' = btc_to_alp_address w"
    "address_to_account_index w' = address_to_account_index w" "name_to_account_index w' = name_to_account_index w"
  by (subst assms [unfolded numbered_def]; simp)+

lemma write_counter_inv:
  assumes "wallet_inv E w" "e = \<lparr>wallet_entry_index = 1, entry_data = \<lparr>wp_key = next_entry_number, wp_value = int_variant n\<rparr>\<rparr>"
    and "2 \<le> n" "\<And>i e. entry_at w i = Some e \<Longrightarrow> i < n"
    and "case w_properties w next_entry_number of None \<Rightarrow> entry_at w 1 = None | Some p \<Rightarrow> wallet_entry_index p = 1"
  shows "wallet_inv E (write_entry E (property_entry e) w)"
proof -
  let ?w = "write_entry E (property_entry e) w"
  note inv = wallet_invD [OF assms(1)] and same = numbered_fields [OF write_property_fields(3) [of w E e]]
  have e: "wallet_entry_index e = 1" "wp_key (entry_data e) = next_entry_number" by (simp_all add: assms(2))
  have at1: "entry_at w 1 = (case w_properties w next_entry_number of None \<Rightarrow> None | Some p \<Rightarrow> Some (property_entry p))"
    using assms(5) inv(4) [of next_entry_number "the (w_properties w next_entry_number)"]
    by (cases "w_properties w next_entry_number") simp_all
  then have other: "\<exists>p. e' = property_entry p \<and> w_properties w next_entry_number = Some p" if "entry_at w 1 = Some e'" for e'
    using that by (auto split: option.splits)
  have "smap_ok (w_entrys ?w) \<and> smap_ok (w_accounts ?w) \<and> smap_ok (w_keys ?w)"
    using assms(1) by (simp add: wallet_inv_def caches_ok_def smap_ok_set same)
  moreover have "\<forall>i e. entry_at ?w i = Some e \<longrightarrow> get_wallet_entry_index e = i \<and> i \<noteq> 0"
    by (auto simp: inv(1) e)
  moreover have "\<forall>i a. map_of (w_accounts ?w) i = Some a \<longleftrightarrow> entry_at ?w i = Some (account_entry a)"
    by (auto simp: inv(2) same e dest: other)
  moreover have "\<forall>a k. map_of (w_keys ?w) a = Some k \<longleftrightarrow>
      entry_at ?w (wallet_entry_index k) = Some (key_entry k) \<and> a = key_address E (key_of k)"
    by (auto simp: inv(3) same e dest: other)
  moreover have "\<forall>p pe. w_properties ?w p = Some pe \<longleftrightarrow>
      entry_at ?w (wallet_entry_index pe) = Some (property_entry pe) \<and> wp_key (entry_data pe) = p"
  proof (intro allI)
    fix p pe
    show "w_properties ?w p = Some pe \<longleftrightarrow>
      entry_at ?w (wallet_entry_index pe) = Some (property_entry pe) \<and> wp_key (entry_data pe) = p"
      using other [of "property_entry pe"] inv(4) [of p pe] inv(4) [of next_entry_number pe] e assms(5)
      by (cases "p = next_entry_number"; cases "wallet_entry_index pe = 1") auto
  qed
  moreover have "\<forall>i m. entry_at ?w i = Some (master_key_entry m) \<longleftrightarrow> i = -1 \<and> wallet_master_key ?w = Some m"
    by (auto simp: inv(5) same e dest: other)
  moreover have "counter_ok ?w" using assms(3,4) by (auto simp: counter_ok_def assms(2) e)
  moreover have "keys_indexed E ?w" using inv(8) by (simp add: keys_indexed_def same)
  ultimately show ?thesis
    using inv(6) by (simp add: wallet_inv_def caches_ok_def wallet_is_open_def same)
qed

lemma awp_write:
  assumes "load_generic_entry E e = amodify g"
  shows "awp (store_and_reload_generic_entry E e) Q R w =
    (if w_entrys_open w \<and> get_wallet_entry_index e \<noteq> 0 then Q () (write_entry E e w) else R w)"
  by (simp add: store_and_reload_generic_entry_def assms) (simp add: write_entry_def assms amodify_def)

lemma next_number_new:
  assumes "wallet_inv E w"
  shows "awp next_number (\<lambda>n w'. w' = w \<and> 2 \<le> n \<and> (\<forall>i e. entry_at w i = Some e \<longrightarrow> i < n) \<and>
    (case w_properties w next_entry_number of None \<Rightarrow> entry_at w 1 = None | Some p \<Rightarrow> wallet_entry_index p = 1)) R w"
proof (cases "w_properties w next_entry_number")
  case None
  have only: "i = -1" if "entry_at w i = Some e" for i e
    using that wallet_invD(7) [OF assms] None by (simp add: counter_ok_def)
  have "\<exists>m. e = master_key_entry m" if "entry_at w i = Some e" for i e
    using that master_at [OF assms] only [OF that] by auto
  moreover have "entry_at w (fst x) = Some (snd x)" if "x \<in> set (w_entrys w)" for x
  proof -
    have "distinct (map fst (w_entrys w))" using assms by (simp add: wallet_inv_def caches_ok_def smap_ok_distinct)
    then show ?thesis using that by (cases x) simp
  qed
  ultimately have "\<exists>m. snd x = master_key_entry m" if "x \<in> set (w_entrys w)" for x using that by blast
  then have "find (\<lambda>e. case e of old_next_record_number _ _ \<Rightarrow> True | _ \<Rightarrow> False) (map snd (w_entrys w)) = None"
    by (fastforce simp: find_None_iff)
  then have "old_record_number (w_entrys w) = None" by (simp add: old_record_number_def)
  moreover have "entry_at w 1 = None" using only by fastforce
  moreover have "i < 2" if "entry_at w i = Some e" for i e using only [OF that] by simp
  ultimately show ?thesis using None by (auto simp: next_number_def get_property_def)
next
  case (Some p)
  then show ?thesis
    using wallet_invD(7) [OF assms] by (auto simp: next_number_def get_property_def counter_ok_def)
qed

lemma new_number:
  assumes "wallet_inv E w"
  shows "awp (new_wallet_entry_index E) (\<lambda>n w'. wallet_inv E w' \<and> fresh_number w' n \<and> numbered w w') (\<lambda>w'. w' = w) w"
proof -
  have put: "awp (set_property_numbered E (athrow assert_exception) next_entry_number (int_variant (n + 1)))
      (\<lambda>_ w'. wallet_inv E w' \<and> fresh_number w' n \<and> numbered w w') (\<lambda>w'. w' = w) w"
    if n: "2 \<le> n" "\<forall>i e. entry_at w i = Some e \<longrightarrow> i < n"
      "case w_properties w next_entry_number of None \<Rightarrow> entry_at w 1 = None | Some p \<Rightarrow> wallet_entry_index p = 1" for n
  proof -
    define e where "e = \<lparr>wallet_entry_index = 1, entry_data = \<lparr>wp_key = next_entry_number, wp_value = int_variant (n + 1)\<rparr>\<rparr>"
    have "wallet_inv E (write_entry E (property_entry e) w)"
      by (rule write_counter_inv [OF assms e_def]) (use n in force)+
    moreover have "fresh_number (write_entry E (property_entry e) w) n"
      using n(1,2) by (auto simp: fresh_number_def below_counter_def e_def)
    moreover have "w_entrys_open w" using wallet_invD(6) [OF assms] by (simp add: wallet_is_open_def)
    moreover have "p\<lparr>entry_data := (entry_data p)\<lparr>wp_value := int_variant (n + 1)\<rparr>\<rparr> = e"
      if "w_properties w next_entry_number = Some p" for p
      using that n(3) wallet_invD(4) [OF assms, of next_entry_number p] by (cases p; cases "entry_data p") (simp add: e_def)
    ultimately show ?thesis
      by (cases "w_properties w next_entry_number") (auto simp: set_property_numbered_def awp_write e_def)
  qed
  show ?thesis
    unfolding new_wallet_entry_index_def awp_simps
    by (rule awp_weaken [OF next_number_new [OF assms, where R = "\<lambda>w'. w' = w"]]) (use put in auto)
qed

section \<open>Storing keys and accounts\<close>

definition same_accounts :: "WalletDb \<Rightarrow> WalletDb \<Rightarrow> bool" where
  "same_accounts w w' \<longleftrightarrow> w_accounts w' = w_accounts w \<and>
     address_to_account_index w' = address_to_account_index w \<and> name_to_account_index w' = name_to_account_index w"

lemma same_accounts_simps [simp, intro]:
  "same_accounts w w" "same_accounts w w' \<Longrightarrow> same_accounts w' w'' \<Longrightarrow> same_accounts w w''"
  "numbered w w' \<Longrightarrow> same_accounts w w'" "same_accounts w (write_entry E (key_entry k) w)"
  by (auto simp: same_accounts_def numbered_fields)

text \<open>An account that is loaded: it is found at its number, and under its keys and its name.\<close>

definition loaded :: "env \<Rightarrow> WalletAccountEntry \<Rightarrow> WalletDb \<Rightarrow> bool" where
  "loaded E e w \<longleftrightarrow> map_of (w_accounts w) (wallet_entry_index e) = Some e \<and>
     (\<forall>k \<in> set (account_keys E (ad_account (entry_data e))).
        address_to_account_index w (key_address E k) = Some (wallet_entry_index e)) \<and>
     name_to_account_index w (acc_name (ad_account (entry_data e))) = Some (wallet_entry_index e)"

lemma loaded_same: "same_accounts w w' \<Longrightarrow> loaded E e w' = loaded E e w"
  by (simp add: loaded_def same_accounts_def)

lemma set_account_keys: "set (account_keys E a) = insert (acc_owner_key a) (set (history_keys E a))"
proof -
  have "set (fold sset_insert ks acc) = set ks \<union> set acc" for ks acc :: "public_key list"
    by (induction ks arbitrary: acc) auto
  then show ?thesis by (simp add: account_keys_def)
qed

lemma loaded_written: "loaded E e (write_entry E (account_entry e) w)"
  by (simp add: loaded_def set_account_keys)

lemma loaded_found:
  assumes "loaded E e w" "k \<in> set (account_keys E (ad_account (entry_data e)))"
  shows "account_at_address w (key_address E k) = Some e"
  using assms by (simp add: loaded_def account_at_address_def indexed_account_def)

text \<open>What is known of the number of an entry before it is written: none yet, or that of its predecessor.\<close>

definition key_number :: "WalletDb \<Rightarrow> int \<Rightarrow> public_key \<Rightarrow> bool" where
  "key_number w i k \<longleftrightarrow>
     i = 0 \<and> (\<forall>j e. entry_at w j = Some (key_entry e) \<longrightarrow> key_of e \<noteq> k) \<or>
     (\<exists>e. entry_at w i = Some (key_entry e) \<and> key_of e = k)"

definition account_number :: "WalletDb \<Rightarrow> int \<Rightarrow> bool" where
  "account_number w i \<longleftrightarrow> i = 0 \<or> (\<exists>e. entry_at w i = Some (account_entry e))"

lemma numbered_keys:
  assumes "wallet_inv E w" "wallet_inv E w'" "numbered w w'"
  shows "entry_at w' j = Some (key_entry e) \<longleftrightarrow> entry_at w j = Some (key_entry e)"
proof -
  have "entry_at v j = Some (key_entry e) \<longleftrightarrow>
      wallet_entry_index e = j \<and> map_of (w_keys v) (key_address E (key_of e)) = Some e" if "wallet_inv E v" for v
    using wallet_invD(1) [OF that, of j "key_entry e"] wallet_invD(3) [OF that, of "key_address E (key_of e)" e] by auto
  then show ?thesis using assms numbered_fields(4) [OF assms(3)] by simp
qed

lemma store_key_entry:
  assumes "addresses_ok E" "wallet_inv E w" "key_number w (wallet_entry_index e) (key_of e)"
  shows "awp (store_and_reload_entry E key_entry e) (\<lambda>e' w'. wallet_inv E w' \<and> entry_data e' = entry_data e \<and>
    entry_at w' (wallet_entry_index e') = Some (key_entry e') \<and> same_accounts w w' \<and>
    w_keys w' = smap_set (key_address E (key_of e)) e' (w_keys w)) (\<lambda>w'. wallet_inv E w' \<and> w_keys w' = w_keys w) w"
proof -
  have put: "awp (store_and_reload_generic_entry E (key_entry e')) (\<lambda>_ w''. wallet_inv E w'' \<and>
      entry_at w'' (wallet_entry_index e') = Some (key_entry e') \<and> same_accounts w' w'' \<and>
      w_keys w'' = smap_set (key_address E (key_of e')) e' (w_keys w')) (\<lambda>_. False) w'"
    if "wallet_inv E w'" "key_slot w' (wallet_entry_index e') (key_of e')" for e' w'
    using that write_key_inv [OF assms(1) that] wallet_invD(6) [OF that(1)] key_slotD(1) [OF that]
    by (simp add: awp_write wallet_is_open_def)
  show ?thesis
  proof (cases "wallet_entry_index e = 0")
    case True
    have new: "\<forall>j k. entry_at w j = Some (key_entry k) \<longrightarrow> key_of k \<noteq> key_of e"
      using assms(3) True wallet_invD(1) [OF assms(2)] by (fastforce simp: key_number_def)
    have "awp (aret (e\<lparr>wallet_entry_index := n\<rparr>)) (\<lambda>e'. awp (store_and_reload_generic_entry E (key_entry e'))
        (\<lambda>_ w''. wallet_inv E w'' \<and> entry_data e' = entry_data e \<and>
           entry_at w'' (wallet_entry_index e') = Some (key_entry e') \<and> same_accounts w w'' \<and>
           w_keys w'' = smap_set (key_address E (key_of e)) e' (w_keys w))
        (\<lambda>w'. wallet_inv E w' \<and> w_keys w' = w_keys w)) (\<lambda>_. False) w'"
      if w': "wallet_inv E w'" "fresh_number w' n" "numbered w w'" for n w'
    proof -
      have "key_slot w' n (key_of e)" using new w' numbered_keys [OF assms(2) w'(1,3)] by (auto simp: key_slot_def)
      then show ?thesis using w' numbered_fields(4) [OF w'(3)] by (auto intro!: awp_weaken [OF put [OF w'(1)]])
    qed
    then show ?thesis
      using True assms(2) unfolding store_and_reload_entry_def awp_simps
      by (auto intro!: awp_weaken [OF new_number [OF assms(2)]])
  next
    case False
    then have "key_slot w (wallet_entry_index e) (key_of e)" using assms(3) by (auto simp: key_slot_def key_number_def)
    then show ?thesis
      using False unfolding store_and_reload_entry_def awp_simps
      by (auto intro!: awp_weaken [OF put [OF assms(2)]])
  qed
qed

lemma store_account_entry:
  assumes "wallet_inv E w" "account_number w (wallet_entry_index e)"
  shows "awp (store_and_reload_entry E account_entry e) (\<lambda>e' w'. wallet_inv E w' \<and> entry_data e' = entry_data e \<and>
    loaded E e' w' \<and> (wallet_entry_index e \<noteq> 0 \<longrightarrow> e' = e) \<and> w_keys w' = w_keys w)
    (\<lambda>w'. wallet_inv E w' \<and> w_keys w' = w_keys w) w"
proof -
  have put: "awp (store_and_reload_generic_entry E (account_entry e')) (\<lambda>_ w''. wallet_inv E w'' \<and> loaded E e' w'' \<and>
      w_keys w'' = w_keys w') (\<lambda>w''. wallet_inv E w'' \<and> w_keys w'' = w_keys w') w'"
    if "wallet_inv E w'" "account_slot w' (wallet_entry_index e')" for e' w'
    using write_account_inv [OF that] that(1) by (simp add: awp_write loaded_written)
  show ?thesis
  proof (cases "wallet_entry_index e = 0")
    case True
    have "awp (aret (e\<lparr>wallet_entry_index := n\<rparr>)) (\<lambda>e'. awp (store_and_reload_generic_entry E (account_entry e'))
        (\<lambda>_ w''. wallet_inv E w'' \<and> entry_data e' = entry_data e \<and> loaded E e' w'' \<and> w_keys w'' = w_keys w)
        (\<lambda>w''. wallet_inv E w'' \<and> w_keys w'' = w_keys w)) (\<lambda>_. False) w'"
      if "wallet_inv E w'" "fresh_number w' n" "numbered w w'" for n w'
      using that numbered_fields(4) [OF that(3)] by (auto simp: account_slot_def intro!: awp_weaken [OF put [OF that(1)]])
    then show ?thesis
      using True assms(1) unfolding store_and_reload_entry_def awp_simps
      by (auto intro!: awp_weaken [OF new_number [OF assms(1)]])
  next
    case False
    then have "account_slot w (wallet_entry_index e)" using assms(2) by (auto simp: account_slot_def account_number_def)
    then show ?thesis
      using False unfolding store_and_reload_entry_def awp_simps
      by (auto intro!: awp_weaken [OF put [OF assms(1)]])
  qed
qed

text \<open>
  The encrypted private key of a public key, empty if there is none. It is never lost on the way, and
  only keys of the set \<open>N\<close> get one.
\<close>

definition private_of :: "env \<Rightarrow> WalletDb \<Rightarrow> public_key \<Rightarrow> string" where
  "private_of E w k = (case map_of (w_keys w) (key_address E k) of
     Some e \<Rightarrow> encrypted_private_key (entry_data e) | None \<Rightarrow> [])"

definition keeps_wallet :: "env \<Rightarrow> public_key set \<Rightarrow> WalletDb \<Rightarrow> WalletDb \<Rightarrow> bool" where
  "keeps_wallet E N w w' \<longleftrightarrow> wallet_inv E w' \<and>
     (\<forall>k. private_of E w' k = private_of E w k \<or> k \<in> N \<and> private_of E w k = [])"

lemma keeps_wallet_same: "wallet_inv E w' \<Longrightarrow> w_keys w' = w_keys w \<Longrightarrow> keeps_wallet E N w w'"
  by (simp add: keeps_wallet_def private_of_def)

lemma keeps_wallet_trans: "keeps_wallet E N w w' \<Longrightarrow> keeps_wallet E N w' w'' \<Longrightarrow> keeps_wallet E N w w''"
  unfolding keeps_wallet_def by metis

lemma key_at_own:
  assumes "addresses_ok E" "wallet_inv E w"
  shows "key_at w (key_address E k) = map_of (w_keys w) (key_address E k)"
    "map_of (w_keys w) (key_address E k) = Some e \<Longrightarrow> key_of e = k"
proof -
  have iff: "map_of (w_keys w) (key_address E k) = Some e \<longleftrightarrow> key_at w (key_address E k) = Some e" for e
    using key_at_iff [OF assms, of k e] wallet_invD(3) [OF assms(2), of "key_address E k" e]
      key_address_inj [OF assms(1), of k "key_of e"] by auto
  then show "key_at w (key_address E k) = map_of (w_keys w) (key_address E k)"
    by (cases "key_at w (key_address E k)"; cases "map_of (w_keys w) (key_address E k)") force+
  show "map_of (w_keys w) (key_address E k) = Some e \<Longrightarrow> key_of e = k"
    using iff key_at_iff [OF assms, of k e] by simp
qed

text \<open>The account a private key is given to: the one that has the key, or else the one it was made for.\<close>

definition found_account :: "env \<Rightarrow> WalletDb \<Rightarrow> KeyData \<Rightarrow> WalletAccountEntry option" where
  "found_account E w key =
     (case account_at_address w (key_address E (kd_public_key key)) of
        Some a \<Rightarrow> Some a | None \<Rightarrow> account_at_address w (kd_account_address key))"

lemma found_account_same:
  assumes "same_accounts w w'"
  shows "account_at_address w' a = account_at_address w a" "found_account E w' key = found_account E w key"
proof -
  show "account_at_address w' a = account_at_address w a" for a
    using assms by (simp add: account_at_address_def indexed_account_def same_accounts_def cong: option.case_cong)
  then show "found_account E w' key = found_account E w key" by (simp add: found_account_def cong: option.case_cong)
qed

lemma write_private:
  assumes "addresses_ok E" "w_keys w' = smap_set (key_address E (key_of e)) e (w_keys w)"
  shows "private_of E w' k = (if k = key_of e then encrypted_private_key (entry_data e) else private_of E w k)"
  using assms key_address_inj [OF assms(1)] by (simp add: private_of_def)

lemma store_key_rule:
  assumes ok: "addresses_ok E" "wallet_inv E w"
    and unlost: "private_of E w (kd_public_key key) = encrypted_private_key key \<or>
      kd_public_key key \<in> N \<and> private_of E w (kd_public_key key) = []"
    and finish: "\<And>w'. keeps_wallet E N w w' \<Longrightarrow> same_accounts w w' \<Longrightarrow>
      private_of E w' (kd_public_key key) = encrypted_private_key key \<Longrightarrow> Q () w'"
    and account: "\<And>w' a. keeps_wallet E N w w' \<Longrightarrow> same_accounts w w' \<Longrightarrow>
      private_of E w' (kd_public_key key) = encrypted_private_key key \<Longrightarrow> has_private_key key \<Longrightarrow>
      found_account E w key = Some a \<Longrightarrow> \<not> is_my_account (entry_data a) \<Longrightarrow>
      awp (store_account_at n E K ((entry_data a)\<lparr>is_my_account := True\<rparr>) 0) Q (keeps_wallet E N w) w'"
  shows "awp (store_key_at (Suc n) E K key) Q (keeps_wallet E N w) w"
proof -
  let ?k = "kd_public_key key"
  have put: "awp (store_and_reload_entry E key_entry e) (\<lambda>e' w''. keeps_wallet E N w w'' \<and> same_accounts w w'' \<and>
      private_of E w'' ?k = encrypted_private_key key \<and> entry_data e' = entry_data e \<and>
      entry_at w'' (wallet_entry_index e') = Some (key_entry e')) (keeps_wallet E N w) w'"
    if w': "keeps_wallet E N w w'" "same_accounts w w'" "key_number w' (wallet_entry_index e) ?k" "key_of e = ?k"
      "encrypted_private_key (entry_data e) = encrypted_private_key key"
      "private_of E w' ?k = encrypted_private_key key \<or> ?k \<in> N \<and> private_of E w ?k = []" for w' e
  proof -
    have inv: "wallet_inv E w'" using w'(1) by (simp add: keeps_wallet_def)
    show ?thesis
    proof (rule awp_weaken [OF store_key_entry [OF ok(1) inv]])
      show "key_number w' (wallet_entry_index e) (key_of e)" using w'(3,4) by simp
      fix e' w''
      assume a: "wallet_inv E w'' \<and> entry_data e' = entry_data e \<and> entry_at w'' (wallet_entry_index e') = Some (key_entry e') \<and>
        same_accounts w' w'' \<and> w_keys w'' = smap_set (key_address E (key_of e)) e' (w_keys w')"
      then have "private_of E w'' k = (if k = ?k then encrypted_private_key key else private_of E w' k)" for k
        using write_private [OF ok(1), of w'' e' w' k] w'(4,5) by simp
      then show "keeps_wallet E N w w'' \<and> same_accounts w w'' \<and> private_of E w'' ?k = encrypted_private_key key \<and>
          entry_data e' = entry_data e \<and> entry_at w'' (wallet_entry_index e') = Some (key_entry e')"
        using a w'(1,2,6) unlost by (auto simp: keeps_wallet_def)
    next
      fix w'' assume "wallet_inv E w'' \<and> w_keys w'' = w_keys w'"
      then show "keeps_wallet E N w w''" using w'(1) keeps_wallet_trans keeps_wallet_same by blast
    qed
  qed
  define i where "i = (case key_at w (key_address E ?k) of Some e \<Rightarrow> wallet_entry_index e | None \<Rightarrow> 0)"
  have number: "key_number w i ?k"
  proof (cases "key_at w (key_address E ?k)")
    case None
    then have "entry_at w j = Some (key_entry e) \<Longrightarrow> key_of e \<noteq> ?k" for j e
      using key_at_iff [OF ok, of ?k e] wallet_invD(1) [OF ok(2), of j "key_entry e"] by auto
    then show ?thesis using None by (simp add: key_number_def i_def)
  next
    case (Some e)
    then show ?thesis using key_at_iff [OF ok, of ?k e] by (auto simp: key_number_def i_def)
  qed
  have first: "awp (store_and_reload_entry E key_entry \<lparr>wallet_entry_index = i, entry_data = key\<rparr>)
      (\<lambda>e' w'. keeps_wallet E N w w' \<and> same_accounts w w' \<and> private_of E w' ?k = encrypted_private_key key \<and> entry_data e' = key \<and>
      entry_at w' (wallet_entry_index e') = Some (key_entry e')) (keeps_wallet E N w) w"
    using put [of w "\<lparr>wallet_entry_index = i, entry_data = key\<rparr>"] number unlost ok(2) by (simp add: keeps_wallet_def)
  have rest: "awp (if kd_account_address key \<noteq> wallet_owner_address E a then
        store_and_reload_entry E key_entry (e\<lparr>entry_data := key\<lparr>kd_account_address := wallet_owner_address E a\<rparr>\<rparr>)
      else aret e) (\<lambda>_. awp (if \<not> is_my_account (entry_data a)
        then store_account_at n E K ((entry_data a)\<lparr>is_my_account := True\<rparr>) 0 else aret ()) Q (keeps_wallet E N w)) (keeps_wallet E N w) w'"
    if w': "keeps_wallet E N w w'" "same_accounts w w'" "private_of E w' ?k = encrypted_private_key key" "entry_data e = key"
      "entry_at w' (wallet_entry_index e) = Some (key_entry e)" "found_account E w key = Some a" "has_private_key key" for a e w'
  proof -
    have "awp (if \<not> is_my_account (entry_data a)
        then store_account_at n E K ((entry_data a)\<lparr>is_my_account := True\<rparr>) 0 else aret ()) Q (keeps_wallet E N w) w''"
      if "keeps_wallet E N w w''" "same_accounts w w''" "private_of E w'' ?k = encrypted_private_key key" for w''
      using that finish account w'(6,7) by simp
    moreover have "key_number w' (wallet_entry_index e) ?k" using w'(4,5) by (auto simp: key_number_def)
    ultimately show ?thesis
      using w' put [of w' "e\<lparr>entry_data := key\<lparr>kd_account_address := wallet_owner_address E a\<rparr>\<rparr>"]
      by (auto elim!: awp_weaken)
  qed
  have opened: "wallet_is_open w'" if "keeps_wallet E N w w'" for w'
    using that wallet_invD(6) by (auto simp: keeps_wallet_def)
  have "keeps_wallet E N w w" using ok(2) by (simp add: keeps_wallet_def)
  moreover have "awp (if \<not> has_private_key key then aret ()
      else abind (lookup_account_by_address (key_address E ?k)) (\<lambda>by_key.
       abind (case by_key of Some a \<Rightarrow> aret (Some a) | None \<Rightarrow> lookup_account_by_address (kd_account_address key)) (\<lambda>account.
       case account of
         None \<Rightarrow> aret ()
       | Some a \<Rightarrow>
           abind (if kd_account_address key \<noteq> wallet_owner_address E a then
                    store_and_reload_entry E key_entry
                      (e\<lparr>entry_data := key\<lparr>kd_account_address := wallet_owner_address E a\<rparr>\<rparr>)
                  else aret e) (\<lambda>_.
           if \<not> is_my_account (entry_data a) then store_account_at n E K ((entry_data a)\<lparr>is_my_account := True\<rparr>) 0
           else aret ())))) Q (keeps_wallet E N w) w'"
    if "keeps_wallet E N w w' \<and> same_accounts w w' \<and> private_of E w' ?k = encrypted_private_key key \<and> entry_data e = key \<and>
      entry_at w' (wallet_entry_index e) = Some (key_entry e)" for e w'
    using that finish [of w'] rest [of w' e] opened [of w'] found_account_same(1) [of w w']
    by (auto simp: found_account_def split: option.splits)
  ultimately show ?thesis
    using opened [of w] unfolding store_key_at.simps awp_simps awp_lookups awp_open
    by (auto simp: i_def [symmetric] intro!: awp_weaken [OF first])
qed

text \<open>The account as it was given, but perhaps with the mark that it is one's own, is loaded.\<close>

definition stored :: "env \<Rightarrow> AccountData \<Rightarrow> WalletAccountEntry \<Rightarrow> WalletDb \<Rightarrow> bool" where
  "stored E account e w \<longleftrightarrow> loaded E e w \<and>
     (\<exists>my. entry_data e = account\<lparr>is_my_account := my\<rparr> \<and> (is_my_account account \<longrightarrow> my))"

lemma stored_self: "loaded E e w \<Longrightarrow> entry_data e = account \<Longrightarrow> stored E account e w"
  by (cases account) (auto simp: stored_def)

lemma storedD:
  assumes "stored E account e w" "wallet_inv E w"
  shows "loaded E e w" "ad_account (entry_data e) = ad_account account" "entry_at w (wallet_entry_index e) = Some (account_entry e)"
    "wallet_entry_index e \<noteq> 0"
proof -
  show "loaded E e w" "ad_account (entry_data e) = ad_account account" using assms(1) by (auto simp: stored_def)
  then show at: "entry_at w (wallet_entry_index e) = Some (account_entry e)"
    using wallet_invD(2) [OF assms(2)] by (simp add: loaded_def)
  show "wallet_entry_index e \<noteq> 0" using wallet_invD(1) [OF assms(2) at] by simp
qed

lemma keeps_from:
  assumes "awp m Q (keeps_wallet E N w') s" "keeps_wallet E N w w'"
  shows "awp m Q (keeps_wallet E N w) s"
  using assms by (auto elim!: awp_weaken intro: keeps_wallet_trans)

lemma mark_own:
  assumes "keeps_wallet E N w w'" "stored E account e w'"
  shows "awp (if \<not> is_my_account (entry_data e)
      then store_and_reload_entry E account_entry (e\<lparr>entry_data := (entry_data e)\<lparr>is_my_account := True\<rparr>\<rparr>) else aret e)
    (\<lambda>e' w''. keeps_wallet E N w w'' \<and> stored E account e' w'' \<and> is_my_account (entry_data e') \<and> w_keys w'' = w_keys w')
    (keeps_wallet E N w) w'"
proof -
  have inv: "wallet_inv E w'" using assms(1) by (simp add: keeps_wallet_def)
  note st = storedD [OF assms(2) inv]
  let ?e = "e\<lparr>entry_data := (entry_data e)\<lparr>is_my_account := True\<rparr>\<rparr>"
  have "account_number w' (wallet_entry_index ?e)" using st(3) by (simp add: account_number_def)
  from store_account_entry [OF inv this]
  have "awp (store_and_reload_entry E account_entry ?e) (\<lambda>e' w''. keeps_wallet E N w w'' \<and> stored E account e' w'' \<and>
      is_my_account (entry_data e') \<and> w_keys w'' = w_keys w') (keeps_wallet E N w) w'"
    using assms st(4) keeps_wallet_trans [OF assms(1) keeps_wallet_same]
    by (elim awp_weaken) (auto simp: stored_def)
  then show ?thesis using assms by simp
qed

lemma take_over_key:
  assumes ok: "addresses_ok E" "keeps_wallet E N w w'" "stored E account e w'" "k \<in> set (account_keys E (ad_account account))"
  shows "awp (abind (lookup_key (key_address E k)) (\<lambda>key.
              case key of
                None \<Rightarrow>
                  abind (store_key_at (Suc n) E K ((new_KeyData E)\<lparr>kd_account_address := key_address E k,
                           kd_public_key := k\<rparr>)) (\<lambda>_. aret e)
              | Some kk \<Rightarrow>
                  if \<not> has_private_key (entry_data kk) then aret e
                  else
                    abind (if \<not> is_my_account (entry_data e)
                           then store_and_reload_entry E account_entry (e\<lparr>entry_data := (entry_data e)\<lparr>is_my_account := True\<rparr>\<rparr>)
                           else aret e) (\<lambda>e'.
                    abind (if kd_account_address (entry_data kk) \<noteq> wallet_owner_address E e'
                           then store_key_at (Suc n) E K ((entry_data kk)\<lparr>kd_account_address := wallet_owner_address E e'\<rparr>)
                           else aret ()) (\<lambda>_. aret e'))))
     (\<lambda>e w''. keeps_wallet E N w w'' \<and> stored E account e w'') (keeps_wallet E N w) w'"
proof -
  have inv: "wallet_inv E w'" using ok(2) by (simp add: keeps_wallet_def)
  have stored_same: "stored E account e v'" if "stored E account e v" "same_accounts v v'" for e v v'
    using that by (simp add: stored_def loaded_same)
  show ?thesis
  proof (cases "key_at w' (key_address E k)")
    case None
    have "awp (store_key_at (Suc n) E K ((new_KeyData E)\<lparr>kd_account_address := key_address E k, kd_public_key := k\<rparr>))
       (\<lambda>_ w''. keeps_wallet E N w w'' \<and> stored E account e w'') (keeps_wallet E N w) w'"
      by (rule keeps_from [OF store_key_rule [OF ok(1) inv] ok(2)])
        (use None key_at_own [OF ok(1) inv, of k] ok(3) keeps_wallet_trans [OF ok(2)] stored_same in
          \<open>auto simp: private_of_def new_KeyData_def has_private_key_def\<close>)
    then show ?thesis using None wallet_invD(6) [OF inv] by simp
  next
    case (Some kk)
    have key: "key_of kk = k" "private_of E w' k = encrypted_private_key (entry_data kk)"
      using Some key_at_own [OF ok(1) inv, of k] by (auto simp: private_of_def)
    have "awp (if kd_account_address (entry_data kk) \<noteq> wallet_owner_address E e'
           then store_key_at (Suc n) E K ((entry_data kk)\<lparr>kd_account_address := wallet_owner_address E e'\<rparr>)
           else aret ()) (\<lambda>_ w''. keeps_wallet E N w w'' \<and> stored E account e' w'') (keeps_wallet E N w) w1"
      if w1: "keeps_wallet E N w w1 \<and> stored E account e' w1 \<and> is_my_account (entry_data e') \<and> w_keys w1 = w_keys w'" for e' w1
    proof -
      have inv1: "wallet_inv E w1" using w1 by (simp add: keeps_wallet_def)
      have "account_at_address w1 (key_address E k) = Some e'"
        using loaded_found [of E e' w1 k] storedD [of E account e' w1] w1 inv1 ok(4) by simp
      then have "awp (store_key_at (Suc n) E K ((entry_data kk)\<lparr>kd_account_address := wallet_owner_address E e'\<rparr>))
          (\<lambda>_ w''. keeps_wallet E N w w'' \<and> stored E account e' w'') (keeps_wallet E N w) w1"
        by (intro keeps_from [OF store_key_rule [OF ok(1) inv1]])
          (use w1 key keeps_wallet_trans stored_same in \<open>auto simp: private_of_def found_account_def\<close>)
      then show ?thesis using w1 by simp
    qed
    then have "awp (if \<not> is_my_account (entry_data e)
        then store_and_reload_entry E account_entry (e\<lparr>entry_data := (entry_data e)\<lparr>is_my_account := True\<rparr>\<rparr>) else aret e)
      (\<lambda>e'. awp (if kd_account_address (entry_data kk) \<noteq> wallet_owner_address E e'
           then store_key_at (Suc n) E K ((entry_data kk)\<lparr>kd_account_address := wallet_owner_address E e'\<rparr>)
           else aret ()) (\<lambda>_ w''. keeps_wallet E N w w'' \<and> stored E account e' w'') (keeps_wallet E N w)) (keeps_wallet E N w) w'"
      by (intro awp_weaken [OF mark_own [OF ok(2,3)]])
    then show ?thesis using Some wallet_invD(6) [OF inv] ok(2,3) by simp
  qed
qed

text \<open>The second loop of \<open>store_account\<close>, for one key, is an argument of the rule.\<close>

lemma store_account_rule:
  assumes ok: "addresses_ok E" "wallet_inv E w"
    and loop: "\<And>found k w'. keeps_wallet E N w w' \<Longrightarrow> \<exists>e. stored E account e w' \<Longrightarrow>
      k \<in> set (account_keys E (ad_account account)) \<Longrightarrow>
      awp (abind (lookup_key (key_address E k)) (\<lambda>key.
         if (case key of Some k \<Rightarrow> has_private_key (entry_data k) | None \<Rightarrow> False) \<or> pw = 0 then aret ()
         else
           abind (case found of Some cc \<Rightarrow> aret cc | None \<Rightarrow> athrow null_optional) (\<lambda>cc.
           abind (lookup_key (wallet_owner_address E cc)) (\<lambda>owner_key_entry.
           case owner_key_entry of
             None \<Rightarrow> aret ()
           | Some ok \<Rightarrow>
               if \<not> has_private_key (entry_data ok) then aret ()
               else
                 abind (aread (\<lambda>_. decrypt_private_key K pw (entry_data ok))) (\<lambda>owner_key.
                 abind assert_open (\<lambda>_.
                 let active_private_key = account_child K owner_key 0;
                     active_public_key = get_public_key K active_private_key
                 in
                 if active_public_key = k then
                   abind (aread (\<lambda>_. encrypt_private_key K pw active_private_key
                     ((new_KeyData E)\<lparr>kd_account_address := key_address E active_public_key,
                        kd_public_key := active_public_key\<rparr>))) (store_key_at (Suc n) E K)
                 else aret ()))))))
        (\<lambda>_ w'. keeps_wallet E N w w' \<and> (\<exists>e. stored E account e w')) (keeps_wallet E N w) w'"
  shows "awp (store_account_at (Suc (Suc n)) E K account pw) (\<lambda>_ w'. keeps_wallet E N w w' \<and> (\<exists>e. stored E account e w'))
    (keeps_wallet E N w) w"
proof -
  have self: "keeps_wallet E N w w" using ok(2) by (simp add: keeps_wallet_def)
  let ?a = "account_at_address w (owner_address E (ad_account account))"
  let ?e = "\<lparr>wallet_entry_index = (case ?a of Some e \<Rightarrow> wallet_entry_index e | None \<Rightarrow> 0), entry_data = account\<rparr>"
  have number: "account_number w (wallet_entry_index ?e)"
  proof (cases ?a)
    case (Some a)
    then obtain i where "map_of (w_accounts w) i = Some a"
      by (auto simp: account_at_address_def indexed_account_def split: option.splits)
    then have at: "entry_at w i = Some (account_entry a)" using wallet_invD(2) [OF ok(2)] by simp
    then show ?thesis using wallet_invD(1) [OF ok(2) at] Some by (simp add: account_number_def)
  qed (simp add: account_number_def)
  have first: "awp (store_and_reload_entry E account_entry ?e)
      (\<lambda>e w'. keeps_wallet E N w w' \<and> stored E account e w') (keeps_wallet E N w) w"
    using store_account_entry [OF ok(2) number]
    by (elim awp_weaken) (auto intro: keeps_wallet_same stored_self)
  show ?thesis
    unfolding store_account_at.simps awp_points awp_open awp_lookups awp_simps
    using wallet_invD(6) [OF ok(2)] self
    apply simp
    apply (intro conjI impI, rule awp_weaken [OF first])
     apply (rule awp_weaken [OF awp_afold [where Q = "\<lambda>e w'. keeps_wallet E N w w' \<and> stored E account e w'"]])
        apply assumption
       apply (rule take_over_key [OF ok(1)]; blast)
      apply (rule awp_afold, blast, rule loop; blast)
     apply assumption+
    done
qed

lemma store_account_unlocked:
  assumes "addresses_ok E" "wallet_inv E w"
  shows "awp (store_account_at (Suc (Suc n)) E K account 0) (\<lambda>_ w'. keeps_wallet E N w w' \<and> (\<exists>e. stored E account e w'))
    (keeps_wallet E N w) w"
  by (rule store_account_rule [OF assms]) (auto dest: wallet_invD(6) simp: keeps_wallet_def)

lemma own_account_stored:
  assumes "addresses_ok E" "keeps_wallet E N w w'" "stored E account e w'"
  shows "awp (store_account_at (Suc (Suc n)) E K ((entry_data e)\<lparr>is_my_account := True\<rparr>) 0)
    (\<lambda>_ w''. keeps_wallet E N w w'' \<and> (\<exists>e. stored E account e w'')) (keeps_wallet E N w) w'"
proof -
  have inv: "wallet_inv E w'" using assms(2) by (simp add: keeps_wallet_def)
  obtain my where my: "entry_data e = account\<lparr>is_my_account := my\<rparr>" using assms(3) by (auto simp: stored_def)
  have "stored E account e' w''" if "stored E ((entry_data e)\<lparr>is_my_account := True\<rparr>) e' w''" for e' w''
    using that my by (auto simp: stored_def)
  then show ?thesis
    using keeps_wallet_trans [OF assms(2)]
    by (intro keeps_from [OF awp_weaken [OF store_account_unlocked [OF assms(1) inv]] assms(2)]) blast+
qed

lemma four: "(4::nat) = Suc (Suc (Suc (Suc 0)))"
  by simp

lemma encrypted_key:
  assumes "encrypt_private_key K pw key data = Inr data'"
  shows "kd_public_key data' = get_public_key K key" "decrypt_private_key K pw data' = Inr key"
    "kd_account_address data' = kd_account_address data"
  using assms by (auto simp: encrypt_private_key_def Let_def)

lemma store_account_ends:
  assumes "addresses_ok E" "wallet_inv E w" "pw = 0 \<or> set (account_keys E (ad_account account)) \<subseteq> N"
  shows "awp (store_account E K account pw) (\<lambda>_ w'. keeps_wallet E N w w' \<and> (\<exists>e. stored E account e w')) (keeps_wallet E N w) w"
  unfolding store_account_def four
proof (rule store_account_rule [OF assms(1,2)], goal_cases)
  case (1 found k w')
  have inv: "wallet_inv E w'" using 1(1) by (simp add: keeps_wallet_def)
  from 1(2) obtain e where e: "stored E account e w'" by blast
  have key: "awp (store_key_at (Suc (Suc (Suc 0))) E K data) (\<lambda>_ w''. keeps_wallet E N w w'' \<and> (\<exists>e. stored E account e w''))
      (keeps_wallet E N w) w'"
    if data: "kd_public_key data = k" "private_of E w' k = []" "k \<in> N" for data
  proof (rule keeps_from [OF store_key_rule [OF assms(1) inv] 1(1)], goal_cases)
    case (2 v)
    then show ?case using e keeps_wallet_trans [OF 1(1)] by (auto simp: stored_def loaded_same)
  next
    case (3 v a)
    have "a = e" using 3(5) data(1) loaded_found [of E e w' k] storedD [OF e inv] 1(3) by (simp add: found_account_def)
    moreover have "stored E account e v" using e 3(2) by (simp add: stored_def loaded_same)
    ultimately show ?case
      using keeps_wallet_trans [OF 1(1)] by (auto intro!: awp_weaken [OF own_account_stored [OF assms(1) 3(1)]])
  qed (use data in simp)
  have none: "private_of E w' k = []"
    if "\<not> (case key_at w' (key_address E k) of Some k \<Rightarrow> has_private_key (entry_data k) | None \<Rightarrow> False)"
    using that key_at_own(1) [OF assms(1) inv, of k] by (auto simp: private_of_def has_private_key_def split: option.splits)
  show ?case
  proof (cases "pw = 0")
    case False
    then have "k \<in> N" using assms(3) 1(3) by auto
    then have "awp (aread (\<lambda>_. encrypt_private_key K pw (account_child K owner_key 0) data)) (\<lambda>data.
        awp (store_key_at (Suc (Suc (Suc 0))) E K data) (\<lambda>_ w''. keeps_wallet E N w w'' \<and> (\<exists>e. stored E account e w''))
        (keeps_wallet E N w)) (keeps_wallet E N w) w'"
      if "get_public_key K (account_child K owner_key 0) = k" "private_of E w' k = []" for owner_key data
      using that 1(1) key encrypted_key(1) [of K pw "account_child K owner_key 0" data] by (auto split: sum.split)
    then show ?thesis
      using 1(1,2) none wallet_invD(6) [OF inv] by (auto simp: Let_def split: option.split sum.split)
  qed (use 1 wallet_invD(6) [OF inv] in simp)
qed

lemma store_key_ends:
  assumes "addresses_ok E" "wallet_inv E w" "private_of E w (kd_public_key key) = encrypted_private_key key \<or>
      kd_public_key key \<in> N \<and> private_of E w (kd_public_key key) = []"
  shows "awp (store_key E K key) (\<lambda>_ w'. keeps_wallet E N w w' \<and>
    private_of E w' (kd_public_key key) = encrypted_private_key key) (keeps_wallet E N w) w"
  unfolding store_key_def four
proof (rule store_key_rule [OF assms], goal_cases)
  case (2 v a)
  have inv: "wallet_inv E v" using 2(1) by (simp add: keeps_wallet_def)
  have "private_of E v' (kd_public_key key) = encrypted_private_key key" if "keeps_wallet E N v v'" for v'
    using that 2(3,4) by (auto simp: keeps_wallet_def has_private_key_def dest!: spec [of _ "kd_public_key key"])
  then show ?case
    using keeps_wallet_trans [OF 2(1)]
    by (intro keeps_from [OF awp_weaken [OF store_account_unlocked [OF assms(1) inv]] 2(1)]) blast+
qed simp

lemma next_unused_Some:
  "next_unused used n = Some m \<Longrightarrow> n < m \<and> m < 2 ^ 32 \<and> \<not> used m \<and> (\<forall>i. n < i \<and> i < m \<longrightarrow> used i)"
proof (induction used n rule: next_unused.induct)
  case (1 used n)
  show ?case
  proof (cases "n + 1 < 2 ^ 32 \<and> used (n + 1)")
    case True
    then have "next_unused used (n + 1) = Some m" using 1(2) by (simp add: next_unused.simps [of used n])
    then have m: "n + 1 < m \<and> m < 2 ^ 32 \<and> \<not> used m \<and> (\<forall>i. n + 1 < i \<and> i < m \<longrightarrow> used i)" using 1(1) True by simp
    have "used i" if "n < i" "i < m" for i using that m True by (cases "i = n + 1") auto
    then show ?thesis using m by auto
  next
    case False
    then show ?thesis using 1(2) by (auto simp: next_unused.simps [of used n] split: if_splits)
  qed
qed

text \<open>
  C20 (invariant). However its keys are known to the wallet, and also if a private key of it is derived with the
  password, \<open>store_account\<close> ends and leaves the caches of the wallet in agreement with its entries,
  with no private key lost, in whatever way it ends. When it returns, the account is found under its
  name and under every key it has.
\<close>

theorem store_account_keeps_wallet:
  assumes "addresses_ok E" "wallet_inv E w"
  shows "case store_account E K account pw w of
      (Returns _, w') \<Rightarrow> wallet_inv E w' \<and> (\<forall>k. private_of E w k \<noteq> [] \<longrightarrow> private_of E w' k = private_of E w k) \<and>
        (\<exists>e my. entry_data e = account\<lparr>is_my_account := my\<rparr> \<and> (is_my_account account \<longrightarrow> my) \<and>
           lookup_account_by_name (acc_name (ad_account account)) w' = (Returns (Some e), w') \<and>
           (\<forall>k \<in> set (account_keys E (ad_account account)).
              lookup_account_by_address (key_address E k) w' = (Returns (Some e), w')))
    | (Throws _, w') \<Rightarrow> wallet_inv E w' \<and> (\<forall>k. private_of E w k \<noteq> [] \<longrightarrow> private_of E w' k = private_of E w k)
    | (Diverges, _) \<Rightarrow> False"
proof -
  have "\<exists>e my. entry_data e = account\<lparr>is_my_account := my\<rparr> \<and> (is_my_account account \<longrightarrow> my) \<and>
      lookup_account_by_name (acc_name (ad_account account)) w' = (Returns (Some e), w') \<and>
      (\<forall>k \<in> set (account_keys E (ad_account account)). lookup_account_by_address (key_address E k) w' = (Returns (Some e), w'))"
    if "wallet_inv E w'" "stored E account e w'" for e w'
  proof -
    from that(2) obtain my where my: "entry_data e = account\<lparr>is_my_account := my\<rparr>" "is_my_account account \<longrightarrow> my"
      by (auto simp: stored_def)
    then show ?thesis
      using that wallet_invD(6) [OF that(1)]
      by (intro exI [of _ e] exI [of _ my]) (auto simp: stored_def loaded_def lookup_account_by_name_def
        lookup_account_by_address_def indexed_account_def assert_open_def act_defs assert_that_def)
  qed
  then show ?thesis
    using store_account_ends [OF assms, of pw account UNIV K] unfolding awp_def keeps_wallet_def
    by (auto split: outcome.splits prod.splits)
qed

end
