(* ===== verification/Wallet_Restart.thy ===== *)
theory Wallet_Restart
  imports Wallet_Laws Sample_State
begin

text \<open>
  Keys a wallet generates, what it holds after it has been closed and opened again, and
  concrete wallets.
\<close>

section \<open>Generated keys\<close>

lemma awp_name [simp]:
  "awp (lookup_account_by_name n) Q R w =
    (if wallet_is_open w then Q (indexed_account (\<lambda>w. name_to_account_index w n) w) w else R w)"
  by (simp add: lookup_account_by_name_def)

text \<open>A key encrypted with AES is not empty.\<close>

definition cipher_ok :: "wallet_lib \<Rightarrow> bool" where
  "cipher_ok K \<longleftrightarrow> (\<forall>pw key. aes_encrypt_key K pw key \<noteq> [])"

lemma decrypt_same: "encrypted_private_key d = encrypted_private_key d' \<Longrightarrow> decrypt_private_key K pw d = decrypt_private_key K pw d'"
  by (simp add: decrypt_private_key_def)

lemma private_ofD: "private_of E w k = c \<Longrightarrow> c \<noteq> [] \<Longrightarrow> \<exists>e. map_of (w_keys w) (key_address E k) = Some e \<and> encrypted_private_key (entry_data e) = c"
  by (auto simp: private_of_def split: option.splits)

definition has_key :: "env \<Rightarrow> wallet_lib \<Rightarrow> password \<Rightarrow> private_key \<Rightarrow> WalletDb \<Rightarrow> bool" where
  "has_key E K pw key w \<longleftrightarrow> (\<exists>e. key_at w (key_address E (get_public_key K key)) = Some e \<and>
     decrypt_private_key K pw (entry_data e) = Inr key)"

lemma keep_generated:
  assumes ok: "addresses_ok E" "wallet_inv E w" "cipher_ok K"
    and data: "encrypt_private_key K pw child d = Inr data" "private_of E w (get_public_key K child) = []"
  shows "awp (store_account E K account 0) (\<lambda>_. awp (store_key E K (data\<lparr>gen_seq_number := n\<rparr>))
      (\<lambda>_ w'. keeps_wallet E UNIV w w' \<and> has_key E K pw child w') (keeps_wallet E UNIV w)) (keeps_wallet E UNIV w) w"
proof (rule awp_weaken [OF store_account_ends [OF ok(1,2), where N = "{}"]])
  let ?k = "get_public_key K child" and ?d = "data\<lparr>gen_seq_number := n\<rparr>"
  have mono: "keeps_wallet E UNIV v v'" if "keeps_wallet E {} v v'" for v v' using that by (auto simp: keeps_wallet_def)
  have c: "encrypted_private_key data \<noteq> []" using data(1) ok(3) by (auto simp: encrypt_private_key_def cipher_ok_def Let_def)
  fix w1 assume "keeps_wallet E {} w w1 \<and> (\<exists>e. stored E account e w1)"
  then have w1: "keeps_wallet E {} w w1" by simp
  then have inv1: "wallet_inv E w1" by (simp add: keeps_wallet_def)
  have "private_of E w1 ?k = []" using w1 data(2) by (simp add: keeps_wallet_def)
  then have "awp (store_key E K ?d) (\<lambda>_ w'. keeps_wallet E UNIV w1 w' \<and> private_of E w' ?k = encrypted_private_key data)
      (keeps_wallet E UNIV w1) w1"
    using store_key_ends [OF ok(1) inv1, of ?d UNIV K] encrypted_key(1) [OF data(1)] by simp
  moreover have "has_key E K pw child w'" if "wallet_inv E w'" "private_of E w' ?k = encrypted_private_key data" for w'
    using private_ofD [OF that(2) c] key_at_own(1) [OF ok(1) that(1)] encrypted_key(2) [OF data(1)] decrypt_same
    unfolding has_key_def by metis
  ultimately show "awp (store_key E K ?d) (\<lambda>_ w'. keeps_wallet E UNIV w w' \<and> has_key E K pw child w') (keeps_wallet E UNIV w) w1"
    using keeps_wallet_trans [OF mono [OF w1]] by (elim awp_weaken) (auto simp: keeps_wallet_def)
qed (auto simp: keeps_wallet_def)

text \<open>
  C21 (safety). A key that is generated for an account is one whose private key the wallet did not have, and
  when the call returns the wallet has it under the password, while no private key is lost; the
  search for it ends.
\<close>

theorem generated_key_is_kept:
  assumes "addresses_ok E" "wallet_inv E w" "cipher_ok K"
  shows "case generate_new_account_child_key E K pw account_name w of
      (Returns child, w') \<Rightarrow>
        private_of E w (get_public_key K child) = [] \<and> wallet_inv E w' \<and>
        (\<forall>k. private_of E w k \<noteq> [] \<longrightarrow> private_of E w' k = private_of E w k) \<and>
        (\<exists>e. lookup_key (key_address E (get_public_key K child)) w' = (Returns (Some e), w') \<and>
           decrypt_private_key K pw (entry_data e) = Inr child)
    | (Throws _, w') \<Rightarrow> wallet_inv E w' \<and> (\<forall>k. private_of E w k \<noteq> [] \<longrightarrow> private_of E w' k = private_of E w k)
    | (Diverges, _) \<Rightarrow> False"
proof -
  have self: "keeps_wallet E UNIV w w" using assms(2) by (simp add: keeps_wallet_def)
  have unowned: "private_of E w k = []" if "\<not> owns_key w (key_address E k)" for k
    using that key_at_own(1) [OF assms(1,2), of k] by (auto simp: owns_key_def private_of_def has_private_key_def split: option.splits)
  have "awp (generate_new_account_child_key E K pw account_name)
      (\<lambda>child w'. private_of E w (get_public_key K child) = [] \<and> keeps_wallet E UNIV w w' \<and> has_key E K pw child w')
      (keeps_wallet E UNIV w) w"
    using self wallet_invD(6) [OF assms(2)]
    by (auto simp: generate_new_account_child_key_def Let_def split: option.split sum.split
        intro!: awp_weaken [OF keep_generated [OF assms]] unowned dest!: next_unused_Some elim!: awp_weaken)
  then show ?thesis
    by (auto simp: awp_def keeps_wallet_def has_key_def lookup_key_def assert_open_def act_defs assert_that_def
        dest: wallet_invD(6) split: outcome.splits prod.splits)
qed


section \<open>Closing and opening\<close>

definition reopen :: "env \<Rightarrow> unit wallet_act" where
  "reopen E = abind wallet_close (\<lambda>_. abind (aget w_entrys) (wallet_open E))"

definition load_all :: "env \<Rightarrow> (int \<times> GenericWalletEntry) list \<Rightarrow> WalletDb \<Rightarrow> WalletDb" where
  "load_all E es w = fold (\<lambda>(_, e) w. snd (load_generic_entry E e w)) es w"

lemma load_ends: "acatch (load_generic_entry E e) (\<lambda>_. aret ()) w = (Returns (), snd (load_generic_entry E e w))"
  by (cases e) (simp_all add: acatch_def amodify_def athrow_def aret_def)

lemma wallet_open_eq: "wallet_open E es w = (Returns (), load_all E es (w\<lparr>w_entrys := es, w_entrys_open := True\<rparr>))"
proof -
  have "afold (\<lambda>(_, e) _. acatch (load_generic_entry E e) (\<lambda>_. aret ())) es () v = (Returns (), load_all E es v)" for es v
    by (induction es arbitrary: v) (auto simp: load_all_def aret_def abind_def load_ends)
  then show ?thesis by (simp add: wallet_open_def abind_def amodify_def)
qed

lemma load_keeps_file:
  "w_entrys (load_all E es w) = w_entrys w" "w_entrys_open (load_all E es w) = w_entrys_open w"
proof -
  have "w_entrys (snd (load_generic_entry E e w)) = w_entrys w \<and> w_entrys_open (snd (load_generic_entry E e w)) = w_entrys_open w" for e w
    by (cases e) (simp_all add: amodify_def athrow_def load_account_entry_def load_key_entry_def load_contact_entry_def
      load_transaction_entry_def load_contract_entry_def Let_def)
  then show "w_entrys (load_all E es w) = w_entrys w" "w_entrys_open (load_all E es w) = w_entrys_open w"
    unfolding load_all_def by (induction es arbitrary: w) auto
qed

lemma fold_agree:
  assumes "\<And>k v v'. (k, v) \<in> set ps \<Longrightarrow> (k, v') \<in> set ps \<Longrightarrow> v = v'"
  shows "fold (\<lambda>(k, v) m. m(k \<mapsto> v)) ps m k = Some v \<longleftrightarrow> (k, v) \<in> set ps \<or> k \<notin> fst ` set ps \<and> m k = Some v"
  using assms
proof (induction ps arbitrary: m)
  case (Cons p ps)
  obtain k' v' where p: "p = (k', v')" by fastforce
  have agree: "x = y" if "(i, x) \<in> set ps" "(i, y) \<in> set ps" for i x y
    using that Cons.prems [of i x y] by simp
  have IH: "fold (\<lambda>(k, v) m. m(k \<mapsto> v)) ps (m(k' \<mapsto> v')) k = Some v \<longleftrightarrow>
      (k, v) \<in> set ps \<or> k \<notin> fst ` set ps \<and> (m(k' \<mapsto> v')) k = Some v"
    by (rule Cons.IH) (rule agree)
  have here: "x = v'" if "(k', x) \<in> set ps" for x using that Cons.prems [of k' x v'] by (simp add: p)
  have first: "(k', v') \<in> set ps" if "k' \<in> fst ` set ps" using that here by fastforce
  have "(k, v) \<in> set ps \<or> k \<notin> fst ` set ps \<and> (m(k' \<mapsto> v')) k = Some v \<longleftrightarrow>
      (k, v) \<in> set (p # ps) \<or> k \<notin> fst ` set (p # ps) \<and> m k = Some v"
    using here [of v] first by (cases "k = k'") (auto simp: p)
  moreover have "fold (\<lambda>(k, v) m. m(k \<mapsto> v)) (p # ps) m = fold (\<lambda>(k, v) m. m(k \<mapsto> v)) ps (m(k' \<mapsto> v'))"
    by (simp only: fold_simps p case_prod_conv o_apply id_apply)
  ultimately show ?case by (simp only: IH)
qed simp

text \<open>A cache of which every entry writes some places; it is what the entries say if they agree.\<close>

locale wallet_cache =
  fixes E :: env and cache :: "WalletDb \<Rightarrow> 'k \<rightharpoonup> 'v" and part :: "GenericWalletEntry \<Rightarrow> ('k \<times> 'v) list"
  assumes load_law: "cache (snd (load_generic_entry E e w)) = fold (\<lambda>(k, v) m. m(k \<mapsto> v)) (part e) (cache w)"
begin

lemma cache_load_all: "cache (load_all E es w) = fold (\<lambda>(k, v) m. m(k \<mapsto> v)) (concat (map (part \<circ> snd) es)) (cache w)"
  unfolding load_all_def by (induction es arbitrary: w) (auto simp: load_law)

lemma loaded_iff:
  assumes "\<And>e e' k v v'. e \<in> snd ` set es \<Longrightarrow> e' \<in> snd ` set es \<Longrightarrow> (k, v) \<in> set (part e) \<Longrightarrow> (k, v') \<in> set (part e') \<Longrightarrow> v = v'"
    and "cache w = Map.empty"
  shows "cache (load_all E es w) k = Some v \<longleftrightarrow> (\<exists>e \<in> snd ` set es. (k, v) \<in> set (part e))"
proof -
  have "v = v'" if "(k, v) \<in> set (concat (map (part \<circ> snd) es))" "(k, v') \<in> set (concat (map (part \<circ> snd) es))" for k v v'
    using that by (auto intro: assms(1) [where k = k])
  then show ?thesis using assms(2) by (subst cache_load_all, subst fold_agree) (auto simp: image_iff)
qed

end

definition account_part :: "GenericWalletEntry \<Rightarrow> (int \<times> WalletAccountEntry) list" where
  "account_part e = (case e of account_entry a \<Rightarrow> [(wallet_entry_index a, a)] | _ \<Rightarrow> [])"

definition key_part :: "env \<Rightarrow> GenericWalletEntry \<Rightarrow> (address \<times> WalletKeyEntry) list" where
  "key_part E e = (case e of key_entry k \<Rightarrow> [(key_address E (key_of k), k)] | _ \<Rightarrow> [])"

definition btc_part :: "env \<Rightarrow> GenericWalletEntry \<Rightarrow> (address \<times> address) list" where
  "btc_part E e = (case e of key_entry k \<Rightarrow> map (\<lambda>d. (d, key_address E (key_of k))) (derived_addresses E (key_of k)) | _ \<Rightarrow> [])"

definition property_part :: "GenericWalletEntry \<Rightarrow> (PropertyEnum \<times> WalletProperty WalletEntry) list" where
  "property_part e = (case e of property_entry p \<Rightarrow> [(wp_key (entry_data p), p)] | _ \<Rightarrow> [])"

definition master_part :: "GenericWalletEntry \<Rightarrow> (unit \<times> MasterKey WalletEntry) list" where
  "master_part e = (case e of master_key_entry m \<Rightarrow> [((), m)] | _ \<Rightarrow> [])"

lemmas load_defs = amodify_def athrow_def load_account_entry_def load_key_entry_def load_contact_entry_def
  load_transaction_entry_def load_contract_entry_def Let_def

interpretation accounts: wallet_cache E "\<lambda>w. map_of (w_accounts w)" account_part for E
proof
  show "map_of (w_accounts (snd (load_generic_entry E e w))) = fold (\<lambda>(k, v) m. m(k \<mapsto> v)) (account_part e) (map_of (w_accounts w))" for e w
    by (cases e) (simp_all add: load_defs account_part_def)
qed

interpretation keys: wallet_cache E "\<lambda>w. map_of (w_keys w)" "key_part E" for E
proof
  show "map_of (w_keys (snd (load_generic_entry E e w))) = fold (\<lambda>(k, v) m. m(k \<mapsto> v)) (key_part E e) (map_of (w_keys w))" for e w
    by (cases e) (simp_all add: load_defs key_part_def)
qed

interpretation btc: wallet_cache E btc_to_alp_address "btc_part E" for E
proof
  show "btc_to_alp_address (snd (load_generic_entry E e w)) = fold (\<lambda>(k, v) m. m(k \<mapsto> v)) (btc_part E e) (btc_to_alp_address w)" for e w
    by (cases e) (simp_all add: load_defs btc_part_def fold_map comp_def)
qed

interpretation properties: wallet_cache E w_properties property_part for E
proof
  show "w_properties (snd (load_generic_entry E e w)) = fold (\<lambda>(k, v) m. m(k \<mapsto> v)) (property_part e) (w_properties w)" for e w
    by (cases e) (simp_all add: load_defs property_part_def)
qed

interpretation master: wallet_cache E "\<lambda>w _. wallet_master_key w" master_part for E
proof
  show "(\<lambda>_. wallet_master_key (snd (load_generic_entry E e w))) = fold (\<lambda>(k, v) m. m(k \<mapsto> v)) (master_part e) (\<lambda>_. wallet_master_key w)" for e w
    by (cases e) (simp_all add: load_defs master_part_def fun_eq_iff)
qed


lemma load_keeps_order:
  assumes "smap_ok (w_accounts w)" "smap_ok (w_keys w)"
  shows "smap_ok (w_accounts (load_all E es w)) \<and> smap_ok (w_keys (load_all E es w))"
proof -
  have "smap_ok (w_accounts (snd (load_generic_entry E e v))) \<and> smap_ok (w_keys (snd (load_generic_entry E e v)))"
    if "smap_ok (w_accounts v) \<and> smap_ok (w_keys v)" for e v
    using that by (cases e) (simp_all add: load_defs smap_ok_set)
  then show ?thesis using assms unfolding load_all_def by (induction es arbitrary: w) auto
qed

lemma entries_at:
  assumes "wallet_inv E w"
  shows "e \<in> snd ` set (w_entrys w) \<longleftrightarrow> (\<exists>i. entry_at w i = Some e)"
proof -
  have "distinct (map fst (w_entrys w))" using assms by (simp add: wallet_inv_def caches_ok_def smap_ok_distinct)
  then show ?thesis by (force simp: image_iff)
qed

definition same_caches :: "WalletDb \<Rightarrow> WalletDb \<Rightarrow> bool" where
  "same_caches w w' \<longleftrightarrow> map_of (w_accounts w') = map_of (w_accounts w) \<and> map_of (w_keys w') = map_of (w_keys w) \<and>
     w_properties w' = w_properties w \<and> wallet_master_key w' = wallet_master_key w \<and>
     btc_to_alp_address w' = btc_to_alp_address w"

lemma some_eqI: "(\<And>v. x = Some v \<longleftrightarrow> y = Some v) \<Longrightarrow> x = y"
  by (cases x; cases y) auto

lemma load_all_caches:
  assumes ok: "addresses_ok E" "wallet_inv E w"
    and blank: "w_accounts v = []" "w_keys v = []" "w_properties v = Map.empty" "wallet_master_key v = None"
      "btc_to_alp_address v = Map.empty"
  shows "same_caches w (load_all E (w_entrys w) v)"
proof -
  let ?v = "load_all E (w_entrys w) v"
  note inv = wallet_invD [OF ok(2)] and at = entries_at [OF ok(2)]
  have idx: "wallet_entry_index a = i" if "entry_at w i = Some (account_entry a)" for i a
    using inv(1) [OF that] by simp
  have kidx: "wallet_entry_index k = i" if "entry_at w i = Some (key_entry k)" for i k
    using inv(1) [OF that] by simp
  have pidx: "wallet_entry_index p = i" if "entry_at w i = Some (property_entry p)" for i p
    using inv(1) [OF that] by simp
  have "map_of (w_accounts ?v) i = Some a \<longleftrightarrow> map_of (w_accounts w) i = Some a" for i a
    by (subst accounts.loaded_iff) (auto simp: account_part_def at inv(2) blank idx dest: idx split: GenericWalletEntry.splits)
  moreover have "map_of (w_keys ?v) d = Some k \<longleftrightarrow> map_of (w_keys w) d = Some k" for d k
  proof (subst keys.loaded_iff)
    show "u = u'" if "e \<in> snd ` set (w_entrys w)" "e' \<in> snd ` set (w_entrys w)" "(d, u) \<in> set (key_part E e)"
      "(d, u') \<in> set (key_part E e')" for e e' d u u'
      using that key_unique [OF ok(2)] key_address_inj [OF ok(1)]
      by (auto simp: key_part_def at split: GenericWalletEntry.splits)
    show "(\<exists>e \<in> snd ` set (w_entrys w). (d, k) \<in> set (key_part E e)) \<longleftrightarrow> map_of (w_keys w) d = Some k"
      by (auto simp: key_part_def at inv(3) kidx split: GenericWalletEntry.splits)
  qed (simp add: blank)
  moreover have "w_properties ?v p = Some e \<longleftrightarrow> w_properties w p = Some e" for p e
  proof (subst properties.loaded_iff)
    have written: "w_properties w (wp_key (entry_data p)) = Some p" if "entry_at w i = Some (property_entry p)" for i p
      using that pidx [OF that] inv(4) by simp
    show "u = u'" if "e \<in> snd ` set (w_entrys w)" "e' \<in> snd ` set (w_entrys w)" "(d, u) \<in> set (property_part e)"
      "(d, u') \<in> set (property_part e')" for e e' d u u'
      using that by (auto simp: property_part_def at split: GenericWalletEntry.splits dest!: written)
    show "(\<exists>en \<in> snd ` set (w_entrys w). (p, e) \<in> set (property_part en)) \<longleftrightarrow> w_properties w p = Some e"
      by (auto simp: property_part_def at inv(4) pidx split: GenericWalletEntry.splits)
  qed (simp add: blank)
  moreover have "wallet_master_key ?v = Some m \<longleftrightarrow> wallet_master_key w = Some m" for m
  proof -
    have "(\<lambda>_. wallet_master_key ?v) () = Some m \<longleftrightarrow> (\<exists>e \<in> snd ` set (w_entrys w). ((), m) \<in> set (master_part e))"
      by (rule master.loaded_iff) (auto simp: master_part_def at inv(5) blank split: GenericWalletEntry.splits)
    also have "\<dots> \<longleftrightarrow> wallet_master_key w = Some m"
      by (auto simp: master_part_def at inv(5) split: GenericWalletEntry.splits)
    finally show ?thesis by simp
  qed
  moreover have "btc_to_alp_address ?v d = Some a \<longleftrightarrow> btc_to_alp_address w d = Some a" for d a
  proof (subst btc.loaded_iff)
    show "u = u'" if u: "e \<in> snd ` set (w_entrys w)" "e' \<in> snd ` set (w_entrys w)" "(d, u) \<in> set (btc_part E e)"
      "(d, u') \<in> set (btc_part E e')" for e e' d u u'
    proof -
      obtain k k' where "d \<in> set (derived_addresses E (key_of k))" "d \<in> set (derived_addresses E (key_of k'))"
        "u = key_address E (key_of k)" "u' = key_address E (key_of k')"
        using u(3,4) by (auto simp: btc_part_def split: GenericWalletEntry.splits)
      moreover from this have "key_of k = key_of k'" using ok(1) unfolding addresses_ok_def by blast
      ultimately show ?thesis by simp
    qed
    have index: "btc_to_alp_address w d = Some a \<longleftrightarrow>
      (\<exists>k. map_of (w_keys w) a = Some k \<and> d \<in> set (derived_addresses E (key_of k)))"
      using inv(8) by (simp add: keys_indexed_def)
    have part: "(d, a) \<in> set (btc_part E e) \<longleftrightarrow>
      (\<exists>k. e = key_entry k \<and> a = key_address E (key_of k) \<and> d \<in> set (derived_addresses E (key_of k)))" for e
      by (auto simp: btc_part_def split: GenericWalletEntry.splits)
    have key: "map_of (w_keys w) a = Some k \<longleftrightarrow> key_entry k \<in> snd ` set (w_entrys w) \<and> a = key_address E (key_of k)" for k
      unfolding at inv(3) using kidx by auto
    show "(\<exists>e \<in> snd ` set (w_entrys w). (d, a) \<in> set (btc_part E e)) \<longleftrightarrow> btc_to_alp_address w d = Some a"
      unfolding index part key by metis
  qed (simp add: blank)
  ultimately show ?thesis
    unfolding same_caches_def fun_eq_iff by (intro conjI allI some_eqI) auto
qed

lemma counter_ok_same: "w_entrys w' = w_entrys w \<Longrightarrow> w_properties w' = w_properties w \<Longrightarrow> counter_ok w' = counter_ok w"
  by (simp add: counter_ok_def cong: option.case_cong)

lemma reopen_caches:
  assumes "addresses_ok E" "wallet_inv E w" "w_entrys v = w_entrys w"
  shows "\<exists>w'. reopen E v = (Returns (), w') \<and> wallet_inv E w' \<and> w_entrys w' = w_entrys w \<and> same_caches w w'"
proof -
  define v0 where "v0 = (snd (wallet_close v))\<lparr>w_entrys := w_entrys w, w_entrys_open := True\<rparr>"
  let ?w = "load_all E (w_entrys w) v0"
  have run: "reopen E v = (Returns (), ?w)"
    using assms(3) by (simp add: reopen_def abind_def wallet_close_def amodify_def aget_def wallet_open_eq v0_def new_WalletDb_def)
  have same: "same_caches w ?w"
    by (rule load_all_caches [OF assms(1,2)]) (simp_all add: v0_def wallet_close_def amodify_def new_WalletDb_def)
  have file_eq: "w_entrys ?w = w_entrys w" "w_entrys_open ?w" by (simp_all add: load_keeps_file v0_def)
  have "smap_ok (w_accounts ?w) \<and> smap_ok (w_keys ?w)"
    by (rule load_keeps_order) (simp_all add: v0_def wallet_close_def amodify_def new_WalletDb_def smap_ok_def)
  moreover have "counter_ok ?w"
    using wallet_invD(7) [OF assms(2)] counter_ok_same [of ?w w] same file_eq by (simp add: same_caches_def)
  ultimately have "wallet_inv E ?w"
    using assms(2) same file_eq
    by (simp add: wallet_inv_def caches_ok_def keys_indexed_def wallet_is_open_def same_caches_def)
  then show ?thesis using run same file_eq by blast
qed

text \<open>
  C22 (refinement). A wallet that is closed and opened again has the accounts, keys, properties and the master key
  it had, and its caches agree with its entries again.
\<close>

theorem wallet_survives_restart:
  assumes "addresses_ok E" "wallet_inv E w"
  shows "\<exists>w'. reopen E w = (Returns (), w') \<and> wallet_inv E w' \<and> w_entrys w' = w_entrys w \<and>
    map_of (w_accounts w') = map_of (w_accounts w) \<and> map_of (w_keys w') = map_of (w_keys w) \<and>
    w_properties w' = w_properties w \<and> wallet_master_key w' = wallet_master_key w"
  using reopen_caches [OF assms refl] by (auto simp: same_caches_def)

text \<open>
  C36 (error). An account of somebody else that is removed from the contacts is back when the wallet has been
  closed and opened again: the entry is taken out of the caches and not out of the file.
\<close>

theorem removed_contact_account_returns:
  assumes "addresses_ok E" "wallet_inv E w" "remove_contact_account E account_name w = (Returns (), w1)"
  shows "\<exists>i a w2. map_of (w_accounts w) i = Some a \<and> map_of (w_accounts w1) i = None \<and>
    reopen E w1 = (Returns (), w2) \<and> map_of (w_accounts w2) i = Some a"
proof -
  obtain e i where e: "name_to_account_index w account_name = Some i" "map_of (w_accounts w) i = Some e"
      "w1 = unindex_account E e w"
    using assms(3) wallet_invD(6) [OF assms(2)]
    by (auto simp: remove_contact_account_def lookup_account_by_name_def indexed_account_def assert_open_def or_throw_def
        assert_that_def act_defs split: option.splits if_splits)
  have i: "wallet_entry_index e = i"
    using e(2) wallet_invD(1) [OF assms(2), of i "account_entry e"] wallet_invD(2) [OF assms(2)] by simp
  have "w_entrys w1 = w_entrys w" by (simp add: e(3) unindex_account_def Let_def)
  from reopen_caches [OF assms(1,2) this] obtain w2 where "reopen E w1 = (Returns (), w2)" "same_caches w w2" by auto
  then show ?thesis
    using e(2) i by (intro exI [of _ i] exI [of _ e] exI [of _ w2]) (simp add: same_caches_def e(3) unindex_account_def Let_def)
qed


section \<open>Instances\<close>

text \<open>Addresses that tell the key; the keys of an account are numbers, and a key is encrypted in unary.\<close>

definition wallet_env :: env where
  "wallet_env = sample_env\<lparr>key_address := (\<lambda>k. 5 * k),
     pts_address := (\<lambda>k compressed version. 5 * k + 1 + (if compressed then 1 else 0) + (if version = 0 then 0 else 2))\<rparr>"

definition wallet_keys :: wallet_lib where
  "wallet_keys = \<lparr>get_public_key = (\<lambda>p. p + 1), aes_encrypt_key = (\<lambda>_ p. replicate (Suc p) CHR ''k''),
     aes_decrypt_key = (\<lambda>_ s. Inr (length s - 1)), aes_encrypt_master = (\<lambda>_ p. replicate (Suc p) CHR ''m''),
     aes_decrypt_master = (\<lambda>_ s. Inr (length s - 1)), sha512_hash = (\<lambda>pw. pw),
     master_child = (\<lambda>m i. m + i), account_child = (\<lambda>p n. p + 10 + n)\<rparr>"

lemma wallet_env_ok: "addresses_ok wallet_env"
proof -
  have "d div 5 = k" if "d \<in> set (derived_addresses wallet_env k)" for d k
    using that by (auto simp: derived_addresses_def wallet_env_def)
  then show ?thesis unfolding addresses_ok_def by blast
qed

lemma wallet_keys_ok: "cipher_ok wallet_keys"
  by (simp add: cipher_ok_def wallet_keys_def)

definition blank_wallet :: "MasterKey \<Rightarrow> WalletDb" where
  "blank_wallet m = (let e = \<lparr>wallet_entry_index = -1, entry_data = m\<rparr> in
     (new_WalletDb [(-1, master_key_entry e)])\<lparr>w_entrys_open := True, wallet_master_key := Some e\<rparr>)"

text \<open>A wallet that has been created is open, and its caches agree with its entries.\<close>

lemma created_wallet:
  assumes "encrypt_master_key K pw key = Inr m"
  shows "abind (wallet_open E []) (\<lambda>_. set_master_key E K key pw) (new_WalletDb []) = (Returns (), blank_wallet m)"
  using assms by (simp add: wallet_open_eq load_all_def set_master_key_def store_and_reload_entry_def
    store_and_reload_generic_entry_def blank_wallet_def new_WalletDb_def assert_that_def act_defs Let_def)

lemma blank_wallet_inv: "wallet_inv E (blank_wallet m)"
  by (auto simp: wallet_inv_def blank_wallet_def new_WalletDb_def wallet_is_open_def caches_ok_def keys_indexed_def
    counter_ok_def smap_ok_def Let_def)

definition bob :: AccountData where
  "bob = new_AccountData ((new_AccountEntry wallet_env)\<lparr>acc_name := ''bob'', acc_owner_key := 3,
     acc_active_key_history := [(1, 3)]\<rparr>)"

definition bob_key :: WalletKeyEntry where
  "bob_key = \<lparr>wallet_entry_index = 3, entry_data = (new_KeyData wallet_env)\<lparr>kd_account_address := 15, kd_public_key := 3,
     encrypted_private_key := ''kkk''\<rparr>\<rparr>"

text \<open>A wallet with the account of somebody else, and one where it is the user's own.\<close>

definition contact_wallet :: "bool \<Rightarrow> WalletDb" where
  "contact_wallet mine =
     write_entry wallet_env (account_entry \<lparr>wallet_entry_index = 2, entry_data = bob\<lparr>is_my_account := mine\<rparr>\<rparr>)
       (write_entry wallet_env (property_entry \<lparr>wallet_entry_index = 1,
          entry_data = \<lparr>wp_key = next_entry_number, wp_value = int_variant 4\<rparr>\<rparr>) (blank_wallet \<lparr>mk_encrypted_key = ''m'', mk_checksum = 1\<rparr>))"

definition own_wallet :: WalletDb where
  "own_wallet = write_entry wallet_env (key_entry bob_key) (contact_wallet True)"

lemma contact_wallet_inv: "wallet_inv wallet_env (contact_wallet mine)"
proof -
  let ?b = "blank_wallet \<lparr>mk_encrypted_key = ''m'', mk_checksum = 1\<rparr>"
  have c: "wallet_inv wallet_env (write_entry wallet_env (property_entry \<lparr>wallet_entry_index = 1,
      entry_data = \<lparr>wp_key = next_entry_number, wp_value = int_variant 4\<rparr>\<rparr>) ?b)"
    by (rule write_counter_inv [OF blank_wallet_inv refl]) (auto simp: blank_wallet_def new_WalletDb_def Let_def split: if_splits)
  show ?thesis
    unfolding contact_wallet_def
    by (rule write_account_inv [OF c])
      (simp add: account_slot_def fresh_number_def below_counter_def blank_wallet_def new_WalletDb_def Let_def)
qed

lemma own_wallet_inv: "wallet_inv wallet_env own_wallet"
  unfolding own_wallet_def
proof (rule write_key_inv [OF wallet_env_ok contact_wallet_inv])
  show "key_slot (contact_wallet True) (wallet_entry_index bob_key) (key_of bob_key)"
    unfolding key_slot_def fresh_number_def below_counter_def
    by (intro disjI1) (auto simp: contact_wallet_def bob_key_def blank_wallet_def new_WalletDb_def Let_def split: if_splits)
qed


lemmas wallet_run = contact_wallet_def own_wallet_def bob_key_def bob_def blank_wallet_def new_WalletDb_def new_AccountData_def
  new_AccountEntry_def new_KeyData_def wallet_env_def wallet_keys_def sample_env_def write_entry_def
  load_account_entry_def load_key_entry_def history_keys_def derived_addresses_def Let_def act_defs

lemmas wallet_calls = store_account_def four store_account_at.simps store_key_def store_key_at.simps assert_open_def assert_that_def
  wallet_is_open_def lookup_key_def lookup_account_by_address_def lookup_account_by_name_def indexed_account_def key_at_def
  store_and_reload_entry_def store_and_reload_generic_entry_def new_wallet_entry_index_def next_number_def old_record_number_def get_property_def
  set_property_numbered_def has_private_key_def account_keys_def owner_address_def wallet_owner_address_def or_throw_def

lemma bob_is_stored: "\<exists>w'. store_account wallet_env wallet_keys bob 0 (blank_wallet \<lparr>mk_encrypted_key = ''m'', mk_checksum = 1\<rparr>) = (Returns (), w')"
  by (simp add: wallet_calls wallet_run)

theorem removed_contact_account_returns_witness:
  "\<exists>i a w1 w2. remove_contact_account wallet_env ''bob'' (contact_wallet False) = (Returns (), w1) \<and>
    map_of (w_accounts w1) i = None \<and> reopen wallet_env w1 = (Returns (), w2) \<and> map_of (w_accounts w2) i = Some a"
proof -
  have "\<exists>w1. remove_contact_account wallet_env ''bob'' (contact_wallet False) = (Returns (), w1)"
    by (simp add: remove_contact_account_def wallet_calls wallet_run)
  then obtain w1 where w1: "remove_contact_account wallet_env ''bob'' (contact_wallet False) = (Returns (), w1)" by blast
  from removed_contact_account_returns [OF wallet_env_ok contact_wallet_inv w1] w1 show ?thesis by blast
qed

theorem wallet_survives_restart_witness:
  "\<exists>w'. reopen wallet_env own_wallet = (Returns (), w') \<and> map_of (w_keys w') 15 = Some bob_key"
proof -
  have "map_of (w_keys own_wallet) 15 = Some bob_key" by (simp add: wallet_run)
  then show ?thesis using wallet_survives_restart [OF wallet_env_ok own_wallet_inv] by auto
qed

lemma bob_generates: "\<exists>w'. generate_new_account_child_key wallet_env wallet_keys 1 ''bob'' own_wallet = (Returns 13, w')"
  by (simp add: generate_new_account_child_key_def wallet_calls wallet_run is_retracted_def active_key_def active_address_def
    next_unused.simps owns_key_def decrypt_private_key_def encrypt_private_key_def)

theorem store_account_keeps_wallet_witness:
  "\<exists>w' e. store_account wallet_env wallet_keys bob 0 (blank_wallet \<lparr>mk_encrypted_key = ''m'', mk_checksum = 1\<rparr>) = (Returns (), w') \<and>
    wallet_inv wallet_env w' \<and> lookup_account_by_name ''bob'' w' = (Returns (Some e), w')"
proof -
  let ?w = "blank_wallet \<lparr>mk_encrypted_key = ''m'', mk_checksum = 1\<rparr>"
  obtain w' where w': "store_account wallet_env wallet_keys bob 0 ?w = (Returns (), w')"
    using bob_is_stored by blast
  have name: "acc_name (ad_account bob) = ''bob''" by (simp add: bob_def new_AccountData_def)
  have "wallet_inv wallet_env w' \<and> (\<exists>e. lookup_account_by_name ''bob'' w' = (Returns (Some e), w'))"
    using store_account_keeps_wallet [OF wallet_env_ok blank_wallet_inv [of wallet_env "\<lparr>mk_encrypted_key = ''m'', mk_checksum = 1\<rparr>"],
      where K = wallet_keys and account = bob and pw = 0] unfolding w' name by auto
  then show ?thesis using w' by blast
qed

theorem generated_key_is_kept_witness:
  "\<exists>w' e. generate_new_account_child_key wallet_env wallet_keys 1 ''bob'' own_wallet = (Returns 13, w') \<and>
    lookup_key 70 w' = (Returns (Some e), w') \<and> decrypt_private_key wallet_keys 1 (entry_data e) = Inr 13"
proof -
  obtain w' where w': "generate_new_account_child_key wallet_env wallet_keys 1 ''bob'' own_wallet = (Returns 13, w')"
    using bob_generates by blast
  moreover have "key_address wallet_env (get_public_key wallet_keys 13) = 70" by (simp add: wallet_env_def wallet_keys_def)
  ultimately show ?thesis
    using generated_key_is_kept [OF wallet_env_ok own_wallet_inv wallet_keys_ok, of 1 "''bob''"] by auto
qed
end
