(* ===== verification/Spec2Isabelle.thy ===== *)
theory Spec2Isabelle
  imports Pending_State Conservation Chain_Node Delegates Block_Ledger Node_Laws Supply Pool_Laws
    Names Asset_Text Authority Fork_Runs Glua_Session Map_Laws Chain_Sync Addresses Tx_Creation
    Wallet_Restart
begin

text \<open>
  A verification of the core of Achain, a delegated proof-of-stake block chain in C++. All source
  paths are relative to \<open>src/src/Chain/libraries/\<close>.

  \<^bold>\<open>The program.\<close> A node keeps the ledger in a \<open>ChainDatabase\<close>: level-db maps from ids to entries
  (accounts, assets, balances, slates, contracts, transactions, slots, properties) with secondary
  indexes. A change is first made in a \<open>PendingChainState\<close>, an overlay of entries and removal
  sets over another state, which is committed by \<open>apply_changes\<close> and undone by the overlay that
  \<open>get_undo_state\<close> computes before. A transaction is a list of operations that a
  \<open>TransactionEvaluationState\<close> runs on an overlay, with a balance of its own that must come out as
  the fee. A block is verified and its transactions applied by \<open>extend_chain\<close>; blocks that arrive
  are kept in a tree of forks, and \<open>push_block\<close> switches to the longest valid fork by popping and
  applying blocks. Delegates, ranked by the votes of the balances, take turns in slots. Pending
  transactions wait in a pool, from which \<open>generate_block\<close> makes the next block. A node that misses
  blocks sends a synopsis of its chain to a peer, which answers with the ids of the blocks that
  follow. The keys and accounts of a user are in a wallet, a level-db map of numbered entries with
  caches over them.

  \<^bold>\<open>The theories\<close>, from the bottom up:

  \<^item> \<open>Prelude\<close>: the error monad (\<open>ebind\<close>, \<open>ensure\<close>, \<open>require\<close>, \<open>efold\<close>), ordered maps as sorted
    association lists (\<open>smap_set\<close>, \<open>smap_del\<close>), 64-bit wrap-around (\<open>wrap64\<close>, \<open>w64\<close>), and the
    collection \<open>eval_simps\<close> that evaluates concrete runs.
  \<^item> \<open>Chain_Base\<close>: exceptions, constants of \<open>Config.hpp\<close>, \<open>fc::safe\<close> arithmetic. \<open>Asset\<close>:
    \<open>Asset.cpp\<close>. \<open>Chain_Types\<close>: the structs of conditions, entries, operations and transactions.
    \<open>Entries\<close>: member functions of \<open>AccountEntry.cpp\<close>, \<open>AssetEntry.cpp\<close>, \<open>BalanceEntry.cpp\<close>,
    \<open>SlateEntry.cpp\<close>. \<open>Names\<close>: the name and symbol checks of \<open>ChainInterface.cpp\<close>.
    \<open>Asset_Text\<close>: amounts as text, printed and read.
  \<^item> \<open>Chain_State\<close>: the record \<open>database\<close> (\<open>ChainDatabaseImpl\<close>), the record \<open>PendingChainState\<close>
    and the type \<open>chain\<close> of an overlay stack, with the lookups, inserts and erases of both
    implementations of \<open>ChainInterface\<close>. \<open>Entry_Store\<close>: \<open>store\<close> and \<open>remove\<close> of every entry type.
    \<open>Chain_View\<close>: what can be looked up by primary key, as the abstract state; the locale of an
    entry map is interpreted for each entry type. \<open>Pending_State\<close>: \<open>apply_changes\<close> and
    \<open>get_undo_state\<close> with their refinement of the view.
  \<^item> \<open>Transactions\<close>: \<open>Transaction.cpp\<close>. \<open>Chain_Interface\<close>: \<open>ChainInterface.cpp\<close>. \<open>Eval_State\<close>,
    \<open>Balance_Ops\<close>, \<open>Asset_Ops\<close>, \<open>Account_Ops\<close>, \<open>Contract_Ops\<close>, \<open>Evaluate\<close>:
    \<open>TransactionEvaluationState.cpp\<close> and the \<open>evaluate\<close> of every operation of the \<open>*Operations.cpp\<close>
    files, in the order the operation factory dispatches them.
  \<^item> \<open>Ledger\<close>, \<open>Conservation\<close>, \<open>Block_Ledger\<close>: for every asset the balances, the unpaid pay of the
    delegates and the collected fees, less the recorded supply, stay the same through every
    operation, transaction and block. \<open>Authority\<close>: who may withdraw and issue.
  \<^item> \<open>Blocks\<close>: \<open>Block.cpp\<close> and the part of \<open>extend_chain\<close> that works on the overlay of the block:
    header checks, production statistics, transactions, pay, the next round. \<open>Delegates\<close>: the
    vote ranking, the shuffle, the slots, the header checks, the pay.
  \<^item> \<open>Actions\<close>: functions that write before they throw, as state actions with an outcome.
    \<open>Fork_Db\<close>: the block tree and the three walks over it. \<open>Fork_Laws\<close>: the walks end and mark
    exactly the descendants (locale \<open>tree_marker\<close>, interpreted for the three of them), and the
    tree stays a tree.
  \<^item> \<open>Chain_Node\<close>: \<open>extend_chain\<close>, \<open>pop_block\<close>, \<open>repair_database\<close>, \<open>switch_to_fork\<close>, \<open>push_block\<close> on the
    record \<open>node\<close>. \<open>Node_Laws\<close>: an accepted block conserves every asset, a rejected one leaves no
    trace in the ledger, \<open>pop_block\<close> undoes \<open>extend_chain\<close>. \<open>Fork_Switch\<close>, \<open>Fork_Runs\<close>: an invariant of
    the tree and the head that every operation keeps in whatever way it ends, the loops of
    \<open>switch_to_fork\<close> and \<open>push_block\<close> end, and what holds in every run from the genesis state.
  \<^item> \<open>Genesis\<close>: \<open>initialize_genesis\<close> and \<open>calculate_supply\<close>. \<open>Supply\<close>: the audit of every asset
    agrees with its recorded supply after any run from the genesis state.
  \<^item> \<open>Pending_Pool\<close>: the pool of pending transactions and \<open>generate_block\<close>. \<open>Pool_Laws\<close>: the index
    by fee, the limits of a block, and that the header of a generated block is acceptable.
  \<^item> \<open>Glua_Storage\<close>: the values of the virtual machine and their conversion to and from the chain
    (\<open>StorageTypes.cpp\<close>, \<open>glua/thinkyoung_lua_api.h\<close>), the difference of two tables, and that the
    storage operation applied to a committed difference stores what the contract left.
    \<open>Glua_Session\<close>: \<open>set_storage\<close>, \<open>get_storage\<close> and the commit of \<open>glua/lthinkyounglib.cpp\<close>.
  \<^item> \<open>Level_Map\<close>, \<open>Stored_Maps\<close>: the maps the database is made of: \<open>LevelMap.hpp\<close> with its
    iterators and batches, \<open>FastLevelMap.hpp\<close> and \<open>CachedLevelMap.hpp\<close>, over level-db. \<open>Map_Laws\<close>: both
    caches implement one interface (locale \<open>durable_map\<close>, interpreted for each of them): they read as
    the entries with the updates made, and what they have saved survives a restart; what is left
    when level-db fails.
  \<^item> \<open>Chain_Queries\<close>: blocks by number and the search by time, with its steps in \<open>double\<close> and their
    rounding. \<open>Chain_Sync\<close>: the synopsis of a chain and the answer of a peer
    (\<open>client/Client.cpp\<close>), and that they agree on the missing blocks.
  \<^item> \<open>Addresses\<close>: addresses and keys as text (\<open>Address.cpp\<close>, \<open>PtsAddress.cpp\<close>, \<open>Types.cpp\<close>,
    \<open>utilities/KeyConversion.cpp\<close>). \<open>Tx_Creation\<close>: a transaction built up together with its
    evaluation (\<open>TransactionCreationState.cpp\<close>), whose withdrawals take the requested amount.
  \<^item> \<open>Wallet_Db\<close>, \<open>Wallet_Accounts\<close>: the database of a wallet (\<open>wallet/WalletDb.cpp\<close>,
    \<open>wallet/WalletEntrys.cpp\<close>) as the record \<open>WalletDb\<close> of its entries and caches, with the operations on
    accounts, keys, contacts, transactions, settings and the password. \<open>Wallet_Laws\<close>: weakest
    preconditions of actions (\<open>awp\<close>), the invariant \<open>wallet_inv\<close> that the caches agree with the entries,
    and that \<open>store_key\<close> and \<open>store_account\<close>, which call each other, end, keep it and lose no private key.
    \<open>Wallet_Restart\<close>: generated keys are new and kept; every cache is the contents of the entries
    (locale \<open>wallet_cache\<close>, interpreted for each of them), so that a wallet survives a restart.
  \<^item> \<open>Sample_State\<close>, \<open>Samples\<close>, \<open>Sample_Node\<close>: a concrete node, transactions and blocks, on which
    the hypotheses of the properties are shown to hold.

  \<^bold>\<open>Conventions.\<close> \<open>ShareType\<close> is \<open>int64_t\<close>: amounts are integers with \<open>wrap64\<close> written where the
  code adds without a check. Unsigned 32-bit numbers are \<open>nat\<close> with \<open>mod 2 ^ 32\<close> where they can
  wrap; flags are words. A throw is \<open>Inl\<close> with the code of the exception. Hashes, keys, signatures,
  the packing of data and the clock are functions of other libraries and the fields of the
  records \<open>env\<close> and \<open>block_lib\<close>; the virtual machine of contracts is the function \<open>vm\<close>, which maps an
  evaluation state to the state its callbacks leave behind. Level-db is the record \<open>leveldb\<close> with
  the hypothesis \<open>leveldb_ok\<close> (a write takes effect or reports an error, a batch as a whole), the
  packing of keys and values the record \<open>packing\<close> with \<open>packing_ok\<close> (what is packed is unpacked), base58
  and the hashes of addresses the record \<open>key_lib\<close> with \<open>key_lib_ok\<close>. The keys and ciphers of a wallet are
  the record \<open>wallet_lib\<close>, with the hypotheses \<open>cipher_ok\<close> (a ciphertext is not empty) and \<open>addresses_ok\<close>
  (no two keys share an address). An unordered map that is iterated is kept in the order of its
  keys. \<open>Chain_State\<close> takes the
  maps of the database as what they read as, which \<open>Map_Laws\<close> justifies.

  \<^bold>\<open>Loops.\<close> The recursion over operations and nested transactions ends by the size of the
  transaction. The walks over the block tree are bounded by the number of its blocks plus one,
  and \<open>Fork_Laws\<close> proves that this is enough when the tree has no cycle; the outcome \<open>Diverges\<close>
  stands for a loop that never ends. \<open>get_fork_history\<close> and the popping loop of \<open>switch_to_fork\<close>
  have the same bound. The search of \<open>find_block_num\<close> is bounded by the number of blocks, and the
  loop of \<open>get_blockchain_synopsis\<close> by the number of the highest block plus two; that they never
  reach the bound is part of the properties of these functions. The calls of \<open>store_key\<close> and \<open>store_account\<close>
  are nested at most four deep, which is proved with what they do; the search for an unused key ends
  with its 32-bit counter. The digit loop of \<open>asset_from_string\<close>, which may run forever, is a partial
  function into \<open>option\<close>.

  \<^bold>\<open>Not modelled.\<close> Level-db itself and the JSON and binary encodings; the wallet but for its database, the command
  line, the RPC server, the network layer and the client but for the synopsis of the chain, which
  are event loops, files and user interface around the parts above; the Lua virtual machine, its
  compiler and its libraries but for the storage of contracts, which appear as the parameter \<open>vm\<close>;
  elliptic curves, encrypted memos and extended addresses; the threads of the signature check
  of a block, whose verdict is computed in sequence; observers and logs; opening, replaying,
  statistics and export functions of \<open>ChainDatabase.cpp\<close>. An exception in the middle of
  \<open>apply_changes\<close> is the one place where the partial writes are not followed.
\<close>

end
